(* ===== verification/Prelude.thy ===== *)
theory Prelude
  imports Main "HOL-Library.Sublist" "HOL-Library.AList" "HOL-Library.Word"
begin

text \<open>
  Shared vocabulary of the development: the proof collections, the Go string operations
  the program uses (a Go string is a sequence of bytes, so it is a HOL \<open>string\<close> and \<open>len\<close>
  is \<open>length\<close>), 64-bit wrap-around, and the generic lemmas on lists, tables and options that
  the components share.
\<close>

named_theorems tx_simps "equations that evaluate one database statement or monadic step"
named_theorems tx_keeps "rules that push a state property through a monadic program"
named_theorems row_simps "equations for table rows and their updates"

section \<open>Machine integers\<close>

text \<open>Go's \<open>int64\<close> (also \<open>time.Duration\<close>): arithmetic wraps to two's complement.\<close>

definition wrap64 :: "int \<Rightarrow> int" where
  "wrap64 x = (x + 2 ^ 63) mod 2 ^ 64 - 2 ^ 63"

definition in_int64 :: "int \<Rightarrow> bool" where
  "in_int64 x \<longleftrightarrow> - (2 ^ 63) \<le> x \<and> x < 2 ^ 63"

lemma wrap64_id [simp]: "in_int64 x \<Longrightarrow> wrap64 x = x"
  by (simp add: wrap64_def in_int64_def)

lemma wrap64_range: "in_int64 (wrap64 x)"
proof -
  have "0 \<le> (x + 2 ^ 63) mod (2 ^ 64 :: int)" "(x + 2 ^ 63) mod (2 ^ 64 :: int) < 2 ^ 64"
    by simp_all
  then show ?thesis by (simp add: wrap64_def in_int64_def)
qed

lemma wrap64_signed_word: "wrap64 x = sint (word_of_int x :: 64 word)"
proof -
  have "sint (word_of_int x :: 64 word) = signed_take_bit 63 x"
    by (simp add: sint_sbintrunc')
  also have "\<dots> = (x + 2 ^ 63) mod 2 ^ 64 - 2 ^ 63"
    by (simp add: signed_take_bit_eq_take_bit_shift take_bit_eq_mod)
  finally show ?thesis by (simp add: wrap64_def)
qed

section \<open>Go strings\<close>

definition is_ascii :: "char \<Rightarrow> bool" where
  "is_ascii c \<longleftrightarrow> of_char c < (128 :: nat)"

definition ascii_lower :: "char \<Rightarrow> char" where
  "ascii_lower c =
     (if 65 \<le> (of_char c :: nat) \<and> (of_char c :: nat) \<le> 90 then char_of ((of_char c :: nat) + 32) else c)"

definition ascii_letter :: "char \<Rightarrow> bool" where
  "ascii_letter c \<longleftrightarrow>
     (97 \<le> (of_char c :: nat) \<and> (of_char c :: nat) \<le> 122) \<or> (65 \<le> (of_char c :: nat) \<and> (of_char c :: nat) \<le> 90)"

definition ascii_digit :: "char \<Rightarrow> bool" where
  "ascii_digit c \<longleftrightarrow> 48 \<le> (of_char c :: nat) \<and> (of_char c :: nat) \<le> 57"

text \<open>
  \<open>strings.EqualFold\<close>, used by the program against the constants \<open>http\<close>, \<open>https\<close> and
  \<open>form\<close> only, on URL schemes and tag names.
\<close>

definition equal_fold :: "string \<Rightarrow> string \<Rightarrow> bool" where
  "equal_fold a b \<longleftrightarrow> map ascii_lower a = map ascii_lower b"

text \<open>
  The UTF-8 encodings of the white space \<open>unicode.IsSpace\<close> accepts: six ASCII characters,
  U+0085, U+00A0, U+1680, U+2000 to U+200A, U+2028, U+2029, U+202F, U+205F and U+3000.
\<close>

definition space_runes :: "string list" where
  "space_runes =
    [[CHR 0x09],
     [CHR 0x0A],
     [CHR 0x0B],
     [CHR 0x0C],
     [CHR 0x0D],
     [CHR 0x20],
     [CHR 0xC2, CHR 0x85],
     [CHR 0xC2, CHR 0xA0],
     [CHR 0xE1, CHR 0x9A, CHR 0x80],
     [CHR 0xE2, CHR 0x80, CHR 0x80],
     [CHR 0xE2, CHR 0x80, CHR 0x81],
     [CHR 0xE2, CHR 0x80, CHR 0x82],
     [CHR 0xE2, CHR 0x80, CHR 0x83],
     [CHR 0xE2, CHR 0x80, CHR 0x84],
     [CHR 0xE2, CHR 0x80, CHR 0x85],
     [CHR 0xE2, CHR 0x80, CHR 0x86],
     [CHR 0xE2, CHR 0x80, CHR 0x87],
     [CHR 0xE2, CHR 0x80, CHR 0x88],
     [CHR 0xE2, CHR 0x80, CHR 0x89],
     [CHR 0xE2, CHR 0x80, CHR 0x8A],
     [CHR 0xE2, CHR 0x80, CHR 0xA8],
     [CHR 0xE2, CHR 0x80, CHR 0xA9],
     [CHR 0xE2, CHR 0x80, CHR 0xAF],
     [CHR 0xE2, CHR 0x81, CHR 0x9F],
     [CHR 0xE3, CHR 0x80, CHR 0x80]]"

text \<open>Drop leading pieces from a list of pieces, as long as one of them is a prefix.\<close>

function trim_pieces :: "string list \<Rightarrow> string \<Rightarrow> string" where
  "trim_pieces ps s =
     (case find (\<lambda>p. p \<noteq> [] \<and> prefix p s) ps of
        None \<Rightarrow> s
      | Some p \<Rightarrow> trim_pieces ps (drop (length p) s))"
  by pat_completeness auto
termination
proof (relation "measure (\<lambda>(ps, s). length s)")
  show "wf (measure (\<lambda>(ps :: string list, s :: string). length s))" by simp
next
  fix ps :: "string list" and s p
  assume "find (\<lambda>p. p \<noteq> [] \<and> prefix p s) ps = Some p"
  then have "p \<noteq> []" "prefix p s" by (auto simp: find_Some_iff)
  then have "0 < length p" "length p \<le> length s" by (auto dest: prefix_length_le)
  then show "((ps, drop (length p) s), (ps, s)) \<in> measure (\<lambda>(ps, s). length s)"
    by (simp del: length_greater_0_conv)
qed

declare trim_pieces.simps [simp del]

lemma find_False [simp]: "find (\<lambda>_. False) xs = None"
  by (induction xs) auto

text \<open>The same equation, by cases on the text, so that evaluation unfolds it only as far as the text goes.\<close>

lemma trim_pieces_code [code]:
  "trim_pieces ps [] = []"
  "trim_pieces ps (c # cs) =
     (case find (\<lambda>p. p \<noteq> [] \<and> prefix p (c # cs)) ps of
        None \<Rightarrow> c # cs
      | Some p \<Rightarrow> trim_pieces ps (drop (length p - 1) cs))"
proof -
  show "trim_pieces ps [] = []" by (simp add: trim_pieces.simps [of ps "[]"])
  have "length p \<noteq> 0" if "find (\<lambda>p. p \<noteq> [] \<and> prefix p (c # cs)) ps = Some p" for p
    using that by (auto simp: find_Some_iff)
  then show "trim_pieces ps (c # cs) =
     (case find (\<lambda>p. p \<noteq> [] \<and> prefix p (c # cs)) ps of
        None \<Rightarrow> c # cs
      | Some p \<Rightarrow> trim_pieces ps (drop (length p - 1) cs))"
    by (subst trim_pieces.simps) (auto simp: drop_Cons' split: option.split)
qed

definition trim_left_space :: "string \<Rightarrow> string" where
  "trim_left_space s = trim_pieces space_runes s"

definition trim_right_space :: "string \<Rightarrow> string" where
  "trim_right_space s = rev (trim_pieces (map rev space_runes) (rev s))"

text \<open>\<open>strings.TrimSpace\<close>\<close>

definition trim_space :: "string \<Rightarrow> string" where
  "trim_space s = trim_right_space (trim_left_space s)"

lemma trim_pieces_suffix: "suffix (trim_pieces ps s) s"
proof (induction ps s rule: trim_pieces.induct)
  case (1 ps s)
  show ?case
  proof (cases "find (\<lambda>p. p \<noteq> [] \<and> prefix p s) ps")
    case None
    then show ?thesis by (simp add: trim_pieces.simps [of ps s])
  next
    case (Some p)
    have "suffix (trim_pieces ps (drop (length p) s)) (drop (length p) s)"
      using "1.IH" [OF Some] .
    then have "suffix (trim_pieces ps (drop (length p) s)) s"
      using suffix_drop suffix_order.trans by blast
    with Some show ?thesis by (simp add: trim_pieces.simps [of ps s])
  qed
qed

lemma trim_pieces_none: "find (\<lambda>p. p \<noteq> [] \<and> prefix p (trim_pieces ps s)) ps = None"
proof (induction ps s rule: trim_pieces.induct)
  case (1 ps s)
  show ?case
    by (cases "find (\<lambda>p. p \<noteq> [] \<and> prefix p s) ps")
      (simp_all add: trim_pieces.simps [of ps s] "1.IH")
qed

lemma trim_pieces_id: "find (\<lambda>p. p \<noteq> [] \<and> prefix p s) ps = None \<Longrightarrow> trim_pieces ps s = s"
  by (simp add: trim_pieces.simps [of ps s])

lemma trim_pieces_idem [simp]: "trim_pieces ps (trim_pieces ps s) = trim_pieces ps s"
  by (rule trim_pieces_id) (rule trim_pieces_none)

lemma trim_space_prefix: "prefix (trim_space s) (trim_left_space s)"
  using trim_pieces_suffix [of "map rev space_runes" "rev (trim_left_space s)"]
  by (simp add: trim_space_def trim_right_space_def suffix_to_prefix)

lemma trim_space_idem [simp]: "trim_space (trim_space s) = trim_space s"
proof -
  have "find (\<lambda>p. p \<noteq> [] \<and> prefix p (trim_left_space s)) space_runes = None"
    unfolding trim_left_space_def by (rule trim_pieces_none)
  then have "find (\<lambda>p. p \<noteq> [] \<and> prefix p (trim_space s)) space_runes = None"
    using trim_space_prefix [of s] prefix_order.trans by (force simp: find_None_iff)
  then have "trim_left_space (trim_space s) = trim_space s"
    unfolding trim_left_space_def by (rule trim_pieces_id)
  moreover have "trim_right_space (trim_space s) = trim_space s"
    by (simp add: trim_space_def trim_right_space_def)
  ultimately show ?thesis by (simp add: trim_space_def)
qed

lemma trim_space_Nil [simp]: "trim_space [] = []"
  using trim_space_prefix [of "[]"] trim_pieces_suffix [of space_runes "[]"]
  by (simp add: trim_left_space_def)

text \<open>\<open>strings.Split(s, sep)\<close> for a one-byte separator: never the empty list.\<close>

fun split_on :: "char \<Rightarrow> string \<Rightarrow> string list" where
  "split_on c [] = [[]]"
| "split_on c (x # xs) =
     (if x = c then [] # split_on c xs
      else (case split_on c xs of [] \<Rightarrow> [[x]] | y # ys \<Rightarrow> (x # y) # ys))"

text \<open>\<open>strings.Join\<close>\<close>

fun join :: "string \<Rightarrow> string list \<Rightarrow> string" where
  "join sep [] = []"
| "join sep [x] = x"
| "join sep (x # y # ys) = x @ sep @ join sep (y # ys)"

text \<open>\<open>strings.FieldsFunc\<close> over a one-byte predicate: maximal runs of the other bytes.\<close>

fun fields_func :: "(char \<Rightarrow> bool) \<Rightarrow> string \<Rightarrow> string list" where
  "fields_func p [] = []"
| "fields_func p [x] = (if p x then [] else [[x]])"
| "fields_func p (x # y # s) =
     (if p x then fields_func p (y # s)
      else if p y then [x] # fields_func p s
      else (case fields_func p (y # s) of [] \<Rightarrow> [[x]] | f # fs \<Rightarrow> (x # f) # fs))"

text \<open>\<open>strings.Contains\<close>\<close>

fun str_contains :: "string \<Rightarrow> string \<Rightarrow> bool" where
  "str_contains sub [] \<longleftrightarrow> sub = []"
| "str_contains sub (x # xs) \<longleftrightarrow> prefix sub (x # xs) \<or> str_contains sub xs"

definition trim_prefix :: "string \<Rightarrow> string \<Rightarrow> string" where
  "trim_prefix p s = (if prefix p s then drop (length p) s else s)"

definition trim_suffix :: "string \<Rightarrow> string \<Rightarrow> string" where
  "trim_suffix p s = (if suffix p s then take (length s - length p) s else s)"

text \<open>\<open>strings.ReplaceAll(s, c, r)\<close> for a one-byte pattern.\<close>

definition replace_char :: "char \<Rightarrow> string \<Rightarrow> string \<Rightarrow> string" where
  "replace_char c r s = concat (map (\<lambda>x. if x = c then r else [x]) s)"

text \<open>\<open>strconv.Itoa\<close> and \<open>%d\<close> on a natural number.\<close>

fun dec_digits :: "nat \<Rightarrow> string" where
  "dec_digits n = (if n < 10 then [char_of (48 + n)] else dec_digits (n div 10) @ [char_of (48 + n mod 10)])"

declare dec_digits.simps [simp del]

definition hex_digit :: "nat \<Rightarrow> char" where
  "hex_digit n = (if n < 10 then char_of (48 + n) else char_of (87 + n))"

text \<open>\<open>hex.EncodeToString\<close>: two lower-case digits per byte.\<close>

definition hex_encode :: "nat list \<Rightarrow> string" where
  "hex_encode bs = concat (map (\<lambda>b. [hex_digit (b mod 256 div 16), hex_digit (b mod 16)]) bs)"

lemma split_on_ne [simp]: "split_on c s \<noteq> []"
  by (cases s) (auto split: list.splits)

lemma split_on_no_sep: "c \<notin> set s \<Longrightarrow> split_on c s = [s]"
  by (induction s) auto

lemma split_on_pieces: "p \<in> set (split_on c s) \<Longrightarrow> c \<notin> set p"
proof (induction s arbitrary: p)
  case Nil
  then show ?case by simp
next
  case (Cons x xs)
  then show ?case by (cases "split_on c xs") (auto split: if_splits)
qed

lemma split_on_join: "join [c] (split_on c s) = s"
proof (induction s)
  case Nil
  then show ?case by simp
next
  case (Cons x xs)
  then show ?case
    by (cases "split_on c xs"; cases "tl (split_on c xs)") (auto split: list.splits)
qed

lemma split_on_append: "c \<notin> set a \<Longrightarrow> split_on c (a @ c # b) = a # split_on c b"
  by (induction a) auto

lemma length_hex_encode [simp]: "length (hex_encode bs) = 2 * length bs"
  by (induction bs) (simp_all add: hex_encode_def)

lemma equal_fold_refl [simp]: "equal_fold a a"
  by (simp add: equal_fold_def)

section \<open>Results\<close>

text \<open>Sequencing of fallible pure computations: the first error wins.\<close>

definition rbind :: "'e + 'a \<Rightarrow> ('a \<Rightarrow> 'e + 'b) \<Rightarrow> 'e + 'b" where
  "rbind r f = (case r of Inl e \<Rightarrow> Inl e | Inr x \<Rightarrow> f x)"

lemma rbind_simps [simp]:
  "rbind (Inl e) f = Inl e"
  "rbind (Inr x) f = f x"
  by (simp_all add: rbind_def)

lemma rbind_Inr_iff: "rbind r f = Inr y \<longleftrightarrow> (\<exists>x. r = Inr x \<and> f x = Inr y)"
  by (cases r) auto

lemma rbind_Inl_iff: "rbind r f = Inl e \<longleftrightarrow> r = Inl e \<or> (\<exists>x. r = Inr x \<and> f x = Inl e)"
  by (cases r) auto

definition is_ok :: "'e + 'a \<Rightarrow> bool" where
  "is_ok r \<longleftrightarrow> (case r of Inl _ \<Rightarrow> False | Inr _ \<Rightarrow> True)"

lemma is_ok_simps [simp]: "is_ok (Inr x)" "\<not> is_ok (Inl e)"
  by (simp_all add: is_ok_def)

section \<open>Tables\<close>

text \<open>
  A database table is the list of its rows in insertion order. \<open>update_where\<close> and
  \<open>delete_where\<close> are \<open>UPDATE\<close> and \<open>DELETE\<close> with a condition, \<open>count_where\<close> the number of
  rows the condition selects (\<open>RowsAffected\<close> of either).
\<close>

definition update_where :: "('r \<Rightarrow> bool) \<Rightarrow> ('r \<Rightarrow> 'r) \<Rightarrow> 'r list \<Rightarrow> 'r list" where
  "update_where p f rows = map (\<lambda>r. if p r then f r else r) rows"

definition delete_where :: "('r \<Rightarrow> bool) \<Rightarrow> 'r list \<Rightarrow> 'r list" where
  "delete_where p rows = filter (\<lambda>r. \<not> p r) rows"

definition count_where :: "('r \<Rightarrow> bool) \<Rightarrow> 'r list \<Rightarrow> nat" where
  "count_where p rows = length (filter p rows)"

lemma set_delete_where [simp]: "set (delete_where p rows) = {r \<in> set rows. \<not> p r}"
  by (auto simp: delete_where_def)

lemma set_update_where: "set (update_where p f rows) = (\<lambda>r. if p r then f r else r) ` set rows"
  by (simp add: update_where_def)

lemma length_update_where [simp]: "length (update_where p f rows) = length rows"
  by (simp add: update_where_def)

lemma count_where_0: "count_where p rows = 0 \<longleftrightarrow> (\<forall>r\<in>set rows. \<not> p r)"
  by (simp add: count_where_def filter_empty_conv)

lemma update_where_none: "count_where p rows = 0 \<Longrightarrow> update_where p f rows = rows"
  by (simp add: count_where_0 update_where_def map_idI)

lemma map_update_where:
  "(\<And>r. p r \<Longrightarrow> g (f r) = g r) \<Longrightarrow> map g (update_where p f rows) = map g rows"
  by (simp add: update_where_def)

lemma distinct_map_delete_where:
  "distinct (map g rows) \<Longrightarrow> distinct (map g (delete_where p rows))"
  by (simp add: delete_where_def distinct_map_filter)

lemma find_by_key_unique:
  assumes "distinct (map g rows)" "r \<in> set rows"
  shows "find (\<lambda>x. g x = g r) rows = Some r"
  using assms
proof (induction rows)
  case Nil
  then show ?case by simp
next
  case (Cons a rows)
  then show ?case by (cases "a = r") (auto simp: rev_image_eqI)
qed

lemma count_where_key_unique:
  assumes "distinct (map g rows)" "r \<in> set rows"
  shows "count_where (\<lambda>x. g x = g r) rows = 1"
  using assms
proof (induction rows)
  case Nil
  then show ?case by simp
next
  case (Cons a rows)
  show ?case
  proof (cases "a = r")
    case True
    with Cons.prems have "filter (\<lambda>x. g x = g r) rows = []"
      by (auto simp: filter_empty_conv rev_image_eqI)
    with True show ?thesis by (simp add: count_where_def)
  next
    case False
    with Cons.prems have "g a \<noteq> g r" by (auto simp: rev_image_eqI)
    with Cons False show ?thesis by (simp add: count_where_def)
  qed
qed

end
