(* ===== verification/Go_Errors.thy ===== *)
theory Go_Errors
  imports Prelude
begin

text \<open>
  Errors as values. A Go error is a tree: a leaf (a sentinel variable, a plain message, a
  \<open>ValidationError\<close> or an error of the SQLite driver), a \<open>%w\<close> wrapping, or an
  \<open>errors.Join\<close>. \<open>errors.Is\<close> and \<open>errors.As\<close> search the tree depth first. The second half is
  the package \<open>internal/pkg/sqliteerr\<close>, which classifies driver errors.
\<close>

section \<open>The error tree\<close>

datatype sentinel =
    ErrRecordNotFound | ErrDuplicatedKey
  | ErrEmptySubmission | ErrUploadStorageQuotaExceeded
  | ErrRedirectNotAllowed | ErrInvalidRedirect | ErrOriginsRequired
  | ErrDeliveryClaimLost
  | ErrInvalidCredentials | ErrUserNotFound | ErrWeakPassword | ErrPasswordMismatch
  | ErrPasswordUnchanged | ErrMissingFields | ErrDuplicateEmail | ErrInvalidEmail
  | ErrProfileInUse | ErrTurnstileUnavailable
  | ErrTooManyFields | ErrPayloadTooLarge | ErrCaptchaFailed
  | ErrNotExist | ErrContextCanceled | ErrDeadlineExceeded

datatype sqlite_code = CodeBusy | CodeLocked | CodeConstraint | CodeOther

datatype sqlite_ext = ExtUnique | ExtPrimaryKey | ExtForeignKey | ExtOther

datatype err =
    Sentinel sentinel
  | Plain string
  | Validation string string
  | Driver sqlite_code sqlite_ext string
  | Wrap string err
  | Joined "err list"

fun sentinel_text :: "sentinel \<Rightarrow> string" where
  "sentinel_text ErrRecordNotFound = ''record not found''"
| "sentinel_text ErrDuplicatedKey = ''duplicated key not allowed''"
| "sentinel_text ErrEmptySubmission = ''submission payload empty''"
| "sentinel_text ErrUploadStorageQuotaExceeded = ''upload storage quota exceeded''"
| "sentinel_text ErrRedirectNotAllowed = ''redirect URL not in allowed origins''"
| "sentinel_text ErrInvalidRedirect = ''invalid redirect URL''"
| "sentinel_text ErrOriginsRequired = ''absolute redirects not allowed without configured origins''"
| "sentinel_text ErrDeliveryClaimLost = ''delivery claim lost''"
| "sentinel_text ErrInvalidCredentials = ''invalid email or password''"
| "sentinel_text ErrUserNotFound = ''user not found''"
| "sentinel_text ErrWeakPassword = ''password must be at least 8 characters''"
| "sentinel_text ErrPasswordMismatch = ''current password is incorrect''"
| "sentinel_text ErrPasswordUnchanged = ''new password must be different''"
| "sentinel_text ErrMissingFields = ''required fields are missing''"
| "sentinel_text ErrDuplicateEmail = ''email is already in use''"
| "sentinel_text ErrInvalidEmail = ''email is not valid''"
| "sentinel_text ErrProfileInUse = ''profile is referenced by one or more forms''"
| "sentinel_text ErrTurnstileUnavailable = ''turnstile service temporarily unavailable''"
| "sentinel_text ErrTooManyFields = ''too many fields''"
| "sentinel_text ErrPayloadTooLarge = ''submission fields exceed maximum size''"
| "sentinel_text ErrCaptchaFailed = ''captcha verification failed''"
| "sentinel_text ErrNotExist = ''file does not exist''"
| "sentinel_text ErrContextCanceled = ''context canceled''"
| "sentinel_text ErrDeadlineExceeded = ''context deadline exceeded''"

text \<open>\<open>Error()\<close>: a wrapped error prints its prefix first, joined errors one per line.\<close>

fun err_text :: "err \<Rightarrow> string" where
  "err_text (Sentinel s) = sentinel_text s"
| "err_text (Plain m) = m"
| "err_text (Validation f m) = f @ '': '' @ m"
| "err_text (Driver c x m) = m"
| "err_text (Wrap p e) = p @ '': '' @ err_text e"
| "err_text (Joined es) = join [char_of (10 :: nat)] (map err_text es)"

text \<open>\<open>errors.Is(err, sentinel)\<close>\<close>

fun err_is :: "sentinel \<Rightarrow> err \<Rightarrow> bool" where
  "err_is s (Sentinel t) \<longleftrightarrow> s = t"
| "err_is s (Plain m) \<longleftrightarrow> False"
| "err_is s (Validation f m) \<longleftrightarrow> False"
| "err_is s (Driver c x m) \<longleftrightarrow> False"
| "err_is s (Wrap p e) \<longleftrightarrow> err_is s e"
| "err_is s (Joined es) \<longleftrightarrow> list_ex (err_is s) es"

text \<open>\<open>errors.As(err, &driverError)\<close>: the first driver error of the tree.\<close>

fun err_driver :: "err \<Rightarrow> (sqlite_code \<times> sqlite_ext) option"
  and err_driver_first :: "err list \<Rightarrow> (sqlite_code \<times> sqlite_ext) option" where
  "err_driver (Sentinel t) = None"
| "err_driver (Plain m) = None"
| "err_driver (Validation f m) = None"
| "err_driver (Driver c x m) = Some (c, x)"
| "err_driver (Wrap p e) = err_driver e"
| "err_driver (Joined es) = err_driver_first es"
| "err_driver_first [] = None"
| "err_driver_first (e # es) =
     (case err_driver e of None \<Rightarrow> err_driver_first es | Some d \<Rightarrow> Some d)"

text \<open>\<open>errors.As(err, &validation)\<close>\<close>

fun err_validation :: "err \<Rightarrow> (string \<times> string) option"
  and err_validation_first :: "err list \<Rightarrow> (string \<times> string) option" where
  "err_validation (Sentinel t) = None"
| "err_validation (Plain m) = None"
| "err_validation (Validation f m) = Some (f, m)"
| "err_validation (Driver c x m) = None"
| "err_validation (Wrap p e) = err_validation e"
| "err_validation (Joined es) = err_validation_first es"
| "err_validation_first [] = None"
| "err_validation_first (e # es) =
     (case err_validation e of None \<Rightarrow> err_validation_first es | Some d \<Rightarrow> Some d)"

text \<open>\<open>errors.Join(a, b)\<close> over optional errors (\<open>nil\<close> is \<open>None\<close>): nil arguments are dropped.\<close>

definition join_err :: "err option \<Rightarrow> err option \<Rightarrow> err option" where
  "join_err a b =
     (case (a, b) of
        (None, None) \<Rightarrow> None
      | (Some x, None) \<Rightarrow> Some (Joined [x])
      | (None, Some y) \<Rightarrow> Some (Joined [y])
      | (Some x, Some y) \<Rightarrow> Some (Joined [x, y]))"

lemma join_err_None [simp]: "join_err a b = None \<longleftrightarrow> a = None \<and> b = None"
  by (simp add: join_err_def split: option.splits)

section \<open>Package sqliteerr\<close>

definition hasContentionCode :: "err \<Rightarrow> bool" where
  "hasContentionCode e \<longleftrightarrow>
     (case err_driver e of None \<Rightarrow> False | Some (c, _) \<Rightarrow> c = CodeBusy \<or> c = CodeLocked)"

definition hasUniqueCode :: "err \<Rightarrow> bool" where
  "hasUniqueCode e \<longleftrightarrow> (case err_driver e of None \<Rightarrow> False | Some (_, x) \<Rightarrow> x = ExtUnique)"

definition hasUniqueOrPrimaryCode :: "err \<Rightarrow> bool" where
  "hasUniqueOrPrimaryCode e \<longleftrightarrow>
     (case err_driver e of None \<Rightarrow> False | Some (_, x) \<Rightarrow> x = ExtUnique \<or> x = ExtPrimaryKey)"

definition hasForeignKeyCode :: "err \<Rightarrow> bool" where
  "hasForeignKeyCode e \<longleftrightarrow> (case err_driver e of None \<Rightarrow> False | Some (_, x) \<Rightarrow> x = ExtForeignKey)"

definition contention_fragments :: "string list" where
  "contention_fragments =
     [''database is locked'', ''database is busy'', ''database table is locked'',
      ''sql statements in progress'']"

definition IsContention :: "err option \<Rightarrow> bool" where
  "IsContention oe =
     (case oe of None \<Rightarrow> False
      | Some e \<Rightarrow> hasContentionCode e
          \<or> list_ex (\<lambda>fragment. str_contains fragment (map ascii_lower (err_text e))) contention_fragments)"

definition IsUniqueConstraint :: "err option \<Rightarrow> bool" where
  "IsUniqueConstraint oe = (case oe of None \<Rightarrow> False | Some e \<Rightarrow> hasUniqueCode e)"

definition IsUniqueOrPrimaryConstraint :: "err option \<Rightarrow> bool" where
  "IsUniqueOrPrimaryConstraint oe = (case oe of None \<Rightarrow> False | Some e \<Rightarrow> hasUniqueOrPrimaryCode e)"

definition IsForeignKeyConstraint :: "err option \<Rightarrow> bool" where
  "IsForeignKeyConstraint oe =
     (case oe of None \<Rightarrow> False
      | Some e \<Rightarrow> hasForeignKeyCode e
          \<or> str_contains ''foreign key constraint failed'' (map ascii_lower (err_text e)))"

text \<open>The driver's errors for the constraints the schema declares.\<close>

definition unique_failed :: "string \<Rightarrow> err" where
  "unique_failed column = Driver CodeConstraint ExtUnique (''UNIQUE constraint failed: '' @ column)"

definition foreign_key_failed :: err where
  "foreign_key_failed = Driver CodeConstraint ExtForeignKey ''FOREIGN KEY constraint failed''"

definition sqlite_busy :: err where
  "sqlite_busy = Driver CodeBusy ExtOther ''database is locked''"

lemma busy_is_contention [simp]: "IsContention (Some sqlite_busy)"
  by (simp add: IsContention_def sqlite_busy_def hasContentionCode_def)

lemma contention_through_wrap:
  "hasContentionCode e \<Longrightarrow> IsContention (Some (Wrap p e))"
  by (simp add: IsContention_def hasContentionCode_def)

lemma sentinel_not_contention [simp]: "\<not> IsContention (Some (Sentinel s))"
  by (cases s) (simp_all add: IsContention_def hasContentionCode_def contention_fragments_def ascii_lower_def)

lemma unique_is_unique [simp]:
  "IsUniqueConstraint (Some (unique_failed c))" "IsUniqueOrPrimaryConstraint (Some (unique_failed c))"
  by (simp_all add: IsUniqueConstraint_def IsUniqueOrPrimaryConstraint_def hasUniqueCode_def
      hasUniqueOrPrimaryCode_def unique_failed_def)

lemma unique_implies_unique_or_primary:
  "IsUniqueConstraint e \<Longrightarrow> IsUniqueOrPrimaryConstraint e"
  by (auto simp: IsUniqueConstraint_def IsUniqueOrPrimaryConstraint_def hasUniqueCode_def
      hasUniqueOrPrimaryCode_def split: option.splits)

end
