(* ===== verification/Db_Txn.thy ===== *)
theory Db_Txn
  imports Go_Errors
begin

text \<open>
  The database as the program sees it: statements that may fail, transactions that roll
  back, and \<open>dbtxn.WithRetry\<close> (\<open>internal/pkg/dbtxn/retry.go\<close>), through which every write of
  the program goes.

  A program is a state transformer over a \<open>world\<close>. The component \<open>db\<close> holds the committed
  tables (and, inside a transaction, the tables as the transaction sees them). The other
  components are the environment: \<open>faults\<close> lists, statement by statement, what the engine
  does (\<open>None\<close>: it runs; \<open>Some e\<close>: it fails with \<open>e\<close>), so a theorem for every \<open>faults\<close> covers
  every pattern of I/O errors and lock contention; \<open>ticks\<close> are the nanoseconds that pass
  before each clock reading; \<open>entropy\<close> is what is left of the random source; \<open>waits\<close> tells
  for each timed wait whether the context was cancelled; \<open>slept\<close> records the pauses taken.
  \<open>disk\<close> is the data directory, \<open>disk_faults\<close> does for its operations what \<open>faults\<close> does for
  statements, and \<open>staged\<close> is the variable the closures of \<open>DeleteForm\<close> and \<open>deleteSubmission\<close>
  assign: neither rolls back with a transaction.
\<close>

type_synonym gotime = int

text \<open>
  The data directory: whether it exists, its files with their contents and its directories,
  by slash-separated paths relative to it.
\<close>

record disk =
  dk_root :: bool
  dk_files :: "(string \<times> string) list"
  dk_dirs :: "string list"

text \<open>\<open>stagedUploadDeletion\<close>: the operation's directory and, per file, where it was and where it is.\<close>

record stagedUploadDeletion =
  st_operation :: string
  st_files :: "(string \<times> string) list"

record 'd world =
  db :: 'd
  faults :: "err option list"
  clock :: gotime
  ticks :: "nat list"
  entropy :: "nat list"
  waits :: "err option list"
  slept :: "int list"
  disk :: disk
  disk_faults :: "err option list"
  staged :: "stagedUploadDeletion option"

type_synonym ('d, 'a) prog = "'d world \<Rightarrow> (err + 'a) \<times> 'd world"

section \<open>Sequencing\<close>

definition ret :: "'a \<Rightarrow> ('d, 'a) prog" where
  "ret x = (\<lambda>w. (Inr x, w))"

definition fail :: "err \<Rightarrow> ('d, 'a) prog" where
  "fail e = (\<lambda>w. (Inl e, w))"

definition bnd :: "('d, 'a) prog \<Rightarrow> ('a \<Rightarrow> ('d, 'b) prog) \<Rightarrow> ('d, 'b) prog" where
  "bnd m f = (\<lambda>w. case m w of (Inl e, w') \<Rightarrow> (Inl e, w') | (Inr x, w') \<Rightarrow> f x w')"

definition of_result :: "err + 'a \<Rightarrow> ('d, 'a) prog" where
  "of_result r = (\<lambda>w. (r, w))"

text \<open>Run \<open>m\<close> and go on with its outcome, error or not (\<open>if err := m; err != nil\<close>).\<close>

definition catch :: "('d, 'a) prog \<Rightarrow> ((err + 'a) \<Rightarrow> ('d, 'b) prog) \<Rightarrow> ('d, 'b) prog" where
  "catch m f = (\<lambda>w. case m w of (r, w') \<Rightarrow> f r w')"

text \<open>\<open>fmt.Errorf("prefix: %w", err)\<close> on the error path.\<close>

definition wrap_err :: "string \<Rightarrow> ('d, 'a) prog \<Rightarrow> ('d, 'a) prog" where
  "wrap_err p m = (\<lambda>w. case m w of (Inl e, w') \<Rightarrow> (Inl (Wrap p e), w') | (Inr x, w') \<Rightarrow> (Inr x, w'))"

fun each :: "('a \<Rightarrow> ('d, unit) prog) \<Rightarrow> 'a list \<Rightarrow> ('d, unit) prog" where
  "each f [] = ret ()"
| "each f (x # xs) = bnd (f x) (\<lambda>_. each f xs)"

definition guard :: "bool \<Rightarrow> err \<Rightarrow> ('d, unit) prog" where
  "guard ok e = (if ok then ret () else fail e)"

lemma ret_apply [tx_simps]: "ret x w = (Inr x, w)"
  by (simp add: ret_def)

lemma fail_apply [tx_simps]: "fail e w = (Inl e, w)"
  by (simp add: fail_def)

lemma of_result_apply [tx_simps]: "of_result r w = (r, w)"
  by (simp add: of_result_def)

lemma bnd_apply [tx_simps]:
  "bnd m f w = (case m w of (Inl e, w') \<Rightarrow> (Inl e, w') | (Inr x, w') \<Rightarrow> f x w')"
  by (simp add: bnd_def)

lemma catch_apply [tx_simps]: "catch m f w = (case m w of (r, w') \<Rightarrow> f r w')"
  by (simp add: catch_def)

lemma wrap_err_apply [tx_simps]:
  "wrap_err p m w = (case m w of (Inl e, w') \<Rightarrow> (Inl (Wrap p e), w') | (Inr x, w') \<Rightarrow> (Inr x, w'))"
  by (simp add: wrap_err_def)

lemma guard_apply [tx_simps]: "guard ok e w = (if ok then (Inr (), w) else (Inl e, w))"
  by (simp add: guard_def ret_def fail_def)

lemma bnd_InrE:
  assumes "bnd m f w = (Inr y, w'')"
  obtains x w' where "m w = (Inr x, w')" "f x w' = (Inr y, w'')"
  using assms by (auto simp: bnd_apply split: prod.splits sum.splits)

lemma wrap_err_Inr [simp]: "wrap_err p m w = (Inr x, w') \<longleftrightarrow> m w = (Inr x, w')"
  by (auto simp: wrap_err_apply split: prod.splits sum.splits)

lemma guard_Inr [simp]: "guard ok e w = (Inr u, w') \<longleftrightarrow> ok \<and> w' = w"
  by (auto simp: guard_apply)

lemma ret_Inr [simp]: "ret x w = (Inr y, w') \<longleftrightarrow> x = y \<and> w' = w"
  by (auto simp: ret_apply)

lemma fail_Inr [simp]: "fail e w \<noteq> (Inr y, w')"
  by (simp add: fail_apply)

lemma of_result_Inr [simp]: "of_result r w = (Inr y, w') \<longleftrightarrow> r = Inr y \<and> w' = w"
  by (auto simp: of_result_apply)

lemmas tx_elims = bnd_InrE

section \<open>The environment\<close>

text \<open>\<open>time.Now().UTC()\<close>: the clock never goes back.\<close>

definition time_now :: "('d, gotime) prog" where
  "time_now = (\<lambda>w. case ticks w of
       [] \<Rightarrow> (Inr (clock w), w)
     | d # ds \<Rightarrow> (Inr (clock w + int d), w\<lparr>clock := clock w + int d, ticks := ds\<rparr>))"

text \<open>\<open>io.ReadFull(rand.Reader, buffer)\<close> followed by \<open>hex.EncodeToString\<close> (\<open>forms.randomHex\<close>).\<close>

definition randomHex :: "nat \<Rightarrow> ('d, string) prog" where
  "randomHex byteCount = (\<lambda>w.
     if length (entropy w) < byteCount
     then (Inl (Wrap ''read random bytes'' (Plain ''unexpected EOF'')), w\<lparr>entropy := []\<rparr>)
     else (Inr (hex_encode (take byteCount (entropy w))), w\<lparr>entropy := drop byteCount (entropy w)\<rparr>))"

text \<open>
  One statement of the engine: it fails as the environment says, or it runs \<open>f\<close> on the
  tables, which gives a constraint error or a result and the new tables.
\<close>

definition stmt :: "('d \<Rightarrow> err + ('a \<times> 'd)) \<Rightarrow> ('d, 'a) prog" where
  "stmt f = (\<lambda>w. case faults w of
       Some e # fs \<Rightarrow> (Inl e, w\<lparr>faults := fs\<rparr>)
     | fs \<Rightarrow> (case f (db w) of
           Inl e \<Rightarrow> (Inl e, w\<lparr>faults := tl fs\<rparr>)
         | Inr (x, d) \<Rightarrow> (Inr x, w\<lparr>faults := tl fs, db := d\<rparr>)))"

definition query :: "('d \<Rightarrow> 'a) \<Rightarrow> ('d, 'a) prog" where
  "query f = stmt (\<lambda>d. Inr (f d, d))"

definition exec :: "('d \<Rightarrow> 'd) \<Rightarrow> ('d, unit) prog" where
  "exec f = stmt (\<lambda>d. Inr ((), f d))"

lemma stmt_InrE:
  assumes "stmt f w = (Inr x, w')"
  obtains d where "f (db w) = Inr (x, d)" "w' = w\<lparr>faults := tl (faults w), db := d\<rparr>"
  using assms by (auto simp: stmt_def split: list.splits option.splits sum.splits)

lemma stmt_InrD: "stmt f w = (Inr x, w') \<Longrightarrow> f (db w) = Inr (x, db w')"
  by (auto elim!: stmt_InrE)

lemma query_InrE:
  assumes "query f w = (Inr x, w')"
  obtains "x = f (db w)" "w' = w\<lparr>faults := tl (faults w)\<rparr>"
  using assms by (auto simp: query_def elim!: stmt_InrE)

lemma exec_InrE:
  assumes "exec f w = (Inr x, w')"
  obtains "w' = w\<lparr>faults := tl (faults w), db := f (db w)\<rparr>"
  using assms by (auto simp: exec_def elim!: stmt_InrE)

lemma stmt_ok [tx_simps]:
  "faults w = [] \<Longrightarrow> stmt f w =
     (case f (db w) of Inl e \<Rightarrow> (Inl e, w) | Inr (x, d) \<Rightarrow> (Inr x, w\<lparr>db := d\<rparr>))"
  by (cases w) (auto simp: stmt_def split: sum.splits)

lemma query_ok [tx_simps]: "faults w = [] \<Longrightarrow> query f w = (Inr (f (db w)), w)"
  by (simp add: query_def stmt_ok)

lemma exec_ok [tx_simps]: "faults w = [] \<Longrightarrow> exec f w = (Inr (), w\<lparr>db := f (db w)\<rparr>)"
  by (simp add: exec_def stmt_ok)

lemmas stmt_elims = stmt_InrE query_InrE exec_InrE

section \<open>Programs that keep a property of the tables\<close>

text \<open>\<open>keeps P m\<close>: whatever the environment does, \<open>m\<close> takes tables with \<open>P\<close> to tables with
  \<open>P\<close> when it succeeds; \<open>reads m\<close>: \<open>m\<close> does not change the tables at all.\<close>

definition keeps :: "('d \<Rightarrow> bool) \<Rightarrow> ('d, 'a) prog \<Rightarrow> bool" where
  "keeps P m \<longleftrightarrow> (\<forall>w x w'. m w = (Inr x, w') \<longrightarrow> P (db w) \<longrightarrow> P (db w'))"

definition reads :: "('d, 'a) prog \<Rightarrow> bool" where
  "reads m \<longleftrightarrow> (\<forall>w r w'. m w = (r, w') \<longrightarrow> db w' = db w)"

lemma keepsD: "keeps P m \<Longrightarrow> m w = (Inr x, w') \<Longrightarrow> P (db w) \<Longrightarrow> P (db w')"
  by (auto simp: keeps_def)

lemma readsD: "reads m \<Longrightarrow> m w = (r, w') \<Longrightarrow> db w' = db w"
  by (auto simp: reads_def)

lemma keeps_reads: "reads m \<Longrightarrow> keeps P m"
  by (auto simp: keeps_def reads_def)

lemma keeps_ret [tx_keeps]: "keeps P (ret x)"
  by (simp add: keeps_def)

lemma keeps_fail [tx_keeps]: "keeps P (fail e)"
  by (simp add: keeps_def)

lemma keeps_of_result [tx_keeps]: "keeps P (of_result r)"
  by (simp add: keeps_def)

lemma keeps_guard [tx_keeps]: "keeps P (guard ok e)"
  by (simp add: keeps_def)

lemma keeps_bnd [tx_keeps]: "keeps P m \<Longrightarrow> (\<And>x. keeps P (f x)) \<Longrightarrow> keeps P (bnd m f)"
  unfolding keeps_def by (blast elim!: bnd_InrE)

lemma keeps_wrap_err [tx_keeps]: "keeps P m \<Longrightarrow> keeps P (wrap_err p m)"
  by (auto simp: keeps_def)

lemma keeps_if [tx_keeps]: "keeps P a \<Longrightarrow> keeps P b \<Longrightarrow> keeps P (if c then a else b)"
  by simp

lemma keeps_option [tx_keeps]:
  "keeps P a \<Longrightarrow> (\<And>x. keeps P (f x)) \<Longrightarrow> keeps P (case v of None \<Rightarrow> a | Some x \<Rightarrow> f x)"
  by (cases v) simp_all

lemma keeps_each [tx_keeps]: "(\<And>x. keeps P (f x)) \<Longrightarrow> keeps P (each f xs)"
  by (induction xs) (auto intro!: keeps_ret keeps_bnd)

lemma keeps_query [tx_keeps]: "keeps P (query f)"
  by (auto simp: keeps_def elim!: query_InrE)

lemma keeps_exec: "(\<And>d. P d \<Longrightarrow> P (f d)) \<Longrightarrow> keeps P (exec f)"
  by (auto simp: keeps_def elim!: exec_InrE)

lemma keeps_stmt:
  "(\<And>d x d'. P d \<Longrightarrow> f d = Inr (x, d') \<Longrightarrow> P d') \<Longrightarrow> keeps P (stmt f)"
  by (auto simp: keeps_def elim!: stmt_InrE)

lemma reads_time_now [tx_keeps]: "reads time_now"
  by (auto simp: reads_def time_now_def split: list.splits)

lemma reads_randomHex [tx_keeps]: "reads (randomHex n)"
  by (auto simp: reads_def randomHex_def split: if_splits)

lemma reads_query [tx_keeps]: "reads (query f)"
  by (auto simp: reads_def query_def stmt_def split: list.splits option.splits)

lemma reads_ret [tx_keeps]: "reads (ret x)"
  by (auto simp: reads_def ret_apply)

lemma reads_fail [tx_keeps]: "reads (fail e)"
  by (auto simp: reads_def fail_apply)

lemma reads_of_result [tx_keeps]: "reads (of_result r)"
  by (auto simp: reads_def of_result_apply)

lemma reads_guard [tx_keeps]: "reads (guard ok e)"
  by (auto simp: reads_def guard_apply)

lemma reads_bnd [tx_keeps]: "reads m \<Longrightarrow> (\<And>x. reads (f x)) \<Longrightarrow> reads (bnd m f)"
  by (fastforce simp: reads_def bnd_apply split: prod.splits sum.splits)

lemma reads_catch [tx_keeps]: "reads m \<Longrightarrow> (\<And>r. reads (f r)) \<Longrightarrow> reads (catch m f)"
  by (fastforce simp: reads_def catch_apply split: prod.splits)

lemma reads_wrap_err [tx_keeps]: "reads m \<Longrightarrow> reads (wrap_err p m)"
  by (fastforce simp: reads_def wrap_err_apply split: prod.splits sum.splits)

lemma reads_if [tx_keeps]: "reads a \<Longrightarrow> reads b \<Longrightarrow> reads (if c then a else b)"
  by simp

lemma reads_option [tx_keeps]:
  "reads a \<Longrightarrow> (\<And>x. reads (f x)) \<Longrightarrow> reads (case v of None \<Rightarrow> a | Some x \<Rightarrow> f x)"
  by (cases v) simp_all

section \<open>Transactions\<close>

text \<open>
  \<open>gorm.DB.Transaction\<close>: begin (an immediate transaction takes the write lock here), run the
  body, commit; an error of the body or of the commit rolls the tables back. Only the tables
  roll back: the clock, the random source and the environment's schedule do not.
\<close>

definition transaction :: "('d, 'a) prog \<Rightarrow> ('d, 'a) prog" where
  "transaction body = (\<lambda>w.
     case stmt (\<lambda>d. Inr ((), d)) w of
       (Inl e, w1) \<Rightarrow> (Inl e, w1)
     | (Inr _, w1) \<Rightarrow>
         (case body w1 of
            (Inl e, w2) \<Rightarrow> (Inl e, w2\<lparr>db := db w1\<rparr>)
          | (Inr x, w2) \<Rightarrow>
              (case stmt (\<lambda>d. Inr ((), d)) w2 of
                 (Inl e, w3) \<Rightarrow> (Inl e, w3\<lparr>db := db w1\<rparr>)
               | (Inr _, w3) \<Rightarrow> (Inr x, w3))))"

definition maxAttempts :: nat where
  "maxAttempts = 10"

definition basePause :: int where
  "basePause = 100 * 1000000"

definition maxPause :: int where
  "maxPause = 5 * 1000000000"

text \<open>\<open>retryPause\<close>: the jitter is what \<open>rand.Int\<close> gives in \<open>[0, pause/5]\<close>, if it gives anything.\<close>

definition retryPause :: "nat \<Rightarrow> nat option \<Rightarrow> int" where
  "retryPause attempt jitter =
     (let shifted = wrap64 (basePause * 2 ^ (attempt - 1));
          pause = (if shifted > maxPause then maxPause else shifted)
      in (case jitter of
            None \<Rightarrow> pause
          | Some j \<Rightarrow> pause + int j mod (pause div 5 + 1)))"

definition draw_jitter :: "('d, nat option) prog" where
  "draw_jitter = (\<lambda>w. case entropy w of
       [] \<Rightarrow> (Inr None, w)
     | b # bs \<Rightarrow> (Inr (Some b), w\<lparr>entropy := bs\<rparr>))"

text \<open>\<open>waitForRetry\<close>: the timer fires, or the context is done first and its error is returned.\<close>

definition waitForRetry :: "int \<Rightarrow> ('d, unit) prog" where
  "waitForRetry pause = (\<lambda>w. case waits w of
       Some e # ws \<Rightarrow> (Inl e, w\<lparr>waits := ws\<rparr>)
     | ws \<Rightarrow> (Inr (), w\<lparr>waits := tl ws, slept := slept w @ [pause]\<rparr>))"

definition retry_wait :: "nat \<Rightarrow> ('d, unit) prog" where
  "retry_wait attempt = bnd draw_jitter (\<lambda>jitter. waitForRetry (retryPause attempt jitter))"

text \<open>
  The loop of \<open>WithRetry\<close>, from attempt number \<open>attempt\<close> with \<open>left\<close> attempts remaining after
  it: success and errors other than contention end it, contention pauses and tries again, and
  the last contention is reported with the number of attempts.
\<close>

fun retry_loop :: "('d, 'a) prog \<Rightarrow> nat \<Rightarrow> nat \<Rightarrow> ('d, 'a) prog" where
  "retry_loop body attempt 0 w =
     (case transaction body w of
        (Inr x, w') \<Rightarrow> (Inr x, w')
      | (Inl e, w') \<Rightarrow>
          if IsContention (Some e)
          then (Inl (Wrap ''sqlite write still locked after 10 attempts'' e), w')
          else (Inl e, w'))"
| "retry_loop body attempt (Suc left) w =
     (case transaction body w of
        (Inr x, w') \<Rightarrow> (Inr x, w')
      | (Inl e, w') \<Rightarrow>
          if \<not> IsContention (Some e) then (Inl e, w')
          else (case retry_wait attempt w' of
                  (Inl e', w'') \<Rightarrow> (Inl e', w'')
                | (Inr _, w'') \<Rightarrow> retry_loop body (Suc attempt) left w''))"

definition with_retry :: "('d, 'a) prog \<Rightarrow> ('d, 'a) prog" where
  "with_retry body = retry_loop body 1 (maxAttempts - 1)"

lemma transaction_InlD: "transaction body w = (Inl e, w') \<Longrightarrow> db w' = db w"
  by (auto simp: transaction_def stmt_def split: prod.splits sum.splits list.splits option.splits)

lemma transaction_InrE:
  assumes "transaction body w = (Inr x, w')"
  obtains w1 w2 where "w1 = w\<lparr>faults := tl (faults w)\<rparr>" "body w1 = (Inr x, w2)"
    "w' = w2\<lparr>faults := tl (faults w2)\<rparr>"
  using assms
  by (auto simp: transaction_def split: prod.splits sum.splits elim!: stmt_InrE)

lemma transaction_InrD:
  assumes "transaction body w = (Inr x, w')"
  shows "\<exists>w1 w2. db w1 = db w \<and> body w1 = (Inr x, w2) \<and> db w' = db w2"
proof -
  from assms obtain w1 w2 where "w1 = w\<lparr>faults := tl (faults w)\<rparr>" "body w1 = (Inr x, w2)"
    "w' = w2\<lparr>faults := tl (faults w2)\<rparr>" by (rule transaction_InrE)
  then have "db w1 = db w \<and> body w1 = (Inr x, w2) \<and> db w' = db w2" by simp
  then show ?thesis by blast
qed

lemma transaction_ok [tx_simps]:
  "faults w = [] \<Longrightarrow> transaction body w =
     (case body w of
        (Inl e, w2) \<Rightarrow> (Inl e, w2\<lparr>db := db w\<rparr>)
      | (Inr x, w2) \<Rightarrow> (case stmt (\<lambda>d. Inr ((), d)) w2 of
           (Inl e, w3) \<Rightarrow> (Inl e, w3\<lparr>db := db w\<rparr>)
         | (Inr _, w3) \<Rightarrow> (Inr x, w3)))"
  by (simp add: transaction_def stmt_ok)

lemma retry_wait_db: "retry_wait attempt w = (r, w') \<Longrightarrow> db w' = db w"
  by (auto simp: retry_wait_def bnd_apply draw_jitter_def waitForRetry_def
      split: list.splits option.splits prod.splits sum.splits)

text \<open>The three ways one attempt ends.\<close>

lemma retry_loop_cases:
  assumes "retry_loop body attempt left w = (r, w')"
  obtains (committed) x where "r = Inr x" "transaction body w = (Inr x, w')"
  | (failed) e e' where "r = Inl e'" "transaction body w = (Inl e, w')"
  | (cancelled) e e' w1 where "r = Inl e'" "transaction body w = (Inl e, w1)" "retry_wait attempt w1 = (Inl e', w')"
  | (again) e w1 w2 n where "left = Suc n" "IsContention (Some e)" "transaction body w = (Inl e, w1)"
      "retry_wait attempt w1 = (Inr (), w2)" "retry_loop body (Suc attempt) n w2 = (r, w')"
  using assms
  by (cases left) (auto split: prod.splits sum.splits if_splits)

text \<open>Every failed write leaves the tables as they were.\<close>

lemma retry_loop_InlD: "retry_loop body attempt left w = (Inl e, w') \<Longrightarrow> db w' = db w"
proof (induction left arbitrary: attempt w)
  case 0
  then show ?case
    by (cases rule: retry_loop_cases) (simp_all, (metis transaction_InlD retry_wait_db)+)
next
  case (Suc left)
  from Suc.prems show ?case
    by (cases rule: retry_loop_cases) (simp_all, (metis transaction_InlD retry_wait_db Suc.IH)+)
qed

text \<open>A write that succeeds is one run of the body, on the tables as they were before.\<close>

lemma retry_loop_InrD:
  "retry_loop body attempt left w = (Inr x, w') \<Longrightarrow>
   \<exists>w1 w2. db w1 = db w \<and> body w1 = (Inr x, w2) \<and> db w' = db w2"
proof (induction left arbitrary: attempt w)
  case 0
  then show ?case
    by (cases rule: retry_loop_cases) (simp_all, metis transaction_InrD)
next
  case (Suc left)
  from Suc.prems show ?case
  proof (cases rule: retry_loop_cases)
    case (again e w1 w2 n)
    then have "db w2 = db w" by (metis transaction_InlD retry_wait_db)
    with again Suc.IH show ?thesis by fastforce
  qed (simp_all, metis transaction_InrD)
qed

lemma with_retry_InlD: "with_retry body w = (Inl e, w') \<Longrightarrow> db w' = db w"
  unfolding with_retry_def by (rule retry_loop_InlD)

lemma with_retry_InrE:
  assumes "with_retry body w = (Inr x, w')"
  obtains w1 w2 where "db w1 = db w" "body w1 = (Inr x, w2)" "db w' = db w2"
  using retry_loop_InrD [OF assms [unfolded with_retry_def]] by blast

lemma keeps_with_retry [tx_keeps]: "keeps P body \<Longrightarrow> keeps P (with_retry body)"
  unfolding keeps_def by (metis with_retry_InrE)

lemma with_retry_ok [tx_simps]:
  assumes "faults w = []" "body w = (Inr x, w')" "faults w' = []"
  shows "with_retry body w = (Inr x, w')"
  using assms by (simp add: with_retry_def maxAttempts_def numeral_eq_Suc transaction_ok stmt_ok)

lemma with_retry_err [tx_simps]:
  assumes "faults w = []" "body w = (Inl e, w')" "\<not> IsContention (Some e)"
  shows "with_retry body w = (Inl e, w'\<lparr>db := db w\<rparr>)"
  using assms by (simp add: with_retry_def maxAttempts_def numeral_eq_Suc transaction_ok)

section \<open>What a program yields\<close>

text \<open>
  \<open>yields P m Q\<close>: started on tables with \<open>P\<close>, a successful run of \<open>m\<close> returns an \<open>x\<close> and
  leaves tables with \<open>Q x\<close>. The rules follow the program text, one per construct.
\<close>

definition yields :: "('d \<Rightarrow> bool) \<Rightarrow> ('d, 'a) prog \<Rightarrow> ('a \<Rightarrow> 'd \<Rightarrow> bool) \<Rightarrow> bool" where
  "yields P m Q \<longleftrightarrow> (\<forall>w x w'. m w = (Inr x, w') \<longrightarrow> P (db w) \<longrightarrow> Q x (db w'))"

lemma yieldsD: "yields P m Q \<Longrightarrow> m w = (Inr x, w') \<Longrightarrow> P (db w) \<Longrightarrow> Q x (db w')"
  by (auto simp: yields_def)

lemma keeps_yields: "keeps P m \<longleftrightarrow> yields P m (\<lambda>_. P)"
  by (simp add: keeps_def yields_def)

lemma yields_bnd: "yields P m Q \<Longrightarrow> (\<And>x. yields (Q x) (f x) R) \<Longrightarrow> yields P (bnd m f) R"
  unfolding yields_def by (blast elim!: bnd_InrE)

lemma yields_conseq:
  "yields P m Q \<Longrightarrow> (\<And>d. P' d \<Longrightarrow> P d) \<Longrightarrow> (\<And>x d. Q x d \<Longrightarrow> Q' x d) \<Longrightarrow> yields P' m Q'"
  unfolding yields_def by blast

lemma yields_reads: "reads m \<Longrightarrow> yields P m (\<lambda>_. P)"
  by (auto simp: yields_def reads_def)

lemma yields_ret: "(\<And>d. P d \<Longrightarrow> Q x d) \<Longrightarrow> yields P (ret x) Q"
  by (auto simp: yields_def)

lemma yields_fail: "yields P (fail e) Q"
  by (simp add: yields_def)

lemma yields_guard: "yields P (guard ok e) (\<lambda>_ d. P d \<and> ok)"
  by (simp add: yields_def)

lemma yields_of_result: "yields P (of_result r) (\<lambda>x d. P d \<and> r = Inr x)"
  by (simp add: yields_def)

lemma yields_query: "yields P (query f) (\<lambda>x d. P d \<and> x = f d)"
  by (auto simp: yields_def elim!: query_InrE)

lemma yields_stmt: "yields P (stmt f) (\<lambda>x d'. \<exists>d. P d \<and> f d = Inr (x, d'))"
  by (auto simp: yields_def elim!: stmt_InrE)

lemma yields_stmtI: "(\<And>d x d'. P d \<Longrightarrow> f d = Inr (x, d') \<Longrightarrow> Q x d') \<Longrightarrow> yields P (stmt f) Q"
  by (auto simp: yields_def elim!: stmt_InrE)

lemma yields_of_resultI: "(\<And>d x. P d \<Longrightarrow> r = Inr x \<Longrightarrow> Q x d) \<Longrightarrow> yields P (of_result r) Q"
  by (simp add: yields_def)

lemma yields_guardI: "(\<And>d. P d \<Longrightarrow> ok \<Longrightarrow> Q d) \<Longrightarrow> yields P (guard ok e) (\<lambda>_. Q)"
  by (simp add: yields_def)

lemma yields_execI: "(\<And>d. P d \<Longrightarrow> Q (f d)) \<Longrightarrow> yields P (exec f) (\<lambda>_. Q)"
  by (auto simp: yields_def elim!: exec_InrE)

lemma yields_exec: "yields P (exec f) (\<lambda>x d'. \<exists>d. P d \<and> d' = f d)"
  by (auto simp: yields_def elim!: exec_InrE)

lemma yields_wrap_err: "yields P m Q \<Longrightarrow> yields P (wrap_err p m) Q"
  by (simp add: yields_def)

lemma yields_with_retry: "yields P body Q \<Longrightarrow> yields P (with_retry body) Q"
  unfolding yields_def by (metis with_retry_InrE)

lemma yields_if: "(c \<Longrightarrow> yields P a Q) \<Longrightarrow> (\<not> c \<Longrightarrow> yields P b Q) \<Longrightarrow> yields P (if c then a else b) Q"
  by simp

text \<open>A program whose error branch only changes the error (\<open>if err := \<dots>; err != nil\<close>).\<close>

lemma catch_fail_InrE:
  assumes "catch m (\<lambda>r. case r of Inl e \<Rightarrow> fail (g e) | Inr x \<Rightarrow> f x) w = (Inr y, w'')"
  obtains x w' where "m w = (Inr x, w')" "f x w' = (Inr y, w'')"
  using assms by (auto simp: catch_apply fail_apply split: prod.splits sum.splits)

definition map_err :: "(err \<Rightarrow> err) \<Rightarrow> ('d, 'a) prog \<Rightarrow> ('d, 'a) prog" where
  "map_err g m = catch m (\<lambda>r. case r of Inl e \<Rightarrow> fail (g e) | Inr x \<Rightarrow> ret x)"

lemma map_err_apply [tx_simps]:
  "map_err g m w = (case m w of (Inl e, w') \<Rightarrow> (Inl (g e), w') | (Inr x, w') \<Rightarrow> (Inr x, w'))"
  by (simp add: map_err_def tx_simps split: prod.splits sum.splits)

lemma map_err_Inr [simp]: "map_err g m w = (Inr x, w') \<longleftrightarrow> m w = (Inr x, w')"
  by (auto simp: map_err_apply split: prod.splits sum.splits)

lemma keeps_map_err [tx_keeps]: "keeps P m \<Longrightarrow> keeps P (map_err g m)"
  by (simp add: keeps_def)

lemma yields_map_err: "yields P m Q \<Longrightarrow> yields P (map_err g m) Q"
  by (simp add: yields_def)

lemma reads_map_err [tx_keeps]: "reads m \<Longrightarrow> reads (map_err g m)"
  by (fastforce simp: reads_def map_err_apply split: prod.splits sum.splits)

section \<open>Programs that keep a property whatever happens\<close>

text \<open>\<open>always P m\<close>: also when \<open>m\<close> fails, the tables still have \<open>P\<close>.\<close>

definition always :: "('d \<Rightarrow> bool) \<Rightarrow> ('d, 'a) prog \<Rightarrow> bool" where
  "always P m \<longleftrightarrow> (\<forall>w r w'. m w = (r, w') \<longrightarrow> P (db w) \<longrightarrow> P (db w'))"

lemma alwaysD: "always P m \<Longrightarrow> m w = (r, w') \<Longrightarrow> P (db w) \<Longrightarrow> P (db w')"
  by (auto simp: always_def)

lemma always_keeps: "always P m \<Longrightarrow> keeps P m"
  by (auto simp: always_def keeps_def)

lemma always_reads: "reads m \<Longrightarrow> always P m"
  by (auto simp: always_def reads_def)

lemma always_with_retry: "keeps P body \<Longrightarrow> always P (with_retry body)"
  unfolding always_def
proof (intro allI impI)
  fix w r w' assume k: "keeps P body" and run: "with_retry body w = (r, w')" and p: "P (db w)"
  show "P (db w')"
  proof (cases r)
    case (Inl e)
    with run with_retry_InlD have "db w' = db w" by metis
    with p show ?thesis by simp
  next
    case (Inr x)
    from keeps_with_retry [OF k] run p Inr show ?thesis by (auto dest: keepsD)
  qed
qed

lemma always_bnd: "always P m \<Longrightarrow> (\<And>x. always P (f x)) \<Longrightarrow> always P (bnd m f)"
  unfolding always_def bnd_apply by (fastforce split: prod.splits sum.splits)

lemma always_catch: "always P m \<Longrightarrow> (\<And>r. always P (f r)) \<Longrightarrow> always P (catch m f)"
  unfolding always_def catch_apply by (fastforce split: prod.splits)

lemma always_map_err: "always P m \<Longrightarrow> always P (map_err g m)"
  unfolding always_def map_err_apply by (fastforce split: prod.splits sum.splits)

lemma always_wrap_err: "always P m \<Longrightarrow> always P (wrap_err p m)"
  unfolding always_def wrap_err_apply by (fastforce split: prod.splits sum.splits)

lemma always_if: "always P a \<Longrightarrow> always P b \<Longrightarrow> always P (if c then a else b)"
  by simp

lemma always_option: "always P a \<Longrightarrow> (\<And>x. always P (f x)) \<Longrightarrow> always P (case v of None \<Rightarrow> a | Some x \<Rightarrow> f x)"
  by (cases v) simp_all

lemma always_result: "(\<And>e. always P (f e)) \<Longrightarrow> (\<And>x. always P (g x)) \<Longrightarrow> always P (case r of Inl e \<Rightarrow> f e | Inr x \<Rightarrow> g x)"
  by (cases r) simp_all

lemma reads_result [tx_keeps]:
  "(\<And>e. reads (f e)) \<Longrightarrow> (\<And>x. reads (g x)) \<Longrightarrow> reads (case r of Inl e \<Rightarrow> f e | Inr x \<Rightarrow> g x)"
  by (cases r) simp_all

lemma reads_each [tx_keeps]: "(\<And>x. reads (f x)) \<Longrightarrow> reads (each f xs)"
  by (induction xs) (auto intro!: reads_ret reads_bnd)

lemma reads_Let [tx_keeps]: "(\<And>x. reads (f x)) \<Longrightarrow> reads (Let v f)"
  by simp

lemma reads_prod [tx_keeps]: "(\<And>a b. reads (f a b)) \<Longrightarrow> reads (case v of (a, b) \<Rightarrow> f a b)"
  by (cases v) simp

lemma keeps_Let [tx_keeps]: "(\<And>x. keeps P (f x)) \<Longrightarrow> keeps P (Let v f)"
  by simp

lemma keeps_prod [tx_keeps]: "(\<And>a b. keeps P (f a b)) \<Longrightarrow> keeps P (case v of (a, b) \<Rightarrow> f a b)"
  by (cases v) simp

lemmas always_rules = always_bnd always_catch always_map_err always_wrap_err always_if always_option always_result

end
