(* ===== verification/Go_Lib.thy ===== *)
theory Go_Lib
  imports Db_Txn
begin

text \<open>
  What the program takes from the Go standard library and from third-party packages.
  String handling is defined here (runes, case mapping, base names and extensions, host
  names). The large parsers and the cryptographic functions are the fields of one record
  \<open>golib\<close>, an argument of every definition that calls them; whatever a theorem relies on is a
  hypothesis about those fields.
\<close>

section \<open>Runes\<close>

definition cont_byte :: "char \<Rightarrow> bool" where
  "cont_byte c \<longleftrightarrow> 128 \<le> (of_char c :: nat) \<and> (of_char c :: nat) < 192"

text \<open>Bytes of the first rune; 1 for a byte that starts no valid encoding, as \<open>utf8.DecodeRune\<close>.\<close>

definition rune_width :: "string \<Rightarrow> nat" where
  "rune_width s = (case s of [] \<Rightarrow> 0 | c # r \<Rightarrow>
     (let b = (of_char c :: nat);
          at = (\<lambda>i. if i < length r then of_char (r ! i) else (0 :: nat));
          cont = (\<lambda>i. 128 \<le> at i \<and> at i < 192)
      in if 194 \<le> b \<and> b \<le> 223 \<and> cont 0 then 2
         else if b = 224 \<and> 160 \<le> at 0 \<and> at 0 < 192 \<and> cont 1 then 3
         else if b = 237 \<and> 128 \<le> at 0 \<and> at 0 < 160 \<and> cont 1 then 3
         else if 225 \<le> b \<and> b \<le> 239 \<and> b \<noteq> 237 \<and> cont 0 \<and> cont 1 then 3
         else if b = 240 \<and> 144 \<le> at 0 \<and> at 0 < 192 \<and> cont 1 \<and> cont 2 then 4
         else if 241 \<le> b \<and> b \<le> 243 \<and> cont 0 \<and> cont 1 \<and> cont 2 then 4
         else if b = 244 \<and> 128 \<le> at 0 \<and> at 0 < 144 \<and> cont 1 \<and> cont 2 then 4
         else 1))"

lemma rune_width_pos: "s \<noteq> [] \<Longrightarrow> 0 < rune_width s"
  by (cases s) (simp_all add: rune_width_def Let_def)

function runes :: "string \<Rightarrow> string list" where
  "runes s = (if s = [] then [] else take (rune_width s) s # runes (drop (rune_width s) s))"
  by pat_completeness auto
termination
  by (relation "measure length") (auto simp: rune_width_pos intro!: diff_less)

declare runes.simps [simp del]

lemma runes_Nil [simp]: "runes [] = []"
  by (simp add: runes.simps)

lemma concat_runes [simp]: "concat (runes s) = s"
proof (induction s rule: runes.induct)
  case (1 s)
  then show ?case by (cases "s = []") (simp_all add: runes.simps [of s])
qed

text \<open>A byte below 128 is a rune of its own.\<close>

lemma rune_width_bytes:
  assumes "s = b # r"
  defines "at \<equiv> (\<lambda>i. if i < length r then of_char (r ! i) else (0 :: nat))"
  shows "rune_width s = 1
    \<or> 128 \<le> (of_char b :: nat) \<and>
      (rune_width s = 2 \<and> 128 \<le> at 0
       \<or> rune_width s = 3 \<and> 128 \<le> at 0 \<and> 128 \<le> at 1
       \<or> rune_width s = 4 \<and> 128 \<le> at 0 \<and> 128 \<le> at 1 \<and> 128 \<le> at 2)"
proof -
  define n where "n = (of_char b :: nat)"
  have w: "rune_width s =
     (if 194 \<le> n \<and> n \<le> 223 \<and> 128 \<le> at 0 \<and> at 0 < 192 then 2
      else if n = 224 \<and> 160 \<le> at 0 \<and> at 0 < 192 \<and> 128 \<le> at 1 \<and> at 1 < 192 then 3
      else if n = 237 \<and> 128 \<le> at 0 \<and> at 0 < 160 \<and> 128 \<le> at 1 \<and> at 1 < 192 then 3
      else if 225 \<le> n \<and> n \<le> 239 \<and> n \<noteq> 237 \<and> (128 \<le> at 0 \<and> at 0 < 192) \<and> 128 \<le> at 1 \<and> at 1 < 192 then 3
      else if n = 240 \<and> 144 \<le> at 0 \<and> at 0 < 192 \<and> (128 \<le> at 1 \<and> at 1 < 192) \<and> 128 \<le> at 2 \<and> at 2 < 192 then 4
      else if 241 \<le> n \<and> n \<le> 243 \<and> (128 \<le> at 0 \<and> at 0 < 192) \<and> (128 \<le> at 1 \<and> at 1 < 192) \<and> 128 \<le> at 2 \<and> at 2 < 192 then 4
      else if n = 244 \<and> 128 \<le> at 0 \<and> at 0 < 144 \<and> (128 \<le> at 1 \<and> at 1 < 192) \<and> 128 \<le> at 2 \<and> at 2 < 192 then 4
      else 1)"
    by (simp only: assms(1) rune_width_def list.case Let_def n_def at_def)
  show ?thesis
    unfolding w n_def [symmetric] by (simp split: if_split)
qed

lemma in_take_upto:
  "c \<in> set (take 1 r) \<Longrightarrow> c = r ! 0" "c \<in> set (take 2 r) \<Longrightarrow> c = r ! 0 \<or> c = r ! 1"
  "c \<in> set (take 3 r) \<Longrightarrow> c = r ! 0 \<or> c = r ! 1 \<or> c = r ! 2"
  by (auto simp: in_set_conv_nth numeral_2_eq_2 numeral_3_eq_3 less_Suc_eq)

lemma rune_take_ascii:
  assumes "c \<in> set (take (rune_width s) s)" "is_ascii c" "s \<noteq> []"
  shows "take (rune_width s) s = [c]"
proof -
  from assms(3) obtain b r where s: "s = b # r" by (cases s) auto
  have one: "take (rune_width s) s = [c]" if "rune_width s = 1" using assms(1) that by (simp add: s)
  have "c = b \<or> c \<in> set (take (rune_width s - 1) r)"
    using assms(1) by (cases "rune_width s") (auto simp: s)
  then have False if "rune_width s \<noteq> 1"
    using that assms(2) rune_width_bytes [OF s] in_take_upto [of c r]
    by (elim disjE conjE) (auto simp: is_ascii_def split: if_splits)
  with one show ?thesis by blast
qed

lemma runes_ascii: "r \<in> set (runes s) \<Longrightarrow> c \<in> set r \<Longrightarrow> is_ascii c \<Longrightarrow> r = [c]"
proof (induction s rule: runes.induct)
  case (1 s)
  then show ?case using rune_take_ascii [of c s] by (cases "s = []") (auto simp: runes.simps [of s])
qed

definition is_space_rune :: "string \<Rightarrow> bool" where
  "is_space_rune r \<longleftrightarrow> r \<in> set space_runes"

text \<open>\<open>unicode.IsControl\<close>: U+0000 to U+001F and U+007F to U+009F.\<close>

definition is_control_rune :: "string \<Rightarrow> bool" where
  "is_control_rune r \<longleftrightarrow> (case r of
       [c] \<Rightarrow> (of_char c :: nat) < 32 \<or> (of_char c :: nat) = 127
     | [c, d] \<Rightarrow> (of_char c :: nat) = 194 \<and> (of_char d :: nat) < 160
     | _ \<Rightarrow> False)"

text \<open>Maximal runs of the runes a predicate rejects (\<open>strings.FieldsFunc\<close>).\<close>

fun group_runes :: "(string \<Rightarrow> bool) \<Rightarrow> string \<Rightarrow> string list \<Rightarrow> string list" where
  "group_runes p acc [] = (if acc = [] then [] else [acc])"
| "group_runes p acc (r # rs) =
     (if p r then (if acc = [] then group_runes p [] rs else acc # group_runes p [] rs)
      else group_runes p (acc @ r) rs)"

definition fields_runes :: "(string \<Rightarrow> bool) \<Rightarrow> string \<Rightarrow> string list" where
  "fields_runes p s = group_runes p [] (runes s)"

section \<open>Paths\<close>

text \<open>\<open>filepath.Base\<close> and \<open>filepath.Ext\<close> on Unix.\<close>

definition slash :: char where
  "slash = CHR 0x2F"

definition path_base :: "string \<Rightarrow> string" where
  "path_base p =
     (if p = [] then ''.''
      else (let q = rev (dropWhile (\<lambda>c. c = slash) (rev p))
            in if q = [] then [slash] else rev (takeWhile (\<lambda>c. c \<noteq> slash) (rev q))))"

definition path_ext :: "string \<Rightarrow> string" where
  "path_ext p =
     (let b = rev (takeWhile (\<lambda>c. c \<noteq> slash) (rev p));
          e = rev (takeWhile (\<lambda>c. c \<noteq> CHR ''.'') (rev b))
      in if CHR ''.'' \<in> set b then CHR ''.'' # e else [])"

text \<open>\<open>filepath.Clean\<close> on Unix: resolve \<open>.\<close> and \<open>..\<close> element by element.\<close>

fun clean_parts :: "bool \<Rightarrow> string list \<Rightarrow> string list \<Rightarrow> string list" where
  "clean_parts rooted acc [] = rev acc"
| "clean_parts rooted acc (p # ps) =
     (if p = [] \<or> p = ''.'' then clean_parts rooted acc ps
      else if p = ''..'' then
        (case acc of
           [] \<Rightarrow> if rooted then clean_parts rooted [] ps else clean_parts rooted [p] ps
         | a # as \<Rightarrow> if a = ''..'' then clean_parts rooted (p # acc) ps else clean_parts rooted as ps)
      else clean_parts rooted (p # acc) ps)"

definition path_is_abs :: "string \<Rightarrow> bool" where
  "path_is_abs p \<longleftrightarrow> (case p of [] \<Rightarrow> False | c # _ \<Rightarrow> c = slash)"

definition path_clean :: "string \<Rightarrow> string" where
  "path_clean p =
     (let rooted = path_is_abs p;
          body = join [slash] (clean_parts rooted [] (split_on slash p))
      in if rooted then slash # body else if body = [] then ''.'' else body)"

text \<open>\<open>filepath.Dir\<close>\<close>

definition path_dir :: "string \<Rightarrow> string" where
  "path_dir p = path_clean (rev (dropWhile (\<lambda>c. c \<noteq> slash) (rev p)))"

text \<open>\<open>filepath.Join\<close> of two non-empty elements.\<close>

definition path_join :: "string \<Rightarrow> string \<Rightarrow> string" where
  "path_join a b = path_clean (a @ [slash] @ b)"

section \<open>URLs\<close>

record url =
  url_Scheme :: string
  url_User :: bool
  url_Host :: string
  url_Path :: string
  url_RawQuery :: string
  url_Fragment :: string

definition url_is_abs :: "url \<Rightarrow> bool" where
  "url_is_abs u \<longleftrightarrow> url_Scheme u \<noteq> []"

text \<open>\<open>URL.Hostname\<close>: the host without a numeric port and without brackets.\<close>

definition url_hostname :: "url \<Rightarrow> string" where
  "url_hostname u =
     (let h = url_Host u;
          tail = rev (takeWhile (\<lambda>c. c \<noteq> CHR '':'') (rev h));
          stripped = (if CHR '':'' \<in> set h \<and> list_all ascii_digit tail
                      then take (length h - length tail - 1) h else h)
      in if prefix ''['' stripped \<and> suffix '']'' stripped \<and> 2 \<le> length stripped
         then butlast (tl stripped) else stripped)"

section \<open>JSON values\<close>

text \<open>
  A decoded payload (\<open>map[string]any\<close> with \<open>UseNumber\<close>): an object is the association list
  of its fields, with distinct names.
\<close>

datatype jval =
    JNull | JBool bool | JNum string | JStr string | JArr "jval list" | JObj "(string \<times> jval) list"

type_synonym payload = "(string \<times> jval) list"

section \<open>Parameters\<close>

text \<open>
  The parameters are total functions, the failure of the Go function a value: a template parses
  (\<open>None\<close>) or gives its error, a JSON object of headers is absent, \<open>null\<close> or a list in the order the
  map is visited.
\<close>

datatype html_token =
    StartTag string "(string \<times> string) list"
  | SelfClosingTag string "(string \<times> string) list"
  | EndTag string
  | OtherToken

text \<open>One more \<open>decoder.Decode\<close> on what is left of the input: end of input, an error, a value.\<close>

datatype json_next = JEof | JError err | JValue

type_synonym mail_address = "string \<times> string"

text \<open>The data an e-mail template sees (\<open>emailTemplateData\<close> in \<open>email_rendering.go\<close>).\<close>

record template_data =
  td_FormName :: string
  td_SubmittedAt :: string
  td_Fields :: "(string \<times> string) list"
  td_FieldList :: "(string \<times> string) list"

record golib =
  lib_lower :: "string \<Rightarrow> string"
  lib_letter :: "string \<Rightarrow> bool"
  lib_parse_ip :: "string \<Rightarrow> string option"
  lib_url_parse :: "string \<Rightarrow> url option"
  lib_url_string :: "url \<Rightarrow> string"
  lib_url_resolve :: "url \<Rightarrow> url \<Rightarrow> url"
  lib_parse_address :: "string \<Rightarrow> mail_address option"
  lib_parse_address_list :: "string \<Rightarrow> mail_address list option"
  lib_address_string :: "mail_address \<Rightarrow> string"
  lib_text_template :: "string \<Rightarrow> err option"
  lib_html_template :: "string \<Rightarrow> err option"
  lib_text_execute :: "string \<Rightarrow> template_data \<Rightarrow> err + string"
  lib_html_execute :: "string \<Rightarrow> template_data \<Rightarrow> err + string"
  lib_rfc3339 :: "gotime \<Rightarrow> string"
  lib_quote :: "string \<Rightarrow> string"
  lib_json_indent :: "jval \<Rightarrow> string"
  lib_html_tokens :: "string \<Rightarrow> html_token list \<times> bool"
  lib_header_name :: "string \<Rightarrow> bool"
  lib_header_value :: "string \<Rightarrow> bool"
  lib_json_headers :: "string \<Rightarrow> (string \<times> string) list option option"
  lib_json_headers_text :: "(string \<times> string) list option \<Rightarrow> string"
  lib_json_object :: "string \<Rightarrow> err + (payload \<times> string)"
  lib_json_next :: "string \<Rightarrow> json_next"
  lib_json_payload_text :: "payload \<Rightarrow> string"
  lib_bcrypt :: "string \<Rightarrow> err + string"
  lib_bcrypt_ok :: "string \<Rightarrow> string \<Rightarrow> bool"
  lib_sha256_hex :: "string \<Rightarrow> string"
  lib_detect_content_type :: "string \<Rightarrow> string"

text \<open>
  \<open>strings.ToLower\<close>: byte by byte on ASCII, the Unicode tables (\<open>lib_lower\<close>) otherwise.
\<close>

definition to_lower :: "golib \<Rightarrow> string \<Rightarrow> string" where
  "to_lower L s = (if list_all is_ascii s then map ascii_lower s else lib_lower L s)"

lemma is_ascii_lower [simp]: "is_ascii (ascii_lower c) = is_ascii c"
  by (auto simp: is_ascii_def ascii_lower_def)

lemma ascii_lower_idem [simp]: "ascii_lower (ascii_lower c) = ascii_lower c"
  by (auto simp: ascii_lower_def)

lemma list_all_is_ascii_lower [simp]: "list_all is_ascii (map ascii_lower s) = list_all is_ascii s"
  by (induction s) auto

lemma to_lower_ascii: "list_all is_ascii s \<Longrightarrow> to_lower L s = map ascii_lower s"
  by (simp add: to_lower_def)

lemma to_lower_idem_ascii: "list_all is_ascii s \<Longrightarrow> to_lower L (to_lower L s) = to_lower L s"
  by (simp add: to_lower_def comp_def)

lemma to_lower_Nil [simp]: "to_lower L [] = []"
  by (simp add: to_lower_def)

text \<open>\<open>unicode.IsLetter(r) || unicode.IsDigit(r)\<close>, on lower-case text.\<close>

definition slug_rune :: "golib \<Rightarrow> string \<Rightarrow> bool" where
  "slug_rune L r \<longleftrightarrow> (case r of
       [c] \<Rightarrow> ascii_letter c \<or> ascii_digit c
     | _ \<Rightarrow> lib_letter L r)"

end
