(* ===== verification/Models.thy ===== *)
theory Models
  imports Go_Lib
begin

text \<open>
  The data of the program: the rows of its SQLite tables (\<open>internal/forms/models.go\<close>,
  \<open>internal/accounts/accounts.go\<close>, \<open>internal/integrations/integrations.go\<close>), the database
  they live in, and the constructors of rows. A \<open>uint\<close> key is a \<open>nat\<close>, a nullable column an
  option. A timestamp is the number of nanoseconds since Go's zero time, so \<open>time.Time{}\<close> is 0.
  The \<open>UpdatedAt\<close> columns are left out: gorm writes them and nothing reads them.
  The webhook and the e-mail queue share their columns, so \<open>email_event\<close> extends
  \<open>delivery_event\<close> and the code that is generic over the model is polymorphic here.
\<close>

section \<open>Rows\<close>

record form =
  fm_ID :: nat
  fm_PublicID :: string
  fm_Name :: string
  fm_Slug :: string
  fm_Token :: string
  fm_AllowedOrigins :: string
  fm_GeneratedHTML :: string
  fm_UploadsEnabled :: bool
  fm_CaptchaProfileID :: "nat option"
  fm_CreatedAt :: gotime

record email_delivery =
  ed_ID :: nat
  ed_FormID :: nat
  ed_Name :: string
  ed_Enabled :: bool
  ed_MailerProfileID :: "nat option"
  ed_RecipientSource :: string
  ed_Recipient :: string
  ed_ReplyToSource :: string
  ed_ReplyTo :: string
  ed_SubjectTemplate :: string
  ed_Format :: string
  ed_TextTemplate :: string
  ed_HTMLTemplate :: string

record webhook_delivery =
  wd_ID :: nat
  wd_FormID :: nat
  wd_Enabled :: bool
  wd_URL :: string
  wd_Secret :: string
  wd_HeadersJSON :: string

record submission =
  sb_ID :: nat
  sb_FormID :: nat
  sb_DataJSON :: string
  sb_UserAgent :: string
  sb_IsSpam :: bool
  sb_CreatedAt :: gotime

record submission_file =
  sf_ID :: nat
  sf_SubmissionID :: nat
  sf_FieldName :: string
  sf_Filename :: string
  sf_ContentType :: string
  sf_Size :: int
  sf_StoragePath :: string

datatype status = Pending | Delivering | Delivered | Retrying | Failed

record delivery_event =
  ev_ID :: nat
  ev_SubmissionID :: nat
  ev_Status :: status
  ev_AttemptCount :: int
  ev_LastAttemptErr :: string
  ev_NextAttemptAt :: "gotime option"
  ev_LastAttemptAt :: "gotime option"
  ev_CreatedAt :: gotime

record email_event = delivery_event +
  ev_EmailDeliveryID :: "nat option"

record mailer_profile =
  mp_ID :: nat
  mp_Name :: string
  mp_DefaultFromName :: string
  mp_DefaultFromEmail :: string
  mp_SMTPHost :: string
  mp_SMTPPort :: int
  mp_SMTPUsername :: string
  mp_SMTPPassword :: string
  mp_SMTPEncryption :: string

record captcha_profile =
  cp_ID :: nat
  cp_Name :: string
  cp_SiteKey :: string
  cp_SecretKey :: string

record user =
  us_ID :: nat
  us_Email :: string
  us_PasswordHash :: string
  us_PasswordChangeRequired :: bool
  us_LastLoginAt :: "gotime option"

record active_session =
  as_TokenHash :: string
  as_UserID :: nat
  as_ExpiresAt :: gotime
  as_CreatedAt :: gotime

section \<open>The database\<close>

datatype table =
    TUsers | TMailers | TCaptchas | TForms | TEmailDeliveries | TWebhookDeliveries
  | TSubmissions | TFiles | TEmailEvents | TWebhookEvents

text \<open>\<open>seqs\<close> is the largest key each table has given out (\<open>AUTOINCREMENT\<close>).\<close>

record database =
  seqs :: "table \<Rightarrow> nat"
  users :: "user list"
  sessions :: "active_session list"
  mailers :: "mailer_profile list"
  captchas :: "captcha_profile list"
  forms :: "form list"
  email_deliveries :: "email_delivery list"
  webhook_deliveries :: "webhook_delivery list"
  submissions :: "submission list"
  submission_files :: "submission_file list"
  email_events :: "email_event list"
  webhook_events :: "delivery_event list"

type_synonym 'a db_prog = "(database, 'a) prog"

definition next_id :: "table \<Rightarrow> database \<Rightarrow> nat" where
  "next_id t d = Suc (seqs d t)"

definition take_id :: "table \<Rightarrow> database \<Rightarrow> database" where
  "take_id t d = d\<lparr>seqs := (seqs d)(t := Suc (seqs d t))\<rparr>"

definition empty_db :: database where
  "empty_db = \<lparr>seqs = (\<lambda>_. 0), users = [], sessions = [], mailers = [], captchas = [], forms = [],
     email_deliveries = [], webhook_deliveries = [], submissions = [], submission_files = [],
     email_events = [], webhook_events = []\<rparr>"

section \<open>Keyed tables\<close>

text \<open>
  What every table with an integer primary key promises: keys are distinct and none is beyond
  the sequence, so a row inserted under the next key is found again and disturbs no other row.
  The table's rows and its key column are the parameters; the interpretations below are the
  tables of the model.
\<close>

locale keyed_table =
  fixes key :: "'r \<Rightarrow> nat"
    and rekey :: "nat \<Rightarrow> 'r \<Rightarrow> 'r"
  assumes key_rekey: "key (rekey n r) = n"
begin

lemma find_inserted:
  assumes "\<forall>r\<in>set rows. key r \<le> n"
  shows "find (\<lambda>r. key r = Suc n) (rows @ [rekey (Suc n) x]) = Some (rekey (Suc n) x)"
proof -
  from assms have "filter (\<lambda>r. key r = Suc n) rows = []" by (fastforce simp: filter_empty_conv)
  then have "find (\<lambda>r. key r = Suc n) rows = None"
    by (simp add: find_None_iff filter_empty_conv)
  then show ?thesis by (induction rows) (auto simp: key_rekey split: if_splits)
qed

lemma find_other:
  assumes "\<forall>r\<in>set rows. key r \<le> n" "k \<le> n"
  shows "find (\<lambda>r. key r = k) (rows @ [rekey (Suc n) x]) = find (\<lambda>r. key r = k) rows"
  using assms by (induction rows) (auto simp: key_rekey)

lemma insert_distinct:
  assumes "distinct (map key rows)" "\<forall>r\<in>set rows. key r \<le> n"
  shows "distinct (map key (rows @ [rekey (Suc n) x]))"
  using assms by (fastforce simp: key_rekey)

lemma insert_bounded:
  assumes "\<forall>r\<in>set rows. key r \<le> n"
  shows "\<forall>r\<in>set (rows @ [rekey (Suc n) x]). key r \<le> Suc n"
  using assms by (auto simp: key_rekey le_SucI)

lemma update_by_key:
  assumes "distinct (map key rows)" "r \<in> set rows" "\<And>x. key (f x) = key x"
  shows "find (\<lambda>x. key x = key r) (update_where (\<lambda>x. key x = key r) f rows) = Some (f r)"
proof -
  from assms(3) have "map key (update_where (\<lambda>x. key x = key r) f rows) = map key rows"
    by (simp add: map_update_where)
  moreover have "f r \<in> set (update_where (\<lambda>x. key x = key r) f rows)"
    using assms(2) by (auto simp: set_update_where image_iff intro!: bexI [of _ r])
  ultimately show ?thesis
    using find_by_key_unique [of key "update_where (\<lambda>x. key x = key r) f rows" "f r"] assms
    by simp
qed

lemma delete_by_key:
  "find (\<lambda>x. key x = k) (delete_where (\<lambda>x. key x = k) rows) = None"
  by (auto simp: find_None_iff delete_where_def)

end

abbreviation "form_rekey n r \<equiv> r\<lparr>fm_ID := n\<rparr>"
abbreviation "email_delivery_rekey n r \<equiv> r\<lparr>ed_ID := n\<rparr>"
abbreviation "webhook_delivery_rekey n r \<equiv> r\<lparr>wd_ID := n\<rparr>"
abbreviation "submission_rekey n r \<equiv> r\<lparr>sb_ID := n\<rparr>"
abbreviation "file_rekey n r \<equiv> r\<lparr>sf_ID := n\<rparr>"
abbreviation "event_rekey n r \<equiv> r\<lparr>ev_ID := n\<rparr>"
abbreviation "mailer_rekey n r \<equiv> r\<lparr>mp_ID := n\<rparr>"
abbreviation "captcha_rekey n r \<equiv> r\<lparr>cp_ID := n\<rparr>"
abbreviation "user_rekey n r \<equiv> r\<lparr>us_ID := n\<rparr>"

interpretation forms_tab: keyed_table fm_ID "form_rekey :: nat \<Rightarrow> form \<Rightarrow> form"
  by unfold_locales simp

interpretation deliveries_tab: keyed_table ed_ID "email_delivery_rekey :: nat \<Rightarrow> email_delivery \<Rightarrow> email_delivery"
  by unfold_locales simp

interpretation hooks_tab: keyed_table wd_ID "webhook_delivery_rekey :: nat \<Rightarrow> webhook_delivery \<Rightarrow> webhook_delivery"
  by unfold_locales simp

interpretation submissions_tab: keyed_table sb_ID "submission_rekey :: nat \<Rightarrow> submission \<Rightarrow> submission"
  by unfold_locales simp

interpretation files_tab: keyed_table sf_ID "file_rekey :: nat \<Rightarrow> submission_file \<Rightarrow> submission_file"
  by unfold_locales simp

interpretation events_tab: keyed_table ev_ID "event_rekey :: nat \<Rightarrow> 'e delivery_event_scheme \<Rightarrow> 'e delivery_event_scheme"
  by unfold_locales simp

interpretation mailers_tab: keyed_table mp_ID "mailer_rekey :: nat \<Rightarrow> mailer_profile \<Rightarrow> mailer_profile"
  by unfold_locales simp

interpretation captchas_tab: keyed_table cp_ID "captcha_rekey :: nat \<Rightarrow> captcha_profile \<Rightarrow> captcha_profile"
  by unfold_locales simp

interpretation users_tab: keyed_table us_ID "user_rekey :: nat \<Rightarrow> user \<Rightarrow> user"
  by unfold_locales simp

end
