(* ===== verification/Store.thy ===== *)
theory Store
  imports Models
begin

text \<open>
  The statements the program issues, over the tables of \<open>Models\<close>: inserts with the unique and
  foreign-key constraints the models declare, updates, deletes with their cascades
  (\<open>OnDelete:CASCADE\<close>, \<open>SET NULL\<close>, \<open>RESTRICT\<close>), and the well-formedness of the database that
  every one of them keeps. The second half are the constructors and hooks of
  \<open>internal/forms/models.go\<close>.
\<close>

section \<open>Well-formed databases\<close>

definition keys_ok :: "('r \<Rightarrow> nat) \<Rightarrow> 'r list \<Rightarrow> nat \<Rightarrow> bool" where
  "keys_ok key rows n \<longleftrightarrow> sorted_wrt (<) (map key rows) \<and> (\<forall>r\<in>set rows. key r \<le> n)"

lemma keys_ok_Nil [simp]: "keys_ok key [] n"
  by (simp add: keys_ok_def)

lemma keys_ok_distinct: "keys_ok key rows n \<Longrightarrow> distinct (map key rows)"
  unfolding keys_ok_def by (metis strict_sorted_iff)

lemma keys_ok_insert: "keys_ok key rows n \<Longrightarrow> key r = Suc n \<Longrightarrow> keys_ok key (rows @ [r]) (Suc n)"
  by (auto simp: keys_ok_def sorted_wrt_append less_Suc_eq_le)

lemma keys_ok_update:
  "keys_ok key rows n \<Longrightarrow> (\<And>r. key (f r) = key r) \<Longrightarrow> keys_ok key (update_where p f rows) n"
  by (auto simp: keys_ok_def map_update_where set_update_where)

lemma keys_ok_delete: "keys_ok key rows n \<Longrightarrow> keys_ok key (delete_where p rows) n"
proof -
  assume k: "keys_ok key rows n"
  have "sorted_wrt (<) (map key (filter (\<lambda>r. \<not> p r) rows))" if "sorted_wrt (<) (map key rows)"
    using that by (simp add: sorted_wrt_map sorted_wrt_filter)
  with k show ?thesis by (simp add: keys_ok_def delete_where_def)
qed

definition ids_ok :: "database \<Rightarrow> bool" where
  "ids_ok d \<longleftrightarrow>
     keys_ok us_ID (users d) (seqs d TUsers)
   \<and> keys_ok mp_ID (mailers d) (seqs d TMailers)
   \<and> keys_ok cp_ID (captchas d) (seqs d TCaptchas)
   \<and> keys_ok fm_ID (forms d) (seqs d TForms)
   \<and> keys_ok ed_ID (email_deliveries d) (seqs d TEmailDeliveries)
   \<and> keys_ok wd_ID (webhook_deliveries d) (seqs d TWebhookDeliveries)
   \<and> keys_ok sb_ID (submissions d) (seqs d TSubmissions)
   \<and> keys_ok sf_ID (submission_files d) (seqs d TFiles)
   \<and> keys_ok ev_ID (email_events d) (seqs d TEmailEvents)
   \<and> keys_ok ev_ID (webhook_events d) (seqs d TWebhookEvents)"

definition uniques_ok :: "database \<Rightarrow> bool" where
  "uniques_ok d \<longleftrightarrow>
     distinct (map us_Email (users d))
   \<and> distinct (map as_TokenHash (sessions d))
   \<and> distinct (map mp_Name (mailers d))
   \<and> distinct (map cp_Name (captchas d))
   \<and> distinct (map fm_Slug (forms d))
   \<and> distinct (map fm_Token (forms d))
   \<and> distinct (map fm_PublicID (forms d))
   \<and> distinct (map wd_FormID (webhook_deliveries d))"

definition opt_ref :: "nat set \<Rightarrow> nat option \<Rightarrow> bool" where
  "opt_ref ids r \<longleftrightarrow> (case r of None \<Rightarrow> True | Some i \<Rightarrow> i \<in> ids)"

lemma opt_ref_simps [simp]: "opt_ref ids None" "opt_ref ids (Some i) \<longleftrightarrow> i \<in> ids"
  by (simp_all add: opt_ref_def)

lemma opt_ref_insert: "opt_ref A r \<Longrightarrow> opt_ref (insert a A) r"
  by (auto simp: opt_ref_def split: option.splits)

definition refs_ok :: "database \<Rightarrow> bool" where
  "refs_ok d \<longleftrightarrow>
     (\<forall>f\<in>set (forms d). opt_ref (cp_ID ` set (captchas d)) (fm_CaptchaProfileID f))
   \<and> (\<forall>e\<in>set (email_deliveries d). ed_FormID e \<in> fm_ID ` set (forms d)
          \<and> opt_ref (mp_ID ` set (mailers d)) (ed_MailerProfileID e))
   \<and> (\<forall>h\<in>set (webhook_deliveries d). wd_FormID h \<in> fm_ID ` set (forms d))
   \<and> (\<forall>s\<in>set (submissions d). sb_FormID s \<in> fm_ID ` set (forms d))
   \<and> (\<forall>f\<in>set (submission_files d). sf_SubmissionID f \<in> sb_ID ` set (submissions d))
   \<and> (\<forall>e\<in>set (webhook_events d). ev_SubmissionID e \<in> sb_ID ` set (submissions d))
   \<and> (\<forall>e\<in>set (email_events d). ev_SubmissionID e \<in> sb_ID ` set (submissions d)
          \<and> opt_ref (ed_ID ` set (email_deliveries d)) (ev_EmailDeliveryID e))"

definition db_ok :: "database \<Rightarrow> bool" where
  "db_ok d \<longleftrightarrow> ids_ok d \<and> uniques_ok d \<and> refs_ok d"

lemmas db_ok_defs = db_ok_def ids_ok_def uniques_ok_def refs_ok_def
lemmas keys_ok_rules = keys_ok_insert keys_ok_update keys_ok_delete

lemma db_ok_empty: "db_ok empty_db"
  by (simp add: db_ok_defs empty_db_def)

section \<open>Inserts\<close>

text \<open>A foreign key must name a row, a unique column must not repeat.\<close>

definition has_key :: "('r \<Rightarrow> nat) \<Rightarrow> 'r list \<Rightarrow> nat \<Rightarrow> bool" where
  "has_key key rows i \<longleftrightarrow> list_ex (\<lambda>r. key r = i) rows"

definition has_opt_key :: "('r \<Rightarrow> nat) \<Rightarrow> 'r list \<Rightarrow> nat option \<Rightarrow> bool" where
  "has_opt_key key rows r = (case r of None \<Rightarrow> True | Some i \<Rightarrow> has_key key rows i)"

definition taken :: "('r \<Rightarrow> string) \<Rightarrow> 'r list \<Rightarrow> string \<Rightarrow> bool" where
  "taken col rows v \<longleftrightarrow> list_ex (\<lambda>r. col r = v) rows"

lemma has_key_iff: "has_key key rows i \<longleftrightarrow> i \<in> key ` set rows"
  by (auto simp: has_key_def list_ex_iff)

lemma has_opt_key_iff: "has_opt_key key rows r \<longleftrightarrow> opt_ref (key ` set rows) r"
  by (simp add: has_opt_key_def opt_ref_def has_key_iff split: option.splits)

lemma taken_iff: "taken col rows v \<longleftrightarrow> v \<in> col ` set rows"
  by (auto simp: taken_def list_ex_iff)

definition insert_form :: "form \<Rightarrow> database \<Rightarrow> err + (nat \<times> database)" where
  "insert_form r d =
     (let i = next_id TForms d in
      if taken fm_PublicID (forms d) (fm_PublicID r) then Inl (unique_failed ''forms.public_id'')
      else if taken fm_Slug (forms d) (fm_Slug r) then Inl (unique_failed ''forms.slug'')
      else if taken fm_Token (forms d) (fm_Token r) then Inl (unique_failed ''forms.token'')
      else if \<not> has_opt_key cp_ID (captchas d) (fm_CaptchaProfileID r) then Inl foreign_key_failed
      else Inr (i, (take_id TForms d)\<lparr>forms := forms d @ [form_rekey i r]\<rparr>))"

definition insert_email_delivery :: "email_delivery \<Rightarrow> database \<Rightarrow> err + (nat \<times> database)" where
  "insert_email_delivery r d =
     (let i = next_id TEmailDeliveries d in
      if \<not> has_key fm_ID (forms d) (ed_FormID r) then Inl foreign_key_failed
      else if \<not> has_opt_key mp_ID (mailers d) (ed_MailerProfileID r) then Inl foreign_key_failed
      else Inr (i, (take_id TEmailDeliveries d)\<lparr>email_deliveries := email_deliveries d @ [email_delivery_rekey i r]\<rparr>))"

definition insert_webhook_delivery :: "webhook_delivery \<Rightarrow> database \<Rightarrow> err + (nat \<times> database)" where
  "insert_webhook_delivery r d =
     (let i = next_id TWebhookDeliveries d in
      if has_key wd_FormID (webhook_deliveries d) (wd_FormID r) then Inl (unique_failed ''webhook_deliveries.form_id'')
      else if \<not> has_key fm_ID (forms d) (wd_FormID r) then Inl foreign_key_failed
      else Inr (i, (take_id TWebhookDeliveries d)\<lparr>webhook_deliveries := webhook_deliveries d @ [webhook_delivery_rekey i r]\<rparr>))"

definition insert_submission :: "submission \<Rightarrow> database \<Rightarrow> err + (nat \<times> database)" where
  "insert_submission r d =
     (let i = next_id TSubmissions d in
      if \<not> has_key fm_ID (forms d) (sb_FormID r) then Inl foreign_key_failed
      else Inr (i, (take_id TSubmissions d)\<lparr>submissions := submissions d @ [submission_rekey i r]\<rparr>))"

definition insert_file :: "submission_file \<Rightarrow> database \<Rightarrow> err + (nat \<times> database)" where
  "insert_file r d =
     (let i = next_id TFiles d in
      if \<not> has_key sb_ID (submissions d) (sf_SubmissionID r) then Inl foreign_key_failed
      else Inr (i, (take_id TFiles d)\<lparr>submission_files := submission_files d @ [file_rekey i r]\<rparr>))"

definition insert_webhook_event :: "delivery_event \<Rightarrow> database \<Rightarrow> err + (nat \<times> database)" where
  "insert_webhook_event r d =
     (let i = next_id TWebhookEvents d in
      if \<not> has_key sb_ID (submissions d) (ev_SubmissionID r) then Inl foreign_key_failed
      else Inr (i, (take_id TWebhookEvents d)\<lparr>webhook_events := webhook_events d @ [event_rekey i r]\<rparr>))"

definition insert_email_event :: "email_event \<Rightarrow> database \<Rightarrow> err + (nat \<times> database)" where
  "insert_email_event r d =
     (let i = next_id TEmailEvents d in
      if \<not> has_key sb_ID (submissions d) (ev_SubmissionID r) then Inl foreign_key_failed
      else if \<not> has_opt_key ed_ID (email_deliveries d) (ev_EmailDeliveryID r) then Inl foreign_key_failed
      else Inr (i, (take_id TEmailEvents d)\<lparr>email_events := email_events d @ [event_rekey i r]\<rparr>))"

definition insert_mailer :: "mailer_profile \<Rightarrow> database \<Rightarrow> err + (nat \<times> database)" where
  "insert_mailer r d =
     (let i = next_id TMailers d in
      if taken mp_Name (mailers d) (mp_Name r) then Inl (unique_failed ''mailer_profiles.name'')
      else Inr (i, (take_id TMailers d)\<lparr>mailers := mailers d @ [mailer_rekey i r]\<rparr>))"

definition insert_captcha :: "captcha_profile \<Rightarrow> database \<Rightarrow> err + (nat \<times> database)" where
  "insert_captcha r d =
     (let i = next_id TCaptchas d in
      if taken cp_Name (captchas d) (cp_Name r) then Inl (unique_failed ''captcha_profiles.name'')
      else Inr (i, (take_id TCaptchas d)\<lparr>captchas := captchas d @ [captcha_rekey i r]\<rparr>))"

definition insert_user :: "user \<Rightarrow> database \<Rightarrow> err + (nat \<times> database)" where
  "insert_user r d =
     (let i = next_id TUsers d in
      if taken us_Email (users d) (us_Email r) then Inl (unique_failed ''users.email'')
      else Inr (i, (take_id TUsers d)\<lparr>users := users d @ [user_rekey i r]\<rparr>))"

section \<open>Updates and deletes\<close>

text \<open>An update that would repeat a unique column or break a reference fails as a whole.\<close>

definition checked :: "(database \<Rightarrow> err option) \<Rightarrow> 'a \<Rightarrow> database \<Rightarrow> err + ('a \<times> database)" where
  "checked violation x d = (case violation d of None \<Rightarrow> Inr (x, d) | Some e \<Rightarrow> Inl e)"

definition form_violation :: "database \<Rightarrow> err option" where
  "form_violation d =
     (if \<not> distinct (map fm_Slug (forms d)) then Some (unique_failed ''forms.slug'')
      else if \<not> distinct (map fm_Token (forms d)) then Some (unique_failed ''forms.token'')
      else if \<not> list_all (\<lambda>f. has_opt_key cp_ID (captchas d) (fm_CaptchaProfileID f)) (forms d)
      then Some foreign_key_failed else None)"

definition update_forms :: "(form \<Rightarrow> bool) \<Rightarrow> (form \<Rightarrow> form) \<Rightarrow> database \<Rightarrow> err + (nat \<times> database)" where
  "update_forms p f d =
     checked form_violation (count_where p (forms d)) (d\<lparr>forms := update_where p f (forms d)\<rparr>)"

definition delivery_violation :: "database \<Rightarrow> err option" where
  "delivery_violation d =
     (if list_all (\<lambda>e. has_opt_key mp_ID (mailers d) (ed_MailerProfileID e)) (email_deliveries d)
      then None else Some foreign_key_failed)"

definition update_email_deliveries ::
  "(email_delivery \<Rightarrow> bool) \<Rightarrow> (email_delivery \<Rightarrow> email_delivery) \<Rightarrow> database \<Rightarrow> err + (nat \<times> database)" where
  "update_email_deliveries p f d =
     checked delivery_violation (count_where p (email_deliveries d))
       (d\<lparr>email_deliveries := update_where p f (email_deliveries d)\<rparr>)"

definition delete_submissions :: "(submission \<Rightarrow> bool) \<Rightarrow> database \<Rightarrow> database" where
  "delete_submissions p d =
     (let gone = (\<lambda>i. list_ex (\<lambda>s. p s \<and> sb_ID s = i) (submissions d)) in
      d\<lparr>submissions := delete_where p (submissions d),
        submission_files := delete_where (\<lambda>f. gone (sf_SubmissionID f)) (submission_files d),
        email_events := delete_where (\<lambda>e. gone (ev_SubmissionID e)) (email_events d),
        webhook_events := delete_where (\<lambda>e. gone (ev_SubmissionID e)) (webhook_events d)\<rparr>)"

definition delete_email_deliveries :: "(email_delivery \<Rightarrow> bool) \<Rightarrow> database \<Rightarrow> database" where
  "delete_email_deliveries p d =
     (let gone = (\<lambda>r. case r of None \<Rightarrow> False | Some i \<Rightarrow> list_ex (\<lambda>e. p e \<and> ed_ID e = i) (email_deliveries d)) in
      d\<lparr>email_deliveries := delete_where p (email_deliveries d),
        email_events := update_where (\<lambda>e. gone (ev_EmailDeliveryID e)) (\<lambda>e. e\<lparr>ev_EmailDeliveryID := None\<rparr>) (email_events d)\<rparr>)"

definition delete_hooks :: "(webhook_delivery \<Rightarrow> bool) \<Rightarrow> database \<Rightarrow> database" where
  "delete_hooks p d = d\<lparr>webhook_deliveries := delete_where p (webhook_deliveries d)\<rparr>"

definition delete_forms :: "(form \<Rightarrow> bool) \<Rightarrow> database \<Rightarrow> database" where
  "delete_forms p d =
     (let gone = (\<lambda>i. list_ex (\<lambda>f. p f \<and> fm_ID f = i) (forms d));
          children_gone = delete_hooks (\<lambda>h. gone (wd_FormID h))
            (delete_email_deliveries (\<lambda>e. gone (ed_FormID e))
              (delete_submissions (\<lambda>s. gone (sb_FormID s)) d))
      in children_gone\<lparr>forms := delete_where p (forms d)\<rparr>)"

text \<open>Profiles are restricted: a referenced profile cannot be deleted.\<close>

definition delete_mailer :: "nat \<Rightarrow> database \<Rightarrow> err + (nat \<times> database)" where
  "delete_mailer i d =
     (if list_ex (\<lambda>e. ed_MailerProfileID e = Some i) (email_deliveries d) \<and> has_key mp_ID (mailers d) i
      then Inl foreign_key_failed
      else Inr (count_where (\<lambda>m. mp_ID m = i) (mailers d), d\<lparr>mailers := delete_where (\<lambda>m. mp_ID m = i) (mailers d)\<rparr>))"

definition delete_captcha :: "nat \<Rightarrow> database \<Rightarrow> err + (nat \<times> database)" where
  "delete_captcha i d =
     (if list_ex (\<lambda>f. fm_CaptchaProfileID f = Some i) (forms d) \<and> has_key cp_ID (captchas d) i
      then Inl foreign_key_failed
      else Inr (count_where (\<lambda>c. cp_ID c = i) (captchas d), d\<lparr>captchas := delete_where (\<lambda>c. cp_ID c = i) (captchas d)\<rparr>))"

text \<open>\<open>First\<close>: the row of least key that satisfies the condition, or \<open>ErrRecordNotFound\<close>.\<close>

definition first :: "(database \<Rightarrow> 'r list) \<Rightarrow> ('r \<Rightarrow> bool) \<Rightarrow> 'r db_prog" where
  "first tab p = bnd (query (\<lambda>d. find p (tab d)))
     (\<lambda>r. case r of None \<Rightarrow> fail (Sentinel ErrRecordNotFound) | Some x \<Rightarrow> ret x)"

definition count_rows :: "(database \<Rightarrow> 'r list) \<Rightarrow> ('r \<Rightarrow> bool) \<Rightarrow> nat db_prog" where
  "count_rows tab p = query (\<lambda>d. count_where p (tab d))"

lemma reads_first [tx_keeps]: "reads (first tab p)"
  unfolding first_def by (intro tx_keeps)

lemma reads_count_rows [tx_keeps]: "reads (count_rows tab p)"
  unfolding count_rows_def by (rule reads_query)

lemma first_InrE:
  assumes "first tab p w = (Inr r, w')"
  obtains "find p (tab (db w)) = Some r" "w' = w\<lparr>faults := tl (faults w)\<rparr>"
  using assms unfolding first_def
  by (auto elim!: bnd_InrE query_InrE split: option.splits)

lemma first_ok [tx_simps]:
  "faults w = [] \<Longrightarrow> first tab p w =
     (case find p (tab (db w)) of None \<Rightarrow> (Inl (Sentinel ErrRecordNotFound), w) | Some x \<Rightarrow> (Inr x, w))"
  by (simp add: first_def tx_simps split: option.splits)

lemma count_rows_ok [tx_simps]: "faults w = [] \<Longrightarrow> count_rows tab p w = (Inr (count_where p (tab (db w))), w)"
  by (simp add: count_rows_def query_ok)

section \<open>Every statement keeps the database well-formed\<close>

lemmas insert_defs = insert_form_def insert_email_delivery_def insert_webhook_delivery_def
  insert_submission_def insert_file_def insert_webhook_event_def insert_email_event_def
  insert_mailer_def insert_captcha_def insert_user_def

lemma seqs_take_id [row_simps]:
  "seqs (take_id t d) s = (if s = t then Suc (seqs d t) else seqs d s)"
  by (simp add: take_id_def)

lemma take_id_tables [row_simps]:
  "users (take_id t d) = users d" "sessions (take_id t d) = sessions d" "mailers (take_id t d) = mailers d"
  "captchas (take_id t d) = captchas d" "forms (take_id t d) = forms d"
  "email_deliveries (take_id t d) = email_deliveries d"
  "webhook_deliveries (take_id t d) = webhook_deliveries d" "submissions (take_id t d) = submissions d"
  "submission_files (take_id t d) = submission_files d" "email_events (take_id t d) = email_events d"
  "webhook_events (take_id t d) = webhook_events d"
  by (simp_all add: take_id_def)

lemma insert_form_ok: "db_ok d \<Longrightarrow> insert_form r d = Inr (i, d') \<Longrightarrow> db_ok d'"
  by (auto simp: insert_form_def Let_def next_id_def db_ok_defs row_simps keys_ok_insert taken_iff has_opt_key_iff
      split: if_splits)

lemma insert_email_delivery_ok: "db_ok d \<Longrightarrow> insert_email_delivery r d = Inr (i, d') \<Longrightarrow> db_ok d'"
  by (auto simp: insert_email_delivery_def Let_def next_id_def db_ok_defs row_simps keys_ok_insert has_key_iff has_opt_key_iff
      split: if_splits intro!: opt_ref_insert)

lemma insert_webhook_delivery_ok: "db_ok d \<Longrightarrow> insert_webhook_delivery r d = Inr (i, d') \<Longrightarrow> db_ok d'"
  by (auto simp: insert_webhook_delivery_def Let_def next_id_def db_ok_defs row_simps keys_ok_insert has_key_iff
      split: if_splits)

lemma insert_submission_ok: "db_ok d \<Longrightarrow> insert_submission r d = Inr (i, d') \<Longrightarrow> db_ok d'"
  by (auto simp: insert_submission_def Let_def next_id_def db_ok_defs row_simps keys_ok_insert has_key_iff
      split: if_splits)

lemma insert_file_ok: "db_ok d \<Longrightarrow> insert_file r d = Inr (i, d') \<Longrightarrow> db_ok d'"
  by (auto simp: insert_file_def Let_def next_id_def db_ok_defs row_simps keys_ok_insert has_key_iff
      split: if_splits)

lemma insert_webhook_event_ok: "db_ok d \<Longrightarrow> insert_webhook_event r d = Inr (i, d') \<Longrightarrow> db_ok d'"
  by (auto simp: insert_webhook_event_def Let_def next_id_def db_ok_defs row_simps keys_ok_insert has_key_iff
      split: if_splits)

lemma insert_email_event_ok: "db_ok d \<Longrightarrow> insert_email_event r d = Inr (i, d') \<Longrightarrow> db_ok d'"
  by (auto simp: insert_email_event_def Let_def next_id_def db_ok_defs row_simps keys_ok_insert has_key_iff has_opt_key_iff
      split: if_splits)

lemma insert_mailer_ok: "db_ok d \<Longrightarrow> insert_mailer r d = Inr (i, d') \<Longrightarrow> db_ok d'"
  by (auto simp: insert_mailer_def Let_def next_id_def db_ok_defs row_simps keys_ok_insert taken_iff
      split: if_splits intro!: opt_ref_insert)

lemma insert_captcha_ok: "db_ok d \<Longrightarrow> insert_captcha r d = Inr (i, d') \<Longrightarrow> db_ok d'"
  by (auto simp: insert_captcha_def Let_def next_id_def db_ok_defs row_simps keys_ok_insert taken_iff
      split: if_splits intro!: opt_ref_insert)

lemma insert_user_ok: "db_ok d \<Longrightarrow> insert_user r d = Inr (i, d') \<Longrightarrow> db_ok d'"
  by (auto simp: insert_user_def Let_def next_id_def db_ok_defs row_simps keys_ok_insert taken_iff
      split: if_splits)

lemmas inserts_ok = insert_form_ok insert_email_delivery_ok insert_webhook_delivery_ok
  insert_submission_ok insert_file_ok insert_webhook_event_ok insert_email_event_ok
  insert_mailer_ok insert_captcha_ok insert_user_ok

lemma keeps_insert [tx_keeps]:
  "keeps db_ok (stmt (insert_form r))" "keeps db_ok (stmt (insert_email_delivery r2))"
  "keeps db_ok (stmt (insert_webhook_delivery r3))" "keeps db_ok (stmt (insert_submission r4))"
  "keeps db_ok (stmt (insert_file r5))" "keeps db_ok (stmt (insert_webhook_event r6))"
  "keeps db_ok (stmt (insert_email_event r7))" "keeps db_ok (stmt (insert_mailer r8))"
  "keeps db_ok (stmt (insert_captcha r9))" "keeps db_ok (stmt (insert_user r10))"
  by (auto intro!: keeps_stmt intro: inserts_ok)

section \<open>Updates and deletes keep it too\<close>

lemma checked_Inr [simp]: "checked v x d = Inr (y, d') \<longleftrightarrow> v d = None \<and> x = y \<and> d' = d"
  by (auto simp: checked_def split: option.splits)

lemma update_forms_ok:
  assumes "db_ok d" "update_forms p f d = Inr (n, d')"
    and "\<And>r. fm_ID (f r) = fm_ID r" "\<And>r. fm_PublicID (f r) = fm_PublicID r"
  shows "db_ok d'"
proof -
  let ?F = "update_where p f (forms d)"
  from assms(2) have v: "form_violation (d\<lparr>forms := ?F\<rparr>) = None" and d': "d' = d\<lparr>forms := ?F\<rparr>"
    by (auto simp: update_forms_def)
  have ids: "fm_ID ` set ?F = fm_ID ` set (forms d)"
    using arg_cong [OF map_update_where [of p fm_ID f "forms d"], of set] assms(3) by simp
  have pub: "map fm_PublicID ?F = map fm_PublicID (forms d)"
    by (simp add: map_update_where assms(4))
  from v have "\<forall>x\<in>set ?F. opt_ref (cp_ID ` set (captchas d)) (fm_CaptchaProfileID x)"
    and "distinct (map fm_Slug ?F)" "distinct (map fm_Token ?F)"
    by (auto simp: form_violation_def list_all_iff has_opt_key_iff split: if_splits)
  with assms(1,3) d' ids pub show ?thesis
    by (simp add: db_ok_defs keys_ok_update)
qed

lemma update_email_deliveries_ok:
  assumes "db_ok d" "update_email_deliveries p f d = Inr (n, d')"
    and "\<And>r. ed_ID (f r) = ed_ID r" "\<And>r. ed_FormID (f r) = ed_FormID r"
  shows "db_ok d'"
proof -
  let ?E = "update_where p f (email_deliveries d)"
  from assms(2) have v: "delivery_violation (d\<lparr>email_deliveries := ?E\<rparr>) = None"
    and d': "d' = d\<lparr>email_deliveries := ?E\<rparr>"
    by (auto simp: update_email_deliveries_def)
  have ids: "ed_ID ` set ?E = ed_ID ` set (email_deliveries d)"
    using arg_cong [OF map_update_where [of p ed_ID f "email_deliveries d"], of set] assms(3) by simp
  have fk: "ed_FormID ` set ?E = ed_FormID ` set (email_deliveries d)"
    using arg_cong [OF map_update_where [of p ed_FormID f "email_deliveries d"], of set] assms(4) by simp
  from assms(1) have "ed_FormID ` set (email_deliveries d) \<subseteq> fm_ID ` set (forms d)"
    by (auto simp: db_ok_defs)
  with fk have "\<forall>x\<in>set ?E. ed_FormID x \<in> fm_ID ` set (forms d)" by blast
  moreover from v have "\<forall>x\<in>set ?E. opt_ref (mp_ID ` set (mailers d)) (ed_MailerProfileID x)"
    by (auto simp: delivery_violation_def list_all_iff has_opt_key_iff split: if_splits)
  ultimately show ?thesis using assms(1,3) d' ids
    by (simp add: db_ok_defs keys_ok_update)
qed

lemma delete_keeps_distinct: "distinct (map g rows) \<Longrightarrow> distinct (map g (delete_where p rows))"
  by (rule distinct_map_delete_where)

text \<open>A reference to a row that the delete does not select stays good.\<close>

lemma kept_ref:
  "x \<in> key ` set rows \<Longrightarrow> \<not> list_ex (\<lambda>r. p r \<and> key r = x) rows \<Longrightarrow> x \<in> key ` {r \<in> set rows. \<not> p r}"
  by (auto simp: list_ex_iff)

lemma kept_opt_ref:
  "opt_ref (key ` set rows) r \<Longrightarrow> r \<noteq> Some i \<Longrightarrow> opt_ref (key ` {x \<in> set rows. key x \<noteq> i}) r"
  by (auto simp: opt_ref_def split: option.splits)

lemma delete_submissions_ok: "db_ok d \<Longrightarrow> db_ok (delete_submissions p d)"
  unfolding db_ok_defs delete_submissions_def Let_def
  by (simp add: keys_ok_delete delete_keeps_distinct) (blast intro: kept_ref)

lemma opt_ref_gone:
  "opt_ref (ed_ID ` set rows) r \<Longrightarrow>
   \<not> (case r of None \<Rightarrow> False | Some i \<Rightarrow> list_ex (\<lambda>e. p e \<and> ed_ID e = i) rows) \<Longrightarrow>
   opt_ref (ed_ID ` {e \<in> set rows. \<not> p e}) r"
  by (auto simp: opt_ref_def list_ex_iff split: option.splits)

lemma ball_update_where:
  "(\<forall>x\<in>set (update_where p f rows). Q x) \<longleftrightarrow> (\<forall>r\<in>set rows. if p r then Q (f r) else Q r)"
  by (auto simp: set_update_where split: if_splits)

lemma delete_email_deliveries_ok: "db_ok d \<Longrightarrow> db_ok (delete_email_deliveries p d)"
  unfolding db_ok_defs delete_email_deliveries_def Let_def
  by (simp add: keys_ok_delete keys_ok_update ball_update_where opt_ref_gone)

lemma delete_hooks_ok: "db_ok d \<Longrightarrow> db_ok (delete_hooks p d)"
  unfolding db_ok_defs delete_hooks_def
  by (simp add: keys_ok_delete delete_keeps_distinct)

lemma drop_forms_ok:
  assumes "db_ok d"
    and "\<forall>s\<in>set (submissions d). \<not> list_ex (\<lambda>f. p f \<and> fm_ID f = sb_FormID s) (forms d)"
    and "\<forall>e\<in>set (email_deliveries d). \<not> list_ex (\<lambda>f. p f \<and> fm_ID f = ed_FormID e) (forms d)"
    and "\<forall>h\<in>set (webhook_deliveries d). \<not> list_ex (\<lambda>f. p f \<and> fm_ID f = wd_FormID h) (forms d)"
  shows "db_ok (d\<lparr>forms := delete_where p (forms d)\<rparr>)"
  using assms unfolding db_ok_defs
  by (simp add: keys_ok_delete delete_keeps_distinct kept_ref)

lemmas delete_simps = delete_submissions_def delete_email_deliveries_def delete_hooks_def Let_def

lemma delete_forms_ok:
  assumes "db_ok d"
  shows "db_ok (delete_forms p d)"
proof -
  define gone where "gone = (\<lambda>i. list_ex (\<lambda>f. p f \<and> fm_ID f = i) (forms d))"
  define d3 where "d3 = delete_hooks (\<lambda>h. gone (wd_FormID h))
    (delete_email_deliveries (\<lambda>e. gone (ed_FormID e)) (delete_submissions (\<lambda>s. gone (sb_FormID s)) d))"
  have ok: "db_ok d3"
    unfolding d3_def by (intro delete_hooks_ok delete_email_deliveries_ok delete_submissions_ok assms)
  have f: "forms d3 = forms d" by (simp add: d3_def delete_simps)
  have "\<forall>s\<in>set (submissions d3). \<not> gone (sb_FormID s)" "\<forall>e\<in>set (email_deliveries d3). \<not> gone (ed_FormID e)"
    "\<forall>h\<in>set (webhook_deliveries d3). \<not> gone (wd_FormID h)"
    by (simp_all add: d3_def delete_simps)
  then have "db_ok (d3\<lparr>forms := delete_where p (forms d3)\<rparr>)"
    using ok by (intro drop_forms_ok) (simp_all add: gone_def f)
  then show ?thesis by (simp add: delete_forms_def Let_def d3_def gone_def [symmetric] f [unfolded d3_def])
qed

lemma delete_mailer_ok: "db_ok d \<Longrightarrow> delete_mailer i d = Inr (n, d') \<Longrightarrow> db_ok d'"
  unfolding db_ok_defs delete_mailer_def
  by (clarsimp simp: keys_ok_delete delete_keeps_distinct has_key_iff list_ex_iff split: if_splits)
    (fastforce intro: kept_opt_ref)+

lemma delete_captcha_ok: "db_ok d \<Longrightarrow> delete_captcha i d = Inr (n, d') \<Longrightarrow> db_ok d'"
  unfolding db_ok_defs delete_captcha_def
  by (clarsimp simp: keys_ok_delete delete_keeps_distinct has_key_iff list_ex_iff split: if_splits)
    (fastforce intro: kept_opt_ref)+

text \<open>An update of the other columns of the event queues, the hooks, the profiles and the users.\<close>

lemma update_webhook_events_ok:
  "db_ok d \<Longrightarrow> (\<And>e. ev_ID (f e) = ev_ID e) \<Longrightarrow> (\<And>e. ev_SubmissionID (f e) = ev_SubmissionID e) \<Longrightarrow>
   db_ok (d\<lparr>webhook_events := update_where p f (webhook_events d)\<rparr>)"
  by (auto simp: db_ok_defs keys_ok_update set_update_where)

lemma update_email_events_ok:
  "db_ok d \<Longrightarrow> (\<And>e. ev_ID (f e) = ev_ID e) \<Longrightarrow> (\<And>e. ev_SubmissionID (f e) = ev_SubmissionID e) \<Longrightarrow>
   (\<And>e. ev_EmailDeliveryID (f e) = ev_EmailDeliveryID e) \<Longrightarrow>
   db_ok (d\<lparr>email_events := update_where p f (email_events d)\<rparr>)"
  by (auto simp: db_ok_defs keys_ok_update set_update_where)

lemma update_hooks_ok:
  "db_ok d \<Longrightarrow> (\<And>h. wd_ID (f h) = wd_ID h) \<Longrightarrow> (\<And>h. wd_FormID (f h) = wd_FormID h) \<Longrightarrow>
   db_ok (d\<lparr>webhook_deliveries := update_where p f (webhook_deliveries d)\<rparr>)"
  by (auto simp: db_ok_defs keys_ok_update set_update_where map_update_where)

lemma update_users_ok:
  "db_ok d \<Longrightarrow> (\<And>u. us_ID (f u) = us_ID u) \<Longrightarrow> distinct (map us_Email (update_where p f (users d))) \<Longrightarrow>
   db_ok (d\<lparr>users := update_where p f (users d)\<rparr>)"
  by (auto simp: db_ok_defs keys_ok_update)

lemma delete_sessions_ok: "db_ok d \<Longrightarrow> db_ok (d\<lparr>sessions := delete_where p (sessions d)\<rparr>)"
  by (simp add: db_ok_defs delete_keeps_distinct)

end
