(* ===== verification/Origins.thy ===== *)
theory Origins
  imports Store
begin

text \<open>
  Origin policies (\<open>internal/forms/origins.go\<close>, \<open>internal/forms/validation.go\<close>): which hosts a
  form accepts, how the configured list is normalised, which redirect targets are allowed.
\<close>

section \<open>Matching\<close>

definition normalizedHost :: "golib \<Rightarrow> string \<Rightarrow> string" where
  "normalizedHost L value =
     (let v = trim_space value in
      if v = [] then []
      else if lib_parse_ip L v \<noteq> None then to_lower L v
      else (case lib_url_parse L v of
              Some u \<Rightarrow>
                if url_hostname u \<noteq> [] then to_lower L (url_hostname u)
                else (case lib_url_parse L (''//'' @ v) of Some u2 \<Rightarrow> to_lower L (url_hostname u2) | None \<Rightarrow> [])
            | None \<Rightarrow>
                (case lib_url_parse L (''//'' @ v) of Some u2 \<Rightarrow> to_lower L (url_hostname u2) | None \<Rightarrow> [])))"

definition entry_host :: "golib \<Rightarrow> string \<Rightarrow> string" where
  "entry_host L entry = normalizedHost L (trim_prefix ''.'' (trim_prefix ''*.'' (trim_space entry)))"

definition originMatches :: "golib \<Rightarrow> string \<Rightarrow> string \<Rightarrow> bool" where
  "originMatches L host entry \<longleftrightarrow>
     (if trim_space entry = ''*'' then True
      else entry_host L entry \<noteq> []
        \<and> (host = entry_host L entry \<or> suffix (''.'' @ entry_host L entry) host))"

definition IsOriginAllowed :: "golib \<Rightarrow> string \<Rightarrow> string \<Rightarrow> bool" where
  "IsOriginAllowed L origins host =
     (let allowedOrigins = trim_space origins;
          entries = split_on (CHR '','') allowedOrigins
      in if allowedOrigins = [] then False
         else if list_ex (\<lambda>entry. trim_space entry = ''*'') entries then True
         else (let h = normalizedHost L host in
               if h = [] then False else list_ex (originMatches L h) entries))"

definition http_scheme :: "string \<Rightarrow> bool" where
  "http_scheme s \<longleftrightarrow> equal_fold s ''http'' \<or> equal_fold s ''https''"

definition ValidateRedirectURL :: "golib \<Rightarrow> string \<Rightarrow> string \<Rightarrow> err + unit" where
  "ValidateRedirectURL L origins target0 =
     (let target = trim_space target0 in
      if target = [] then Inr ()
      else if prefix ''//'' target \<or> CHR 0x5C \<in> set target then Inl (Sentinel ErrRedirectNotAllowed)
      else (case lib_url_parse L target of
              None \<Rightarrow> Inl (Sentinel ErrInvalidRedirect)
            | Some parsed \<Rightarrow>
                if \<not> url_is_abs parsed \<and> url_Host parsed = [] then Inr ()
                else if trim_space origins = [] then Inl (Sentinel ErrOriginsRequired)
                else if url_Scheme parsed \<noteq> [] \<and> \<not> http_scheme (url_Scheme parsed)
                then Inl (Sentinel ErrRedirectNotAllowed)
                else if url_hostname parsed = [] then Inl (Sentinel ErrRedirectNotAllowed)
                else if trim_space origins = ''*'' then Inl (Sentinel ErrRedirectNotAllowed)
                else if IsOriginAllowed L origins (url_hostname parsed) then Inr ()
                else Inl (Sentinel ErrRedirectNotAllowed)))"

section \<open>Normalising the configured list\<close>

definition originHost :: "golib \<Rightarrow> string \<Rightarrow> err + string" where
  "originHost L value =
     (if lib_parse_ip L value \<noteq> None then Inr value
      else if str_contains ''://'' value then
        (case lib_url_parse L value of
           None \<Rightarrow> Inl (Plain ''invalid origin URL'')
         | Some parsed \<Rightarrow>
             if url_User parsed \<or> url_hostname parsed = [] \<or> \<not> http_scheme (url_Scheme parsed)
             then Inl (Plain ''invalid origin URL'') else Inr (url_hostname parsed))
      else
        (case lib_url_parse L (''//'' @ value) of
           None \<Rightarrow> Inl (Plain ''invalid origin host'')
         | Some parsed \<Rightarrow>
             if url_User parsed \<or> url_hostname parsed = [] \<or> url_Path parsed \<noteq> []
                \<or> url_RawQuery parsed \<noteq> [] \<or> url_Fragment parsed \<noteq> []
             then Inl (Plain ''invalid origin host'') else Inr (url_hostname parsed)))"

definition host_char :: "char \<Rightarrow> bool" where
  "host_char c \<longleftrightarrow> ascii_letter c \<or> ascii_digit c \<or> c = CHR ''-''"

definition valid_label :: "string \<Rightarrow> bool" where
  "valid_label label \<longleftrightarrow>
     label \<noteq> [] \<and> length label \<le> 63 \<and> hd label \<noteq> CHR ''-'' \<and> last label \<noteq> CHR ''-''
     \<and> list_all host_char label"

definition validOriginHost :: "golib \<Rightarrow> string \<Rightarrow> bool" where
  "validOriginHost L host \<longleftrightarrow>
     lib_parse_ip L host \<noteq> None
     \<or> (host \<noteq> [] \<and> length host \<le> 253 \<and> list_all valid_label (split_on (CHR ''.'') host))"

definition origins_invalid :: "string \<Rightarrow> err" where
  "origins_invalid m = Validation ''allowed_origins'' m"

text \<open>The loop over the entries; \<open>normalized\<close> is also the set \<open>seen\<close> of the code.\<close>

fun normalize_entries :: "golib \<Rightarrow> string list \<Rightarrow> string list \<Rightarrow> err + string" where
  "normalize_entries L normalized [] = Inr (join '', '' normalized)"
| "normalize_entries L normalized (raw # rest) =
     (let entry = trim_space raw in
      if entry = [] then Inl (origins_invalid ''Allowed origins must be a comma-separated list of hosts or *'')
      else if entry = ''*'' then Inr ''*''
      else (let wildcard = prefix ''*.'' entry;
                bare = (if wildcard then trim_prefix ''*.'' entry else entry)
            in if CHR ''*'' \<in> set bare
               then Inl (origins_invalid ''Wildcards are allowed only as a leading *.'')
               else (case originHost L bare of
                       Inl _ \<Rightarrow> Inl (origins_invalid ''Each allowed origin must be a valid HTTP host'')
                     | Inr host \<Rightarrow>
                         if \<not> validOriginHost L host
                         then Inl (origins_invalid ''Each allowed origin must be a valid HTTP host'')
                         else (let h = (if wildcard then ''*.'' else []) @ to_lower L host in
                               if h \<in> set normalized then normalize_entries L normalized rest
                               else normalize_entries L (normalized @ [h]) rest))))"

definition normalizeAllowedOrigins :: "golib \<Rightarrow> string \<Rightarrow> err + string" where
  "normalizeAllowedOrigins L value = normalize_entries L [] (split_on (CHR '','') value)"

section \<open>What is allowed\<close>

text \<open>A host under another: equal, or ending in a dot and the other.\<close>

definition host_under :: "string \<Rightarrow> string \<Rightarrow> bool" where
  "host_under host allowed \<longleftrightarrow> host = allowed \<or> (\<exists>sub. host = sub @ ''.'' @ allowed)"

definition wildcard_entry :: "string \<Rightarrow> bool" where
  "wildcard_entry origins \<longleftrightarrow>
     (\<exists>entry\<in>set (split_on (CHR '','') (trim_space origins)). trim_space entry = ''*'')"

lemma IsOriginAllowed_cases:
  "IsOriginAllowed L origins host \<longleftrightarrow>
     trim_space origins \<noteq> [] \<and>
     (wildcard_entry origins \<or>
      (normalizedHost L host \<noteq> [] \<and>
       (\<exists>entry\<in>set (split_on (CHR '','') (trim_space origins)).
          entry_host L entry \<noteq> [] \<and> host_under (normalizedHost L host) (entry_host L entry))))"
  by (auto simp: IsOriginAllowed_def Let_def wildcard_entry_def list_ex_iff originMatches_def
      host_under_def suffix_def)

text \<open>An entry of a normalised list: a lower-cased valid host, possibly behind \<open>*.\<close>.\<close>

definition normal_entry :: "golib \<Rightarrow> string \<Rightarrow> bool" where
  "normal_entry L e \<longleftrightarrow>
     (\<exists>host. validOriginHost L host \<and> (e = to_lower L host \<or> e = ''*.'' @ to_lower L host))"

lemma normalize_entries_result:
  assumes "normalize_entries L normalized entries = Inr r"
    and "distinct normalized" "\<forall>e\<in>set normalized. normal_entry L e"
  shows "r = ''*'' \<or> (\<exists>hs. r = join '', '' hs \<and> distinct hs \<and> (\<forall>e\<in>set hs. normal_entry L e)
           \<and> (entries \<noteq> [] \<or> normalized \<noteq> [] \<longrightarrow> hs \<noteq> []))"
  using assms
proof (induction entries arbitrary: normalized)
  case Nil
  then show ?case by auto
next
  case (Cons raw rest)
  let ?entry = "trim_space raw"
  let ?wild = "prefix ''*.'' ?entry"
  let ?bare = "if ?wild then trim_prefix ''*.'' ?entry else ?entry"
  show ?case
  proof (cases "?entry = ''*''")
    case True
    with Cons.prems(1) show ?thesis by simp
  next
    case False
    with Cons.prems(1) obtain host where host: "originHost L ?bare = Inr host" "validOriginHost L host"
      by (auto simp: Let_def split: if_splits sum.splits)
    let ?h = "(if ?wild then ''*.'' else []) @ to_lower L host"
    have h: "normal_entry L ?h" using host(2) by (auto simp: normal_entry_def)
    show ?thesis
    proof (cases "?h \<in> set normalized")
      case True
      with Cons.prems(1) False host have "normalize_entries L normalized rest = Inr r"
        by (auto simp: Let_def split: if_splits)
      moreover from True have "normalized \<noteq> []" by auto
      ultimately show ?thesis using Cons.IH [of normalized] Cons.prems(2,3) by blast
    next
      case new: False
      with Cons.prems(1) False host have "normalize_entries L (normalized @ [?h]) rest = Inr r"
        by (auto simp: Let_def split: if_splits)
      from Cons.IH [OF this] Cons.prems(2,3) new h show ?thesis by auto
    qed
  qed
qed

lemma normalizeAllowedOrigins_result:
  assumes "normalizeAllowedOrigins L v = Inr r"
  shows "r = ''*'' \<or> (\<exists>hs. r = join '', '' hs \<and> hs \<noteq> [] \<and> distinct hs \<and> (\<forall>e\<in>set hs. normal_entry L e))"
  using normalize_entries_result [of L "[]" "split_on (CHR '','') v" r] assms
  by (auto simp: normalizeAllowedOrigins_def)

end
