(* ===== verification/Form_Model.thy ===== *)
theory Form_Model
  imports Store
begin

text \<open>
  \<open>internal/forms/models.go\<close>: random identifiers, slugs, the \<open>BeforeCreate\<close> hook of a form
  and the constructors of delivery events.
\<close>

definition GeneratePublicID :: "string db_prog" where
  "GeneratePublicID = randomHex 10"

definition generateToken :: "nat \<Rightarrow> string db_prog" where
  "generateToken byteCount = randomHex byteCount"

definition slug_parts :: "golib \<Rightarrow> string \<Rightarrow> string list" where
  "slug_parts L value = fields_runes (\<lambda>r. \<not> slug_rune L r) (to_lower L value)"

definition Slugify :: "golib \<Rightarrow> string \<Rightarrow> string db_prog" where
  "Slugify L value =
     (if slug_parts L value = [] then GeneratePublicID else ret (join ''-'' (slug_parts L value)))"

definition BeforeCreate :: "golib \<Rightarrow> form \<Rightarrow> form db_prog" where
  "BeforeCreate L f =
     bnd (if fm_PublicID f = []
          then bnd (wrap_err ''generate form public ID'' GeneratePublicID) (\<lambda>i. ret (f\<lparr>fm_PublicID := i\<rparr>))
          else ret f) (\<lambda>f.
     bnd (if fm_Token f = []
          then bnd (wrap_err ''generate form token'' (generateToken 24)) (\<lambda>t. ret (f\<lparr>fm_Token := t\<rparr>))
          else ret f) (\<lambda>f.
     if fm_Slug f = []
     then bnd (wrap_err ''generate form slug'' (Slugify L (fm_Name f))) (\<lambda>s. ret (f\<lparr>fm_Slug := s\<rparr>))
     else ret f))"

definition NewWebhookEvent :: "nat \<Rightarrow> gotime \<Rightarrow> delivery_event" where
  "NewWebhookEvent submissionID scheduledAt =
     \<lparr>ev_ID = 0, ev_SubmissionID = submissionID, ev_Status = Pending, ev_AttemptCount = 0,
      ev_LastAttemptErr = [], ev_NextAttemptAt = Some scheduledAt, ev_LastAttemptAt = None, ev_CreatedAt = 0\<rparr>"

definition NewEmailEvent :: "nat \<Rightarrow> gotime \<Rightarrow> nat list \<Rightarrow> email_event" where
  "NewEmailEvent submissionID scheduledAt emailDeliveryID =
     \<lparr>ev_ID = 0, ev_SubmissionID = submissionID, ev_Status = Pending, ev_AttemptCount = 0,
      ev_LastAttemptErr = [], ev_NextAttemptAt = Some scheduledAt, ev_LastAttemptAt = None, ev_CreatedAt = 0,
      ev_EmailDeliveryID = (case emailDeliveryID of [] \<Rightarrow> None | i # _ \<Rightarrow> Some i)\<rparr>"

text \<open>
  \<open>tx.Create\<close>: gorm runs the hook, stamps \<open>CreatedAt\<close> and inserts; a form takes its webhook
  row and its e-mail rows with it, each under the new form's key.
\<close>

definition create_form_row ::
  "golib \<Rightarrow> form \<Rightarrow> email_delivery list \<Rightarrow> webhook_delivery \<Rightarrow> form db_prog" where
  "create_form_row L f emails hook =
     bnd (BeforeCreate L f) (\<lambda>f.
     bnd time_now (\<lambda>now.
     bnd (stmt (insert_form (f\<lparr>fm_CreatedAt := now\<rparr>))) (\<lambda>i.
     bnd (stmt (insert_webhook_delivery (hook\<lparr>wd_FormID := i\<rparr>))) (\<lambda>_.
     bnd (each (\<lambda>e. bnd (stmt (insert_email_delivery (e\<lparr>ed_FormID := i\<rparr>))) (\<lambda>_. ret ())) emails) (\<lambda>_.
     ret (f\<lparr>fm_ID := i, fm_CreatedAt := now\<rparr>))))))"

definition create_submission_row :: "submission \<Rightarrow> submission db_prog" where
  "create_submission_row s =
     bnd time_now (\<lambda>now.
     bnd (stmt (insert_submission (s\<lparr>sb_CreatedAt := now\<rparr>))) (\<lambda>i.
     ret (s\<lparr>sb_ID := i, sb_CreatedAt := now\<rparr>)))"

definition create_webhook_event :: "delivery_event \<Rightarrow> nat db_prog" where
  "create_webhook_event e =
     bnd time_now (\<lambda>now. stmt (insert_webhook_event (e\<lparr>ev_CreatedAt := now\<rparr>)))"

definition create_email_event :: "email_event \<Rightarrow> nat db_prog" where
  "create_email_event e =
     bnd time_now (\<lambda>now. stmt (insert_email_event (e\<lparr>ev_CreatedAt := now\<rparr>)))"

section \<open>Frames and invariants\<close>

lemma reads_GeneratePublicID [tx_keeps]: "reads GeneratePublicID"
  unfolding GeneratePublicID_def by (rule tx_keeps)

lemma reads_generateToken [tx_keeps]: "reads (generateToken n)"
  unfolding generateToken_def by (rule tx_keeps)

lemma reads_Slugify [tx_keeps]: "reads (Slugify L v)"
  unfolding Slugify_def by (intro tx_keeps)

lemma reads_BeforeCreate [tx_keeps]: "reads (BeforeCreate L f)"
  unfolding BeforeCreate_def by (intro tx_keeps)

lemma keeps_create_form_row [tx_keeps]: "keeps db_ok (create_form_row L f emails hook)"
  unfolding create_form_row_def
  by (intro tx_keeps keeps_reads [OF reads_BeforeCreate] keeps_reads [OF reads_time_now])

lemma keeps_create_submission_row [tx_keeps]: "keeps db_ok (create_submission_row s)"
  unfolding create_submission_row_def by (intro tx_keeps keeps_reads [OF reads_time_now])

lemma keeps_create_webhook_event [tx_keeps]: "keeps db_ok (create_webhook_event e)"
  unfolding create_webhook_event_def by (intro tx_keeps keeps_reads [OF reads_time_now])

lemma keeps_create_email_event [tx_keeps]: "keeps db_ok (create_email_event e)"
  unfolding create_email_event_def by (intro tx_keeps keeps_reads [OF reads_time_now])

section \<open>Slugs\<close>

definition slug_char :: "char \<Rightarrow> bool" where
  "slug_char c \<longleftrightarrow> (97 \<le> (of_char c :: nat) \<and> (of_char c :: nat) \<le> 122) \<or> ascii_digit c"

lemma group_runes_pieces:
  assumes "g \<in> set (group_runes p acc rs)"
  shows "g \<noteq> [] \<and> set g \<subseteq> set acc \<union> \<Union> (set ` {r \<in> set rs. \<not> p r})
    \<or> g = []"
  using assms
proof (induction rs arbitrary: acc)
  case Nil
  then show ?case by (auto split: if_splits)
next
  case (Cons r rs)
  show ?case
  proof (cases "p r")
    case True
    with Cons.prems have "g = acc \<and> acc \<noteq> [] \<or> g \<in> set (group_runes p [] rs)"
      by (auto split: if_splits)
    then show ?thesis
    proof
      assume "g = acc \<and> acc \<noteq> []" then show ?thesis by auto
    next
      assume "g \<in> set (group_runes p [] rs)"
      from Cons.IH [OF this] show ?thesis by auto
    qed
  next
    case False
    with Cons.prems have "g \<in> set (group_runes p (acc @ r) rs)" by simp
    from Cons.IH [OF this] False show ?thesis by auto
  qed
qed

lemma group_runes_nonempty: "[] \<notin> set rs \<Longrightarrow> g \<in> set (group_runes p acc rs) \<Longrightarrow> g \<noteq> []"
  by (induction p acc rs rule: group_runes.induct) (auto split: if_splits)

lemma runes_nonempty: "[] \<notin> set (runes s)"
proof (induction s rule: runes.induct)
  case (1 s)
  then show ?case
    using rune_width_pos [of s] by (cases "s = []") (auto simp: runes.simps [of s])
qed

lemma fields_runes_pieces:
  "g \<in> set (fields_runes p s) \<Longrightarrow> g \<noteq> [] \<and> set g \<subseteq> \<Union> (set ` {r \<in> set (runes s). \<not> p r})"
  unfolding fields_runes_def
  using group_runes_pieces [of g p "[]" "runes s"] group_runes_nonempty runes_nonempty by fastforce

lemma rune_ascii: "r \<in> set (runes s) \<Longrightarrow> list_all is_ascii s \<Longrightarrow> \<exists>c. r = [c] \<and> c \<in> set s"
proof (induction s rule: runes.induct)
  case (1 s)
  then obtain c t where s: "s = c # t" by (cases s) auto
  with "1.prems" have "(of_char c :: nat) < 128" by (simp add: is_ascii_def)
  then have "rune_width s = 1" by (simp add: s rune_width_def Let_def)
  with "1.prems" "1.IH" s show ?case by (auto simp: runes.simps [of "c # t"])
qed

lemma set_join: "set (join sep xs) \<subseteq> set sep \<union> \<Union> (set ` set xs)"
  by (induction sep xs rule: join.induct) auto

lemma join_nonempty: "xs \<noteq> [] \<Longrightarrow> [] \<notin> set xs \<Longrightarrow> join sep xs \<noteq> []"
  by (induction sep xs rule: join.induct) auto

lemma slug_rune_lower: "slug_rune L [ascii_lower c] \<Longrightarrow> slug_char (ascii_lower c)"
  by (auto simp: slug_rune_def slug_char_def ascii_lower_def ascii_letter_def ascii_digit_def split: if_splits)

lemma slug_parts_chars:
  assumes "list_all is_ascii value" "g \<in> set (slug_parts L value)"
  shows "g \<noteq> [] \<and> (\<forall>c\<in>set g. slug_char c)"
proof -
  let ?low = "map ascii_lower value"
  have g: "g \<in> set (fields_runes (\<lambda>r. \<not> slug_rune L r) ?low)"
    using assms by (simp add: slug_parts_def to_lower_ascii)
  have "slug_char c" if "c \<in> set g" for c
  proof -
    from fields_runes_pieces [OF g] that obtain r where r: "r \<in> set (runes ?low)" "slug_rune L r" "c \<in> set r"
      by auto
    with rune_ascii [of r ?low] assms(1) obtain c' where "r = [ascii_lower c']" by auto
    with r slug_rune_lower show ?thesis by auto
  qed
  with fields_runes_pieces [OF g] show ?thesis by blast
qed

lemma hex_encode_slug: "\<forall>c\<in>set (hex_encode bs). slug_char c"
proof -
  have "slug_char (hex_digit n)" if "n < 16" for n
    using that by (auto simp: hex_digit_def slug_char_def ascii_digit_def)
  then show ?thesis by (auto simp: hex_encode_def)
qed

lemma randomHex_chars:
  "randomHex n w = (Inr s, w') \<Longrightarrow> length s = 2 * n \<and> (\<forall>c\<in>set s. slug_char c)"
  using hex_encode_slug by (auto simp: randomHex_def split: if_splits)

lemma Slugify_result:
  assumes "Slugify L value w = (Inr s, w')" "list_all is_ascii value"
  shows "s \<noteq> [] \<and> (\<forall>c\<in>set s. slug_char c \<or> c = CHR ''-'')"
proof (cases "slug_parts L value = []")
  case True
  with assms have "randomHex 10 w = (Inr s, w')" by (simp add: Slugify_def GeneratePublicID_def)
  from randomHex_chars [OF this] show ?thesis by auto
next
  case False
  with assms have s: "s = join ''-'' (slug_parts L value)" by (simp add: Slugify_def)
  have "s \<noteq> []"
    unfolding s using False slug_parts_chars [OF assms(2)] by (intro join_nonempty) auto
  moreover have "slug_char c \<or> c = CHR ''-''" if "c \<in> set s" for c
    using that set_join [of "''-''" "slug_parts L value"] slug_parts_chars [OF assms(2)]
    unfolding s by fastforce
  ultimately show ?thesis by blast
qed

end
