(* ===== verification/Email_Config.thy ===== *)
theory Email_Config
  imports Origins Form_Model "HOL-Library.List_Lexorder" "HOL-Library.Char_ord"
begin

text \<open>
  The configuration of a form's notifications: \<open>internal/forms/email_deliveries.go\<close> (what
  \<open>prepareEmailDelivery\<close> accepts and what it stores), the webhook part of
  \<open>internal/forms/forms.go\<close>, and \<open>internal/forms/email_rendering.go\<close> (recipients, Reply-To and
  the rendered message).
\<close>

section \<open>Defaults\<close>

definition newline :: string where
  "newline = [CHR 0x0A]"

definition DefaultEmailDeliveryName :: string where
  "DefaultEmailDeliveryName = ''Email notification''"

definition DefaultEmailSubject :: string where
  "DefaultEmailSubject = ''New submission '' @ [CHR 0xC2, CHR 0xB7] @ '' {{.FormName}}''"

definition DefaultEmailText :: string where
  \<open>DefaultEmailText = join newline
     [''New submission received'',
      ''Form: {{.FormName}}'',
      ''Received: {{.SubmittedAt}}'',
      [],
      ''{{if .FieldList}}{{range .FieldList}}{{.Name}}:'',
      ''{{.Value}}'',
      [],
      ''{{end}}{{else}}No scalar fields were submitted.'',
      ''{{end}}'']\<close>

definition DefaultEmailHTML :: string where
  \<open>DefaultEmailHTML = join newline
     [''<!doctype html>'',
      ''<html lang="en">'',
      ''<head><meta charset="utf-8"><meta name="viewport" content="width=device-width"><title>New submission</title></head>'',
      ''<body style="margin:0;background:#f4f5f2;color:#17201b;font-family:Arial,sans-serif">'',
      ''<table role="presentation" width="100%" cellspacing="0" cellpadding="0" style="background:#f4f5f2;padding:32px 16px">'',
      ''<tr><td align="center">'',
      ''<table role="presentation" width="100%" cellspacing="0" cellpadding="0" style="max-width:640px;background:#ffffff;border:1px solid #dfe4df;border-radius:12px">'',
      ''<tr><td style="padding:28px 32px 20px;border-bottom:1px solid #dfe4df">'',
      ''<p style="margin:0 0 8px;color:#55705d;font-size:12px;font-weight:bold;letter-spacing:.08em;text-transform:uppercase">Miniform</p>'',
      ''<h1 style="margin:0;font-size:24px;line-height:1.3">New submission '' @ [CHR 0xC2, CHR 0xB7] @ '' {{.FormName}}</h1>'',
      ''<p style="margin:10px 0 0;color:#66736a;font-size:13px">Received {{.SubmittedAt}}</p>'',
      ''</td></tr>'',
      ''<tr><td style="padding:24px 32px">'',
      ''{{if .FieldList}}{{range .FieldList}}<div style="margin:0 0 20px">'',
      ''<p style="margin:0 0 6px;color:#55705d;font-size:12px;font-weight:bold;text-transform:uppercase">{{.Name}}</p>'',
      ''<pre style="margin:0;white-space:pre-wrap;overflow-wrap:anywhere;color:#17201b;font-family:Arial,sans-serif;font-size:15px;line-height:1.55">{{.Value}}</pre>'',
      ''</div>{{end}}{{else}}<p style="margin:0;color:#66736a">No scalar fields were submitted.</p>{{end}}'',
      ''</td></tr>'',
      ''</table>'',
      ''</td></tr>'',
      ''</table>'',
      ''</body>'',
      ''</html>'']\<close>


section \<open>Addresses\<close>

definition invalid :: "string \<Rightarrow> string \<Rightarrow> err" where
  "invalid field message = Validation field message"

definition is_eol :: "char \<Rightarrow> bool" where
  "is_eol c \<longleftrightarrow> c = CHR 0x0D \<or> c = CHR 0x0A"

text \<open>The in-place filter of \<open>ParseEmailRecipients\<close>: the first address of each lower-case form stays.\<close>

fun unique_recipients :: "golib \<Rightarrow> string list \<Rightarrow> mail_address list \<Rightarrow> mail_address list" where
  "unique_recipients L seen [] = []"
| "unique_recipients L seen (recipient # rest) =
     (let key = to_lower L (snd recipient) in
      if key \<in> set seen then unique_recipients L seen rest
      else recipient # unique_recipients L (key # seen) rest)"

definition ParseEmailRecipients :: "golib \<Rightarrow> string \<Rightarrow> err + mail_address list" where
  "ParseEmailRecipients L value =
     (let lines = fields_func is_eol value in
      if lines = [] then Inl (Plain ''email recipients missing'')
      else (case lib_parse_address_list L (join '','' lines) of
              None \<Rightarrow> Inl (Plain ''mail: invalid address list'')
            | Some recipients \<Rightarrow>
                if recipients = [] then Inl (Plain ''email recipients missing'')
                else Inr (unique_recipients L [] recipients)))"

definition FormatEmailRecipient :: "golib \<Rightarrow> mail_address \<Rightarrow> string" where
  "FormatEmailRecipient L recipient =
     (if fst recipient = [] then snd recipient else lib_address_string L recipient)"

definition normalizeEmailRecipients :: "golib \<Rightarrow> string \<Rightarrow> err + string" where
  "normalizeEmailRecipients L value =
     rbind (ParseEmailRecipients L value) (\<lambda>recipients.
       Inr (join '', '' (map (FormatEmailRecipient L) recipients)))"

definition header_break :: "char \<Rightarrow> bool" where
  "header_break c \<longleftrightarrow> c = CHR 0x0D \<or> c = CHR 0x0A \<or> c = CHR 0x00"

definition normalizeEmailAddress :: "golib \<Rightarrow> string \<Rightarrow> err + string" where
  "normalizeEmailAddress L value =
     (if list_ex header_break value then Inl (Plain ''email address contains a control character'')
      else (case lib_parse_address L (trim_space value) of
              None \<Rightarrow> Inl (Plain ''mail: invalid address'')
            | Some address \<Rightarrow> Inr (FormatEmailRecipient L address)))"

definition NormalizeEmailFormat :: "golib \<Rightarrow> string \<Rightarrow> err + string" where
  "NormalizeEmailFormat L value =
     (let v = to_lower L (trim_space value) in
      if v = [] then Inr ''text''
      else if v \<noteq> ''text'' \<and> v \<noteq> ''html''
      then Inl (Plain (''unsupported email format '' @ lib_quote L v))
      else Inr v)"

section \<open>Preparing a notification\<close>

record EmailDeliveryParams =
  ep_ID :: nat
  ep_FormID :: nat
  ep_Name :: string
  ep_Enabled :: bool
  ep_MailerProfileID :: "nat option"
  ep_RecipientSource :: string
  ep_Recipient :: string
  ep_ReplyToSource :: string
  ep_ReplyTo :: string
  ep_SubjectTemplate :: string
  ep_Format :: string
  ep_TextTemplate :: string
  ep_HTMLTemplate :: string

definition emailDeliveryRequested :: "EmailDeliveryParams \<Rightarrow> bool" where
  "emailDeliveryRequested p \<longleftrightarrow>
     ep_Enabled p \<or> ep_MailerProfileID p \<noteq> None \<or> trim_space (ep_Recipient p) \<noteq> []
     \<or> trim_space (ep_ReplyTo p) \<noteq> []"

definition or_default :: "string \<Rightarrow> string \<Rightarrow> string" where
  "or_default d v = (if v = [] then d else v)"

definition or_blank_default :: "string \<Rightarrow> string \<Rightarrow> string" where
  "or_blank_default d v = (if trim_space v = [] then d else v)"

definition EffectiveEmailSubject :: "email_delivery \<Rightarrow> string" where
  "EffectiveEmailSubject d = or_blank_default DefaultEmailSubject (ed_SubjectTemplate d)"

definition EffectiveEmailText :: "email_delivery \<Rightarrow> string" where
  "EffectiveEmailText d = or_blank_default DefaultEmailText (ed_TextTemplate d)"

definition EffectiveEmailHTML :: "email_delivery \<Rightarrow> string" where
  "EffectiveEmailHTML d = or_blank_default DefaultEmailHTML (ed_HTMLTemplate d)"

definition validateEmailTemplates :: "golib \<Rightarrow> email_delivery \<Rightarrow> err + unit" where
  "validateEmailTemplates L d =
     (if lib_text_template L (ed_SubjectTemplate d) \<noteq> None
      then Inl (invalid ''email_subject'' ''Email subject template is invalid'')
      else if lib_text_template L (ed_TextTemplate d) \<noteq> None
      then Inl (invalid ''email_text'' ''Email text template is invalid'')
      else if lib_html_template L (ed_HTMLTemplate d) \<noteq> None
      then Inl (invalid ''email_html'' ''Email HTML template is invalid'')
      else Inr ())"

text \<open>The row as the parameters give it, with the defaults of lines 219 to 231 filled in.\<close>

definition initial_delivery :: "golib \<Rightarrow> EmailDeliveryParams \<Rightarrow> email_delivery" where
  "initial_delivery L p =
     (let replyTo = trim_space (ep_ReplyTo p);
          replyToSource = to_lower L (trim_space (ep_ReplyToSource p))
      in \<lparr>ed_ID = 0, ed_FormID = 0,
          ed_Name = or_default DefaultEmailDeliveryName (trim_space (ep_Name p)),
          ed_Enabled = ep_Enabled p,
          ed_MailerProfileID = ep_MailerProfileID p,
          ed_RecipientSource = or_default ''static'' (to_lower L (trim_space (ep_RecipientSource p))),
          ed_Recipient = trim_space (ep_Recipient p),
          ed_ReplyToSource =
            (if replyToSource = [] then (if replyTo = [] then ''none'' else ''static'') else replyToSource),
          ed_ReplyTo = replyTo,
          ed_SubjectTemplate = trim_space (ep_SubjectTemplate p),
          ed_Format = ep_Format p,
          ed_TextTemplate = ep_TextTemplate p,
          ed_HTMLTemplate = ep_HTMLTemplate p\<rparr>)"

definition prepare_recipient :: "golib \<Rightarrow> email_delivery \<Rightarrow> err + email_delivery" where
  "prepare_recipient L d =
     (let bad = Inl (invalid ''email'' ''Email recipient must be a valid address list or field name'') in
      rbind
        (if ed_RecipientSource d = ''static'' then
           (if ed_Recipient d \<noteq> [] then
              (case normalizeEmailRecipients L (ed_Recipient d) of
                 Inl _ \<Rightarrow> bad | Inr r \<Rightarrow> Inr (d\<lparr>ed_Recipient := r\<rparr>))
            else Inr d)
         else if ed_RecipientSource d = ''field'' then (if ed_Recipient d = [] then bad else Inr d)
         else Inl (invalid ''recipient_source'' ''Recipient source must be static or field''))
        (\<lambda>d. if ed_Enabled d \<and> (ed_MailerProfileID d = None \<or> ed_Recipient d = [])
             then Inl (invalid ''email'' ''Mailer profile and recipient are required when email is enabled'')
             else Inr d))"

definition prepare_reply_to :: "golib \<Rightarrow> email_delivery \<Rightarrow> err + email_delivery" where
  "prepare_reply_to L d =
     (let bad = Inl (invalid ''email_reply_to'' ''Reply-To must be a valid address or field name'') in
      if ed_ReplyToSource d = ''none'' then Inr (d\<lparr>ed_ReplyTo := []\<rparr>)
      else if ed_ReplyToSource d = ''static'' then
        (if ed_ReplyTo d = [] then Inl (invalid ''email_reply_to'' ''Reply-To address is required'')
         else (case normalizeEmailAddress L (ed_ReplyTo d) of Inl _ \<Rightarrow> bad | Inr a \<Rightarrow> Inr (d\<lparr>ed_ReplyTo := a\<rparr>)))
      else if ed_ReplyToSource d = ''field'' then (if ed_ReplyTo d = [] then bad else Inr d)
      else Inl (invalid ''reply_to_source'' ''Reply-To source must be none, static, or field''))"

definition prepare_templates :: "golib \<Rightarrow> email_delivery \<Rightarrow> err + email_delivery" where
  "prepare_templates L d0 =
     (let d = d0\<lparr>ed_SubjectTemplate := or_default DefaultEmailSubject (ed_SubjectTemplate d0),
                 ed_TextTemplate := or_blank_default DefaultEmailText (ed_TextTemplate d0),
                 ed_HTMLTemplate := or_blank_default DefaultEmailHTML (ed_HTMLTemplate d0)\<rparr>
      in rbind (validateEmailTemplates L d) (\<lambda>_. Inr d))"

definition prepareEmailDelivery :: "golib \<Rightarrow> EmailDeliveryParams \<Rightarrow> err + email_delivery" where
  "prepareEmailDelivery L p =
     (let d = initial_delivery L p in
      case NormalizeEmailFormat L (ed_Format d) of
        Inl _ \<Rightarrow> Inl (invalid ''email_format'' ''Email format must be text or html'')
      | Inr format \<Rightarrow>
          rbind (prepare_recipient L (d\<lparr>ed_Format := format\<rparr>)) (\<lambda>d.
          rbind (prepare_reply_to L d) (prepare_templates L)))"

text \<open>A recipient taken from a submitted field needs a captcha on the form.\<close>

definition validateDynamicRecipientSafeguard :: "email_delivery \<Rightarrow> nat option \<Rightarrow> err + unit" where
  "validateDynamicRecipientSafeguard d captchaProfileID =
     (if ed_Enabled d \<and> ed_RecipientSource d = ''field'' \<and> captchaProfileID = None
      then Inl (invalid ''email_recipient'' ''A Turnstile safeguard is required for field-derived recipients'')
      else Inr ())"

section \<open>Preparing a webhook\<close>

record webhookValues =
  wv_webhookURL :: string
  wv_webhookSecret :: string
  wv_webhookHeaders :: string

fun check_headers :: "golib \<Rightarrow> (string \<times> string) list \<Rightarrow> err + unit" where
  "check_headers L [] = Inr ()"
| "check_headers L ((name, value) # rest) =
     (if \<not> lib_header_name L name
      then Inl (invalid ''webhook_headers'' ''Webhook header names must be valid HTTP header names'')
      else if \<not> lib_header_value L value
      then Inl (invalid ''webhook_headers'' ''Webhook header values must be valid HTTP header values'')
      else check_headers L rest)"

definition canonicalWebhookHeaders :: "golib \<Rightarrow> string \<Rightarrow> err + string" where
  "canonicalWebhookHeaders L value0 =
     (let value = trim_space value0 in
      if value = [] then Inr []
      else (case lib_json_headers L value of
              None \<Rightarrow> Inl (invalid ''webhook_headers'' ''Webhook headers must be valid JSON'')
            | Some headers \<Rightarrow>
                rbind (check_headers L (case headers of None \<Rightarrow> [] | Some hs \<Rightarrow> hs))
                  (\<lambda>_. Inr (lib_json_headers_text L headers))))"

definition prepareWebhookDelivery :: "golib \<Rightarrow> bool \<Rightarrow> string \<Rightarrow> string \<Rightarrow> string \<Rightarrow> err + webhookValues" where
  "prepareWebhookDelivery L webhookEnabled webhookURL webhookSecret webhookHeaders =
     (let u = trim_space webhookURL in
      if webhookEnabled \<and> u = []
      then Inl (invalid ''webhook'' ''Webhook URL required when webhook delivery is enabled'')
      else if webhookEnabled \<and>
              (case lib_url_parse L u of
                 None \<Rightarrow> True
               | Some endpoint \<Rightarrow> url_Host endpoint = [] \<or> \<not> http_scheme (url_Scheme endpoint))
      then Inl (invalid ''webhook'' ''Webhook URL must be an absolute HTTP or HTTPS URL'')
      else rbind (canonicalWebhookHeaders L webhookHeaders) (\<lambda>headers.
             Inr \<lparr>wv_webhookURL = u, wv_webhookSecret = webhookSecret, wv_webhookHeaders = headers\<rparr>))"

section \<open>The generated HTML of a form\<close>

text \<open>The tokens of the text and whether the tokenizer stopped at its end (\<open>io.EOF\<close>) or at an error.\<close>

fun find_form_tag :: "html_token list \<Rightarrow> bool" where
  "find_form_tag [] = False"
| "find_form_tag (StartTag name _ # rest) = (equal_fold name ''form'' \<or> find_form_tag rest)"
| "find_form_tag (SelfClosingTag name _ # rest) = (equal_fold name ''form'' \<or> find_form_tag rest)"
| "find_form_tag (_ # rest) = find_form_tag rest"

definition validateGeneratedHTML :: "golib \<Rightarrow> string \<Rightarrow> err + unit" where
  "validateGeneratedHTML L value =
     (if trim_space value = [] then Inr ()
      else (case lib_html_tokens L value of (tokens, eof) \<Rightarrow>
              if find_form_tag tokens then Inr ()
              else if eof then Inl (invalid ''generated_html'' ''Generated HTML must contain a form element'')
              else Inl (invalid ''generated_html'' ''Generated HTML could not be parsed'')))"

section \<open>Rendering a message\<close>

definition DecodeSubmissionPayload :: "golib \<Rightarrow> string \<Rightarrow> err + payload" where
  "DecodeSubmissionPayload L encoded =
     rbind (lib_json_object L encoded) (\<lambda>(payload, rest).
       case lib_json_next L rest of
         JEof \<Rightarrow> Inr payload
       | JValue \<Rightarrow> Inl (Plain ''submission payload contains multiple JSON values'')
       | JError e \<Rightarrow> Inl e)"

definition emailTemplateFieldValue :: "golib \<Rightarrow> jval \<Rightarrow> string" where
  "emailTemplateFieldValue L value = (case value of JStr text \<Rightarrow> text | v \<Rightarrow> lib_json_indent L v)"

text \<open>The fields in key order; the map \<open>values\<close> of the code is \<open>map_of\<close> of the same list.\<close>

definition emailTemplateFields :: "golib \<Rightarrow> string \<Rightarrow> (string \<times> string) list" where
  "emailTemplateFields L rawJSON =
     (let payload = (case DecodeSubmissionPayload L rawJSON of
                      Inl _ \<Rightarrow> [(''raw'', JStr rawJSON)] | Inr p \<Rightarrow> p)
      in map (\<lambda>key. (key, emailTemplateFieldValue L (the (map_of payload key)))) (sort (map fst payload)))"

definition field_or_empty :: "(string \<times> string) list \<Rightarrow> string \<Rightarrow> string" where
  "field_or_empty vals key = (case map_of vals key of None \<Rightarrow> [] | Some v \<Rightarrow> v)"

definition subject_break :: "string \<Rightarrow> bool" where
  "subject_break r \<longleftrightarrow> is_space_rune r \<or> is_control_rune r"

definition normalizeEmailSubject :: "string \<Rightarrow> string" where
  "normalizeEmailSubject subject = join '' '' (fields_runes subject_break subject)"

definition executeEmailTextTemplate :: "golib \<Rightarrow> string \<Rightarrow> string \<Rightarrow> template_data \<Rightarrow> err + string" where
  "executeEmailTextTemplate L name source data =
     (case lib_text_template L source of
        Some e \<Rightarrow> Inl (Wrap (''parse '' @ name @ '' template'') e)
      | None \<Rightarrow>
          (case lib_text_execute L source data of
             Inl e \<Rightarrow> Inl (Wrap (''render '' @ name @ '' template'') e)
           | Inr out \<Rightarrow> Inr out))"

record RenderedEmail =
  re_Subject :: string
  re_Format :: string
  re_TextBody :: string
  re_HTMLBody :: string

definition template_data_for :: "golib \<Rightarrow> submission \<Rightarrow> form \<Rightarrow> template_data" where
  "template_data_for L s f =
     \<lparr>td_FormName = fm_Name f, td_SubmittedAt = lib_rfc3339 L (sb_CreatedAt s),
      td_Fields = emailTemplateFields L (sb_DataJSON s), td_FieldList = emailTemplateFields L (sb_DataJSON s)\<rparr>"

definition render_html :: "golib \<Rightarrow> string \<Rightarrow> template_data \<Rightarrow> err + string" where
  "render_html L source data =
     (case lib_html_template L source of
        Some e \<Rightarrow> Inl (Wrap ''parse email HTML template'' e)
      | None \<Rightarrow>
          (case lib_html_execute L source data of
             Inl e \<Rightarrow> Inl (Wrap ''render email HTML template'' e)
           | Inr out \<Rightarrow> Inr out))"

text \<open>The submission comes with its form, when the query that loaded it found one.\<close>

definition RenderEmail ::
  "golib \<Rightarrow> email_delivery option \<Rightarrow> (submission \<times> form option) option \<Rightarrow> err + RenderedEmail" where
  "RenderEmail L delivery submission =
     (case delivery of
        None \<Rightarrow> Inl (Plain ''render email: notification is required'')
      | Some d \<Rightarrow>
          (case submission of
             Some (s, Some f) \<Rightarrow>
               (case NormalizeEmailFormat L (ed_Format d) of
                  Inl _ \<Rightarrow> Inl (Plain ''render email: format is invalid'')
                | Inr format \<Rightarrow>
                    (let data = template_data_for L s f in
                     rbind (executeEmailTextTemplate L ''email subject'' (EffectiveEmailSubject d) data) (\<lambda>subject.
                     rbind (executeEmailTextTemplate L ''email text'' (EffectiveEmailText d) data) (\<lambda>textBody.
                     let rendered = \<lparr>re_Subject = or_default ''New submission'' (normalizeEmailSubject subject),
                           re_Format = format, re_TextBody = textBody, re_HTMLBody = []\<rparr>
                     in if format \<noteq> ''html'' then Inr rendered
                        else rbind (render_html L (EffectiveEmailHTML d) data) (\<lambda>h.
                               Inr (rendered\<lparr>re_HTMLBody := h\<rparr>))))))
           | _ \<Rightarrow> Inl (Plain ''render email: submission and form are required'')))"

definition ResolveEmailRecipients ::
  "golib \<Rightarrow> email_delivery option \<Rightarrow> (string \<times> string) list \<Rightarrow> err + string list" where
  "ResolveEmailRecipients L delivery vals =
     (case delivery of
        None \<Rightarrow> Inl (Plain ''email notification missing'')
      | Some d \<Rightarrow>
          if ed_RecipientSource d = ''field'' then
            (case normalizeEmailAddress L (field_or_empty vals (ed_Recipient d)) of
               Inl _ \<Rightarrow> Inl (Plain (''email recipient field '' @ lib_quote L (ed_Recipient d) @ '' missing or invalid''))
             | Inr address \<Rightarrow> Inr [address])
          else
            (case ParseEmailRecipients L (ed_Recipient d) of
               Inl _ \<Rightarrow> Inl (Plain ''email recipients missing or invalid'')
             | Inr addresses \<Rightarrow> Inr (map (FormatEmailRecipient L) addresses)))"

definition ResolveEmailReplyTo ::
  "golib \<Rightarrow> email_delivery option \<Rightarrow> (string \<times> string) list \<Rightarrow> err + string" where
  "ResolveEmailReplyTo L delivery vals =
     (case delivery of
        None \<Rightarrow> Inl (Plain ''email notification missing'')
      | Some d \<Rightarrow>
          if ed_ReplyToSource d = [] \<or> ed_ReplyToSource d = ''none'' then Inr []
          else if ed_ReplyToSource d = ''static'' then
            (case normalizeEmailAddress L (ed_ReplyTo d) of
               Inl _ \<Rightarrow> Inl (Plain ''email Reply-To missing or invalid'') | Inr a \<Rightarrow> Inr a)
          else if ed_ReplyToSource d = ''field'' then
            (case normalizeEmailAddress L (field_or_empty vals (ed_ReplyTo d)) of
               Inl _ \<Rightarrow> Inr [] | Inr a \<Rightarrow> Inr a)
          else Inl (Plain ''email Reply-To source invalid''))"

section \<open>What a prepared notification promises\<close>

definition prepared :: "golib \<Rightarrow> email_delivery \<Rightarrow> bool" where
  "prepared L d \<longleftrightarrow>
     (ed_Format d = ''text'' \<or> ed_Format d = ''html'')
   \<and> (ed_RecipientSource d = ''static'' \<or> ed_RecipientSource d = ''field'' \<and> ed_Recipient d \<noteq> [])
   \<and> (ed_Enabled d \<longrightarrow> ed_MailerProfileID d \<noteq> None \<and> ed_Recipient d \<noteq> [])
   \<and> (ed_ReplyToSource d = ''none'' \<and> ed_ReplyTo d = []
      \<or> ed_ReplyToSource d = ''static'' \<or> ed_ReplyToSource d = ''field'' \<and> ed_ReplyTo d \<noteq> [])
   \<and> ed_Name d \<noteq> [] \<and> ed_SubjectTemplate d \<noteq> []
   \<and> lib_text_template L (ed_SubjectTemplate d) = None
   \<and> lib_text_template L (ed_TextTemplate d) = None
   \<and> lib_html_template L (ed_HTMLTemplate d) = None"

lemma or_default_nonempty [simp]: "d \<noteq> [] \<Longrightarrow> or_default d v \<noteq> []"
  by (simp add: or_default_def)

lemma NormalizeEmailFormat_result:
  "NormalizeEmailFormat L v = Inr f \<Longrightarrow> f = ''text'' \<or> f = ''html''"
  by (auto simp: NormalizeEmailFormat_def Let_def split: if_splits)

lemma prepare_recipient_result:
  assumes "prepare_recipient L d = Inr d'"
  shows "\<exists>r. d' = d\<lparr>ed_Recipient := r\<rparr>"
    and "ed_RecipientSource d' = ''static'' \<or> ed_RecipientSource d' = ''field'' \<and> ed_Recipient d' \<noteq> []"
    and "ed_Enabled d' \<longrightarrow> ed_MailerProfileID d' \<noteq> None \<and> ed_Recipient d' \<noteq> []"
proof -
  have same: "\<exists>r. e = e\<lparr>ed_Recipient := r\<rparr>" for e :: email_delivery
    by (intro exI [of _ "ed_Recipient e"]) simp
  show "\<exists>r. d' = d\<lparr>ed_Recipient := r\<rparr>"
    using assms same by (auto simp: prepare_recipient_def Let_def rbind_Inr_iff split: if_splits sum.splits)
  show "ed_RecipientSource d' = ''static'' \<or> ed_RecipientSource d' = ''field'' \<and> ed_Recipient d' \<noteq> []"
    using assms by (auto simp: prepare_recipient_def Let_def rbind_Inr_iff split: if_splits sum.splits)
  show "ed_Enabled d' \<longrightarrow> ed_MailerProfileID d' \<noteq> None \<and> ed_Recipient d' \<noteq> []"
    using assms by (auto simp: prepare_recipient_def Let_def rbind_Inr_iff split: if_splits sum.splits)
qed

lemma prepare_reply_to_result:
  assumes "prepare_reply_to L d = Inr d'"
  shows "\<exists>r. d' = d\<lparr>ed_ReplyTo := r\<rparr>"
    and "ed_ReplyToSource d' = ''none'' \<and> ed_ReplyTo d' = []
      \<or> ed_ReplyToSource d' = ''static'' \<or> ed_ReplyToSource d' = ''field'' \<and> ed_ReplyTo d' \<noteq> []"
proof -
  have same: "\<exists>r. e = e\<lparr>ed_ReplyTo := r\<rparr>" for e :: email_delivery
    by (intro exI [of _ "ed_ReplyTo e"]) simp
  show "\<exists>r. d' = d\<lparr>ed_ReplyTo := r\<rparr>"
    using assms same by (auto simp: prepare_reply_to_def Let_def split: if_splits sum.splits)
  show "ed_ReplyToSource d' = ''none'' \<and> ed_ReplyTo d' = []
      \<or> ed_ReplyToSource d' = ''static'' \<or> ed_ReplyToSource d' = ''field'' \<and> ed_ReplyTo d' \<noteq> []"
    using assms by (auto simp: prepare_reply_to_def Let_def split: if_splits sum.splits)
qed

lemma prepare_templates_result:
  assumes "prepare_templates L d = Inr d'"
  shows "\<exists>a b c. d' = d\<lparr>ed_SubjectTemplate := a, ed_TextTemplate := b, ed_HTMLTemplate := c\<rparr>"
    and "ed_SubjectTemplate d' \<noteq> [] \<and> lib_text_template L (ed_SubjectTemplate d') = None
      \<and> lib_text_template L (ed_TextTemplate d') = None \<and> lib_html_template L (ed_HTMLTemplate d') = None"
  using assms
  by (auto simp: prepare_templates_def validateEmailTemplates_def Let_def rbind_Inr_iff DefaultEmailSubject_def
      split: if_splits)

lemma prepareEmailDelivery_steps:
  assumes "prepareEmailDelivery L p = Inr d"
  obtains f d1 d2 where "NormalizeEmailFormat L (ep_Format p) = Inr f"
    "prepare_recipient L ((initial_delivery L p)\<lparr>ed_Format := f\<rparr>) = Inr d1"
    "prepare_reply_to L d1 = Inr d2" "prepare_templates L d2 = Inr d"
proof -
  have f: "ed_Format (initial_delivery L p) = ep_Format p"
    by (simp add: initial_delivery_def Let_def)
  from assms show ?thesis
    by (auto simp: prepareEmailDelivery_def Let_def rbind_Inr_iff f split: sum.splits intro: that)
qed

lemma prepareEmailDelivery_prepared:
  assumes "prepareEmailDelivery L p = Inr d"
  shows "prepared L d"
proof -
  from assms obtain f d1 d2 where steps: "NormalizeEmailFormat L (ep_Format p) = Inr f"
    "prepare_recipient L ((initial_delivery L p)\<lparr>ed_Format := f\<rparr>) = Inr d1"
    "prepare_reply_to L d1 = Inr d2" "prepare_templates L d2 = Inr d"
    by (rule prepareEmailDelivery_steps)
  have n: "ed_Name (initial_delivery L p) \<noteq> []"
    by (simp add: initial_delivery_def Let_def DefaultEmailDeliveryName_def)
  note r = prepare_recipient_result [OF steps(2)] prepare_reply_to_result [OF steps(3)]
    prepare_templates_result [OF steps(4)] NormalizeEmailFormat_result [OF steps(1)]
  from r(1) obtain a where d1: "d1 = (initial_delivery L p)\<lparr>ed_Format := f, ed_Recipient := a\<rparr>" by auto
  from r(4) obtain b where d2: "d2 = d1\<lparr>ed_ReplyTo := b\<rparr>" by blast
  from r(6) obtain x y z where d: "d = d2\<lparr>ed_SubjectTemplate := x, ed_TextTemplate := y, ed_HTMLTemplate := z\<rparr>"
    by blast
  have "ed_Name d \<noteq> []" "ed_Format d = f" using n by (simp_all add: d d2 d1)
  moreover have "ed_Enabled d = ed_Enabled d1" "ed_MailerProfileID d = ed_MailerProfileID d1"
    "ed_RecipientSource d = ed_RecipientSource d1" "ed_Recipient d = ed_Recipient d1"
    "ed_ReplyToSource d = ed_ReplyToSource d2" "ed_ReplyTo d = ed_ReplyTo d2"
    by (simp_all add: d d2)
  ultimately show ?thesis using r(2,3,5,7,8) unfolding prepared_def by metis
qed

lemma prepareEmailDelivery_switches:
  assumes "prepareEmailDelivery L p = Inr d"
  shows "ed_Enabled d = ep_Enabled p" "ed_MailerProfileID d = ep_MailerProfileID p"
proof -
  from assms obtain f d1 d2 where steps: "NormalizeEmailFormat L (ep_Format p) = Inr f"
    "prepare_recipient L ((initial_delivery L p)\<lparr>ed_Format := f\<rparr>) = Inr d1"
    "prepare_reply_to L d1 = Inr d2" "prepare_templates L d2 = Inr d"
    by (rule prepareEmailDelivery_steps)
  note r = prepare_recipient_result(1) [OF steps(2)] prepare_reply_to_result(1) [OF steps(3)]
    prepare_templates_result(1) [OF steps(4)]
  show "ed_Enabled d = ep_Enabled p" "ed_MailerProfileID d = ep_MailerProfileID p"
    using r by (elim exE; simp add: initial_delivery_def Let_def)+
qed

section \<open>Subjects\<close>

lemma subject_bytes:
  assumes "c \<in> set (normalizeEmailSubject s)" "is_ascii c"
  shows "32 \<le> (of_char c :: nat) \<and> (of_char c :: nat) \<noteq> 127"
proof (cases "c = CHR '' ''")
  case False
  with assms(1) set_join [of "'' ''" "fields_runes subject_break s"]
  obtain g where g: "g \<in> set (fields_runes subject_break s)" "c \<in> set g"
    by (auto simp: normalizeEmailSubject_def)
  with fields_runes_pieces [OF g(1)] obtain r where r: "r \<in> set (runes s)" "\<not> subject_break r" "c \<in> set r"
    by auto
  with runes_ascii assms(2) have "\<not> is_control_rune [c]" by (metis subject_break_def)
  then show ?thesis by (simp add: is_control_rune_def)
qed simp

section \<open>Recipients\<close>

lemma unique_recipients_new:
  "r \<in> set (unique_recipients L seen rs) \<Longrightarrow> r \<in> set rs \<and> to_lower L (snd r) \<notin> set seen"
  by (induction rs arbitrary: seen) (simp_all add: Let_def, force split: if_splits)

lemma unique_recipients_distinct:
  "distinct (map (\<lambda>r. to_lower L (snd r)) (unique_recipients L seen rs))"
proof (induction rs arbitrary: seen)
  case (Cons r rs)
  have "to_lower L (snd r) \<noteq> to_lower L (snd q)"
    if "q \<in> set (unique_recipients L (to_lower L (snd r) # seen) rs)" for q
    using unique_recipients_new [OF that] by auto
  with Cons.IH show ?case by (auto simp: Let_def image_iff)
qed simp

lemma ParseEmailRecipients_result:
  assumes "ParseEmailRecipients L value = Inr rs"
  shows "rs \<noteq> [] \<and> distinct (map (\<lambda>r. to_lower L (snd r)) rs)"
proof -
  from assms obtain qs where q: "rs = unique_recipients L [] qs" "qs \<noteq> []"
    by (auto simp: ParseEmailRecipients_def Let_def split: if_splits option.splits)
  then have "rs \<noteq> []" by (cases qs) (simp_all add: Let_def)
  with q unique_recipients_distinct show ?thesis by simp
qed

end
