(* ===== verification/Templates.thy ===== *)
theory Templates
  imports Email_Config
begin

text \<open>
  The form templates of \<open>internal/forms/templates.go\<close>: the catalogue, its rendering with the
  HTML escaping of package \<open>html\<close>, and the URL escaping of the action a form posts to.
\<close>

section \<open>Escaping\<close>

definition html_entity :: "char \<Rightarrow> string" where
  \<open>html_entity c =
     (if c = CHR ''&'' then ''&amp;''
      else if c = CHR 0x27 then ''&#39;''
      else if c = CHR ''<'' then ''&lt;''
      else if c = CHR ''>'' then ''&gt;''
      else if c = CHR 0x22 then ''&#34;''
      else [c])\<close>

definition escape :: "string \<Rightarrow> string" where
  "escape value = concat (map html_entity value)"

definition html_special :: "char \<Rightarrow> bool" where
  "html_special c \<longleftrightarrow> c = CHR ''<'' \<or> c = CHR ''>'' \<or> c = CHR 0x22 \<or> c = CHR 0x27"

text \<open>\<open>strings.ReplaceAll\<close>, for a non-empty pattern.\<close>

function replace_all :: "string \<Rightarrow> string \<Rightarrow> string \<Rightarrow> string" where
  "replace_all old new s =
     (case s of
        [] \<Rightarrow> []
      | c # rest \<Rightarrow>
          if old \<noteq> [] \<and> prefix old s then new @ replace_all old new (drop (length old) s)
          else c # replace_all old new rest)"
  by pat_completeness auto
termination
  by (relation "measure (\<lambda>(old, new, s). length s)") auto

declare replace_all.simps [simp del]

definition hex_upper :: "nat \<Rightarrow> char" where
  "hex_upper n = (if n < 10 then char_of (48 + n) else char_of (55 + n))"

definition percent :: "char \<Rightarrow> string" where
  "percent c = [CHR ''%'', hex_upper ((of_char c :: nat) div 16), hex_upper ((of_char c :: nat) mod 16)]"

definition url_unreserved :: "char \<Rightarrow> bool" where
  "url_unreserved c \<longleftrightarrow> ascii_letter c \<or> ascii_digit c \<or> c \<in> set ''-_.~''"

definition PathEscape :: "string \<Rightarrow> string" where
  "PathEscape s = concat (map (\<lambda>c. if url_unreserved c \<or> c \<in> set ''$&+:=@'' then [c] else percent c) s)"

definition QueryEscape :: "string \<Rightarrow> string" where
  "QueryEscape s =
     concat (map (\<lambda>c. if url_unreserved c then [c] else if c = CHR '' '' then ''+'' else percent c) s)"

section \<open>Templates\<close>

record templateField =
  tf_Name :: string
  tf_Label :: string
  tf_Kind :: string
  tf_Placeholder :: string
  tf_Helper :: string
  tf_Options :: "string list"
  tf_Required :: bool

record templateDefinition =
  tp_ID :: string
  tp_Name :: string
  tp_Description :: string
  tp_Slug :: string
  tp_Icon :: string
  tp_Color :: string
  tp_Eyebrow :: string
  tp_Title :: string
  tp_Introduction :: string
  tp_Submit :: string
  tp_Fields :: "templateField list"

record FormTemplate =
  ft_ID :: string
  ft_Name :: string
  ft_Description :: string
  ft_Slug :: string
  ft_Icon :: string
  ft_Color :: string
  ft_HTML :: string

definition formActionPlaceholder :: string where
  "formActionPlaceholder = ''{{FORM_ACTION}}''"

definition HoneypotField :: string where
  "HoneypotField = ''__mf_hp''"

definition legacyHoneypotField :: string where
  "legacyHoneypotField = ''__fl_hp''"

definition render_option :: "string \<Rightarrow> string" where
  \<open>render_option option =
     (if option = [] then ''<option value="">Select</option>'' else ''<option>'' @ escape option @ ''</option>'')\<close>

definition renderField :: "templateField \<Rightarrow> string" where
  \<open>renderField f =
     (let required = (if tf_Required f then '' required'' else []) in
      if tf_Kind f = ''checkbox''
      then ''    <label class="mf-template__check"><input type="checkbox" name="'' @ escape (tf_Name f) @ ''"''
           @ required @ ''> <span>'' @ escape (tf_Label f) @ ''</span></label>'' @ newline
      else ''    <label class="mf-template__field"><span>'' @ escape (tf_Label f) @ ''</span>'' @ newline @ ''      ''
           @ (if tf_Kind f = ''textarea''
              then ''<textarea name="'' @ escape (tf_Name f) @ ''" placeholder="'' @ escape (tf_Placeholder f)
                   @ ''"'' @ required @ ''></textarea>''
              else if tf_Kind f = ''select''
              then ''<select name="'' @ escape (tf_Name f) @ ''"'' @ required @ ''>''
                   @ concat (map render_option (tf_Options f)) @ ''</select>''
              else ''<input type="'' @ escape (tf_Kind f) @ ''" name="'' @ escape (tf_Name f) @ ''" placeholder="''
                   @ escape (tf_Placeholder f) @ ''"'' @ required @ ''>'')
           @ (if tf_Helper f \<noteq> [] then newline @ ''      <small>'' @ escape (tf_Helper f) @ ''</small>'' else [])
           @ newline @ ''    </label>'' @ newline)\<close>

definition tpl_contact :: templateDefinition where
  \<open>tpl_contact =
    \<lparr>tp_ID = ''contact'',
     tp_Name = ''Contact Form'',
     tp_Description = ''Simple contact form with name, email, and message fields'',
     tp_Slug = ''contact'',
     tp_Icon = [CHR 0xF0, CHR 0x9F, CHR 0x92, CHR 0xAC],
     tp_Color = ''blue'',
     tp_Eyebrow = ''Contact'',
     tp_Title = ''Contact our team'',
     tp_Introduction = ''Tell us how we can help and someone will reply within one business day.'',
     tp_Submit = ''Send message'',
     tp_Fields = [
      \<lparr>tf_Name = ''name'', tf_Label = ''Full name'', tf_Kind = ''text'',
        tf_Placeholder = ''Alex Rivers'', tf_Helper = [],
        tf_Options = [], tf_Required = True\<rparr>,
      \<lparr>tf_Name = ''company'', tf_Label = ''Company'', tf_Kind = ''text'',
        tf_Placeholder = ''Acme Inc.'', tf_Helper = [],
        tf_Options = [], tf_Required = False\<rparr>,
      \<lparr>tf_Name = ''email'', tf_Label = ''Email address'', tf_Kind = ''email'',
        tf_Placeholder = ''you@example.com'', tf_Helper = [],
        tf_Options = [], tf_Required = True\<rparr>,
      \<lparr>tf_Name = ''topic'', tf_Label = ''Topic'', tf_Kind = ''select'',
        tf_Placeholder = [], tf_Helper = [],
        tf_Options = [[], ''Product question'', ''Billing'', ''Partnership'', ''Something else''], tf_Required = True\<rparr>,
      \<lparr>tf_Name = ''message'', tf_Label = ''How can we help?'', tf_Kind = ''textarea'',
        tf_Placeholder = ''Share details about your request'', tf_Helper = [],
        tf_Options = [], tf_Required = True\<rparr>,
      \<lparr>tf_Name = ''consent'', tf_Label = ''I agree to be contacted about this request.'', tf_Kind = ''checkbox'',
        tf_Placeholder = [], tf_Helper = [],
        tf_Options = [], tf_Required = True\<rparr>]\<rparr>\<close>

definition tpl_feedback :: templateDefinition where
  \<open>tpl_feedback =
    \<lparr>tp_ID = ''feedback'',
     tp_Name = ''Feedback Form'',
     tp_Description = ''Collect user feedback and feature requests'',
     tp_Slug = ''feedback'',
     tp_Icon = [CHR 0xF0, CHR 0x9F, CHR 0x92, CHR 0xA1],
     tp_Color = ''purple'',
     tp_Eyebrow = ''Feedback'',
     tp_Title = ''Share your feedback'',
     tp_Introduction = (''Help us build the roadmap. Tell us what'' @ [CHR 0xE2, CHR 0x80, CHR 0x99] @ ''s working and what could be better.''),
     tp_Submit = ''Send feedback'',
     tp_Fields = [
      \<lparr>tf_Name = ''name'', tf_Label = ''Name'', tf_Kind = ''text'',
        tf_Placeholder = ''Taylor'', tf_Helper = [],
        tf_Options = [], tf_Required = True\<rparr>,
      \<lparr>tf_Name = ''email'', tf_Label = ''Email'', tf_Kind = ''email'',
        tf_Placeholder = ''you@example.com'', tf_Helper = [],
        tf_Options = [], tf_Required = False\<rparr>,
      \<lparr>tf_Name = ''satisfaction'', tf_Label = ''How satisfied are you?'', tf_Kind = ''select'',
        tf_Placeholder = [], tf_Helper = [],
        tf_Options = [[], ''Very satisfied'', ''Satisfied'', ''Neutral'', ''Unsatisfied''], tf_Required = True\<rparr>,
      \<lparr>tf_Name = ''feature'', tf_Label = ''Feature or area'', tf_Kind = ''text'',
        tf_Placeholder = ''Exports, notifications, ...'', tf_Helper = [],
        tf_Options = [], tf_Required = False\<rparr>,
      \<lparr>tf_Name = ''comments'', tf_Label = ''Comments'', tf_Kind = ''textarea'',
        tf_Placeholder = ''What should we improve?'', tf_Helper = [],
        tf_Options = [], tf_Required = True\<rparr>]\<rparr>\<close>

definition tpl_bug_report :: templateDefinition where
  \<open>tpl_bug_report =
    \<lparr>tp_ID = ''bug-report'',
     tp_Name = ''Bug Report'',
     tp_Description = ''Help users report bugs and technical issues'',
     tp_Slug = ''bug-report'',
     tp_Icon = [CHR 0xF0, CHR 0x9F, CHR 0x90, CHR 0x9B],
     tp_Color = ''red'',
     tp_Eyebrow = ''Bug report'',
     tp_Title = ''Report an issue'',
     tp_Introduction = (''Found something off? Share the details and we'' @ [CHR 0xE2, CHR 0x80, CHR 0x99] @ ''ll investigate within a few hours.''),
     tp_Submit = ''Submit bug'',
     tp_Fields = [
      \<lparr>tf_Name = ''reporter'', tf_Label = ''Name'', tf_Kind = ''text'',
        tf_Placeholder = ''Jordan'', tf_Helper = [],
        tf_Options = [], tf_Required = True\<rparr>,
      \<lparr>tf_Name = ''email'', tf_Label = ''Email'', tf_Kind = ''email'',
        tf_Placeholder = ''you@example.com'', tf_Helper = [],
        tf_Options = [], tf_Required = True\<rparr>,
      \<lparr>tf_Name = ''severity'', tf_Label = ''Severity'', tf_Kind = ''select'',
        tf_Placeholder = [], tf_Helper = [],
        tf_Options = [[], ''Low'', ''Medium'', ''High'', ''Critical''], tf_Required = True\<rparr>,
      \<lparr>tf_Name = ''area'', tf_Label = ''Area of the product'', tf_Kind = ''text'',
        tf_Placeholder = ''Account settings'', tf_Helper = [],
        tf_Options = [], tf_Required = False\<rparr>,
      \<lparr>tf_Name = ''steps'', tf_Label = ''Steps to reproduce'', tf_Kind = ''textarea'',
        tf_Placeholder = ''1. Go to..., 2. Click...'', tf_Helper = ''Include as much detail as possible.'',
        tf_Options = [], tf_Required = True\<rparr>,
      \<lparr>tf_Name = ''expected'', tf_Label = ''Expected vs. actual behavior'', tf_Kind = ''textarea'',
        tf_Placeholder = ''Expected X but saw Y'', tf_Helper = [],
        tf_Options = [], tf_Required = False\<rparr>]\<rparr>\<close>

definition tpl_newsletter :: templateDefinition where
  \<open>tpl_newsletter =
    \<lparr>tp_ID = ''newsletter'',
     tp_Name = ''Newsletter Signup'',
     tp_Description = ''Collect email addresses for your newsletter'',
     tp_Slug = ''newsletter'',
     tp_Icon = [CHR 0xF0, CHR 0x9F, CHR 0x93, CHR 0xA7],
     tp_Color = ''green'',
     tp_Eyebrow = ''Newsletter'',
     tp_Title = ''Join the newsletter'',
     tp_Introduction = ''Receive product updates, launch notes, and best practices twice a month.'',
     tp_Submit = ''Subscribe'',
     tp_Fields = [
      \<lparr>tf_Name = ''email'', tf_Label = ''Email address'', tf_Kind = ''email'',
        tf_Placeholder = ''you@company.com'', tf_Helper = [],
        tf_Options = [], tf_Required = True\<rparr>,
      \<lparr>tf_Name = ''first_name'', tf_Label = ''First name'', tf_Kind = ''text'',
        tf_Placeholder = ''Jamie'', tf_Helper = [],
        tf_Options = [], tf_Required = True\<rparr>,
      \<lparr>tf_Name = ''interest'', tf_Label = ''What would you like to hear about?'', tf_Kind = ''select'',
        tf_Placeholder = [], tf_Helper = [],
        tf_Options = [''Product updates'', ''Growth stories'', ''Weekly tips''], tf_Required = False\<rparr>,
      \<lparr>tf_Name = ''consent'', tf_Label = ''I agree to receive occasional product emails.'', tf_Kind = ''checkbox'',
        tf_Placeholder = [], tf_Helper = [],
        tf_Options = [], tf_Required = True\<rparr>]\<rparr>\<close>

definition tpl_waitlist :: templateDefinition where
  \<open>tpl_waitlist =
    \<lparr>tp_ID = ''waitlist'',
     tp_Name = ''Waitlist'',
     tp_Description = ''Build a waitlist for your product launch'',
     tp_Slug = ''waitlist'',
     tp_Icon = [CHR 0xE2, CHR 0x8F, CHR 0xB3],
     tp_Color = ''yellow'',
     tp_Eyebrow = ''Waitlist'',
     tp_Title = ''Join the early access list'',
     tp_Introduction = (''We'' @ [CHR 0xE2, CHR 0x80, CHR 0x99] @ ''re releasing limited invites. Tell us a bit about your team and we'' @ [CHR 0xE2, CHR 0x80, CHR 0x99] @ ''ll keep you posted.''),
     tp_Submit = ''Request invite'',
     tp_Fields = [
      \<lparr>tf_Name = ''name'', tf_Label = ''Full name'', tf_Kind = ''text'',
        tf_Placeholder = ''Morgan Lee'', tf_Helper = [],
        tf_Options = [], tf_Required = True\<rparr>,
      \<lparr>tf_Name = ''company'', tf_Label = ''Company'', tf_Kind = ''text'',
        tf_Placeholder = ''Northwind'', tf_Helper = [],
        tf_Options = [], tf_Required = False\<rparr>,
      \<lparr>tf_Name = ''email'', tf_Label = ''Work email'', tf_Kind = ''email'',
        tf_Placeholder = ''you@company.com'', tf_Helper = [],
        tf_Options = [], tf_Required = True\<rparr>,
      \<lparr>tf_Name = ''team_size'', tf_Label = ''Team size'', tf_Kind = ''select'',
        tf_Placeholder = [], tf_Helper = [],
        tf_Options = [[], ''1-5 people'', ''6-25 people'', ''26-100 people'', ''100+ people''], tf_Required = False\<rparr>,
      \<lparr>tf_Name = ''use_case'', tf_Label = ''What will you use us for?'', tf_Kind = ''textarea'',
        tf_Placeholder = ''Share how your team would use the product'', tf_Helper = [],
        tf_Options = [], tf_Required = True\<rparr>]\<rparr>\<close>

definition tpl_blank :: templateDefinition where
  \<open>tpl_blank =
    \<lparr>tp_ID = ''blank'',
     tp_Name = ''Blank Form'',
     tp_Description = ''Start from scratch with an empty form'',
     tp_Slug = [],
     tp_Icon = [CHR 0xF0, CHR 0x9F, CHR 0x93, CHR 0x9D],
     tp_Color = ''gray'',
     tp_Eyebrow = ''Simple form'',
     tp_Title = (''Let'' @ [CHR 0xE2, CHR 0x80, CHR 0x99] @ ''s collect data''),
     tp_Introduction = ''Use this lightweight template as a starting point.'',
     tp_Submit = ''Submit'',
     tp_Fields = [
      \<lparr>tf_Name = ''field_one'', tf_Label = ''Field label'', tf_Kind = ''text'',
        tf_Placeholder = ''Text input'', tf_Helper = [],
        tf_Options = [], tf_Required = False\<rparr>,
      \<lparr>tf_Name = ''field_two'', tf_Label = ''Message'', tf_Kind = ''textarea'',
        tf_Placeholder = ''Textarea input'', tf_Helper = [],
        tf_Options = [], tf_Required = False\<rparr>]\<rparr>\<close>

definition templateCatalog :: "templateDefinition list" where
  "templateCatalog = [tpl_contact, tpl_feedback, tpl_bug_report, tpl_newsletter, tpl_waitlist, tpl_blank]"

definition templateStyles :: string where
  \<open>templateStyles = join newline
    [''<style>'',
     ''  .mf-template { box-sizing: border-box; max-width: 38rem; margin: 1.5rem auto; padding: clamp(1.25rem, 4vw, 2.5rem); border: 1px solid #d8d2c7; background: #fffdf8; color: #20231f; font-family: ui-sans-serif, system-ui, sans-serif; }'',
     ''  .mf-template *, .mf-template *::before, .mf-template *::after { box-sizing: inherit; }'',
     ''  .mf-template__header { margin-bottom: 1.75rem; }'',
     ''  .mf-template__eyebrow { margin: 0 0 .65rem; color: #48604d; font: 700 .72rem/1.2 ui-monospace, monospace; letter-spacing: .12em; text-transform: uppercase; }'',
     ''  .mf-template h2 { margin: 0; font: 700 clamp(1.65rem, 5vw, 2.25rem)/1.05 Georgia, serif; }'',
     ''  .mf-template__header > p:last-child { margin: .8rem 0 0; color: #666d64; line-height: 1.55; }'',
     ''  .mf-template__form { display: grid; gap: 1rem; }'',
     ''  .mf-template__field { display: grid; gap: .4rem; color: #30352f; font-size: .9rem; font-weight: 650; }'',
     ''  .mf-template input, .mf-template select, .mf-template textarea { width: 100%; border: 1px solid #c9c2b6; border-radius: .3rem; background: #f7f3eb; padding: .8rem .9rem; color: inherit; font: inherit; }'',
     ''  .mf-template textarea { min-height: 7.5rem; resize: vertical; }'',
     ''  .mf-template input:focus, .mf-template select:focus, .mf-template textarea:focus { outline: 3px solid #cad9cc; border-color: #48604d; background: #fff; }'',
     ''  .mf-template small { color: #737a71; font-weight: 400; }'',
     ''  .mf-template__check { display: flex; gap: .65rem; align-items: flex-start; color: #4f554e; font-size: .9rem; }'',
     ''  .mf-template__check input { width: 1rem; margin-top: .15rem; }'',
     ''  .mf-template__honeypot { position: absolute; width: 1px; height: 1px; overflow: hidden; clip-path: inset(50%); white-space: nowrap; }'',
     ''  .mf-template button { border: 0; border-radius: .3rem; background: #334c39; padding: .9rem 1.1rem; color: #fff; font: 700 .9rem/1 ui-sans-serif, system-ui, sans-serif; cursor: pointer; }'',
     ''  .mf-template button:hover { background: #25392a; }'',
     ''</style>'']\<close>

definition renderTemplate :: "templateDefinition \<Rightarrow> string" where
  \<open>renderTemplate d =
     join newline
       [''<section class="mf-template" data-template="'' @ escape (tp_ID d) @ ''">'',
        ''  <header class="mf-template__header">'',
        ''    <p class="mf-template__eyebrow">'' @ escape (tp_Eyebrow d) @ ''</p>'',
        ''    <h2>'' @ escape (tp_Title d) @ ''</h2>'',
        ''    <p>'' @ escape (tp_Introduction d) @ ''</p>'',
        ''  </header>'',
        ''  <form class="mf-template__form" action="'' @ formActionPlaceholder @ ''" method="POST">'', []]
     @ concat (map renderField (tp_Fields d))
     @ join newline
       [''    <label class="mf-template__honeypot" aria-hidden="true">Leave this field empty'',
        ''      <input type="text" name="'' @ HoneypotField @ ''" tabindex="-1" autocomplete="off">'',
        ''    </label>'',
        ''    <button type="submit">'' @ escape (tp_Submit d) @ ''</button>'',
        ''  </form>'',
        ''</section>'',
        templateStyles]\<close>

definition form_template :: "templateDefinition \<Rightarrow> FormTemplate" where
  "form_template d =
     \<lparr>ft_ID = tp_ID d, ft_Name = tp_Name d, ft_Description = tp_Description d, ft_Slug = tp_Slug d,
      ft_Icon = tp_Icon d, ft_Color = tp_Color d, ft_HTML = renderTemplate d\<rparr>"

definition GetFormTemplates :: "FormTemplate list" where
  "GetFormTemplates = map form_template templateCatalog"

definition GetTemplateByID :: "string \<Rightarrow> FormTemplate option" where
  "GetTemplateByID i = find (\<lambda>t. ft_ID t = i) GetFormTemplates"

definition RenderHTML :: "FormTemplate option \<Rightarrow> string \<Rightarrow> string" where
  "RenderHTML template action =
     (case template of
        None \<Rightarrow> []
      | Some t \<Rightarrow>
          if trim_space (ft_HTML t) = [] then []
          else replace_all formActionPlaceholder
                 (escape (if trim_space action = [] then ''/forms/your-form/submit?token=YOUR_FORM_TOKEN'' else action))
                 (ft_HTML t))"

section \<open>Lemmas\<close>

lemma html_entity_safe: "c \<in> set (html_entity x) \<Longrightarrow> \<not> html_special c"
  by (auto simp: html_entity_def html_special_def split: if_splits)

lemma escape_safe: "c \<in> set (escape v) \<Longrightarrow> \<not> html_special c"
  by (auto simp: escape_def dest: html_entity_safe)

lemma escape_append: "escape (a @ b) = escape a @ escape b"
  by (simp add: escape_def)

text \<open>Escaping loses nothing: equal escapes come from equal texts.\<close>

lemma html_entity_ne [simp]: "html_entity c \<noteq> []"
  by (simp add: html_entity_def)

lemma html_entity_prefix_free:
  "html_entity a @ x = html_entity b @ y \<Longrightarrow> a = b \<and> x = y"
  by (simp add: html_entity_def split: if_splits)

lemma escape_inj: "escape a = escape b \<Longrightarrow> a = b"
proof (induction a arbitrary: b)
  case Nil
  then show ?case by (cases b) (simp_all add: escape_def)
next
  case (Cons x a)
  then obtain y b' where b: "b = y # b'" by (cases b) (auto simp: escape_def)
  with Cons.prems have "html_entity x @ escape a = html_entity y @ escape b'" by (simp add: escape_def)
  from html_entity_prefix_free [OF this] Cons.IH b show ?case by blast
qed

lemma catalog_ids_distinct: "distinct (map tp_ID templateCatalog)"
  by (simp add: templateCatalog_def tpl_contact_def tpl_feedback_def tpl_bug_report_def tpl_newsletter_def
      tpl_waitlist_def tpl_blank_def)

lemma GetTemplateByID_catalog:
  "d \<in> set templateCatalog \<Longrightarrow> GetTemplateByID (tp_ID d) = Some (form_template d)"
proof -
  assume d: "d \<in> set templateCatalog"
  have "map ft_ID GetFormTemplates = map tp_ID templateCatalog"
    by (simp add: GetFormTemplates_def form_template_def comp_def)
  with catalog_ids_distinct have "distinct (map ft_ID GetFormTemplates)" by simp
  moreover have "form_template d \<in> set GetFormTemplates" using d by (simp add: GetFormTemplates_def)
  ultimately have "find (\<lambda>t. ft_ID t = ft_ID (form_template d)) GetFormTemplates = Some (form_template d)"
    by (rule find_by_key_unique)
  then show ?thesis by (simp add: GetTemplateByID_def form_template_def)
qed

lemma QueryEscape_chars: "c \<in> set (QueryEscape s) \<Longrightarrow> url_unreserved c \<or> c = CHR ''+'' \<or> c = CHR ''%''"
proof -
  have hex: "url_unreserved (hex_upper n)" if "n < 16" for n
    using that by (auto simp: hex_upper_def url_unreserved_def ascii_letter_def ascii_digit_def)
  have "url_unreserved (hex_upper ((of_char x :: nat) div 16))" "url_unreserved (hex_upper ((of_char x :: nat) mod 16))" for x
    using nat_of_char_less_256 [of x] by (auto intro!: hex simp: less_mult_imp_div_less)
  then show "c \<in> set (QueryEscape s) \<Longrightarrow> ?thesis"
    by (auto simp: QueryEscape_def percent_def split: if_splits)
qed

end
