(* ===== verification/Form_Ops.thy ===== *)
theory Form_Ops
  imports Templates
begin

text \<open>
  The operations on forms and their notifications: \<open>internal/forms/forms.go\<close> (\<open>Create\<close>, \<open>Update\<close>,
  loading, \<open>deleteFormRecords\<close>, \<open>ReconcileDeliveryRecords\<close>), the database half of
  \<open>internal/forms/email_deliveries.go\<close>, \<open>validateProfileReferences\<close> of \<open>validation.go\<close>,
  \<open>RotateToken\<close> of \<open>management.go\<close> and \<open>integration_usage.go\<close>.
\<close>

section \<open>Parameters\<close>

record CreateParams =
  cr_Name :: string
  cr_Slug :: string
  cr_AllowedOrigins :: string
  cr_GeneratedHTML :: string
  cr_UploadsEnabled :: bool
  cr_TemplateID :: string
  cr_MailerProfileID :: "nat option"
  cr_CaptchaProfileID :: "nat option"
  cr_EmailName :: string
  cr_EmailRecipientType :: string
  cr_EmailRecipient :: string
  cr_EmailReplyToType :: string
  cr_EmailReplyTo :: string
  cr_EmailSubject :: string
  cr_EmailFormat :: string
  cr_EmailText :: string
  cr_EmailHTML :: string
  cr_EmailEnabled :: bool
  cr_WebhookEnabled :: bool
  cr_WebhookURL :: string
  cr_WebhookSecret :: string
  cr_WebhookHeadersJSON :: string

record UpdateParams =
  up_ID :: nat
  up_Name :: string
  up_Slug :: string
  up_AllowedOrigins :: string
  up_GeneratedHTML :: string
  up_MailerProfileID :: "nat option"
  up_CaptchaProfileID :: "nat option"
  up_UpdateGeneratedHTML :: bool
  up_UploadsEnabled :: bool
  up_EmailName :: string
  up_EmailRecipientType :: string
  up_EmailRecipient :: string
  up_EmailReplyToType :: string
  up_EmailReplyTo :: string
  up_EmailSubject :: string
  up_EmailFormat :: string
  up_EmailText :: string
  up_EmailHTML :: string
  up_EmailEnabled :: bool
  up_WebhookEnabled :: bool
  up_WebhookURL :: string
  up_WebhookSecret :: string
  up_WebhookHeadersJSON :: string

definition emailParamsFromCreate :: "CreateParams \<Rightarrow> EmailDeliveryParams" where
  "emailParamsFromCreate p =
     \<lparr>ep_ID = 0, ep_FormID = 0, ep_Name = cr_EmailName p, ep_Enabled = cr_EmailEnabled p,
      ep_MailerProfileID = cr_MailerProfileID p,
      ep_RecipientSource = cr_EmailRecipientType p, ep_Recipient = cr_EmailRecipient p,
      ep_ReplyToSource = cr_EmailReplyToType p, ep_ReplyTo = cr_EmailReplyTo p,
      ep_SubjectTemplate = cr_EmailSubject p, ep_Format = cr_EmailFormat p,
      ep_TextTemplate = cr_EmailText p, ep_HTMLTemplate = cr_EmailHTML p\<rparr>"

definition emailParamsFromUpdate :: "UpdateParams \<Rightarrow> EmailDeliveryParams" where
  "emailParamsFromUpdate p =
     \<lparr>ep_ID = 0, ep_FormID = 0, ep_Name = up_EmailName p, ep_Enabled = up_EmailEnabled p,
      ep_MailerProfileID = up_MailerProfileID p,
      ep_RecipientSource = up_EmailRecipientType p, ep_Recipient = up_EmailRecipient p,
      ep_ReplyToSource = up_EmailReplyToType p, ep_ReplyTo = up_EmailReplyTo p,
      ep_SubjectTemplate = up_EmailSubject p, ep_Format = up_EmailFormat p,
      ep_TextTemplate = up_EmailText p, ep_HTMLTemplate = up_EmailHTML p\<rparr>"

section \<open>Loading\<close>

text \<open>A form with the rows \<open>loadForm\<close> preloads; the notifications are in key order.\<close>

record loaded_form =
  lf_Form :: form
  lf_EmailDeliveries :: "email_delivery list"
  lf_Mailers :: "mailer_profile list"
  lf_WebhookDelivery :: "webhook_delivery option"
  lf_CaptchaProfile :: "captcha_profile option"

definition captcha_of :: "form \<Rightarrow> database \<Rightarrow> captcha_profile option" where
  "captcha_of f d = (case fm_CaptchaProfileID f of None \<Rightarrow> None | Some i \<Rightarrow> find (\<lambda>c. cp_ID c = i) (captchas d))"

definition mailer_of :: "email_delivery \<Rightarrow> database \<Rightarrow> mailer_profile option" where
  "mailer_of e d = (case ed_MailerProfileID e of None \<Rightarrow> None | Some i \<Rightarrow> find (\<lambda>m. mp_ID m = i) (mailers d))"

definition loadForm :: "(form \<Rightarrow> bool) \<Rightarrow> loaded_form db_prog" where
  "loadForm p = wrap_err ''load form''
     (bnd (first forms p) (\<lambda>f.
      bnd (query (captcha_of f)) (\<lambda>captcha.
      bnd (query (\<lambda>d. filter (\<lambda>e. ed_FormID e = fm_ID f) (email_deliveries d))) (\<lambda>emails.
      bnd (query (\<lambda>d. filter (\<lambda>m. list_ex (\<lambda>e. ed_MailerProfileID e = Some (mp_ID m)) emails) (mailers d))) (\<lambda>profiles.
      bnd (query (\<lambda>d. find (\<lambda>h. wd_FormID h = fm_ID f) (webhook_deliveries d))) (\<lambda>hook.
      ret \<lparr>lf_Form = f, lf_EmailDeliveries = emails, lf_Mailers = profiles, lf_WebhookDelivery = hook,
           lf_CaptchaProfile = captcha\<rparr>))))))"

definition GetByID :: "nat \<Rightarrow> loaded_form db_prog" where
  "GetByID i = loadForm (\<lambda>f. fm_ID f = i)"

definition GetBySlug :: "string \<Rightarrow> loaded_form db_prog" where
  "GetBySlug slug = loadForm (\<lambda>f. fm_Slug f = slug)"

definition PrimaryEmailDelivery :: "loaded_form option \<Rightarrow> email_delivery option" where
  "PrimaryEmailDelivery f =
     (case f of
        None \<Rightarrow> None
      | Some lf \<Rightarrow> (case lf_EmailDeliveries lf of [] \<Rightarrow> None | e # _ \<Rightarrow> Some e))"

definition GetEmailDelivery :: "nat \<Rightarrow> nat \<Rightarrow> (email_delivery \<times> mailer_profile option) db_prog" where
  "GetEmailDelivery formID i =
     bnd (first email_deliveries (\<lambda>e. ed_ID e = i \<and> ed_FormID e = formID)) (\<lambda>e.
     bnd (query (mailer_of e)) (\<lambda>m. ret (e, m)))"

definition GetEmailDeliveryByID :: "nat \<Rightarrow> (email_delivery \<times> mailer_profile option) db_prog" where
  "GetEmailDeliveryByID i =
     bnd (first email_deliveries (\<lambda>e. ed_ID e = i)) (\<lambda>e.
     bnd (query (mailer_of e)) (\<lambda>m. ret (e, m)))"

definition ListEmailDeliveries :: "nat \<Rightarrow> (email_delivery \<times> mailer_profile option) list db_prog" where
  "ListEmailDeliveries formID = wrap_err ''list email notifications''
     (bnd (query (\<lambda>d. filter (\<lambda>e. ed_FormID e = formID) (email_deliveries d))) (\<lambda>es.
      query (\<lambda>d. map (\<lambda>e. (e, mailer_of e d)) es)))"

definition MailerProfileUsage :: "nat \<Rightarrow> nat db_prog" where
  "MailerProfileUsage i = count_rows email_deliveries (\<lambda>e. ed_MailerProfileID e = Some i)"

definition CaptchaProfileUsage :: "nat \<Rightarrow> nat db_prog" where
  "CaptchaProfileUsage i = count_rows forms (\<lambda>f. fm_CaptchaProfileID f = Some i)"

section \<open>Checks inside the transaction\<close>

definition validateProfileReferences :: "nat option \<Rightarrow> nat option \<Rightarrow> unit db_prog" where
  "validateProfileReferences mailerID captchaID =
     bnd (case mailerID of
            None \<Rightarrow> ret ()
          | Some i \<Rightarrow> bnd (count_rows mailers (\<lambda>m. mp_ID m = i))
              (\<lambda>n. guard (n \<noteq> 0) (invalid ''mailer_profile_id'' ''Mailer profile not found''))) (\<lambda>_.
     case captchaID of
       None \<Rightarrow> ret ()
     | Some i \<Rightarrow> bnd (count_rows captchas (\<lambda>c. cp_ID c = i))
         (\<lambda>n. guard (n \<noteq> 0) (invalid ''captcha_profile_id'' ''Captcha profile not found'')))"

definition field_recipient :: "email_delivery \<Rightarrow> bool" where
  "field_recipient e \<longleftrightarrow> ed_Enabled e \<and> ed_RecipientSource e = ''field''"

definition validateAdditionalDynamicRecipients :: "nat \<Rightarrow> nat \<Rightarrow> nat option \<Rightarrow> unit db_prog" where
  "validateAdditionalDynamicRecipients formID primaryID captchaProfileID =
     (if captchaProfileID \<noteq> None then ret ()
      else bnd (count_rows email_deliveries
             (\<lambda>e. ed_FormID e = formID \<and> field_recipient e \<and> (primaryID \<noteq> 0 \<longrightarrow> ed_ID e \<noteq> primaryID)))
        (\<lambda>n. guard (n = 0)
           (invalid ''captcha_profile_id'' ''Turnstile cannot be removed while a field-derived recipient is enabled'')))"

definition isUniqueConstraint :: "err \<Rightarrow> bool" where
  "isUniqueConstraint e \<longleftrightarrow> err_is ErrDuplicatedKey e \<or> IsUniqueOrPrimaryConstraint (Some e)"

definition slug_taken :: "string \<Rightarrow> err \<Rightarrow> err" where
  "slug_taken what e =
     (if isUniqueConstraint e then invalid ''slug'' ''Slug already exists'' else Wrap what e)"

section \<open>Create\<close>

definition create_html :: "golib \<Rightarrow> CreateParams \<Rightarrow> string \<Rightarrow> string \<Rightarrow> err + string" where
  "create_html L p slug token =
     (let generatedHTML = trim_space (cr_GeneratedHTML p);
          templateID = trim_space (cr_TemplateID p);
          html = (if generatedHTML = [] \<and> templateID \<noteq> [] then
                    (case GetTemplateByID templateID of
                       None \<Rightarrow> Inl (invalid ''template'' ''Unknown form template'')
                     | Some t \<Rightarrow> Inr (RenderHTML (Some t)
                         (''/forms/'' @ PathEscape slug @ ''/submit?token='' @ QueryEscape token)))
                  else Inr generatedHTML)
      in rbind html (\<lambda>h. rbind (validateGeneratedHTML L h) (\<lambda>_. Inr h)))"

text \<open>What the parameters give before the database is touched.\<close>

record create_plan =
  pl_Name :: string
  pl_Slug :: string
  pl_Origins :: string
  pl_Email :: email_delivery
  pl_Hook :: webhookValues

definition create_plan_for :: "golib \<Rightarrow> CreateParams \<Rightarrow> err + create_plan" where
  "create_plan_for L p =
     (let name = trim_space (cr_Name p); slug = trim_space (cr_Slug p);
          origins = trim_space (cr_AllowedOrigins p)
      in if name = [] then Inl (invalid ''name'' ''Name is required'')
         else if slug = [] then Inl (invalid ''slug'' ''Slug is required'')
         else if origins = [] then Inl (invalid ''allowed_origins'' ''Allowed origins is required'')
         else rbind (normalizeAllowedOrigins L origins) (\<lambda>normalized.
              rbind (prepareEmailDelivery L (emailParamsFromCreate p)) (\<lambda>email.
              rbind (validateDynamicRecipientSafeguard email (cr_CaptchaProfileID p)) (\<lambda>_.
              rbind (prepareWebhookDelivery L (cr_WebhookEnabled p) (cr_WebhookURL p) (cr_WebhookSecret p)
                       (cr_WebhookHeadersJSON p)) (\<lambda>webhook.
              Inr \<lparr>pl_Name = name, pl_Slug = slug, pl_Origins = normalized, pl_Email = email, pl_Hook = webhook\<rparr>)))))"

definition new_hook :: "bool \<Rightarrow> webhookValues \<Rightarrow> webhook_delivery" where
  "new_hook enabled webhook =
     \<lparr>wd_ID = 0, wd_FormID = 0, wd_Enabled = enabled, wd_URL = wv_webhookURL webhook,
      wd_Secret = wv_webhookSecret webhook, wd_HeadersJSON = wv_webhookHeaders webhook\<rparr>"

definition create_form_tx ::
  "golib \<Rightarrow> CreateParams \<Rightarrow> create_plan \<Rightarrow> string \<Rightarrow> string \<Rightarrow> string \<Rightarrow> form db_prog" where
  "create_form_tx L p plan normalizedSlug token generatedHTML =
     bnd (validateProfileReferences (cr_MailerProfileID p) (cr_CaptchaProfileID p)) (\<lambda>_.
     create_form_row L
       \<lparr>fm_ID = 0, fm_PublicID = [], fm_Name = pl_Name plan, fm_Slug = normalizedSlug, fm_Token = token,
        fm_AllowedOrigins = pl_Origins plan, fm_GeneratedHTML = generatedHTML,
        fm_UploadsEnabled = cr_UploadsEnabled p, fm_CaptchaProfileID = cr_CaptchaProfileID p,
        fm_CreatedAt = 0\<rparr>
       (if emailDeliveryRequested (emailParamsFromCreate p) then [pl_Email plan] else [])
       (new_hook (cr_WebhookEnabled p) (pl_Hook plan)))"

definition Create :: "golib \<Rightarrow> CreateParams \<Rightarrow> form db_prog" where
  "Create L p =
     bnd (of_result (create_plan_for L p)) (\<lambda>plan.
     bnd (wrap_err ''generate form slug'' (Slugify L (pl_Slug plan))) (\<lambda>normalizedSlug.
     bnd (wrap_err ''generate form token'' (generateToken 24)) (\<lambda>token.
     bnd (of_result (create_html L p normalizedSlug token)) (\<lambda>generatedHTML.
     map_err (slug_taken ''create form'')
       (with_retry (create_form_tx L p plan normalizedSlug token generatedHTML))))))"

section \<open>Update\<close>

text \<open>The columns an update of a notification writes.\<close>

definition set_delivery :: "email_delivery \<Rightarrow> email_delivery \<Rightarrow> email_delivery" where
  "set_delivery email e =
     e\<lparr>ed_Name := ed_Name email, ed_Enabled := ed_Enabled email,
       ed_MailerProfileID := ed_MailerProfileID email,
       ed_RecipientSource := ed_RecipientSource email, ed_Recipient := ed_Recipient email,
       ed_ReplyToSource := ed_ReplyToSource email, ed_ReplyTo := ed_ReplyTo email,
       ed_SubjectTemplate := ed_SubjectTemplate email, ed_Format := ed_Format email,
       ed_TextTemplate := ed_TextTemplate email, ed_HTMLTemplate := ed_HTMLTemplate email\<rparr>"

definition set_form ::
  "string \<Rightarrow> string \<Rightarrow> string \<Rightarrow> string \<Rightarrow> bool \<Rightarrow> nat option \<Rightarrow> form \<Rightarrow> form" where
  "set_form name slug origins html uploads captchaID f =
     f\<lparr>fm_Name := name, fm_Slug := slug, fm_AllowedOrigins := origins, fm_GeneratedHTML := html,
       fm_UploadsEnabled := uploads, fm_CaptchaProfileID := captchaID\<rparr>"

definition set_hook :: "bool \<Rightarrow> webhookValues \<Rightarrow> webhook_delivery \<Rightarrow> webhook_delivery" where
  "set_hook enabled webhook h =
     h\<lparr>wd_Enabled := enabled, wd_URL := wv_webhookURL webhook, wd_Secret := wv_webhookSecret webhook,
       wd_HeadersJSON := wv_webhookHeaders webhook\<rparr>"

definition update_hook :: "nat \<Rightarrow> bool \<Rightarrow> webhookValues \<Rightarrow> unit db_prog" where
  "update_hook i enabled webhook =
     exec (\<lambda>d. d\<lparr>webhook_deliveries :=
       update_where (\<lambda>h. wd_ID h = i) (set_hook enabled webhook) (webhook_deliveries d)\<rparr>)"

definition optional :: "string \<Rightarrow> (string \<Rightarrow> 'a db_prog) \<Rightarrow> 'a \<Rightarrow> 'a db_prog" where
  "optional v f old = (if trim_space v = [] then ret old else f (trim_space v))"

text \<open>The transaction of \<open>Update\<close>, with the values computed before it.\<close>

definition update_form_tx ::
  "UpdateParams \<Rightarrow> nat \<Rightarrow> email_delivery option \<Rightarrow> nat \<Rightarrow> email_delivery \<Rightarrow> webhookValues
   \<Rightarrow> string \<Rightarrow> string \<Rightarrow> string \<Rightarrow> string \<Rightarrow> unit db_prog" where
  "update_form_tx p formID primary hookID email webhook name slug origins html =
     bnd (validateProfileReferences (up_MailerProfileID p) (up_CaptchaProfileID p)) (\<lambda>_.
     bnd (validateAdditionalDynamicRecipients formID (case primary of None \<Rightarrow> 0 | Some e \<Rightarrow> ed_ID e)
            (up_CaptchaProfileID p)) (\<lambda>_.
     bnd (stmt (update_forms (\<lambda>f. fm_ID f = up_ID p)
            (set_form name slug origins html (up_UploadsEnabled p) (up_CaptchaProfileID p)))) (\<lambda>_.
     bnd (case primary of
            Some e \<Rightarrow> bnd (stmt (update_email_deliveries (\<lambda>x. ed_ID x = ed_ID e) (set_delivery email))) (\<lambda>_. ret ())
          | None \<Rightarrow>
              if emailDeliveryRequested (emailParamsFromUpdate p)
              then bnd (stmt (insert_email_delivery (email\<lparr>ed_FormID := formID\<rparr>))) (\<lambda>_. ret ())
              else ret ()) (\<lambda>_.
     update_hook hookID (up_WebhookEnabled p) webhook))))"

definition Update :: "golib \<Rightarrow> UpdateParams \<Rightarrow> loaded_form db_prog" where
  "Update L p =
     (let name = trim_space (up_Name p) in
      bnd (guard (name \<noteq> []) (invalid ''name'' ''Name is required'')) (\<lambda>_.
      bnd (GetByID (up_ID p)) (\<lambda>lf.
      case lf_WebhookDelivery lf of
        None \<Rightarrow> fail (Plain (''form '' @ dec_digits (up_ID p) @ '' has incomplete delivery configuration''))
      | Some hook \<Rightarrow>
          bnd (of_result (prepareEmailDelivery L (emailParamsFromUpdate p))) (\<lambda>email.
          bnd (of_result (validateDynamicRecipientSafeguard email (up_CaptchaProfileID p))) (\<lambda>_.
          bnd (of_result (prepareWebhookDelivery L (up_WebhookEnabled p) (up_WebhookURL p) (up_WebhookSecret p)
                 (up_WebhookHeadersJSON p))) (\<lambda>webhook.
          bnd (optional (up_AllowedOrigins p) (\<lambda>v. of_result (normalizeAllowedOrigins L v))
                 (fm_AllowedOrigins (lf_Form lf))) (\<lambda>origins.
          bnd (optional (up_Slug p) (\<lambda>v. wrap_err ''generate form slug'' (Slugify L v)) (fm_Slug (lf_Form lf))) (\<lambda>slug.
          bnd (if up_UpdateGeneratedHTML p
               then of_result (rbind (validateGeneratedHTML L (trim_space (up_GeneratedHTML p)))
                      (\<lambda>_. Inr (trim_space (up_GeneratedHTML p))))
               else ret (fm_GeneratedHTML (lf_Form lf))) (\<lambda>html.
          bnd (map_err (slug_taken (''update form '' @ dec_digits (up_ID p)))
                 (with_retry (update_form_tx p (fm_ID (lf_Form lf)) (PrimaryEmailDelivery (Some lf)) (wd_ID hook)
                    email webhook name slug origins html))) (\<lambda>_.
          GetByID (up_ID p)))))))))))"

section \<open>Notifications\<close>

definition CreateEmailDelivery :: "golib \<Rightarrow> EmailDeliveryParams \<Rightarrow> (email_delivery \<times> mailer_profile option) db_prog" where
  "CreateEmailDelivery L p =
     bnd (of_result (prepareEmailDelivery L p)) (\<lambda>delivery.
     bnd (guard (ep_FormID p \<noteq> 0) (invalid ''form_id'' ''Form is required'')) (\<lambda>_.
     bnd (wrap_err ''create email notification''
       (with_retry
         (bnd (first forms (\<lambda>f. fm_ID f = ep_FormID p)) (\<lambda>f.
          bnd (of_result (validateDynamicRecipientSafeguard delivery (fm_CaptchaProfileID f))) (\<lambda>_.
          bnd (validateProfileReferences (ed_MailerProfileID delivery) None) (\<lambda>_.
          stmt (insert_email_delivery (delivery\<lparr>ed_FormID := ep_FormID p\<rparr>)))))))) (\<lambda>i.
     GetEmailDelivery (ep_FormID p) i)))"

definition UpdateEmailDelivery :: "golib \<Rightarrow> EmailDeliveryParams \<Rightarrow> (email_delivery \<times> mailer_profile option) db_prog" where
  "UpdateEmailDelivery L p =
     bnd (guard (ep_ID p \<noteq> 0 \<and> ep_FormID p \<noteq> 0) (Sentinel ErrRecordNotFound)) (\<lambda>_.
     bnd (of_result (prepareEmailDelivery L p)) (\<lambda>delivery.
     bnd (wrap_err ''update email notification''
       (with_retry
         (bnd (first forms (\<lambda>f. fm_ID f = ep_FormID p)) (\<lambda>f.
          bnd (of_result (validateDynamicRecipientSafeguard delivery (fm_CaptchaProfileID f))) (\<lambda>_.
          bnd (validateProfileReferences (ed_MailerProfileID delivery) None) (\<lambda>_.
          bnd (stmt (update_email_deliveries (\<lambda>e. ed_ID e = ep_ID p \<and> ed_FormID e = ep_FormID p)
                 (set_delivery delivery))) (\<lambda>n.
          guard (n \<noteq> 0) (Sentinel ErrRecordNotFound)))))))) (\<lambda>_.
     GetEmailDelivery (ep_FormID p) (ep_ID p))))"

definition DeleteEmailDelivery :: "nat \<Rightarrow> nat \<Rightarrow> unit db_prog" where
  "DeleteEmailDelivery formID i =
     bnd (guard (formID \<noteq> 0 \<and> i \<noteq> 0) (Sentinel ErrRecordNotFound)) (\<lambda>_.
     with_retry
       (bnd (stmt (\<lambda>d. Inr (count_where (\<lambda>e. ed_ID e = i \<and> ed_FormID e = formID) (email_deliveries d),
                            delete_email_deliveries (\<lambda>e. ed_ID e = i \<and> ed_FormID e = formID) d))) (\<lambda>n.
        guard (n \<noteq> 0) (Sentinel ErrRecordNotFound))))"

section \<open>The rest of a form's life\<close>

definition of_form :: "nat \<Rightarrow> database \<Rightarrow> nat \<Rightarrow> bool" where
  "of_form formID d submissionID \<longleftrightarrow>
     list_ex (\<lambda>s. sb_FormID s = formID \<and> sb_ID s = submissionID) (submissions d)"

definition deleteFormRecords :: "nat \<Rightarrow> unit db_prog" where
  "deleteFormRecords i =
     bnd (exec (\<lambda>d. d\<lparr>webhook_events := delete_where (\<lambda>e. of_form i d (ev_SubmissionID e)) (webhook_events d)\<rparr>)) (\<lambda>_.
     bnd (exec (\<lambda>d. d\<lparr>email_events := delete_where (\<lambda>e. of_form i d (ev_SubmissionID e)) (email_events d)\<rparr>)) (\<lambda>_.
     bnd (exec (\<lambda>d. d\<lparr>submission_files := delete_where (\<lambda>f. of_form i d (sf_SubmissionID f)) (submission_files d)\<rparr>)) (\<lambda>_.
     bnd (exec (delete_submissions (\<lambda>s. sb_FormID s = i))) (\<lambda>_.
     bnd (exec (delete_email_deliveries (\<lambda>e. ed_FormID e = i))) (\<lambda>_.
     bnd (exec (delete_hooks (\<lambda>h. wd_FormID h = i))) (\<lambda>_.
     bnd (stmt (\<lambda>d. Inr (count_where (\<lambda>f. fm_ID f = i) (forms d), delete_forms (\<lambda>f. fm_ID f = i) d))) (\<lambda>n.
     guard (n \<noteq> 0) (Sentinel ErrRecordNotFound))))))))"

definition blank_hook :: "nat \<Rightarrow> webhook_delivery" where
  "blank_hook formID =
     \<lparr>wd_ID = 0, wd_FormID = formID, wd_Enabled = False, wd_URL = [], wd_Secret = [], wd_HeadersJSON = []\<rparr>"

definition ReconcileDeliveryRecords :: "unit db_prog" where
  "ReconcileDeliveryRecords =
     with_retry
       (bnd (query (\<lambda>d. map fm_ID (filter (\<lambda>f. \<not> has_key wd_FormID (webhook_deliveries d) (fm_ID f)) (forms d))))
         (\<lambda>missing. each (\<lambda>formID. bnd (stmt (insert_webhook_delivery (blank_hook formID))) (\<lambda>_. ret ())) missing))"

definition RotateToken :: "nat \<Rightarrow> loaded_form db_prog" where
  "RotateToken i =
     bnd (GetByID i) (\<lambda>_.
     bnd (wrap_err ''generate form token'' (generateToken 24)) (\<lambda>token.
     bnd (wrap_err ''rotate form token''
       (with_retry (bnd (stmt (update_forms (\<lambda>f. fm_ID f = i) (\<lambda>f. f\<lparr>fm_Token := token\<rparr>))) (\<lambda>_. ret ())))) (\<lambda>_.
     GetByID i)))"

section \<open>What loading returns\<close>

lemma loadForm_result:
  assumes "loadForm p w = (Inr lf, w')"
  shows "db w' = db w" "find p (forms (db w)) = Some (lf_Form lf)"
    "lf_EmailDeliveries lf = filter (\<lambda>e. ed_FormID e = fm_ID (lf_Form lf)) (email_deliveries (db w))"
    "lf_WebhookDelivery lf = find (\<lambda>h. wd_FormID h = fm_ID (lf_Form lf)) (webhook_deliveries (db w))"
    "lf_CaptchaProfile lf = captcha_of (lf_Form lf) (db w)"
  using assms unfolding loadForm_def by (auto elim!: bnd_InrE first_InrE query_InrE)

lemma find_SomeD: "find p xs = Some x \<Longrightarrow> x \<in> set xs \<and> p x"
  by (induction xs) (auto split: if_splits)

lemma reads_loadForm [tx_keeps]: "reads (loadForm p)"
  unfolding loadForm_def by (intro tx_keeps)

lemma reads_GetByID [tx_keeps]: "reads (GetByID i)"
  unfolding GetByID_def by (rule reads_loadForm)

lemma reads_GetEmailDelivery [tx_keeps]: "reads (GetEmailDelivery f i)"
  unfolding GetEmailDelivery_def by (intro tx_keeps)

lemma reads_validateProfileReferences [tx_keeps]: "reads (validateProfileReferences m c)"
  unfolding validateProfileReferences_def by (intro tx_keeps)

lemma reads_validateAdditional [tx_keeps]: "reads (validateAdditionalDynamicRecipients f p c)"
  unfolding validateAdditionalDynamicRecipients_def by (intro tx_keeps)

lemma reads_optional [tx_keeps]: "(\<And>x. reads (f x)) \<Longrightarrow> reads (optional v f old)"
  by (simp add: optional_def reads_ret)

lemma reads_GetEmailDeliveryByID [tx_keeps]: "reads (GetEmailDeliveryByID i)"
  unfolding GetEmailDeliveryByID_def by (intro tx_keeps)

lemmas keeps_read = tx_keeps reads_first [THEN keeps_reads] reads_count_rows [THEN keeps_reads]
  reads_time_now [THEN keeps_reads] reads_randomHex [THEN keeps_reads] reads_Slugify [THEN keeps_reads]
  reads_generateToken [THEN keeps_reads] reads_loadForm [THEN keeps_reads] reads_GetByID [THEN keeps_reads]
  reads_GetEmailDelivery [THEN keeps_reads] reads_GetEmailDeliveryByID [THEN keeps_reads]
  reads_validateProfileReferences [THEN keeps_reads] reads_validateAdditional [THEN keeps_reads]

section \<open>Every operation keeps the database well-formed\<close>

lemma set_keys [simp]:
  "ed_ID (set_delivery email e) = ed_ID e" "ed_FormID (set_delivery email e) = ed_FormID e"
  "fm_ID (set_form n s og h u c f) = fm_ID f" "fm_PublicID (set_form n s og h u c f) = fm_PublicID f"
  "wd_ID (set_hook b v k) = wd_ID k" "wd_FormID (set_hook b v k) = wd_FormID k"
  by (simp_all add: set_delivery_def set_form_def set_hook_def)

lemma keeps_update_forms:
  "(\<And>r. fm_ID (f r) = fm_ID r) \<Longrightarrow> (\<And>r. fm_PublicID (f r) = fm_PublicID r) \<Longrightarrow>
   keeps db_ok (stmt (update_forms p f))"
  by (auto intro!: keeps_stmt intro: update_forms_ok)

lemma keeps_update_email_deliveries:
  "(\<And>r. ed_ID (f r) = ed_ID r) \<Longrightarrow> (\<And>r. ed_FormID (f r) = ed_FormID r) \<Longrightarrow>
   keeps db_ok (stmt (update_email_deliveries p f))"
  by (auto intro!: keeps_stmt intro: update_email_deliveries_ok)

lemma keeps_update_hook: "keeps db_ok (update_hook i b v)"
  unfolding update_hook_def by (intro keeps_exec update_hooks_ok) simp_all

lemma keeps_Create: "keeps db_ok (Create L p)"
  unfolding Create_def create_form_tx_def by (intro keeps_read)

lemma keeps_update_form_tx: "keeps db_ok (update_form_tx p i primary h email webhook n s og html)"
  unfolding update_form_tx_def
  by (intro keeps_read keeps_update_forms keeps_update_email_deliveries keeps_update_hook) simp_all

lemma keeps_Update: "keeps db_ok (Update L p)"
  unfolding Update_def Let_def
  by (intro keeps_read keeps_update_form_tx reads_optional [THEN keeps_reads])

lemma keeps_CreateEmailDelivery: "keeps db_ok (CreateEmailDelivery L p)"
  unfolding CreateEmailDelivery_def by (intro keeps_read)

lemma keeps_UpdateEmailDelivery: "keeps db_ok (UpdateEmailDelivery L p)"
  unfolding UpdateEmailDelivery_def by (intro keeps_read keeps_update_email_deliveries) simp_all

lemma keeps_DeleteEmailDelivery: "keeps db_ok (DeleteEmailDelivery f i)"
  unfolding DeleteEmailDelivery_def
  by (intro keeps_read keeps_stmt) (auto intro: delete_email_deliveries_ok)

lemma delete_rows_ok:
  "db_ok d \<Longrightarrow> db_ok (d\<lparr>webhook_events := delete_where p (webhook_events d)\<rparr>)"
  "db_ok d \<Longrightarrow> db_ok (d\<lparr>email_events := delete_where q (email_events d)\<rparr>)"
  "db_ok d \<Longrightarrow> db_ok (d\<lparr>submission_files := delete_where r (submission_files d)\<rparr>)"
  by (simp_all add: db_ok_defs keys_ok_delete)

lemma keeps_deleteFormRecords: "keeps db_ok (deleteFormRecords i)"
  unfolding deleteFormRecords_def
  by (intro tx_keeps keeps_exec delete_rows_ok delete_submissions_ok delete_email_deliveries_ok
      delete_hooks_ok keeps_stmt) (auto intro: delete_forms_ok)

lemma keeps_Reconcile: "keeps db_ok ReconcileDeliveryRecords"
  unfolding ReconcileDeliveryRecords_def by (intro tx_keeps)

lemma keeps_RotateToken: "keeps db_ok (RotateToken i)"
  unfolding RotateToken_def by (intro keeps_read keeps_update_forms) simp_all

end
