(* ===== verification/Form_Laws.thy ===== *)
theory Form_Laws
  imports Form_Ops
begin

text \<open>
  What the operations of \<open>Form_Ops\<close> promise: the safeguard on field-derived recipients is an
  invariant of the whole database, deletion leaves nothing of a form behind and touches no
  other form, reconciliation restores the one webhook row per form, token rotation changes
  the token alone.
\<close>

section \<open>The safeguard on field-derived recipients\<close>

definition guarded :: "nat \<Rightarrow> database \<Rightarrow> bool" where
  "guarded i d \<longleftrightarrow> (\<exists>f\<in>set (forms d). fm_ID f = i \<and> fm_CaptchaProfileID f \<noteq> None)"

definition safeguarded :: "database \<Rightarrow> bool" where
  "safeguarded d \<longleftrightarrow> (\<forall>e\<in>set (email_deliveries d). field_recipient e \<longrightarrow> guarded (ed_FormID e) d)"

lemma safeguard_checked:
  "validateDynamicRecipientSafeguard e c = Inr () \<longleftrightarrow> (field_recipient e \<longrightarrow> c \<noteq> None)"
  by (auto simp: validateDynamicRecipientSafeguard_def field_recipient_def)

lemma guarded_forms: "forms d' = forms d \<Longrightarrow> guarded i d' = guarded i d"
  by (simp add: guarded_def)

lemma insert_form_effect:
  assumes "insert_form r d = Inr (i, d')"
  shows "forms d' = forms d @ [r\<lparr>fm_ID := i\<rparr>]" "email_deliveries d' = email_deliveries d" "i = Suc (seqs d TForms)"
    "webhook_deliveries d' = webhook_deliveries d"
  using assms by (auto simp: insert_form_def Let_def next_id_def row_simps split: if_splits)

lemma insert_email_delivery_effect:
  assumes "insert_email_delivery e d = Inr (i, d')"
  shows "email_deliveries d' = email_deliveries d @ [e\<lparr>ed_ID := i\<rparr>]" "forms d' = forms d"
    "webhook_deliveries d' = webhook_deliveries d"
  using assms by (auto simp: insert_email_delivery_def Let_def next_id_def row_simps split: if_splits)

lemma insert_webhook_delivery_effect:
  assumes "insert_webhook_delivery h d = Inr (i, d')"
  shows "email_deliveries d' = email_deliveries d" "forms d' = forms d"
    "webhook_deliveries d' = webhook_deliveries d @ [h\<lparr>wd_ID := i\<rparr>]" "submissions d' = submissions d"
  using assms by (auto simp: insert_webhook_delivery_def Let_def next_id_def row_simps split: if_splits)

lemma safeguarded_insert_form: "safeguarded d \<Longrightarrow> insert_form r d = Inr (i, d') \<Longrightarrow> safeguarded d'"
  using insert_form_effect [of r d i d'] by (auto simp: safeguarded_def guarded_def)

lemma safeguarded_insert_hook: "safeguarded d \<Longrightarrow> insert_webhook_delivery h d = Inr (i, d') \<Longrightarrow> safeguarded d'"
  using insert_webhook_delivery_effect [of h d i d'] by (simp add: safeguarded_def guarded_def)

lemma safeguarded_insert_delivery:
  assumes "safeguarded d" "insert_email_delivery e d = Inr (i, d')"
    and "field_recipient e \<Longrightarrow> guarded (ed_FormID e) d"
  shows "safeguarded d'"
  using assms insert_email_delivery_effect [OF assms(2)]
  by (auto simp: safeguarded_def guarded_def field_recipient_def)

lemma field_recipient_simps [simp]:
  "field_recipient (e\<lparr>ed_FormID := i\<rparr>) = field_recipient e"
  "field_recipient (set_delivery email e) = field_recipient email"
  by (simp_all add: field_recipient_def set_delivery_def)

text \<open>The rows created with a form: its notifications are safe when its captcha is set.\<close>

lemma create_form_row_safeguarded:
  assumes "\<forall>e\<in>set emails. field_recipient e \<longrightarrow> fm_CaptchaProfileID f \<noteq> None"
  shows "keeps safeguarded (create_form_row L f emails hook)"
proof -
  let ?P = "\<lambda>i d. safeguarded d \<and> (fm_CaptchaProfileID f \<noteq> None \<longrightarrow> guarded i d)"
  have before: "yields safeguarded (BeforeCreate L f)
      (\<lambda>g d. safeguarded d \<and> fm_CaptchaProfileID g = fm_CaptchaProfileID f)"
  proof -
    have "fm_CaptchaProfileID g = fm_CaptchaProfileID f" if "BeforeCreate L f w = (Inr g, w')" for g w w'
      using that unfolding BeforeCreate_def by (auto elim!: bnd_InrE split: if_splits)
    then show ?thesis
      using readsD [OF reads_BeforeCreate] by (fastforce simp: yields_def)
  qed
  have emails: "keeps (?P i) (each (\<lambda>e. bnd (stmt (insert_email_delivery (e\<lparr>ed_FormID := i\<rparr>))) (\<lambda>_. ret ())) es)"
    if "set es \<subseteq> set emails" for i es
    using that
  proof (induction es)
    case (Cons e es)
    have "keeps (?P i) (stmt (insert_email_delivery (e\<lparr>ed_FormID := i\<rparr>)))"
    proof (rule keeps_stmt)
      fix d x d' assume d: "?P i d" "insert_email_delivery (e\<lparr>ed_FormID := i\<rparr>) d = Inr (x, d')"
      then have "safeguarded d'"
        using assms Cons.prems by (auto intro!: safeguarded_insert_delivery [OF _ d(2)])
      with d show "?P i d'" by (simp add: guarded_forms [OF insert_email_delivery_effect(2) [OF d(2)]])
    qed
    with Cons show ?case by (auto intro!: keeps_bnd keeps_ret)
  qed (simp add: keeps_ret)
  have hook: "yields (?P i) (stmt (insert_webhook_delivery (hook\<lparr>wd_FormID := i\<rparr>))) (\<lambda>_. ?P i)" for i
  proof (fold keeps_yields, rule keeps_stmt)
    fix d x d' assume d: "?P i d" "insert_webhook_delivery (hook\<lparr>wd_FormID := i\<rparr>) d = Inr (x, d')"
    then have "safeguarded d'" by (blast intro: safeguarded_insert_hook)
    with d show "?P i d'"
      by (simp add: guarded_forms [OF insert_webhook_delivery_effect(2) [OF d(2)]])
  qed
  have form: "yields (\<lambda>d. safeguarded d \<and> fm_CaptchaProfileID g = fm_CaptchaProfileID f)
      (stmt (insert_form (g\<lparr>fm_CreatedAt := now\<rparr>))) ?P" for g now
  proof (rule yields_conseq [OF yields_stmt])
    fix i d' assume "\<exists>d. (safeguarded d \<and> fm_CaptchaProfileID g = fm_CaptchaProfileID f) \<and>
        insert_form (g\<lparr>fm_CreatedAt := now\<rparr>) d = Inr (i, d')"
    then obtain d where d: "safeguarded d" "fm_CaptchaProfileID g = fm_CaptchaProfileID f"
      "insert_form (g\<lparr>fm_CreatedAt := now\<rparr>) d = Inr (i, d')" by blast
    with safeguarded_insert_form insert_form_effect(1) [OF d(3)] show "?P i d'"
      by (auto simp: guarded_def)
  qed simp
  show ?thesis
    unfolding keeps_yields create_form_row_def
    by (rule yields_bnd [OF before], rule yields_bnd [OF yields_reads [OF reads_time_now]],
        rule yields_bnd [OF form], rule yields_bnd [OF hook],
        rule yields_bnd [OF emails [unfolded keeps_yields]], simp, rule yields_ret, simp)
qed

lemma create_plan_checked:
  assumes "create_plan_for L p = Inr plan"
  shows "field_recipient (pl_Email plan) \<longrightarrow> cr_CaptchaProfileID p \<noteq> None" "prepared L (pl_Email plan)"
    "pl_Name plan = trim_space (cr_Name p)" "pl_Name plan \<noteq> []" "pl_Slug plan = trim_space (cr_Slug p)" "pl_Slug plan \<noteq> []"
    "normalizeAllowedOrigins L (trim_space (cr_AllowedOrigins p)) = Inr (pl_Origins plan)"
  using assms
  by (auto simp: create_plan_for_def Let_def rbind_Inr_iff safeguard_checked prepareEmailDelivery_prepared
      split: if_splits)

lemma Create_steps:
  assumes "Create L p w = (Inr f, w')"
  obtains plan slug token html w1 w2 w3 w4 where "create_plan_for L p = Inr plan"
    "Slugify L (pl_Slug plan) w = (Inr slug, w1)" "randomHex 24 w1 = (Inr token, w2)"
    "create_html L p slug token = Inr html" "db w3 = db w"
    "create_form_tx L p plan slug token html w3 = (Inr f, w4)" "db w' = db w4"
proof -
  from assms obtain plan slug token html w1 w2 where s: "create_plan_for L p = Inr plan"
    "Slugify L (pl_Slug plan) w = (Inr slug, w1)" "randomHex 24 w1 = (Inr token, w2)"
    "create_html L p slug token = Inr html"
    "with_retry (create_form_tx L p plan slug token html) w2 = (Inr f, w')"
    unfolding Create_def by (auto elim!: bnd_InrE simp: generateToken_def)
  from s(5) obtain w3 w4 where "db w3 = db w2" "create_form_tx L p plan slug token html w3 = (Inr f, w4)"
    "db w' = db w4" by (rule with_retry_InrE)
  moreover have "db w2 = db w"
    using readsD [OF reads_Slugify s(2)] readsD [OF reads_randomHex s(3)] by simp
  ultimately show ?thesis using that s by metis
qed

lemma Create_safeguarded: "keeps safeguarded (Create L p)"
  unfolding keeps_def
proof (intro allI impI)
  fix w f w' assume c: "Create L p w = (Inr f, w')" and g: "safeguarded (db w)"
  from c obtain plan slug token html w1 w2 w3 w4 where s: "create_plan_for L p = Inr plan" "db w3 = db w"
    "create_form_tx L p plan slug token html w3 = (Inr f, w4)" "db w' = db w4"
    by (rule Create_steps)
  have "keeps safeguarded (create_form_tx L p plan slug token html)"
    unfolding create_form_tx_def
    using create_plan_checked(1) [OF s(1)] by (intro keeps_read create_form_row_safeguarded) auto
  from keepsD [OF this s(3)] g s(2,4) show "safeguarded (db w')" by simp
qed

section \<open>The other operations keep the safeguard\<close>

lemma yields_first: "yields P (first tab p) (\<lambda>r d. P d \<and> r \<in> set (tab d) \<and> p r)"
  unfolding yields_def by (auto elim!: first_InrE dest: find_SomeD)

lemma yields_count_rows: "yields P (count_rows tab p) (\<lambda>n d. P d \<and> n = count_where p (tab d))"
  unfolding count_rows_def by (rule yields_query)

text \<open>The check both notification handlers make before they write.\<close>

lemma safeguard_check_yields:
  assumes "yields (\<lambda>d. safeguarded d \<and> (field_recipient e \<longrightarrow> guarded i d)) m (\<lambda>_. safeguarded)"
  shows "yields safeguarded
     (bnd (first forms (\<lambda>f. fm_ID f = i)) (\<lambda>f.
      bnd (of_result (validateDynamicRecipientSafeguard e (fm_CaptchaProfileID f))) (\<lambda>_.
      bnd (validateProfileReferences mailer None) (\<lambda>_. m)))) (\<lambda>_. safeguarded)"
proof -
  have check: "yields (\<lambda>d. safeguarded d \<and> f \<in> set (forms d) \<and> fm_ID f = i)
      (of_result (validateDynamicRecipientSafeguard e (fm_CaptchaProfileID f)))
      (\<lambda>_ d. safeguarded d \<and> (field_recipient e \<longrightarrow> guarded i d))" for f
    by (rule yields_of_resultI) (auto simp: guarded_def safeguard_checked)
  show ?thesis
    by (rule yields_bnd [OF yields_first], rule yields_bnd [OF check],
        rule yields_bnd [OF yields_reads [OF reads_validateProfileReferences]], rule assms)
qed

lemma CreateEmailDelivery_safeguarded: "keeps safeguarded (CreateEmailDelivery L p)"
proof -
  have wr: "yields (\<lambda>d. safeguarded d \<and> (field_recipient e \<longrightarrow> guarded (ep_FormID p) d))
      (stmt (insert_email_delivery (e\<lparr>ed_FormID := ep_FormID p\<rparr>))) (\<lambda>_. safeguarded)" for e
    by (rule yields_stmtI) (auto intro: safeguarded_insert_delivery)
  show ?thesis
    unfolding CreateEmailDelivery_def
    by (intro keeps_bnd keeps_of_result keeps_guard keeps_wrap_err keeps_with_retry
        keeps_yields [THEN iffD2] safeguard_check_yields wr yields_reads reads_GetEmailDelivery)
qed

lemma update_email_deliveries_effect:
  assumes "update_email_deliveries p f d = Inr (n, d')"
  shows "email_deliveries d' = update_where p f (email_deliveries d)" "forms d' = forms d"
    "n = count_where p (email_deliveries d)" "webhook_deliveries d' = webhook_deliveries d"
  using assms by (auto simp: update_email_deliveries_def)

lemma update_forms_effect:
  assumes "update_forms p f d = Inr (n, d')"
  shows "forms d' = update_where p f (forms d)" "email_deliveries d' = email_deliveries d"
    "n = count_where p (forms d)" "d' = d\<lparr>forms := update_where p f (forms d)\<rparr>"
  using assms by (auto simp: update_forms_def)

lemma UpdateEmailDelivery_safeguarded: "keeps safeguarded (UpdateEmailDelivery L p)"
proof -
  let ?P = "\<lambda>e d. safeguarded d \<and> (field_recipient e \<longrightarrow> guarded (ep_FormID p) d)"
  let ?rows = "\<lambda>x. ed_ID x = ep_ID p \<and> ed_FormID x = ep_FormID p"
  have upd: "safeguarded d'" if "?P e d" "update_email_deliveries ?rows (set_delivery e) d = Inr (n, d')" for e d n d'
    using that
    by (auto simp: safeguarded_def update_email_deliveries_effect [OF that(2)] ball_update_where
        guarded_forms [OF update_email_deliveries_effect(2) [OF that(2)]])
  have wr: "yields (?P e) (bnd (stmt (update_email_deliveries ?rows (set_delivery e)))
        (\<lambda>n. guard (n \<noteq> 0) (Sentinel ErrRecordNotFound))) (\<lambda>_. safeguarded)" for e
    by (rule yields_bnd [OF yields_stmtI [where Q = "\<lambda>_. safeguarded"]]) (blast intro: upd, rule yields_guardI)
  show ?thesis
    unfolding UpdateEmailDelivery_def
    by (intro keeps_bnd keeps_of_result keeps_guard keeps_wrap_err keeps_with_retry
        keeps_yields [THEN iffD2] safeguard_check_yields wr yields_reads reads_GetEmailDelivery)
qed

lemma delete_email_deliveries_safeguarded: "safeguarded d \<Longrightarrow> safeguarded (delete_email_deliveries p d)"
  by (auto simp: safeguarded_def guarded_def delete_email_deliveries_def)

lemma delete_forms_safeguarded: "safeguarded d \<Longrightarrow> safeguarded (delete_forms p d)"
  by (fastforce simp: safeguarded_def guarded_def delete_forms_def delete_simps list_ex_iff)

lemma DeleteEmailDelivery_safeguarded: "keeps safeguarded (DeleteEmailDelivery f i)"
  unfolding DeleteEmailDelivery_def
  by (intro tx_keeps keeps_stmt) (auto intro: delete_email_deliveries_safeguarded)

lemma safeguarded_other_tables:
  "safeguarded (d\<lparr>webhook_events := a\<rparr>) = safeguarded d" "safeguarded (d\<lparr>email_events := b\<rparr>) = safeguarded d"
  "safeguarded (d\<lparr>submission_files := c\<rparr>) = safeguarded d" "safeguarded (delete_submissions p d) = safeguarded d"
  "safeguarded (delete_hooks q d) = safeguarded d"
  by (simp_all add: safeguarded_def guarded_def delete_submissions_def delete_hooks_def Let_def)

lemma deleteFormRecords_safeguarded: "keeps safeguarded (deleteFormRecords i)"
  unfolding deleteFormRecords_def
  by (intro tx_keeps keeps_exec keeps_stmt)
    (auto simp: safeguarded_other_tables
      intro: delete_email_deliveries_safeguarded delete_forms_safeguarded)

lemma Reconcile_safeguarded: "keeps safeguarded ReconcileDeliveryRecords"
  unfolding ReconcileDeliveryRecords_def
  by (intro tx_keeps keeps_stmt) (auto intro: safeguarded_insert_hook)

lemma guarded_update_forms:
  assumes "guarded i d" "update_forms p g d = Inr (n, d')"
    and "\<And>f. fm_ID (g f) = fm_ID f"
    and "\<And>f. p f \<Longrightarrow> fm_ID f = i \<Longrightarrow> fm_CaptchaProfileID f \<noteq> None \<Longrightarrow> fm_CaptchaProfileID (g f) \<noteq> None"
  shows "guarded i d'"
proof -
  from assms(1) obtain f where f: "f \<in> set (forms d)" "fm_ID f = i" "fm_CaptchaProfileID f \<noteq> None"
    by (auto simp: guarded_def)
  let ?f = "if p f then g f else f"
  have "?f \<in> set (forms d')"
    using f(1) update_forms_effect(1) [OF assms(2)] by (auto simp: set_update_where)
  moreover have "fm_ID ?f = i \<and> fm_CaptchaProfileID ?f \<noteq> None" using f assms(3,4) by auto
  ultimately show ?thesis unfolding guarded_def by blast
qed

lemma RotateToken_safeguarded: "keeps safeguarded (RotateToken i)"
proof -
  have "safeguarded d'" if "safeguarded d" "update_forms (\<lambda>f. fm_ID f = i) (\<lambda>f. f\<lparr>fm_Token := t\<rparr>) d = Inr (n, d')"
    for d d' n t
    using that(1) unfolding safeguarded_def update_forms_effect(2) [OF that(2)]
    by (auto intro: guarded_update_forms [OF _ that(2)])
  then show ?thesis
    unfolding RotateToken_def by (intro keeps_read keeps_stmt) blast
qed

section \<open>Update\<close>

lemma optional_db: "optional v f old w = (Inr x, w') \<Longrightarrow> (\<And>v. reads (f v)) \<Longrightarrow> db w' = db w"
  by (auto simp: optional_def dest: readsD split: if_splits)

lemma Update_steps:
  assumes "Update L p w = (Inr lf', w')"
  obtains lf hook email webhook slug origins html w1 w2 w3 w4 where
    "GetByID (up_ID p) w = (Inr lf, w1)" "lf_WebhookDelivery lf = Some hook" "trim_space (up_Name p) \<noteq> []"
    "prepareEmailDelivery L (emailParamsFromUpdate p) = Inr email"
    "field_recipient email \<longrightarrow> up_CaptchaProfileID p \<noteq> None"
    "db w2 = db w"
    "update_form_tx p (fm_ID (lf_Form lf)) (PrimaryEmailDelivery (Some lf)) (wd_ID hook) email webhook
       (trim_space (up_Name p)) slug origins html w2 = (Inr (), w3)"
    "db w4 = db w3" "GetByID (up_ID p) w4 = (Inr lf', w')"
    "prepareWebhookDelivery L (up_WebhookEnabled p) (up_WebhookURL p) (up_WebhookSecret p) (up_WebhookHeadersJSON p) = Inr webhook"
proof -
  from assms obtain lf w1 where lf: "GetByID (up_ID p) w = (Inr lf, w1)" "trim_space (up_Name p) \<noteq> []"
    by (auto simp: Update_def Let_def elim!: bnd_InrE)
  from assms lf obtain hook where hook: "lf_WebhookDelivery lf = Some hook"
    by (cases "lf_WebhookDelivery lf") (auto simp: Update_def Let_def bnd_apply fail_apply guard_apply)
  from assms lf hook obtain email webhook origins slug html wa wb wc wd where s:
    "prepareEmailDelivery L (emailParamsFromUpdate p) = Inr email"
    "validateDynamicRecipientSafeguard email (up_CaptchaProfileID p) = Inr ()"
    "prepareWebhookDelivery L (up_WebhookEnabled p) (up_WebhookURL p) (up_WebhookSecret p) (up_WebhookHeadersJSON p) = Inr webhook"
    "optional (up_AllowedOrigins p) (\<lambda>v. of_result (normalizeAllowedOrigins L v)) (fm_AllowedOrigins (lf_Form lf)) w1 = (Inr origins, wa)"
    "optional (up_Slug p) (\<lambda>v. wrap_err ''generate form slug'' (Slugify L v)) (fm_Slug (lf_Form lf)) wa = (Inr slug, wb)"
    "(if up_UpdateGeneratedHTML p
               then of_result (rbind (validateGeneratedHTML L (trim_space (up_GeneratedHTML p)))
                      (\<lambda>_. Inr (trim_space (up_GeneratedHTML p))))
               else ret (fm_GeneratedHTML (lf_Form lf))) wb = (Inr html, wc)"
    "with_retry (update_form_tx p (fm_ID (lf_Form lf)) (PrimaryEmailDelivery (Some lf)) (wd_ID hook)
        email webhook (trim_space (up_Name p)) slug origins html) wc = (Inr (), wd)"
    "GetByID (up_ID p) wd = (Inr lf', w')"
    unfolding Update_def Let_def by (auto elim!: bnd_InrE simp del: fun_upd_apply)
  have "db w1 = db w" using readsD [OF reads_GetByID lf(1)] .
  moreover have "db wa = db w1"
    by (rule optional_db [OF s(4)]) (rule reads_of_result)
  moreover have "db wb = db wa"
    by (rule optional_db [OF s(5)]) (intro reads_wrap_err reads_Slugify)
  moreover have "db wc = db wb"
    using s(6) by (auto split: if_splits)
  ultimately have "db wc = db w" by simp
  moreover from s(7) obtain w2 w3 where "db w2 = db wc" "db wd = db w3"
    "update_form_tx p (fm_ID (lf_Form lf)) (PrimaryEmailDelivery (Some lf)) (wd_ID hook)
        email webhook (trim_space (up_Name p)) slug origins html w2 = (Inr (), w3)" by (rule with_retry_InrE)
  ultimately show ?thesis
    using that [OF lf(1) hook lf(2) s(1)] s(2,3,8) safeguard_checked by metis
qed

text \<open>
  Between the update of the form and the update of its primary notification the safeguard
  may fail, but only for the primary notification.
\<close>

definition nearly_safeguarded :: "nat option \<Rightarrow> nat \<Rightarrow> nat option \<Rightarrow> database \<Rightarrow> bool" where
  "nearly_safeguarded primaryID formID captcha d \<longleftrightarrow>
     (captcha \<noteq> None \<longrightarrow> guarded formID d)
   \<and> (\<forall>e\<in>set (email_deliveries d). primaryID = Some (ed_ID e) \<longrightarrow> ed_FormID e = formID)
   \<and> (\<forall>e\<in>set (email_deliveries d). field_recipient e \<longrightarrow>
        guarded (ed_FormID e) d \<or> primaryID = Some (ed_ID e) \<and> captcha = None)"

lemma update_form_step:
  assumes "safeguarded d" "update_forms (\<lambda>f. fm_ID f = i) (set_form n s og h u c) d = Inr (k, d')"
    and "\<exists>f\<in>set (forms d). fm_ID f = i"
    and "\<forall>e\<in>set (email_deliveries d). primaryID = Some (ed_ID e) \<longrightarrow> ed_FormID e = i"
    and "c = None \<longrightarrow> (\<forall>e\<in>set (email_deliveries d). ed_FormID e = i \<longrightarrow> field_recipient e \<longrightarrow> primaryID = Some (ed_ID e))"
  shows "nearly_safeguarded primaryID i c d'"
proof -
  note eff = update_forms_effect [OF assms(2)]
  have other: "guarded j d'" if "guarded j d" "j \<noteq> i \<or> c \<noteq> None" for j
    using that(1) by (rule guarded_update_forms [OF _ assms(2)]) (use that(2) in \<open>auto simp: set_form_def\<close>)
  have new: "guarded i d'" if "c \<noteq> None"
  proof -
    from assms(3) obtain f where f: "f \<in> set (forms d)" "fm_ID f = i" by blast
    then have "set_form n s og h u c f \<in> set (forms d')" by (auto simp: eff set_update_where)
    with f that show ?thesis
      unfolding guarded_def by (intro bexI [of _ "set_form n s og h u c f"]) (simp_all add: set_form_def)
  qed
  show ?thesis
    unfolding nearly_safeguarded_def eff(2)
  proof (intro conjI ballI impI)
    fix e assume e: "e \<in> set (email_deliveries d)" "field_recipient e"
    with assms(1) have "guarded (ed_FormID e) d" by (simp add: safeguarded_def)
    then show "guarded (ed_FormID e) d' \<or> primaryID = Some (ed_ID e) \<and> c = None"
      using other [of "ed_FormID e"] assms(5) e by (cases "ed_FormID e = i"; cases c) auto
  qed (use new assms(4) in auto)
qed

lemma update_primary_step:
  assumes "nearly_safeguarded (Some pid) i c d" "field_recipient email \<longrightarrow> c \<noteq> None"
    and "update_email_deliveries (\<lambda>x. ed_ID x = pid) (set_delivery email) d = Inr (k, d')"
  shows "safeguarded d'"
  using assms(1,2)
  by (auto simp: safeguarded_def nearly_safeguarded_def update_email_deliveries_effect [OF assms(3)] ball_update_where
      guarded_forms [OF update_email_deliveries_effect(2) [OF assms(3)]])

lemma nearly_safeguarded_None: "nearly_safeguarded None i c d \<Longrightarrow> safeguarded d"
  by (auto simp: nearly_safeguarded_def safeguarded_def)

lemma PrimaryEmailDelivery_mem: "PrimaryEmailDelivery (Some lf) = Some e \<Longrightarrow> e \<in> set (lf_EmailDeliveries lf)"
  by (auto simp: PrimaryEmailDelivery_def split: list.splits)

lemma update_form_tx_safeguarded:
  assumes tx: "update_form_tx p i primary h email webhook n s og html w = (Inr (), w')"
    and start: "safeguarded (db w)" "\<exists>f\<in>set (forms (db w)). fm_ID f = i" "i = up_ID p"
    and email: "field_recipient email \<longrightarrow> up_CaptchaProfileID p \<noteq> None"
    and pr: "\<And>e e'. primary = Some e \<Longrightarrow> e' \<in> set (email_deliveries (db w)) \<Longrightarrow> ed_ID e' = ed_ID e \<Longrightarrow> ed_FormID e' = i"
  shows "safeguarded (db w')"
proof -
  let ?pid = "map_option ed_ID primary"
  let ?c = "up_CaptchaProfileID p"
  from tx obtain w1 w2 w3 w4 k where t:
    "validateProfileReferences (up_MailerProfileID p) ?c w = (Inr (), w1)"
    "validateAdditionalDynamicRecipients i (case primary of None \<Rightarrow> 0 | Some e \<Rightarrow> ed_ID e) ?c w1 = (Inr (), w2)"
    "stmt (update_forms (\<lambda>f. fm_ID f = i) (set_form n s og html (up_UploadsEnabled p) ?c)) w2 = (Inr k, w3)"
    "(case primary of
            Some e \<Rightarrow> bnd (stmt (update_email_deliveries (\<lambda>x. ed_ID x = ed_ID e) (set_delivery email))) (\<lambda>_. ret ())
          | None \<Rightarrow>
              if emailDeliveryRequested (emailParamsFromUpdate p)
              then bnd (stmt (insert_email_delivery (email\<lparr>ed_FormID := i\<rparr>))) (\<lambda>_. ret ())
              else ret ()) w3 = (Inr (), w4)"
    "update_hook h (up_WebhookEnabled p) webhook w4 = (Inr (), w')"
    unfolding update_form_tx_def by (auto elim!: bnd_InrE simp: start(3))
  have d1: "db w1 = db w" "db w2 = db w"
    using readsD [OF reads_validateProfileReferences t(1)] readsD [OF reads_validateAdditional t(2)] by simp_all
  have cnt: "?c = None \<longrightarrow> (\<forall>e\<in>set (email_deliveries (db w)). ed_FormID e = i \<longrightarrow> field_recipient e \<longrightarrow> ?pid = Some (ed_ID e))"
    using t(2) d1
    by (auto simp: validateAdditionalDynamicRecipients_def count_rows_def count_where_0
        elim!: bnd_InrE query_InrE split: option.splits if_splits)
  from t(3) obtain d3 where d3: "update_forms (\<lambda>f. fm_ID f = i) (set_form n s og html (up_UploadsEnabled p) ?c) (db w) = Inr (k, d3)"
    "db w3 = d3" using d1 by (auto elim!: stmt_InrE)
  have near: "nearly_safeguarded ?pid i ?c (db w3)"
    unfolding d3(2)
  proof (rule update_form_step [OF start(1) d3(1) start(2)])
    show "\<forall>e\<in>set (email_deliveries (db w)). ?pid = Some (ed_ID e) \<longrightarrow> ed_FormID e = i"
      using pr by (metis map_option_eq_Some)
  qed (rule cnt)
  have "safeguarded (db w4)"
  proof (cases primary)
    case None
    then have "safeguarded (db w3)" "?c \<noteq> None \<longrightarrow> guarded i (db w3)"
      using near nearly_safeguarded_None by (auto simp: nearly_safeguarded_def)
    note sg = this
    show ?thesis
    proof (cases "emailDeliveryRequested (emailParamsFromUpdate p)")
      case True
      with t(4) None obtain x d4 where ins: "insert_email_delivery (email\<lparr>ed_FormID := i\<rparr>) (db w3) = Inr (x, d4)" "db w4 = d4"
        by (auto elim!: bnd_InrE stmt_InrE)
      from safeguarded_insert_delivery [OF sg(1) ins(1)] sg(2) email ins(2) show ?thesis by simp
    qed (use t(4) None sg in simp)
  next
    case (Some e)
    with t(4) near email show ?thesis
      by (auto elim!: bnd_InrE stmt_InrE intro: update_primary_step)
  qed
  with t(5) show ?thesis
    by (auto simp: update_hook_def safeguarded_def guarded_def elim!: exec_InrE)
qed

lemma Update_safeguarded: "keeps (\<lambda>d. db_ok d \<and> safeguarded d) (Update L p)"
  unfolding keeps_def
proof (intro allI impI conjI)
  fix w lf' w' assume u: "Update L p w = (Inr lf', w')" and ok: "db_ok (db w) \<and> safeguarded (db w)"
  show "db_ok (db w')" using keepsD [OF keeps_Update u] ok by blast
  from u obtain lf and hook :: webhook_delivery and email webhook slug origins html w1 w2 w3 w4 where s:
    "GetByID (up_ID p) w = (Inr lf, w1)" "field_recipient email \<longrightarrow> up_CaptchaProfileID p \<noteq> None"
    "db w2 = db w"
    "update_form_tx p (fm_ID (lf_Form lf)) (PrimaryEmailDelivery (Some lf)) (wd_ID hook) email webhook
       (trim_space (up_Name p)) slug origins html w2 = (Inr (), w3)"
    "db w4 = db w3" "GetByID (up_ID p) w4 = (Inr lf', w')"
    by (rule Update_steps) blast
  note l = loadForm_result [OF s(1) [unfolded GetByID_def]]
  have f: "lf_Form lf \<in> set (forms (db w))" "fm_ID (lf_Form lf) = up_ID p"
    using find_SomeD [OF l(2)] by auto
  have "safeguarded (db w3)"
  proof (rule update_form_tx_safeguarded [OF s(4)])
    fix e e' assume e: "PrimaryEmailDelivery (Some lf) = Some e" "e' \<in> set (email_deliveries (db w2))" "ed_ID e' = ed_ID e"
    then have "e \<in> set (email_deliveries (db w))" "ed_FormID e = fm_ID (lf_Form lf)"
      using PrimaryEmailDelivery_mem [OF e(1)] l(3) by auto
    moreover have "distinct (map ed_ID (email_deliveries (db w)))"
      using ok keys_ok_distinct by (auto simp: db_ok_defs)
    ultimately show "ed_FormID e' = fm_ID (lf_Form lf)"
      using e(2,3) s(3) by (metis distinct_map inj_on_eq_iff)
  qed (use ok s f in auto)
  then show "safeguarded (db w')" using readsD [OF reads_GetByID s(6)] s(5) by simp
qed

section \<open>What creation leaves in the database\<close>

lemma bnd_Inr_iff: "bnd m f w = (Inr y, w'') \<longleftrightarrow> (\<exists>x w'. m w = (Inr x, w') \<and> f x w' = (Inr y, w''))"
  by (auto simp: bnd_apply split: prod.splits sum.splits)

lemma BeforeCreate_keeps_columns:
  assumes "BeforeCreate L f w = (Inr g, w')"
  shows "fm_Name g = fm_Name f \<and> fm_AllowedOrigins g = fm_AllowedOrigins f \<and> fm_GeneratedHTML g = fm_GeneratedHTML f
    \<and> fm_UploadsEnabled g = fm_UploadsEnabled f \<and> fm_CaptchaProfileID g = fm_CaptchaProfileID f
    \<and> (fm_Token f \<noteq> [] \<longrightarrow> fm_Token g = fm_Token f) \<and> (fm_Slug f \<noteq> [] \<longrightarrow> fm_Slug g = fm_Slug f)"
proof -
  from assms obtain f1 w1 f2 w2 where steps:
    "(if fm_PublicID f = []
      then bnd (wrap_err ''generate form public ID'' GeneratePublicID) (\<lambda>i. ret (f\<lparr>fm_PublicID := i\<rparr>))
      else ret f) w = (Inr f1, w1)"
    "(if fm_Token f1 = []
      then bnd (wrap_err ''generate form token'' (generateToken 24)) (\<lambda>t. ret (f1\<lparr>fm_Token := t\<rparr>))
      else ret f1) w1 = (Inr f2, w2)"
    "(if fm_Slug f2 = []
      then bnd (wrap_err ''generate form slug'' (Slugify L (fm_Name f2))) (\<lambda>s. ret (f2\<lparr>fm_Slug := s\<rparr>))
      else ret f2) w2 = (Inr g, w')"
    unfolding BeforeCreate_def by (elim bnd_InrE) (rule that)
  from steps(1) have "f1 = f \<or> (\<exists>a. f1 = f\<lparr>fm_PublicID := a\<rparr>)" by (auto elim!: bnd_InrE split: if_splits)
  moreover from steps(2) have "f2 = f1 \<or> (\<exists>b. fm_Token f1 = [] \<and> f2 = f1\<lparr>fm_Token := b\<rparr>)"
    by (auto elim!: bnd_InrE split: if_splits)
  moreover from steps(3) have "g = f2 \<or> (\<exists>c. fm_Slug f2 = [] \<and> g = f2\<lparr>fm_Slug := c\<rparr>)"
    by (auto elim!: bnd_InrE split: if_splits)
  ultimately show ?thesis by (elim disjE exE conjE; simp)
qed

lemma each_insert_deliveries:
  assumes "each (\<lambda>e. bnd (stmt (insert_email_delivery (e\<lparr>ed_FormID := i\<rparr>))) (\<lambda>_. ret ())) es w = (Inr (), w')"
  shows "forms (db w') = forms (db w) \<and> webhook_deliveries (db w') = webhook_deliveries (db w)
    \<and> (\<exists>ids. length ids = length es \<and> email_deliveries (db w') =
         email_deliveries (db w) @ map2 (\<lambda>e k. e\<lparr>ed_FormID := i, ed_ID := k\<rparr>) es ids)"
  using assms
proof (induction es arbitrary: w)
  case (Cons e es)
  then obtain x w1 where one: "insert_email_delivery (e\<lparr>ed_FormID := i\<rparr>) (db w) = Inr (x, db w1)"
    and rest: "each (\<lambda>e. bnd (stmt (insert_email_delivery (e\<lparr>ed_FormID := i\<rparr>))) (\<lambda>_. ret ())) es w1 = (Inr (), w')"
    by (auto elim!: bnd_InrE dest!: stmt_InrD)
  note eff = insert_email_delivery_effect [OF one]
  from Cons.IH [OF rest] obtain ids where "length ids = length es"
    "email_deliveries (db w') = email_deliveries (db w1) @ map2 (\<lambda>e k. e\<lparr>ed_FormID := i, ed_ID := k\<rparr>) es ids"
    "forms (db w') = forms (db w1)" "webhook_deliveries (db w') = webhook_deliveries (db w1)" by blast
  with eff show ?case by (intro conjI exI [of _ "x # ids"]) simp_all
qed simp

lemma create_form_row_effect:
  assumes "create_form_row L f emails hook w = (Inr g, w')"
  shows "\<exists>k ids. forms (db w') = forms (db w) @ [g]
    \<and> webhook_deliveries (db w') = webhook_deliveries (db w) @ [hook\<lparr>wd_FormID := fm_ID g, wd_ID := k\<rparr>]
    \<and> length ids = length emails
    \<and> email_deliveries (db w') = email_deliveries (db w) @ map2 (\<lambda>e k. e\<lparr>ed_FormID := fm_ID g, ed_ID := k\<rparr>) emails ids
    \<and> fm_Name g = fm_Name f \<and> fm_AllowedOrigins g = fm_AllowedOrigins f \<and> fm_CaptchaProfileID g = fm_CaptchaProfileID f
    \<and> (fm_Token f \<noteq> [] \<longrightarrow> fm_Token g = fm_Token f) \<and> (fm_Slug f \<noteq> [] \<longrightarrow> fm_Slug g = fm_Slug f)"
proof -
  from assms obtain r w1 now w2 i w3 k w4 w5 u where s: "BeforeCreate L f w = (Inr r, w1)"
    "time_now w1 = (Inr now, w2)" "stmt (insert_form (r\<lparr>fm_CreatedAt := now\<rparr>)) w2 = (Inr i, w3)"
    "stmt (insert_webhook_delivery (hook\<lparr>wd_FormID := i\<rparr>)) w3 = (Inr k, w4)"
    "each (\<lambda>e. bnd (stmt (insert_email_delivery (e\<lparr>ed_FormID := i\<rparr>))) (\<lambda>_. ret ())) emails w4 = (Inr u, w5)"
    "ret (r\<lparr>fm_ID := i, fm_CreatedAt := now\<rparr>) w5 = (Inr g, w')"
    unfolding create_form_row_def by (elim bnd_InrE) (rule that)
  have d: "db w2 = db w" using readsD [OF reads_BeforeCreate s(1)] readsD [OF reads_time_now s(2)] by simp
  show ?thesis
    using each_insert_deliveries [of i emails w4 w5] s(5) insert_webhook_delivery_effect [OF stmt_InrD [OF s(4)]]
      insert_form_effect [OF stmt_InrD [OF s(3)]] BeforeCreate_keeps_columns [OF s(1)] d s(6)
    by auto
qed

lemma Create_result:
  assumes "Create L p w = (Inr f, w')"
  shows "\<exists>hook es. forms (db w') = forms (db w) @ [f]
    \<and> webhook_deliveries (db w') = webhook_deliveries (db w) @ [hook]
    \<and> wd_FormID hook = fm_ID f \<and> wd_Enabled hook = cr_WebhookEnabled p \<and> wd_URL hook = trim_space (cr_WebhookURL p)
    \<and> email_deliveries (db w') = email_deliveries (db w) @ es
    \<and> length es = (if emailDeliveryRequested (emailParamsFromCreate p) then 1 else 0)
    \<and> (\<forall>e\<in>set es. ed_FormID e = fm_ID f \<and> prepared L e)
    \<and> fm_Name f = trim_space (cr_Name p) \<and> fm_Name f \<noteq> []
    \<and> normalizeAllowedOrigins L (trim_space (cr_AllowedOrigins p)) = Inr (fm_AllowedOrigins f)
    \<and> fm_CaptchaProfileID f = cr_CaptchaProfileID p
    \<and> length (fm_Token f) = 48 \<and> (\<forall>c\<in>set (fm_Token f). slug_char c)"
proof -
  from assms obtain plan slug token html and w1 w2 :: "database world" and w3 w4 where s: "create_plan_for L p = Inr plan"
    "randomHex 24 w1 = (Inr token, w2)" "db w3 = db w"
    "create_form_tx L p plan slug token html w3 = (Inr f, w4)" "db w' = db w4"
    by (rule Create_steps) blast
  from s(4) obtain w5 where v: "validateProfileReferences (cr_MailerProfileID p) (cr_CaptchaProfileID p) w3 = (Inr (), w5)"
    and row: "create_form_row L
       \<lparr>fm_ID = 0, fm_PublicID = [], fm_Name = pl_Name plan, fm_Slug = slug, fm_Token = token,
        fm_AllowedOrigins = pl_Origins plan, fm_GeneratedHTML = html,
        fm_UploadsEnabled = cr_UploadsEnabled p, fm_CaptchaProfileID = cr_CaptchaProfileID p, fm_CreatedAt = 0\<rparr>
       (if emailDeliveryRequested (emailParamsFromCreate p) then [pl_Email plan] else [])
       (new_hook (cr_WebhookEnabled p) (pl_Hook plan)) w5 = (Inr f, w4)"
    unfolding create_form_tx_def by (auto elim!: bnd_InrE)
  have d: "db w5 = db w" using readsD [OF reads_validateProfileReferences v] s(3) by simp
  note tok = randomHex_chars [OF s(2)]
  then have "token \<noteq> []" by auto
  have url: "wv_webhookURL (pl_Hook plan) = trim_space (cr_WebhookURL p)"
    using s(1) by (auto simp: create_plan_for_def prepareWebhookDelivery_def Let_def rbind_Inr_iff split: if_splits)
  have prep: "prepared L (pl_Email plan\<lparr>ed_FormID := a, ed_ID := b\<rparr>)" for a b
    using create_plan_checked(2) [OF s(1)] by (simp add: prepared_def)
  from create_form_row_effect [OF row] obtain k ids where e:
    "forms (db w4) = forms (db w5) @ [f]"
    "webhook_deliveries (db w4) = webhook_deliveries (db w5) @ [(new_hook (cr_WebhookEnabled p) (pl_Hook plan))\<lparr>wd_FormID := fm_ID f, wd_ID := k\<rparr>]"
    "length ids = length (if emailDeliveryRequested (emailParamsFromCreate p) then [pl_Email plan] else [])"
    "email_deliveries (db w4) = email_deliveries (db w5) @ map2 (\<lambda>e k. e\<lparr>ed_FormID := fm_ID f, ed_ID := k\<rparr>)
        (if emailDeliveryRequested (emailParamsFromCreate p) then [pl_Email plan] else []) ids"
    "fm_Name f = pl_Name plan" "fm_AllowedOrigins f = pl_Origins plan" "fm_CaptchaProfileID f = cr_CaptchaProfileID p"
    "fm_Token f = token"
    using \<open>token \<noteq> []\<close> by auto
  show ?thesis
    using e create_plan_checked(3-7) [OF s(1)] tok d s(5) url prep
    by (intro exI [of _ "(new_hook (cr_WebhookEnabled p) (pl_Hook plan))\<lparr>wd_FormID := fm_ID f, wd_ID := k\<rparr>"]
        exI [of _ "map2 (\<lambda>e k. e\<lparr>ed_FormID := fm_ID f, ed_ID := k\<rparr>)
        (if emailDeliveryRequested (emailParamsFromCreate p) then [pl_Email plan] else []) ids"])
      (auto simp: new_hook_def length_Suc_conv)
qed

section \<open>What deletion leaves\<close>

lemma delete_where_gone: "\<forall>r\<in>set rows. \<not> p r \<Longrightarrow> delete_where p rows = rows"
  by (simp add: delete_where_def filter_id_conv)

lemma delete_where_twice: "delete_where q (delete_where p rows) = delete_where (\<lambda>r. p r \<or> q r) rows"
  by (simp add: delete_where_def)

lemma delete_where_cong: "(\<And>r. r \<in> set rows \<Longrightarrow> p r = q r) \<Longrightarrow> delete_where p rows = delete_where q rows"
  unfolding delete_where_def by (rule filter_cong) simp_all

lemma exec_InrD: "exec f w = (Inr u, w') \<Longrightarrow> db w' = f (db w)"
  by (auto elim!: exec_InrE)

text \<open>The tables before the form's own row goes.\<close>

definition form_stripped :: "nat \<Rightarrow> database \<Rightarrow> database" where
  "form_stripped i d =
     delete_hooks (\<lambda>h. wd_FormID h = i) (delete_email_deliveries (\<lambda>e. ed_FormID e = i)
       (delete_submissions (\<lambda>s. sb_FormID s = i)
         (d\<lparr>webhook_events := delete_where (\<lambda>e. of_form i d (ev_SubmissionID e)) (webhook_events d),
            email_events := delete_where (\<lambda>e. of_form i d (ev_SubmissionID e)) (email_events d),
            submission_files := delete_where (\<lambda>f. of_form i d (sf_SubmissionID f)) (submission_files d)\<rparr>)))"

lemma of_form_tables [simp]:
  "of_form i (d\<lparr>webhook_events := a\<rparr>) = of_form i d" "of_form i (d\<lparr>email_events := b\<rparr>) = of_form i d"
  by (simp_all add: of_form_def fun_eq_iff)

lemma deleteFormRecords_db:
  assumes "deleteFormRecords i w = (Inr (), w')"
  shows "db w' = delete_forms (\<lambda>f. fm_ID f = i) (form_stripped i (db w))" "\<exists>f\<in>set (forms (db w)). fm_ID f = i"
proof -
  have "db w' = delete_forms (\<lambda>f. fm_ID f = i) (form_stripped i (db w))
      \<and> count_where (\<lambda>f. fm_ID f = i) (forms (form_stripped i (db w))) \<noteq> 0"
    using assms unfolding deleteFormRecords_def form_stripped_def
    by (elim bnd_InrE) (auto dest!: exec_InrD stmt_InrD)
  moreover have "forms (form_stripped i (db w)) = forms (db w)" by (simp add: form_stripped_def delete_simps)
  ultimately show "db w' = delete_forms (\<lambda>f. fm_ID f = i) (form_stripped i (db w))" "\<exists>f\<in>set (forms (db w)). fm_ID f = i"
    by (auto simp: count_where_0)
qed

lemma delete_tables [row_simps]:
  "forms (delete_hooks p d) = forms d" "forms (delete_email_deliveries q d) = forms d"
  "forms (delete_submissions r d) = forms d" "forms (delete_forms t d) = delete_where t (forms d)"
  by (simp_all add: delete_hooks_def delete_email_deliveries_def delete_submissions_def delete_forms_def Let_def)

lemma stripped_gone:
  assumes "d' = delete_forms (\<lambda>f. fm_ID f = i) (form_stripped i d)"
  shows "forms d' = delete_where (\<lambda>f. fm_ID f = i) (forms d)"
    "submissions d' = delete_where (\<lambda>s. sb_FormID s = i) (submissions d)"
    "email_deliveries d' = delete_where (\<lambda>e. ed_FormID e = i) (email_deliveries d)"
    "webhook_deliveries d' = delete_where (\<lambda>h. wd_FormID h = i) (webhook_deliveries d)"
    "submission_files d' = delete_where (\<lambda>f. of_form i d (sf_SubmissionID f)) (submission_files d)"
    "webhook_events d' = delete_where (\<lambda>e. of_form i d (ev_SubmissionID e)) (webhook_events d)"
proof -
  define gone where "gone = (\<lambda>j. list_ex (\<lambda>f. fm_ID f = i \<and> fm_ID f = j) (forms d))"
  have gone: "gone j \<Longrightarrow> j = i" for j by (auto simp: gone_def list_ex_iff)
  have g: "list_ex (\<lambda>f. fm_ID f = i \<and> fm_ID f = j) (forms d) = gone j" for j by (simp add: gone_def)
  have none: "\<not> list_ex (\<lambda>s. gone (sb_FormID s) \<and> sb_ID s = j) (delete_where (\<lambda>s. sb_FormID s = i) (submissions d))" for j
    by (auto simp: list_ex_iff dest: gone)
  show "forms d' = delete_where (\<lambda>f. fm_ID f = i) (forms d)"
    by (simp add: assms form_stripped_def row_simps)
  have subs: "submissions (form_stripped i d) = delete_where (\<lambda>s. sb_FormID s = i) (submissions d)"
    "forms (form_stripped i d) = forms d"
    "email_deliveries (form_stripped i d) = delete_where (\<lambda>e. ed_FormID e = i) (email_deliveries d)"
    "webhook_deliveries (form_stripped i d) = delete_where (\<lambda>h. wd_FormID h = i) (webhook_deliveries d)"
    "submission_files (form_stripped i d) = delete_where (\<lambda>f. of_form i d (sf_SubmissionID f)) (submission_files d)"
    "webhook_events (form_stripped i d) = delete_where (\<lambda>e. of_form i d (ev_SubmissionID e)) (webhook_events d)"
    by (simp_all add: form_stripped_def delete_simps delete_where_twice of_form_def)
  have only: "(x = i \<or> gone x) = (x = i)" for x using gone by blast
  show "submissions d' = delete_where (\<lambda>s. sb_FormID s = i) (submissions d)"
    "email_deliveries d' = delete_where (\<lambda>e. ed_FormID e = i) (email_deliveries d)"
    "webhook_deliveries d' = delete_where (\<lambda>h. wd_FormID h = i) (webhook_deliveries d)"
    by (simp_all add: assms delete_forms_def delete_simps subs g only delete_where_twice)
  show "submission_files d' = delete_where (\<lambda>f. of_form i d (sf_SubmissionID f)) (submission_files d)"
    "webhook_events d' = delete_where (\<lambda>e. of_form i d (ev_SubmissionID e)) (webhook_events d)"
    by (simp_all add: assms delete_forms_def delete_simps subs g none delete_where_twice)
qed

section \<open>Rotation, reconciliation, update of a notification\<close>

lemma query_InrD: "query f w = (Inr x, w') \<Longrightarrow> x = f (db w) \<and> db w' = db w"
  by (auto elim!: query_InrE)

lemma RotateToken_result:
  assumes "RotateToken i w = (Inr lf, w')"
  shows "\<exists>token. length token = 48 \<and> (\<forall>c\<in>set token. slug_char c) \<and>
    db w' = (db w)\<lparr>forms := update_where (\<lambda>f. fm_ID f = i) (\<lambda>f. f\<lparr>fm_Token := token\<rparr>) (forms (db w))\<rparr>"
proof -
  from assms obtain lf0 w1 token w2 u w3 where s: "GetByID i w = (Inr lf0, w1)" "randomHex 24 w1 = (Inr token, w2)"
    "with_retry (bnd (stmt (update_forms (\<lambda>f. fm_ID f = i) (\<lambda>f. f\<lparr>fm_Token := token\<rparr>))) (\<lambda>_. ret ())) w2 = (Inr u, w3)"
    "GetByID i w3 = (Inr lf, w')"
    unfolding RotateToken_def generateToken_def by (auto elim!: bnd_InrE)
  from s(3) obtain w4 w5 where "db w4 = db w2" "db w3 = db w5"
    "bnd (stmt (update_forms (\<lambda>f. fm_ID f = i) (\<lambda>f. f\<lparr>fm_Token := token\<rparr>))) (\<lambda>_. ret ()) w4 = (Inr u, w5)"
    by (rule with_retry_InrE)
  then have "db w3 = (db w2)\<lparr>forms := update_where (\<lambda>f. fm_ID f = i) (\<lambda>f. f\<lparr>fm_Token := token\<rparr>) (forms (db w2))\<rparr>"
    by (auto elim!: bnd_InrE dest!: stmt_InrD update_forms_effect(4))
  moreover have "db w2 = db w" "db w' = db w3"
    using readsD [OF reads_GetByID s(1)] readsD [OF reads_randomHex s(2)] readsD [OF reads_GetByID s(4)] by simp_all
  ultimately show ?thesis using randomHex_chars [OF s(2)] by auto
qed

lemma each_blank_hooks:
  assumes "each (\<lambda>formID. bnd (stmt (insert_webhook_delivery (blank_hook formID))) (\<lambda>_. ret ())) ids w = (Inr (), w')"
  shows "forms (db w') = forms (db w) \<and> submissions (db w') = submissions (db w)
    \<and> (\<exists>hooks. webhook_deliveries (db w') = webhook_deliveries (db w) @ hooks \<and> map wd_FormID hooks = ids
         \<and> (\<forall>h\<in>set hooks. \<not> wd_Enabled h))"
  using assms
proof (induction ids arbitrary: w)
  case (Cons i ids)
  then obtain x w1 where one: "insert_webhook_delivery (blank_hook i) (db w) = Inr (x, db w1)"
    and rest: "each (\<lambda>formID. bnd (stmt (insert_webhook_delivery (blank_hook formID))) (\<lambda>_. ret ())) ids w1 = (Inr (), w')"
    by (auto elim!: bnd_InrE dest!: stmt_InrD)
  note eff = insert_webhook_delivery_effect [OF one]
  from Cons.IH [OF rest] obtain hooks where "webhook_deliveries (db w') = webhook_deliveries (db w1) @ hooks"
    "map wd_FormID hooks = ids" "\<forall>h\<in>set hooks. \<not> wd_Enabled h" "forms (db w') = forms (db w1)"
    "submissions (db w') = submissions (db w1)" by blast
  with eff show ?case by (intro conjI exI [of _ "(blank_hook i)\<lparr>wd_ID := x\<rparr> # hooks"]) (simp_all add: blank_hook_def)
qed simp

lemma Reconcile_result:
  assumes "ReconcileDeliveryRecords w = (Inr (), w')" "db_ok (db w)"
  shows "\<exists>hooks. webhook_deliveries (db w') = webhook_deliveries (db w) @ hooks \<and> (\<forall>h\<in>set hooks. \<not> wd_Enabled h)"
    and "forms (db w') = forms (db w)"
    and "\<forall>f\<in>set (forms (db w')). count_where (\<lambda>h. wd_FormID h = fm_ID f) (webhook_deliveries (db w')) = 1"
proof -
  let ?missing = "\<lambda>d. map fm_ID (filter (\<lambda>f. \<not> has_key wd_FormID (webhook_deliveries d) (fm_ID f)) (forms d))"
  from assms(1) obtain w1 w2 where w: "db w1 = db w" "db w' = db w2"
    "bnd (query ?missing) (\<lambda>missing. each (\<lambda>formID. bnd (stmt (insert_webhook_delivery (blank_hook formID))) (\<lambda>_. ret ())) missing) w1 = (Inr (), w2)"
    unfolding ReconcileDeliveryRecords_def by (rule with_retry_InrE)
  from w(3) obtain ids w3 where q: "query ?missing w1 = (Inr ids, w3)"
    "each (\<lambda>formID. bnd (stmt (insert_webhook_delivery (blank_hook formID))) (\<lambda>_. ret ())) ids w3 = (Inr (), w2)"
    by (rule bnd_InrE)
  have "db w3 = db w" "ids = ?missing (db w)" using query_InrD [OF q(1)] w(1) by simp_all
  with each_blank_hooks [OF q(2)] w(2) obtain hooks where h:
    "webhook_deliveries (db w') = webhook_deliveries (db w) @ hooks" "map wd_FormID hooks = ?missing (db w)"
    "\<forall>h\<in>set hooks. \<not> wd_Enabled h" "forms (db w') = forms (db w)" by metis
  then show "\<exists>hooks. webhook_deliveries (db w') = webhook_deliveries (db w) @ hooks \<and> (\<forall>h\<in>set hooks. \<not> wd_Enabled h)"
    "forms (db w') = forms (db w)" by blast+
  have "db_ok (db w')" using keepsD [OF keeps_Reconcile assms] .
  then have "distinct (map wd_FormID (webhook_deliveries (db w')))" by (simp add: db_ok_defs)
  moreover have "\<exists>h\<in>set (webhook_deliveries (db w')). wd_FormID h = fm_ID f" if "f \<in> set (forms (db w'))" for f
  proof (cases "has_key wd_FormID (webhook_deliveries (db w)) (fm_ID f)")
    case False
    with that h(4) have "fm_ID f \<in> set (?missing (db w))" by auto
    then have "fm_ID f \<in> wd_FormID ` set hooks" unfolding h(2) [symmetric] by simp
    with h(1) show ?thesis by auto
  qed (use h(1) in \<open>auto simp: has_key_iff\<close>)
  ultimately show "\<forall>f\<in>set (forms (db w')). count_where (\<lambda>h. wd_FormID h = fm_ID f) (webhook_deliveries (db w')) = 1"
    using count_where_key_unique by metis
qed

lemma UpdateEmailDelivery_result:
  assumes "UpdateEmailDelivery L p w = (Inr r, w')"
  shows "\<exists>e. prepareEmailDelivery L p = Inr e \<and> prepared L e
    \<and> email_deliveries (db w') = update_where (\<lambda>x. ed_ID x = ep_ID p \<and> ed_FormID x = ep_FormID p) (set_delivery e)
        (email_deliveries (db w))
    \<and> forms (db w') = forms (db w) \<and> ed_ID (fst r) = ep_ID p \<and> ed_FormID (fst r) = ep_FormID p"
proof -
  let ?rows = "\<lambda>x. ed_ID x = ep_ID p \<and> ed_FormID x = ep_FormID p"
  from assms obtain e w1 w2 where s: "prepareEmailDelivery L p = Inr e"
    "with_retry
         (bnd (first forms (\<lambda>f. fm_ID f = ep_FormID p)) (\<lambda>f.
          bnd (of_result (validateDynamicRecipientSafeguard e (fm_CaptchaProfileID f))) (\<lambda>_.
          bnd (validateProfileReferences (ed_MailerProfileID e) None) (\<lambda>_.
          bnd (stmt (update_email_deliveries ?rows (set_delivery e))) (\<lambda>n.
          guard (n \<noteq> 0) (Sentinel ErrRecordNotFound)))))) w = (Inr (), w1)"
    "GetEmailDelivery (ep_FormID p) (ep_ID p) w1 = (Inr r, w')"
    unfolding UpdateEmailDelivery_def by (auto elim!: bnd_InrE)
  from s(2) obtain w3 w4 where t': "db w3 = db w" "db w1 = db w4"
    "bnd (first forms (\<lambda>f. fm_ID f = ep_FormID p)) (\<lambda>f.
          bnd (of_result (validateDynamicRecipientSafeguard e (fm_CaptchaProfileID f))) (\<lambda>_.
          bnd (validateProfileReferences (ed_MailerProfileID e) None) (\<lambda>_.
          bnd (stmt (update_email_deliveries ?rows (set_delivery e))) (\<lambda>n.
          guard (n \<noteq> 0) (Sentinel ErrRecordNotFound))))) w3 = (Inr (), w4)"
    by (rule with_retry_InrE)
  from t'(3) obtain f w5 w6 n where t:
    "first forms (\<lambda>f. fm_ID f = ep_FormID p) w3 = (Inr f, w5)"
    "validateProfileReferences (ed_MailerProfileID e) None w5 = (Inr (), w6)"
    "update_email_deliveries ?rows (set_delivery e) (db w6) = Inr (n, db w4)"
    by (auto elim!: bnd_InrE dest!: stmt_InrD)
  have "db w6 = db w"
    using readsD [OF reads_validateProfileReferences t(2)] readsD [OF reads_first t(1)] t'(1) by simp
  moreover have "db w' = db w1" using readsD [OF reads_GetEmailDelivery s(3)] .
  moreover have "ed_ID (fst r) = ep_ID p \<and> ed_FormID (fst r) = ep_FormID p"
    using s(3) unfolding GetEmailDelivery_def by (auto elim!: bnd_InrE first_InrE dest!: find_SomeD)
  ultimately show ?thesis
    using s(1) prepareEmailDelivery_prepared [OF s(1)] t'(2) update_email_deliveries_effect [OF t(3)] by auto
qed

end
