(* ===== verification/Uploads.thy ===== *)
theory Uploads
  imports Form_Laws
begin

text \<open>
  Uploaded files: \<open>internal/forms/files.go\<close> (validation, names, writing) and
  \<open>internal/forms/upload_deletions.go\<close> (quarantine, restore and recovery). The data directory
  is the component \<open>disk\<close> of the world; paths are relative to it, as the \<open>os.Root\<close> of the code
  takes them. Closing readers has no effect in the model. The mutex \<open>submissionFilesMutex\<close>
  serialises these operations in the code; here they are sequential.
\<close>

section \<open>The file system\<close>

definition below :: "string \<Rightarrow> string \<Rightarrow> bool" where
  "below dir p \<longleftrightarrow> p = dir \<or> prefix (dir @ [slash]) p"

definition file_at :: "disk \<Rightarrow> string \<Rightarrow> string option" where
  "file_at k p = map_of (dk_files k) p"

definition is_dir :: "disk \<Rightarrow> string \<Rightarrow> bool" where
  "is_dir k p \<longleftrightarrow> p = ''.'' \<or> p \<in> set (dk_dirs k)"

text \<open>A path and the directories above it, outermost first.\<close>

definition path_chain :: "string \<Rightarrow> string list" where
  "path_chain p =
     (let parts = split_on slash p in map (\<lambda>n. join [slash] (take (Suc n) parts)) [0..<length parts])"

type_synonym 'a disk_op = "disk \<Rightarrow> err + ('a \<times> disk)"

definition fs_op :: "'a disk_op \<Rightarrow> 'a db_prog" where
  "fs_op f = (\<lambda>w. case disk_faults w of
       Some e # fs \<Rightarrow> (Inl e, w\<lparr>disk_faults := fs\<rparr>)
     | fs \<Rightarrow> (case f (disk w) of
           Inl e \<Rightarrow> (Inl e, w\<lparr>disk_faults := tl fs\<rparr>)
         | Inr (x, k) \<Rightarrow> (Inr x, w\<lparr>disk_faults := tl fs, disk := k\<rparr>)))"

definition make_root :: "unit disk_op" where
  "make_root k = Inr ((), k\<lparr>dk_root := True\<rparr>)"

definition open_root :: "unit disk_op" where
  "open_root k = (if dk_root k then Inr ((), k) else Inl (Sentinel ErrNotExist))"

definition mkdir_all :: "string \<Rightarrow> unit disk_op" where
  "mkdir_all p k =
     (if list_ex (\<lambda>q. file_at k q \<noteq> None) (path_chain p) then Inl (Plain ''not a directory'')
      else Inr ((), k\<lparr>dk_dirs := dk_dirs k @ filter (\<lambda>q. \<not> is_dir k q) (path_chain p)\<rparr>))"

definition create_file :: "string \<Rightarrow> unit disk_op" where
  "create_file p k =
     (if file_at k p \<noteq> None \<or> is_dir k p then Inl (Plain ''file exists'')
      else if \<not> is_dir k (path_dir p) then Inl (Sentinel ErrNotExist)
      else Inr ((), k\<lparr>dk_files := dk_files k @ [(p, [])]\<rparr>))"

definition write_file :: "string \<Rightarrow> string \<Rightarrow> nat disk_op" where
  "write_file p content k =
     Inr (length content, k\<lparr>dk_files := map (\<lambda>(q, c). if q = p then (q, content) else (q, c)) (dk_files k)\<rparr>)"

text \<open>\<open>Lstat\<close>: whether the path is a directory.\<close>

definition lstat :: "string \<Rightarrow> bool disk_op" where
  "lstat p k =
     (if file_at k p \<noteq> None then Inr (False, k)
      else if is_dir k p then Inr (True, k)
      else Inl (Sentinel ErrNotExist))"

definition rebase :: "string \<Rightarrow> string \<Rightarrow> string \<Rightarrow> string" where
  "rebase a b p = (if below a p then b @ drop (length a) p else p)"

definition rename :: "string \<Rightarrow> string \<Rightarrow> unit disk_op" where
  "rename a b k =
     (if file_at k a = None \<and> \<not> is_dir k a then Inl (Sentinel ErrNotExist)
      else if \<not> is_dir k (path_dir b) then Inl (Sentinel ErrNotExist)
      else if is_dir k b then Inl (Plain ''file exists'')
      else Inr ((), k\<lparr>dk_files := map (\<lambda>(q, c). (rebase a b q, c)) (filter (\<lambda>(q, c). q \<noteq> b) (dk_files k)),
                     dk_dirs := map (rebase a b) (dk_dirs k)\<rparr>))"

definition remove_all :: "string \<Rightarrow> unit disk_op" where
  "remove_all p k =
     Inr ((), k\<lparr>dk_files := filter (\<lambda>(q, c). \<not> below p q) (dk_files k),
               dk_dirs := filter (\<lambda>q. \<not> below p q) (dk_dirs k)\<rparr>)"

definition remove :: "string \<Rightarrow> unit disk_op" where
  "remove p k =
     (if file_at k p \<noteq> None then Inr ((), k\<lparr>dk_files := filter (\<lambda>(q, c). q \<noteq> p) (dk_files k)\<rparr>)
      else if \<not> is_dir k p then Inl (Sentinel ErrNotExist)
      else if list_ex (\<lambda>(q, c). below p q) (dk_files k) \<or> list_ex (\<lambda>q. q \<noteq> p \<and> below p q) (dk_dirs k) \<or> p = ''.''
      then Inl (Plain ''directory not empty'')
      else Inr ((), k\<lparr>dk_dirs := filter (\<lambda>q. q \<noteq> p) (dk_dirs k)\<rparr>))"

text \<open>\<open>fs.ReadDir\<close>: the entries by name, each with whether it is a directory.\<close>

definition read_dir :: "string \<Rightarrow> (string \<times> bool) list disk_op" where
  "read_dir p k =
     (if \<not> is_dir k p then Inl (Sentinel ErrNotExist)
      else Inr (sort_key fst
             (map (\<lambda>(q, c). (path_base q, False)) (filter (\<lambda>(q, c). path_dir q = p) (dk_files k))
              @ map (\<lambda>q. (path_base q, True)) (filter (\<lambda>q. q \<noteq> p \<and> path_dir q = p) (dk_dirs k))), k))"

text \<open>\<open>fs.WalkDir\<close>: the files below a directory, in the order of the walk.\<close>

definition walk_files :: "string \<Rightarrow> string list disk_op" where
  "walk_files p k =
     Inr (sort_key (split_on slash) (filter (below p) (map fst (dk_files k))), k)"

text \<open>Run \<open>c\<close> when \<open>m\<close> fails, and report the failure of \<open>m\<close>.\<close>

definition on_error :: "'a db_prog \<Rightarrow> unit db_prog \<Rightarrow> 'a db_prog" where
  "on_error m c = catch m (\<lambda>r. case r of Inl e \<Rightarrow> catch c (\<lambda>_. fail e) | Inr x \<Rightarrow> ret x)"

text \<open>\<open>err != nil && !errors.Is(err, fs.ErrNotExist)\<close>\<close>

definition allow_missing :: "unit db_prog \<Rightarrow> unit db_prog" where
  "allow_missing m = catch m (\<lambda>r. case r of
     Inl e \<Rightarrow> if err_is ErrNotExist e then ret () else fail e | Inr _ \<Rightarrow> ret ())"

section \<open>Validation and names\<close>

definition MaxFileSize :: int where
  "MaxFileSize = 5 * 1024 * 1024"

definition MaxFilesPerField :: nat where
  "MaxFilesPerField = 1"

definition MaxTotalFiles :: nat where
  "MaxTotalFiles = 1"

definition MaxRequestBodySize :: int where
  "MaxRequestBodySize = MaxFileSize + 1024 * 1024"

definition MaxFilenameBytes :: nat where
  "MaxFilenameBytes = 200"

definition MaxFileFieldBytes :: nat where
  "MaxFileFieldBytes = 200"

definition allowedExtensions :: "string list" where
  "allowedExtensions = [''.jpg'', ''.jpeg'', ''.png'', ''.gif'', ''.webp'', ''.pdf'', ''.txt'', ''.csv'']"

definition allowedContentTypes :: "string \<Rightarrow> string list" where
  "allowedContentTypes extension =
     (if extension = ''.jpg'' then [''image/jpeg'']
      else if extension = ''.jpeg'' then [''image/jpeg'']
      else if extension = ''.png'' then [''image/png'']
      else if extension = ''.gif'' then [''image/gif'']
      else if extension = ''.webp'' then [''image/webp'']
      else if extension = ''.pdf'' then [''application/pdf'']
      else if extension = ''.txt'' then [''text/plain; charset=utf-8'']
      else if extension = ''.csv'' then [''text/plain; charset=utf-8'']
      else [])"

text \<open>A part of a multipart form: what opening it gives and whether reading it fails.\<close>

record file_header =
  fh_Filename :: string
  fh_Size :: int
  fh_Open :: "err + string"
  fh_Read :: "err option"
  fh_Seek :: "err option"

record UploadedFile =
  uf_FieldName :: string
  uf_Filename :: string
  uf_ContentType :: string
  uf_Size :: int
  uf_Data :: string

definition has_control :: "string \<Rightarrow> bool" where
  "has_control s \<longleftrightarrow> list_ex is_control_rune (runes s)"

definition ValidateFile :: "golib \<Rightarrow> file_header \<Rightarrow> err + unit" where
  "ValidateFile L header =
     (let extension = to_lower L (path_ext (fh_Filename header)) in
      if length (fh_Filename header) = 0 \<or> length (fh_Filename header) > MaxFilenameBytes
      then Inl (Plain (''file name must contain between 1 and '' @ dec_digits MaxFilenameBytes @ '' bytes''))
      else if has_control (fh_Filename header) then Inl (Plain ''file name contains control characters'')
      else if fh_Size header < 0 \<or> fh_Size header > MaxFileSize
      then Inl (Plain (''file '' @ lib_quote L (fh_Filename header) @ '' exceeds maximum size of 5MB''))
      else if extension = [] then Inl (Plain (''file '' @ lib_quote L (fh_Filename header) @ '' has no extension''))
      else if extension \<notin> set allowedExtensions
      then Inl (Plain (''file type '' @ lib_quote L extension @ '' not allowed''))
      else Inr ())"

definition DetectFileContentType :: "golib \<Rightarrow> file_header \<Rightarrow> string \<Rightarrow> string \<Rightarrow> err + string" where
  "DetectFileContentType L header content filename =
     (case fh_Read header of
        Some e \<Rightarrow> Inl (Wrap ''inspect content'' e)
      | None \<Rightarrow>
          (case fh_Seek header of
             Some e \<Rightarrow> Inl (Wrap ''rewind content'' e)
           | None \<Rightarrow>
               (let extension = to_lower L (path_ext filename);
                    contentType = lib_detect_content_type L (take 512 content)
                in if contentType \<notin> set (allowedContentTypes extension)
                   then Inl (Plain (''content type '' @ lib_quote L contentType @ '' does not match extension '' @ lib_quote L extension))
                   else Inr contentType)))"

definition safeFilename :: "string \<Rightarrow> string" where
  "safeFilename name0 =
     (let name = replace_char (CHR 0x00) ''_'' (path_base (replace_char (CHR 0x5C) [slash] name0))
      in if name = [] \<or> name = ''.'' then ''unnamed'' else name)"

fun check_fields :: "(string \<times> file_header list) list \<Rightarrow> nat \<Rightarrow> err + nat" where
  "check_fields [] n = Inr n"
| "check_fields ((field, headers) # rest) n =
     (if length field = 0 \<or> length field > MaxFileFieldBytes
      then Inl (Plain (''file field name must contain between 1 and '' @ dec_digits MaxFileFieldBytes @ '' bytes''))
      else if has_control field then Inl (Plain ''file field name contains control characters'')
      else if length headers > MaxFilesPerField then Inl (Plain ''too many files for field'')
      else check_fields rest (n + length headers))"

definition extract_file :: "golib \<Rightarrow> string \<Rightarrow> file_header \<Rightarrow> err + UploadedFile" where
  "extract_file L field header =
     rbind (ValidateFile L header) (\<lambda>_.
       case fh_Open header of
         Inl e \<Rightarrow> Inl (Wrap (''open upload '' @ lib_quote L (fh_Filename header)) e)
       | Inr content \<Rightarrow>
           (case DetectFileContentType L header content (fh_Filename header) of
              Inl e \<Rightarrow> Inl (Wrap (''file '' @ lib_quote L (fh_Filename header)) e)
            | Inr contentType \<Rightarrow>
                Inr \<lparr>uf_FieldName = field, uf_Filename = safeFilename (fh_Filename header),
                     uf_ContentType = contentType, uf_Size = fh_Size header, uf_Data = content\<rparr>))"

fun extract_each :: "golib \<Rightarrow> (string \<times> file_header) list \<Rightarrow> err + UploadedFile list" where
  "extract_each L [] = Inr []"
| "extract_each L ((field, header) # rest) =
     rbind (extract_file L field header) (\<lambda>f. rbind (extract_each L rest) (\<lambda>fs. Inr (f # fs)))"

text \<open>The fields of the multipart form in the order the map is visited.\<close>

definition ExtractFiles :: "golib \<Rightarrow> (string \<times> file_header list) list \<Rightarrow> err + UploadedFile list" where
  "ExtractFiles L form_files =
     rbind (check_fields form_files 0) (\<lambda>n.
       if n > MaxTotalFiles
       then Inl (Plain (''too many files (max '' @ dec_digits MaxTotalFiles @ '')''))
       else extract_each L (concat (map (\<lambda>(field, headers). map (\<lambda>h. (field, h)) headers) form_files)))"

definition storedFilename :: "golib \<Rightarrow> string \<Rightarrow> string db_prog" where
  "storedFilename L name = bnd (randomHex 16) (\<lambda>s. ret (s @ to_lower L (path_ext name)))"

section \<open>Writing\<close>

definition uploadDeletionRoot :: string where
  "uploadDeletionRoot = ''.upload-deletions''"

definition uploadStagingRoot :: string where
  "uploadStagingRoot = ''.upload-staging''"

fun save_each :: "golib \<Rightarrow> string \<Rightarrow> string \<Rightarrow> nat \<Rightarrow> UploadedFile list \<Rightarrow> submission_file list db_prog" where
  "save_each L writeDir storageDir submissionID [] = ret []"
| "save_each L writeDir storageDir submissionID (file # rest) =
     bnd (wrap_err (''generate storage name for '' @ lib_quote L (uf_Filename file)) (storedFilename L (uf_Filename file))) (\<lambda>filename.
     bnd (wrap_err (''create upload '' @ lib_quote L (uf_Filename file)) (fs_op (create_file (path_join writeDir filename)))) (\<lambda>_.
     bnd (wrap_err (''write upload '' @ lib_quote L (uf_Filename file))
            (map_err (\<lambda>e. Joined [e]) (fs_op (write_file (path_join writeDir filename) (uf_Data file))))) (\<lambda>written.
     bnd (save_each L writeDir storageDir submissionID rest) (\<lambda>records.
     ret (\<lparr>sf_ID = 0, sf_SubmissionID = submissionID, sf_FieldName = uf_FieldName file, sf_Filename = uf_Filename file,
           sf_ContentType = uf_ContentType file, sf_Size = int written,
           sf_StoragePath = path_join storageDir filename\<rparr> # records)))))"

definition saveFilesAt :: "golib \<Rightarrow> string \<Rightarrow> string \<Rightarrow> nat \<Rightarrow> UploadedFile list \<Rightarrow> submission_file list db_prog" where
  "saveFilesAt L writeDir storageDir submissionID files =
     (if files = [] then ret []
      else bnd (wrap_err ''create data directory'' (fs_op make_root)) (\<lambda>_.
           bnd (wrap_err ''open data directory'' (fs_op open_root)) (\<lambda>_.
           bnd (wrap_err ''create upload directory'' (fs_op (mkdir_all writeDir))) (\<lambda>_.
           on_error (save_each L writeDir storageDir submissionID files) (fs_op (remove_all writeDir))))))"

definition deleteUploadPath :: "golib \<Rightarrow> string \<Rightarrow> string \<Rightarrow> unit db_prog" where
  "deleteUploadPath L dataDir path =
     (if trim_space dataDir = [] then ret ()
      else catch (fs_op open_root) (\<lambda>r. case r of
             Inl e \<Rightarrow> if err_is ErrNotExist e then ret () else fail (Wrap ''open data directory'' e)
           | Inr _ \<Rightarrow> wrap_err (''remove upload path '' @ lib_quote L path) (fs_op (remove_all path))))"

definition stageUnassignedFiles ::
  "golib \<Rightarrow> string \<Rightarrow> UploadedFile list \<Rightarrow> (submission_file list \<times> stagedUploadDeletion) db_prog" where
  "stageUnassignedFiles L dataDir files =
     bnd (wrap_err ''generate upload directory'' (randomHex 16)) (\<lambda>token.
     let storageDirectory = path_join ''uploads'' token;
         operation = path_join uploadStagingRoot token;
         stagingDirectory = path_join operation storageDirectory
     in bnd (on_error (saveFilesAt L stagingDirectory storageDirectory 0 files) (deleteUploadPath L dataDir operation)) (\<lambda>records.
        ret (records, \<lparr>st_operation = operation,
               st_files = map (\<lambda>r. (sf_StoragePath r, path_join operation (sf_StoragePath r))) records\<rparr>)))"

definition OpenSubmissionFile :: "golib \<Rightarrow> submission_file \<Rightarrow> string db_prog" where
  "OpenSubmissionFile L file =
     wrap_err (''open stored submission file '' @ lib_quote L (sf_StoragePath file))
       (fs_op (\<lambda>k. case file_at k (sf_StoragePath file) of
          None \<Rightarrow> Inl (Sentinel ErrNotExist) | Some content \<Rightarrow> Inr (content, k)))"

section \<open>Quarantine\<close>

definition cleanStoredUploadPath :: "golib \<Rightarrow> string \<Rightarrow> err + string" where
  "cleanStoredUploadPath L v =
     (let cleaned = path_clean v in
      if path_is_abs cleaned \<or> \<not> prefix (''uploads'' @ [slash]) cleaned
      then Inl (Plain (''invalid stored upload path '' @ lib_quote L v))
      else Inr cleaned)"

fun storedUploadPaths :: "golib \<Rightarrow> string list \<Rightarrow> submission_file list \<Rightarrow> err + string list" where
  "storedUploadPaths L seen [] = Inr (rev seen)"
| "storedUploadPaths L seen (file # rest) =
     rbind (cleanStoredUploadPath L (sf_StoragePath file)) (\<lambda>path.
       if path \<in> set seen then storedUploadPaths L seen rest
       else storedUploadPaths L (path # seen) rest)"

definition restoreStagedUpload :: "golib \<Rightarrow> string \<times> string \<Rightarrow> unit db_prog" where
  "restoreStagedUpload L file =
     (case file of (original, stg) \<Rightarrow>
      catch (fs_op (lstat stg)) (\<lambda>r. case r of
        Inl e \<Rightarrow> if err_is ErrNotExist e then ret ()
                else fail (Wrap (''inspect quarantined upload '' @ lib_quote L stg) e)
      | Inr _ \<Rightarrow>
          catch (fs_op (lstat original)) (\<lambda>r. case r of
            Inr _ \<Rightarrow> fail (Plain (''restore upload '' @ lib_quote L original @ '': destination already exists''))
          | Inl e \<Rightarrow>
              if \<not> err_is ErrNotExist e
              then fail (Wrap (''inspect upload restore destination '' @ lib_quote L original) e)
              else bnd (wrap_err (''prepare upload restore destination '' @ lib_quote L original)
                          (fs_op (mkdir_all (path_dir original)))) (\<lambda>_.
                   wrap_err (''restore upload '' @ lib_quote L original) (fs_op (rename stg original))))))"

fun restore_each :: "golib \<Rightarrow> (string \<times> string) list \<Rightarrow> err option \<Rightarrow> err option db_prog" where
  "restore_each L [] result = ret result"
| "restore_each L (file # rest) result =
     catch (restoreStagedUpload L file)
       (\<lambda>r. restore_each L rest (join_err result (case r of Inl e \<Rightarrow> Some e | Inr _ \<Rightarrow> None)))"

definition restoreWithRoot :: "golib \<Rightarrow> stagedUploadDeletion \<Rightarrow> err option db_prog" where
  "restoreWithRoot L deletion =
     bnd (restore_each L (rev (st_files deletion)) None) (\<lambda>result.
       if result = None then
         catch (fs_op (remove_all (st_operation deletion))) (\<lambda>r. case r of
           Inl e \<Rightarrow> ret (if err_is ErrNotExist e then None else Some (Wrap ''remove upload deletion quarantine'' e))
         | Inr _ \<Rightarrow> ret None)
       else ret result)"

text \<open>
  \<open>pruneEmptyUploadParents\<close>: remove parents until one is not empty. \<open>Remove\<close> of the root
  fails, so the loop ends there too.
\<close>

function prune :: "string \<Rightarrow> unit db_prog" where
  "prune directory =
     (if directory = ''uploads'' then ret ()
      else catch (fs_op (remove directory)) (\<lambda>r. case r of
             Inl _ \<Rightarrow> ret ()
           | Inr _ \<Rightarrow> if length (path_dir directory) < length directory then prune (path_dir directory) else ret ()))"
  by pat_completeness auto
termination
  by (relation "measure length") auto

declare prune.simps [simp del]

definition pruneEmptyUploadParents :: "string \<Rightarrow> unit db_prog" where
  "pruneEmptyUploadParents storedPath = prune (path_dir storedPath)"

definition stage_abort :: "golib \<Rightarrow> stagedUploadDeletion \<Rightarrow> err \<Rightarrow> 'a db_prog" where
  "stage_abort L deletion e = bnd (restoreWithRoot L deletion) (\<lambda>r. fail (the (join_err (Some e) r)))"

fun stage_each :: "golib \<Rightarrow> stagedUploadDeletion \<Rightarrow> string list \<Rightarrow> stagedUploadDeletion db_prog" where
  "stage_each L deletion [] = ret deletion"
| "stage_each L deletion (original # rest) =
     (let stg = path_join (st_operation deletion) original in
      catch (fs_op (lstat original)) (\<lambda>r. case r of
        Inl e \<Rightarrow>
          if err_is ErrNotExist e then stage_each L deletion rest
          else stage_abort L deletion (Wrap (''inspect stored upload '' @ lib_quote L original) e)
      | Inr isDir \<Rightarrow>
          if isDir then stage_abort L deletion (Plain (''stored upload '' @ lib_quote L original @ '' is a directory''))
          else
            catch (fs_op (mkdir_all (path_dir stg))) (\<lambda>r. case r of
              Inl e \<Rightarrow> stage_abort L deletion (Wrap (''prepare upload quarantine for '' @ lib_quote L original) e)
            | Inr _ \<Rightarrow>
                catch (fs_op (rename original stg)) (\<lambda>r. case r of
                  Inl e \<Rightarrow> stage_abort L deletion (Wrap (''quarantine stored upload '' @ lib_quote L original) e)
                | Inr _ \<Rightarrow>
                    bnd (pruneEmptyUploadParents original) (\<lambda>_.
                    stage_each L (deletion\<lparr>st_files := st_files deletion @ [(original, stg)]\<rparr>) rest)))))"

definition stageStoredFiles :: "golib \<Rightarrow> string \<Rightarrow> submission_file list \<Rightarrow> stagedUploadDeletion db_prog" where
  "stageStoredFiles L dataDir files =
     bnd (of_result (storedUploadPaths L [] files)) (\<lambda>paths.
     if paths = [] then ret \<lparr>st_operation = [], st_files = []\<rparr>
     else if trim_space dataDir = [] then fail (Plain ''data directory is required for stored uploads'')
     else bnd (wrap_err ''open upload storage'' (fs_op make_root)) (\<lambda>_.
          bnd (wrap_err ''open upload storage'' (fs_op open_root)) (\<lambda>_.
          bnd (wrap_err ''create upload deletion token'' (randomHex 16)) (\<lambda>token.
          let operation = path_join uploadDeletionRoot token in
          bnd (wrap_err ''create upload deletion quarantine'' (fs_op (mkdir_all operation))) (\<lambda>_.
          stage_each L \<lparr>st_operation = operation, st_files = []\<rparr> paths)))))"

text \<open>\<open>finish\<close>: what the committed database still refers to goes back, the rest goes away.\<close>

definition finish_file :: "golib \<Rightarrow> string \<times> string \<Rightarrow> unit db_prog" where
  "finish_file L file =
     (case file of (original, stg) \<Rightarrow>
      bnd (wrap_err (''check quarantined upload reference '' @ lib_quote L original)
             (count_rows submission_files (\<lambda>f. sf_StoragePath f = original))) (\<lambda>references.
      if references > 0 then restoreStagedUpload L (original, stg)
      else wrap_err (''remove quarantined upload '' @ lib_quote L original) (allow_missing (fs_op (remove_all stg)))))"

definition finish :: "golib \<Rightarrow> stagedUploadDeletion option \<Rightarrow> unit db_prog" where
  "finish L deletion =
     (case deletion of
        None \<Rightarrow> ret ()
      | Some s \<Rightarrow>
          if st_operation s = [] then ret ()
          else bnd (wrap_err ''open upload storage for cleanup'' (fs_op open_root)) (\<lambda>_.
               bnd (each (finish_file L) (st_files s)) (\<lambda>_.
               wrap_err ''remove upload deletion quarantine'' (allow_missing (fs_op (remove_all (st_operation s)))))))"

section \<open>Recovery\<close>

fun recovered_files :: "golib \<Rightarrow> string \<Rightarrow> string list \<Rightarrow> err + (string \<times> string) list" where
  "recovered_files L operation [] = Inr []"
| "recovered_files L operation (path # rest) =
     rbind (cleanStoredUploadPath L (trim_prefix (operation @ [slash]) path)) (\<lambda>original.
     rbind (recovered_files L operation rest) (\<lambda>fs. Inr ((original, path) # fs)))"

definition recover_operation :: "golib \<Rightarrow> string \<Rightarrow> string \<times> bool \<Rightarrow> unit db_prog" where
  "recover_operation L stagingRoot entry =
     (case entry of (name, isDir) \<Rightarrow>
      let operation = path_join stagingRoot name in
      bnd (guard isDir (Plain (''unexpected file in upload staging root '' @ lib_quote L operation))) (\<lambda>_.
      bnd (wrap_err (''inspect interrupted upload operation '' @ lib_quote L name)
             (bnd (fs_op (walk_files operation)) (\<lambda>paths. of_result (recovered_files L operation paths)))) (\<lambda>fs.
      wrap_err (''recover interrupted upload operation '' @ lib_quote L name)
        (finish L (Some \<lparr>st_operation = operation, st_files = fs\<rparr>)))))"

definition recoverStagedUploadRoot :: "golib \<Rightarrow> string \<Rightarrow> unit db_prog" where
  "recoverStagedUploadRoot L stagingRoot =
     catch (fs_op (read_dir stagingRoot)) (\<lambda>r. case r of
       Inl e \<Rightarrow> if err_is ErrNotExist e then ret ()
               else fail (Wrap (''list interrupted upload operations in '' @ lib_quote L stagingRoot) e)
     | Inr operations \<Rightarrow>
         bnd (each (recover_operation L stagingRoot) operations) (\<lambda>_.
         wrap_err (''remove empty upload staging root '' @ lib_quote L stagingRoot)
           (allow_missing (fs_op (remove stagingRoot)))))"

definition RecoverUploadDeletions :: "golib \<Rightarrow> string \<Rightarrow> unit db_prog" where
  "RecoverUploadDeletions L dataDir =
     (if trim_space dataDir = [] then ret ()
      else catch (fs_op open_root) (\<lambda>r. case r of
             Inl e \<Rightarrow> if err_is ErrNotExist e then ret () else fail (Wrap ''open upload storage for recovery'' e)
           | Inr _ \<Rightarrow> each (recoverStagedUploadRoot L) [uploadStagingRoot, uploadDeletionRoot]))"

end
