(* ===== verification/Submissions.thy ===== *)
theory Submissions
  imports Uploads "HOL-Library.Product_Lexorder"
begin

text \<open>
  Submissions: \<open>internal/forms/submissions.go\<close> (the honeypot, the upload quota, storing a
  submission with its files and delivery events) and \<open>internal/forms/management.go\<close> (deletion
  of forms and submissions with their uploads, the inbox queries, the manual retry of events).
\<close>

section \<open>Event tables\<close>

text \<open>The two event tables, so that code that is generic over the model is written once.\<close>

record 'e event_table =
  et_get :: "database \<Rightarrow> 'e list"
  et_put :: "'e list \<Rightarrow> database \<Rightarrow> database"

definition webhook_table :: "delivery_event event_table" where
  "webhook_table = \<lparr>et_get = webhook_events, et_put = (\<lambda>rows d. d\<lparr>webhook_events := rows\<rparr>)\<rparr>"

definition email_table :: "email_event event_table" where
  "email_table = \<lparr>et_get = email_events, et_put = (\<lambda>rows d. d\<lparr>email_events := rows\<rparr>)\<rparr>"

text \<open>\<open>tx.Model(model).Where(p).Updates(f)\<close>: the number of rows changed.\<close>

definition update_events :: "'e event_table \<Rightarrow> ('e \<Rightarrow> bool) \<Rightarrow> ('e \<Rightarrow> 'e) \<Rightarrow> nat db_prog" where
  "update_events T p f =
     stmt (\<lambda>d. Inr (count_where p (et_get T d), et_put T (update_where p f (et_get T d)) d))"

section \<open>The honeypot\<close>

definition json_present :: "jval \<Rightarrow> bool" where
  "json_present v = (case v of JStr text \<Rightarrow> trim_space text \<noteq> [] | JNull \<Rightarrow> False | _ \<Rightarrow> True)"

fun honeypot_fields :: "string list \<Rightarrow> payload \<Rightarrow> bool \<Rightarrow> bool \<times> payload" where
  "honeypot_fields [] payload spam = (spam, payload)"
| "honeypot_fields (field # rest) payload spam =
     (case map_of payload field of
        None \<Rightarrow> honeypot_fields rest payload spam
      | Some v \<Rightarrow> honeypot_fields rest (filter (\<lambda>(k, _). k \<noteq> field) payload) (spam \<or> json_present v))"

definition consumeHoneypot :: "payload \<Rightarrow> bool \<times> payload" where
  "consumeHoneypot payload = honeypot_fields [HoneypotField, legacyHoneypotField] payload False"

section \<open>Storing a submission\<close>

definition checkUploadQuota :: "submission_file list \<Rightarrow> int \<Rightarrow> unit db_prog" where
  "checkUploadQuota records maximum =
     (if records = [] \<or> maximum \<le> 0 then ret ()
      else bnd (query (\<lambda>d. sum_list (map sf_Size (submission_files d)))) (\<lambda>storedBytes.
           let incomingBytes = fold (\<lambda>r n. wrap64 (n + sf_Size r)) records 0
           in guard (\<not> storedBytes > wrap64 (maximum - incomingBytes)) (Sentinel ErrUploadStorageQuotaExceeded)))"

definition wants_event :: "loaded_form \<Rightarrow> email_delivery \<Rightarrow> bool" where
  "wants_event lf e \<longleftrightarrow>
     ed_Enabled e \<and> ed_Recipient e \<noteq> []
     \<and> \<not> (ed_RecipientSource e = ''field'' \<and> fm_CaptchaProfileID (lf_Form lf) = None)"

definition wants_hook :: "loaded_form \<Rightarrow> bool" where
  "wants_hook lf \<longleftrightarrow>
     (case lf_WebhookDelivery lf of None \<Rightarrow> False | Some h \<Rightarrow> wd_Enabled h \<and> wd_URL h \<noteq> [])"

definition createDeliveryEvents :: "loaded_form \<Rightarrow> nat \<Rightarrow> unit db_prog" where
  "createDeliveryEvents lf submissionID =
     bnd time_now (\<lambda>now.
     bnd (if wants_hook lf then bnd (create_webhook_event (NewWebhookEvent submissionID now)) (\<lambda>_. ret ())
          else ret ()) (\<lambda>_.
     each (\<lambda>e. if wants_event lf e
               then bnd (create_email_event (NewEmailEvent submissionID now [ed_ID e])) (\<lambda>_. ret ())
               else ret ()) (lf_EmailDeliveries lf)))"

text \<open>The transaction; a retried attempt reads the clock again.\<close>

definition submission_tx ::
  "loaded_form \<Rightarrow> submission \<Rightarrow> submission_file list \<Rightarrow> int \<Rightarrow> submission db_prog" where
  "submission_tx lf s records maximum =
     bnd (query (\<lambda>d. case find (\<lambda>f. fm_ID f = fm_ID (lf_Form lf)) (forms d) of None \<Rightarrow> 0 | Some f \<Rightarrow> fm_ID f)) (\<lambda>formID.
     bnd (guard (formID \<noteq> 0) (Sentinel ErrRecordNotFound)) (\<lambda>_.
     bnd (checkUploadQuota records maximum) (\<lambda>_.
     bnd (create_submission_row s) (\<lambda>row.
     if sb_IsSpam s then ret row
     else bnd (each (\<lambda>r. bnd (stmt (insert_file (r\<lparr>sf_SubmissionID := sb_ID row\<rparr>))) (\<lambda>_. ret ())) records) (\<lambda>_.
          bnd (createDeliveryEvents lf (sb_ID row)) (\<lambda>_. ret row))))))"

definition stage_submission_files ::
  "golib \<Rightarrow> string \<Rightarrow> bool \<Rightarrow> UploadedFile list \<Rightarrow> (submission_file list \<times> stagedUploadDeletion option) db_prog" where
  "stage_submission_files L dataDir spam files =
     (if \<not> spam \<and> files \<noteq> [] \<and> trim_space dataDir \<noteq> []
      then map_err (\<lambda>_. Plain ''failed to save submission'')
             (bnd (stageUnassignedFiles L dataDir files) (\<lambda>(records, st). ret (records, Some st)))
      else ret ([], None))"

text \<open>The error the caller sees, from the error of the write and of the clean-up.\<close>

definition submission_error :: "err \<Rightarrow> err + unit \<Rightarrow> err" where
  "submission_error writeErr cleanup =
     (let e = (case cleanup of Inl c \<Rightarrow> Joined [writeErr, c] | Inr _ \<Rightarrow> writeErr)
      in if err_is ErrUploadStorageQuotaExceeded e then Sentinel ErrUploadStorageQuotaExceeded
         else Plain ''failed to save submission'')"

definition CreateSubmissionWithLimits ::
  "golib \<Rightarrow> loaded_form \<Rightarrow> payload \<Rightarrow> string \<Rightarrow> string \<Rightarrow> UploadedFile list \<Rightarrow> int \<Rightarrow> submission db_prog" where
  "CreateSubmissionWithLimits L lf payload0 userAgent dataDir files maximum =
     (case consumeHoneypot payload0 of (spam, payload) \<Rightarrow>
      if \<not> spam \<and> payload = [] \<and> files = [] then fail (Sentinel ErrEmptySubmission)
      else
        (let s = \<lparr>sb_ID = 0, sb_FormID = fm_ID (lf_Form lf), sb_DataJSON = lib_json_payload_text L payload,
                  sb_UserAgent = userAgent, sb_IsSpam = spam, sb_CreatedAt = 0\<rparr>
         in bnd (stage_submission_files L dataDir spam files) (\<lambda>(records, st).
            catch (with_retry (submission_tx lf s records maximum)) (\<lambda>wrote.
            catch (finish L st) (\<lambda>cleanup.
              case wrote of Inl e \<Rightarrow> fail (submission_error e cleanup) | Inr row \<Rightarrow> ret row)))))"

definition CreateSubmissionWithFiles ::
  "golib \<Rightarrow> loaded_form \<Rightarrow> payload \<Rightarrow> string \<Rightarrow> string \<Rightarrow> UploadedFile list \<Rightarrow> submission db_prog" where
  "CreateSubmissionWithFiles L lf payload userAgent dataDir files =
     CreateSubmissionWithLimits L lf payload userAgent dataDir files 0"

section \<open>Deletion\<close>

definition get_staged :: "stagedUploadDeletion option db_prog" where
  "get_staged = (\<lambda>w. (Inr (staged w), w))"

definition set_staged :: "stagedUploadDeletion option \<Rightarrow> unit db_prog" where
  "set_staged s = (\<lambda>w. (Inr (), w\<lparr>staged := s\<rparr>))"

text \<open>An attempt that follows another first undoes what that one staged.\<close>

definition finish_previous :: "golib \<Rightarrow> unit db_prog" where
  "finish_previous L =
     bnd get_staged (\<lambda>s. case s of None \<Rightarrow> ret () | Some _ \<Rightarrow> bnd (finish L s) (\<lambda>_. set_staged None))"

text \<open>\<open>staged, err = stageStoredFiles(...)\<close>: on failure the variable becomes \<open>nil\<close>.\<close>

definition stage_into_variable :: "golib \<Rightarrow> string \<Rightarrow> string \<Rightarrow> submission_file list \<Rightarrow> unit db_prog" where
  "stage_into_variable L dataDir what files =
     catch (stageStoredFiles L dataDir files) (\<lambda>r. case r of
       Inl e \<Rightarrow> bnd (set_staged None) (\<lambda>_. fail (Wrap what e))
     | Inr s \<Rightarrow> set_staged (Some s))"

definition delete_form_tx :: "golib \<Rightarrow> string \<Rightarrow> nat \<Rightarrow> unit db_prog" where
  "delete_form_tx L dataDir i =
     bnd (finish_previous L) (\<lambda>_.
     bnd (first forms (\<lambda>f. fm_ID f = i)) (\<lambda>_.
     bnd (wrap_err ''list form uploads for deletion''
            (query (\<lambda>d. filter (\<lambda>f. of_form i d (sf_SubmissionID f)) (submission_files d)))) (\<lambda>files.
     bnd (stage_into_variable L dataDir ''stage form uploads'' files) (\<lambda>_.
     deleteFormRecords i))))"

definition delete_submission_tx :: "golib \<Rightarrow> string \<Rightarrow> nat \<Rightarrow> unit db_prog" where
  "delete_submission_tx L dataDir i =
     bnd (finish_previous L) (\<lambda>_.
     bnd (first submissions (\<lambda>s. sb_ID s = i)) (\<lambda>_.
     bnd (query (\<lambda>d. filter (\<lambda>f. sf_SubmissionID f = i) (submission_files d))) (\<lambda>files.
     bnd (stage_into_variable L dataDir ''stage submission uploads'' files) (\<lambda>_.
     bnd (exec (\<lambda>d. d\<lparr>webhook_events := delete_where (\<lambda>e. ev_SubmissionID e = i) (webhook_events d)\<rparr>)) (\<lambda>_.
     bnd (exec (\<lambda>d. d\<lparr>email_events := delete_where (\<lambda>e. ev_SubmissionID e = i) (email_events d)\<rparr>)) (\<lambda>_.
     bnd (exec (\<lambda>d. d\<lparr>submission_files := delete_where (\<lambda>f. sf_SubmissionID f = i) (submission_files d)\<rparr>)) (\<lambda>_.
     bnd (stmt (\<lambda>d. Inr (count_where (\<lambda>s. sb_ID s = i) (submissions d), delete_submissions (\<lambda>s. sb_ID s = i) d))) (\<lambda>n.
     guard (n \<noteq> 0) (Sentinel ErrRecordNotFound)))))))))"

text \<open>The frame of both handlers: the write, then the clean-up of what is staged.\<close>

definition delete_with_uploads :: "golib \<Rightarrow> string \<Rightarrow> unit db_prog \<Rightarrow> unit db_prog" where
  "delete_with_uploads L what tx =
     bnd (set_staged None) (\<lambda>_.
     catch (with_retry tx) (\<lambda>deleted.
     bnd get_staged (\<lambda>s.
     catch (finish L s) (\<lambda>cleanup.
       case deleted of
         Inl e \<Rightarrow> fail (the (join_err (Some (Wrap (''delete '' @ what) e)) (case cleanup of Inl c \<Rightarrow> Some c | Inr _ \<Rightarrow> None)))
       | Inr _ \<Rightarrow>
           (case cleanup of
              Inl c \<Rightarrow> fail (Wrap (what @ '' deleted but quarantined upload cleanup failed'') c)
            | Inr _ \<Rightarrow> ret ())))))"

definition DeleteForm :: "golib \<Rightarrow> string \<Rightarrow> nat \<Rightarrow> unit db_prog" where
  "DeleteForm L dataDir i = delete_with_uploads L ''form'' (delete_form_tx L dataDir i)"

definition DeleteSubmission :: "golib \<Rightarrow> string \<Rightarrow> nat \<Rightarrow> unit db_prog" where
  "DeleteSubmission L dataDir i = delete_with_uploads L ''submission'' (delete_submission_tx L dataDir i)"

section \<open>The inbox\<close>

record SubmissionFilter =
  fi_FormID :: nat
  fi_Range :: string
  fi_Query :: string
  fi_Page :: int
  fi_PerPage :: int
  fi_IsSpam :: "bool option"

record SubmissionPage =
  pg_Items :: "submission list"
  pg_Page :: int
  pg_PerPage :: int
  pg_TotalCount :: nat
  pg_TotalPages :: int

definition day :: gotime where
  "day = 24 * 3600 * 1000000000"

text \<open>The start of a range; \<open>None\<close> is the zero time (no bound).\<close>

definition submissionRangeStart :: "string \<Rightarrow> gotime \<Rightarrow> err + gotime option" where
  "submissionRangeStart v now =
     (let r = trim_space v in
      if r = [] \<or> r = ''all'' then Inr None
      else if r = ''7d'' then Inr (Some (now - 7 * day))
      else if r = ''30d'' then Inr (Some (now - 30 * day))
      else if r = ''90d'' then Inr (Some (now - 90 * day))
      else Inl (Validation ''range'' ''Range must be one of all, 7d, 30d, or 90d''))"

text \<open>SQLite's \<open>LIKE\<close>: \<open>%\<close> any runes, \<open>_\<close> one rune, ASCII letters without case.\<close>

fun sql_like :: "string list \<Rightarrow> string list \<Rightarrow> bool" where
  "sql_like [] s = (s = [])"
| "sql_like (p # ps) [] = (p = ''%'' \<and> sql_like ps [])"
| "sql_like (p # ps) (c # cs) =
     (if p = ''%'' then sql_like ps (c # cs) \<or> sql_like (p # ps) cs
      else (p = ''_'' \<or> map ascii_lower p = map ascii_lower c) \<and> sql_like ps cs)"

definition submissionFilterQuery :: "SubmissionFilter \<Rightarrow> gotime \<Rightarrow> err + (submission \<Rightarrow> bool)" where
  "submissionFilterQuery f now =
     rbind (submissionRangeStart (fi_Range f) now) (\<lambda>start.
       let search = trim_space (fi_Query f) in
       Inr (\<lambda>s. (fi_FormID f > 0 \<longrightarrow> sb_FormID s = fi_FormID f)
              \<and> (search \<noteq> [] \<longrightarrow> sql_like (runes (''%'' @ search @ ''%'')) (runes (sb_DataJSON s)))
              \<and> (case fi_IsSpam f of None \<Rightarrow> True | Some b \<Rightarrow> sb_IsSpam s = b)
              \<and> (case start of None \<Rightarrow> True | Some t \<Rightarrow> t \<le> sb_CreatedAt s)))"

text \<open>\<open>ORDER BY created_at DESC, id DESC\<close>, \<open>LIMIT\<close> (none when negative) and \<open>OFFSET\<close>.\<close>

definition newest_first :: "submission list \<Rightarrow> submission list" where
  "newest_first = sort_key (\<lambda>s. (- sb_CreatedAt s, - int (sb_ID s)))"

definition newest_events :: "'e delivery_event_scheme list \<Rightarrow> 'e delivery_event_scheme list" where
  "newest_events = sort_key (\<lambda>e. (- ev_CreatedAt e, - int (ev_ID e)))"

definition sql_limit :: "int \<Rightarrow> 'a list \<Rightarrow> 'a list" where
  "sql_limit n xs = (if n < 0 then xs else take (nat n) xs)"

definition clamp_page :: "int \<Rightarrow> int" where
  "clamp_page page = (if page < 1 then 1 else page)"

definition clamp_per_page :: "int \<Rightarrow> int" where
  "clamp_per_page perPage = (let n = (if perPage < 1 then 20 else perPage) in if n > 200 then 200 else n)"

definition total_pages :: "nat \<Rightarrow> int \<Rightarrow> int" where
  "total_pages totalCount perPage =
     (if totalCount > 0 then (int totalCount + perPage - 1) div perPage else 0)"

definition page_items :: "int \<Rightarrow> int \<Rightarrow> 'a list \<Rightarrow> 'a list" where
  "page_items page perPage rows = sql_limit perPage (drop (nat (wrap64 ((page - 1) * perPage))) rows)"

definition ListSubmissions :: "SubmissionFilter \<Rightarrow> SubmissionPage db_prog" where
  "ListSubmissions f =
     (let page = clamp_page (fi_Page f); perPage = clamp_per_page (fi_PerPage f) in
      bnd time_now (\<lambda>now.
      bnd (of_result (submissionFilterQuery f now)) (\<lambda>p.
      bnd (wrap_err ''count submissions'' (count_rows submissions p)) (\<lambda>totalCount.
      bnd (wrap_err ''list submissions'' (query (\<lambda>d. page_items page perPage
             (newest_first (filter p (submissions d)))))) (\<lambda>items.
      ret \<lparr>pg_Items = items, pg_Page = page, pg_PerPage = perPage, pg_TotalCount = totalCount,
           pg_TotalPages = total_pages totalCount perPage\<rparr>)))))"

record InboxSummary =
  is_Forms :: "(nat \<times> string) list"
  is_FormCount :: nat
  is_EntriesLast24 :: nat

definition GetInboxSummary :: "gotime \<Rightarrow> InboxSummary db_prog" where
  "GetInboxSummary now =
     bnd (wrap_err ''list inbox forms'' (query (\<lambda>d. map (\<lambda>f. (fm_ID f, fm_Name f)) (sort_key fm_Name (forms d))))) (\<lambda>fs.
     bnd (wrap_err ''count inbox forms'' (count_rows forms (\<lambda>_. True))) (\<lambda>n.
     bnd (wrap_err ''count recent submissions'' (count_rows submissions (\<lambda>s. sb_CreatedAt s > now - day))) (\<lambda>recent.
     ret \<lparr>is_Forms = fs, is_FormCount = n, is_EntriesLast24 = recent\<rparr>)))"

definition GetSubmissions :: "nat \<Rightarrow> int \<Rightarrow> submission list db_prog" where
  "GetSubmissions formID limit = wrap_err ''list form submissions''
     (query (\<lambda>d. sql_limit limit (newest_first (filter (\<lambda>s. sb_FormID s = formID) (submissions d)))))"

definition recentEvents :: "('e delivery_event_scheme) event_table \<Rightarrow> nat \<Rightarrow> int \<Rightarrow> 'e delivery_event_scheme list db_prog" where
  "recentEvents T formID limit = wrap_err ''list delivery events''
     (query (\<lambda>d. sql_limit limit (newest_events (filter (\<lambda>e. of_form formID d (ev_SubmissionID e)) (et_get T d)))))"

definition GetWebhookEvents :: "nat \<Rightarrow> int \<Rightarrow> delivery_event list db_prog" where
  "GetWebhookEvents = recentEvents webhook_table"

definition GetEmailEvents :: "nat \<Rightarrow> int \<Rightarrow> email_event list db_prog" where
  "GetEmailEvents formID limit = wrap_err ''list email delivery events''
     (query (\<lambda>d. sql_limit limit (newest_events (filter (\<lambda>e. of_form formID d (ev_SubmissionID e)) (email_events d)))))"

record submission_details =
  sd_Submission :: submission
  sd_Form :: "form option"
  sd_WebhookEvents :: "delivery_event list"
  sd_EmailEvents :: "email_event list"
  sd_Files :: "submission_file list"

definition GetSubmissionByID :: "nat \<Rightarrow> submission_details db_prog" where
  "GetSubmissionByID i =
     bnd (first submissions (\<lambda>s. sb_ID s = i)) (\<lambda>s.
     bnd (query (\<lambda>d. filter (\<lambda>e. ev_SubmissionID e = i) (email_events d))) (\<lambda>emails.
     bnd (query (\<lambda>d. filter (\<lambda>f. sf_SubmissionID f = i) (submission_files d))) (\<lambda>fs.
     bnd (query (\<lambda>d. find (\<lambda>f. fm_ID f = sb_FormID s) (forms d))) (\<lambda>f.
     bnd (query (\<lambda>d. filter (\<lambda>e. ev_SubmissionID e = i) (webhook_events d))) (\<lambda>hooks.
     ret \<lparr>sd_Submission = s, sd_Form = f, sd_WebhookEvents = hooks, sd_EmailEvents = emails, sd_Files = fs\<rparr>)))))"

definition GetSubmissionFile :: "nat \<Rightarrow> nat \<Rightarrow> submission_file db_prog" where
  "GetSubmissionFile submissionID fileID =
     first submission_files (\<lambda>f. sf_ID f = fileID \<and> sf_SubmissionID f = submissionID)"

section \<open>Delivery events\<close>

fun status_text :: "status \<Rightarrow> string" where
  "status_text Pending = ''pending''"
| "status_text Delivering = ''delivering''"
| "status_text Delivered = ''delivered''"
| "status_text Retrying = ''retrying''"
| "status_text Failed = ''failed''"

definition clamp_limit :: "int \<Rightarrow> int" where
  "clamp_limit limit = (if limit < 1 \<or> limit > 500 then 100 else limit)"

definition list_events ::
  "('e delivery_event_scheme) event_table \<Rightarrow> nat \<Rightarrow> string \<Rightarrow> int \<Rightarrow> 'e delivery_event_scheme list db_prog" where
  "list_events T formID st limit =
     (let s = trim_space st in
      query (\<lambda>d. sql_limit (clamp_limit limit) (newest_events (filter
        (\<lambda>e. (formID > 0 \<longrightarrow> of_form formID d (ev_SubmissionID e)) \<and> (s \<noteq> [] \<longrightarrow> status_text (ev_Status e) = s))
        (et_get T d)))))"

definition ListWebhookEvents :: "nat \<Rightarrow> string \<Rightarrow> int \<Rightarrow> delivery_event list db_prog" where
  "ListWebhookEvents = list_events webhook_table"

definition ListEmailEvents :: "nat \<Rightarrow> string \<Rightarrow> int \<Rightarrow> email_event list db_prog" where
  "ListEmailEvents = list_events email_table"

definition retried :: "gotime \<Rightarrow> 'e delivery_event_scheme \<Rightarrow> 'e delivery_event_scheme" where
  "retried now e = e\<lparr>ev_Status := Pending, ev_AttemptCount := 0, ev_LastAttemptErr := [], ev_NextAttemptAt := Some now\<rparr>"

definition retryDeliveryEvent :: "('e delivery_event_scheme) event_table \<Rightarrow> nat \<Rightarrow> unit db_prog" where
  "retryDeliveryEvent T i =
     bnd time_now (\<lambda>now.
     with_retry
       (bnd (update_events T (\<lambda>e. ev_ID e = i \<and> ev_Status e = Failed) (retried now)) (\<lambda>n.
        guard (n \<noteq> 0) (Sentinel ErrRecordNotFound))))"

definition RetryWebhookEvent :: "nat \<Rightarrow> unit db_prog" where
  "RetryWebhookEvent = retryDeliveryEvent webhook_table"

definition RetryEmailEvent :: "nat \<Rightarrow> unit db_prog" where
  "RetryEmailEvent = retryDeliveryEvent email_table"

end
