(* ===== verification/Upload_Laws.thy ===== *)
theory Upload_Laws
  imports Uploads
begin

text \<open>
  What the upload operations promise: none of them writes the database, a stored path stays
  below \<open>uploads\<close> whatever the row says, file names carry no separator, and the clean-up of a
  staged operation puts back exactly the files the database refers to.
\<close>

section \<open>No upload operation writes the database\<close>

lemma reads_fs_op [tx_keeps]: "reads (fs_op f)"
  by (auto simp: reads_def fs_op_def split: list.splits option.splits sum.splits prod.splits)

lemma reads_on_error [tx_keeps]: "reads m \<Longrightarrow> reads c \<Longrightarrow> reads (on_error m c)"
  unfolding on_error_def by (intro tx_keeps)

lemma reads_allow_missing [tx_keeps]: "reads m \<Longrightarrow> reads (allow_missing m)"
  unfolding allow_missing_def by (intro tx_keeps)

lemma reads_storedFilename [tx_keeps]: "reads (storedFilename L n)"
  unfolding storedFilename_def by (intro tx_keeps)

lemma reads_save_each [tx_keeps]: "reads (save_each L wd sd i fs)"
  by (induction fs) (auto intro!: tx_keeps)

lemma reads_saveFilesAt [tx_keeps]: "reads (saveFilesAt L wd sd i fs)"
  unfolding saveFilesAt_def by (intro tx_keeps)

lemma reads_deleteUploadPath [tx_keeps]: "reads (deleteUploadPath L dd p)"
  unfolding deleteUploadPath_def by (intro tx_keeps)

lemma reads_stageUnassignedFiles [tx_keeps]: "reads (stageUnassignedFiles L dd fs)"
  unfolding stageUnassignedFiles_def by (intro tx_keeps)

lemma reads_restoreStagedUpload [tx_keeps]: "reads (restoreStagedUpload L f)"
  unfolding restoreStagedUpload_def by (intro tx_keeps)

lemma reads_restore_each [tx_keeps]: "reads (restore_each L fs r)"
  by (induction L fs r rule: restore_each.induct) (auto intro!: tx_keeps)

lemma reads_restoreWithRoot [tx_keeps]: "reads (restoreWithRoot L d)"
  unfolding restoreWithRoot_def by (intro tx_keeps)

lemma reads_prune [tx_keeps]: "reads (prune d)"
proof (induction d rule: prune.induct)
  case (1 d)
  show ?case
  proof (cases "d = ''uploads''")
    case False
    have "reads (if length (path_dir d) < length d then prune (path_dir d) else ret ())"
      using 1 False by (simp add: reads_ret)
    with False show ?thesis
      unfolding prune.simps [of d] by (simp add: reads_catch reads_result reads_fs_op reads_ret)
  qed (simp add: prune.simps [of "''uploads''"] reads_ret)
qed

lemma reads_stage_each [tx_keeps]: "reads (stage_each L d ps)"
proof (induction ps arbitrary: d)
  case (Cons p ps)
  show ?case
    unfolding stage_each.simps Let_def pruneEmptyUploadParents_def stage_abort_def
    by (intro tx_keeps Cons.IH)
qed (simp add: reads_ret)

lemma reads_stageStoredFiles [tx_keeps]: "reads (stageStoredFiles L dd fs)"
  unfolding stageStoredFiles_def by (intro tx_keeps)

lemma reads_finish_file [tx_keeps]: "reads (finish_file L f)"
  unfolding finish_file_def by (intro tx_keeps)

lemma reads_finish [tx_keeps]: "reads (finish L s)"
  unfolding finish_def by (intro tx_keeps)

lemma reads_recover_operation [tx_keeps]: "reads (recover_operation L r e)"
  unfolding recover_operation_def by (intro tx_keeps)

lemma reads_recoverStagedUploadRoot [tx_keeps]: "reads (recoverStagedUploadRoot L r)"
  unfolding recoverStagedUploadRoot_def by (intro tx_keeps)

lemma reads_RecoverUploadDeletions [tx_keeps]: "reads (RecoverUploadDeletions L dd)"
  unfolding RecoverUploadDeletions_def by (intro tx_keeps)

section \<open>Stored paths stay below the upload directory\<close>

text \<open>\<open>Clean\<close> leaves \<open>..\<close> only in front of a relative path.\<close>

definition dots_first :: "string list \<Rightarrow> bool" where
  "dots_first xs \<longleftrightarrow> (\<exists>k ds. xs = replicate k ''..'' @ ds \<and> ''..'' \<notin> set ds \<and> [] \<notin> set ds \<and> ''.'' \<notin> set ds)"

lemma dots_first_Nil [simp]: "dots_first []"
  unfolding dots_first_def by (intro exI [of _ 0] exI [of _ "[]"]) simp

lemma dots_first_snoc: "dots_first xs \<Longrightarrow> p \<noteq> [] \<Longrightarrow> p \<noteq> ''.'' \<Longrightarrow> p \<noteq> ''..'' \<Longrightarrow> dots_first (xs @ [p])"
  unfolding dots_first_def
proof (elim exE conjE)
  fix k ds assume "xs = replicate k ''..'' @ ds" "''..'' \<notin> set ds" "[] \<notin> set ds" "''.'' \<notin> set ds"
    "p \<noteq> []" "p \<noteq> ''.''" "p \<noteq> ''..''"
  then show "\<exists>k ds. xs @ [p] = replicate k ''..'' @ ds \<and> ''..'' \<notin> set ds \<and> [] \<notin> set ds \<and> ''.'' \<notin> set ds"
    by (intro exI [of _ k] exI [of _ "ds @ [p]"]) simp
qed

lemma dots_first_up: "dots_first (xs @ [''..'']) \<Longrightarrow> dots_first (xs @ [''..'', ''..''])"
  unfolding dots_first_def
proof (elim exE conjE)
  fix k ds assume s: "xs @ [''..''] = replicate k ''..'' @ ds" "''..'' \<notin> set ds"
  then have "ds = []" by (cases ds rule: rev_cases) auto
  with s show "\<exists>k ds. xs @ [''..'', ''..''] = replicate k ''..'' @ ds \<and> ''..'' \<notin> set ds \<and> [] \<notin> set ds \<and> ''.'' \<notin> set ds"
    by (intro exI [of _ "Suc k"] exI [of _ "[]"]) (simp flip: replicate_append_same)
qed

lemma dots_first_drop: "dots_first (xs @ [a]) \<Longrightarrow> a \<noteq> ''..'' \<Longrightarrow> dots_first xs"
  unfolding dots_first_def
proof (elim exE conjE)
  fix k ds assume s: "xs @ [a] = replicate k ''..'' @ ds" "''..'' \<notin> set ds" "[] \<notin> set ds" "''.'' \<notin> set ds" "a \<noteq> ''..''"
  have "ds \<noteq> []"
  proof
    assume "ds = []"
    with s(1) have "a \<in> set (replicate k ''..'')" by (metis append_Nil2 in_set_conv_decomp)
    with s(5) show False by simp
  qed
  then obtain es where "ds = es @ [a]" "xs = replicate k ''..'' @ es"
    using s(1) by (cases ds rule: rev_cases) auto
  with s show "\<exists>k ds. xs = replicate k ''..'' @ ds \<and> ''..'' \<notin> set ds \<and> [] \<notin> set ds \<and> ''.'' \<notin> set ds" by auto
qed

lemma clean_parts_shape: "dots_first (rev acc) \<Longrightarrow> dots_first (clean_parts rooted acc ps)"
proof (induction ps arbitrary: acc)
  case (Cons p ps)
  consider (skip) "p = [] \<or> p = ''.''" | (up) "p = ''..''" | (down) "p \<noteq> []" "p \<noteq> ''.''" "p \<noteq> ''..''"
    by blast
  then show ?case
  proof cases
    case skip
    with Cons show ?thesis by auto
  next
    case down
    with Cons.IH [of "p # acc"] Cons.prems dots_first_snoc [of "rev acc" p] show ?thesis by simp
  next
    case up
    show ?thesis
    proof (cases acc)
      case Nil
      have "dots_first [''..'']"
        unfolding dots_first_def by (intro exI [of _ 1] exI [of _ "[]"]) simp
      with up Nil Cons.IH [of "[]"] Cons.IH [of "[''..'']"] show ?thesis by (cases rooted) simp_all
    next
      case (Cons a as)
      with up Cons.IH [of as] Cons.IH [of "''..'' # acc"] Cons.prems dots_first_up [of "rev as"]
        dots_first_drop [of "rev as" a] show ?thesis by auto
    qed
  qed
qed simp

lemma clean_parts_subset: "set (clean_parts rooted acc ps) \<subseteq> set acc \<union> set ps"
  by (induction rooted acc ps rule: clean_parts.induct) (auto split: if_splits list.splits)

lemma split_on_of_join: "xs \<noteq> [] \<Longrightarrow> \<forall>x\<in>set xs. c \<notin> set x \<Longrightarrow> split_on c (join [c] xs) = xs"
  by (induction "[c]" xs rule: join.induct) (simp_all add: split_on_no_sep split_on_append)

lemma prefix_first_part:
  assumes "prefix (a @ [slash]) (join [slash] xs)" "slash \<notin> set a" "\<forall>x\<in>set xs. slash \<notin> set x"
  shows "\<exists>ys. xs = a # ys \<and> ys \<noteq> []"
proof -
  from assms(1) obtain t where t: "join [slash] xs = a @ slash # t" by (auto simp: prefix_def)
  then have "xs \<noteq> []" by auto
  with split_on_of_join [OF this assms(3)] t split_on_append [OF assms(2)] have "xs = a # split_on slash t" by simp
  then show ?thesis by (simp add: split_on_ne)
qed

lemma cleanStoredUploadPath_result:
  assumes "cleanStoredUploadPath L v = Inr p"
  shows "prefix (''uploads'' @ [slash]) p" "''..'' \<notin> set (split_on slash p)" "\<not> path_is_abs p"
proof -
  from assms have p: "p = path_clean v" "\<not> path_is_abs p" "prefix (''uploads'' @ [slash]) p"
    by (auto simp: cleanStoredUploadPath_def Let_def split: if_splits)
  then show "prefix (''uploads'' @ [slash]) p" "\<not> path_is_abs p" by simp_all
  define parts where "parts = clean_parts False [] (split_on slash v)"
  have rel: "\<not> path_is_abs v"
    using p(1,2) by (auto simp: path_clean_def Let_def path_is_abs_def split: list.splits)
  have "join [slash] parts \<noteq> []"
    using p(1,3) rel by (auto simp: path_clean_def Let_def parts_def)
  then have pj: "p = join [slash] parts"
    using p(1) rel by (simp add: path_clean_def Let_def parts_def)
  have sl: "\<forall>x\<in>set parts. slash \<notin> set x"
    using clean_parts_subset [of False "[]" "split_on slash v"] split_on_pieces [of _ slash v]
    unfolding parts_def by auto
  have "slash \<notin> set ''uploads''" by (simp add: slash_def)
  then obtain ys where ys: "parts = ''uploads'' # ys"
    using prefix_first_part [of "''uploads''" parts] p(3) sl pj by auto
  have "dots_first parts" unfolding parts_def by (rule clean_parts_shape) simp
  then have "''..'' \<notin> set parts"
    unfolding dots_first_def ys
  proof (elim exE conjE)
    fix k ds assume "''uploads'' # ys = replicate k ''..'' @ ds" "''..'' \<notin> set ds"
    then show "''..'' \<notin> set (''uploads'' # ys)" by (cases k) auto
  qed
  moreover have "split_on slash p = parts"
    unfolding pj by (rule split_on_of_join) (use ys sl in auto)
  ultimately show "''..'' \<notin> set (split_on slash p)" by simp
qed

lemma storedUploadPaths_result:
  "storedUploadPaths L seen files = Inr paths \<Longrightarrow> distinct seen \<Longrightarrow>
   (\<forall>p\<in>set seen. prefix (''uploads'' @ [slash]) p) \<Longrightarrow>
   distinct paths \<and> (\<forall>p\<in>set paths. prefix (''uploads'' @ [slash]) p)"
proof (induction files arbitrary: seen)
  case (Cons f files)
  then obtain p where p: "cleanStoredUploadPath L (sf_StoragePath f) = Inr p"
    by (cases "cleanStoredUploadPath L (sf_StoragePath f)") simp_all
  with Cons.prems(1) have rest: "storedUploadPaths L (if p \<in> set seen then seen else p # seen) files = Inr paths"
    by (cases "p \<in> set seen") simp_all
  note c = cleanStoredUploadPath_result(1) [OF p]
  show ?case
  proof (rule Cons.IH [OF rest])
    show "distinct (if p \<in> set seen then seen else p # seen)" using Cons.prems(2) by simp
    show "\<forall>q\<in>set (if p \<in> set seen then seen else p # seen). prefix (''uploads'' @ [slash]) q"
      using Cons.prems(3) c by simp
  qed
qed auto

section \<open>File names\<close>

lemma takeWhile_no: "x \<notin> set (takeWhile (\<lambda>c. c \<noteq> x) s)"
  by (auto dest: set_takeWhileD)

lemma path_base_no_slash: "path_base p \<noteq> [slash] \<Longrightarrow> slash \<notin> set (path_base p)"
proof -
  assume "path_base p \<noteq> [slash]"
  then have "path_base p = ''.'' \<or> (\<exists>q. path_base p = rev (takeWhile (\<lambda>c. c \<noteq> slash) q))"
    unfolding path_base_def Let_def by metis
  then show ?thesis
  proof
    assume "path_base p = ''.''"
    then show ?thesis by (simp add: slash_def)
  next
    assume "\<exists>q. path_base p = rev (takeWhile (\<lambda>c. c \<noteq> slash) q)"
    then obtain q where "path_base p = rev (takeWhile (\<lambda>c. c \<noteq> slash) q)" by blast
    with takeWhile_no [of slash q] show ?thesis by simp
  qed
qed

lemma storedFilename_result:
  assumes "storedFilename L name w = (Inr s, w')"
  shows "\<exists>token. s = token @ to_lower L (path_ext name) \<and> length token = 32 \<and> (\<forall>c\<in>set token. slug_char c)"
  using assms unfolding storedFilename_def by (auto elim!: bnd_InrE dest!: randomHex_chars)

lemma path_ext_no_slash: "slash \<notin> set (path_ext p)"
proof -
  let ?e = "takeWhile (\<lambda>c. c \<noteq> slash) (rev p)"
  have "set (takeWhile (\<lambda>c. c \<noteq> CHR ''.'') (rev (rev ?e))) \<subseteq> set ?e"
    by (auto dest: set_takeWhileD)
  with takeWhile_no [of slash "rev p"] have "slash \<notin> set (takeWhile (\<lambda>c. c \<noteq> CHR ''.'') ?e)" by auto
  then show ?thesis by (simp add: path_ext_def Let_def) (simp add: slash_def)
qed

text \<open>What passes validation has one of eight extensions, a bounded size and a clean name.\<close>

lemma ValidateFile_result:
  assumes "ValidateFile L h = Inr ()"
  shows "to_lower L (path_ext (fh_Filename h)) \<in> set allowedExtensions" "0 \<le> fh_Size h" "fh_Size h \<le> MaxFileSize"
    "fh_Filename h \<noteq> []" "length (fh_Filename h) \<le> MaxFilenameBytes" "\<not> has_control (fh_Filename h)"
  using assms by (auto simp: ValidateFile_def Let_def split: if_splits)

lemma extract_each_result:
  "extract_each L fhs = Inr files \<Longrightarrow> length files = length fhs \<and>
   (\<forall>f\<in>set files. 0 \<le> uf_Size f \<and> uf_Size f \<le> MaxFileSize
      \<and> (\<exists>h. uf_Filename f = safeFilename h \<and> to_lower L (path_ext h) \<in> set allowedExtensions
            \<and> uf_ContentType f \<in> set (allowedContentTypes (to_lower L (path_ext h)))))"
proof (induction L fhs arbitrary: files rule: extract_each.induct)
  case (2 L field header rest)
  from "2.prems" obtain f fs where f: "extract_file L field header = Inr f" "extract_each L rest = Inr fs" "files = f # fs"
    by (auto simp: rbind_Inr_iff)
  from f(1) have "ValidateFile L header = Inr ()" "uf_Size f = fh_Size header"
    "uf_Filename f = safeFilename (fh_Filename header)"
    "uf_ContentType f \<in> set (allowedContentTypes (to_lower L (path_ext (fh_Filename header))))"
    by (auto simp: extract_file_def rbind_Inr_iff DetectFileContentType_def Let_def split: sum.splits option.splits if_splits)
  with ValidateFile_result [OF this(1)] 2 f(2,3) show ?case by auto
qed simp

lemma check_fields_total: "check_fields fs n = Inr m \<Longrightarrow> m = n + length (concat (map snd fs))"
  by (induction fs n rule: check_fields.induct) (auto split: if_splits)

lemma length_flattened: "length (concat (map (\<lambda>(field, headers). map (\<lambda>h. (field, h)) headers) fs)) = length (concat (map snd fs))"
  by (induction fs) auto

lemma ExtractFiles_result:
  assumes "ExtractFiles L form_files = Inr files"
  shows "length files \<le> MaxTotalFiles" "\<forall>f\<in>set files. 0 \<le> uf_Size f \<and> uf_Size f \<le> MaxFileSize"
  using assms extract_each_result check_fields_total [of form_files 0] length_flattened [of form_files]
  by (auto simp: ExtractFiles_def rbind_Inr_iff split: if_splits dest!: extract_each_result)

end
