(* ===== verification/Submission_Laws.thy ===== *)
theory Submission_Laws
  imports Submissions Upload_Laws
begin

text \<open>
  What the operations of \<open>Submissions\<close> promise: the database stays well-formed also when they
  fail, a spam submission is stored without files and events, the quota bounds what is stored,
  each enabled channel gets exactly one event, deletion removes exactly the rows of its
  target, the pages of the inbox partition the matching submissions.
\<close>

section \<open>Event queues\<close>

text \<open>
  What the code that is generic over the event model relies on: a write of the table is read
  back, and an update that keeps the references keeps the database well-formed.
\<close>

locale event_queue =
  fixes T :: "('e delivery_event_scheme) event_table"
    and extra_ref :: "'e delivery_event_scheme \<Rightarrow> nat option"
  assumes get_put: "et_get T (et_put T rows d) = rows"
    and keys: "db_ok d \<Longrightarrow> distinct (map ev_ID (et_get T d))"
    and put_ok: "db_ok d \<Longrightarrow> (\<And>e. ev_ID (f e) = ev_ID e) \<Longrightarrow> (\<And>e. ev_SubmissionID (f e) = ev_SubmissionID e)
      \<Longrightarrow> (\<And>e. extra_ref (f e) = extra_ref e) \<Longrightarrow> db_ok (et_put T (update_where p f (et_get T d)) d)"
begin

lemma update_result:
  assumes "update_events T p f w = (Inr n, w')"
  shows "et_get T (db w') = update_where p f (et_get T (db w))" "n = count_where p (et_get T (db w))"
    "db w' = et_put T (update_where p f (et_get T (db w))) (db w)"
proof -
  have "Inr (count_where p (et_get T (db w)), et_put T (update_where p f (et_get T (db w))) (db w)) = (Inr (n, db w') :: err + nat \<times> database)"
    using stmt_InrD [OF assms [unfolded update_events_def]] .
  then show "et_get T (db w') = update_where p f (et_get T (db w))" "n = count_where p (et_get T (db w))"
    "db w' = et_put T (update_where p f (et_get T (db w))) (db w)"
    by (auto simp: get_put dest!: sym [of _ "db w'"])
qed

lemma keeps_update:
  "(\<And>e. ev_ID (f e) = ev_ID e) \<Longrightarrow> (\<And>e. ev_SubmissionID (f e) = ev_SubmissionID e) \<Longrightarrow>
   (\<And>e. extra_ref (f e) = extra_ref e) \<Longrightarrow> keeps db_ok (update_events T p f)"
  unfolding update_events_def by (rule keeps_stmt) (auto intro: put_ok)

lemma retry_result:
  assumes "retryDeliveryEvent T i w = (Inr (), w')"
  shows "\<exists>now. et_get T (db w') = update_where (\<lambda>e. ev_ID e = i \<and> ev_Status e = Failed) (retried now) (et_get T (db w))
    \<and> (\<exists>e\<in>set (et_get T (db w)). ev_ID e = i \<and> ev_Status e = Failed)"
proof -
  let ?p = "\<lambda>e. ev_ID e = i \<and> ev_Status e = Failed"
  from assms obtain now w1 where now: "time_now w = (Inr now, w1)" and rest: "with_retry
       (bnd (update_events T ?p (retried now)) (\<lambda>n. guard (n \<noteq> 0) (Sentinel ErrRecordNotFound))) w1 = (Inr (), w')"
    unfolding retryDeliveryEvent_def by (rule bnd_InrE)
  from rest obtain w2 w3 where r: "db w2 = db w1" "db w' = db w3"
    "bnd (update_events T ?p (retried now)) (\<lambda>n. guard (n \<noteq> 0) (Sentinel ErrRecordNotFound)) w2 = (Inr (), w3)"
    by (rule with_retry_InrE)
  from r(3) obtain n w4 where u: "update_events T ?p (retried now) w2 = (Inr n, w4)" "n \<noteq> 0" "w3 = w4"
    by (auto elim!: bnd_InrE)
  have "db w1 = db w" using readsD [OF reads_time_now now] .
  with update_result [OF u(1)] u(2,3) r(1,2) show ?thesis by (auto simp: count_where_0)
qed

end

interpretation hook_queue: event_queue webhook_table "\<lambda>_ :: delivery_event. None"
proof unfold_locales
  show "et_get webhook_table (et_put webhook_table rows d) = rows" for rows d
    by (simp add: webhook_table_def)
  show "db_ok d \<Longrightarrow> distinct (map ev_ID (et_get webhook_table d))" for d
    by (auto simp: webhook_table_def db_ok_defs dest: keys_ok_distinct)
  show "db_ok (et_put webhook_table (update_where p f (et_get webhook_table d)) d)"
    if "db_ok d" "\<And>e. ev_ID (f e) = ev_ID e" "\<And>e. ev_SubmissionID (f e) = ev_SubmissionID e"
    for d p and f :: "delivery_event \<Rightarrow> delivery_event"
    using update_webhook_events_ok [OF that] by (simp add: webhook_table_def)
qed

interpretation email_queue: event_queue email_table ev_EmailDeliveryID
proof unfold_locales
  show "et_get email_table (et_put email_table rows d) = rows" for rows d
    by (simp add: email_table_def)
  show "db_ok d \<Longrightarrow> distinct (map ev_ID (et_get email_table d))" for d
    by (auto simp: email_table_def db_ok_defs dest: keys_ok_distinct)
  show "db_ok (et_put email_table (update_where p f (et_get email_table d)) d)"
    if "db_ok d" "\<And>e. ev_ID (f e) = ev_ID e" "\<And>e. ev_SubmissionID (f e) = ev_SubmissionID e"
      "\<And>e. ev_EmailDeliveryID (f e) = ev_EmailDeliveryID e"
    for d p and f :: "email_event \<Rightarrow> email_event"
    using update_email_events_ok [OF that] by (simp add: email_table_def)
qed

section \<open>The database stays well-formed\<close>

lemma reads_checkUploadQuota [tx_keeps]: "reads (checkUploadQuota rs m)"
  unfolding checkUploadQuota_def by (intro tx_keeps)

lemma keeps_createDeliveryEvents [tx_keeps]: "keeps db_ok (createDeliveryEvents lf i)"
  unfolding createDeliveryEvents_def by (intro keeps_read)

lemma keeps_submission_tx: "keeps db_ok (submission_tx lf s rs m)"
  unfolding submission_tx_def by (intro keeps_read keeps_reads [OF reads_checkUploadQuota] keeps_create_submission_row
      keeps_createDeliveryEvents)

lemma reads_stage_submission_files [tx_keeps]: "reads (stage_submission_files L dd b fs)"
  unfolding stage_submission_files_def by (intro tx_keeps)

lemma always_prod: "(\<And>a b. always P (f a b)) \<Longrightarrow> always P (case v of (a, b) \<Rightarrow> f a b)"
  by (cases v) simp

lemma CreateSubmissionWithLimits_ok: "always db_ok (CreateSubmissionWithLimits L lf p ua dd fs m)"
  unfolding CreateSubmissionWithLimits_def Let_def
  by (intro always_prod always_rules always_with_retry keeps_submission_tx always_reads [OF reads_fail]
      always_reads [OF reads_ret] always_reads [OF reads_stage_submission_files] always_reads [OF reads_finish])

lemma reads_get_staged [tx_keeps]: "reads get_staged"
  by (simp add: reads_def get_staged_def)

lemma reads_set_staged [tx_keeps]: "reads (set_staged s)"
  by (simp add: reads_def set_staged_def)

lemma reads_finish_previous [tx_keeps]: "reads (finish_previous L)"
  unfolding finish_previous_def by (intro tx_keeps)

lemma reads_stage_into_variable [tx_keeps]: "reads (stage_into_variable L dd what fs)"
  unfolding stage_into_variable_def by (intro tx_keeps)

lemmas deletion_reads = reads_finish_previous [THEN keeps_reads] reads_stage_into_variable [THEN keeps_reads]
  reads_first [THEN keeps_reads]

lemma keeps_delete_form_tx: "keeps db_ok (delete_form_tx L dd i)"
  unfolding delete_form_tx_def by (intro tx_keeps deletion_reads keeps_deleteFormRecords)

lemma keeps_delete_submission_tx: "keeps db_ok (delete_submission_tx L dd i)"
  unfolding delete_submission_tx_def
  by (intro tx_keeps deletion_reads keeps_exec delete_rows_ok keeps_stmt) (auto intro: delete_submissions_ok)

lemma delete_with_uploads_always: "keeps P tx \<Longrightarrow> always P (delete_with_uploads L what tx)"
  unfolding delete_with_uploads_def
  by (intro always_bnd [OF always_reads [OF reads_set_staged]] always_catch [OF always_with_retry])
    (simp, intro always_reads tx_keeps)

lemma DeleteForm_ok: "always db_ok (DeleteForm L dd i)"
  unfolding DeleteForm_def by (intro delete_with_uploads_always keeps_delete_form_tx)

lemma DeleteSubmission_ok: "always db_ok (DeleteSubmission L dd i)"
  unfolding DeleteSubmission_def by (intro delete_with_uploads_always keeps_delete_submission_tx)

lemma retried_keys [simp]:
  "ev_ID (retried now e) = ev_ID e" "ev_SubmissionID (retried now e) = ev_SubmissionID e"
  by (simp_all add: retried_def)

lemma retried_delivery [simp]: "ev_EmailDeliveryID (retried now e) = ev_EmailDeliveryID e"
  by (simp add: retried_def)

lemma RetryWebhookEvent_ok: "always db_ok (RetryWebhookEvent i)"
  unfolding RetryWebhookEvent_def retryDeliveryEvent_def
  by (intro always_rules always_reads [OF reads_time_now] always_with_retry keeps_bnd hook_queue.keeps_update keeps_guard) simp_all

lemma RetryEmailEvent_ok: "always db_ok (RetryEmailEvent i)"
  unfolding RetryEmailEvent_def retryDeliveryEvent_def
  by (intro always_rules always_reads [OF reads_time_now] always_with_retry keeps_bnd email_queue.keeps_update keeps_guard) simp_all

section \<open>The honeypot\<close>

lemma honeypot_fields_payload: "snd (honeypot_fields fs p b) = filter (\<lambda>(k, _). k \<notin> set fs) p"
proof (induction fs p b rule: honeypot_fields.induct)
  case (2 field rest payload spam)
  show ?case
  proof (cases "map_of payload field")
    case None
    then have "\<forall>x\<in>set payload. fst x \<noteq> field" by (auto simp: map_of_eq_None_iff image_iff)
    with 2(1) [OF None] None show ?thesis by (auto intro!: filter_cong)
  next
    case (Some v)
    with 2(2) show ?thesis by (auto intro!: filter_cong)
  qed
qed (simp add: case_prod_beta)

lemma consumeHoneypot_payload:
  "snd (consumeHoneypot p) = filter (\<lambda>(k, _). k \<noteq> HoneypotField \<and> k \<noteq> legacyHoneypotField) p"
  by (simp add: consumeHoneypot_def honeypot_fields_payload del: honeypot_fields.simps)

lemma consumeHoneypot_spam:
  "fst (consumeHoneypot p) \<longleftrightarrow>
     (\<exists>v. map_of p HoneypotField = Some v \<and> json_present v) \<or> (\<exists>v. map_of p legacyHoneypotField = Some v \<and> json_present v)"
proof -
  have ne: "HoneypotField \<noteq> legacyHoneypotField" by (simp add: HoneypotField_def legacyHoneypotField_def)
  have "map_of (filter (\<lambda>(k, _). k \<noteq> HoneypotField) p) legacyHoneypotField = map_of p legacyHoneypotField"
    using ne by (induction p) auto
  then show ?thesis
    by (auto simp: consumeHoneypot_def split: option.splits)
qed

section \<open>The upload quota\<close>

lemma fold_wrap_sum:
  assumes "\<forall>r\<in>set rs. 0 \<le> sf_Size r" "0 \<le> n" "n + sum_list (map sf_Size rs) < 2 ^ 63"
  shows "fold (\<lambda>r n. wrap64 (n + sf_Size r)) rs n = n + sum_list (map sf_Size rs)"
  using assms
proof (induction rs arbitrary: n)
  case (Cons r rs)
  have "0 \<le> sum_list (map sf_Size rs)" using Cons.prems(1) by (auto intro!: sum_list_nonneg)
  with Cons.prems have r: "in_int64 (n + sf_Size r)" "0 \<le> n + sf_Size r" by (simp_all add: in_int64_def)
  from r(1) have "wrap64 (n + sf_Size r) = n + sf_Size r" by (rule wrap64_id)
  with Cons.IH [of "n + sf_Size r"] Cons.prems r show ?case by (simp add: add.assoc)
qed simp

lemma checkUploadQuota_bound:
  assumes "checkUploadQuota rs m w = (Inr (), w')" "rs \<noteq> []" "0 < m" "m < 2 ^ 63"
    and "\<forall>r\<in>set rs. 0 \<le> sf_Size r" "sum_list (map sf_Size rs) < 2 ^ 63"
  shows "sum_list (map sf_Size (submission_files (db w))) + sum_list (map sf_Size rs) \<le> m"
proof -
  let ?s = "sum_list (map sf_Size rs)"
  have "0 \<le> ?s" using assms(5) by (auto intro!: sum_list_nonneg)
  with assms(3,4,6) have "in_int64 (m - ?s)" by (simp add: in_int64_def)
  then have w: "wrap64 (m - ?s) = m - ?s" by (rule wrap64_id)
  have f: "fold (\<lambda>r n. wrap64 (n + sf_Size r)) rs 0 = ?s"
    using fold_wrap_sum [OF assms(5), of 0] assms(6) by simp
  from assms(1-3) have "\<not> sum_list (map sf_Size (submission_files (db w))) > wrap64 (m - fold (\<lambda>r n. wrap64 (n + sf_Size r)) rs 0)"
    by (auto simp: checkUploadQuota_def Let_def elim!: bnd_InrE query_InrE)
  then show ?thesis unfolding f w by simp
qed

section \<open>What storing a submission leaves in the database\<close>

lemma insert_event_effects:
  "insert_webhook_event e d = Inr (i, d') \<Longrightarrow> d' = (take_id TWebhookEvents d)\<lparr>webhook_events := webhook_events d @ [event_rekey i e]\<rparr>"
  "insert_email_event m d = Inr (j, d'') \<Longrightarrow> d'' = (take_id TEmailEvents d)\<lparr>email_events := email_events d @ [event_rekey j m]\<rparr>"
  by (auto simp: insert_webhook_event_def insert_email_event_def Let_def split: if_splits)

definition fresh_event :: "nat \<Rightarrow> 'e delivery_event_scheme \<Rightarrow> bool" where
  "fresh_event submissionID e \<longleftrightarrow>
     ev_SubmissionID e = submissionID \<and> ev_Status e = Pending \<and> ev_AttemptCount e = 0 \<and> ev_NextAttemptAt e \<noteq> None"

lemma each_email_events:
  assumes "each (\<lambda>e. if wants_event lf e
               then bnd (create_email_event (NewEmailEvent i now [ed_ID e])) (\<lambda>_. ret ())
               else ret ()) es w = (Inr u, w')"
  shows "\<exists>news. email_events (db w') = email_events (db w) @ news
    \<and> map ev_EmailDeliveryID news = map (\<lambda>e. Some (ed_ID e)) (filter (wants_event lf) es)
    \<and> (\<forall>e\<in>set news. fresh_event i e)
    \<and> webhook_events (db w') = webhook_events (db w) \<and> submission_files (db w') = submission_files (db w)
    \<and> submissions (db w') = submissions (db w)"
  using assms
proof (induction es arbitrary: w)
  case (Cons e es)
  show ?case
  proof (cases "wants_event lf e")
    case False
    with Cons show ?thesis by (auto elim!: bnd_InrE)
  next
    case True
    with Cons.prems obtain w1 u1 where one: "create_email_event (NewEmailEvent i now [ed_ID e]) w = (Inr u1, w1)"
      and rest: "each (\<lambda>e. if wants_event lf e
               then bnd (create_email_event (NewEmailEvent i now [ed_ID e])) (\<lambda>_. ret ())
               else ret ()) es w1 = (Inr u, w')"
      by (auto elim!: bnd_InrE)
    from one obtain t w2 where t: "time_now w = (Inr t, w2)"
      "insert_email_event ((NewEmailEvent i now [ed_ID e])\<lparr>ev_CreatedAt := t\<rparr>) (db w2) = Inr (u1, db w1)"
      unfolding create_email_event_def by (auto elim!: bnd_InrE dest!: stmt_InrD)
    have d1: "db w1 = (take_id TEmailEvents (db w))\<lparr>email_events := email_events (db w) @ [event_rekey u1 ((NewEmailEvent i now [ed_ID e])\<lparr>ev_CreatedAt := t\<rparr>)]\<rparr>"
      using insert_event_effects(2) [OF t(2)] readsD [OF reads_time_now t(1)] by simp
    from Cons.IH [OF rest] obtain news where n: "email_events (db w') = email_events (db w1) @ news"
      "map ev_EmailDeliveryID news = map (\<lambda>e. Some (ed_ID e)) (filter (wants_event lf) es)"
      "\<forall>e\<in>set news. fresh_event i e" "webhook_events (db w') = webhook_events (db w1)"
      "submission_files (db w') = submission_files (db w1)" "submissions (db w') = submissions (db w1)" by blast
    show ?thesis
      by (rule exI [of _ "event_rekey u1 ((NewEmailEvent i now [ed_ID e])\<lparr>ev_CreatedAt := t\<rparr>) # news"])
        (use True n d1 in \<open>simp add: NewEmailEvent_def fresh_event_def row_simps\<close>)
  qed
qed simp

lemma createDeliveryEvents_effect:
  assumes "createDeliveryEvents lf i w = (Inr u, w')"
  shows "\<exists>hooks mails. webhook_events (db w') = webhook_events (db w) @ hooks
    \<and> length hooks = (if wants_hook lf then 1 else 0) \<and> (\<forall>e\<in>set hooks. fresh_event i e)
    \<and> email_events (db w') = email_events (db w) @ mails
    \<and> map ev_EmailDeliveryID mails = map (\<lambda>e. Some (ed_ID e)) (filter (wants_event lf) (lf_EmailDeliveries lf))
    \<and> (\<forall>e\<in>set mails. fresh_event i e)
    \<and> submission_files (db w') = submission_files (db w) \<and> submissions (db w') = submissions (db w)"
proof -
  from assms obtain now w1 w2 u2 where s: "time_now w = (Inr now, w1)"
    "(if wants_hook lf then bnd (create_webhook_event (NewWebhookEvent i now)) (\<lambda>_. ret ()) else ret ()) w1 = (Inr u2, w2)"
    "each (\<lambda>e. if wants_event lf e then bnd (create_email_event (NewEmailEvent i now [ed_ID e])) (\<lambda>_. ret ()) else ret ())
       (lf_EmailDeliveries lf) w2 = (Inr u, w')"
    unfolding createDeliveryEvents_def by (auto elim!: bnd_InrE)
  have d1: "db w1 = db w" using readsD [OF reads_time_now s(1)] .
  have hook: "\<exists>hooks. webhook_events (db w2) = webhook_events (db w) @ hooks
    \<and> length hooks = (if wants_hook lf then 1 else 0) \<and> (\<forall>e\<in>set hooks. fresh_event i e)
    \<and> email_events (db w2) = email_events (db w) \<and> submission_files (db w2) = submission_files (db w)
    \<and> submissions (db w2) = submissions (db w)"
  proof (cases "wants_hook lf")
    case True
    with s(2) obtain t w3 k where t: "time_now w1 = (Inr t, w3)"
      "insert_webhook_event ((NewWebhookEvent i now)\<lparr>ev_CreatedAt := t\<rparr>) (db w3) = Inr (k, db w2)"
      unfolding create_webhook_event_def by (auto elim!: bnd_InrE dest!: stmt_InrD)
    have d2: "db w2 = (take_id TWebhookEvents (db w))\<lparr>webhook_events := webhook_events (db w) @ [event_rekey k ((NewWebhookEvent i now)\<lparr>ev_CreatedAt := t\<rparr>)]\<rparr>"
      using insert_event_effects(1) [OF t(2)] readsD [OF reads_time_now t(1)] d1 by simp
    show ?thesis
      by (rule exI [of _ "[event_rekey k ((NewWebhookEvent i now)\<lparr>ev_CreatedAt := t\<rparr>)]"])
        (use True d2 in \<open>simp add: NewWebhookEvent_def fresh_event_def row_simps\<close>)
  qed (use s(2) d1 in auto)
  then obtain hooks where h: "webhook_events (db w2) = webhook_events (db w) @ hooks"
    "length hooks = (if wants_hook lf then 1 else 0)" "\<forall>e\<in>set hooks. fresh_event i e"
    "email_events (db w2) = email_events (db w)" "submission_files (db w2) = submission_files (db w)"
    "submissions (db w2) = submissions (db w)" by blast
  from each_email_events [OF s(3)] obtain mails where m: "email_events (db w') = email_events (db w2) @ mails"
    "map ev_EmailDeliveryID mails = map (\<lambda>e. Some (ed_ID e)) (filter (wants_event lf) (lf_EmailDeliveries lf))"
    "\<forall>e\<in>set mails. fresh_event i e" "webhook_events (db w') = webhook_events (db w2)"
    "submission_files (db w') = submission_files (db w2)" "submissions (db w') = submissions (db w2)" by blast
  show ?thesis by (rule exI [of _ hooks], rule exI [of _ mails]) (use h m in simp)
qed

lemma insert_submission_effect:
  "insert_submission s d = Inr (i, d') \<Longrightarrow> d' = (take_id TSubmissions d)\<lparr>submissions := submissions d @ [submission_rekey i s]\<rparr>"
  "insert_file f d = Inr (j, d'') \<Longrightarrow> d'' = (take_id TFiles d)\<lparr>submission_files := submission_files d @ [file_rekey j f]\<rparr>"
  by (auto simp: insert_submission_def insert_file_def Let_def split: if_splits)

lemma each_insert_files:
  assumes "each (\<lambda>r. bnd (stmt (insert_file (r\<lparr>sf_SubmissionID := i\<rparr>))) (\<lambda>_. ret ())) rs w = (Inr u, w')"
  shows "\<exists>ids. length ids = length rs
    \<and> submission_files (db w') = submission_files (db w) @ map2 (\<lambda>r k. r\<lparr>sf_SubmissionID := i, sf_ID := k\<rparr>) rs ids
    \<and> submissions (db w') = submissions (db w) \<and> webhook_events (db w') = webhook_events (db w)
    \<and> email_events (db w') = email_events (db w)"
  using assms
proof (induction rs arbitrary: w)
  case (Cons r rs)
  then obtain k w1 where one: "insert_file (r\<lparr>sf_SubmissionID := i\<rparr>) (db w) = Inr (k, db w1)"
    and rest: "each (\<lambda>r. bnd (stmt (insert_file (r\<lparr>sf_SubmissionID := i\<rparr>))) (\<lambda>_. ret ())) rs w1 = (Inr u, w')"
    by (auto elim!: bnd_InrE dest!: stmt_InrD)
  from Cons.IH [OF rest] obtain ids where "length ids = length rs"
    "submission_files (db w') = submission_files (db w1) @ map2 (\<lambda>r k. r\<lparr>sf_SubmissionID := i, sf_ID := k\<rparr>) rs ids"
    "submissions (db w') = submissions (db w1)" "webhook_events (db w') = webhook_events (db w1)"
    "email_events (db w') = email_events (db w1)" by blast
  with insert_submission_effect(2) [OF one] show ?case
    by (intro exI [of _ "k # ids"]) (simp add: row_simps)
qed simp

lemma create_submission_row_effect:
  assumes "create_submission_row s w = (Inr row, w')"
  shows "submissions (db w') = submissions (db w) @ [row]" "sb_FormID row = sb_FormID s" "sb_IsSpam row = sb_IsSpam s"
    "sb_DataJSON row = sb_DataJSON s" "sb_UserAgent row = sb_UserAgent s"
    "submission_files (db w') = submission_files (db w)" "webhook_events (db w') = webhook_events (db w)"
    "email_events (db w') = email_events (db w)"
proof -
  from assms obtain now w1 i where s: "time_now w = (Inr now, w1)"
    "insert_submission (s\<lparr>sb_CreatedAt := now\<rparr>) (db w1) = Inr (i, db w')" "row = s\<lparr>sb_ID := i, sb_CreatedAt := now\<rparr>"
    unfolding create_submission_row_def by (auto elim!: bnd_InrE dest!: stmt_InrD)
  note e = insert_submission_effect(1) [OF s(2)] readsD [OF reads_time_now s(1)]
  show "submissions (db w') = submissions (db w) @ [row]" "sb_FormID row = sb_FormID s" "sb_IsSpam row = sb_IsSpam s"
    "sb_DataJSON row = sb_DataJSON s" "sb_UserAgent row = sb_UserAgent s"
    "submission_files (db w') = submission_files (db w)" "webhook_events (db w') = webhook_events (db w)"
    "email_events (db w') = email_events (db w)"
    using e s(3) by (simp_all add: row_simps)
qed

lemma submission_tx_effect:
  assumes "submission_tx lf s records m w = (Inr row, w')"
  shows "\<exists>hooks mails fs. submissions (db w') = submissions (db w) @ [row]
    \<and> sb_FormID row = sb_FormID s \<and> sb_IsSpam row = sb_IsSpam s \<and> sb_DataJSON row = sb_DataJSON s
    \<and> webhook_events (db w') = webhook_events (db w) @ hooks
    \<and> length hooks = (if \<not> sb_IsSpam s \<and> wants_hook lf then 1 else 0) \<and> (\<forall>e\<in>set hooks. fresh_event (sb_ID row) e)
    \<and> email_events (db w') = email_events (db w) @ mails
    \<and> map ev_EmailDeliveryID mails =
        (if sb_IsSpam s then [] else map (\<lambda>e. Some (ed_ID e)) (filter (wants_event lf) (lf_EmailDeliveries lf)))
    \<and> (\<forall>e\<in>set mails. fresh_event (sb_ID row) e)
    \<and> submission_files (db w') = submission_files (db w) @ fs
    \<and> map sf_Size fs = (if sb_IsSpam s then [] else map sf_Size records)
    \<and> map sf_StoragePath fs = (if sb_IsSpam s then [] else map sf_StoragePath records)
    \<and> (\<forall>f\<in>set fs. sf_SubmissionID f = sb_ID row)"
proof -
  from assms obtain fid w1 w2 w3 w4 u u2 row' where s: "query (\<lambda>d. case find (\<lambda>f. fm_ID f = fm_ID (lf_Form lf)) (forms d) of None \<Rightarrow> 0 | Some f \<Rightarrow> fm_ID f) w = (Inr fid, w1)"
    "guard (fid \<noteq> 0) (Sentinel ErrRecordNotFound) w1 = (Inr u, w2)"
    "checkUploadQuota records m w2 = (Inr u2, w3)" "create_submission_row s w3 = (Inr row', w4)"
    and tail: "(if sb_IsSpam s then ret row'
     else bnd (each (\<lambda>r. bnd (stmt (insert_file (r\<lparr>sf_SubmissionID := sb_ID row'\<rparr>))) (\<lambda>_. ret ())) records) (\<lambda>_.
          bnd (createDeliveryEvents lf (sb_ID row')) (\<lambda>_. ret row'))) w4 = (Inr row, w')"
    unfolding submission_tx_def by (elim bnd_InrE) (rule that)
  have "row' = row" using tail by (auto elim!: bnd_InrE split: if_splits)
  note s = s [unfolded this] and tail = tail [unfolded this]
  have d: "db w3 = db w"
    using readsD [OF reads_query s(1)] readsD [OF reads_guard s(2)] readsD [OF reads_checkUploadQuota s(3)] by simp
  note row = create_submission_row_effect [OF s(4)]
  show ?thesis
  proof (cases "sb_IsSpam s")
    case True
    with tail have "w' = w4" by simp
    with True row d show ?thesis by (intro exI [of _ "[]"]) simp
  next
    case False
    with tail obtain u3 u4 w5 where f: "each (\<lambda>r. bnd (stmt (insert_file (r\<lparr>sf_SubmissionID := sb_ID row\<rparr>))) (\<lambda>_. ret ())) records w4 = (Inr u3, w5)"
      "createDeliveryEvents lf (sb_ID row) w5 = (Inr u4, w')"
      by (auto elim!: bnd_InrE)
    from each_insert_files [OF f(1)] obtain ids where i: "length ids = length records"
      "submission_files (db w5) = submission_files (db w4) @ map2 (\<lambda>r k. r\<lparr>sf_SubmissionID := sb_ID row, sf_ID := k\<rparr>) records ids"
      "submissions (db w5) = submissions (db w4)" "webhook_events (db w5) = webhook_events (db w4)"
      "email_events (db w5) = email_events (db w4)" by blast
    from createDeliveryEvents_effect [OF f(2)] obtain hooks mails where c:
      "webhook_events (db w') = webhook_events (db w5) @ hooks" "length hooks = (if wants_hook lf then 1 else 0)"
      "\<forall>e\<in>set hooks. fresh_event (sb_ID row) e" "email_events (db w') = email_events (db w5) @ mails"
      "map ev_EmailDeliveryID mails = map (\<lambda>e. Some (ed_ID e)) (filter (wants_event lf) (lf_EmailDeliveries lf))"
      "\<forall>e\<in>set mails. fresh_event (sb_ID row) e" "submission_files (db w') = submission_files (db w5)"
      "submissions (db w') = submissions (db w5)" by blast
    let ?fs = "map2 (\<lambda>r k. r\<lparr>sf_SubmissionID := sb_ID row, sf_ID := k\<rparr>) records ids"
    have sz: "map sf_Size ?fs = map sf_Size records" "map sf_StoragePath ?fs = map sf_StoragePath records"
      using i(1) by (induction records ids rule: list_induct2') auto
    have "\<forall>f\<in>set ?fs. sf_SubmissionID f = sb_ID row" by (auto simp: set_zip)
    then show ?thesis
      by (intro exI [of _ hooks] exI [of _ mails] exI [of _ ?fs]) (use False row d i c sz in simp)
  qed
qed

text \<open>A successful call is one committed transaction on the records it staged.\<close>

lemma CreateSubmission_steps:
  assumes "CreateSubmissionWithLimits L lf payload ua dd files m w = (Inr row, w')"
  obtains records st w1 w2 w3 where
    "stage_submission_files L dd (fst (consumeHoneypot payload)) files w = (Inr (records, st), w1)"
    "db w2 = db w" "db w' = db w3"
    "submission_tx lf \<lparr>sb_ID = 0, sb_FormID = fm_ID (lf_Form lf),
        sb_DataJSON = lib_json_payload_text L (snd (consumeHoneypot payload)), sb_UserAgent = ua,
        sb_IsSpam = fst (consumeHoneypot payload), sb_CreatedAt = 0\<rparr> records m w2 = (Inr row, w3)"
    "fst (consumeHoneypot payload) \<or> snd (consumeHoneypot payload) \<noteq> [] \<or> files \<noteq> []"
proof -
  obtain spam p where hp: "consumeHoneypot payload = (spam, p)" by (cases "consumeHoneypot payload")
  let ?s = "\<lparr>sb_ID = 0, sb_FormID = fm_ID (lf_Form lf), sb_DataJSON = lib_json_payload_text L p,
      sb_UserAgent = ua, sb_IsSpam = spam, sb_CreatedAt = 0\<rparr>"
  have ne: "spam \<or> p \<noteq> [] \<or> files \<noteq> []"
    using assms hp by (auto simp: CreateSubmissionWithLimits_def)
  then have "\<not> (\<not> spam \<and> p = [] \<and> files = [])" by blast
  with assms obtain v w1 where st: "stage_submission_files L dd spam files w = (Inr v, w1)"
    and run: "(case v of (records, st) \<Rightarrow> catch (with_retry (submission_tx lf ?s records m)) (\<lambda>wrote.
            catch (finish L st) (\<lambda>cleanup.
              case wrote of Inl e \<Rightarrow> fail (submission_error e cleanup) | Inr row \<Rightarrow> ret row))) w1 = (Inr row, w')"
    unfolding CreateSubmissionWithLimits_def hp Let_def prod.case by (auto elim!: bnd_InrE split: if_splits)
  obtain records stg where v: "v = (records, stg)" by (cases v)
  obtain r w2 where tx: "with_retry (submission_tx lf ?s records m) w1 = (r, w2)" by fastforce
  obtain c w3 where fin: "finish L stg w2 = (c, w3)" by fastforce
  from run have r: "r = Inr row" "w' = w3"
    by (auto simp: v catch_apply tx fin fail_apply ret_apply split: sum.splits)
  from tx r obtain w4 w5 where t: "db w4 = db w1" "submission_tx lf ?s records m w4 = (Inr row, w5)" "db w2 = db w5"
    by (auto elim: with_retry_InrE)
  have "db w1 = db w" using readsD [OF reads_stage_submission_files st] .
  moreover have "db w3 = db w2" using readsD [OF reads_finish fin] .
  ultimately show ?thesis using that [of records stg w1 w4 w5] st v t r ne by (simp add: hp)
qed

lemma CreateSubmission_result:
  assumes "CreateSubmissionWithLimits L lf payload ua dd files m w = (Inr row, w')"
  shows "\<exists>hooks mails fs. submissions (db w') = submissions (db w) @ [row]
    \<and> sb_FormID row = fm_ID (lf_Form lf) \<and> sb_IsSpam row = fst (consumeHoneypot payload)
    \<and> sb_DataJSON row = lib_json_payload_text L (snd (consumeHoneypot payload))
    \<and> webhook_events (db w') = webhook_events (db w) @ hooks
    \<and> length hooks = (if \<not> sb_IsSpam row \<and> wants_hook lf then 1 else 0)
    \<and> email_events (db w') = email_events (db w) @ mails
    \<and> map ev_EmailDeliveryID mails =
        (if sb_IsSpam row then [] else map (\<lambda>e. Some (ed_ID e)) (filter (wants_event lf) (lf_EmailDeliveries lf)))
    \<and> (\<forall>e\<in>set hooks. fresh_event (sb_ID row) e) \<and> (\<forall>e\<in>set mails. fresh_event (sb_ID row) e)
    \<and> submission_files (db w') = submission_files (db w) @ fs
    \<and> (sb_IsSpam row \<longrightarrow> fs = []) \<and> (\<forall>f\<in>set fs. sf_SubmissionID f = sb_ID row)"
proof -
  from assms obtain records w2 w3 where t: "db w2 = db w" "db w' = db w3"
    "submission_tx lf \<lparr>sb_ID = 0, sb_FormID = fm_ID (lf_Form lf),
        sb_DataJSON = lib_json_payload_text L (snd (consumeHoneypot payload)), sb_UserAgent = ua,
        sb_IsSpam = fst (consumeHoneypot payload), sb_CreatedAt = 0\<rparr> records m w2 = (Inr row, w3)"
    by (rule CreateSubmission_steps)
  show ?thesis using submission_tx_effect [OF t(3)] unfolding t(1,2) by fastforce
qed

lemma fs_op_result: "fs_op f w = (Inr x, w') \<Longrightarrow> f (disk w) = Inr (x, disk w')"
  by (auto simp: fs_op_def split: list.splits option.splits sum.splits prod.splits)

lemma save_each_sizes:
  "save_each L wd sd i files w = (Inr records, w') \<Longrightarrow>
   map sf_Size records = map (\<lambda>f. int (length (uf_Data f))) files"
proof (induction files arbitrary: w w' records)
  case (Cons f files)
  from Cons.prems obtain name w2 n w3 rs w4 where s:
    "fs_op (write_file (path_join wd name) (uf_Data f)) w2 = (Inr n, w3)"
    "save_each L wd sd i files w3 = (Inr rs, w4)"
    "map sf_Size records = int n # map sf_Size rs"
    by (auto elim!: bnd_InrE)
  from fs_op_result [OF s(1)] have "n = length (uf_Data f)" by (simp add: write_file_def)
  with s(3) Cons.IH [OF s(2)] show ?case by simp
qed simp

lemma stageUnassignedFiles_sizes:
  assumes "stageUnassignedFiles L dd files w = (Inr (records, st), w')"
  shows "map sf_Size records = map (\<lambda>f. int (length (uf_Data f))) files"
proof -
  have on: "on_error m c w = (Inr x, w') \<Longrightarrow> m w = (Inr x, w')" for m c and x :: "submission_file list" and w w'
    by (auto simp: on_error_def catch_apply fail_apply split: prod.splits sum.splits)
  from assms obtain token w1 w2 where "on_error (saveFilesAt L (path_join (path_join uploadStagingRoot token) (path_join ''uploads'' token))
      (path_join ''uploads'' token) 0 files) (deleteUploadPath L dd (path_join uploadStagingRoot token)) w1 = (Inr records, w2)"
    unfolding stageUnassignedFiles_def Let_def by (auto elim!: bnd_InrE)
  from on [OF this] show ?thesis
    unfolding saveFilesAt_def by (auto elim!: bnd_InrE dest!: on save_each_sizes split: if_splits)
qed

text \<open>What is stored never passes the limit, when the upload brings files.\<close>

lemma CreateSubmission_quota:
  assumes "CreateSubmissionWithLimits L lf payload ua dd files m w = (Inr row, w')"
    and "0 < m" "m < 2 ^ 63" "sum_list (map (\<lambda>f. int (length (uf_Data f))) files) < 2 ^ 63"
    and "submission_files (db w') \<noteq> submission_files (db w)"
  shows "sum_list (map sf_Size (submission_files (db w'))) \<le> m"
proof -
  from assms(1) obtain records st w1 w2 w3 where t:
    "stage_submission_files L dd (fst (consumeHoneypot payload)) files w = (Inr (records, st), w1)"
    "db w2 = db w" "db w' = db w3"
    "submission_tx lf \<lparr>sb_ID = 0, sb_FormID = fm_ID (lf_Form lf),
        sb_DataJSON = lib_json_payload_text L (snd (consumeHoneypot payload)), sb_UserAgent = ua,
        sb_IsSpam = fst (consumeHoneypot payload), sb_CreatedAt = 0\<rparr> records m w2 = (Inr row, w3)"
    by (rule CreateSubmission_steps)
  from submission_tx_effect [OF t(4)] obtain fs where fs: "submission_files (db w3) = submission_files (db w2) @ fs"
    "map sf_Size fs = (if fst (consumeHoneypot payload) then [] else map sf_Size records)" by auto
  with assms(5) t have "fs \<noteq> []" by auto
  with fs(2) have ns: "\<not> fst (consumeHoneypot payload)" "records \<noteq> []" "map sf_Size fs = map sf_Size records"
    by (auto split: if_splits)
  with t(1) have sz: "map sf_Size records = map (\<lambda>f. int (length (uf_Data f))) files"
    by (auto simp: stage_submission_files_def elim!: bnd_InrE dest!: stageUnassignedFiles_sizes split: if_splits)
  from t(4) obtain w4 w5 where q: "checkUploadQuota records m w4 = (Inr (), w5)" "db w4 = db w2"
    unfolding submission_tx_def by (auto elim!: bnd_InrE dest!: readsD [OF reads_query])
  have "\<forall>r\<in>set records. 0 \<le> sf_Size r"
  proof
    fix r assume "r \<in> set records"
    then have "sf_Size r \<in> set (map sf_Size records)" by simp
    then show "0 \<le> sf_Size r" unfolding sz by auto
  qed
  from checkUploadQuota_bound [OF q(1) ns(2) assms(2,3) this] assms(4) sz q(2) fs ns(3) t(2,3)
  show ?thesis by simp
qed

section \<open>What deletion leaves\<close>

lemma delete_with_uploads_InrE:
  assumes "delete_with_uploads L what tx w = (Inr (), w')"
  obtains w1 w2 where "db w1 = db w" "tx w1 = (Inr (), w2)" "db w' = db w2"
proof -
  obtain r w2 where tx: "with_retry tx (w\<lparr>staged := None\<rparr>) = (r, w2)" by fastforce
  obtain c w3 where fin: "finish L (staged w2) w2 = (c, w3)" by fastforce
  from assms have r: "r = Inr ()" "w' = w3"
    by (auto simp: delete_with_uploads_def tx_simps get_staged_def set_staged_def tx fin split: sum.splits)
  have "db w3 = db w2" using readsD [OF reads_finish fin] .
  with tx r show ?thesis by (auto elim!: with_retry_InrE intro: that)
qed

lemma DeleteForm_result:
  assumes "DeleteForm L dd i w = (Inr (), w')"
  shows "forms (db w') = delete_where (\<lambda>f. fm_ID f = i) (forms (db w))"
    "submissions (db w') = delete_where (\<lambda>s. sb_FormID s = i) (submissions (db w))"
    "email_deliveries (db w') = delete_where (\<lambda>e. ed_FormID e = i) (email_deliveries (db w))"
    "webhook_deliveries (db w') = delete_where (\<lambda>h. wd_FormID h = i) (webhook_deliveries (db w))"
    "submission_files (db w') = delete_where (\<lambda>f. of_form i (db w) (sf_SubmissionID f)) (submission_files (db w))"
    "webhook_events (db w') = delete_where (\<lambda>e. of_form i (db w) (ev_SubmissionID e)) (webhook_events (db w))"
    "\<exists>f\<in>set (forms (db w)). fm_ID f = i"
proof -
  from assms obtain w1 w2 where t: "db w1 = db w" "delete_form_tx L dd i w1 = (Inr (), w2)" "db w' = db w2"
    unfolding DeleteForm_def by (rule delete_with_uploads_InrE)
  from t(2) obtain w3 where d: "deleteFormRecords i w3 = (Inr (), w2)" "db w3 = db w1"
    unfolding delete_form_tx_def
    by (auto elim!: bnd_InrE dest!: readsD [OF reads_finish_previous] readsD [OF reads_first] readsD [OF reads_query]
        readsD [OF reads_stage_into_variable])
  note f = deleteFormRecords_db [OF d(1)]
  note g = stripped_gone [OF f(1)]
  show "forms (db w') = delete_where (\<lambda>f. fm_ID f = i) (forms (db w))"
    "submissions (db w') = delete_where (\<lambda>s. sb_FormID s = i) (submissions (db w))"
    "email_deliveries (db w') = delete_where (\<lambda>e. ed_FormID e = i) (email_deliveries (db w))"
    "webhook_deliveries (db w') = delete_where (\<lambda>h. wd_FormID h = i) (webhook_deliveries (db w))"
    "submission_files (db w') = delete_where (\<lambda>f. of_form i (db w) (sf_SubmissionID f)) (submission_files (db w))"
    "webhook_events (db w') = delete_where (\<lambda>e. of_form i (db w) (ev_SubmissionID e)) (webhook_events (db w))"
    "\<exists>f\<in>set (forms (db w)). fm_ID f = i"
    using g f(2) t(1,3) d(2) by simp_all
qed

lemma DeleteSubmission_result:
  assumes "DeleteSubmission L dd i w = (Inr (), w')"
  shows "submissions (db w') = delete_where (\<lambda>s. sb_ID s = i) (submissions (db w))"
    "submission_files (db w') = delete_where (\<lambda>f. sf_SubmissionID f = i) (submission_files (db w))"
    "webhook_events (db w') = delete_where (\<lambda>e. ev_SubmissionID e = i) (webhook_events (db w))"
    "email_events (db w') = delete_where (\<lambda>e. ev_SubmissionID e = i) (email_events (db w))"
    "forms (db w') = forms (db w)" "\<exists>s\<in>set (submissions (db w)). sb_ID s = i"
proof -
  from assms obtain w1 w2 where t: "db w1 = db w" "delete_submission_tx L dd i w1 = (Inr (), w2)" "db w' = db w2"
    unfolding DeleteSubmission_def by (rule delete_with_uploads_InrE)
  let ?d = "(db w)\<lparr>webhook_events := delete_where (\<lambda>e. ev_SubmissionID e = i) (webhook_events (db w)),
      email_events := delete_where (\<lambda>e. ev_SubmissionID e = i) (email_events (db w)),
      submission_files := delete_where (\<lambda>f. sf_SubmissionID f = i) (submission_files (db w))\<rparr>"
  from t(2) have "db w2 = delete_submissions (\<lambda>s. sb_ID s = i) ?d \<and> count_where (\<lambda>s. sb_ID s = i) (submissions (db w)) \<noteq> 0"
    unfolding delete_submission_tx_def
    by (auto elim!: bnd_InrE dest!: readsD [OF reads_finish_previous] readsD [OF reads_first] readsD [OF reads_query]
        readsD [OF reads_stage_into_variable] exec_InrD stmt_InrD simp: t(1))
  then have d: "db w2 = delete_submissions (\<lambda>s. sb_ID s = i) ?d" "\<exists>s\<in>set (submissions (db w)). sb_ID s = i"
    by (auto simp: count_where_0)
  have only: "(x = i \<or> list_ex (\<lambda>s. sb_ID s = i \<and> sb_ID s = x) ss) = (x = i)" for x ss
    by (auto simp: list_ex_iff)
  show "submissions (db w') = delete_where (\<lambda>s. sb_ID s = i) (submissions (db w))"
    "submission_files (db w') = delete_where (\<lambda>f. sf_SubmissionID f = i) (submission_files (db w))"
    "webhook_events (db w') = delete_where (\<lambda>e. ev_SubmissionID e = i) (webhook_events (db w))"
    "email_events (db w') = delete_where (\<lambda>e. ev_SubmissionID e = i) (email_events (db w))"
    "forms (db w') = forms (db w)" "\<exists>s\<in>set (submissions (db w)). sb_ID s = i"
    using d by (simp_all add: t(3) delete_submissions_def Let_def delete_where_twice only)
qed

section \<open>Pages\<close>

lemma clamp_per_page_range: "1 \<le> clamp_per_page n \<and> clamp_per_page n \<le> 200"
  by (simp add: clamp_per_page_def Let_def)

lemma take_drop_pages: "0 < n \<Longrightarrow> length xs \<le> m * n \<Longrightarrow> concat (map (\<lambda>k. take n (drop (k * n) xs)) [0..<m]) = xs"
proof (induction m arbitrary: xs)
  case (Suc m)
  have "concat (map (\<lambda>k. take n (drop (k * n) xs)) [0..<Suc m])
      = take n xs @ concat (map (\<lambda>k. take n (drop (k * n) (drop n xs))) [0..<m])"
    by (simp add: upt_conv_Cons map_Suc_upt [symmetric] comp_def add.commute del: upt_Suc)
  also have "concat (map (\<lambda>k. take n (drop (k * n) (drop n xs))) [0..<m]) = drop n xs"
    using Suc.prems by (intro Suc.IH) simp_all
  finally show ?case by simp
qed simp

lemma page_items_take:
  assumes "1 \<le> page" "1 \<le> perPage" "(page - 1) * perPage < 2 ^ 63"
  shows "page_items page perPage rows = take (nat perPage) (drop (nat (page - 1) * nat perPage) rows)"
proof -
  have nn: "0 \<le> (page - 1) * perPage" using assms by simp
  with assms(3) have "in_int64 ((page - 1) * perPage)" unfolding in_int64_def by linarith
  then have w: "wrap64 ((page - 1) * perPage) = (page - 1) * perPage" by (rule wrap64_id)
  have "nat ((page - 1) * perPage) = nat (page - 1) * nat perPage" using assms by (simp add: nat_mult_distrib)
  with w assms(2) show ?thesis by (simp add: page_items_def sql_limit_def)
qed

lemma pages_partition:
  assumes "1 \<le> perPage" "perPage \<le> 200" "length rows < 2 ^ 40"
  shows "concat (map (\<lambda>k. page_items (int k + 1) perPage rows) [0..<nat (total_pages (length rows) perPage)]) = rows"
proof (cases "rows = []")
  case False
  define t where "t = nat (total_pages (length rows) perPage)"
  let ?n = "nat perPage"
  have tp: "total_pages (length rows) perPage = (int (length rows) + perPage - 1) div perPage"
    using False by (simp add: total_pages_def)
  have ge: "int (length rows) \<le> total_pages (length rows) perPage * perPage"
  proof -
    have "(int (length rows) + perPage - 1) mod perPage < perPage" using assms(1) by simp
    moreover have "perPage * ((int (length rows) + perPage - 1) div perPage)
        + (int (length rows) + perPage - 1) mod perPage = int (length rows) + perPage - 1"
      by (rule mult_div_mod_eq)
    ultimately show ?thesis unfolding tp mult.commute [of _ perPage] by linarith
  qed
  have small: "total_pages (length rows) perPage \<le> int (length rows)"
  proof -
    let ?q = "(int (length rows) + perPage - 1) div perPage"
    have "?q * perPage \<le> int (length rows) + perPage - 1"
      using mult_div_mod_eq [of perPage "int (length rows) + perPage - 1"]
        pos_mod_sign [of perPage "int (length rows) + perPage - 1"] assms(1)
      unfolding mult.commute [of _ perPage] by linarith
    also have "\<dots> < (int (length rows) + 1) * perPage"
    proof -
      have "int (length rows) * 1 \<le> int (length rows) * perPage" using assms(1) by (intro mult_left_mono) auto
      then show ?thesis by (simp add: distrib_right)
    qed
    finally have "?q < int (length rows) + 1" using assms(1) by (simp add: mult_less_cancel_right)
    then show ?thesis unfolding tp by linarith
  qed
  have pages: "page_items (int k + 1) perPage rows = take ?n (drop (k * ?n) rows)" if "k < t" for k
  proof -
    have "int k \<le> int (length rows)" using that small by (simp add: t_def)
    moreover have "int (length rows) < 2 ^ 40" using assms(3) by simp
    ultimately have "int k < 2 ^ 40" by linarith
    then have "int k * perPage \<le> 2 ^ 40 * 200" using assms(1,2) by (intro mult_mono) auto
    then have "int k * perPage < 2 ^ 63" by simp
    then show ?thesis using page_items_take [of "int k + 1" perPage rows] assms(1) by simp
  qed
  have "length rows \<le> t * ?n"
  proof -
    have "0 \<le> total_pages (length rows) perPage" unfolding tp
      using assms(1) by (simp add: pos_imp_zdiv_nonneg_iff)
    then have "int (length rows) \<le> int t * perPage" using ge by (simp add: t_def)
    then have "int (length rows) \<le> int (t * ?n)" using assms(1) by simp
    then show ?thesis by (simp only: of_nat_le_iff)
  qed
  then have "concat (map (\<lambda>k. take ?n (drop (k * ?n) rows)) [0..<t]) = rows"
    using assms(1) by (intro take_drop_pages) simp_all
  moreover have "map (\<lambda>k. page_items (int k + 1) perPage rows) [0..<t] = map (\<lambda>k. take ?n (drop (k * ?n) rows)) [0..<t]"
    by (rule map_cong [OF refl]) (use pages in auto)
  ultimately show ?thesis unfolding t_def by argo
qed (simp add: total_pages_def)

lemma ListSubmissions_result:
  assumes "ListSubmissions f w = (Inr pg, w')"
  shows "\<exists>now p. submissionFilterQuery f now = Inr p
    \<and> pg_Items pg = page_items (clamp_page (fi_Page f)) (clamp_per_page (fi_PerPage f)) (newest_first (filter p (submissions (db w))))
    \<and> pg_TotalCount pg = length (filter p (submissions (db w)))
    \<and> pg_TotalPages pg = total_pages (pg_TotalCount pg) (pg_PerPage pg)
    \<and> pg_Page pg = clamp_page (fi_Page f) \<and> pg_PerPage pg = clamp_per_page (fi_PerPage f) \<and> db w' = db w"
proof -
  from assms obtain now w1 p n w2 where s: "time_now w = (Inr now, w1)" "submissionFilterQuery f now = Inr p"
    "count_rows submissions p w1 = (Inr n, w2)"
    "query (\<lambda>d. page_items (clamp_page (fi_Page f)) (clamp_per_page (fi_PerPage f)) (newest_first (filter p (submissions d)))) w2 = (Inr (pg_Items pg), w')"
    "pg_TotalCount pg = n" "pg_TotalPages pg = total_pages n (clamp_per_page (fi_PerPage f))"
    "pg_Page pg = clamp_page (fi_Page f)" "pg_PerPage pg = clamp_per_page (fi_PerPage f)"
    unfolding ListSubmissions_def Let_def by (auto elim!: bnd_InrE)
  have "db w2 = db w1" "n = count_where p (submissions (db w1))"
    using s(3) by (auto simp: count_rows_def dest: query_InrD)
  with s readsD [OF reads_time_now s(1)] query_InrD [OF s(4)] show ?thesis
    by (intro exI [of _ now] exI [of _ p]) (simp add: count_where_def)
qed

end
