(* ===== verification/Samples.thy ===== *)
theory Samples
  imports Submission_Laws Form_Laws
begin

text \<open>
  Concrete inputs for the instances of the properties: a library \<open>plain_lib\<close> that instantiates the
  parameters of \<open>golib\<close> on plain ASCII text, a database with one form, a world without faults, and
  parameters of the operations. Nothing of the model depends on this theory.
\<close>

definition simple_url :: url where
  "simple_url = \<lparr>url_Scheme = ''https'', url_User = False, url_Host = ''example.com'', url_Path = ''/hook'',
     url_RawQuery = [], url_Fragment = []\<rparr>"

definition plain_lib :: golib where
  "plain_lib =
     \<lparr>lib_lower = map ascii_lower, lib_letter = (\<lambda>_. False), lib_parse_ip = (\<lambda>_. None),
      lib_url_parse = (\<lambda>s. if s = ''https://example.com/hook'' then Some simple_url else None),
      lib_url_string = (\<lambda>_. ''https://example.com/hook''), lib_url_resolve = (\<lambda>_ u. u),
      lib_parse_address = (\<lambda>s. if CHR ''@'' \<in> set s then Some ([], s) else None),
      lib_parse_address_list = (\<lambda>s. if CHR ''@'' \<in> set s then Some (map (\<lambda>a. ([], a)) (split_on (CHR '','') s)) else None),
      lib_address_string = snd, lib_text_template = (\<lambda>_. None), lib_html_template = (\<lambda>_. None),
      lib_text_execute = (\<lambda>t _. Inr t), lib_html_execute = (\<lambda>t _. Inr t),
      lib_rfc3339 = (\<lambda>_. []), lib_quote = (\<lambda>s. s), lib_json_indent = (\<lambda>_. []),
      lib_html_tokens = (\<lambda>_. ([], False)), lib_header_name = (\<lambda>_. True), lib_header_value = (\<lambda>_. True),
      lib_json_headers = (\<lambda>_. Some None), lib_json_headers_text = (\<lambda>_. ''{}''),
      lib_json_object = (\<lambda>_. Inr ([], [])), lib_json_next = (\<lambda>_. JEof), lib_json_payload_text = (\<lambda>_. ''{}''),
      lib_bcrypt = Inr, lib_bcrypt_ok = (\<lambda>h p. h = p), lib_sha256_hex = (\<lambda>s. s),
      lib_detect_content_type = (\<lambda>_. ''text/plain; charset=utf-8'')\<rparr>"

definition world_of :: "'d \<Rightarrow> 'd world" where
  "world_of d =
     \<lparr>db = d, faults = [], clock = 1000, ticks = [], entropy = map (\<lambda>i. i mod 256) [0..<200], waits = [],
      slept = [], disk = \<lparr>dk_root = True, dk_files = [], dk_dirs = []\<rparr>, disk_faults = [], staged = None\<rparr>"

definition form_one :: form where
  "form_one = \<lparr>fm_ID = 1, fm_PublicID = ''p'', fm_Name = ''Contact'', fm_Slug = ''contact'', fm_Token = ''t'',
     fm_AllowedOrigins = ''*'', fm_GeneratedHTML = [], fm_UploadsEnabled = True, fm_CaptchaProfileID = None,
     fm_CreatedAt = 0\<rparr>"

definition hook_one :: webhook_delivery where
  "hook_one = \<lparr>wd_ID = 1, wd_FormID = 1, wd_Enabled = True, wd_URL = ''https://example.com/hook'',
     wd_Secret = [], wd_HeadersJSON = ''{}''\<rparr>"

definition submission_one :: submission where
  "submission_one = \<lparr>sb_ID = 1, sb_FormID = 1, sb_DataJSON = ''{}'', sb_UserAgent = [], sb_IsSpam = False,
     sb_CreatedAt = 5\<rparr>"

definition event_one :: delivery_event where
  "event_one = \<lparr>ev_ID = 1, ev_SubmissionID = 1, ev_Status = Failed, ev_AttemptCount = 3,
     ev_LastAttemptErr = ''timeout'', ev_NextAttemptAt = None, ev_LastAttemptAt = Some 7, ev_CreatedAt = 5\<rparr>"

definition db_one :: database where
  "db_one = empty_db\<lparr>seqs := (\<lambda>_. 1), forms := [form_one], webhook_deliveries := [hook_one],
     submissions := [submission_one], webhook_events := [event_one]\<rparr>"

definition create_one :: CreateParams where
  "create_one = \<lparr>cr_Name = ''Sales'', cr_Slug = ''Sales'', cr_AllowedOrigins = ''*'', cr_GeneratedHTML = [],
     cr_UploadsEnabled = False, cr_TemplateID = [], cr_MailerProfileID = None, cr_CaptchaProfileID = None,
     cr_EmailName = [], cr_EmailRecipientType = [], cr_EmailRecipient = [], cr_EmailReplyToType = [],
     cr_EmailReplyTo = [], cr_EmailSubject = [], cr_EmailFormat = [], cr_EmailText = [], cr_EmailHTML = [],
     cr_EmailEnabled = False, cr_WebhookEnabled = False, cr_WebhookURL = [], cr_WebhookSecret = [],
     cr_WebhookHeadersJSON = []\<rparr>"

definition params_one :: EmailDeliveryParams where
  "params_one = \<lparr>ep_ID = 0, ep_FormID = 1, ep_Name = [], ep_Enabled = True, ep_MailerProfileID = Some 1,
     ep_RecipientSource = [], ep_Recipient = ''a@x'', ep_ReplyToSource = [], ep_ReplyTo = [],
     ep_SubjectTemplate = [], ep_Format = ''html'', ep_TextTemplate = [], ep_HTMLTemplate = []\<rparr>"

definition loaded_one :: loaded_form where
  "loaded_one = \<lparr>lf_Form = form_one, lf_EmailDeliveries = [], lf_Mailers = [], lf_WebhookDelivery = Some hook_one,
     lf_CaptchaProfile = None\<rparr>"

definition file_one :: UploadedFile where
  "file_one = \<lparr>uf_FieldName = ''doc'', uf_Filename = ''a.txt'', uf_ContentType = ''text/plain'', uf_Size = 5, uf_Data = ''hello''\<rparr>"

definition filter_one :: SubmissionFilter where
  "filter_one = \<lparr>fi_FormID = 0, fi_Range = [], fi_Query = [], fi_Page = 0, fi_PerPage = 0, fi_IsSpam = None\<rparr>"

lemma ok_run: "is_ok (fst r) \<Longrightarrow> \<exists>x w'. r = (Inr x, w')"
  by (cases r; cases "fst r") auto

lemma ok_value: "is_ok r \<Longrightarrow> \<exists>x. r = Inr x"
  by (cases r) auto

end
