(* ===== verification/Retry_Laws.thy ===== *)
theory Retry_Laws
  imports Db_Txn
begin

text \<open>
  The schedule of \<open>WithRetry\<close>: every pause lies between \<open>basePause\<close> and a fifth above
  \<open>maxPause\<close>, there are at most nine of them, lock contention shorter than ten attempts is
  waited out and longer contention is reported.
\<close>

lemma shifted_pause: "1 \<le> attempt \<Longrightarrow> attempt \<le> 10 \<Longrightarrow> wrap64 (basePause * 2 ^ (attempt - 1)) = basePause * 2 ^ (attempt - 1)"
proof (rule wrap64_id)
  assume a: "1 \<le> attempt" "attempt \<le> 10"
  have "(2 :: int) ^ (attempt - 1) \<le> 2 ^ 9" using a by (intro power_increasing) auto
  then obtain x :: int where x: "2 ^ (attempt - 1) = x" "0 \<le> x" "x \<le> 512" by simp
  show "in_int64 (basePause * 2 ^ (attempt - 1))"
    unfolding x(1) using x(2,3) by (simp add: in_int64_def basePause_def)
qed

lemma retryPause_bounds:
  assumes "1 \<le> attempt" "attempt \<le> 10"
  shows "basePause \<le> retryPause attempt jitter \<and> retryPause attempt jitter \<le> maxPause + maxPause div 5"
proof -
  define pause where "pause = min (basePause * 2 ^ (attempt - 1)) maxPause"
  have "basePause * 1 \<le> basePause * 2 ^ (attempt - 1)" by (intro mult_left_mono) (simp_all add: basePause_def)
  then have p: "basePause \<le> pause" "pause \<le> maxPause" by (simp_all add: pause_def basePause_def maxPause_def)
  have r: "retryPause attempt jitter = (case jitter of None \<Rightarrow> pause | Some j \<Rightarrow> pause + int j mod (pause div 5 + 1))"
    unfolding retryPause_def Let_def shifted_pause [OF assms] by (auto simp: pause_def min_def split: option.split)
  have five: "pause div 5 \<le> maxPause div 5" using p(2) by (rule zdiv_mono1) simp
  have "0 < pause div 5 + 1" using p(1) by (simp add: basePause_def)
  show ?thesis
  proof (cases jitter)
    case None
    then show ?thesis using r p by (simp add: maxPause_def)
  next
    case (Some j)
    then have "retryPause attempt jitter = pause + int j mod (pause div 5 + 1)" using r by simp
    moreover note pos_mod_bound [OF \<open>0 < pause div 5 + 1\<close>, of "int j"] pos_mod_sign [OF \<open>0 < pause div 5 + 1\<close>, of "int j"]
    ultimately show ?thesis using p five by linarith
  qed
qed

definition no_pauses :: "('d, 'a) prog \<Rightarrow> bool" where
  "no_pauses body \<longleftrightarrow> (\<forall>w. slept (snd (body w)) = slept w)"

lemma transaction_no_pauses:
  assumes "no_pauses body" "transaction body w = (r, w')"
  shows "slept w' = slept w"
proof -
  have b: "slept w2 = slept w1" if "body w1 = (x, w2)" for x w1 w2
    using assms(1) that unfolding no_pauses_def by (metis snd_conv)
  from assms(2) show ?thesis
    by (auto simp: transaction_def stmt_def split: prod.splits sum.splits list.splits option.splits dest!: b)
qed

lemma retry_wait_slept:
  assumes "retry_wait attempt w = (r, w')"
  shows "slept w' = slept w \<or> (\<exists>j. slept w' = slept w @ [retryPause attempt j])"
  using assms
  by (auto simp: retry_wait_def bnd_apply draw_jitter_def waitForRetry_def
      split: list.splits option.splits prod.splits sum.splits)

lemma retry_loop_slept:
  "no_pauses body \<Longrightarrow> 1 \<le> attempt \<Longrightarrow> attempt + left \<le> 10 \<Longrightarrow> retry_loop body attempt left w = (r, w') \<Longrightarrow>
   \<exists>ps. slept w' = slept w @ ps \<and> length ps \<le> left
     \<and> (\<forall>p\<in>set ps. basePause \<le> p \<and> p \<le> maxPause + maxPause div 5)"
proof (induction left arbitrary: attempt w)
  case 0
  then show ?case by (cases "transaction body w") (auto dest: transaction_no_pauses split: sum.splits if_splits)
next
  case (Suc left)
  from Suc.prems(4) show ?case
  proof (cases rule: retry_loop_cases)
    case (cancelled e e' w1)
    then have "slept w1 = slept w" using Suc.prems(1) by (blast dest: transaction_no_pauses)
    with retry_wait_slept [OF cancelled(3)] show ?thesis
      using retryPause_bounds [of attempt] Suc.prems(2,3) by fastforce
  next
    case (again e w1 w2 n)
    then have s: "slept w1 = slept w" using Suc.prems(1) by (blast dest: transaction_no_pauses)
    from retry_wait_slept [OF again(4)] s
    obtain qs where q: "slept w2 = slept w @ qs" "length qs \<le> 1" "\<forall>p\<in>set qs. \<exists>j. p = retryPause attempt j" by fastforce
    have "n = left" using again(1) by simp
    with again(5) Suc.IH [of "Suc attempt" w2] Suc.prems(1-3) obtain ps where
      "slept w' = slept w2 @ ps" "length ps \<le> left" "\<forall>p\<in>set ps. basePause \<le> p \<and> p \<le> maxPause + maxPause div 5"
      by auto
    with q show ?thesis using retryPause_bounds [of attempt] Suc.prems(2,3) by (intro exI [of _ "qs @ ps"]) auto
  qed (use Suc.prems(1) in \<open>auto dest: transaction_no_pauses\<close>)
qed

lemma transaction_busy: "faults w = Some e # fs \<Longrightarrow> transaction body w = (Inl e, w\<lparr>faults := fs\<rparr>)"
  by (simp add: transaction_def stmt_def)

lemma retry_loop_busy:
  assumes "IsContention (Some e)"
  shows "n \<le> left \<Longrightarrow> entropy w = [] \<Longrightarrow> waits w = [] \<Longrightarrow> faults w = replicate n (Some e) @ fs \<Longrightarrow>
    retry_loop body attempt left w = retry_loop body (attempt + n) (left - n)
      (w\<lparr>faults := fs, slept := slept w @ map (\<lambda>k. retryPause k None) [attempt..<attempt + n]\<rparr>)"
proof (induction n arbitrary: attempt left w)
  case 0
  then have "w\<lparr>faults := fs\<rparr> = w" by simp
  then show ?case by (simp add: world.surjective)
next
  case (Suc n)
  then obtain l where l: "left = Suc l" "n \<le> l" by (cases left) auto
  have f: "faults w = Some e # replicate n (Some e) @ fs" using Suc.prems(4) by simp
  have w: "w\<lparr>faults := replicate n (Some e) @ fs, waits := [], slept := ps\<rparr>
      = w\<lparr>faults := replicate n (Some e) @ fs, slept := ps\<rparr>" for ps
    using Suc.prems(3) by simp
  have "retry_loop body attempt left w = retry_loop body (Suc attempt) l
      (w\<lparr>faults := replicate n (Some e) @ fs, slept := slept w @ [retryPause attempt None]\<rparr>)"
    using Suc.prems(2,3) assms
    by (simp add: l(1) transaction_busy [OF f] retry_wait_def bnd_apply draw_jitter_def waitForRetry_def) (simp only: w)
  then show ?case using Suc.prems(2,3) l
    by (simp add: Suc.IH [OF l(2)] upt_conv_Cons del: upt_Suc)
qed

end
