(* ===== verification/Go_Num.thy ===== *)
theory Go_Num
  imports Go_Lib
begin

text \<open>
  Decimal numbers as the code reads and prints them: \<open>strconv.Itoa\<close>, \<open>strconv.Atoi\<close> and
  \<open>strconv.ParseInt\<close> in base 10 on 64 bits.
\<close>

definition digit_value :: "char \<Rightarrow> nat" where
  "digit_value c = of_char c - 48"

definition digits_value :: "string \<Rightarrow> nat" where
  "digits_value s = foldl (\<lambda>n c. n * 10 + digit_value c) 0 s"

definition itoa :: "int \<Rightarrow> string" where
  "itoa n = (if n < 0 then ''-'' @ dec_digits (nat (- n)) else dec_digits (nat n))"

definition split_sign :: "string \<Rightarrow> bool \<times> string" where
  "split_sign s = (case s of
       [] \<Rightarrow> (False, [])
     | c # cs \<Rightarrow> if c = CHR ''-'' then (True, cs) else if c = CHR ''+'' then (False, cs) else (False, s))"

definition atoi :: "string \<Rightarrow> int option" where
  "atoi s = (case split_sign s of (neg, ds) \<Rightarrow>
     if ds = [] \<or> \<not> list_all ascii_digit ds then None
     else (let v = (if neg then - int (digits_value ds) else int (digits_value ds))
           in if in_int64 v then Some v else None))"

lemma digit_char: "n < 10 \<Longrightarrow> ascii_digit (char_of (48 + n)) \<and> digit_value (char_of (48 + n)) = n"
  by (simp add: ascii_digit_def digit_value_def)

lemma digits_value_snoc: "digits_value (s @ [c]) = digits_value s * 10 + digit_value c"
  by (simp add: digits_value_def)

lemma dec_digits_read: "digits_value (dec_digits n) = n \<and> list_all ascii_digit (dec_digits n) \<and> dec_digits n \<noteq> []"
proof (induction n rule: dec_digits.induct)
  case (1 n)
  show ?case
  proof (cases "n < 10")
    case True
    then show ?thesis using digit_char [of n] by (simp add: digits_value_def dec_digits.simps [of n])
  next
    case False
    then show ?thesis using 1 digit_char [of "n mod 10"] by (simp add: digits_value_snoc dec_digits.simps [of n])
  qed
qed

lemma dec_digits_inj: "dec_digits m = dec_digits n \<Longrightarrow> m = n"
  by (metis dec_digits_read)

lemma digit_not_sign: "ascii_digit c \<Longrightarrow> c \<noteq> CHR ''-'' \<and> c \<noteq> CHR ''+''"
  by (auto simp: ascii_digit_def)

lemma atoi_itoa: "in_int64 n \<Longrightarrow> atoi (itoa n) = Some n"
proof (cases "n < 0")
  case True
  then show "in_int64 n \<Longrightarrow> atoi (itoa n) = Some n"
    using dec_digits_read [of "nat (- n)"] by (simp add: itoa_def atoi_def split_sign_def)
next
  case False
  obtain c cs where d: "dec_digits (nat n) = c # cs" using dec_digits_read [of "nat n"] by (cases "dec_digits (nat n)") auto
  with dec_digits_read [of "nat n"] have "c \<noteq> CHR ''-'' \<and> c \<noteq> CHR ''+''" by (intro digit_not_sign) simp
  then show "in_int64 n \<Longrightarrow> atoi (itoa n) = Some n"
    using False d dec_digits_read [of "nat n"] by (simp add: itoa_def atoi_def split_sign_def)
qed

lemma atoi_range: "atoi s = Some n \<Longrightarrow> in_int64 n"
  by (auto simp: atoi_def Let_def split: prod.splits if_splits)

end
