(* ===== verification/Integrations.thy ===== *)
theory Integrations
  imports Submission_Laws Go_Num
begin

text \<open>
  Shared credentials: \<open>internal/integrations\<close>. Mailer and captcha profiles go through the same
  generic functions (\<open>listProfiles\<close>, \<open>getProfile\<close>, \<open>persistProfile\<close>, \<open>deleteProfile\<close>), written
  once here over a \<open>profile_kind\<close>; the Turnstile client talks to the service through the
  functions of \<open>turnstile_env\<close>.
\<close>

section \<open>Profiles of one kind\<close>

record 'p profile_kind =
  pk_rows :: "database \<Rightarrow> 'p list"
  pk_ID :: "'p \<Rightarrow> nat"
  pk_Name :: "'p \<Rightarrow> string"
  pk_rekey :: "nat \<Rightarrow> 'p \<Rightarrow> 'p"
  pk_insert :: "'p \<Rightarrow> database \<Rightarrow> err + (nat \<times> database)"
  pk_write :: "nat \<Rightarrow> 'p \<Rightarrow> database \<Rightarrow> err + (nat \<times> database)"
  pk_delete :: "nat \<Rightarrow> database \<Rightarrow> err + (nat \<times> database)"

definition update_mailers :: "(mailer_profile \<Rightarrow> bool) \<Rightarrow> (mailer_profile \<Rightarrow> mailer_profile) \<Rightarrow> database \<Rightarrow> err + (nat \<times> database)" where
  "update_mailers p f d =
     checked (\<lambda>d'. if distinct (map mp_Name (mailers d')) then None else Some (unique_failed ''mailer_profiles.name''))
       (count_where p (mailers d)) (d\<lparr>mailers := update_where p f (mailers d)\<rparr>)"

definition update_captchas :: "(captcha_profile \<Rightarrow> bool) \<Rightarrow> (captcha_profile \<Rightarrow> captcha_profile) \<Rightarrow> database \<Rightarrow> err + (nat \<times> database)" where
  "update_captchas p f d =
     checked (\<lambda>d'. if distinct (map cp_Name (captchas d')) then None else Some (unique_failed ''captcha_profiles.name''))
       (count_where p (captchas d)) (d\<lparr>captchas := update_where p f (captchas d)\<rparr>)"

text \<open>\<open>mailerValues\<close>: the columns an update of a mailer writes.\<close>

definition mailerValues :: "mailer_profile \<Rightarrow> mailer_profile \<Rightarrow> mailer_profile" where
  "mailerValues profile row =
     row\<lparr>mp_Name := mp_Name profile, mp_DefaultFromName := mp_DefaultFromName profile,
         mp_DefaultFromEmail := mp_DefaultFromEmail profile, mp_SMTPHost := mp_SMTPHost profile,
         mp_SMTPPort := mp_SMTPPort profile, mp_SMTPUsername := mp_SMTPUsername profile,
         mp_SMTPPassword := mp_SMTPPassword profile, mp_SMTPEncryption := mp_SMTPEncryption profile\<rparr>"

definition captchaValues :: "captcha_profile \<Rightarrow> captcha_profile \<Rightarrow> captcha_profile" where
  "captchaValues profile row =
     row\<lparr>cp_Name := cp_Name profile, cp_SiteKey := cp_SiteKey profile, cp_SecretKey := cp_SecretKey profile\<rparr>"

definition mailer_kind :: "mailer_profile profile_kind" where
  "mailer_kind = \<lparr>pk_rows = mailers, pk_ID = mp_ID, pk_Name = mp_Name, pk_rekey = mailer_rekey,
     pk_insert = insert_mailer,
     pk_write = (\<lambda>i p. update_mailers (\<lambda>m. mp_ID m = i) (mailerValues p)), pk_delete = delete_mailer\<rparr>"

definition captcha_kind :: "captcha_profile profile_kind" where
  "captcha_kind = \<lparr>pk_rows = captchas, pk_ID = cp_ID, pk_Name = cp_Name, pk_rekey = captcha_rekey,
     pk_insert = insert_captcha,
     pk_write = (\<lambda>i p. update_captchas (\<lambda>c. cp_ID c = i) (captchaValues p)), pk_delete = delete_captcha\<rparr>"

definition listProfiles :: "'p profile_kind \<Rightarrow> 'p list db_prog" where
  "listProfiles K = query (\<lambda>d. sort_key (pk_Name K) (pk_rows K d))"

definition getProfile :: "'p profile_kind \<Rightarrow> nat \<Rightarrow> 'p db_prog" where
  "getProfile K i = first (pk_rows K) (\<lambda>p. pk_ID K p = i)"

definition profileName :: "string \<Rightarrow> err + string" where
  "profileName raw = (let name = trim_space raw in if name = [] then Inl (Validation ''name'' ''Name is required'') else Inr name)"

definition uniqueViolation :: "err \<Rightarrow> bool" where
  "uniqueViolation e = IsUniqueConstraint (Some e)"

definition profile_error :: "string \<Rightarrow> err \<Rightarrow> err" where
  "profile_error action e =
     (if uniqueViolation e then Validation ''name'' ''A profile with this name already exists''
      else if IsForeignKeyConstraint (Some e) then Sentinel ErrProfileInUse
      else Wrap (''failed to '' @ action @ '' profile'') e)"

definition persistProfile :: "string \<Rightarrow> 'a db_prog \<Rightarrow> 'a db_prog" where
  "persistProfile action write_tx = map_err (profile_error action) (with_retry write_tx)"

definition deleteProfile :: "'p profile_kind \<Rightarrow> nat \<Rightarrow> unit db_prog" where
  "deleteProfile K i = persistProfile ''delete''
     (bnd (stmt (pk_delete K i)) (\<lambda>n. guard (n \<noteq> 0) (Sentinel ErrRecordNotFound)))"

text \<open>Create and update, for a profile that passed its validation.\<close>

definition createProfile :: "'p profile_kind \<Rightarrow> err + 'p \<Rightarrow> 'p db_prog" where
  "createProfile K validated =
     bnd (of_result validated) (\<lambda>profile.
     bnd (persistProfile ''create'' (stmt (pk_insert K profile))) (\<lambda>i. ret (pk_rekey K i profile)))"

definition updateProfile :: "'p profile_kind \<Rightarrow> nat \<Rightarrow> err + 'p \<Rightarrow> 'p db_prog" where
  "updateProfile K i validated =
     bnd (of_result validated) (\<lambda>profile.
     bnd (getProfile K i) (\<lambda>_.
     bnd (persistProfile ''update'' (stmt (pk_write K i profile))) (\<lambda>_.
     getProfile K i)))"

section \<open>Captcha profiles\<close>

definition TurnstileAction :: string where
  "TurnstileAction = ''submit''"

record CaptchaProfileParams =
  cq_Name :: string
  cq_SiteKey :: string
  cq_SecretKey :: string

definition captchaProfile :: "CaptchaProfileParams \<Rightarrow> err + captcha_profile" where
  "captchaProfile params =
     rbind (profileName (cq_Name params)) (\<lambda>name.
     let siteKey = trim_space (cq_SiteKey params); secretKey = trim_space (cq_SecretKey params) in
     if siteKey = [] then Inl (Validation ''site_key'' ''Site key is required'')
     else if secretKey = [] then Inl (Validation ''secret_key'' ''Secret key is required'')
     else Inr \<lparr>cp_ID = 0, cp_Name = name, cp_SiteKey = siteKey, cp_SecretKey = secretKey\<rparr>)"

definition CreateCaptchaProfile :: "CaptchaProfileParams \<Rightarrow> captcha_profile db_prog" where
  "CreateCaptchaProfile params = createProfile captcha_kind (captchaProfile params)"

definition UpdateCaptchaProfile :: "nat \<Rightarrow> CaptchaProfileParams \<Rightarrow> captcha_profile db_prog" where
  "UpdateCaptchaProfile i params = updateProfile captcha_kind i (captchaProfile params)"

definition DeleteCaptchaProfile :: "nat \<Rightarrow> unit db_prog" where
  "DeleteCaptchaProfile = deleteProfile captcha_kind"

definition ListCaptchaProfiles :: "captcha_profile list db_prog" where
  "ListCaptchaProfiles = listProfiles captcha_kind"

definition GetCaptchaProfileByID :: "nat \<Rightarrow> captcha_profile db_prog" where
  "GetCaptchaProfileByID = getProfile captcha_kind"

section \<open>Mailer profiles\<close>

record MailerProfileParams =
  mq_Name :: string
  mq_DefaultFromName :: string
  mq_DefaultFromEmail :: string
  mq_SMTPHost :: string
  mq_SMTPPort :: int
  mq_SMTPUsername :: string
  mq_SMTPPassword :: string
  mq_SMTPEncryption :: string

definition mailerProfile :: "golib \<Rightarrow> MailerProfileParams \<Rightarrow> err + mailer_profile" where
  "mailerProfile L params =
     rbind (profileName (mq_Name params)) (\<lambda>name.
     let port = (if mq_SMTPPort params = 0 then 587 else mq_SMTPPort params);
         given = to_lower L (trim_space (mq_SMTPEncryption params));
         encryption = (if given = [] then ''starttls'' else given);
         host = trim_space (mq_SMTPHost params);
         fromEmail = trim_space (mq_DefaultFromEmail params)
     in if port < 1 \<or> port > 65535 then Inl (Validation ''smtp_port'' ''SMTP port must be between 1 and 65535'')
        else if encryption \<noteq> ''starttls'' \<and> encryption \<noteq> ''tls'' \<and> encryption \<noteq> ''none''
        then Inl (Validation ''smtp_encryption'' ''SMTP encryption must be starttls, tls, or none'')
        else if host = [] then Inl (Validation ''smtp_host'' ''SMTP host is required'')
        else if (case lib_parse_address L fromEmail of None \<Rightarrow> True | Some (_, a) \<Rightarrow> a \<noteq> fromEmail)
        then Inl (Validation ''default_from_email'' ''From email must be a valid address'')
        else Inr \<lparr>mp_ID = 0, mp_Name = name, mp_DefaultFromName = trim_space (mq_DefaultFromName params),
                  mp_DefaultFromEmail = fromEmail, mp_SMTPHost = host, mp_SMTPPort = port,
                  mp_SMTPUsername = mq_SMTPUsername params, mp_SMTPPassword = mq_SMTPPassword params,
                  mp_SMTPEncryption = encryption\<rparr>)"

definition CreateMailerProfile :: "golib \<Rightarrow> MailerProfileParams \<Rightarrow> mailer_profile db_prog" where
  "CreateMailerProfile L params = createProfile mailer_kind (mailerProfile L params)"

definition UpdateMailerProfile :: "golib \<Rightarrow> nat \<Rightarrow> MailerProfileParams \<Rightarrow> mailer_profile db_prog" where
  "UpdateMailerProfile L i params = updateProfile mailer_kind i (mailerProfile L params)"

definition DeleteMailerProfile :: "nat \<Rightarrow> unit db_prog" where
  "DeleteMailerProfile = deleteProfile mailer_kind"

definition ListMailerProfiles :: "mailer_profile list db_prog" where
  "ListMailerProfiles = listProfiles mailer_kind"

definition GetMailerProfileByID :: "nat \<Rightarrow> mailer_profile db_prog" where
  "GetMailerProfileByID = getProfile mailer_kind"

definition MailerSender :: "golib \<Rightarrow> mailer_profile option \<Rightarrow> err + string" where
  "MailerSender L profile =
     (case profile of
        None \<Rightarrow> Inl (Plain ''mailer configuration missing'')
      | Some p \<Rightarrow>
          (case lib_parse_address L (trim_space (mp_DefaultFromEmail p)) of
             None \<Rightarrow> Inl (Plain ''mailer sender missing or invalid'')
           | Some (_, address) \<Rightarrow> Inr (lib_address_string L (trim_space (mp_DefaultFromName p), address))))"

section \<open>What both kinds promise\<close>

locale profile_store =
  fixes K :: "'p profile_kind"
  assumes insert_ok: "db_ok d \<Longrightarrow> pk_insert K p d = Inr (i, d') \<Longrightarrow> db_ok d'"
    and write_ok: "db_ok d \<Longrightarrow> pk_write K i p d = Inr (n, d') \<Longrightarrow> db_ok d'"
    and delete_ok: "db_ok d \<Longrightarrow> pk_delete K i d = Inr (n, d') \<Longrightarrow> db_ok d'"
    and insert_rows: "pk_insert K p d = Inr (i, d') \<Longrightarrow>
      pk_rows K d' = pk_rows K d @ [pk_rekey K i p] \<and> pk_Name K p \<notin> pk_Name K ` set (pk_rows K d)"
    and delete_rows: "pk_delete K i d = Inr (n, d') \<Longrightarrow>
      pk_rows K d' = delete_where (\<lambda>p. pk_ID K p = i) (pk_rows K d) \<and> n = count_where (\<lambda>p. pk_ID K p = i) (pk_rows K d)"
begin

lemma create_always: "always db_ok (createProfile K v)"
  unfolding createProfile_def persistProfile_def
  by (intro always_rules always_with_retry keeps_stmt always_reads [OF reads_of_result] always_reads [OF reads_ret])
    (rule insert_ok)

lemma update_always: "always db_ok (updateProfile K i v)"
  unfolding updateProfile_def persistProfile_def getProfile_def
  by (intro always_rules always_with_retry keeps_stmt always_reads [OF reads_of_result] always_reads [OF reads_first])
    (rule write_ok)

lemma delete_always: "always db_ok (deleteProfile K i)"
  unfolding deleteProfile_def persistProfile_def
  by (intro always_rules always_with_retry keeps_bnd keeps_guard keeps_stmt) (rule delete_ok)

lemma create_result:
  assumes "createProfile K v w = (Inr p, w')"
  shows "pk_rows K (db w') = pk_rows K (db w) @ [p]"
    and "\<exists>q i. v = Inr q \<and> p = pk_rekey K i q \<and> pk_Name K q \<notin> pk_Name K ` set (pk_rows K (db w))"
proof -
  from assms obtain q i where q: "v = Inr q" "with_retry (stmt (pk_insert K q)) w = (Inr i, w')" "p = pk_rekey K i q"
    by (auto simp: createProfile_def persistProfile_def elim!: bnd_InrE)
  from q(2) obtain w1 w2 where r: "db w1 = db w" "stmt (pk_insert K q) w1 = (Inr i, w2)" "db w' = db w2"
    by (rule with_retry_InrE)
  from insert_rows [OF stmt_InrD [OF r(2)]] q r(1,3) show "pk_rows K (db w') = pk_rows K (db w) @ [p]"
    and "\<exists>q i. v = Inr q \<and> p = pk_rekey K i q \<and> pk_Name K q \<notin> pk_Name K ` set (pk_rows K (db w))"
    by auto
qed

lemma delete_result:
  assumes "deleteProfile K i w = (Inr (), w')"
  shows "pk_rows K (db w') = delete_where (\<lambda>p. pk_ID K p = i) (pk_rows K (db w))"
    and "\<exists>p\<in>set (pk_rows K (db w)). pk_ID K p = i"
proof -
  from assms have "with_retry (bnd (stmt (pk_delete K i)) (\<lambda>n. guard (n \<noteq> 0) (Sentinel ErrRecordNotFound))) w = (Inr (), w')"
    by (simp add: deleteProfile_def persistProfile_def)
  then obtain w1 w2 n where r: "db w1 = db w" "stmt (pk_delete K i) w1 = (Inr n, w2)" "n \<noteq> 0" "db w' = db w2"
    by (elim with_retry_InrE) (auto elim!: bnd_InrE)
  from delete_rows [OF stmt_InrD [OF r(2)]] r(1,3,4) show "pk_rows K (db w') = delete_where (\<lambda>p. pk_ID K p = i) (pk_rows K (db w))"
    and "\<exists>p\<in>set (pk_rows K (db w)). pk_ID K p = i"
    by (auto simp: count_where_0)
qed

end

lemma update_mailers_ok:
  assumes "db_ok d" "update_mailers p f d = Inr (n, d')" "\<And>m. mp_ID (f m) = mp_ID m"
  shows "db_ok d'"
proof -
  have d: "d' = d\<lparr>mailers := update_where p f (mailers d)\<rparr>" and u: "distinct (map mp_Name (update_where p f (mailers d)))"
    using assms(2) by (auto simp: update_mailers_def split: if_splits)
  have "map mp_ID (update_where p f (mailers d)) = map mp_ID (mailers d)" by (simp add: map_update_where assms(3))
  then have ids: "mp_ID ` set (update_where p f (mailers d)) = mp_ID ` set (mailers d)" by (metis list.set_map)
  show ?thesis using assms(1) u unfolding d db_ok_defs by (simp add: ids keys_ok_update assms(3))
qed

lemma update_captchas_ok:
  assumes "db_ok d" "update_captchas p f d = Inr (n, d')" "\<And>m. cp_ID (f m) = cp_ID m"
  shows "db_ok d'"
proof -
  have d: "d' = d\<lparr>captchas := update_where p f (captchas d)\<rparr>" and u: "distinct (map cp_Name (update_where p f (captchas d)))"
    using assms(2) by (auto simp: update_captchas_def split: if_splits)
  have "map cp_ID (update_where p f (captchas d)) = map cp_ID (captchas d)" by (simp add: map_update_where assms(3))
  then have ids: "cp_ID ` set (update_where p f (captchas d)) = cp_ID ` set (captchas d)" by (metis list.set_map)
  show ?thesis using assms(1) u unfolding d db_ok_defs by (simp add: ids keys_ok_update assms(3))
qed

interpretation mailer_store: profile_store mailer_kind
proof unfold_locales
  show "db_ok d'" if "db_ok d" "pk_insert mailer_kind p d = Inr (i, d')" for d p i d'
    using insert_mailer_ok [of d p i d'] that by (simp add: mailer_kind_def)
  show "db_ok d'" if "db_ok d" "pk_write mailer_kind i p d = Inr (n, d')" for d i p n d'
    using that by (auto simp: mailer_kind_def mailerValues_def intro: update_mailers_ok)
  show "db_ok d'" if "db_ok d" "pk_delete mailer_kind i d = Inr (n, d')" for d i n d'
    using delete_mailer_ok [of d i n d'] that by (simp add: mailer_kind_def)
  show "pk_rows mailer_kind d' = pk_rows mailer_kind d @ [pk_rekey mailer_kind i p] \<and> pk_Name mailer_kind p \<notin> pk_Name mailer_kind ` set (pk_rows mailer_kind d)"
    if "pk_insert mailer_kind p d = Inr (i, d')" for p d i d'
    using that by (auto simp: mailer_kind_def insert_mailer_def Let_def taken_iff split: if_splits)
  show "pk_rows mailer_kind d' = delete_where (\<lambda>p. pk_ID mailer_kind p = i) (pk_rows mailer_kind d)
      \<and> n = count_where (\<lambda>p. pk_ID mailer_kind p = i) (pk_rows mailer_kind d)"
    if "pk_delete mailer_kind i d = Inr (n, d')" for i d n d'
    using that by (auto simp: mailer_kind_def delete_mailer_def split: if_splits)
qed

interpretation captcha_store: profile_store captcha_kind
proof unfold_locales
  show "db_ok d'" if "db_ok d" "pk_insert captcha_kind p d = Inr (i, d')" for d p i d'
    using insert_captcha_ok [of d p i d'] that by (simp add: captcha_kind_def)
  show "db_ok d'" if "db_ok d" "pk_write captcha_kind i p d = Inr (n, d')" for d i p n d'
    using that by (auto simp: captcha_kind_def captchaValues_def intro: update_captchas_ok)
  show "db_ok d'" if "db_ok d" "pk_delete captcha_kind i d = Inr (n, d')" for d i n d'
    using delete_captcha_ok [of d i n d'] that by (simp add: captcha_kind_def)
  show "pk_rows captcha_kind d' = pk_rows captcha_kind d @ [pk_rekey captcha_kind i p] \<and> pk_Name captcha_kind p \<notin> pk_Name captcha_kind ` set (pk_rows captcha_kind d)"
    if "pk_insert captcha_kind p d = Inr (i, d')" for p d i d'
    using that by (auto simp: captcha_kind_def insert_captcha_def Let_def taken_iff split: if_splits)
  show "pk_rows captcha_kind d' = delete_where (\<lambda>p. pk_ID captcha_kind p = i) (pk_rows captcha_kind d)
      \<and> n = count_where (\<lambda>p. pk_ID captcha_kind p = i) (pk_rows captcha_kind d)"
    if "pk_delete captcha_kind i d = Inr (n, d')" for i d n d'
    using that by (auto simp: captcha_kind_def delete_captcha_def split: if_splits)
qed

end
