(* ===== verification/Smtp.thy ===== *)
theory Smtp
  imports Templates Go_Num
begin

text \<open>
  Outgoing mail: \<open>internal/jobs/smtp.go\<close>. The conversation with the server is a program over the
  list of commands sent so far; what the server, the network and the TLS library answer is the
  record \<open>smtp_server\<close>, a function of that list. The MIME encoders of the standard library are
  the record \<open>mimelib\<close>. Closing connections has no effect here; writing to a memory buffer cannot
  fail, so the error branches of the part writers do not arise.
\<close>

section \<open>The conversation\<close>

datatype smtp_command =
    SDial string
  | SHandshake string
  | SGreeting
  | SStartTLS string
  | SAuth string string
  | SMail string
  | SRcpt string
  | SData
  | SBody string
  | SEndData
  | SQuit

text \<open>
  \<open>sv_answer\<close>: the answer to a command after the earlier ones (\<open>None\<close> is success); \<open>sv_context\<close>:
  \<open>ctx.Err()\<close> when it is looked at after these commands; \<open>sv_deadline\<close>: setting the deadline failed.
\<close>

record smtp_server =
  sv_answer :: "smtp_command list \<Rightarrow> smtp_command \<Rightarrow> err option"
  sv_context :: "smtp_command list \<Rightarrow> err option"
  sv_deadline :: "err option"

record smtpConfig =
  sm_Host :: string
  sm_Port :: int
  sm_Username :: string
  sm_Password :: string
  sm_Encryption :: string
  sm_From :: string
  sm_Recipients :: "string list"

record outboundEmail =
  ob_From :: string
  ob_To :: "string list"
  ob_ReplyTo :: string
  ob_Subject :: string
  ob_Format :: string
  ob_TextBody :: string
  ob_HTMLBody :: string

record mimelib =
  ml_boundary :: string
  ml_media_type :: "string \<Rightarrow> string \<Rightarrow> string"
  ml_multipart :: "string \<Rightarrow> (string \<times> string) list \<Rightarrow> string"
  ml_quoted_printable :: "string \<Rightarrow> string"
  ml_q_encoding :: "string \<Rightarrow> string"
  ml_rfc1123z :: "gotime \<Rightarrow> string"
  ml_text :: string

type_synonym 'a talk = "smtp_command list \<Rightarrow> (err + 'a) \<times> smtp_command list"

definition smtpIOError :: "smtp_server \<Rightarrow> smtp_command list \<Rightarrow> string \<Rightarrow> err \<Rightarrow> err" where
  "smtpIOError V tr operation e = Wrap operation (case sv_context V tr of Some c \<Rightarrow> c | None \<Rightarrow> e)"

definition say :: "smtp_server \<Rightarrow> string \<Rightarrow> smtp_command \<Rightarrow> unit talk" where
  "say V operation c = (\<lambda>tr.
     (case sv_answer V tr c of
        None \<Rightarrow> Inr ()
      | Some e \<Rightarrow> Inl (smtpIOError V (tr @ [c]) operation e), tr @ [c]))"

definition talk_then :: "'a talk \<Rightarrow> ('a \<Rightarrow> 'b talk) \<Rightarrow> 'b talk" where
  "talk_then m f = (\<lambda>tr. case m tr of (Inl e, tr') \<Rightarrow> (Inl e, tr') | (Inr x, tr') \<Rightarrow> f x tr')"

definition talk_result :: "err + 'a \<Rightarrow> 'a talk" where
  "talk_result r = (\<lambda>tr. (r, tr))"

fun say_each :: "smtp_server \<Rightarrow> string \<Rightarrow> smtp_command list \<Rightarrow> unit talk" where
  "say_each V operation [] = talk_result (Inr ())"
| "say_each V operation (c # cs) = talk_then (say V operation c) (\<lambda>_. say_each V operation cs)"

definition join_host_port :: "string \<Rightarrow> int \<Rightarrow> string" where
  "join_host_port host port =
     (if CHR '':'' \<in> set host then ''['' @ host @ '']:'' @ itoa port else host @ '':'' @ itoa port)"

definition openSMTP :: "smtp_server \<Rightarrow> smtpConfig \<Rightarrow> unit talk" where
  "openSMTP V config =
     talk_then (say V ''connect SMTP'' (SDial (join_host_port (sm_Host config) (sm_Port config)))) (\<lambda>_.
     talk_then (\<lambda>tr. (case sv_deadline V of
                        None \<Rightarrow> Inr () | Some e \<Rightarrow> Inl (smtpIOError V tr ''set SMTP deadline'' e), tr)) (\<lambda>_.
     talk_then (if sm_Encryption config = ''tls'' then say V ''negotiate SMTP TLS'' (SHandshake (sm_Host config))
                else talk_result (Inr ())) (\<lambda>_.
     say V ''initialize SMTP'' SGreeting)))"

definition envelopeAddress :: "golib \<Rightarrow> string \<Rightarrow> err + string" where
  "envelopeAddress L value =
     (case lib_parse_address L (trim_space value) of
        None \<Rightarrow> Inl (Plain ''mail: invalid address'')
      | Some (_, address) \<Rightarrow> Inr address)"

fun envelope_each :: "golib \<Rightarrow> string list \<Rightarrow> err + string list" where
  "envelope_each L [] = Inr []"
| "envelope_each L (r # rs) =
     (case envelopeAddress L r of
        Inl e \<Rightarrow> Inl (Wrap ''invalid recipient'' e)
      | Inr a \<Rightarrow> rbind (envelope_each L rs) (\<lambda>addresses. Inr (a # addresses)))"

definition smtp_envelope :: "golib \<Rightarrow> smtpConfig \<Rightarrow> err + (string \<times> string list)" where
  "smtp_envelope L config =
     (case envelopeAddress L (sm_From config) of
        Inl e \<Rightarrow> Inl (Wrap ''invalid sender'' e)
      | Inr from_addr \<Rightarrow>
          if sm_Recipients config = [] then Inl (Plain ''recipient missing'')
          else rbind (envelope_each L (sm_Recipients config)) (\<lambda>recipients. Inr (from_addr, recipients)))"

definition smtp_secure :: "smtp_server \<Rightarrow> smtpConfig \<Rightarrow> unit talk" where
  "smtp_secure V config =
     (if sm_Encryption config = ''starttls'' then say V ''start SMTP TLS'' (SStartTLS (sm_Host config))
      else talk_result (Inr ()))"

definition smtp_login :: "smtp_server \<Rightarrow> smtpConfig \<Rightarrow> unit talk" where
  "smtp_login V config =
     (if sm_Username config \<noteq> [] then say V ''authenticate SMTP'' (SAuth (sm_Username config) (sm_Password config))
      else talk_result (Inr ()))"

definition smtp_transfer :: "smtp_server \<Rightarrow> string \<Rightarrow> string list \<Rightarrow> string \<Rightarrow> unit talk" where
  "smtp_transfer V from_addr recipients message =
     talk_then (say V ''set SMTP sender'' (SMail from_addr)) (\<lambda>_.
     talk_then (say_each V ''set SMTP recipient'' (map SRcpt recipients)) (\<lambda>_.
     talk_then (say V ''start SMTP data'' SData) (\<lambda>_.
     talk_then (say V ''write SMTP data'' (SBody message)) (\<lambda>_.
     say V ''finish SMTP data'' SEndData))))"

text \<open>The answer to \<open>QUIT\<close> is ignored.\<close>

definition smtp_quit :: "unit talk" where
  "smtp_quit = (\<lambda>tr. (Inr (), tr @ [SQuit]))"

definition sendSMTP :: "golib \<Rightarrow> smtp_server \<Rightarrow> smtpConfig \<Rightarrow> string \<Rightarrow> unit talk" where
  "sendSMTP L V config message =
     talk_then (openSMTP V config) (\<lambda>_.
     talk_then (smtp_secure V config) (\<lambda>_.
     talk_then (smtp_login V config) (\<lambda>_.
     talk_then (talk_result (smtp_envelope L config)) (\<lambda>(from_addr, recipients).
     talk_then (smtp_transfer V from_addr recipients message) (\<lambda>_.
     smtp_quit)))))"

section \<open>The message\<close>

definition safeHeader :: "string \<Rightarrow> string" where
  "safeHeader value = join '' '' (fields_runes is_space_rune (replace_char (CHR 0x00) [] value))"

definition recipientHeader :: "string list \<Rightarrow> string" where
  "recipientHeader recipients = join [CHR '','', CHR 0x0D, CHR 0x0A, CHR 0x09] (map safeHeader recipients)"

definition crlf :: "string \<Rightarrow> string" where
  "crlf value =
     replace_char (CHR 0x0A) [CHR 0x0D, CHR 0x0A]
       (replace_char (CHR 0x0D) [CHR 0x0A] (replace_all [CHR 0x0D, CHR 0x0A] [CHR 0x0A] value))"

definition eol :: string where
  "eol = [CHR 0x0D, CHR 0x0A]"

definition message_domain :: "string \<Rightarrow> string" where
  "message_domain sender = rev (takeWhile (\<lambda>c. c \<noteq> CHR ''@'') (rev sender))"

definition writeQuotedPrintable :: "mimelib \<Rightarrow> string \<Rightarrow> string" where
  "writeQuotedPrintable E body = ml_quoted_printable E (crlf body)"

text \<open>A part has its content type and its encoded body; the transfer encoding is always the same.\<close>

definition writeEmailPart :: "mimelib \<Rightarrow> string \<Rightarrow> string \<Rightarrow> string \<times> string" where
  "writeEmailPart E contentType body = (contentType, writeQuotedPrintable E body)"

text \<open>Body, content type and transfer encoding.\<close>

definition message_body :: "mimelib \<Rightarrow> string \<Rightarrow> outboundEmail \<Rightarrow> string \<times> string \<times> string" where
  "message_body E format email =
     (if format = ''html''
      then (ml_multipart E (ml_boundary E)
              [writeEmailPart E ''text/plain; charset=utf-8'' (ob_TextBody email),
               writeEmailPart E ''text/html; charset=utf-8'' (ob_HTMLBody email)],
            ml_media_type E ''multipart/alternative'' (ml_boundary E), [])
      else (writeQuotedPrintable E (ob_TextBody email), ''text/plain; charset=utf-8'', ''quoted-printable''))"

definition reply_to_line :: "golib \<Rightarrow> string \<Rightarrow> err + string" where
  "reply_to_line L replyTo =
     (if replyTo = [] then Inr []
      else if list_ex header_break replyTo then Inl (Plain ''invalid Reply-To header'')
      else (case lib_parse_address L replyTo of
              None \<Rightarrow> Inl (Wrap ''invalid Reply-To header'' (Plain ''mail: invalid address''))
            | Some a \<Rightarrow> Inr (''Reply-To: '' @ lib_address_string L a @ eol)))"

definition message_headers :: "mimelib \<Rightarrow> gotime \<Rightarrow> outboundEmail \<Rightarrow> string \<Rightarrow> string \<Rightarrow> string \<Rightarrow> string \<Rightarrow> string" where
  "message_headers E now email replyLine domain contentType transferEncoding =
     ''From: '' @ safeHeader (ob_From email) @ eol
     @ ''To: '' @ recipientHeader (ob_To email) @ eol
     @ replyLine
     @ ''Subject: '' @ ml_q_encoding E (safeHeader (ob_Subject email)) @ eol
     @ ''Date: '' @ ml_rfc1123z E now @ eol
     @ ''Message-ID: <'' @ ml_text E @ ''@'' @ domain @ ''>'' @ eol
     @ ''MIME-Version: 1.0'' @ eol
     @ ''Content-Type: '' @ contentType @ eol
     @ (if transferEncoding = [] then [] else ''Content-Transfer-Encoding: '' @ transferEncoding @ eol)"

definition buildSMTPMessage :: "golib \<Rightarrow> mimelib \<Rightarrow> gotime \<Rightarrow> outboundEmail \<Rightarrow> err + string" where
  "buildSMTPMessage L E now email =
     (case envelopeAddress L (ob_From email) of
        Inl e \<Rightarrow> Inl (Wrap ''invalid sender'' e)
      | Inr sender \<Rightarrow>
          rbind (NormalizeEmailFormat L (ob_Format email)) (\<lambda>format.
          case message_body E format email of (body, contentType, transferEncoding) \<Rightarrow>
          rbind (reply_to_line L (ob_ReplyTo email)) (\<lambda>replyLine.
          Inr (message_headers E now email replyLine (message_domain sender) contentType transferEncoding
               @ eol @ body @ (if suffix eol body then [] else eol)))))"

end
