(* ===== verification/Config.thy ===== *)
theory Config
  imports Go_Num Go_Errors
begin

text \<open>
  The configuration of \<open>internal/config/config.go\<close>: reading and validating the environment. The
  process environment is a function from names to values (the empty string when unset), what
  \<open>godotenv.Load\<close> reports and what \<open>rand.Text\<close> gives are arguments, and the names of the
  environments of the cartridge framework are the fields of \<open>cartridge\<close>.
\<close>

record cartridge =
  ca_Development :: string
  ca_Production :: string
  ca_Test :: string
  ca_IsProduction :: "string \<Rightarrow> bool"
  ca_IsDevelopment :: "string \<Rightarrow> bool"
  ca_IsTest :: "string \<Rightarrow> bool"

record WebhookConfig =
  wc_SignatureHeader :: string
  wc_RetryLimit :: int
  wc_BackoffSchedule :: string

record Config =
  cf_AppName :: string
  cf_Environment :: string
  cf_Port :: string
  cf_LogLevel :: string
  cf_DataDirectory :: string
  cf_DatabaseFilename :: string
  cf_DatabasePath :: string
  cf_LogsDirectory :: string
  cf_LogsMaxSizeMB :: int
  cf_LogsMaxBackups :: int
  cf_LogsMaxAgeDays :: int
  cf_SessionSecret :: string
  cf_SessionTimeout :: int
  cf_MaxInputFields :: int
  cf_MaxPayloadBytes :: int
  cf_MaxUploadStorageBytes :: int
  cf_RequestConcurrency :: int
  cf_PublicGlobalRateLimit :: int
  cf_Webhook :: WebhookConfig

datatype ProxyMode = ProxyDirect | ProxyMatcha | ProxyRailway

definition appName :: string where
  "appName = ''miniform''"

type_synonym env = "string \<Rightarrow> string"

definition envOr :: "env \<Rightarrow> string \<Rightarrow> string \<Rightarrow> string" where
  "envOr env key fallback = (let value = trim_space (env key) in if value \<noteq> [] then value else fallback)"

definition not_positive :: "golib \<Rightarrow> string \<Rightarrow> string \<Rightarrow> err" where
  "not_positive L key raw = Plain (''invalid '' @ key @ '' value '' @ lib_quote L raw @ '': must be a positive integer'')"

definition positiveEnvInt :: "golib \<Rightarrow> env \<Rightarrow> string \<Rightarrow> int \<Rightarrow> err + int" where
  "positiveEnvInt L env key fallback =
     (let raw = trim_space (env key) in
      if raw = [] then Inr fallback
      else (case atoi raw of
              None \<Rightarrow> Inl (not_positive L key raw)
            | Some value \<Rightarrow> if value \<le> 0 then Inl (not_positive L key raw) else Inr value))"

text \<open>\<open>positiveEnvInt64\<close>: \<open>strconv.ParseInt\<close> on 64 bits reads what \<open>Atoi\<close> reads.\<close>

definition positiveEnvInt64 :: "golib \<Rightarrow> env \<Rightarrow> string \<Rightarrow> int \<Rightarrow> err + int" where
  "positiveEnvInt64 L env key fallback =
     (let raw = trim_space (env key) in
      if raw = [] then Inr fallback
      else (case atoi raw of
              None \<Rightarrow> Inl (not_positive L key raw)
            | Some value \<Rightarrow> if value \<le> 0 then Inl (not_positive L key raw) else Inr value))"

definition normalizeLogLevel :: "golib \<Rightarrow> string \<Rightarrow> err + string" where
  "normalizeLogLevel L value =
     (let v = to_lower L (trim_space value) in
      if v = ''debug'' then Inr ''debug''
      else if v = ''info'' then Inr ''info''
      else if v = ''warn'' \<or> v = ''warning'' then Inr ''warn''
      else if v = ''error'' then Inr ''error''
      else Inl (Plain (''unsupported value '' @ lib_quote L value)))"

fun positive_items :: "string list \<Rightarrow> err + int list" where
  "positive_items [] = Inr []"
| "positive_items (item # items) =
     (case atoi (trim_space item) of
        None \<Rightarrow> Inl (Plain ''all delays must be positive integers'')
      | Some seconds \<Rightarrow>
          if seconds \<le> 0 then Inl (Plain ''all delays must be positive integers'')
          else rbind (positive_items items) (\<lambda>schedule. Inr (seconds # schedule)))"

definition parsePositiveInts :: "string \<Rightarrow> err + int list" where
  "parsePositiveInts value = positive_items (split_on (CHR '','') value)"

definition WebhookBackoff :: "Config \<Rightarrow> int list" where
  "WebhookBackoff cfg =
     (case parsePositiveInts (wc_BackoffSchedule (cf_Webhook cfg)) of
        Inl _ \<Rightarrow> [1, 5, 15, 60]
      | Inr schedule \<Rightarrow> schedule)"

definition environmentDatabasePath :: "string \<Rightarrow> string \<Rightarrow> string \<Rightarrow> string" where
  "environmentDatabasePath directory filename environment =
     (let extension = path_ext filename;
          base = trim_suffix extension filename;
          ext = (if extension = [] then ''.db'' else extension)
      in path_join directory (base @ ''.'' @ environment @ ext))"

text \<open>The parts of \<open>Load\<close>, in its order.\<close>

definition load_environment :: "golib \<Rightarrow> cartridge \<Rightarrow> env \<Rightarrow> err + string" where
  "load_environment L C env =
     (let environment = envOr env ''MINIFORM_ENV'' (ca_Development C) in
      if environment \<noteq> ca_Development C \<and> environment \<noteq> ca_Production C \<and> environment \<noteq> ca_Test C
      then Inl (Plain (''invalid MINIFORM_ENV value '' @ lib_quote L environment))
      else Inr environment)"

definition load_database_path :: "env \<Rightarrow> string \<Rightarrow> string \<Rightarrow> string \<Rightarrow> err + string" where
  "load_database_path env dataDirectory databaseFilename environment =
     (let databasePath = trim_space (env ''MINIFORM_DATABASE_PATH'') in
      if databasePath \<noteq> [] then Inr databasePath
      else if databaseFilename = ''.'' \<or> databaseFilename = ''..'' \<or> path_is_abs databaseFilename
              \<or> path_base databaseFilename \<noteq> databaseFilename
      then Inl (Plain ''MINIFORM_DATABASE_FILENAME must be a filename; use MINIFORM_DATABASE_PATH for a path'')
      else Inr (environmentDatabasePath dataDirectory databaseFilename environment))"

definition load_session_secret :: "cartridge \<Rightarrow> env \<Rightarrow> string \<Rightarrow> string \<Rightarrow> err + string" where
  "load_session_secret C env fresh environment =
     (let first = trim_space (env ''MINIFORM_SESSION_SECRET'');
          secret = (if first = [] then trim_space (env ''PRIVATE_KEY'') else first)
      in if secret = [] \<and> environment = ca_Production C
         then Inl (Plain ''MINIFORM_SESSION_SECRET is required in production'')
         else if environment = ca_Production C \<and> length secret < 32
         then Inl (Plain ''MINIFORM_SESSION_SECRET must be at least 32 characters in production'')
         else Inr (if secret = [] then fresh else secret))"

definition load_log_level :: "golib \<Rightarrow> cartridge \<Rightarrow> env \<Rightarrow> string \<Rightarrow> err + string" where
  "load_log_level L C env environment =
     (case normalizeLogLevel L (envOr env ''MINIFORM_LOG_LEVEL''
             (if environment = ca_Production C then ''error'' else ''info'')) of
        Inl e \<Rightarrow> Inl (Wrap ''invalid MINIFORM_LOG_LEVEL'' e)
      | Inr level \<Rightarrow> Inr level)"

definition load_port :: "golib \<Rightarrow> env \<Rightarrow> err + string" where
  "load_port L env =
     (let port = envOr env ''MINIFORM_PORT'' ''8080'';
          bad = Plain (''invalid MINIFORM_PORT value '' @ lib_quote L port)
      in case atoi port of
           None \<Rightarrow> Inl bad
         | Some n \<Rightarrow> if n < 1 \<or> n > 65535 then Inl bad else Inr port)"

definition load_signature_header :: "golib \<Rightarrow> env \<Rightarrow> err + string" where
  "load_signature_header L env =
     (let header = envOr env ''MINIFORM_WEBHOOK_SIGNATURE_HEADER'' ''X-Miniform-Signature'' in
      if \<not> lib_header_name L header
      then Inl (Plain (''invalid MINIFORM_WEBHOOK_SIGNATURE_HEADER value '' @ lib_quote L header))
      else Inr header)"

definition load_backoff :: "golib \<Rightarrow> env \<Rightarrow> err + string" where
  "load_backoff L env =
     (let schedule = envOr env ''MINIFORM_WEBHOOK_BACKOFF_SCHEDULE'' ''1,5,15,60'' in
      case parsePositiveInts schedule of
        Inl e \<Rightarrow> Inl (Wrap (''invalid MINIFORM_WEBHOOK_BACKOFF_SCHEDULE value '' @ lib_quote L schedule) e)
      | Inr _ \<Rightarrow> Inr schedule)"

definition Load :: "golib \<Rightarrow> cartridge \<Rightarrow> err option \<Rightarrow> env \<Rightarrow> string \<Rightarrow> err + Config" where
  "Load L C dotenv env fresh =
     (case (case dotenv of Some e \<Rightarrow> if err_is ErrNotExist e then None else Some e | None \<Rightarrow> None) of
        Some e \<Rightarrow> Inl (Wrap ''load .env'' e)
      | None \<Rightarrow>
     rbind (load_environment L C env) (\<lambda>environment.
     let dataDirectory = envOr env ''MINIFORM_DATA_DIR'' ''storage'';
         databaseFilename = envOr env ''MINIFORM_DATABASE_FILENAME'' (appName @ ''.db'') in
     rbind (load_database_path env dataDirectory databaseFilename environment) (\<lambda>databasePath.
     rbind (load_session_secret C env fresh environment) (\<lambda>sessionSecret.
     rbind (load_log_level L C env environment) (\<lambda>logLevel.
     rbind (load_port L env) (\<lambda>port.
     rbind (load_signature_header L env) (\<lambda>signatureHeader.
     rbind (positiveEnvInt L env ''MINIFORM_SESSION_TIMEOUT_SECONDS'' 604800) (\<lambda>sessionTimeout.
     rbind (positiveEnvInt L env ''MINIFORM_MAX_INPUT_FIELDS'' 200) (\<lambda>maxInputFields.
     rbind (positiveEnvInt L env ''MINIFORM_MAX_PAYLOAD_BYTES'' (64 * 1024)) (\<lambda>maxPayloadBytes.
     rbind (positiveEnvInt64 L env ''MINIFORM_MAX_UPLOAD_STORAGE_BYTES'' (1024 * 1024 * 1024)) (\<lambda>maxUploadStorageBytes.
     rbind (positiveEnvInt L env ''MINIFORM_REQUEST_CONCURRENCY'' 32) (\<lambda>requestConcurrency.
     rbind (positiveEnvInt L env ''MINIFORM_PUBLIC_GLOBAL_RATE_LIMIT'' 120) (\<lambda>publicGlobalRateLimit.
     rbind (positiveEnvInt L env ''MINIFORM_WEBHOOK_RETRY_LIMIT'' 3) (\<lambda>webhookRetryLimit.
     rbind (load_backoff L env) (\<lambda>backoff.
     Inr \<lparr>cf_AppName = appName, cf_Environment = environment, cf_Port = port, cf_LogLevel = logLevel,
          cf_DataDirectory = dataDirectory, cf_DatabaseFilename = databaseFilename, cf_DatabasePath = databasePath,
          cf_LogsDirectory = envOr env ''MINIFORM_LOGS_DIR'' (path_join dataDirectory ''logs''),
          cf_LogsMaxSizeMB = 20, cf_LogsMaxBackups = 10, cf_LogsMaxAgeDays = 30,
          cf_SessionSecret = sessionSecret, cf_SessionTimeout = sessionTimeout,
          cf_MaxInputFields = maxInputFields, cf_MaxPayloadBytes = maxPayloadBytes,
          cf_MaxUploadStorageBytes = maxUploadStorageBytes, cf_RequestConcurrency = requestConcurrency,
          cf_PublicGlobalRateLimit = publicGlobalRateLimit,
          cf_Webhook = \<lparr>wc_SignatureHeader = signatureHeader, wc_RetryLimit = webhookRetryLimit,
                        wc_BackoffSchedule = backoff\<rparr>\<rparr>)))))))))))))))"

definition IsProduction :: "cartridge \<Rightarrow> Config \<Rightarrow> bool" where
  "IsProduction C cfg = ca_IsProduction C (cf_Environment cfg)"

definition ProxyMode_of :: "cartridge \<Rightarrow> env \<Rightarrow> Config \<Rightarrow> ProxyMode" where
  "ProxyMode_of C env cfg =
     (if \<not> IsProduction C cfg then ProxyDirect
      else if trim_space (env ''RAILWAY_ENVIRONMENT_ID'') \<noteq> [] then ProxyRailway
      else if trim_space (env ''MATCHA_MANAGER_VERSION'') \<noteq> [] then ProxyMatcha
      else ProxyDirect)"

definition SessionCookieName :: "cartridge \<Rightarrow> Config \<Rightarrow> string" where
  "SessionCookieName C cfg =
     (if IsProduction C cfg then ''__Host-'' @ cf_AppName cfg @ ''_session'' else cf_AppName cfg @ ''_session'')"

text \<open>\<open>EnsureDirectories\<close>, with the outcome of \<open>os.MkdirAll\<close> per directory as an argument.\<close>

fun ensure_each :: "golib \<Rightarrow> (string \<Rightarrow> err option) \<Rightarrow> string list \<Rightarrow> err + unit" where
  "ensure_each L mkdir [] = Inr ()"
| "ensure_each L mkdir (directory # ds) =
     (case mkdir directory of
        Some e \<Rightarrow> Inl (Wrap (''create directory '' @ lib_quote L directory) e)
      | None \<Rightarrow> ensure_each L mkdir ds)"

definition EnsureDirectories :: "golib \<Rightarrow> (string \<Rightarrow> err option) \<Rightarrow> Config \<Rightarrow> err + unit" where
  "EnsureDirectories L mkdir cfg =
     ensure_each L mkdir [cf_DataDirectory cfg, cf_LogsDirectory cfg, path_dir (cf_DatabasePath cfg)]"

section \<open>What a loaded configuration satisfies\<close>

lemma envOr_nonempty: "fallback \<noteq> [] \<Longrightarrow> envOr env key fallback \<noteq> []"
  by (simp add: envOr_def Let_def)

lemma positiveEnvInt_pos: "positiveEnvInt L env key fallback = Inr n \<Longrightarrow> 0 < fallback \<Longrightarrow> in_int64 fallback \<Longrightarrow> 0 < n \<and> in_int64 n"
  by (auto simp: positiveEnvInt_def Let_def dest: atoi_range split: if_splits option.splits)

lemma positiveEnvInt64_pos: "positiveEnvInt64 L env key fallback = Inr n \<Longrightarrow> 0 < fallback \<Longrightarrow> in_int64 fallback \<Longrightarrow> 0 < n \<and> in_int64 n"
  by (auto simp: positiveEnvInt64_def Let_def dest: atoi_range split: if_splits option.splits)

lemma positive_items_result:
  "positive_items items = Inr ns \<Longrightarrow> length ns = length items \<and> (\<forall>n\<in>set ns. 0 < n \<and> in_int64 n)"
  by (induction items arbitrary: ns)
    (auto simp: rbind_Inr_iff dest: atoi_range split: option.splits if_splits)

lemma parsePositiveInts_result:
  assumes "parsePositiveInts v = Inr ns"
  shows "ns \<noteq> [] \<and> (\<forall>n\<in>set ns. 0 < n \<and> in_int64 n)"
  using positive_items_result [OF assms [unfolded parsePositiveInts_def]] by auto

lemma WebhookBackoff_positive: "WebhookBackoff cfg \<noteq> [] \<and> (\<forall>n\<in>set (WebhookBackoff cfg). 0 < n \<and> in_int64 n)"
  by (auto simp: WebhookBackoff_def in_int64_def dest: parsePositiveInts_result split: sum.splits)

lemma Load_parts:
  assumes "Load L C dotenv env fresh = Inr cfg"
  shows "load_environment L C env = Inr (cf_Environment cfg)"
    "load_database_path env (cf_DataDirectory cfg) (cf_DatabaseFilename cfg) (cf_Environment cfg) = Inr (cf_DatabasePath cfg)"
    "load_session_secret C env fresh (cf_Environment cfg) = Inr (cf_SessionSecret cfg)"
    "load_log_level L C env (cf_Environment cfg) = Inr (cf_LogLevel cfg)"
    "load_port L env = Inr (cf_Port cfg)"
    "load_signature_header L env = Inr (wc_SignatureHeader (cf_Webhook cfg))"
    "load_backoff L env = Inr (wc_BackoffSchedule (cf_Webhook cfg))"
    "positiveEnvInt L env ''MINIFORM_SESSION_TIMEOUT_SECONDS'' 604800 = Inr (cf_SessionTimeout cfg)"
    "positiveEnvInt L env ''MINIFORM_MAX_INPUT_FIELDS'' 200 = Inr (cf_MaxInputFields cfg)"
    "positiveEnvInt L env ''MINIFORM_MAX_PAYLOAD_BYTES'' (64 * 1024) = Inr (cf_MaxPayloadBytes cfg)"
    "positiveEnvInt64 L env ''MINIFORM_MAX_UPLOAD_STORAGE_BYTES'' (1024 * 1024 * 1024) = Inr (cf_MaxUploadStorageBytes cfg)"
    "positiveEnvInt L env ''MINIFORM_REQUEST_CONCURRENCY'' 32 = Inr (cf_RequestConcurrency cfg)"
    "positiveEnvInt L env ''MINIFORM_PUBLIC_GLOBAL_RATE_LIMIT'' 120 = Inr (cf_PublicGlobalRateLimit cfg)"
    "positiveEnvInt L env ''MINIFORM_WEBHOOK_RETRY_LIMIT'' 3 = Inr (wc_RetryLimit (cf_Webhook cfg))"
  using assms unfolding Load_def Let_def by (auto simp: rbind_Inr_iff split: option.splits)

end
