(* ===== verification/Delivery_Queue.thy ===== *)
theory Delivery_Queue
  imports Integrations Smtp Config
begin

text \<open>
  The background dispatchers of \<open>internal/jobs\<close>: leases and retries (\<open>retry.go\<close>), the e-mail
  and webhook dispatchers (\<open>email.go\<close>, \<open>webhook.go\<close>) and the loop that runs them (\<open>runner.go\<close>).
  What the network and the libraries do is the record \<open>netlib\<close>. Log lines have no effect.
\<close>

section \<open>Retry plans\<close>

definition deliveryLease :: int where
  "deliveryLease = 60 * 1000000000"

definition deliveryBatchSize :: int where
  "deliveryBatchSize = 10"

definition storedErrorLimit :: nat where
  "storedErrorLimit = 500"

definition DefaultRetryLimit :: int where
  "DefaultRetryLimit = 3"

record retryPlan =
  rp_delays :: "int list"
  rp_limit :: int

definition newRetryPlan :: "Config \<Rightarrow> retryPlan" where
  "newRetryPlan cfg =
     \<lparr>rp_delays = map (\<lambda>delay. wrap64 (delay * 1000000000)) (WebhookBackoff cfg),
      rp_limit = (if wc_RetryLimit (cf_Webhook cfg) < 1 then DefaultRetryLimit else wc_RetryLimit (cf_Webhook cfg))\<rparr>"

definition next_attempt :: "retryPlan \<Rightarrow> int \<Rightarrow> gotime \<Rightarrow> gotime option" where
  "next_attempt plan attempt now =
     (if rp_delays plan = [] then None
      else (let index = min (max (attempt - 1) 0) (int (length (rp_delays plan)) - 1)
            in Some (now + rp_delays plan ! nat index)))"

section \<open>Claims\<close>

definition claimable :: "gotime \<Rightarrow> 'e delivery_event_scheme \<Rightarrow> bool" where
  "claimable now e \<longleftrightarrow>
     (ev_Status e = Pending \<or> ev_Status e = Retrying \<or> ev_Status e = Delivering)
     \<and> (case ev_NextAttemptAt e of None \<Rightarrow> True | Some t \<Rightarrow> t \<le> now)"

text \<open>\<open>ORDER BY next_attempt_at, created_at, id\<close>: SQLite puts \<open>NULL\<close> first.\<close>

definition due_key :: "'e delivery_event_scheme \<Rightarrow> int \<times> int \<times> int \<times> int" where
  "due_key e =
     (case ev_NextAttemptAt e of
        None \<Rightarrow> (0, 0, ev_CreatedAt e, int (ev_ID e))
      | Some t \<Rightarrow> (1, t, ev_CreatedAt e, int (ev_ID e)))"

definition dueEvents :: "gotime \<Rightarrow> 'e delivery_event_scheme list \<Rightarrow> 'e delivery_event_scheme list" where
  "dueEvents now rows = sort_key due_key (filter (claimable now) rows)"

definition dueEventIDs :: "('e delivery_event_scheme) event_table \<Rightarrow> gotime \<Rightarrow> nat list db_prog" where
  "dueEventIDs T now = query (\<lambda>d. map ev_ID (sql_limit deliveryBatchSize (dueEvents now (et_get T d))))"

definition leased :: "gotime \<Rightarrow> 'e delivery_event_scheme \<Rightarrow> 'e delivery_event_scheme" where
  "leased leaseUntil e = e\<lparr>ev_Status := Delivering, ev_NextAttemptAt := Some leaseUntil\<rparr>"

definition claimEvent :: "('e delivery_event_scheme) event_table \<Rightarrow> nat \<Rightarrow> gotime \<Rightarrow> gotime option db_prog" where
  "claimEvent T i now =
     (let leaseUntil = now + deliveryLease in
      bnd (with_retry (update_events T (\<lambda>e. ev_ID e = i \<and> claimable now e) (leased leaseUntil)))
        (\<lambda>n. ret (if n = 1 then Some leaseUntil else None)))"

section \<open>Outcomes\<close>

record deliveryState =
  ds_status :: status
  ds_attemptedAt :: gotime
  ds_message :: string
  ds_nextAttemptAt :: "gotime option"
  ds_attemptCount :: "int option"

definition compactError :: "err option \<Rightarrow> string" where
  "compactError e =
     (case e of None \<Rightarrow> [] | Some cause \<Rightarrow> take storedErrorLimit (trim_space (err_text cause)))"

definition delivered_at :: "int \<Rightarrow> gotime \<Rightarrow> deliveryState" where
  "delivered_at previousAttempts now =
     \<lparr>ds_status = Delivered, ds_attemptedAt = now, ds_message = [], ds_nextAttemptAt = None,
      ds_attemptCount = Some (wrap64 (previousAttempts + 1))\<rparr>"

definition final_at :: "status \<Rightarrow> string \<Rightarrow> gotime \<Rightarrow> deliveryState" where
  "final_at st message now =
     \<lparr>ds_status = st, ds_attemptedAt = now, ds_message = message, ds_nextAttemptAt = None, ds_attemptCount = None\<rparr>"

definition retry_at :: "int \<Rightarrow> retryPlan \<Rightarrow> err \<Rightarrow> gotime \<Rightarrow> deliveryState" where
  "retry_at previousAttempts plan cause now =
     (let attempts = wrap64 (previousAttempts + 1);
          state = \<lparr>ds_status = Retrying, ds_attemptedAt = now, ds_message = compactError (Some cause),
                   ds_nextAttemptAt = None, ds_attemptCount = Some attempts\<rparr>
      in if attempts \<ge> rp_limit plan then state\<lparr>ds_status := Failed\<rparr>
         else state\<lparr>ds_nextAttemptAt := next_attempt plan attempts now\<rparr>)"

definition deliveredState :: "int \<Rightarrow> deliveryState db_prog" where
  "deliveredState previousAttempts = bnd time_now (\<lambda>now. ret (delivered_at previousAttempts now))"

definition finalState :: "status \<Rightarrow> string \<Rightarrow> deliveryState db_prog" where
  "finalState st message = bnd time_now (\<lambda>now. ret (final_at st message now))"

definition retryState :: "int \<Rightarrow> retryPlan \<Rightarrow> err \<Rightarrow> deliveryState db_prog" where
  "retryState previousAttempts plan cause = bnd time_now (\<lambda>now. ret (retry_at previousAttempts plan cause now))"

text \<open>The columns a state writes.\<close>

definition set_state :: "deliveryState \<Rightarrow> 'e delivery_event_scheme \<Rightarrow> 'e delivery_event_scheme" where
  "set_state st e =
     e\<lparr>ev_Status := ds_status st, ev_LastAttemptAt := Some (ds_attemptedAt st), ev_LastAttemptErr := ds_message st,
       ev_NextAttemptAt := ds_nextAttemptAt st,
       ev_AttemptCount := (case ds_attemptCount st of None \<Rightarrow> ev_AttemptCount e | Some n \<Rightarrow> n)\<rparr>"

definition saveClaimedState ::
  "('e delivery_event_scheme) event_table \<Rightarrow> nat \<Rightarrow> gotime option \<Rightarrow> deliveryState \<Rightarrow> unit db_prog" where
  "saveClaimedState T i leaseUntil st =
     (case leaseUntil of
        None \<Rightarrow> fail (Sentinel ErrDeliveryClaimLost)
      | Some lease \<Rightarrow>
          with_retry
            (bnd (update_events T
                    (\<lambda>e. ev_ID e = i \<and> ev_Status e = Delivering \<and> ev_NextAttemptAt e = Some lease) (set_state st)) (\<lambda>n.
             guard (n = 1) (Sentinel ErrDeliveryClaimLost))))"

text \<open>\<open>applyWebhookState\<close> and \<open>applyEmailState\<close>: store, then update the event in memory.\<close>

definition applyState ::
  "('e delivery_event_scheme) event_table \<Rightarrow> 'e delivery_event_scheme \<Rightarrow> deliveryState \<Rightarrow> 'e delivery_event_scheme db_prog" where
  "applyState T event st =
     bnd (saveClaimedState T (ev_ID event) (ev_NextAttemptAt event) st) (\<lambda>_. ret (set_state st event))"

definition applyWebhookState :: "delivery_event \<Rightarrow> deliveryState \<Rightarrow> delivery_event db_prog" where
  "applyWebhookState = applyState webhook_table"

definition applyEmailState :: "email_event \<Rightarrow> deliveryState \<Rightarrow> email_event db_prog" where
  "applyEmailState = applyState email_table"

section \<open>The network\<close>

record http_request =
  hq_URL :: string
  hq_Sets :: "(string \<times> string) list"
  hq_Body :: string

datatype http_failure = UrlError err | OtherFailure err

record webhook_body =
  wb_Form :: form
  wb_Submission :: submission
  wb_DataIsJSON :: bool

text \<open>
  \<open>nl_smtp\<close> answers at a time; \<open>nl_http\<close>: a failure, or a status and how reading the body ends;
  \<open>nl_canonical\<close>: \<open>textproto.CanonicalMIMEHeaderKey\<close>; \<open>nl_webhook_json\<close>: \<open>json.Marshal\<close> of the body,
  the data embedded as it is when it is valid JSON and as a string otherwise.
\<close>

record netlib =
  nl_smtp :: "gotime \<Rightarrow> smtp_server"
  nl_mime :: mimelib
  nl_new_request :: "string \<Rightarrow> err option"
  nl_http :: "gotime \<Rightarrow> http_request \<Rightarrow> http_failure + (int \<times> err option)"
  nl_canonical :: "string \<Rightarrow> string"
  nl_hmac_sha256_hex :: "string \<Rightarrow> string \<Rightarrow> string"
  nl_json_valid :: "string \<Rightarrow> bool"
  nl_webhook_json :: "webhook_body \<Rightarrow> err + string"

text \<open>The value a header has on the wire: the last \<open>Set\<close> of its canonical name.\<close>

definition header_value :: "netlib \<Rightarrow> http_request \<Rightarrow> string \<Rightarrow> string option" where
  "header_value N request name =
     map_option snd (find (\<lambda>(k, _). nl_canonical N k = nl_canonical N name) (rev (hq_Sets request)))"

text \<open>The instant at which the network is used; the code does not read the clock for it.\<close>

definition instant :: "gotime db_prog" where
  "instant = (\<lambda>w. (Inr (clock w), w))"

section \<open>Webhooks\<close>

definition webhookPayload :: "netlib \<Rightarrow> submission \<Rightarrow> form \<Rightarrow> err + string" where
  "webhookPayload N s f =
     nl_webhook_json N \<lparr>wb_Form = f, wb_Submission = s, wb_DataIsJSON = nl_json_valid N (sb_DataJSON s)\<rparr>"

definition webhookHeaders :: "golib \<Rightarrow> webhook_delivery \<Rightarrow> (string \<times> string) list" where
  "webhookHeaders L delivery =
     (if wd_HeadersJSON delivery = [] then []
      else (case lib_json_headers L (wd_HeadersJSON delivery) of
              None \<Rightarrow> []
            | Some None \<Rightarrow> []
            | Some (Some headers) \<Rightarrow> headers))"

definition signWebhook :: "netlib \<Rightarrow> string \<Rightarrow> string \<Rightarrow> string" where
  "signWebhook N payload secret = nl_hmac_sha256_hex N secret payload"

definition idempotency_key :: "form \<Rightarrow> nat \<Rightarrow> string" where
  "idempotency_key f eventID = ''miniform-'' @ fm_PublicID f @ ''-webhook-'' @ dec_digits eventID"

definition webhook_request ::
  "golib \<Rightarrow> netlib \<Rightarrow> string \<Rightarrow> nat \<Rightarrow> form \<Rightarrow> webhook_delivery \<Rightarrow> string \<Rightarrow> http_request" where
  "webhook_request L N signatureHeader eventID f delivery payload =
     \<lparr>hq_URL = wd_URL delivery,
      hq_Sets =
        [(''Content-Type'', ''application/json''), (''User-Agent'', ''Miniform/1.0'')]
        @ webhookHeaders L delivery
        @ [(''Idempotency-Key'', idempotency_key f eventID)]
        @ (if wd_Secret delivery \<noteq> [] then [(signatureHeader, signWebhook N payload (wd_Secret delivery))] else []),
      hq_Body = payload\<rparr>"

definition post ::
  "golib \<Rightarrow> netlib \<Rightarrow> string \<Rightarrow> gotime \<Rightarrow> nat \<Rightarrow> form \<Rightarrow> webhook_delivery \<Rightarrow> string \<Rightarrow> err + unit" where
  "post L N signatureHeader now eventID f delivery payload =
     (case nl_new_request N (wd_URL delivery) of
        Some e \<Rightarrow> Inl (Wrap ''create webhook request'' e)
      | None \<Rightarrow>
          (case nl_http N now (webhook_request L N signatureHeader eventID f delivery payload) of
             Inl (UrlError e) \<Rightarrow> Inl (Wrap ''send webhook'' e)
           | Inl (OtherFailure e) \<Rightarrow> Inl (Wrap ''send webhook'' e)
           | Inr (_, Some e) \<Rightarrow> Inl (Wrap ''read webhook response'' e)
           | Inr (status, None) \<Rightarrow>
               if status < 200 \<or> status \<ge> 300
               then Inl (Plain (''webhook returned status '' @ itoa status))
               else Inr ()))"

definition preload :: "(database \<Rightarrow> 'r list) \<Rightarrow> ('r \<Rightarrow> nat) \<Rightarrow> nat option \<Rightarrow> 'r option db_prog" where
  "preload tab key r = (case r of None \<Rightarrow> ret None | Some i \<Rightarrow> query (\<lambda>d. find (\<lambda>x. key x = i) (tab d)))"

text \<open>What both dispatchers do with the cause of a failed attempt, and with a success.\<close>

definition after_attempt ::
  "('e delivery_event_scheme) event_table \<Rightarrow> retryPlan \<Rightarrow> 'e delivery_event_scheme \<Rightarrow> err + unit \<Rightarrow> unit db_prog" where
  "after_attempt T plan event outcome =
     (case outcome of
        Inl e \<Rightarrow> bnd (retryState (ev_AttemptCount event) plan e) (\<lambda>st. bnd (applyState T event st) (\<lambda>_. ret ()))
      | Inr _ \<Rightarrow> bnd (deliveredState (ev_AttemptCount event)) (\<lambda>st. bnd (applyState T event st) (\<lambda>_. ret ())))"

definition give_up ::
  "('e delivery_event_scheme) event_table \<Rightarrow> 'e delivery_event_scheme \<Rightarrow> string \<Rightarrow> unit db_prog" where
  "give_up T event message = bnd (finalState Failed message) (\<lambda>st. bnd (applyState T event st) (\<lambda>_. ret ()))"

definition deliver_webhook ::
  "golib \<Rightarrow> netlib \<Rightarrow> string \<Rightarrow> retryPlan \<Rightarrow> delivery_event
   \<Rightarrow> submission option \<Rightarrow> form option \<Rightarrow> webhook_delivery option \<Rightarrow> unit db_prog" where
  "deliver_webhook L N signatureHeader plan event submission form hook =
     (case (submission, form) of
        (Some s, Some f) \<Rightarrow>
          (case hook of
             None \<Rightarrow> give_up webhook_table event ''webhooks disabled for form''
           | Some delivery \<Rightarrow>
               if \<not> wd_Enabled delivery \<or> wd_URL delivery = []
               then give_up webhook_table event ''webhooks disabled for form''
               else bnd instant (\<lambda>now.
                    after_attempt webhook_table plan event
                      (rbind (webhookPayload N s f) (post L N signatureHeader now (ev_ID event) f delivery))))
      | _ \<Rightarrow> give_up webhook_table event ''submission unavailable'')"

section \<open>E-mail\<close>

definition emailSettings ::
  "golib \<Rightarrow> (email_delivery \<times> mailer_profile option) option \<Rightarrow> (string \<times> string) list
   \<Rightarrow> err + (mailer_profile \<times> string \<times> string list \<times> string)" where
  "emailSettings L delivery vals =
     (case delivery of
        None \<Rightarrow> Inl (Plain ''email notification disabled'')
      | Some (d, profile) \<Rightarrow>
          if \<not> ed_Enabled d then Inl (Plain ''email notification disabled'')
          else (case profile of
                  None \<Rightarrow> Inl (Plain ''mailer configuration missing'')
                | Some p \<Rightarrow>
                    rbind (MailerSender L profile) (\<lambda>sender.
                    rbind (ResolveEmailRecipients L (Some d) vals) (\<lambda>recipients.
                    rbind (ResolveEmailReplyTo L (Some d) vals) (\<lambda>replyTo.
                    Inr (p, sender, recipients, replyTo))))))"

definition smtpSettings :: "golib \<Rightarrow> mailer_profile \<Rightarrow> string \<Rightarrow> string list \<Rightarrow> err + smtpConfig" where
  "smtpSettings L profile sender recipients =
     (let given = to_lower L (trim_space (mp_SMTPEncryption profile));
          encryption = (if given = [] then ''starttls'' else given)
      in if mp_SMTPHost profile = [] \<or> mp_SMTPPort profile = 0 then Inl (Plain ''smtp configuration missing'')
         else if encryption \<notin> set [''starttls'', ''tls'', ''none''] then Inl (Plain ''smtp encryption mode invalid'')
         else Inr \<lparr>sm_Host = mp_SMTPHost profile, sm_Port = mp_SMTPPort profile, sm_Username = mp_SMTPUsername profile,
                   sm_Password = mp_SMTPPassword profile, sm_Encryption = encryption, sm_From = sender,
                   sm_Recipients = recipients\<rparr>)"

text \<open>What is known before the message is built: settings, the mail and the connection.\<close>

definition email_plan ::
  "golib \<Rightarrow> email_delivery \<times> mailer_profile option \<Rightarrow> submission \<Rightarrow> form \<Rightarrow> err + (smtpConfig \<times> outboundEmail)" where
  "email_plan L delivery s f =
     rbind (emailSettings L (Some delivery) (emailTemplateFields L (sb_DataJSON s))) (\<lambda>(profile, sender, recipients, replyTo).
     rbind (RenderEmail L (Some (fst delivery)) (Some (s, Some f))) (\<lambda>rendered.
     rbind (smtpSettings L profile sender recipients) (\<lambda>settings.
     Inr (settings, \<lparr>ob_From = sender, ob_To = recipients, ob_ReplyTo = replyTo, ob_Subject = re_Subject rendered,
                     ob_Format = re_Format rendered, ob_TextBody = re_TextBody rendered,
                     ob_HTMLBody = re_HTMLBody rendered\<rparr>))))"

text \<open>The clock is read for the \<open>Date\<close> line whether or not building the message fails.\<close>

definition deliver_email ::
  "golib \<Rightarrow> netlib \<Rightarrow> retryPlan \<Rightarrow> email_event \<Rightarrow> submission option \<Rightarrow> form option
   \<Rightarrow> (email_delivery \<times> mailer_profile option) option \<Rightarrow> unit db_prog" where
  "deliver_email L N plan event submission form delivery =
     (case (submission, form) of
        (Some s, Some f) \<Rightarrow>
          (case delivery of
             None \<Rightarrow> give_up email_table event ''email notification unavailable''
           | Some d \<Rightarrow>
               (case email_plan L d s f of
                  Inl e \<Rightarrow> give_up email_table event (err_text e)
                | Inr (settings, email) \<Rightarrow>
                    bnd time_now (\<lambda>now.
                    case buildSMTPMessage L (nl_mime N) now email of
                      Inl e \<Rightarrow> give_up email_table event (err_text e)
                    | Inr message \<Rightarrow>
                        bnd instant (\<lambda>sent.
                        after_attempt email_table plan event (fst (sendSMTP L (nl_smtp N sent) settings message []))))))
      | _ \<Rightarrow> give_up email_table event ''submission unavailable'')"

section \<open>Batches\<close>

text \<open>One event: claim it at the current time, load it, deliver it under the lease.\<close>

definition process_event ::
  "('e delivery_event_scheme) event_table \<Rightarrow> (nat \<Rightarrow> 'x db_prog) \<Rightarrow> ('x \<Rightarrow> gotime \<Rightarrow> unit db_prog) \<Rightarrow> nat \<Rightarrow> unit db_prog" where
  "process_event T load deliver i =
     bnd time_now (\<lambda>now.
     bnd (claimEvent T i now) (\<lambda>lease. case lease of
       None \<Rightarrow> ret ()
     | Some leaseUntil \<Rightarrow> bnd (load i) (\<lambda>x. deliver x leaseUntil)))"

definition process_batch ::
  "('e delivery_event_scheme) event_table \<Rightarrow> (nat \<Rightarrow> 'x db_prog) \<Rightarrow> ('x \<Rightarrow> gotime \<Rightarrow> unit db_prog) \<Rightarrow> unit db_prog" where
  "process_batch T load deliver =
     bnd time_now (\<lambda>now.
     bnd (dueEventIDs T now) (\<lambda>ids. each (process_event T load deliver) ids))"

definition load_webhook ::
  "nat \<Rightarrow> (delivery_event \<times> submission option \<times> form option \<times> webhook_delivery option) db_prog" where
  "load_webhook i =
     bnd (first webhook_events (\<lambda>e. ev_ID e = i)) (\<lambda>event.
     bnd (preload submissions sb_ID (Some (ev_SubmissionID event))) (\<lambda>s.
     bnd (preload forms fm_ID (map_option sb_FormID s)) (\<lambda>f.
     bnd (preload webhook_deliveries wd_FormID (map_option fm_ID f)) (\<lambda>hook.
     ret (event, s, f, hook)))))"

definition load_email ::
  "nat \<Rightarrow> (email_event \<times> submission option \<times> form option \<times> (email_delivery \<times> mailer_profile option) option) db_prog" where
  "load_email i =
     bnd (first email_events (\<lambda>e. ev_ID e = i)) (\<lambda>event.
     bnd (preload submissions sb_ID (Some (ev_SubmissionID event))) (\<lambda>s.
     bnd (preload forms fm_ID (map_option sb_FormID s)) (\<lambda>f.
     bnd (preload email_deliveries ed_ID (ev_EmailDeliveryID event)) (\<lambda>d.
     bnd (preload mailers mp_ID (case d of None \<Rightarrow> None | Some e \<Rightarrow> ed_MailerProfileID e)) (\<lambda>m.
     ret (event, s, f, map_option (\<lambda>e. (e, m)) d))))))"

definition WebhookDispatcher_ProcessBatch :: "golib \<Rightarrow> netlib \<Rightarrow> Config \<Rightarrow> unit db_prog" where
  "WebhookDispatcher_ProcessBatch L N cfg =
     process_batch webhook_table load_webhook (\<lambda>(event, s, f, hook) leaseUntil.
       deliver_webhook L N (wc_SignatureHeader (cf_Webhook cfg)) (newRetryPlan cfg) (leased leaseUntil event) s f hook)"

definition EmailDispatcher_ProcessBatch :: "golib \<Rightarrow> netlib \<Rightarrow> Config \<Rightarrow> unit db_prog" where
  "EmailDispatcher_ProcessBatch L N cfg =
     process_batch email_table load_email (\<lambda>(event, s, f, d) leaseUntil.
       deliver_email L N (newRetryPlan cfg) (leased leaseUntil event) s f d)"

section \<open>The runner\<close>

text \<open>
  One round: each processor in turn, unless the context is done before it (the first argument
  tells, per processor); an error is logged and the next processor still runs. \<open>Run\<close> is the rounds
  until the context is done, one list of observations per round.
\<close>

fun process :: "bool list \<Rightarrow> unit db_prog list \<Rightarrow> unit db_prog" where
  "process done [] = ret ()"
| "process (True # done) (p # ps) = ret ()"
| "process (False # done) (p # ps) = catch p (\<lambda>_. process done ps)"
| "process [] (p # ps) = catch p (\<lambda>_. process [] ps)"

fun Run :: "bool list list \<Rightarrow> unit db_prog list \<Rightarrow> unit db_prog" where
  "Run [] ps = ret ()"
| "Run (observed # rounds) ps = bnd (process observed ps) (\<lambda>_. Run rounds ps)"

end
