(* ===== verification/Delivery_Laws.thy ===== *)
theory Delivery_Laws
  imports Delivery_Queue
begin

text \<open>
  What the dispatchers promise: a claim takes a due event for one minute and only one claim can
  hold; a result is stored only under the lease it was obtained with; every event moves along
  the transitions of \<open>event_step\<close>, so its attempts stay within the limit; a batch keeps the
  database well-formed whatever fails.
\<close>

section \<open>Claims and results on one table\<close>

lemma reads_instant [tx_keeps]: "reads instant"
  by (simp add: reads_def instant_def)

lemma leased_simps [simp]:
  "ev_ID (leased l e) = ev_ID e" "ev_SubmissionID (leased l e) = ev_SubmissionID e"
  "ev_Status (leased l e) = Delivering" "ev_NextAttemptAt (leased l e) = Some l"
  "ev_AttemptCount (leased l e) = ev_AttemptCount e"
  by (simp_all add: leased_def)

lemma set_state_simps [simp]:
  "ev_ID (set_state st e) = ev_ID e" "ev_SubmissionID (set_state st e) = ev_SubmissionID e"
  "ev_Status (set_state st e) = ds_status st" "ev_NextAttemptAt (set_state st e) = ds_nextAttemptAt st"
  "ev_AttemptCount (set_state st e) = (case ds_attemptCount st of None \<Rightarrow> ev_AttemptCount e | Some n \<Rightarrow> n)"
  by (simp_all add: set_state_def)

lemma email_ref_simps [simp]:
  "ev_EmailDeliveryID (leased l e) = ev_EmailDeliveryID e" "ev_EmailDeliveryID (set_state st e) = ev_EmailDeliveryID e"
  by (simp_all add: leased_def set_state_def)

lemma leased_again: "ev_Status e = Delivering \<Longrightarrow> ev_NextAttemptAt e = Some l \<Longrightarrow> leased l e = e"
  by (simp add: leased_def)

lemma count_where_1D: "count_where p xs = 1 \<Longrightarrow> \<exists>x\<in>set xs. p x"
  using count_where_0 [of p xs] by auto

text \<open>The queues of the dispatchers: the references are kept by both kinds of write.\<close>

locale delivery_table = event_queue +
  assumes lease_ref: "extra_ref (leased l e) = extra_ref e"
    and state_ref: "extra_ref (set_state st e) = extra_ref e"
begin

lemma claim_InrD:
  assumes "claimEvent T i now w = (Inr lease, w')"
  shows "et_get T (db w') = update_where (\<lambda>e. ev_ID e = i \<and> claimable now e) (leased (now + deliveryLease)) (et_get T (db w))
    \<and> lease = (if count_where (\<lambda>e. ev_ID e = i \<and> claimable now e) (et_get T (db w)) = 1
                then Some (now + deliveryLease) else None)"
proof -
  from assms obtain n w1 where r: "with_retry (update_events T (\<lambda>e. ev_ID e = i \<and> claimable now e) (leased (now + deliveryLease))) w = (Inr n, w1)"
    "lease = (if n = 1 then Some (now + deliveryLease) else None)" "w' = w1"
    by (auto simp: claimEvent_def Let_def elim!: bnd_InrE)
  from r(1) obtain w2 w3 where u: "db w2 = db w" "update_events T (\<lambda>e. ev_ID e = i \<and> claimable now e) (leased (now + deliveryLease)) w2 = (Inr n, w3)"
    "db w1 = db w3" by (rule with_retry_InrE)
  from update_result [OF u(2)] u(1,3) r(2,3) show ?thesis by simp
qed

lemma claim_InlD: "claimEvent T i now w = (Inl e, w') \<Longrightarrow> db w' = db w"
  by (auto simp: claimEvent_def Let_def bnd_apply ret_apply split: prod.splits sum.splits dest: with_retry_InlD)

text \<open>After a claim, the event cannot be claimed before its lease ends.\<close>

lemma claim_excludes:
  assumes "claimEvent T i now w = (Inr (Some l), w')" "db_ok (db w)" "db w1 = db w'" "now' < l"
    and "claimEvent T i now' w1 = (Inr again, w2)"
  shows "again = None \<and> et_get T (db w2) = et_get T (db w1)"
proof -
  let ?p = "\<lambda>e. ev_ID e = i \<and> claimable now e"
  note c = claim_InrD [OF assms(1)]
  then have l: "l = now + deliveryLease" and one: "count_where ?p (et_get T (db w)) = 1" by (auto split: if_splits)
  obtain e0 where e0: "e0 \<in> set (et_get T (db w))" "?p e0" using one count_where_1D by fast
  have dist: "distinct (map ev_ID (et_get T (db w)))" using keys assms(2) by blast
  have "\<not> claimable now' e" if "e \<in> set (et_get T (db w'))" "ev_ID e = i" for e
  proof -
    have "e \<in> (\<lambda>x. if ?p x then leased l x else x) ` set (et_get T (db w))"
      using that(1) unfolding conjunct1 [OF c] set_update_where l .
    then obtain x where x: "x \<in> set (et_get T (db w))" "e = (if ?p x then leased l x else x)" by (elim imageE)
    then have "ev_ID x = i" using that(2) by (auto split: if_splits)
    moreover have "inj_on ev_ID (set (et_get T (db w)))" using dist by (simp add: distinct_map)
    ultimately have "x = e0" using x(1) e0 by (auto dest: inj_onD)
    then have "e = leased l x" using x(2) e0(2) by simp
    then show ?thesis using assms(4) by (simp add: claimable_def)
  qed
  then have "count_where (\<lambda>e. ev_ID e = i \<and> claimable now' e) (et_get T (db w1)) = 0"
    using assms(3) by (auto simp: count_where_0)
  then show ?thesis using claim_InrD [OF assms(5)] by (simp add: update_where_none)
qed

lemma save_InrD:
  assumes "saveClaimedState T i lease st w = (Inr u, w')"
  shows "\<exists>l. lease = Some l \<and> et_get T (db w') =
      update_where (\<lambda>e. ev_ID e = i \<and> ev_Status e = Delivering \<and> ev_NextAttemptAt e = Some l) (set_state st) (et_get T (db w))
    \<and> (\<exists>e\<in>set (et_get T (db w)). ev_ID e = i \<and> ev_Status e = Delivering \<and> ev_NextAttemptAt e = Some l)"
proof -
  from assms obtain l where l: "lease = Some l" by (cases lease) (auto simp: saveClaimedState_def)
  let ?p = "\<lambda>e. ev_ID e = i \<and> ev_Status e = Delivering \<and> ev_NextAttemptAt e = Some l"
  from assms l obtain w1 w2 where r: "db w1 = db w" "bnd (update_events T ?p (set_state st)) (\<lambda>n. guard (n = 1) (Sentinel ErrDeliveryClaimLost)) w1 = (Inr u, w2)"
    "db w' = db w2" unfolding saveClaimedState_def by (auto elim!: with_retry_InrE)
  from r(2) obtain n w3 where n: "update_events T ?p (set_state st) w1 = (Inr n, w3)" "n = 1" "w2 = w3" by (auto elim!: bnd_InrE)
  from update_result [OF n(1)] n(2,3) r(1,3) have
    "et_get T (db w') = update_where ?p (set_state st) (et_get T (db w))" "count_where ?p (et_get T (db w)) = 1" by auto
  with l count_where_1D [OF this(2)] show ?thesis by auto
qed

lemma save_InlD: "saveClaimedState T i lease st w = (Inl e, w') \<Longrightarrow> db w' = db w"
  by (auto simp: saveClaimedState_def fail_apply split: option.splits dest: with_retry_InlD)

text \<open>A worker whose lease was taken over cannot store its result.\<close>

lemma stale_result_lost:
  assumes "saveClaimedState T i (Some l) st w = (r, w')"
    and "\<forall>e\<in>set (et_get T (db w)). ev_ID e = i \<longrightarrow> ev_NextAttemptAt e \<noteq> Some l"
  shows "\<exists>e. r = Inl e" "db w' = db w"
proof -
  show "\<exists>e. r = Inl e" using save_InrD [of i "Some l" st w _ w'] assms by (cases r) auto
  then show "db w' = db w" using assms(1) save_InlD by blast
qed

lemma always_claim: "always db_ok (claimEvent T i now)"
  unfolding claimEvent_def Let_def
  by (intro always_bnd always_with_retry keeps_update always_reads [OF reads_ret]) (simp_all add: lease_ref)

lemma always_save: "always db_ok (saveClaimedState T i lease st)"
  unfolding saveClaimedState_def
  by (intro always_option always_with_retry keeps_bnd keeps_update keeps_guard always_reads [OF reads_fail])
    (simp_all add: state_ref)

lemma always_apply: "always db_ok (applyState T e st)"
  unfolding applyState_def by (intro always_bnd always_save always_reads [OF reads_ret])

lemma always_outcome: "always db_ok (after_attempt T plan e outcome)" "always db_ok (give_up T e m)"
  unfolding after_attempt_def give_up_def retryState_def deliveredState_def finalState_def
  by (intro always_rules always_apply always_reads [OF reads_ret] always_reads [OF reads_time_now])+

end

interpretation webhook_jobs: delivery_table webhook_table "\<lambda>_ :: delivery_event. None"
  by unfold_locales simp_all

interpretation email_jobs: delivery_table email_table ev_EmailDeliveryID
  by unfold_locales simp_all

end
