(* ===== verification/Delivery_Steps.thy ===== *)
theory Delivery_Steps
  imports Delivery_Laws
begin

text \<open>
  The life of one delivery event as a transition relation, its invariant, and the refinement: what
  the dispatchers and the manual retry do to a queue is, row by row, a sequence of these steps.
\<close>

section \<open>Transitions\<close>

inductive outcome :: "retryPlan \<Rightarrow> 'e delivery_event_scheme \<Rightarrow> deliveryState \<Rightarrow> bool" for plan e where
  delivered: "outcome plan e (delivered_at (ev_AttemptCount e) now)"
| hopeless: "outcome plan e (final_at Failed message now)"
| attempt_failed: "outcome plan e (retry_at (ev_AttemptCount e) plan cause now)"

inductive event_step :: "retryPlan \<Rightarrow> 'e delivery_event_scheme \<Rightarrow> 'e delivery_event_scheme \<Rightarrow> bool" for plan where
  claim: "claimable now e \<Longrightarrow> event_step plan e (leased (now + deliveryLease) e)"
| result: "ev_Status e = Delivering \<Longrightarrow> outcome plan e st \<Longrightarrow> event_step plan e (set_state st e)"
| retry: "ev_Status e = Failed \<Longrightarrow> event_step plan e (retried now e)"

inductive_cases event_stepE: "event_step plan e e'"
inductive_cases outcomeE: "outcome plan e st"

text \<open>The invariant: attempts stay within the limit, and the schedule fits the status.\<close>

definition event_ok :: "retryPlan \<Rightarrow> 'e delivery_event_scheme \<Rightarrow> bool" where
  "event_ok plan e \<longleftrightarrow>
     (case ev_Status e of
        Pending \<Rightarrow> ev_AttemptCount e = 0 \<and> ev_NextAttemptAt e \<noteq> None
      | Delivering \<Rightarrow> 0 \<le> ev_AttemptCount e \<and> ev_AttemptCount e < rp_limit plan \<and> ev_NextAttemptAt e \<noteq> None
      | Retrying \<Rightarrow> 1 \<le> ev_AttemptCount e \<and> ev_AttemptCount e < rp_limit plan
          \<and> (rp_delays plan \<noteq> [] \<longrightarrow> ev_NextAttemptAt e \<noteq> None)
      | Delivered \<Rightarrow> 1 \<le> ev_AttemptCount e \<and> ev_AttemptCount e \<le> rp_limit plan \<and> ev_NextAttemptAt e = None
      | Failed \<Rightarrow> 0 \<le> ev_AttemptCount e \<and> ev_AttemptCount e \<le> rp_limit plan \<and> ev_NextAttemptAt e = None)"

definition plan_ok :: "retryPlan \<Rightarrow> bool" where
  "plan_ok plan \<longleftrightarrow> 1 \<le> rp_limit plan \<and> rp_limit plan < 2 ^ 63"

lemma newRetryPlan_ok:
  assumes "in_int64 (wc_RetryLimit (cf_Webhook cfg))"
  shows "plan_ok (newRetryPlan cfg) \<and> rp_delays (newRetryPlan cfg) \<noteq> []"
  using assms WebhookBackoff_positive [of cfg]
  by (simp add: plan_ok_def newRetryPlan_def DefaultRetryLimit_def in_int64_def)

lemma fresh_event_ok: "fresh_event i e \<Longrightarrow> event_ok plan e"
  by (simp add: fresh_event_def event_ok_def)

lemma attempts_within:
  assumes "plan_ok plan" "0 \<le> n" "n < rp_limit plan"
  shows "wrap64 (n + 1) = n + 1"
  using assms by (intro wrap64_id) (simp add: in_int64_def plan_ok_def)

lemma next_attempt_None: "next_attempt plan n now = None \<longleftrightarrow> rp_delays plan = []"
  by (simp add: next_attempt_def Let_def)

lemma outcome_ok:
  assumes "plan_ok plan" "event_ok plan e" "ev_Status e = Delivering" "outcome plan e st"
  shows "event_ok plan (set_state st e)"
proof -
  have c: "0 \<le> ev_AttemptCount e" "ev_AttemptCount e < rp_limit plan" using assms(2,3) by (simp_all add: event_ok_def)
  note w = attempts_within [OF assms(1) c]
  from assms(4) show ?thesis
  proof cases
    case (delivered now)
    then show ?thesis using c w by (simp add: event_ok_def delivered_at_def)
  next
    case (hopeless message now)
    then show ?thesis using c by (simp add: event_ok_def final_at_def)
  next
    case (attempt_failed cause now)
    then show ?thesis using c w by (auto simp: event_ok_def retry_at_def Let_def next_attempt_None)
  qed
qed

lemma claim_ok:
  assumes "plan_ok plan" "event_ok plan e" "claimable now e"
  shows "event_ok plan (leased l e)"
  using assms by (auto simp: claimable_def event_ok_def plan_ok_def split: status.splits)

lemma event_step_ok: "event_step plan e e' \<Longrightarrow> plan_ok plan \<Longrightarrow> event_ok plan e \<Longrightarrow> event_ok plan e'"
  by (induction rule: event_step.induct) (auto simp: claim_ok outcome_ok, simp add: event_ok_def retried_def)

lemma event_steps_ok:
  "(event_step plan)\<^sup>*\<^sup>* e e' \<Longrightarrow> plan_ok plan \<Longrightarrow> event_ok plan e \<Longrightarrow> event_ok plan e'"
  by (induction rule: rtranclp_induct) (auto intro: event_step_ok)

text \<open>A delivered event is never touched again; a failed one only by the manual retry.\<close>

lemma delivered_final: "ev_Status e = Delivered \<Longrightarrow> \<not> event_step plan e e'"
  by (auto elim!: event_stepE simp: claimable_def)

lemma failed_needs_retry: "ev_Status e = Failed \<Longrightarrow> event_step plan e e' \<Longrightarrow> \<exists>now. e' = retried now e"
  by (auto elim!: event_stepE simp: claimable_def)

section \<open>Attempts run out\<close>

text \<open>One failing round: claimed, attempted, stored.\<close>

definition failing_round :: "retryPlan \<Rightarrow> gotime \<Rightarrow> err \<Rightarrow> gotime \<Rightarrow> 'e delivery_event_scheme \<Rightarrow> 'e delivery_event_scheme" where
  "failing_round plan l cause now e = set_state (retry_at (ev_AttemptCount e) plan cause now) (leased l e)"

fun failing_rounds :: "retryPlan \<Rightarrow> (gotime \<times> err \<times> gotime) list \<Rightarrow> 'e delivery_event_scheme \<Rightarrow> 'e delivery_event_scheme" where
  "failing_rounds plan [] e = e"
| "failing_rounds plan ((l, cause, now) # rs) e = failing_rounds plan rs (failing_round plan l cause now e)"

lemma failing_round_count:
  assumes "plan_ok plan" "0 \<le> ev_AttemptCount e" "ev_AttemptCount e < rp_limit plan"
  shows "ev_AttemptCount (failing_round plan l cause now e) = ev_AttemptCount e + 1"
    "ev_Status (failing_round plan l cause now e) = (if ev_AttemptCount e + 1 \<ge> rp_limit plan then Failed else Retrying)"
  using attempts_within [OF assms] by (simp_all add: failing_round_def retry_at_def Let_def)

lemma failing_rounds_end:
  "plan_ok plan \<Longrightarrow> 0 \<le> ev_AttemptCount e \<Longrightarrow> rs \<noteq> [] \<Longrightarrow> ev_AttemptCount e + int (length rs) \<le> rp_limit plan \<Longrightarrow>
   ev_AttemptCount (failing_rounds plan rs e) = ev_AttemptCount e + int (length rs)
   \<and> ev_Status (failing_rounds plan rs e) =
      (if ev_AttemptCount e + int (length rs) = rp_limit plan then Failed else Retrying)"
proof (induction plan rs e rule: failing_rounds.induct)
  case (2 plan l cause now rs e)
  then have c: "0 \<le> ev_AttemptCount e" "ev_AttemptCount e < rp_limit plan" by auto
  note f = failing_round_count [OF "2.prems"(1) c, of l cause now]
  show ?case
  proof (cases "rs = []")
    case True
    then show ?thesis using f 2 by auto
  next
    case False
    with 2 f show ?thesis by auto
  qed
qed simp

section \<open>The dispatchers refine the transitions\<close>

definition moves :: "retryPlan \<Rightarrow> 'e delivery_event_scheme list \<Rightarrow> 'e delivery_event_scheme list \<Rightarrow> bool" where
  "moves plan = list_all2 ((event_step plan)\<^sup>*\<^sup>*)"

lemma moves_refl [simp]: "moves plan xs xs"
  by (simp add: moves_def list_all2_refl)

lemma moves_trans: "moves plan xs ys \<Longrightarrow> moves plan ys zs \<Longrightarrow> moves plan xs zs"
  unfolding moves_def
  by (rule list_all2_trans [of "(event_step plan)\<^sup>*\<^sup>*" "(event_step plan)\<^sup>*\<^sup>*" "(event_step plan)\<^sup>*\<^sup>*"])
    (blast intro: rtranclp_trans)+

lemma moves_update:
  "(\<And>e. e \<in> set xs \<Longrightarrow> p e \<Longrightarrow> event_step plan e (f e)) \<Longrightarrow> moves plan xs (update_where p f xs)"
  by (auto simp: moves_def update_where_def list_all2_conv_all_nth)

text \<open>A program that, run while the event is in the table under its lease, moves rows along steps.\<close>

definition settles ::
  "('e delivery_event_scheme) event_table \<Rightarrow> retryPlan \<Rightarrow> 'e delivery_event_scheme \<Rightarrow> (database, 'a) prog \<Rightarrow> bool" where
  "settles T plan event m \<longleftrightarrow>
     (\<forall>w r w'. m w = (r, w') \<longrightarrow> db_ok (db w) \<longrightarrow> event \<in> set (et_get T (db w)) \<longrightarrow> ev_Status event = Delivering
        \<longrightarrow> moves plan (et_get T (db w)) (et_get T (db w')))"

lemma settlesD:
  "settles T plan event m \<Longrightarrow> m w = (r, w') \<Longrightarrow> db_ok (db w) \<Longrightarrow> event \<in> set (et_get T (db w)) \<Longrightarrow>
   ev_Status event = Delivering \<Longrightarrow> moves plan (et_get T (db w)) (et_get T (db w'))"
  unfolding settles_def by blast

lemma settles_reads_bnd: "reads m \<Longrightarrow> (\<And>x. settles T plan event (f x)) \<Longrightarrow> settles T plan event (bnd m f)"
proof (unfold settles_def, intro allI impI)
  fix w r w'
  assume m: "reads m" and f: "\<And>x. \<forall>w r w'. f x w = (r, w') \<longrightarrow> db_ok (db w) \<longrightarrow> event \<in> set (et_get T (db w)) \<longrightarrow>
      ev_Status event = Delivering \<longrightarrow> moves plan (et_get T (db w)) (et_get T (db w'))"
    and run: "bnd m f w = (r, w')" and ok: "db_ok (db w)" "event \<in> set (et_get T (db w))" "ev_Status event = Delivering"
  obtain y w1 where y: "m w = (y, w1)" by (cases "m w")
  have d: "db w1 = db w" using readsD [OF m y] .
  show "moves plan (et_get T (db w)) (et_get T (db w'))"
  proof (cases y)
    case (Inl e)
    then show ?thesis using run y d by (simp add: bnd_apply)
  next
    case (Inr x)
    then have "f x w1 = (r, w')" using run y by (simp add: bnd_apply)
    with f [of x] ok d show ?thesis by metis
  qed
qed

lemma settles_reads: "reads m \<Longrightarrow> settles T plan event m"
  unfolding settles_def by (auto dest: readsD)

lemma settles_bnd_ret: "settles T plan event m \<Longrightarrow> settles T plan event (bnd m (\<lambda>_. ret ()))"
proof (unfold settles_def, intro allI impI)
  fix w r w'
  assume m: "\<forall>w r w'. m w = (r, w') \<longrightarrow> db_ok (db w) \<longrightarrow> event \<in> set (et_get T (db w)) \<longrightarrow>
      ev_Status event = Delivering \<longrightarrow> moves plan (et_get T (db w)) (et_get T (db w'))"
    and run: "bnd m (\<lambda>_. ret ()) w = (r, w')"
    and ok: "db_ok (db w)" "event \<in> set (et_get T (db w))" "ev_Status event = Delivering"
  obtain y w1 where y: "m w = (y, w1)" by (cases "m w")
  then have "w' = w1" using run by (auto simp: bnd_apply ret_apply split: sum.splits)
  then show "moves plan (et_get T (db w)) (et_get T (db w'))" using m ok y by blast
qed

context delivery_table
begin

lemma claim_moves: "claimEvent T i now w = (r, w') \<Longrightarrow> moves plan (et_get T (db w)) (et_get T (db w'))"
proof (cases r)
  case (Inl e)
  then show "claimEvent T i now w = (r, w') \<Longrightarrow> ?thesis" using claim_InlD by fastforce
next
  case (Inr lease)
  assume "claimEvent T i now w = (r, w')"
  with Inr claim_InrD have "et_get T (db w') = update_where (\<lambda>e. ev_ID e = i \<and> claimable now e) (leased (now + deliveryLease)) (et_get T (db w))"
    by blast
  then show ?thesis by (auto intro: moves_update event_step.claim)
qed

lemma apply_moves:
  assumes "applyState T event st w = (r, w')" "db_ok (db w)" "event \<in> set (et_get T (db w))"
    "ev_Status event = Delivering" "outcome plan event st"
  shows "moves plan (et_get T (db w)) (et_get T (db w'))"
proof (cases "saveClaimedState T (ev_ID event) (ev_NextAttemptAt event) st w")
  case (Pair s w1)
  then have w1: "w' = w1" using assms(1) by (auto simp: applyState_def bnd_apply ret_apply split: sum.splits)
  have inj: "inj_on ev_ID (set (et_get T (db w)))" using keys [OF assms(2)] by (simp add: distinct_map)
  show ?thesis
  proof (cases s)
    case (Inl e)
    then show ?thesis using save_InlD Pair w1 by fastforce
  next
    case (Inr u)
    with save_InrD Pair obtain l where
      "et_get T (db w1) = update_where (\<lambda>e. ev_ID e = ev_ID event \<and> ev_Status e = Delivering \<and> ev_NextAttemptAt e = Some l)
         (set_state st) (et_get T (db w))" by blast
    moreover have "event_step plan e (set_state st e)" if "e \<in> set (et_get T (db w))" "ev_ID e = ev_ID event" for e
    proof -
      have "e = event" using inj that assms(3) by (auto dest: inj_onD)
      then show ?thesis using assms(4,5) by (simp add: event_step.result)
    qed
    ultimately show ?thesis unfolding w1 by (auto intro: moves_update)
  qed
qed

lemma apply_settles: "outcome plan event st \<Longrightarrow> settles T plan event (applyState T event st)"
  unfolding settles_def using apply_moves by blast

lemma outcome_settles: "settles T plan event (after_attempt T plan event res)" "settles T plan event (give_up T event m)"
proof -
  have s: "settles T plan event (bnd (bnd time_now (\<lambda>now. ret (g now))) (\<lambda>st. bnd (applyState T event st) (\<lambda>_. ret ())))"
    if "\<And>now. outcome plan event (g now)" for g
  proof -
    have "bnd (bnd time_now (\<lambda>now. ret (g now))) (\<lambda>st. bnd (applyState T event st) (\<lambda>_. ret ()))
        = bnd time_now (\<lambda>now. bnd (applyState T event (g now)) (\<lambda>_. ret ()))"
      by (rule ext) (auto simp: bnd_apply ret_apply split: prod.splits sum.splits)
    then show ?thesis 
      by (simp add: settles_reads_bnd [OF reads_time_now] settles_bnd_ret apply_settles that)
  qed
  show "settles T plan event (give_up T event m)"
    unfolding give_up_def finalState_def by (rule s) (rule outcome.hopeless)
  show "settles T plan event (after_attempt T plan event res)"
    unfolding after_attempt_def retryState_def deliveredState_def
    by (cases res) (simp_all add: s outcome.attempt_failed outcome.delivered)
qed

lemma process_event_moves:
  assumes loads: "\<And>i. reads (load i)"
    and loaded: "\<And>i w x w'. load i w = (Inr x, w') \<Longrightarrow> ev x \<in> set (et_get T (db w)) \<and> ev_ID (ev x) = i"
    and delivers: "\<And>x l. settles T plan (leased l (ev x)) (deliver x l)"
    and run: "process_event T load deliver i w = (r, w')" and ok: "db_ok (db w)"
  shows "moves plan (et_get T (db w)) (et_get T (db w'))"
proof -
  obtain t w1 where t: "time_now w = (t, w1)" by (cases "time_now w")
  have d1: "db w1 = db w" using readsD [OF reads_time_now t] .
  show ?thesis
  proof (cases t)
    case (Inl e)
    then show ?thesis using run t d1 by (simp add: process_event_def bnd_apply)
  next
    case (Inr now)
    obtain c w2 where c: "claimEvent T i now w1 = (c, w2)" by (cases "claimEvent T i now w1")
    note m12 = claim_moves [OF c, of plan, unfolded d1]
    show ?thesis
    proof (cases c)
      case (Inl e)
      then show ?thesis using run t Inr c m12 by (simp add: process_event_def bnd_apply)
    next
      case cl: (Inr lease)
      show ?thesis
      proof (cases lease)
        case None
        then show ?thesis using run t Inr c cl m12 by (simp add: process_event_def bnd_apply ret_apply)
      next
        case (Some l)
        obtain y w3 where y: "load i w2 = (y, w3)" by (cases "load i w2")
        have d3: "db w3 = db w2" using readsD [OF loads y] .
        show ?thesis
        proof (cases y)
          case (Inl e)
          then show ?thesis using run t Inr c cl Some y m12 d3 by (simp add: process_event_def bnd_apply)
        next
          case yx: (Inr x)
          then have run3: "deliver x l w3 = (r, w')"
            using run t Inr c cl Some y by (simp add: process_event_def bnd_apply)
          have x: "ev x \<in> set (et_get T (db w2))" "ev_ID (ev x) = i" using loaded y yx by auto
          have ok2: "db_ok (db w2)" using alwaysD [OF always_claim c] ok d1 by simp
          note cd = claim_InrD [OF c [unfolded cl], unfolded Some d1]
          let ?p = "\<lambda>e. ev_ID e = i \<and> claimable now e"
          have l: "l = now + deliveryLease" and one: "count_where ?p (et_get T (db w)) = 1" using cd by (auto split: if_splits)
          obtain e0 where e0: "e0 \<in> set (et_get T (db w))" "?p e0" using one count_where_1D by fast
          have rows: "et_get T (db w2) = update_where ?p (leased l) (et_get T (db w))" using cd l by simp
          have "leased l e0 \<in> set (et_get T (db w2))" using e0 by (force simp: rows set_update_where)
          moreover have "inj_on ev_ID (set (et_get T (db w2)))" using keys [OF ok2] by (simp add: distinct_map)
          moreover have "ev_ID (ev x) = ev_ID (leased l e0)" using x(2) e0(2) by (simp add: leased_def)
          ultimately have "ev x = leased l e0" using x(1) inj_onD by metis
          then have "leased l (ev x) = ev x" by (simp add: leased_def)
          with x have "leased l (ev x) \<in> set (et_get T (db w3))" by (simp add: d3)
          then have "moves plan (et_get T (db w3)) (et_get T (db w'))"
            using settlesD [OF delivers run3] ok2 d3 by simp
          with m12 d3 show ?thesis by (auto intro: moves_trans)
        qed
      qed
    qed
  qed
qed

lemma process_event_always:
  assumes "\<And>i. reads (load i)" "\<And>x l. always db_ok (deliver x l)"
  shows "always db_ok (process_event T load deliver i)"
  unfolding process_event_def
  by (intro always_bnd always_option always_claim assms always_reads [OF reads_time_now] always_reads [OF reads_ret]
      always_reads [OF assms(1)])

lemma each_moves:
  assumes "\<And>x w r w'. f x w = (r, w') \<Longrightarrow> db_ok (db w) \<Longrightarrow> moves plan (et_get T (db w)) (et_get T (db w'))"
    and "\<And>x. always db_ok (f x)"
  shows "each f xs w = (r, w') \<Longrightarrow> db_ok (db w) \<Longrightarrow>
    moves plan (et_get T (db w)) (et_get T (db w')) \<and> db_ok (db w')"
proof (induction xs arbitrary: w r w')
  case Nil
  then show ?case by (simp add: ret_apply)
next
  case (Cons x xs)
  obtain y w1 where y: "f x w = (y, w1)" by (cases "f x w")
  note m = assms(1) [OF y Cons.prems(2)] and ok = alwaysD [OF assms(2) y Cons.prems(2)]
  show ?case
  proof (cases y)
    case (Inl e)
    then show ?thesis using Cons.prems(1) y m ok by (simp add: bnd_apply)
  next
    case (Inr u)
    then have "each f xs w1 = (r, w')" using Cons.prems(1) y by (simp add: bnd_apply)
    with Cons.IH ok m show ?thesis by (blast intro: moves_trans)
  qed
qed

lemma process_batch_moves:
  assumes loads: "\<And>i. reads (load i)"
    and loaded: "\<And>i w x w'. load i w = (Inr x, w') \<Longrightarrow> ev x \<in> set (et_get T (db w)) \<and> ev_ID (ev x) = i"
    and delivers: "\<And>x l. settles T plan (leased l (ev x)) (deliver x l)"
    and keeps: "\<And>x l. always db_ok (deliver x l)"
    and run: "process_batch T load deliver w = (r, w')" and ok: "db_ok (db w)"
  shows "moves plan (et_get T (db w)) (et_get T (db w')) \<and> db_ok (db w')"
proof -
  have q: "reads (bnd time_now (\<lambda>now. dueEventIDs T now))" unfolding dueEventIDs_def by (intro tx_keeps)
  have "process_batch T load deliver = bnd (bnd time_now (\<lambda>now. dueEventIDs T now)) (\<lambda>ids. each (process_event T load deliver) ids)"
    by (rule ext) (auto simp: process_batch_def bnd_apply split: prod.splits sum.splits)
  with run obtain y w1 where y: "bnd time_now (\<lambda>now. dueEventIDs T now) w = (y, w1)"
    "(case y of Inl e \<Rightarrow> (Inl e, w1) | Inr ids \<Rightarrow> each (process_event T load deliver) ids w1) = (r, w')"
    by (cases "bnd time_now (\<lambda>now. dueEventIDs T now) w") (auto simp: bnd_apply [of "bnd time_now _"] split: sum.splits)
  have d: "db w1 = db w" using readsD [OF q y(1)] .
  show ?thesis
  proof (cases y)
    case (Inl e)
    then show ?thesis using y(2) d ok by simp
  next
    case (Inr ids)
    then have e: "each (process_event T load deliver) ids w1 = (r, w')" using y(2) by simp
    show ?thesis
      using each_moves [OF process_event_moves [OF loads loaded delivers] process_event_always [OF loads keeps] e] ok d by simp
  qed
qed

end

end
