(* ===== verification/Dispatchers.thy ===== *)
theory Dispatchers
  imports Delivery_Steps
begin

text \<open>
  The two dispatchers and the runner: a batch moves every event of its own queue along the
  transitions of \<open>event_step\<close>, keeps the database well-formed whatever fails, and leaves the rest
  of the database alone.
\<close>

section \<open>Loading\<close>

lemma table_simps [simp]:
  "et_get webhook_table = webhook_events" "et_put webhook_table rows d = d\<lparr>webhook_events := rows\<rparr>"
  "et_get email_table = email_events" "et_put email_table emails d = d\<lparr>email_events := emails\<rparr>"
  by (simp_all add: webhook_table_def email_table_def)

lemma reads_preload [tx_keeps]: "reads (preload tab key r)"
  unfolding preload_def by (intro tx_keeps)

lemma reads_load_webhook: "reads (load_webhook i)"
  unfolding load_webhook_def by (intro tx_keeps)

lemma reads_load_email: "reads (load_email i)"
  unfolding load_email_def by (intro tx_keeps)

lemma load_webhook_event:
  "load_webhook i w = (Inr x, w') \<Longrightarrow> fst x \<in> set (webhook_events (db w)) \<and> ev_ID (fst x) = i"
  unfolding load_webhook_def by (auto elim!: bnd_InrE first_InrE dest!: find_SomeD)

lemma load_email_event:
  "load_email i w = (Inr x, w') \<Longrightarrow> fst x \<in> set (email_events (db w)) \<and> ev_ID (fst x) = i"
  unfolding load_email_def by (auto elim!: bnd_InrE first_InrE dest!: find_SomeD)

section \<open>Delivering\<close>

lemma deliver_webhook_settles:
  "settles webhook_table plan event (deliver_webhook L N h plan event s f hook)"
  unfolding deliver_webhook_def
  by (auto split: option.split intro!: webhook_jobs.outcome_settles settles_reads_bnd reads_instant)

lemma deliver_webhook_always: "always db_ok (deliver_webhook L N h plan event s f hook)"
  unfolding deliver_webhook_def
  by (auto split: option.split intro!: webhook_jobs.always_outcome always_bnd always_reads [OF reads_instant])

lemma deliver_email_settles: "settles email_table plan event (deliver_email L N plan event s f d)"
  unfolding deliver_email_def
  by (auto split: option.split sum.split intro!: email_jobs.outcome_settles settles_reads_bnd reads_instant reads_time_now)

lemma deliver_email_always: "always db_ok (deliver_email L N plan event s f d)"
  unfolding deliver_email_def
  by (auto split: option.split sum.split
      intro!: email_jobs.always_outcome always_bnd always_reads [OF reads_instant] always_reads [OF reads_time_now])

section \<open>Batches\<close>

lemma always_each: "(\<And>x. always P (f x)) \<Longrightarrow> always P (each f xs)"
  by (induction xs) (auto intro!: always_bnd always_reads [OF reads_ret])

text \<open>A batch writes one queue only.\<close>

context delivery_table
begin

lemma elsewhere:
  assumes "\<And>rows d. P (et_put T rows d) = P d"
  shows "always P (claimEvent T i now)" "always P (applyState T e st)"
    "always P (after_attempt T plan e res)" "always P (give_up T e m)"
proof -
  have u: "keeps P (update_events T p f)" for p f
    unfolding update_events_def by (rule keeps_stmt) (auto simp: assms)
  show "always P (claimEvent T i now)"
    unfolding claimEvent_def Let_def by (intro always_bnd always_with_retry u always_reads [OF reads_ret])
  have a: "always P (applyState T e st)" for e st
    unfolding applyState_def saveClaimedState_def
    by (intro always_bnd always_option always_with_retry keeps_bnd u keeps_guard
        always_reads [OF reads_fail] always_reads [OF reads_ret])
  then show "always P (applyState T e st)" .
  show "always P (after_attempt T plan e res)" "always P (give_up T e m)"
    unfolding after_attempt_def give_up_def retryState_def deliveredState_def finalState_def
    by (intro always_rules a always_reads [OF reads_ret] always_reads [OF reads_time_now])+
qed

lemma batch_elsewhere:
  assumes "\<And>rows d. P (et_put T rows d) = P d" "\<And>i. reads (load i)" "\<And>x l. always P (deliver x l)"
  shows "always P (process_batch T load deliver)"
  unfolding process_batch_def dueEventIDs_def process_event_def
  by (intro always_bnd always_each always_option elsewhere [OF assms(1)] assms(3) always_reads [OF assms(2)]
      always_reads [OF reads_time_now] always_reads [OF reads_query] always_reads [OF reads_ret])

end

lemma webhook_batch_moves:
  assumes "WebhookDispatcher_ProcessBatch L N cfg w = (r, w')" "db_ok (db w)"
  shows "moves (newRetryPlan cfg) (webhook_events (db w)) (webhook_events (db w')) \<and> db_ok (db w')"
proof -
  let ?deliver = "\<lambda>(event, s, f, hook) leaseUntil. deliver_webhook L N (wc_SignatureHeader (cf_Webhook cfg))
      (newRetryPlan cfg) (leased leaseUntil event) s f hook"
  have "settles webhook_table (newRetryPlan cfg) (leased l (fst x)) (?deliver x l)" "always db_ok (?deliver x l)" for x l
    by (cases x; simp add: deliver_webhook_settles deliver_webhook_always)+
  note delivers = this
  have "moves (newRetryPlan cfg) (et_get webhook_table (db w)) (et_get webhook_table (db w')) \<and> db_ok (db w')"
  proof (rule webhook_jobs.process_batch_moves [where ev = fst and load = load_webhook and deliver = ?deliver])
    show "fst x \<in> set (et_get webhook_table (db v)) \<and> ev_ID (fst x) = i" if "load_webhook i v = (Inr x, v')" for i v x v'
      using load_webhook_event [OF that] by simp
  qed (use delivers assms reads_load_webhook in \<open>simp_all add: WebhookDispatcher_ProcessBatch_def\<close>)
  then show ?thesis by simp
qed

lemma email_batch_moves:
  assumes "EmailDispatcher_ProcessBatch L N cfg w = (r, w')" "db_ok (db w)"
  shows "moves (newRetryPlan cfg) (email_events (db w)) (email_events (db w')) \<and> db_ok (db w')"
proof -
  let ?deliver = "\<lambda>(event, s, f, d) leaseUntil. deliver_email L N (newRetryPlan cfg) (leased leaseUntil event) s f d"
  have "settles email_table (newRetryPlan cfg) (leased l (fst x)) (?deliver x l)" "always db_ok (?deliver x l)" for x l
    by (cases x; simp add: deliver_email_settles deliver_email_always)+
  note delivers = this
  have "moves (newRetryPlan cfg) (et_get email_table (db w)) (et_get email_table (db w')) \<and> db_ok (db w')"
  proof (rule email_jobs.process_batch_moves [where ev = fst and load = load_email and deliver = ?deliver])
    show "fst x \<in> set (et_get email_table (db v)) \<and> ev_ID (fst x) = i" if "load_email i v = (Inr x, v')" for i v x v'
      using load_email_event [OF that] by simp
  qed (use delivers assms reads_load_email in \<open>simp_all add: EmailDispatcher_ProcessBatch_def\<close>)
  then show ?thesis by simp
qed

lemma webhook_batch_elsewhere:
  assumes "\<And>rows d. P (d\<lparr>webhook_events := rows\<rparr>) = P d"
  shows "always P (WebhookDispatcher_ProcessBatch L N cfg)"
proof -
  have put: "P (et_put webhook_table rows d) = P d" for rows d using assms by simp
  note keep = webhook_jobs.elsewhere [where P = P, OF put]
  have "always P (deliver_webhook L N h plan event s f hook)" for h plan event s f hook
    unfolding deliver_webhook_def
    by (auto split: option.split intro!: keep always_bnd always_reads [OF reads_instant])
  then show ?thesis
    unfolding WebhookDispatcher_ProcessBatch_def
    by (intro webhook_jobs.batch_elsewhere put reads_load_webhook) (simp add: split_beta)
qed

lemma email_batch_elsewhere:
  assumes "\<And>rows d. P (d\<lparr>email_events := rows\<rparr>) = P d"
  shows "always P (EmailDispatcher_ProcessBatch L N cfg)"
proof -
  have put: "P (et_put email_table rows d) = P d" for rows d using assms by simp
  note keep = email_jobs.elsewhere [where P = P, OF put]
  have "always P (deliver_email L N plan event s f d)" for plan event s f d
    unfolding deliver_email_def
    by (auto split: option.split sum.split
        intro!: keep always_bnd always_reads [OF reads_instant] always_reads [OF reads_time_now])
  then show ?thesis
    unfolding EmailDispatcher_ProcessBatch_def
    by (intro email_jobs.batch_elsewhere put reads_load_email) (simp add: split_beta)
qed

section \<open>The runner\<close>

lemma process_always: "(\<And>p. p \<in> set ps \<Longrightarrow> always P p) \<Longrightarrow> always P (process done ps)"
  by (induction "done" ps rule: process.induct) (auto intro!: always_catch always_reads [OF reads_ret])

lemma Run_always: "(\<And>p. p \<in> set ps \<Longrightarrow> always P p) \<Longrightarrow> always P (Run rounds ps)"
  by (induction rounds) (auto intro!: always_bnd process_always always_reads [OF reads_ret])

text \<open>The state the rounds of the runner keep, from the database they start with.\<close>

definition progressed :: "retryPlan \<Rightarrow> database \<Rightarrow> database \<Rightarrow> bool" where
  "progressed plan d d' \<longleftrightarrow> db_ok d' \<and> moves plan (webhook_events d) (webhook_events d')
     \<and> moves plan (email_events d) (email_events d')"

lemma webhook_progress: "always (progressed (newRetryPlan cfg) d) (WebhookDispatcher_ProcessBatch L N cfg)"
proof (unfold always_def, intro allI impI)
  fix w r w' assume run: "WebhookDispatcher_ProcessBatch L N cfg w = (r, w')" and p: "progressed (newRetryPlan cfg) d (db w)"
  have "email_events (db w') = email_events (db w)"
    using alwaysD [OF webhook_batch_elsewhere [of "\<lambda>x. email_events x = email_events (db w)"] run] by simp
  then show "progressed (newRetryPlan cfg) d (db w')"
    using p webhook_batch_moves [OF run] unfolding progressed_def by (auto intro: moves_trans)
qed

lemma email_progress: "always (progressed (newRetryPlan cfg) d) (EmailDispatcher_ProcessBatch L N cfg)"
proof (unfold always_def, intro allI impI)
  fix w r w' assume run: "EmailDispatcher_ProcessBatch L N cfg w = (r, w')" and p: "progressed (newRetryPlan cfg) d (db w)"
  have "webhook_events (db w') = webhook_events (db w)"
    using alwaysD [OF email_batch_elsewhere [of "\<lambda>x. webhook_events x = webhook_events (db w)"] run] by simp
  then show "progressed (newRetryPlan cfg) d (db w')"
    using p email_batch_moves [OF run] unfolding progressed_def by (auto intro: moves_trans)
qed

lemma Run_progress:
  assumes "Run rounds [WebhookDispatcher_ProcessBatch L N cfg, EmailDispatcher_ProcessBatch L N cfg] w = (r, w')"
    and "db_ok (db w)"
  shows "progressed (newRetryPlan cfg) (db w) (db w')"
proof -
  have "always (progressed (newRetryPlan cfg) (db w))
      (Run rounds [WebhookDispatcher_ProcessBatch L N cfg, EmailDispatcher_ProcessBatch L N cfg])"
    by (rule Run_always) (auto simp: webhook_progress email_progress)
  from alwaysD [OF this assms(1)] assms(2) show ?thesis by (simp add: progressed_def)
qed

text \<open>Delivered events stay as they are.\<close>

lemma moves_delivered:
  assumes "moves plan xs ys" "i < length xs" "ev_Status (xs ! i) = Delivered"
  shows "ys ! i = xs ! i"
proof -
  have "(event_step plan)\<^sup>*\<^sup>* (xs ! i) (ys ! i)" using assms(1,2) by (simp add: moves_def list_all2_conv_all_nth)
  then show ?thesis using assms(3) by (cases rule: converse_rtranclpE) (auto dest: delivered_final)
qed

lemma moves_ok:
  assumes "moves plan xs ys" "plan_ok plan" "\<forall>e\<in>set xs. event_ok plan e"
  shows "\<forall>e\<in>set ys. event_ok plan e"
proof
  fix e assume "e \<in> set ys"
  then obtain i where i: "i < length ys" "e = ys ! i" by (auto simp: in_set_conv_nth)
  with assms(1) have "(event_step plan)\<^sup>*\<^sup>* (xs ! i) e" "i < length xs"
    by (simp_all add: moves_def list_all2_conv_all_nth)
  then show "event_ok plan e" using event_steps_ok assms(2,3) by fastforce
qed

end
