(* ===== verification/Smtp_Laws.thy ===== *)
theory Smtp_Laws
  imports Smtp
begin

text \<open>
  What outgoing mail promises: header values cannot break their line, bodies have canonical line
  ends, the conversation follows one script and stops at the first refusal, so success is
  reported exactly when the server took the message, and credentials follow the TLS handshake.
\<close>

section \<open>Header values and line ends\<close>

lemma safeHeader_char:
  assumes "c \<in> set (safeHeader v)"
  shows "\<not> header_break c"
proof (cases "c = CHR '' ''")
  case True
  then show ?thesis by (simp add: header_break_def)
next
  case False
  let ?v = "replace_char (CHR 0x00) [] v"
  from assms False set_join [of "'' ''" "fields_runes is_space_rune ?v"]
  obtain g where g: "g \<in> set (fields_runes is_space_rune ?v)" "c \<in> set g" by (auto simp: safeHeader_def)
  with fields_runes_pieces [OF g(1)] obtain r where r: "r \<in> set (runes ?v)" "\<not> is_space_rune r" "c \<in> set r" by auto
  have "c \<in> set ?v" using r(1,3) concat_runes [of ?v] by (metis UN_I set_concat)
  then have "c \<noteq> CHR 0x00" by (auto simp: replace_char_def split: if_splits)
  moreover have "r = [c]" if "is_ascii c" using runes_ascii [OF r(1,3) that] .
  ultimately show ?thesis using r(2) by (auto simp: header_break_def is_ascii_def is_space_rune_def space_runes_def)
qed

fun strict_crlf :: "string \<Rightarrow> bool" where
  "strict_crlf [] = True"
| "strict_crlf [c] = (c \<noteq> CHR 0x0D \<and> c \<noteq> CHR 0x0A)"
| "strict_crlf (c # d # s) =
     (if c = CHR 0x0D then d = CHR 0x0A \<and> strict_crlf s else c \<noteq> CHR 0x0A \<and> strict_crlf (d # s))"

lemma replace_char_simps [simp]:
  "replace_char c r [] = []"
  "replace_char c r (x # s) = (if x = c then r else [x]) @ replace_char c r s"
  by (simp_all add: replace_char_def)

lemma strict_crlf_Cons: "c \<noteq> CHR 0x0D \<Longrightarrow> c \<noteq> CHR 0x0A \<Longrightarrow> strict_crlf (c # s) = strict_crlf s"
  by (cases s) simp_all

lemma line_ends_strict: "CHR 0x0D \<notin> set s \<Longrightarrow> strict_crlf (replace_char (CHR 0x0A) [CHR 0x0D, CHR 0x0A] s)"
  by (induction s) (auto simp: strict_crlf_Cons)

lemma line_ends_undone:
  "CHR 0x0D \<notin> set s \<Longrightarrow>
   replace_all [CHR 0x0D, CHR 0x0A] [CHR 0x0A] (replace_char (CHR 0x0A) [CHR 0x0D, CHR 0x0A] s) = s"
proof (induction s)
  case (Cons c s)
  then show ?case by (auto simp: replace_all.simps [of "[CHR 0x0D, CHR 0x0A]" "[CHR 0x0A]" "_ # _"])
qed (simp add: replace_all.simps)

lemma replace_char_absent: "c \<notin> set s \<Longrightarrow> replace_char c r s = s"
  by (induction s) auto

lemma replace_char_gone: "c \<notin> set r \<Longrightarrow> c \<notin> set (replace_char c r s)"
  by (induction s) auto

lemma crlf_form:
  obtains u where "CHR 0x0D \<notin> set u" "crlf v = replace_char (CHR 0x0A) [CHR 0x0D, CHR 0x0A] u"
  using that [OF replace_char_gone [of "CHR 0x0D" "[CHR 0x0A]"]] by (simp add: crlf_def)

lemma crlf_strict: "strict_crlf (crlf v)"
  by (rule crlf_form [of v]) (simp add: line_ends_strict)

lemma crlf_idem: "crlf (crlf v) = crlf v"
  by (rule crlf_form [of v]) (simp add: crlf_def line_ends_undone replace_char_absent)

section \<open>The conversation as a script\<close>

text \<open>A script is a list of operations: commands with the name they fail under, and local checks.\<close>

datatype talk_op = Command string smtp_command | Check string "err option"

fun run_ops :: "smtp_server \<Rightarrow> talk_op list \<Rightarrow> unit talk" where
  "run_ops V [] tr = (Inr (), tr)"
| "run_ops V (Command name c # ops) tr = talk_then (say V name c) (\<lambda>_. run_ops V ops) tr"
| "run_ops V (Check name r # ops) tr =
     (case r of None \<Rightarrow> run_ops V ops tr | Some e \<Rightarrow> (Inl (smtpIOError V tr name e), tr))"

fun op_commands :: "talk_op list \<Rightarrow> smtp_command list" where
  "op_commands [] = []"
| "op_commands (Command name c # ops) = c # op_commands ops"
| "op_commands (Check name r # ops) = op_commands ops"

lemma op_commands_append [simp]: "op_commands (a @ b) = op_commands a @ op_commands b"
  by (induction a rule: op_commands.induct) auto

text \<open>\<open>answered V tr cs\<close>: the server accepts each of the commands in turn.\<close>

fun answered :: "smtp_server \<Rightarrow> smtp_command list \<Rightarrow> smtp_command list \<Rightarrow> bool" where
  "answered V tr [] = True"
| "answered V tr (c # cs) = (sv_answer V tr c = None \<and> answered V (tr @ [c]) cs)"

lemma answered_append: "answered V tr (a @ b) = (answered V tr a \<and> answered V (tr @ a) b)"
  by (induction a arbitrary: tr) auto

lemma run_ops_append: "run_ops V (a @ b) tr = talk_then (run_ops V a) (\<lambda>_. run_ops V b) tr"
  by (induction a arbitrary: tr rule: op_commands.induct)
    (auto simp: talk_then_def say_def split: sum.splits option.splits prod.splits)

lemma run_ops_result:
  "run_ops V ops tr = (r, tr') \<Longrightarrow>
   (r = Inr () \<and> tr' = tr @ op_commands ops \<and> answered V tr (op_commands ops))
   \<or> (\<exists>e done. r = Inl e \<and> tr' = tr @ done \<and> prefix done (op_commands ops)
        \<and> (answered V tr done \<and> (\<exists>n x. Check n (Some x) \<in> set ops) \<or> (\<exists>a c. done = a @ [c] \<and> answered V tr a \<and> sv_answer V (tr @ a) c \<noteq> None)))"
proof (induction V ops tr arbitrary: r tr' rule: run_ops.induct)
  case (2 V name c ops tr)
  show ?case
  proof (cases "sv_answer V tr c")
    case None
    then have run: "run_ops V ops (tr @ [c]) = (r, tr')" using "2.prems" by (simp add: talk_then_def say_def)
    have say: "say V name c tr = (Inr (), tr @ [c])" using None by (simp add: say_def)
    from "2.IH" [OF run] show ?thesis
    proof (elim disjE exE conjE)
      fix e don a d assume "r = Inl e" "tr' = (tr @ [c]) @ don" "prefix don (op_commands ops)" "don = a @ [d]"
        "answered V (tr @ [c]) a" "sv_answer V ((tr @ [c]) @ a) d \<noteq> None"
      then show ?thesis using None by (intro disjI2 exI [of _ e] exI [of _ "c # don"]) (auto intro!: exI [of _ "c # a"])
    next
      fix e don n x assume "r = Inl e" "tr' = (tr @ [c]) @ don" "prefix don (op_commands ops)" "answered V (tr @ [c]) don"
        "Check n (Some x) \<in> set ops"
      then show ?thesis using None by (intro disjI2 exI [of _ e] exI [of _ "c # don"]) auto
    qed (use None in auto)
  next
    case (Some e)
    with "2.prems" show ?thesis
      by (intro disjI2 exI [of _ "smtpIOError V (tr @ [c]) name e"] exI [of _ "[c]"]) (auto simp: talk_then_def say_def)
  qed
next
  case (3 V name x ops tr)
  then show ?case by (cases x) auto
qed simp

definition front_ops :: "smtp_server \<Rightarrow> smtpConfig \<Rightarrow> talk_op list" where
  "front_ops V config =
     [Command ''connect SMTP'' (SDial (join_host_port (sm_Host config) (sm_Port config))),
      Check ''set SMTP deadline'' (sv_deadline V)]
     @ (if sm_Encryption config = ''tls'' then [Command ''negotiate SMTP TLS'' (SHandshake (sm_Host config))] else [])
     @ [Command ''initialize SMTP'' SGreeting]
     @ (if sm_Encryption config = ''starttls'' then [Command ''start SMTP TLS'' (SStartTLS (sm_Host config))] else [])
     @ (if sm_Username config \<noteq> []
        then [Command ''authenticate SMTP'' (SAuth (sm_Username config) (sm_Password config))] else [])"

definition back_ops :: "string \<Rightarrow> string list \<Rightarrow> string \<Rightarrow> talk_op list" where
  "back_ops from_addr recipients message =
     [Command ''set SMTP sender'' (SMail from_addr)]
     @ map (\<lambda>r. Command ''set SMTP recipient'' (SRcpt r)) recipients
     @ [Command ''start SMTP data'' SData, Command ''write SMTP data'' (SBody message), Command ''finish SMTP data'' SEndData]"

lemma talk_then_assoc: "talk_then (talk_then m f) g = talk_then m (\<lambda>x. talk_then (f x) g)"
  by (rule ext) (auto simp: talk_then_def split: prod.splits sum.splits)

lemma talk_result_then [simp]: "talk_then (talk_result (Inr x)) f = f x" "talk_then (talk_result (Inl e)) f = talk_result (Inl e)"
  by (auto simp: talk_then_def talk_result_def)

lemma run_ops_eqs:
  "run_ops V [] = talk_result (Inr ())"
  "run_ops V (Command name c # ops) = talk_then (say V name c) (\<lambda>_. run_ops V ops)"
  "run_ops V (a @ b) = talk_then (run_ops V a) (\<lambda>_. run_ops V b)"
  by (rule ext, simp add: talk_result_def) (rule ext, simp, rule ext, rule run_ops_append)

lemma run_ops_check:
  "run_ops V (Check name r # ops) =
     talk_then (\<lambda>tr. (case r of None \<Rightarrow> Inr () | Some e \<Rightarrow> Inl (smtpIOError V tr name e), tr)) (\<lambda>_. run_ops V ops)"
  by (rule ext) (auto simp: talk_then_def split: option.splits)

lemma talk_unit_right: "talk_then m (\<lambda>_. talk_result (Inr ())) = (m :: unit talk)"
  by (rule ext) (auto simp: talk_then_def talk_result_def split: prod.splits sum.splits)

lemma say_each_ops: "say_each V name (map f rs) = run_ops V (map (\<lambda>r. Command name (f r)) rs)"
  by (induction rs) (simp_all add: run_ops_eqs)

lemma front_ops_run:
  "talk_then (openSMTP V config) (\<lambda>_. talk_then (smtp_secure V config) (\<lambda>_. smtp_login V config)) = run_ops V (front_ops V config)"
  by (simp add: openSMTP_def smtp_secure_def smtp_login_def front_ops_def run_ops_eqs run_ops_check talk_then_assoc
      talk_unit_right del: append.simps)

lemma back_ops_run: "smtp_transfer V f rs m = run_ops V (back_ops f rs m)"
  by (simp add: smtp_transfer_def back_ops_def say_each_ops run_ops_eqs talk_then_assoc talk_unit_right)

lemma sendSMTP_ops:
  "sendSMTP L V config message =
     talk_then (run_ops V (front_ops V config)) (\<lambda>_.
     case smtp_envelope L config of
       Inl e \<Rightarrow> talk_result (Inl e)
     | Inr (f, rs) \<Rightarrow> talk_then (run_ops V (back_ops f rs message)) (\<lambda>_. smtp_quit))"
proof -
  have "sendSMTP L V config message =
     talk_then (run_ops V (front_ops V config)) (\<lambda>_. talk_then (talk_result (smtp_envelope L config)) (\<lambda>(f, rs).
       talk_then (run_ops V (back_ops f rs message)) (\<lambda>_. smtp_quit)))"
    by (simp add: sendSMTP_def talk_then_assoc [symmetric] back_ops_run [symmetric] front_ops_run [symmetric])
  also have "\<dots> = talk_then (run_ops V (front_ops V config)) (\<lambda>_. case smtp_envelope L config of
       Inl e \<Rightarrow> talk_result (Inl e) | Inr (f, rs) \<Rightarrow> talk_then (run_ops V (back_ops f rs message)) (\<lambda>_. smtp_quit))"
    by (cases "smtp_envelope L config") auto
  finally show ?thesis .
qed

lemma only_last: "x \<notin> set u \<Longrightarrow> u @ [x] = pre @ x # post \<Longrightarrow> pre = u \<and> post = []"
proof (induction u arbitrary: pre)
  case Nil
  then show ?case by (cases pre) auto
next
  case (Cons y u)
  then show ?case by (cases pre) auto
qed

lemma prefix_last: "prefix d (u @ [x]) \<Longrightarrow> x \<notin> set u \<Longrightarrow> x \<in> set d \<Longrightarrow> d = u @ [x]"
  by (metis prefix_snoc set_mono_prefix subsetD)

definition back_start :: "string \<Rightarrow> string list \<Rightarrow> string \<Rightarrow> smtp_command list" where
  "back_start f rs m = SMail f # map SRcpt rs @ [SData, SBody m]"

lemma op_commands_map: "op_commands (map (\<lambda>r. Command n (g r)) rs) = map g rs"
  by (induction rs) auto

lemma back_commands: "op_commands (back_ops f rs m) = back_start f rs m @ [SEndData]"
  by (simp add: back_ops_def back_start_def op_commands_map)

lemma no_end_data: "SEndData \<notin> set (back_start f rs m)" "SEndData \<notin> set (op_commands (front_ops V config))"
  "SQuit \<notin> set (op_commands (front_ops V config))" "SQuit \<notin> set (back_start f rs m)"
  by (auto simp: back_start_def front_ops_def)

text \<open>The three ways a conversation ends.\<close>

lemma sendSMTP_outcome:
  assumes "sendSMTP L V config message [] = (r, tr)"
  defines "F \<equiv> op_commands (front_ops V config)"
  obtains (sent) f rs where "r = Inr ()" "smtp_envelope L config = Inr (f, rs)"
      "tr = F @ back_start f rs message @ [SEndData, SQuit]" "answered V [] (F @ back_start f rs message @ [SEndData])"
  | (early) e where "r = Inl e" "prefix tr F"
      "answered V [] tr \<or> (\<exists>a c. tr = a @ [c] \<and> answered V [] a \<and> sv_answer V a c \<noteq> None)"
  | (refused) e f rs a c where "r = Inl e" "smtp_envelope L config = Inr (f, rs)" "tr = F @ a @ [c]"
      "prefix (a @ [c]) (back_start f rs message @ [SEndData])" "answered V [] (F @ a)" "sv_answer V (F @ a) c \<noteq> None"
proof (cases "run_ops V (front_ops V config) []")
  case (Pair x tr1)
  show ?thesis
  proof (cases x)
    case (Inl e)
    then have "r = Inl e" "tr = tr1" using assms(1) Pair by (simp_all add: sendSMTP_ops talk_then_def)
    with run_ops_result [OF Pair] Inl show ?thesis by (intro early) (auto simp: F_def)
  next
    case (Inr u)
    then have f: "tr1 = F" "answered V [] F" using run_ops_result [OF Pair] by (auto simp: F_def)
    show ?thesis
    proof (cases "smtp_envelope L config")
      case (Inl e)
      then have "r = Inl e" "tr = F" using assms(1) Pair Inr f by (simp_all add: sendSMTP_ops talk_then_def talk_result_def)
      with f show ?thesis by (intro early) auto
    next
      case env: (Inr fr)
      obtain g rs where g: "fr = (g, rs)" by (cases fr)
      obtain y tr2 where y: "run_ops V (back_ops g rs message) F = (y, tr2)" by (cases "run_ops V (back_ops g rs message) F")
      have no_check: "Check n (Some x) \<notin> set (back_ops g rs message)" for n x by (auto simp: back_ops_def)
      show ?thesis
      proof (cases y)
        case yl: (Inl e)
        then have "r = Inl e" "tr = tr2" using assms(1) Pair Inr f env g y by (simp_all add: sendSMTP_ops talk_then_def)
        with run_ops_result [OF y] yl no_check env g f show ?thesis
          by (elim disjE exE conjE) (auto simp: back_commands answered_append intro!: refused)
      next
        case yr: (Inr v)
        then have "r = Inr ()" "tr = tr2 @ [SQuit]" using assms(1) Pair Inr f env g y
          by (simp_all add: sendSMTP_ops talk_then_def smtp_quit_def)
        with run_ops_result [OF y] yr env g f show ?thesis
          by (intro sent) (auto simp: back_commands answered_append)
      qed
    qed
  qed
qed

lemma answered_at: "answered V tr (pre @ c # post) \<Longrightarrow> sv_answer V (tr @ pre) c = None"
  by (simp add: answered_append)

text \<open>A command is followed by another only when it was accepted.\<close>

lemma sendSMTP_progress:
  assumes "sendSMTP L V config message [] = (r, tr)" "tr = a @ c # d # post"
  shows "sv_answer V a c = None"
proof -
  have *: "\<exists>done. (tr = done \<or> (\<exists>x. tr = done @ [x])) \<and> answered V [] done"
    using assms(1)
  proof (cases rule: sendSMTP_outcome)
    case (sent f rs)
    then show ?thesis
      by (intro exI [of _ "op_commands (front_ops V config) @ back_start f rs message @ [SEndData]"]) auto
  next
    case (refused e f rs a c)
    then show ?thesis by (intro exI [of _ "op_commands (front_ops V config) @ a"]) auto
  qed blast
  then obtain don where d: "tr = don \<or> (\<exists>x. tr = don @ [x])" "answered V [] don" by blast
  from d(1) have "\<exists>rest. don = a @ c # rest"
  proof
    assume "tr = don"
    then show ?thesis using assms(2) by blast
  next
    assume "\<exists>x. tr = don @ [x]"
    then obtain x where "don @ [x] = (a @ [c]) @ d # post" using assms(2) by auto
    then have "don = butlast ((a @ [c]) @ d # post)" by (metis butlast_snoc)
    then show ?thesis by (simp add: butlast_append)
  qed
  with d(2) answered_at [of V "[]" a c] show ?thesis by auto
qed

text \<open>Success is reported exactly when the server accepted the end of the data.\<close>

lemma sendSMTP_accepted:
  assumes "sendSMTP L V config message [] = (r, tr)"
  shows "is_ok r \<longleftrightarrow> (\<exists>pre post. tr = pre @ SEndData # post \<and> sv_answer V pre SEndData = None)"
  using assms
proof (cases rule: sendSMTP_outcome)
  case (sent f rs)
  let ?pre = "op_commands (front_ops V config) @ back_start f rs message"
  have "tr = ?pre @ SEndData # [SQuit]" using sent(3) by simp
  moreover have "sv_answer V ?pre SEndData = None" using sent(4) answered_at [of V "[]" ?pre SEndData "[]"] by simp
  ultimately show ?thesis using sent(1) by (metis is_ok_simps(1))
next
  case (early e)
  then have "SEndData \<notin> set tr" using no_end_data(2) set_mono_prefix by blast
  then show ?thesis using early(1) by auto
next
  case (refused e f rs a c)
  let ?F = "op_commands (front_ops V config)"
  have "sv_answer V pre SEndData \<noteq> None" if t: "tr = pre @ SEndData # post" for pre post
  proof -
    have "SEndData \<in> set (a @ [c])" using t refused(3) no_end_data(2) by (metis Un_iff in_set_conv_decomp set_append)
    then have "a @ [c] = back_start f rs message @ [SEndData]" by (intro prefix_last [OF refused(4) no_end_data(1)])
    then have ac: "a = back_start f rs message" "c = SEndData" by simp_all
    then have "(?F @ a) @ [SEndData] = pre @ SEndData # post" using t refused(3) by simp
    then have "pre = ?F @ a" using no_end_data(1,2) ac only_last [of SEndData "?F @ a" pre post] by simp
    then show ?thesis using refused(6) ac by simp
  qed
  then show ?thesis using refused(1) by auto
qed

text \<open>With STARTTLS, credentials go out only after the server agreed to TLS.\<close>

lemma sendSMTP_secure:
  assumes "sendSMTP L V config message [] = (r, tr)" "sm_Encryption config = ''starttls''" "tr = pre @ SAuth u p # post"
  shows "\<exists>a. pre = a @ [SStartTLS (sm_Host config)] \<and> sv_answer V a (SStartTLS (sm_Host config)) = None"
proof -
  let ?F = "op_commands (front_ops V config)"
  have F: "\<exists>a. ?F = a @ [SStartTLS (sm_Host config)] @ (if sm_Username config \<noteq> [] then [SAuth (sm_Username config) (sm_Password config)] else [])
      \<and> (\<forall>u p. SAuth u p \<notin> set a)"
    using assms(2) by (intro exI [of _ "[SDial (join_host_port (sm_Host config) (sm_Port config)), SGreeting]"]) (simp add: front_ops_def)
  have B: "SAuth u p \<notin> set (back_start f rs message)" for f rs by (auto simp: back_start_def)
  have pos: "\<exists>a. pre = a @ [SStartTLS (sm_Host config)]" if "prefix tr (?F @ rest)" "SAuth u p \<notin> set rest" for rest
  proof -
    from F obtain a where a: "?F = a @ [SStartTLS (sm_Host config)] @ (if sm_Username config \<noteq> [] then [SAuth (sm_Username config) (sm_Password config)] else [])"
      "SAuth u p \<notin> set a" by blast
    from that(1) assms(3) obtain more where m: "pre @ SAuth u p # post @ more = ?F @ rest" by (auto simp: prefix_def)
    have "SAuth u p \<in> set ?F" using m that(2) by (metis Un_iff in_set_conv_decomp set_append)
    with a have un: "sm_Username config \<noteq> []" "SAuth u p = SAuth (sm_Username config) (sm_Password config)" by (auto split: if_splits)
    have "pre @ SAuth u p # (post @ more) = (a @ [SStartTLS (sm_Host config)]) @ SAuth u p # rest" using m a(1) un by simp
    moreover have "SAuth u p \<notin> set (a @ [SStartTLS (sm_Host config)])" using a(2) by simp
    ultimately have "pre = a @ [SStartTLS (sm_Host config)]" using that(2)
      by (metis append_Cons_eq_iff)
    then show ?thesis by blast
  qed
  have "\<exists>a. pre = a @ [SStartTLS (sm_Host config)]"
    using assms(1)
  proof (cases rule: sendSMTP_outcome)
    case (sent f rs)
    with B show ?thesis by (intro pos [of "back_start f rs message @ [SEndData, SQuit]"]) auto
  next
    case (early e)
    then show ?thesis by (intro pos [of "[]"]) auto
  next
    case (refused e f rs a c)
    with B show ?thesis by (intro pos [of "back_start f rs message @ [SEndData]"]) (auto simp: prefix_def)
  qed
  then obtain a where a: "pre = a @ [SStartTLS (sm_Host config)]" by blast
  with sendSMTP_progress [OF assms(1), of a "SStartTLS (sm_Host config)" "SAuth u p" post] assms(3) show ?thesis by auto
qed

section \<open>The headers of a message\<close>

definition one_line :: "string \<Rightarrow> bool" where
  "one_line s \<longleftrightarrow> (\<forall>c\<in>set s. \<not> header_break c)"

definition field_line :: "string \<times> string \<Rightarrow> string" where
  "field_line f = fst f @ '': '' @ snd f @ eol"

text \<open>
  What the message relies on: encoded words, dates, random text, media types and printed
  addresses are single lines, and so is the domain of a parsed address.
\<close>

definition single_lines :: "golib \<Rightarrow> mimelib \<Rightarrow> bool" where
  "single_lines L E \<longleftrightarrow>
     (\<forall>s. one_line s \<longrightarrow> one_line (ml_q_encoding E s)) \<and> (\<forall>t. one_line (ml_rfc1123z E t)) \<and> one_line (ml_text E)
     \<and> (\<forall>t. one_line t \<longrightarrow> one_line (ml_media_type E t (ml_boundary E)))
     \<and> (\<forall>s a. lib_parse_address L s = Some a \<longrightarrow> one_line (message_domain (snd a)) \<and> one_line (lib_address_string L a))"

text \<open>A value is one line, or a list of them folded at the commas.\<close>

definition folded :: "string \<Rightarrow> bool" where
  "folded v \<longleftrightarrow> (\<exists>ps. v = join [CHR '','', CHR 0x0D, CHR 0x0A, CHR 0x09] ps \<and> (\<forall>p\<in>set ps. one_line p))"

lemma one_line_append [simp]: "one_line (a @ b) \<longleftrightarrow> one_line a \<and> one_line b"
  by (auto simp: one_line_def)

lemma one_line_Cons [simp]: "one_line (c # s) \<longleftrightarrow> \<not> header_break c \<and> one_line s"
  by (simp add: one_line_def)

lemma one_line_Nil [simp]: "one_line []"
  by (simp add: one_line_def)

lemma one_line_safeHeader [simp]: "one_line (safeHeader v)"
  unfolding one_line_def using safeHeader_char by blast

lemma folded_one: "one_line v \<Longrightarrow> folded v"
  unfolding folded_def by (rule exI [of _ "[v]"]) simp

lemma folded_recipients: "folded (recipientHeader rs)"
  unfolding folded_def recipientHeader_def by (rule exI [of _ "map safeHeader rs"]) simp

definition header_fields :: "mimelib \<Rightarrow> gotime \<Rightarrow> outboundEmail \<Rightarrow> (string \<times> string) list \<Rightarrow> string \<Rightarrow> string \<Rightarrow> string \<Rightarrow> (string \<times> string) list" where
  "header_fields E now email reply domain contentType transferEncoding =
     [(''From'', safeHeader (ob_From email)), (''To'', recipientHeader (ob_To email))] @ reply
     @ [(''Subject'', ml_q_encoding E (safeHeader (ob_Subject email))), (''Date'', ml_rfc1123z E now),
        (''Message-ID'', ''<'' @ ml_text E @ ''@'' @ domain @ ''>''), (''MIME-Version'', ''1.0''), (''Content-Type'', contentType)]
     @ (if transferEncoding = [] then [] else [(''Content-Transfer-Encoding'', transferEncoding)])"

lemma message_headers_fields:
  "message_headers E now email (concat (map field_line reply)) domain contentType transferEncoding =
     concat (map field_line (header_fields E now email reply domain contentType transferEncoding))"
  by (simp add: message_headers_def header_fields_def field_line_def)

lemma reply_to_field:
  assumes "reply_to_line L r = Inr line" "single_lines L E"
  obtains reply where "line = concat (map field_line reply)" "map fst reply = (if r = [] then [] else [''Reply-To''])"
    "\<forall>f\<in>set reply. one_line (snd f)"
proof (cases "r = []")
  case True
  then show ?thesis using assms(1) that [of "[]"] by (simp add: reply_to_line_def)
next
  case False
  then obtain a where a: "lib_parse_address L r = Some a" "line = ''Reply-To: '' @ lib_address_string L a @ eol"
    using assms(1) by (auto simp: reply_to_line_def split: if_splits option.splits)
  then have "one_line (lib_address_string L a)" using assms(2) unfolding single_lines_def by blast
  then show ?thesis using that [of "[(''Reply-To'', lib_address_string L a)]"] a(2) False by (simp add: field_line_def)
qed

lemma buildSMTPMessage_fields:
  assumes "buildSMTPMessage L E now email = Inr m" "single_lines L E"
  shows "\<exists>fields body. m = concat (map field_line fields) @ eol @ body \<and> suffix eol body
    \<and> map fst fields = [''From'', ''To''] @ (if ob_ReplyTo email = [] then [] else [''Reply-To''])
        @ [''Subject'', ''Date'', ''Message-ID'', ''MIME-Version'', ''Content-Type'']
        @ (if NormalizeEmailFormat L (ob_Format email) = Inr ''html'' then [] else [''Content-Transfer-Encoding''])
    \<and> (\<forall>f\<in>set fields. folded (snd f))"
proof -
  obtain sender where s: "envelopeAddress L (ob_From email) = Inr sender"
    using assms(1) by (auto simp: buildSMTPMessage_def split: sum.splits)
  then obtain a where a: "lib_parse_address L (trim_space (ob_From email)) = Some a" "sender = snd a"
    by (auto simp: envelopeAddress_def split: option.splits)
  then have dom: "one_line (message_domain sender)" using assms(2) unfolding single_lines_def by blast
  obtain format where f: "NormalizeEmailFormat L (ob_Format email) = Inr format"
    using assms(1) s by (auto simp: buildSMTPMessage_def rbind_Inr_iff)
  obtain body ct te where b: "message_body E format email = (body, ct, te)" by (cases "message_body E format email") auto
  obtain line where l: "reply_to_line L (ob_ReplyTo email) = Inr line"
    and m: "m = message_headers E now email line (message_domain sender) ct te @ eol @ body @ (if suffix eol body then [] else eol)"
    using assms(1) s f b by (auto simp: buildSMTPMessage_def rbind_Inr_iff)
  obtain reply where r: "line = concat (map field_line reply)"
    "map fst reply = (if ob_ReplyTo email = [] then [] else [''Reply-To''])" "\<forall>f\<in>set reply. one_line (snd f)"
    using reply_to_field [OF l assms(2)] .
  have ct: "one_line ct" "one_line te" "te = [] \<longleftrightarrow> format = ''html''"
    using b assms(2) by (auto simp: message_body_def single_lines_def header_break_def split: if_splits)
  let ?fields = "header_fields E now email reply (message_domain sender) ct te"
  have "one_line (ml_q_encoding E (safeHeader (ob_Subject email)))" "one_line (ml_rfc1123z E now)" "one_line (ml_text E)"
    using assms(2) by (simp_all add: single_lines_def)
  then have "\<forall>f\<in>set ?fields. folded (snd f)"
    using ct dom r(3) by (auto simp: header_fields_def folded_recipients header_break_def intro!: folded_one)
  moreover have "map fst ?fields = [''From'', ''To''] @ (if ob_ReplyTo email = [] then [] else [''Reply-To''])
        @ [''Subject'', ''Date'', ''Message-ID'', ''MIME-Version'', ''Content-Type'']
        @ (if NormalizeEmailFormat L (ob_Format email) = Inr ''html'' then [] else [''Content-Transfer-Encoding''])"
    using r(2) ct(3) f by (auto simp: header_fields_def)
  moreover have "m = concat (map field_line ?fields) @ eol @ (body @ (if suffix eol body then [] else eol))"
    unfolding m r(1) message_headers_fields by simp
  moreover have "suffix eol (body @ (if suffix eol body then [] else eol))" by (simp add: suffix_def)
  ultimately show ?thesis by blast
qed

end
