(* ===== verification/Rate_Limit.thy ===== *)
theory Rate_Limit
  imports Db_Txn "HOL-Library.AList_Mapping"
begin

text \<open>
  The in-memory storage of the rate limiter, \<open>internal/rate_limit_storage.go\<close>. Keys and values
  are byte strings, \<open>nil\<close> the empty one; the zero time is \<open>None\<close>. The mutex makes each operation
  one step, and cloning keeps callers from sharing the stored bytes, which values do anyway.
\<close>

record rateLimitEntry =
  re_value :: string
  re_expiresAt :: "gotime option"

record rateLimitStorage =
  rl_entries :: "(string, rateLimitEntry) mapping"
  rl_nextSweep :: "gotime option"

definition rateLimitSweepInterval :: int where
  "rateLimitSweepInterval = 1000000000"

definition newRateLimitStorage :: rateLimitStorage where
  "newRateLimitStorage = \<lparr>rl_entries = Mapping.empty, rl_nextSweep = None\<rparr>"

definition expired :: "gotime \<Rightarrow> rateLimitEntry \<Rightarrow> bool" where
  "expired now entry \<longleftrightarrow> (case re_expiresAt entry of None \<Rightarrow> False | Some t \<Rightarrow> \<not> now < t)"

definition rl_get :: "string \<Rightarrow> gotime \<Rightarrow> rateLimitStorage \<Rightarrow> string \<times> rateLimitStorage" where
  "rl_get key now st =
     (if key = [] then ([], st)
      else (case Mapping.lookup (rl_entries st) key of
              None \<Rightarrow> ([], st)
            | Some entry \<Rightarrow>
                if expired now entry then ([], st\<lparr>rl_entries := Mapping.delete key (rl_entries st)\<rparr>)
                else (re_value entry, st)))"

definition sweepExpired :: "gotime \<Rightarrow> rateLimitStorage \<Rightarrow> rateLimitStorage" where
  "sweepExpired now st =
     (if (case rl_nextSweep st of None \<Rightarrow> False | Some t \<Rightarrow> now < t) then st
      else st\<lparr>rl_entries := Mapping.filter (\<lambda>_ entry. \<not> expired now entry) (rl_entries st),
              rl_nextSweep := Some (now + rateLimitSweepInterval)\<rparr>)"

definition rl_set :: "string \<Rightarrow> string \<Rightarrow> int \<Rightarrow> gotime \<Rightarrow> rateLimitStorage \<Rightarrow> rateLimitStorage" where
  "rl_set key value expiration now st =
     (if key = [] \<or> value = [] then st
      else (let entry = \<lparr>re_value = value, re_expiresAt = (if expiration > 0 then Some (now + expiration) else None)\<rparr>;
                swept = sweepExpired now st
            in swept\<lparr>rl_entries := Mapping.update key entry (rl_entries swept)\<rparr>))"

definition rl_delete :: "string \<Rightarrow> rateLimitStorage \<Rightarrow> rateLimitStorage" where
  "rl_delete key st = st\<lparr>rl_entries := Mapping.delete key (rl_entries st)\<rparr>"

definition rl_reset :: "rateLimitStorage \<Rightarrow> rateLimitStorage" where
  "rl_reset st = st\<lparr>rl_entries := Mapping.empty, rl_nextSweep := None\<rparr>"

definition rl_close :: "rateLimitStorage \<Rightarrow> rateLimitStorage" where
  "rl_close = rl_reset"

section \<open>The contract of an expiring store\<close>

text \<open>
  What the limiter relies on, stated over the value a key has at a time: reading returns it and
  changes no value at that time or later, writing sets one key until its deadline, deleting
  and resetting remove, and nothing reappears as time passes.
\<close>

locale expiring_store =
  fixes view :: "'s \<Rightarrow> gotime \<Rightarrow> string \<Rightarrow> string option"
    and get :: "string \<Rightarrow> gotime \<Rightarrow> 's \<Rightarrow> string \<times> 's"
    and set_value :: "string \<Rightarrow> string \<Rightarrow> int \<Rightarrow> gotime \<Rightarrow> 's \<Rightarrow> 's"
    and delete :: "string \<Rightarrow> 's \<Rightarrow> 's"
    and reset :: "'s \<Rightarrow> 's"
  assumes get_value: "key \<noteq> [] \<Longrightarrow> fst (get key now st) = (case view st now key of None \<Rightarrow> [] | Some v \<Rightarrow> v)"
    and get_view: "now \<le> t \<Longrightarrow> view (snd (get key now st)) t = view st t"
    and set_view: "key \<noteq> [] \<Longrightarrow> value \<noteq> [] \<Longrightarrow> now \<le> t \<Longrightarrow>
      view (set_value key value expiration now st) t =
        (view st t)(key := if expiration > 0 \<and> now + expiration \<le> t then None else Some value)"
    and delete_view: "view (delete key st) t = (view st t)(key := None)"
    and reset_view: "view (reset st) t = (\<lambda>_. None)"
    and aging: "t \<le> t' \<Longrightarrow> view st t' key \<noteq> None \<Longrightarrow> view st t' key = view st t key"
begin

lemma read_back:
  assumes "key \<noteq> []" "value \<noteq> []" "now \<le> t" "expiration \<le> 0 \<or> t < now + expiration"
  shows "fst (get key t (set_value key value expiration now st)) = value"
  using assms by (auto simp: get_value set_view)

lemma read_expired:
  assumes "key \<noteq> []" "value \<noteq> []" "0 < expiration" "now + expiration \<le> t"
  shows "fst (get key t (set_value key value expiration now st)) = []"
  using assms by (simp add: get_value set_view)

lemma read_other:
  assumes "key \<noteq> []" "value \<noteq> []" "other \<noteq> []" "other \<noteq> key" "now \<le> t"
  shows "fst (get other t (set_value key value expiration now st)) = fst (get other t st)"
  using assms by (simp add: get_value set_view)

text \<open>Reading twice, however much later, never shows a value that was gone.\<close>

lemma gone_stays_gone:
  assumes "view st t key = None" "t \<le> t'"
  shows "view (snd (get key t st)) t' key = None"
  using assms aging [of t t' st key] by (cases "view st t' key") (auto simp: get_view)

end

definition rl_view :: "rateLimitStorage \<Rightarrow> gotime \<Rightarrow> string \<Rightarrow> string option" where
  "rl_view st t key =
     (case Mapping.lookup (rl_entries st) key of
        None \<Rightarrow> None
      | Some entry \<Rightarrow> if expired t entry then None else Some (re_value entry))"

lemma expired_later: "t \<le> t' \<Longrightarrow> expired t entry \<Longrightarrow> expired t' entry"
  by (auto simp: expired_def split: option.splits)

lemma sweep_view: "now \<le> t \<Longrightarrow> rl_view (sweepExpired now st) t = rl_view st t"
  by (rule ext) (auto simp: rl_view_def sweepExpired_def lookup_filter expired_later split: option.splits)

lemma lookup_delete_if: "Mapping.lookup (Mapping.delete k m) k' = (if k = k' then None else Mapping.lookup m k')"
  by (cases "k = k'") (simp_all add: lookup_delete lookup_delete_neq)

interpretation limiter: expiring_store rl_view rl_get rl_set rl_delete rl_reset
proof unfold_locales
  fix key val :: string and now t t' :: gotime and st and expiration :: int
  show "fst (rl_get key now st) = (case rl_view st now key of None \<Rightarrow> [] | Some v \<Rightarrow> v)" if "key \<noteq> []"
    using that by (auto simp: rl_get_def rl_view_def split: option.splits)
  show "rl_view (snd (rl_get key now st)) t = rl_view st t" if "now \<le> t"
    by (rule ext) (use that in \<open>auto simp: rl_get_def rl_view_def lookup_delete_if expired_later split: option.splits\<close>)
  show "rl_view (rl_set key val expiration now st) t =
      (rl_view st t)(key := if expiration > 0 \<and> now + expiration \<le> t then None else Some val)"
    if "key \<noteq> []" "val \<noteq> []" "now \<le> t"
  proof (rule ext)
    fix k
    have "rl_view (sweepExpired now st) t k = rl_view st t k" using sweep_view [OF that(3)] by simp
    then show "rl_view (rl_set key val expiration now st) t k =
        ((rl_view st t)(key := if expiration > 0 \<and> now + expiration \<le> t then None else Some val)) k"
      using that(1,2) by (auto simp: rl_set_def rl_view_def Let_def lookup_update' expired_def)
  qed
  show "rl_view (rl_delete key st) t = (rl_view st t)(key := None)"
    by (rule ext) (simp add: rl_delete_def rl_view_def lookup_delete_if)
  show "rl_view (rl_reset st) t = (\<lambda>_. None)"
    by (rule ext) (simp add: rl_reset_def rl_view_def lookup_empty)
  show "rl_view st t' key = rl_view st t key" if "t \<le> t'" "rl_view st t' key \<noteq> None"
    using that by (auto simp: rl_view_def expired_later split: option.splits if_splits)
qed

text \<open>A write that sweeps leaves no entry that had expired: the store does not grow with dead keys.\<close>

lemma sweep_complete:
  assumes "case rl_nextSweep st of None \<Rightarrow> True | Some t \<Rightarrow> t \<le> now" "key \<noteq> []" "value \<noteq> []" "0 < expiration"
    and "Mapping.lookup (rl_entries (rl_set key value expiration now st)) k = Some entry"
  shows "\<not> expired now entry"
  using assms by (auto simp: rl_set_def Let_def sweepExpired_def lookup_update' lookup_filter expired_def split: option.splits if_splits)

end
