(* ===== verification/Turnstile.thy ===== *)
theory Turnstile
  imports Integrations
begin

text \<open>
  The Turnstile client of \<open>internal/integrations/turnstile.go\<close>. The service, the transport and the
  request context are the record \<open>turnstile_env\<close>: what the \<open>n\<close>-th request gets, whether the context
  is done after it, and whether the pause after it is cut short.
\<close>

record turnstileResponse =
  tr_Success :: bool
  tr_Hostname :: string
  tr_Action :: string
  tr_ErrorCodes :: "string list"

record TurnstileResult =
  tt_Success :: bool
  tt_Hostname :: string
  tt_Action :: string

text \<open>
  A request cannot be built, gets no response, or gets a status and a body that decodes or not;
  with a decoding error goes whether it is \<open>context.DeadlineExceeded\<close>.
\<close>

datatype turnstile_http =
    NoRequest err
  | NoResponse err
  | Responded int "(err \<times> bool) + turnstileResponse"

record turnstile_env =
  te_request :: "nat \<Rightarrow> string \<Rightarrow> turnstile_http"
  te_context :: "nat \<Rightarrow> err option"
  te_wait :: "nat \<Rightarrow> int \<Rightarrow> err option"

definition turnstile_attempts :: nat where
  "turnstile_attempts = 3"

definition turnstile_retryDelay :: int where
  "turnstile_retryDelay = 500 * 1000000"

text \<open>\<open>randomUUID\<close>: sixteen random bytes with the version and variant bits set.\<close>

definition random_bytes :: "nat \<Rightarrow> ('d, nat list) prog" where
  "random_bytes n = (\<lambda>w.
     if length (entropy w) < n then (Inl (Plain ''unexpected EOF''), w\<lparr>entropy := []\<rparr>)
     else (Inr (map (\<lambda>b. b mod 256) (take n (entropy w))), w\<lparr>entropy := drop n (entropy w)\<rparr>))"

definition uuid_text :: "nat list \<Rightarrow> string" where
  "uuid_text raw0 =
     (let raw = raw0[6 := raw0 ! 6 mod 16 + 64, 8 := raw0 ! 8 mod 64 + 128];
          part = (\<lambda>from len. hex_encode (take len (drop from raw)))
      in part 0 4 @ ''-'' @ part 4 2 @ ''-'' @ part 6 2 @ ''-'' @ part 8 2 @ ''-'' @ part 10 6)"

definition randomUUID :: "('d, string) prog" where
  "randomUUID = bnd (random_bytes 16) (\<lambda>raw. ret (uuid_text raw))"

text \<open>\<open>url.Values.Encode\<close> of the values of \<open>verify\<close>: sorted by name.\<close>

definition turnstile_form :: "string \<Rightarrow> string \<Rightarrow> string \<Rightarrow> string \<Rightarrow> string" where
  "turnstile_form idempotencyKey secret token remoteIP =
     ''idempotency_key='' @ QueryEscape idempotencyKey
     @ (if remoteIP \<noteq> [] then ''&remoteip='' @ QueryEscape remoteIP else [])
     @ ''&response='' @ QueryEscape token @ ''&secret='' @ QueryEscape secret"

text \<open>\<open>request\<close>: a result, or whether to try again and the error.\<close>

definition turnstile_request :: "turnstile_http \<Rightarrow> (bool \<times> err) + TurnstileResult" where
  "turnstile_request h =
     (case h of
        NoRequest e \<Rightarrow> Inl (False, Wrap ''create turnstile request'' e)
      | NoResponse e \<Rightarrow> Inl (True, Wrap ''turnstile request'' e)
      | Responded status body \<Rightarrow>
          if status \<ge> 500 then Inl (True, Plain (''turnstile returned status '' @ itoa status))
          else if status \<noteq> 200 then Inl (False, Plain (''turnstile returned status '' @ itoa status))
          else (case body of
                  Inl (e, deadline) \<Rightarrow> Inl (deadline, Wrap ''decode turnstile response'' e)
                | Inr p \<Rightarrow>
                    if \<not> tr_Success p then
                      (if tr_ErrorCodes p = [] then Inl (False, Plain ''turnstile verification failed'')
                       else Inl (False, Plain (''turnstile verification failed: '' @ join '', '' (tr_ErrorCodes p))))
                    else Inr \<lparr>tt_Success = True, tt_Hostname = tr_Hostname p, tt_Action = tr_Action p\<rparr>))"

text \<open>
  The loop of \<open>verify\<close> from request number \<open>attempt\<close>, with \<open>left\<close> more allowed after it: the number
  of requests made and the outcome. The error after the last one wraps both the sentinel and the
  cause.
\<close>

fun verify_from :: "turnstile_env \<Rightarrow> string \<Rightarrow> nat \<Rightarrow> nat \<Rightarrow> nat \<times> (err + TurnstileResult)" where
  "verify_from V form attempt left =
     (case turnstile_request (te_request V attempt form) of
        Inr result \<Rightarrow> (1, Inr result)
      | Inl (retry, e) \<Rightarrow>
          (case te_context V attempt of
             Some c \<Rightarrow> (1, Inl c)
           | None \<Rightarrow>
               if \<not> retry then (1, Inl e)
               else (case left of
                       0 \<Rightarrow> (1, Inl (Joined [Sentinel ErrTurnstileUnavailable, e]))
                     | Suc n \<Rightarrow>
                         (case te_wait V attempt (wrap64 (turnstile_retryDelay * 2 ^ attempt)) of
                            Some we \<Rightarrow> (1, Inl we)
                          | None \<Rightarrow> (case verify_from V form (Suc attempt) n of (k, r) \<Rightarrow> (Suc k, r))))))"

declare verify_from.simps [simp del]

definition verify :: "turnstile_env \<Rightarrow> string \<Rightarrow> string \<Rightarrow> string \<Rightarrow> ('d, nat \<times> (err + TurnstileResult)) prog" where
  "verify V secret token remoteIP =
     bnd (wrap_err ''create turnstile idempotency key'' randomUUID) (\<lambda>idempotencyKey.
     ret (verify_from V (turnstile_form idempotencyKey secret token remoteIP) 0 (turnstile_attempts - 1)))"

definition VerifyTurnstileToken :: "turnstile_env \<Rightarrow> string \<Rightarrow> string \<Rightarrow> string \<Rightarrow> ('d, TurnstileResult) prog" where
  "VerifyTurnstileToken V secret token remoteIP =
     bnd (verify V secret token remoteIP) (\<lambda>(_, r). of_result r)"

section \<open>What the client promises\<close>

lemma turnstile_request_ok:
  "turnstile_request h = Inr r \<Longrightarrow>
   \<exists>p. h = Responded 200 (Inr p) \<and> tr_Success p \<and> tt_Hostname r = tr_Hostname p \<and> tt_Action r = tr_Action p"
  by (auto simp: turnstile_request_def split: turnstile_http.splits sum.splits if_splits prod.splits)

lemma verify_from_result:
  "verify_from V form attempt left = (k, r) \<Longrightarrow>
   1 \<le> k \<and> k \<le> Suc left \<and>
   (\<forall>x. r = Inr x \<longrightarrow> (\<exists>p. te_request V (attempt + k - 1) form = Responded 200 (Inr p)
       \<and> tr_Success p \<and> tt_Hostname x = tr_Hostname p \<and> tt_Action x = tr_Action p)) \<and>
   (\<forall>j. j < k - 1 \<longrightarrow> (\<exists>e. turnstile_request (te_request V (attempt + j) form) = Inl (True, e)))"
proof (induction left arbitrary: attempt k r)
  case 0
  then show ?case
    by (auto simp: verify_from.simps [of _ _ _ 0] dest!: turnstile_request_ok split: sum.splits prod.splits option.splits if_splits)
next
  case (Suc left)
  show ?case
  proof (cases "turnstile_request (te_request V attempt form)")
    case (Inr x)
    with Suc.prems have "k = 1" "r = Inr x" by (simp_all add: verify_from.simps [of _ _ _ "Suc left"])
    with turnstile_request_ok [OF Inr] show ?thesis by simp
  next
    case (Inl y)
    obtain retry e where y: "y = (retry, e)" by (cases y)
    show ?thesis
    proof (cases "te_context V attempt = None \<and> retry \<and> te_wait V attempt (wrap64 (turnstile_retryDelay * 2 ^ attempt)) = None")
      case True
      then obtain m where m: "verify_from V form (Suc attempt) left = (m, r)" "k = Suc m"
        using Suc.prems Inl y by (auto simp: verify_from.simps [of _ _ _ "Suc left"] split: prod.splits)
      note IH = Suc.IH [OF m(1)]
      have "\<exists>e. turnstile_request (te_request V (attempt + j) form) = Inl (True, e)" if "j < k - 1" for j
        using that IH m(2) Inl y True by (cases j) auto
      with IH m(2) show ?thesis by auto
    next
      case False
      then have "k = 1" "\<exists>e. r = Inl e"
        using Suc.prems Inl y by (auto simp: verify_from.simps [of _ _ _ "Suc left"] split: option.splits if_splits)
      then show ?thesis by auto
    qed
  qed
qed

lemma hex_encode_append: "hex_encode (a @ b) = hex_encode a @ hex_encode b"
  by (simp add: hex_encode_def)

end
