(* ===== verification/Service_Samples.thy ===== *)
theory Service_Samples
  imports Samples Dispatchers Smtp_Laws Rate_Limit Turnstile
begin

text \<open>
  Concrete inputs for the instances of the properties of the services: a configuration, a network on
  which everything succeeds, a database with a due event, and a mail server.
\<close>

definition cartridge_one :: cartridge where
  "cartridge_one = \<lparr>ca_Development = ''development'', ca_Production = ''production'', ca_Test = ''test'',
     ca_IsProduction = (\<lambda>e. e = ''production''), ca_IsDevelopment = (\<lambda>e. e = ''development''),
     ca_IsTest = (\<lambda>e. e = ''test'')\<rparr>"

definition env_one :: env where
  "env_one key =
     (if key = ''MINIFORM_ENV'' then ''production''
      else if key = ''MINIFORM_SESSION_SECRET'' then ''0123456789abcdef0123456789abcdef'' else [])"

definition config_one :: Config where
  "config_one =
     \<lparr>cf_AppName = appName, cf_Environment = ''production'', cf_Port = ''8080'', cf_LogLevel = ''error'',
      cf_DataDirectory = ''storage'', cf_DatabaseFilename = ''miniform.db'',
      cf_DatabasePath = ''storage/miniform.production.db'', cf_LogsDirectory = ''storage/logs'',
      cf_LogsMaxSizeMB = 20, cf_LogsMaxBackups = 10, cf_LogsMaxAgeDays = 30,
      cf_SessionSecret = ''0123456789abcdef0123456789abcdef'', cf_SessionTimeout = 604800,
      cf_MaxInputFields = 200, cf_MaxPayloadBytes = 65536, cf_MaxUploadStorageBytes = 1073741824,
      cf_RequestConcurrency = 32, cf_PublicGlobalRateLimit = 120,
      cf_Webhook = \<lparr>wc_SignatureHeader = ''X-Miniform-Signature'', wc_RetryLimit = 3,
                    wc_BackoffSchedule = ''1,5,15,60''\<rparr>\<rparr>"

definition mime_one :: mimelib where
  "mime_one =
     \<lparr>ml_boundary = ''b'', ml_media_type = (\<lambda>t b. t @ ''; boundary='' @ b), ml_multipart = (\<lambda>b ps. concat (map snd ps)),
      ml_quoted_printable = (\<lambda>s. s), ml_q_encoding = (\<lambda>s. s), ml_rfc1123z = (\<lambda>_. ''Mon, 02 Jan 2006 15:04:05 +0000''),
      ml_text = ''ABC''\<rparr>"

definition smtp_one :: smtp_server where
  "smtp_one = \<lparr>sv_answer = (\<lambda>_ _. None), sv_context = (\<lambda>_. None), sv_deadline = None\<rparr>"

definition net_one :: netlib where
  "net_one =
     \<lparr>nl_smtp = (\<lambda>_. smtp_one), nl_mime = mime_one, nl_new_request = (\<lambda>_. None), nl_http = (\<lambda>_ _. Inr (200, None)),
      nl_canonical = map ascii_lower, nl_hmac_sha256_hex = (\<lambda>k m. k @ m), nl_json_valid = (\<lambda>_. True),
      nl_webhook_json = (\<lambda>_. Inr ''{}'')\<rparr>"

definition due_one :: delivery_event where
  "due_one = event_one\<lparr>ev_Status := Pending, ev_AttemptCount := 0, ev_NextAttemptAt := Some 5\<rparr>"

definition db_due :: database where
  "db_due = db_one\<lparr>webhook_events := [due_one]\<rparr>"

definition smtp_config_one :: smtpConfig where
  "smtp_config_one = \<lparr>sm_Host = ''mail.example.com'', sm_Port = 587, sm_Username = ''u'', sm_Password = ''p'',
     sm_Encryption = ''starttls'', sm_From = ''a@example.com'', sm_Recipients = [''b@example.com'']\<rparr>"

definition mail_one :: outboundEmail where
  "mail_one = \<lparr>ob_From = ''a@example.com'', ob_To = [''b@example.com''], ob_ReplyTo = ''c@example.com'', ob_Subject = ''Hello'',
     ob_Format = ''text'', ob_TextBody = ''Hi'', ob_HTMLBody = []\<rparr>"

lemma db_due_ok: "db_ok db_due"
  by code_simp

end
