(* ===== verification/Service_Properties.thy ===== *)
theory Service_Properties
  imports Service_Samples
begin

text \<open>
  The properties of the services beside the form core: the delivery queues, the mailer, the webhook
  request, the configuration, the integration profiles, the captcha client and the rate limiter.
\<close>

section \<open>Delivery queues\<close>



text \<open>C10: Under a configuration that Load accepted, the runner keeps the invariant of the events: attempts
  stay within the retry limit, pending events have none, and only events that are still to be sent
  have a next attempt.\<close>
theorem Run_keeps_events_ok:
  assumes "Load L C dotenv env fresh = Inr cfg"
    and "Run rounds [WebhookDispatcher_ProcessBatch L N cfg, EmailDispatcher_ProcessBatch L N cfg] w = (r, w')"
    and "db_ok (db w)"
    and "\<forall>e\<in>set (webhook_events (db w)). event_ok (newRetryPlan cfg) e"
    and "\<forall>e\<in>set (email_events (db w)). event_ok (newRetryPlan cfg) e"
  shows "(\<forall>e\<in>set (webhook_events (db w')). event_ok (newRetryPlan cfg) e)
    \<and> (\<forall>e\<in>set (email_events (db w')). event_ok (newRetryPlan cfg) e)"
proof -
  have "in_int64 (wc_RetryLimit (cf_Webhook cfg))"
    using positiveEnvInt_pos [OF Load_parts(14) [OF assms(1)]] by (simp add: in_int64_def)
  then have plan: "plan_ok (newRetryPlan cfg)" using newRetryPlan_ok by blast
  have m: "moves (newRetryPlan cfg) (webhook_events (db w)) (webhook_events (db w'))"
    "moves (newRetryPlan cfg) (email_events (db w)) (email_events (db w'))"
    using Run_progress [OF assms(2,3)] by (simp_all add: progressed_def)
  show ?thesis by (rule conjI [OF moves_ok [OF m(1) plan assms(4)] moves_ok [OF m(2) plan assms(5)]])
qed

theorem Run_keeps_events_ok_witness:
  "\<exists>w'. Run [[False, False]] [WebhookDispatcher_ProcessBatch plain_lib net_one config_one,
        EmailDispatcher_ProcessBatch plain_lib net_one config_one] (world_of db_due) = (Inr (), w')
     \<and> (\<forall>e\<in>set (webhook_events (db w')). event_ok (newRetryPlan config_one) e)"
proof -
  let ?run = "Run [[False, False]] [WebhookDispatcher_ProcessBatch plain_lib net_one config_one,
        EmailDispatcher_ProcessBatch plain_lib net_one config_one] (world_of db_due)"
  have "is_ok (fst ?run)" by code_simp
  then obtain w' where r: "?run = (Inr (), w')" using ok_run [of ?run] by auto
  have ld: "Load plain_lib cartridge_one None env_one ''x'' = Inr config_one" by code_simp
  have "db_ok (db (world_of db_due))" using db_due_ok by (simp add: world_of_def)
  moreover have "\<forall>e\<in>set (webhook_events (db (world_of db_due))). event_ok (newRetryPlan config_one) e"
    "\<forall>e\<in>set (email_events (db (world_of db_due))). event_ok (newRetryPlan config_one) e"
    by (simp_all add: world_of_def db_due_def db_one_def empty_db_def event_ok_def due_one_def)
  ultimately show ?thesis using Run_keeps_events_ok [OF ld r] r by blast
qed





section \<open>Webhook requests\<close>

text \<open>C13: The headers a form configures cannot displace the idempotency key or the signature: the request
  carries the key of the event, and with a secret the signature of exactly the body sent, as long as
  the signature header is not itself called Idempotency-Key; two events of a form have two keys.\<close>
theorem webhook_request_headers:
  assumes "nl_canonical N signatureHeader \<noteq> nl_canonical N ''Idempotency-Key''"
  shows "header_value N (webhook_request L N signatureHeader eventID f delivery payload) ''Idempotency-Key''
      = Some (idempotency_key f eventID)
    \<and> (wd_Secret delivery \<noteq> [] \<longrightarrow>
        header_value N (webhook_request L N signatureHeader eventID f delivery payload) signatureHeader
          = Some (signWebhook N (hq_Body (webhook_request L N signatureHeader eventID f delivery payload)) (wd_Secret delivery)))
    \<and> (idempotency_key f eventID = idempotency_key f other \<longrightarrow> eventID = other)"
  using assms by (simp add: header_value_def webhook_request_def idempotency_key_def dec_digits_inj)

theorem webhook_request_headers_witness:
  "header_value net_one (webhook_request plain_lib net_one ''X-Sig'' 7 form_one (hook_one\<lparr>wd_Secret := ''k''\<rparr>) ''{}'') ''x-sig''
     = Some ''k{}''"
proof -
  have c: "nl_canonical net_one ''X-Sig'' \<noteq> nl_canonical net_one ''Idempotency-Key''"
    "nl_canonical net_one ''x-sig'' = nl_canonical net_one ''X-Sig''" by code_simp+
  have "header_value net_one r ''x-sig'' = header_value net_one r ''X-Sig''" for r
    using c(2) by (simp add: header_value_def)
  with webhook_request_headers [OF c(1), of plain_lib 7 form_one "hook_one\<lparr>wd_Secret := ''k''\<rparr>" "''{}''"]
  show ?thesis by (simp add: signWebhook_def webhook_request_def net_one_def)
qed

section \<open>Mail\<close>



text \<open>C15: With STARTTLS configured, the credentials are sent only right after the server agreed to
  start TLS.\<close>
theorem sendSMTP_credentials_after_tls:
  assumes "sendSMTP L V config message [] = (r, tr)" "sm_Encryption config = ''starttls''" "tr = pre @ SAuth u p # later"
  shows "\<exists>a. pre = a @ [SStartTLS (sm_Host config)] \<and> sv_answer V a (SStartTLS (sm_Host config)) = None"
  using assms by (rule sendSMTP_secure)

theorem sendSMTP_credentials_after_tls_witness:
  "\<exists>a. [SDial ''mail.example.com:587'', SGreeting, SStartTLS ''mail.example.com''] = a @ [SStartTLS (sm_Host smtp_config_one)]"
proof -
  have run: "sendSMTP plain_lib smtp_one smtp_config_one ''m'' [] =
      (Inr (), [SDial ''mail.example.com:587'', SGreeting, SStartTLS ''mail.example.com''] @ SAuth ''u'' ''p''
        # [SMail ''a@example.com'', SRcpt ''b@example.com'', SData, SBody ''m'', SEndData, SQuit])" by code_simp
  from sendSMTP_credentials_after_tls [OF run _ refl] show ?thesis by (simp add: smtp_config_one_def)
qed

text \<open>C16: Nothing in a form or a submission can inject a header: a built message is exactly the fixed
  fields in order, each a single line or a list folded at its commas, an empty line and the body.\<close>
theorem buildSMTPMessage_no_injection:
  assumes "buildSMTPMessage L E now email = Inr m" "single_lines L E"
  shows "\<exists>fields body. m = concat (map field_line fields) @ eol @ body \<and> suffix eol body
    \<and> map fst fields = [''From'', ''To''] @ (if ob_ReplyTo email = [] then [] else [''Reply-To''])
        @ [''Subject'', ''Date'', ''Message-ID'', ''MIME-Version'', ''Content-Type'']
        @ (if NormalizeEmailFormat L (ob_Format email) = Inr ''html'' then [] else [''Content-Transfer-Encoding''])
    \<and> (\<forall>f\<in>set fields. folded (snd f))"
  using assms by (rule buildSMTPMessage_fields)

theorem buildSMTPMessage_no_injection_witness:
  "\<exists>L m fields body. buildSMTPMessage L mime_one 0 mail_one = Inr m \<and> m = concat (map field_line fields) @ eol @ body
     \<and> (\<forall>f\<in>set fields. folded (snd f))"
proof -
  let ?L = "plain_lib\<lparr>lib_parse_address := (\<lambda>s. if CHR ''@'' \<in> set s \<and> list_all (\<lambda>c. \<not> header_break c) s then Some ([], s) else None)\<rparr>"
  have "is_ok (buildSMTPMessage ?L mime_one 0 mail_one)" by code_simp
  then obtain m where m: "buildSMTPMessage ?L mime_one 0 mail_one = Inr m" using ok_value by blast
  have d: "one_line (message_domain s)" if "list_all (\<lambda>c. \<not> header_break c) s" for s
    using that by (auto simp: one_line_def message_domain_def list_all_iff dest!: set_takeWhileD)
  have d': "one_line s \<Longrightarrow> one_line (message_domain s)" for s using d by (simp add: one_line_def list_all_iff)
  have parts: "one_line ''Mon, 02 Jan 2006 15:04:05 +0000''" "one_line ''ABC''" "one_line ''; boundary=''" "one_line ''b''" by code_simp+
  have lib: "lib_parse_address ?L s = Some a \<longleftrightarrow> CHR ''@'' \<in> set s \<and> one_line s \<and> a = ([], s)" "lib_address_string ?L a = snd a" for s a
    by (auto simp: plain_lib_def one_line_def list_all_iff)
  have mime: "ml_q_encoding mime_one s = s" "ml_rfc1123z mime_one t = ''Mon, 02 Jan 2006 15:04:05 +0000''" "ml_text mime_one = ''ABC''"
    "ml_media_type mime_one s (ml_boundary mime_one) = s @ ''; boundary='' @ ''b''" for s t
    by (simp_all add: mime_one_def)
  have "single_lines ?L mime_one"
    unfolding single_lines_def mime lib using parts d'
    by (intro conjI allI impI) (simp_all only: one_line_append, auto)
  from buildSMTPMessage_no_injection [OF m this] m show ?thesis by blast
qed

section \<open>Configuration\<close>

text \<open>C17: A configuration that Load accepts is usable: a known environment and log level, in production a
  session secret of at least 32 characters, a port between 1 and 65535, a valid signature header name,
  positive limits, and a back-off schedule that parses to positive seconds.\<close>
theorem Load_valid:
  assumes "Load L C dotenv env fresh = Inr cfg"
  shows "cf_Environment cfg \<in> {ca_Development C, ca_Production C, ca_Test C}
    \<and> (cf_Environment cfg = ca_Production C \<longrightarrow> 32 \<le> length (cf_SessionSecret cfg))
    \<and> cf_LogLevel cfg \<in> {''debug'', ''info'', ''warn'', ''error''}
    \<and> (\<exists>p. atoi (cf_Port cfg) = Some p \<and> 1 \<le> p \<and> p \<le> 65535)
    \<and> lib_header_name L (wc_SignatureHeader (cf_Webhook cfg))
    \<and> 0 < cf_SessionTimeout cfg \<and> 0 < cf_MaxInputFields cfg \<and> 0 < cf_MaxPayloadBytes cfg
    \<and> 0 < cf_MaxUploadStorageBytes cfg \<and> 0 < cf_RequestConcurrency cfg \<and> 0 < cf_PublicGlobalRateLimit cfg
    \<and> 0 < wc_RetryLimit (cf_Webhook cfg)
    \<and> (\<exists>ns. parsePositiveInts (wc_BackoffSchedule (cf_Webhook cfg)) = Inr ns \<and> WebhookBackoff cfg = ns
          \<and> ns \<noteq> [] \<and> (\<forall>n\<in>set ns. 0 < n))"
proof (intro conjI)
  note parts = Load_parts [OF assms]
  show "cf_Environment cfg \<in> {ca_Development C, ca_Production C, ca_Test C}"
    using parts(1) by (auto simp: load_environment_def Let_def split: if_splits)
  show "cf_Environment cfg = ca_Production C \<longrightarrow> 32 \<le> length (cf_SessionSecret cfg)"
    using parts(3) by (auto simp: load_session_secret_def Let_def split: if_splits)
  show "cf_LogLevel cfg \<in> {''debug'', ''info'', ''warn'', ''error''}"
    using parts(4) by (auto simp: load_log_level_def normalizeLogLevel_def Let_def split: if_splits sum.splits)
  show "\<exists>p. atoi (cf_Port cfg) = Some p \<and> 1 \<le> p \<and> p \<le> 65535"
    using parts(5) by (auto simp: load_port_def Let_def split: if_splits option.splits)
  show "lib_header_name L (wc_SignatureHeader (cf_Webhook cfg))"
    using parts(6) by (auto simp: load_signature_header_def Let_def split: if_splits)
  show "0 < cf_SessionTimeout cfg" "0 < cf_MaxInputFields cfg" "0 < cf_MaxPayloadBytes cfg" "0 < cf_MaxUploadStorageBytes cfg"
    "0 < cf_RequestConcurrency cfg" "0 < cf_PublicGlobalRateLimit cfg" "0 < wc_RetryLimit (cf_Webhook cfg)"
    using positiveEnvInt_pos [OF parts(8)] positiveEnvInt_pos [OF parts(9)] positiveEnvInt_pos [OF parts(10)]
      positiveEnvInt64_pos [OF parts(11)] positiveEnvInt_pos [OF parts(12)] positiveEnvInt_pos [OF parts(13)]
      positiveEnvInt_pos [OF parts(14)] by (simp_all add: in_int64_def)
  obtain ns where ns: "parsePositiveInts (wc_BackoffSchedule (cf_Webhook cfg)) = Inr ns"
    using parts(7) by (auto simp: load_backoff_def Let_def split: sum.splits)
  show "\<exists>ns. parsePositiveInts (wc_BackoffSchedule (cf_Webhook cfg)) = Inr ns \<and> WebhookBackoff cfg = ns
          \<and> ns \<noteq> [] \<and> (\<forall>n\<in>set ns. 0 < n)"
    using ns parsePositiveInts_result [OF ns] by (simp add: WebhookBackoff_def)
qed

theorem Load_valid_witness: "32 \<le> length (cf_SessionSecret config_one) \<and> WebhookBackoff config_one \<noteq> []"
proof -
  have "Load plain_lib cartridge_one None env_one ''x'' = Inr config_one" by code_simp
  from Load_valid [OF this] show ?thesis by (simp add: config_one_def cartridge_one_def)
qed

section \<open>Integration profiles\<close>

lemma profile_causes:
  "\<not> IsContention (Some foreign_key_failed)"
  "profile_error ''delete'' foreign_key_failed = Sentinel ErrProfileInUse"
  "profile_error ''delete'' (Sentinel ErrRecordNotFound) = Wrap ''failed to delete profile'' (Sentinel ErrRecordNotFound)"
  by code_simp+

section \<open>Captcha\<close>

text \<open>C18: Verifying a token makes one to three requests, all with the same form; it succeeds only on a 200
  answer that says so, and asks again only after a failure that is worth retrying.\<close>
theorem verify_bounded_and_sound:
  assumes "verify V secret token remoteIP w = (Inr (k, r), w')"
  shows "\<exists>key. let form = turnstile_form key secret token remoteIP in 1 \<le> k \<and> k \<le> 3
    \<and> (\<forall>x. r = Inr x \<longrightarrow> (\<exists>p. te_request V (k - 1) form = Responded 200 (Inr p) \<and> tr_Success p
          \<and> tt_Hostname x = tr_Hostname p \<and> tt_Action x = tr_Action p))
    \<and> (\<forall>j. j < k - 1 \<longrightarrow> (\<exists>e. turnstile_request (te_request V j form) = Inl (True, e)))"
proof -
  from assms obtain key where "verify_from V (turnstile_form key secret token remoteIP) 0 (turnstile_attempts - 1) = (k, r)"
    by (auto simp: verify_def elim!: bnd_InrE)
  from verify_from_result [OF this] show ?thesis
    unfolding Let_def by (intro exI [of _ key]) (auto simp: turnstile_attempts_def)
qed

theorem verify_bounded_and_sound_witness:
  "\<exists>k r w'. verify \<lparr>te_request = (\<lambda>n _. if n = 0 then NoResponse (Plain ''timeout'') else Responded 200 (Inr \<lparr>tr_Success = True,
        tr_Hostname = ''h'', tr_Action = ''submit'', tr_ErrorCodes = []\<rparr>)), te_context = (\<lambda>_. None), te_wait = (\<lambda>_ _. None)\<rparr>
        ''s'' ''t'' [] (world_of db_due) = (Inr (k, r), w') \<and> 1 \<le> k \<and> k \<le> 3 \<and> is_ok r"
proof -
  let ?V = "\<lparr>te_request = (\<lambda>n (_ :: string). if n = 0 then NoResponse (Plain ''timeout'') else Responded 200 (Inr \<lparr>tr_Success = True,
        tr_Hostname = ''h'', tr_Action = ''submit'', tr_ErrorCodes = []\<rparr>)), te_context = (\<lambda>_ :: nat. None), te_wait = (\<lambda>(_ :: nat) (_ :: int). None)\<rparr>"
  have run: "case fst (verify ?V ''s'' ''t'' [] (world_of db_due)) of Inl _ \<Rightarrow> False | Inr (k, r) \<Rightarrow> k = 2 \<and> is_ok r" by code_simp
  then obtain k r w' where r: "verify ?V ''s'' ''t'' [] (world_of db_due) = (Inr (k, r), w')" "is_ok r"
    by (cases "verify ?V ''s'' ''t'' [] (world_of db_due)") (auto split: sum.splits)
  from verify_bounded_and_sound [OF r(1)] r show ?thesis by (auto simp: Let_def)
qed

section \<open>Rate limiter storage\<close>

end
