(* ===== verification/Server.thy ===== *)
theory Server
  imports Integrations Config
begin

text \<open>
  The HTTP layer's own helpers, \<open>internal/server\<close>, and the connection manager of
  \<open>internal/database/manager.go\<close>. A handler fails with a \<open>fiber.Error\<close> or another Go error.
\<close>

datatype failure = FiberError int string | GoError err

definition ErrInternalServerError :: failure where
  "ErrInternalServerError = FiberError 500 ''Internal Server Error''"

definition ErrNotFoundPage :: failure where
  "ErrNotFoundPage = FiberError 404 ''Not Found''"

section \<open>Client addresses\<close>

definition parse_ip :: "golib \<Rightarrow> string \<Rightarrow> string option" where
  "parse_ip L s = lib_parse_ip L (trim_space s)"

definition clientIP :: "golib \<Rightarrow> string \<Rightarrow> string \<Rightarrow> string \<Rightarrow> ProxyMode \<Rightarrow> string" where
  "clientIP L remoteIP forwardedFor realIP mode =
     (if mode = ProxyRailway then (case parse_ip L realIP of Some a \<Rightarrow> a | None \<Rightarrow> remoteIP)
      else if mode \<noteq> ProxyMatcha then remoteIP
      else (let addresses = split_on (CHR '','') forwardedFor in
            if addresses = [] then remoteIP
            else (case parse_ip L (last addresses) of None \<Rightarrow> remoteIP | Some a \<Rightarrow> a)))"

section \<open>Request bodies\<close>

text \<open>The headers in order; the accepted request loses its \<open>Content-Encoding\<close>.\<close>

definition encoding_allowed :: "string \<times> string \<Rightarrow> bool" where
  "encoding_allowed h \<longleftrightarrow>
     (if \<not> equal_fold (fst h) ''Content-Encoding'' \<or> snd h = [] then True
      else list_all (\<lambda>e. equal_fold (trim_space e) ''identity'') (split_on (CHR '','') (snd h)))"

definition RequireUncompressedBody :: "(string \<times> string) list \<Rightarrow> failure + (string \<times> string) list" where
  "RequireUncompressedBody headers =
     (if \<not> list_all encoding_allowed headers
      then Inl (FiberError 415 ''compressed request bodies are not supported'')
      else Inr (filter (\<lambda>h. \<not> equal_fold (fst h) ''Content-Encoding'') headers))"

section \<open>Security headers\<close>

definition base64_char :: "nat \<Rightarrow> char" where
  "base64_char n = ''ABCDEFGHIJKLMNOPQRSTUVWXYZabcdefghijklmnopqrstuvwxyz0123456789+/'' ! n"

text \<open>\<open>base64.RawStdEncoding\<close>.\<close>

fun base64_raw :: "nat list \<Rightarrow> string" where
  "base64_raw (a # b # c # rest) =
     base64_char (a div 4) # base64_char (a mod 4 * 16 + b div 16) # base64_char (b mod 16 * 4 + c div 64)
       # base64_char (c mod 64) # base64_raw rest"
| "base64_raw [a, b] = [base64_char (a div 4), base64_char (a mod 4 * 16 + b div 16), base64_char (b mod 16 * 4)]"
| "base64_raw [a] = [base64_char (a div 4), base64_char (a mod 4 * 16)]"
| "base64_raw [] = []"

definition quoted :: "string \<Rightarrow> string" where
  "quoted s = CHR 0x27 # s @ [CHR 0x27]"

definition content_security_policy :: "string \<Rightarrow> string \<Rightarrow> string" where
  "content_security_policy nonce live =
     (let self = quoted ''self''; none = quoted ''none'' in
      join ''; ''
       [''default-src '' @ self, ''base-uri '' @ self, ''object-src '' @ none, ''frame-ancestors '' @ none, ''form-action '' @ self,
        ''script-src '' @ self @ '' '' @ quoted (''nonce-'' @ nonce) @ '' https://challenges.cloudflare.com'' @ live,
        ''style-src '' @ self @ '' '' @ quoted ''unsafe-inline'', ''img-src '' @ self @ '' data:'', ''font-src '' @ self,
        ''connect-src '' @ self @ '' https://challenges.cloudflare.com'' @ live,
        ''frame-src '' @ self @ '' https://challenges.cloudflare.com'', ''worker-src '' @ none])"

definition IsDevelopment :: "cartridge \<Rightarrow> Config \<Rightarrow> bool" where
  "IsDevelopment C cfg = ca_IsDevelopment C (cf_Environment cfg)"

definition IsTest :: "cartridge \<Rightarrow> Config \<Rightarrow> bool" where
  "IsTest C cfg = ca_IsTest C (cf_Environment cfg)"

definition security_headers :: "cartridge \<Rightarrow> Config \<Rightarrow> string \<Rightarrow> string \<Rightarrow> (string \<times> string) list" where
  "security_headers C cfg path nonce =
     [(''Content-Security-Policy'', content_security_policy nonce (if IsDevelopment C cfg then '' http://localhost:8400'' else [])),
      (''Permissions-Policy'', ''camera=(), microphone=(), geolocation=()''),
      (''Referrer-Policy'', ''same-origin''), (''X-Content-Type-Options'', ''nosniff''), (''X-Frame-Options'', ''DENY'')]
     @ (if IsProduction C cfg then [(''Strict-Transport-Security'', ''max-age=31536000'')] else [])
     @ (if prefix ''/admin'' path
        then [(''Cache-Control'', ''no-store''), (''Pragma'', ''no-cache''), (''Expires'', ''0'')] else [])"

text \<open>The nonce is eighteen random bytes; it is what the templates see (\<open>TemplateSecurity\<close>).\<close>

definition SecurityHeaders :: "cartridge \<Rightarrow> Config \<Rightarrow> string \<Rightarrow> nat list option \<Rightarrow> err + (string \<times> (string \<times> string) list)" where
  "SecurityHeaders C cfg path random =
     (case random of
        None \<Rightarrow> Inl (Wrap ''generate content security policy nonce'' (Plain ''unexpected EOF''))
      | Some bytes \<Rightarrow> (let nonce = base64_raw bytes in Inr (nonce, security_headers C cfg path nonce)))"

section \<open>Errors\<close>

definition publicError :: "failure \<Rightarrow> bool \<Rightarrow> int \<times> string" where
  "publicError f development =
     (case f of
        FiberError code message \<Rightarrow> (code, message)
      | GoError e \<Rightarrow> if development then (500, err_text e) else (500, ''Internal Server Error''))"

datatype error_page =
    SubmitJSON int string
  | ApiJSON int string string
  | Page500 bool string
  | Page4xx int string "string option"
  | PlainPage int string

text \<open>
  \<open>ErrorHandler\<close>: whether the path is a submission endpoint (\<open>RoutePatternMatch\<close>) and whether the
  client prefers JSON (\<open>Accepts\<close>) are what the framework says; the last argument is the
  \<open>HX-Request\<close> header.
\<close>

definition ErrorHandler ::
  "(int \<Rightarrow> string) \<Rightarrow> cartridge \<Rightarrow> Config \<Rightarrow> string \<Rightarrow> bool \<Rightarrow> bool \<Rightarrow> string \<Rightarrow> failure \<Rightarrow> error_page" where
  "ErrorHandler statusText C cfg httpMethod submit_path prefers_json hx failed =
     (case publicError failed (IsDevelopment C cfg) of (status, message) \<Rightarrow>
      if httpMethod = ''POST'' \<and> submit_path then SubmitJSON status message
      else if prefers_json then ApiJSON status (statusText status) message
      else if status = 500 then Page500 (IsDevelopment C cfg) message
      else if status \<ge> 400 \<and> status < 500
      then Page4xx status message (if hx = ''true'' then Some ''/admin/submissions'' else None)
      else PlainPage status (''Error: '' @ itoa status @ '' - '' @ message))"

section \<open>Assets and previews\<close>

definition assetVersion :: "string \<Rightarrow> string \<Rightarrow> string" where
  "assetVersion buildCommit developmentAssetStamp =
     (if buildCommit = ''dev'' then developmentAssetStamp
      else if length buildCommit > 8 then take 8 buildCommit else buildCommit)"

text \<open>A conversion to runes and back replaces every invalid byte by U+FFFD.\<close>

definition valid_rune :: "string \<Rightarrow> string" where
  "valid_rune r = (if length r = 1 \<and> \<not> list_all is_ascii r then [CHR 0xEF, CHR 0xBF, CHR 0xBD] else r)"

definition compactPreview :: "(string \<Rightarrow> string option) \<Rightarrow> string \<Rightarrow> string" where
  "compactPreview json_compact raw0 =
     (let raw = (case json_compact raw0 of Some s \<Rightarrow> s | None \<Rightarrow> raw0);
          rs = runes raw
      in if length rs \<le> 80 then raw else concat (map valid_rune (take 80 rs)) @ ''...'')"

section \<open>Logging\<close>

datatype log_level = LevelDebug | LevelInfo | LevelWarn | LevelError

definition parseLogLevel :: "golib \<Rightarrow> string \<Rightarrow> log_level" where
  "parseLogLevel L v =
     (let level = to_lower L (trim_space v) in
      if level = ''debug'' then LevelDebug
      else if level = ''warn'' \<or> level = ''warning'' then LevelWarn
      else if level = ''error'' then LevelError else LevelInfo)"

record log_output =
  lo_Filename :: string
  lo_MaxSize :: int
  lo_MaxBackups :: int
  lo_MaxAge :: int

text \<open>Without a file (\<open>None\<close>) the log goes to standard output as text.\<close>

definition newLogger :: "golib \<Rightarrow> cartridge \<Rightarrow> Config \<Rightarrow> log_level \<times> log_output option" where
  "newLogger L C cfg =
     (let appname = (if cf_AppName cfg = [] then ''app'' else cf_AppName cfg);
          directory = (if cf_LogsDirectory cfg = [] then ''logs'' else cf_LogsDirectory cfg);
          positive = (\<lambda>n fallback. if n \<le> 0 then fallback else n)
      in (parseLogLevel L (cf_LogLevel cfg),
          if \<not> IsProduction C cfg then None
          else Some \<lparr>lo_Filename = path_join directory (appname @ ''.log''),
                     lo_MaxSize = positive (cf_LogsMaxSizeMB cfg) 100,
                     lo_MaxBackups = positive (cf_LogsMaxBackups cfg) 3,
                     lo_MaxAge = positive (cf_LogsMaxAgeDays cfg) 28\<rparr>))"

text \<open>\<open>rotatingLogOutput\<close>: closed once, and nothing is written after that; the writer is a parameter.\<close>

record rotatingLogOutput =
  rt_written :: "string list"
  rt_closed :: bool

definition rt_Write :: "string \<Rightarrow> rotatingLogOutput \<Rightarrow> (err + nat) \<times> rotatingLogOutput" where
  "rt_Write data out =
     (if rt_closed out then (Inl (Plain ''file already closed''), out)
      else (Inr (length data), out\<lparr>rt_written := rt_written out @ [data]\<rparr>))"

definition rt_Close :: "err option \<Rightarrow> rotatingLogOutput \<Rightarrow> (err + unit) \<times> rotatingLogOutput" where
  "rt_Close underlying out =
     (if rt_closed out then (Inr (), out)
      else ((case underlying of None \<Rightarrow> Inr () | Some e \<Rightarrow> Inl e), out\<lparr>rt_closed := True\<rparr>))"

section \<open>The connection manager\<close>

text \<open>
  \<open>mg_connection\<close> is the pool, by number, once it is open; \<open>mg_next\<close> the number the next one would
  get. What opening, reaching the pool and closing it give are arguments.
\<close>

record manager =
  mg_path :: string
  mg_maxOpenConns :: int
  mg_maxIdleConns :: int
  mg_connection :: "nat option"
  mg_closed :: bool
  mg_next :: nat

definition NewManager :: "string \<Rightarrow> int \<Rightarrow> int \<Rightarrow> manager" where
  "NewManager path maxOpenConns maxIdleConns =
     \<lparr>mg_path = path, mg_maxOpenConns = (if maxOpenConns \<le> 0 then 1 else maxOpenConns),
      mg_maxIdleConns = (if maxIdleConns \<le> 0 then 1 else maxIdleConns),
      mg_connection = None, mg_closed = False, mg_next = 0\<rparr>"

definition Connect :: "err option \<Rightarrow> err option \<Rightarrow> manager \<Rightarrow> (err + nat) \<times> manager" where
  "Connect open_fails pool_fails m =
     (if mg_closed m then (Inl (Plain ''SQLite database manager is closed''), m)
      else (case mg_connection m of
              Some c \<Rightarrow> (Inr c, m)
            | None \<Rightarrow>
                (case open_fails of
                   Some e \<Rightarrow> (Inl (Wrap ''open SQLite database'' e), m)
                 | None \<Rightarrow>
                     (case pool_fails of
                        Some e \<Rightarrow> (Inl (Wrap ''access SQLite connection pool'' e), m\<lparr>mg_next := Suc (mg_next m)\<rparr>)
                      | None \<Rightarrow> (Inr (mg_next m), m\<lparr>mg_connection := Some (mg_next m), mg_next := Suc (mg_next m)\<rparr>)))))"

definition GetConnection :: "err option \<Rightarrow> err option \<Rightarrow> manager \<Rightarrow> nat option \<times> manager" where
  "GetConnection open_fails pool_fails m =
     (case Connect open_fails pool_fails m of (Inl _, m') \<Rightarrow> (None, m') | (Inr c, m') \<Rightarrow> (Some c, m'))"

definition ascii_upper :: "char \<Rightarrow> char" where
  "ascii_upper c = (if 97 \<le> (of_char c :: nat) \<and> (of_char c :: nat) \<le> 122 then char_of ((of_char c :: nat) - 32) else c)"

text \<open>The statement is run when the mode is one of the four, given here in ASCII.\<close>

definition CheckpointWAL ::
  "golib \<Rightarrow> string \<Rightarrow> err option \<Rightarrow> err option \<Rightarrow> (string \<Rightarrow> err option) \<Rightarrow> manager \<Rightarrow> (err + unit) \<times> manager" where
  "CheckpointWAL L mode0 open_fails pool_fails run m =
     (let mode = map ascii_upper mode0 in
      if mode \<notin> set [''PASSIVE'', ''FULL'', ''RESTART'', ''TRUNCATE'']
      then (Inl (Plain (''invalid WAL checkpoint mode '' @ lib_quote L mode)), m)
      else (case Connect open_fails pool_fails m of
              (Inl e, m') \<Rightarrow> (Inl e, m')
            | (Inr _, m') \<Rightarrow>
                (case run (''PRAGMA wal_checkpoint('' @ mode @ '')'') of
                   Some e \<Rightarrow> (Inl (Wrap ''checkpoint SQLite WAL'' e), m')
                 | None \<Rightarrow> (Inr (), m'))))"

definition mg_Close :: "err option \<Rightarrow> err option \<Rightarrow> manager \<Rightarrow> (err + unit) \<times> manager" where
  "mg_Close pool_fails close_fails m =
     (if mg_closed m then (Inr (), m)
      else (case mg_connection m of
              None \<Rightarrow> (Inr (), m\<lparr>mg_closed := True\<rparr>)
            | Some _ \<Rightarrow>
                (case pool_fails of
                   Some e \<Rightarrow> (Inl (Wrap ''access SQLite connection pool'' e), m\<lparr>mg_closed := True\<rparr>)
                 | None \<Rightarrow>
                     ((case close_fails of Some e \<Rightarrow> Inl (Wrap ''close SQLite database'' e) | None \<Rightarrow> Inr ()),
                      m\<lparr>mg_closed := True, mg_connection := None\<rparr>))))"

text \<open>\<open>dsn\<close>: the query is sorted by name; slashes of the path stay, other bytes are escaped (\<open>url.PathEscape\<close>).\<close>

definition dsn :: "(string \<Rightarrow> string) \<Rightarrow> manager \<Rightarrow> string" where
  "dsn path_escape m =
     ''file:'' @ replace_all ''%2F'' ''/'' (path_escape (mg_path m))
     @ ''?_busy_timeout=5000&_foreign_keys=on&_journal_mode=WAL&_synchronous=NORMAL&_txlock=immediate''"

section \<open>The manager opens one pool\<close>

lemma Connect_once:
  "Connect a b m = (Inr c, m') \<Longrightarrow> mg_connection m' = Some c \<and> \<not> mg_closed m' \<and> Connect a' b' m' = (Inr c, m')"
  by (auto simp: Connect_def split: if_splits option.splits)

lemma Connect_closed: "mg_closed m \<Longrightarrow> \<exists>e. Connect a b m = (Inl e, m)"
  by (simp add: Connect_def)

lemma Close_closes: "mg_closed (snd (mg_Close a b m)) \<and> mg_Close a' b' (snd (mg_Close a b m)) = (Inr (), snd (mg_Close a b m))"
  by (auto simp: mg_Close_def split: option.splits)

end
