(* ===== verification/Public.thy ===== *)
theory Public
  imports Submission_Laws Server Turnstile "HOL-Library.AList"
begin

text \<open>
  The public submission endpoint, \<open>internal/http/public.go\<close>, with \<open>internal/http/database.go\<close>: from
  the request as the framework presents it to the response, over the database, the captcha service
  and the data directory.
\<close>

section \<open>Requests and responses\<close>

text \<open>\<open>requestDB\<close>: no manager, an error connecting, no connection, or a connection.\<close>

datatype db_manager = NoManager | ConnectError err | NoConnection | Connected

definition requestDB :: "db_manager \<Rightarrow> failure + unit" where
  "requestDB manager =
     (case manager of
        NoManager \<Rightarrow> Inl (GoError (Plain ''request database manager is unavailable''))
      | ConnectError e \<Rightarrow> Inl (GoError (Wrap ''connect request database'' e))
      | NoConnection \<Rightarrow> Inl (GoError (Plain ''connect request database: connection is unavailable''))
      | Connected \<Rightarrow> Inr ())"

text \<open>
  Headers and parameters are empty when absent; \<open>rq_Multipart\<close> is the parsed form (values and files
  per name, in the order the maps are visited), \<open>rq_PostArgs\<close> the url-encoded one.
\<close>

record public_request =
  rq_Slug :: string
  rq_Token :: string
  rq_ContentType :: string
  rq_UserAgent :: string
  rq_Origin :: string
  rq_Referer :: string
  rq_Body :: string
  rq_Multipart :: "err + (string \<times> string list) list \<times> (string \<times> file_header list) list"
  rq_PostArgs :: "(string \<times> string) list"
  rq_ClientIP :: string

datatype response =
    Redirect string
  | JsonError int string
  | JsonOk nat gotime
  | Aborted failure

section \<open>Payloads\<close>

definition setFormValues :: "payload \<Rightarrow> string \<Rightarrow> string list \<Rightarrow> payload" where
  "setFormValues payload name vals =
     AList.update name (case vals of [v] \<Rightarrow> JStr v | _ \<Rightarrow> JArr (map JStr vals)) payload"

definition appendFormValue :: "payload \<Rightarrow> string \<Rightarrow> string \<Rightarrow> payload" where
  "appendFormValue payload name v =
     (case map_of payload name of
        None \<Rightarrow> AList.update name (JStr v) payload
      | Some JNull \<Rightarrow> AList.update name (JStr v) payload
      | Some (JStr current) \<Rightarrow> AList.update name (JArr [JStr current, JStr v]) payload
      | Some (JArr vs) \<Rightarrow> AList.update name (JArr (vs @ [JStr v])) payload
      | Some _ \<Rightarrow> payload)"

text \<open>The loops over a multipart form's values and files and over url-encoded pairs.\<close>

fun multipart_values ::
  "int \<Rightarrow> int \<Rightarrow> (string \<times> string list) list \<Rightarrow> int \<Rightarrow> int \<Rightarrow> payload \<Rightarrow> payload \<times> (err + int)" where
  "multipart_values maxBytes maxFields [] count bytes payload = (payload, Inr bytes)"
| "multipart_values maxBytes maxFields ((name, vals) # others) count bytes payload =
     (let count' = count + int (length vals);
          bytes' = bytes + int (length name) + sum_list (map (int \<circ> length) vals)
      in if bytes' > maxBytes then (payload, Inl (Sentinel ErrPayloadTooLarge))
         else if count' > maxFields then (payload, Inl (Sentinel ErrTooManyFields))
         else multipart_values maxBytes maxFields others count' bytes' (setFormValues payload name vals))"

fun multipart_files :: "int \<Rightarrow> (string \<times> file_header list) list \<Rightarrow> int \<Rightarrow> err + int" where
  "multipart_files maxBytes [] bytes = Inr bytes"
| "multipart_files maxBytes ((name, headers) # others) bytes =
     (let bytes' = bytes + int (length name) + sum_list (map (\<lambda>h. int (length (fh_Filename h))) headers)
      in if bytes' > maxBytes then Inl (Sentinel ErrPayloadTooLarge) else multipart_files maxBytes others bytes')"

fun post_args ::
  "int \<Rightarrow> int \<Rightarrow> (string \<times> string) list \<Rightarrow> int \<Rightarrow> int \<Rightarrow> payload \<Rightarrow> payload \<times> (err + int)" where
  "post_args maxBytes maxFields [] count bytes payload = (payload, Inr count)"
| "post_args maxBytes maxFields ((name, v) # others) count bytes payload =
     (let bytes' = bytes + int (length name) + int (length v)
      in if bytes' > maxBytes then (payload, Inl (Sentinel ErrPayloadTooLarge))
         else post_args maxBytes maxFields others (count + 1) bytes'
                (if count + 1 \<le> maxFields then appendFormValue payload name v else payload))"

definition max_payload :: "Config \<Rightarrow> int" where
  "max_payload cfg = (if cf_MaxPayloadBytes cfg \<le> 0 then 64 * 1024 else cf_MaxPayloadBytes cfg)"

definition json_payload :: "golib \<Rightarrow> Config \<Rightarrow> string \<Rightarrow> payload \<times> err option" where
  "json_payload L cfg body =
     (if int (length body) > max_payload cfg then ([], Some (Sentinel ErrPayloadTooLarge))
      else (case DecodeSubmissionPayload L body of
              Inl e \<Rightarrow> ([], Some e)
            | Inr payload \<Rightarrow>
                (payload,
                 if int (length payload) > cf_MaxInputFields cfg then Some (Sentinel ErrTooManyFields)
                 else if payload = [] then Some (Sentinel ErrEmptySubmission) else None)))"

definition form_payload :: "Config \<Rightarrow> public_request \<Rightarrow> payload \<times> (err + bool)" where
  "form_payload cfg r =
     (if str_contains ''multipart/form-data'' (rq_ContentType r)
      then (case rq_Multipart r of
              Inl _ \<Rightarrow> ([], Inl (Plain ''invalid multipart submission''))
            | Inr (vals, files) \<Rightarrow>
                (case multipart_values (max_payload cfg) (cf_MaxInputFields cfg) vals 0 0 [] of
                   (payload, Inl e) \<Rightarrow> (payload, Inl e)
                 | (payload, Inr bytes) \<Rightarrow>
                     (case multipart_files (max_payload cfg) files bytes of
                        Inl e \<Rightarrow> (payload, Inl e)
                      | Inr _ \<Rightarrow> (payload, Inr (files \<noteq> [])))))
      else (case post_args (max_payload cfg) (cf_MaxInputFields cfg) (rq_PostArgs r) 0 0 [] of
              (payload, Inl e) \<Rightarrow> (payload, Inl e)
            | (payload, Inr count) \<Rightarrow>
                (payload, if count > cf_MaxInputFields cfg then Inl (Sentinel ErrTooManyFields) else Inr False)))"

text \<open>The payload comes back with an error too: its error redirect is still honoured.\<close>

definition extractSubmissionPayload :: "golib \<Rightarrow> Config \<Rightarrow> public_request \<Rightarrow> payload \<times> err option" where
  "extractSubmissionPayload L cfg r =
     (if str_contains ''application/json'' (rq_ContentType r) then json_payload L cfg (rq_Body r)
      else (case form_payload cfg r of
              (payload, Inl e) \<Rightarrow> (payload, Some e)
            | (payload, Inr hasFiles) \<Rightarrow>
                (payload, if payload = [] \<and> \<not> hasFiles then Some (Sentinel ErrEmptySubmission) else None)))"

definition uploadedFiles :: "golib \<Rightarrow> public_request \<Rightarrow> loaded_form \<Rightarrow> err + UploadedFile list" where
  "uploadedFiles L r lf =
     (if \<not> str_contains ''multipart/form-data'' (rq_ContentType r) then Inr []
      else (case rq_Multipart r of
              Inl e \<Rightarrow> Inl e
            | Inr (_, files) \<Rightarrow>
                if \<not> fm_UploadsEnabled (lf_Form lf) \<and> files \<noteq> []
                then Inl (Plain ''file uploads are disabled for this form'')
                else ExtractFiles L files))"

section \<open>Origins and redirects\<close>

definition requestOrigin :: "golib \<Rightarrow> public_request \<Rightarrow> string" where
  "requestOrigin L r =
     (let given = trim_space (rq_Origin r);
          origin = (if given = [] then trim_space (rq_Referer r) else given)
      in case lib_url_parse L origin of
           None \<Rightarrow> []
         | Some parsed \<Rightarrow>
             if url_hostname parsed = [] then []
             else if url_Scheme parsed \<noteq> ''http'' \<and> url_Scheme parsed \<noteq> ''https'' then []
             else url_Scheme parsed @ ''://'' @ url_Host parsed)"

definition extractDomain :: "golib \<Rightarrow> string \<Rightarrow> string" where
  "extractDomain L raw0 =
     (let raw = trim_space raw0 in
      if raw = [] then []
      else (case lib_url_parse L (if str_contains ''://'' raw then raw else ''//'' @ raw) of
              None \<Rightarrow> []
            | Some parsed \<Rightarrow> to_lower L (url_hostname parsed)))"

definition getRequestOrigin :: "golib \<Rightarrow> public_request \<Rightarrow> string" where
  "getRequestOrigin L r = extractDomain L (requestOrigin L r)"

definition form_allows :: "golib \<Rightarrow> form \<Rightarrow> string \<Rightarrow> bool" where
  "form_allows L f host = IsOriginAllowed L (fm_AllowedOrigins f) host"

definition redirectField :: "payload \<Rightarrow> string \<Rightarrow> string" where
  "redirectField payload name = trim_space (case map_of payload name of Some (JStr v) \<Rightarrow> v | _ \<Rightarrow> [])"

definition resolvedRedirect :: "golib \<Rightarrow> form \<Rightarrow> string \<Rightarrow> string \<Rightarrow> err + string" where
  "resolvedRedirect L f target0 origin =
     (let target = trim_space target0 in
      case ValidateRedirectURL L (fm_AllowedOrigins f) target of
        Inl e \<Rightarrow> Inl e
      | Inr _ \<Rightarrow>
          if target = [] then Inr []
          else (case lib_url_parse L target of
                  None \<Rightarrow> Inl (Plain ''parse redirect URL'')
                | Some parsed \<Rightarrow>
                    if url_is_abs parsed then Inr target
                    else (case lib_url_parse L origin of
                            None \<Rightarrow> Inl (Sentinel ErrRedirectNotAllowed)
                          | Some base \<Rightarrow>
                              if url_hostname base = [] \<or> \<not> form_allows L f (url_hostname base)
                              then Inl (Sentinel ErrRedirectNotAllowed)
                              else if url_Scheme base \<noteq> ''http'' \<and> url_Scheme base \<noteq> ''https''
                              then Inl (Sentinel ErrRedirectNotAllowed)
                              else Inr (lib_url_string L
                                     (lib_url_resolve L (base\<lparr>url_Path := ''/'', url_RawQuery := [], url_Fragment := []\<rparr>) parsed)))))"

section \<open>The captcha\<close>

definition firstString :: "jval \<Rightarrow> string" where
  "firstString v = (case v of JStr s \<Rightarrow> s | JArr (JStr s # _) \<Rightarrow> s | _ \<Rightarrow> [])"

fun token_fields :: "string list \<Rightarrow> payload \<Rightarrow> string \<Rightarrow> string \<times> payload" where
  "token_fields [] payload token = (token, payload)"
| "token_fields (name # names) payload token =
     token_fields names (AList.delete name payload)
       (case map_of payload name of Some v \<Rightarrow> if token = [] then firstString v else token | None \<Rightarrow> token)"

definition extractCaptchaToken :: "payload \<Rightarrow> string option \<times> payload" where
  "extractCaptchaToken payload0 =
     (case token_fields [''cf-turnstile-response'', ''cf_turnstile_response''] payload0 [] of
        (given, payload) \<Rightarrow> (let token = trim_space given in (if token \<noteq> [] then Some token else None, payload)))"

definition turnstileResultFailure :: "golib \<Rightarrow> form \<Rightarrow> TurnstileResult option \<Rightarrow> string" where
  "turnstileResultFailure L f outcome =
     (case outcome of
        None \<Rightarrow> ''unsuccessful verification''
      | Some r \<Rightarrow>
          if \<not> tt_Success r then ''unsuccessful verification''
          else if trim_space (tt_Action r) \<noteq> TurnstileAction then ''action mismatch''
          else (let hostname = trim_space (tt_Hostname r) in
                if hostname = [] then ''hostname mismatch''
                else if trim_space (fm_AllowedOrigins f) \<noteq> ''*'' \<and> \<not> form_allows L f hostname then ''hostname mismatch''
                else []))"

text \<open>The payload comes back without the captcha fields.\<close>

definition verifyCaptcha :: "golib \<Rightarrow> turnstile_env \<Rightarrow> public_request \<Rightarrow> loaded_form \<Rightarrow> payload \<Rightarrow> payload db_prog" where
  "verifyCaptcha L V r lf payload0 =
     (case extractCaptchaToken payload0 of (given, payload) \<Rightarrow>
      if fm_CaptchaProfileID (lf_Form lf) = None then ret payload
      else (case lf_CaptchaProfile lf of
              None \<Rightarrow> fail (Sentinel ErrCaptchaFailed)
            | Some profile \<Rightarrow>
                (case given of
                   None \<Rightarrow> fail (Sentinel ErrCaptchaFailed)
                 | Some token \<Rightarrow>
                     if trim_space (cp_SecretKey profile) = [] then fail (Sentinel ErrCaptchaFailed)
                     else catch (VerifyTurnstileToken V (cp_SecretKey profile) token (rq_ClientIP r)) (\<lambda>outcome.
                       case outcome of
                         Inl e \<Rightarrow>
                           if err_is ErrTurnstileUnavailable e then fail (Sentinel ErrTurnstileUnavailable)
                           else fail (Sentinel ErrCaptchaFailed)
                       | Inr verdict \<Rightarrow>
                           if turnstileResultFailure L (lf_Form lf) (Some verdict) \<noteq> []
                           then fail (Sentinel ErrCaptchaFailed)
                           else ret payload))))"

definition captchaFailureResponse :: "err \<Rightarrow> int \<times> string" where
  "captchaFailureResponse e =
     (if err_is ErrTurnstileUnavailable e then (503, ''captcha service temporarily unavailable'')
      else (400, sentinel_text ErrCaptchaFailed))"

section \<open>The handler\<close>

text \<open>\<open>publicFailure\<close>: a status and a message.\<close>

definition publicForm :: "golib \<Rightarrow> public_request \<Rightarrow> ((int \<times> string) + loaded_form) db_prog" where
  "publicForm L r =
     (let slug = trim_space (rq_Slug r) in
      if slug = [] then ret (Inl (404, ''form not found''))
      else catch (GetBySlug slug) (\<lambda>found. case found of
             Inl e \<Rightarrow> if err_is ErrRecordNotFound e then ret (Inl (404, ''form not found''))
                      else ret (Inl (500, ''form lookup failed''))
           | Inr lf \<Rightarrow>
               if rq_Token r = [] \<or> rq_Token r \<noteq> fm_Token (lf_Form lf) then ret (Inl (401, ''invalid token''))
               else if \<not> form_allows L (lf_Form lf) (getRequestOrigin L r) then ret (Inl (403, ''origin not allowed''))
               else ret (Inr lf)))"

definition redirectOrJSON :: "string \<Rightarrow> int \<Rightarrow> string \<Rightarrow> response" where
  "redirectOrJSON target status message = (if target \<noteq> [] then Redirect target else JsonError status message)"

definition submissionFailure :: "golib \<Rightarrow> public_request \<Rightarrow> form \<Rightarrow> payload \<Rightarrow> int \<Rightarrow> string \<Rightarrow> response" where
  "submissionFailure L r f payload status message =
     (case resolvedRedirect L f (redirectField payload ''_error_url'') (requestOrigin L r) of
        Inl _ \<Rightarrow> JsonError 400 ''invalid error redirect URL''
      | Inr redirect \<Rightarrow> redirectOrJSON redirect status message)"

definition submission_failed :: "string \<Rightarrow> err \<Rightarrow> response" where
  "submission_failed errorURL e =
     (if err_is ErrEmptySubmission e then redirectOrJSON errorURL 400 (err_text e)
      else if err_is ErrUploadStorageQuotaExceeded e then redirectOrJSON errorURL 507 (err_text e)
      else redirectOrJSON errorURL 500 ''submission failed'')"

text \<open>From the captcha on, with both redirects resolved.\<close>

definition accept_submission ::
  "golib \<Rightarrow> turnstile_env \<Rightarrow> Config \<Rightarrow> public_request \<Rightarrow> loaded_form \<Rightarrow> payload \<Rightarrow> string \<Rightarrow> string \<Rightarrow> response db_prog" where
  "accept_submission L V cfg r lf payload0 successURL errorURL =
     catch (verifyCaptcha L V r lf payload0) (\<lambda>verified. case verified of
       Inl e \<Rightarrow> (case captchaFailureResponse e of (status, message) \<Rightarrow> ret (redirectOrJSON errorURL status message))
     | Inr payload1 \<Rightarrow>
         (let payload = AList.delete ''_error_url'' (AList.delete ''_success_url'' payload1) in
          case uploadedFiles L r lf of
            Inl e \<Rightarrow> ret (redirectOrJSON errorURL 400 (err_text e))
          | Inr files \<Rightarrow>
              catch (CreateSubmissionWithLimits L lf payload (rq_UserAgent r) (cf_DataDirectory cfg) files
                       (cf_MaxUploadStorageBytes cfg)) (\<lambda>stored. case stored of
                Inl e \<Rightarrow> ret (submission_failed errorURL e)
              | Inr row \<Rightarrow>
                  ret (if successURL \<noteq> [] then Redirect successURL else JsonOk (sb_ID row) (sb_CreatedAt row)))))"

definition PublicFormSubmission ::
  "golib \<Rightarrow> turnstile_env \<Rightarrow> Config \<Rightarrow> db_manager \<Rightarrow> public_request \<Rightarrow> response db_prog" where
  "PublicFormSubmission L V cfg manager r =
     (case requestDB manager of
        Inl e \<Rightarrow> ret (Aborted e)
      | Inr _ \<Rightarrow>
          bnd (publicForm L r) (\<lambda>found. case found of
            Inl (status, message) \<Rightarrow> ret (JsonError status message)
          | Inr lf \<Rightarrow>
              (case extractSubmissionPayload L cfg r of
                 (payload, Some e) \<Rightarrow>
                   ret (submissionFailure L r (lf_Form lf) payload (if err_is ErrPayloadTooLarge e then 413 else 400) (err_text e))
               | (payload, None) \<Rightarrow>
                   (let origin = requestOrigin L r in
                    case resolvedRedirect L (lf_Form lf) (redirectField payload ''_success_url'') origin of
                      Inl _ \<Rightarrow> ret (JsonError 400 ''invalid success redirect URL'')
                    | Inr successURL \<Rightarrow>
                        (case resolvedRedirect L (lf_Form lf) (redirectField payload ''_error_url'') origin of
                           Inl _ \<Rightarrow> ret (JsonError 400 ''invalid error redirect URL'')
                         | Inr errorURL \<Rightarrow> accept_submission L V cfg r lf payload successURL errorURL)))))"

end
