(* ===== verification/Public_Laws.thy ===== *)
theory Public_Laws
  imports Public
begin

text \<open>
  What the public endpoint promises: nothing is stored without the form's token, an allowed origin
  and, when the form has a captcha, a positive verdict for it; every redirect stays with the form's
  hosts; payloads within their limits; the database stays well-formed.
\<close>

section \<open>Running through readers\<close>

lemma catch_readsE:
  assumes "catch m f w = (r, w')" "reads m"
  obtains x w1 where "m w = (x, w1)" "db w1 = db w" "f x w1 = (r, w')"
  using assms by (cases "m w") (auto simp: catch_apply dest: readsD)

lemma bnd_readsE:
  assumes "bnd m f w = (r, w')" "reads m"
  obtains (failed) e w1 where "m w = (Inl e, w1)" "r = Inl e" "w' = w1" "db w1 = db w"
  | (went) x w1 where "m w = (Inr x, w1)" "db w1 = db w" "f x w1 = (r, w')"
  using assms by (cases "m w") (auto simp: bnd_apply dest: readsD split: sum.splits)

section \<open>The captcha\<close>

lemma reads_verify: "reads (verify V secret token ip)"
  unfolding verify_def randomUUID_def
  by (intro tx_keeps) (auto simp: reads_def random_bytes_def)

lemma reads_VerifyTurnstileToken: "reads (VerifyTurnstileToken V secret token ip)"
  unfolding VerifyTurnstileToken_def by (intro tx_keeps reads_verify)

lemma reads_verifyCaptcha: "reads (verifyCaptcha L V r lf p)"
  unfolding verifyCaptcha_def by (intro tx_keeps reads_VerifyTurnstileToken)

text \<open>The service has answered a request with this secret, token and address, in favour of the form.\<close>

definition captcha_accepts :: "golib \<Rightarrow> turnstile_env \<Rightarrow> string \<Rightarrow> string \<Rightarrow> string \<Rightarrow> form \<Rightarrow> bool" where
  "captcha_accepts L V secret token ip f \<longleftrightarrow> (\<exists>n key p. n < 3
     \<and> te_request V n (turnstile_form key secret token ip) = Responded 200 (Inr p) \<and> tr_Success p
     \<and> trim_space (tr_Action p) = TurnstileAction \<and> trim_space (tr_Hostname p) \<noteq> []
     \<and> (trim_space (fm_AllowedOrigins f) = ''*'' \<or> form_allows L f (trim_space (tr_Hostname p))))"

lemma VerifyTurnstileToken_InrD:
  assumes "VerifyTurnstileToken V secret token ip w = (Inr x, w')"
  shows "\<exists>n key p. n < 3 \<and> te_request V n (turnstile_form key secret token ip) = Responded 200 (Inr p) \<and> tr_Success p
    \<and> tt_Hostname x = tr_Hostname p \<and> tt_Action x = tr_Action p"
proof -
  from assms obtain k key where "verify_from V (turnstile_form key secret token ip) 0 (turnstile_attempts - 1) = (k, Inr x)"
    by (auto simp: VerifyTurnstileToken_def verify_def elim!: bnd_InrE)
  from verify_from_result [OF this] have "k - 1 < 3"
    "\<exists>p. te_request V (k - 1) (turnstile_form key secret token ip) = Responded 200 (Inr p) \<and> tr_Success p
      \<and> tt_Hostname x = tr_Hostname p \<and> tt_Action x = tr_Action p"
    by (auto simp: turnstile_attempts_def)
  then show ?thesis by blast
qed

lemma verifyCaptcha_InrD:
  assumes "verifyCaptcha L V r lf p w = (Inr q, w')"
  shows "q = snd (extractCaptchaToken p)
    \<and> (fm_CaptchaProfileID (lf_Form lf) \<noteq> None \<longrightarrow>
        (\<exists>profile token. lf_CaptchaProfile lf = Some profile \<and> fst (extractCaptchaToken p) = Some token
          \<and> captcha_accepts L V (cp_SecretKey profile) token (rq_ClientIP r) (lf_Form lf)))"
proof (cases "fm_CaptchaProfileID (lf_Form lf)")
  case None
  then show ?thesis using assms by (auto simp: verifyCaptcha_def split: prod.splits)
next
  case (Some i)
  obtain given payload where e: "extractCaptchaToken p = (given, payload)" by (cases "extractCaptchaToken p")
  from assms Some e obtain profile token where l: "lf_CaptchaProfile lf = Some profile" "given = Some token"
    and run: "catch (VerifyTurnstileToken V (cp_SecretKey profile) token (rq_ClientIP r)) (\<lambda>outcome.
         case outcome of
           Inl e \<Rightarrow> if err_is ErrTurnstileUnavailable e then fail (Sentinel ErrTurnstileUnavailable)
                    else fail (Sentinel ErrCaptchaFailed)
         | Inr verdict \<Rightarrow>
             if turnstileResultFailure L (lf_Form lf) (Some verdict) \<noteq> [] then fail (Sentinel ErrCaptchaFailed)
             else ret payload) w = (Inr q, w')"
    by (auto simp: verifyCaptcha_def split: option.splits if_splits)
  from run reads_VerifyTurnstileToken obtain x w1 where x: "VerifyTurnstileToken V (cp_SecretKey profile) token (rq_ClientIP r) w = (x, w1)"
    "(case x of Inl e \<Rightarrow> if err_is ErrTurnstileUnavailable e then fail (Sentinel ErrTurnstileUnavailable)
                    else fail (Sentinel ErrCaptchaFailed)
         | Inr verdict \<Rightarrow>
             if turnstileResultFailure L (lf_Form lf) (Some verdict) \<noteq> [] then fail (Sentinel ErrCaptchaFailed)
             else ret payload) w1 = (Inr q, w')"
    by (rule catch_readsE)
  from x(2) obtain verdict where v: "x = Inr verdict" "turnstileResultFailure L (lf_Form lf) (Some verdict) = []" "q = payload"
    by (auto split: sum.splits if_splits)
  from VerifyTurnstileToken_InrD [OF x(1) [unfolded v(1)]] obtain n key pl where
    "n < 3" "te_request V n (turnstile_form key (cp_SecretKey profile) token (rq_ClientIP r)) = Responded 200 (Inr pl)" "tr_Success pl" "tt_Hostname verdict = tr_Hostname pl" "tt_Action verdict = tr_Action pl"
    by blast
  with v(2) have "captcha_accepts L V (cp_SecretKey profile) token (rq_ClientIP r) (lf_Form lf)"
    unfolding captcha_accepts_def by (auto simp: turnstileResultFailure_def Let_def split: if_splits)
  with e l v(3) show ?thesis by simp
qed

section \<open>The form\<close>

lemma reads_GetBySlug: "reads (GetBySlug s)"
  unfolding GetBySlug_def loadForm_def by (intro tx_keeps)

lemma reads_publicForm: "reads (publicForm L r)"
  unfolding publicForm_def Let_def by (intro tx_keeps reads_GetBySlug)

lemma GetBySlug_InrD:
  "GetBySlug s w = (Inr lf, w') \<Longrightarrow> lf_Form lf \<in> set (forms (db w)) \<and> fm_Slug (lf_Form lf) = s"
  unfolding GetBySlug_def loadForm_def by (auto elim!: bnd_InrE first_InrE query_InrE dest!: find_SomeD)

lemma publicForm_InrD:
  assumes "publicForm L r w = (Inr (Inr lf), w')"
  shows "lf_Form lf \<in> set (forms (db w)) \<and> fm_Slug (lf_Form lf) = trim_space (rq_Slug r)
    \<and> rq_Token r \<noteq> [] \<and> rq_Token r = fm_Token (lf_Form lf) \<and> form_allows L (lf_Form lf) (getRequestOrigin L r)"
proof -
  from assms have "catch (GetBySlug (trim_space (rq_Slug r))) (\<lambda>found. case found of
             Inl e \<Rightarrow> if err_is ErrRecordNotFound e then ret (Inl (404 :: int, ''form not found''))
                      else ret (Inl (500, ''form lookup failed''))
           | Inr lf \<Rightarrow>
               if rq_Token r = [] \<or> rq_Token r \<noteq> fm_Token (lf_Form lf) then ret (Inl (401, ''invalid token''))
               else if \<not> form_allows L (lf_Form lf) (getRequestOrigin L r) then ret (Inl (403, ''origin not allowed''))
               else ret (Inr lf)) w = (Inr (Inr lf), w')"
    by (auto simp: publicForm_def Let_def split: if_splits)
  then obtain x w1 where x: "GetBySlug (trim_space (rq_Slug r)) w = (x, w1)"
    "(case x of Inl e \<Rightarrow> if err_is ErrRecordNotFound e then ret (Inl (404 :: int, ''form not found''))
                      else ret (Inl (500, ''form lookup failed''))
           | Inr lf \<Rightarrow>
               if rq_Token r = [] \<or> rq_Token r \<noteq> fm_Token (lf_Form lf) then ret (Inl (401, ''invalid token''))
               else if \<not> form_allows L (lf_Form lf) (getRequestOrigin L r) then ret (Inl (403, ''origin not allowed''))
               else ret (Inr lf)) w1 = (Inr (Inr lf), w')"
    using reads_GetBySlug by (rule catch_readsE)
  from x(2) have "x = Inr lf" "rq_Token r \<noteq> []" "rq_Token r = fm_Token (lf_Form lf)" "form_allows L (lf_Form lf) (getRequestOrigin L r)"
    by (auto split: sum.splits if_splits)
  with GetBySlug_InrD [of "trim_space (rq_Slug r)" w lf w1] x(1) show ?thesis by simp
qed

section \<open>Redirects stay with the form\<close>

definition redirect_safe :: "golib \<Rightarrow> form \<Rightarrow> string \<Rightarrow> bool" where
  "redirect_safe L f target \<longleftrightarrow>
     (\<exists>u. lib_url_parse L target = Some u \<and> url_is_abs u \<and> http_scheme (url_Scheme u) \<and> url_hostname u \<noteq> []
        \<and> trim_space (fm_AllowedOrigins f) \<noteq> ''*'' \<and> form_allows L f (url_hostname u))
   \<or> (\<exists>base u. target = lib_url_string L (lib_url_resolve L base u) \<and> \<not> url_is_abs u
        \<and> (url_Host u = [] \<or> form_allows L f (url_hostname u))
        \<and> (url_Scheme base = ''http'' \<or> url_Scheme base = ''https'') \<and> url_hostname base \<noteq> [] \<and> form_allows L f (url_hostname base)
        \<and> url_Path base = ''/'' \<and> url_RawQuery base = [] \<and> url_Fragment base = [])"

lemma resolvedRedirect_safe:
  assumes "resolvedRedirect L f target origin = Inr t" "t \<noteq> []"
  shows "redirect_safe L f t"
proof -
  let ?t = "trim_space target"
  have v: "ValidateRedirectURL L (fm_AllowedOrigins f) ?t = Inr ()" and ne: "?t \<noteq> []"
    using assms by (auto simp: resolvedRedirect_def Let_def split: sum.splits)
  then obtain u where u: "lib_url_parse L ?t = Some u"
    using assms(1) by (auto simp: resolvedRedirect_def Let_def split: option.splits)
  have tt: "trim_space ?t = ?t" by simp
  have valid: "\<not> url_is_abs u \<and> url_Host u = [] \<or>
      (url_Scheme u = [] \<or> http_scheme (url_Scheme u)) \<and> url_hostname u \<noteq> [] \<and> trim_space (fm_AllowedOrigins f) \<noteq> ''*''
        \<and> form_allows L f (url_hostname u)"
    using v ne u unfolding ValidateRedirectURL_def Let_def tt form_allows_def by (auto split: if_splits)
  show ?thesis
  proof (cases "url_is_abs u")
    case True
    then have "t = ?t" using assms(1) v ne u by (simp add: resolvedRedirect_def Let_def)
    with True valid u show ?thesis unfolding redirect_safe_def by (auto simp: url_is_abs_def)
  next
    case False
    then obtain base where b: "lib_url_parse L origin = Some base" "url_hostname base \<noteq> []" "form_allows L f (url_hostname base)"
      "url_Scheme base = ''http'' \<or> url_Scheme base = ''https''"
      "t = lib_url_string L (lib_url_resolve L (base\<lparr>url_Path := ''/'', url_RawQuery := [], url_Fragment := []\<rparr>) u)"
      using assms(1) v ne u by (auto simp: resolvedRedirect_def Let_def split: option.splits if_splits)
    let ?b = "base\<lparr>url_Path := ''/'', url_RawQuery := [], url_Fragment := []\<rparr>"
    have "url_hostname ?b = url_hostname base" by (simp add: url_hostname_def)
    with b valid False show ?thesis unfolding redirect_safe_def
      by (intro disjI2 exI [of _ ?b] exI [of _ u]) auto
  qed
qed

section \<open>The handler\<close>

lemma CreateSubmission_InlD:
  assumes "CreateSubmissionWithLimits L lf p ua dd fs m w = (Inl e, w')"
  shows "db w' = db w"
proof -
  obtain spam payload where c: "consumeHoneypot p = (spam, payload)" by (cases "consumeHoneypot p")
  show ?thesis
  proof (cases "\<not> spam \<and> payload = [] \<and> fs = []")
    case True
    then show ?thesis using assms c by (simp add: CreateSubmissionWithLimits_def fail_apply)
  next
    case False
    let ?s = "\<lparr>sb_ID = 0, sb_FormID = fm_ID (lf_Form lf), sb_DataJSON = lib_json_payload_text L payload,
                  sb_UserAgent = ua, sb_IsSpam = spam, sb_CreatedAt = 0\<rparr>"
    from False assms c have run: "bnd (stage_submission_files L dd spam fs) (\<lambda>(records, st).
            catch (with_retry (submission_tx lf ?s records m)) (\<lambda>wrote.
            catch (finish L st) (\<lambda>cleanup.
              case wrote of Inl e \<Rightarrow> fail (submission_error e cleanup) | Inr row \<Rightarrow> ret row))) w = (Inl e, w')"
      by (auto simp: CreateSubmissionWithLimits_def Let_def)
    show ?thesis
      using run reads_stage_submission_files
    proof (cases rule: bnd_readsE)
      case (went x w1)
      obtain records st where x: "x = (records, st)" by (cases x)
      obtain wrote w2 where w2: "with_retry (submission_tx lf ?s records m) w1 = (wrote, w2)"
        by (cases "with_retry (submission_tx lf ?s records m) w1")
      from went(3) x w2 have "catch (finish L st) (\<lambda>cleanup.
              case wrote of Inl e \<Rightarrow> fail (submission_error e cleanup) | Inr row \<Rightarrow> ret row) w2 = (Inl e, w')"
        by (simp add: catch_apply)
      then obtain cl w3 where w3: "db w3 = db w2" "(case wrote of Inl e \<Rightarrow> fail (submission_error e cl) | Inr row \<Rightarrow> ret row) w3 = (Inl e, w')"
        using reads_finish by (rule catch_readsE)
      then obtain we where "wrote = Inl we" "w' = w3" by (auto simp: fail_apply ret_apply split: sum.splits)
      with w2 w3(1) went(2) with_retry_InlD show ?thesis by metis
    qed simp
  qed
qed

text \<open>Storing happens at one place only, behind the captcha.\<close>

lemma accept_submission_stores:
  assumes "accept_submission L V cfg r lf p successURL errorURL w = (x, w')"
  shows "db w' = db w \<or> (\<exists>payload q files row w1 w2. verifyCaptcha L V r lf p w = (Inr q, w1) \<and> db w1 = db w
      \<and> payload = AList.delete ''_error_url'' (AList.delete ''_success_url'' q) \<and> uploadedFiles L r lf = Inr files
      \<and> CreateSubmissionWithLimits L lf payload (rq_UserAgent r) (cf_DataDirectory cfg) files (cf_MaxUploadStorageBytes cfg) w1 = (Inr row, w2)
      \<and> db w' = db w2 \<and> x = Inr (if successURL \<noteq> [] then Redirect successURL else JsonOk (sb_ID row) (sb_CreatedAt row)))"
proof -
  from assms reads_verifyCaptcha obtain v w1 where v: "verifyCaptcha L V r lf p w = (v, w1)" "db w1 = db w"
    "(case v of
       Inl e \<Rightarrow> (case captchaFailureResponse e of (status, message) \<Rightarrow> ret (redirectOrJSON errorURL status message))
     | Inr payload1 \<Rightarrow>
         (let payload = AList.delete ''_error_url'' (AList.delete ''_success_url'' payload1) in
          case uploadedFiles L r lf of
            Inl e \<Rightarrow> ret (redirectOrJSON errorURL 400 (err_text e))
          | Inr files \<Rightarrow>
              catch (CreateSubmissionWithLimits L lf payload (rq_UserAgent r) (cf_DataDirectory cfg) files
                       (cf_MaxUploadStorageBytes cfg)) (\<lambda>stored. case stored of
                Inl e \<Rightarrow> ret (submission_failed errorURL e)
              | Inr row \<Rightarrow>
                  ret (if successURL \<noteq> [] then Redirect successURL else JsonOk (sb_ID row) (sb_CreatedAt row))))) w1 = (x, w')"
    unfolding accept_submission_def by (rule catch_readsE)
  show ?thesis
  proof (cases v)
    case (Inl e)
    then show ?thesis using v by (auto simp: ret_apply split: prod.splits)
  next
    case (Inr q)
    let ?payload = "AList.delete ''_error_url'' (AList.delete ''_success_url'' q)"
    show ?thesis
    proof (cases "uploadedFiles L r lf")
      case Inl': (Inl e)
      then show ?thesis using v Inr by (simp add: ret_apply)
    next
      case files: (Inr files)
      obtain s w2 where s: "CreateSubmissionWithLimits L lf ?payload (rq_UserAgent r) (cf_DataDirectory cfg) files
          (cf_MaxUploadStorageBytes cfg) w1 = (s, w2)" by force
      show ?thesis
      proof (cases s)
        case Inl'': (Inl e)
        then have "db w' = db w2" using v(3) Inr files s by (simp add: catch_apply ret_apply)
        then show ?thesis using CreateSubmission_InlD s Inl'' v(2) by fastforce
      next
        case row: (Inr row)
        then have "w' = w2" "x = Inr (if successURL \<noteq> [] then Redirect successURL else JsonOk (sb_ID row) (sb_CreatedAt row))"
          using v(3) Inr files s by (simp_all add: catch_apply ret_apply)
        with v Inr files s row show ?thesis by blast
      qed
    qed
  qed
qed

text \<open>The handler's result, when it changes the database.\<close>

lemma PublicFormSubmission_stores:
  assumes "PublicFormSubmission L V cfg manager r w = (x, w')" "db w' \<noteq> db w"
  obtains lf payload successURL errorURL w1 where "manager = Connected" "publicForm L r w = (Inr (Inr lf), w1)" "db w1 = db w"
    "extractSubmissionPayload L cfg r = (payload, None)"
    "resolvedRedirect L (lf_Form lf) (redirectField payload ''_success_url'') (requestOrigin L r) = Inr successURL"
    "resolvedRedirect L (lf_Form lf) (redirectField payload ''_error_url'') (requestOrigin L r) = Inr errorURL"
    "accept_submission L V cfg r lf payload successURL errorURL w1 = (x, w')"
proof -
  have m: "requestDB manager = Inr ()"
    using assms by (auto simp: PublicFormSubmission_def ret_apply split: sum.splits)
  then have con: "manager = Connected" by (simp add: requestDB_def split: db_manager.splits)
  obtain f w1 where f: "publicForm L r w = (f, w1)" by force
  have d1: "db w1 = db w" using readsD [OF reads_publicForm f] .
  show ?thesis
  proof (cases f)
    case (Inl e)
    then show ?thesis using assms m f d1 by (simp add: PublicFormSubmission_def bnd_apply)
  next
    case found: (Inr found)
    show ?thesis
    proof (cases found)
      case (Inl sm)
      then show ?thesis using assms m f d1 found by (auto simp: PublicFormSubmission_def bnd_apply ret_apply split: prod.splits)
    next
      case lf: (Inr lf)
      obtain payload oe where p: "extractSubmissionPayload L cfg r = (payload, oe)" by force
      show ?thesis
      proof (cases oe)
        case (Some e)
        then show ?thesis using assms m f d1 found lf p by (simp add: PublicFormSubmission_def bnd_apply ret_apply)
      next
        case None
        then show ?thesis
          using assms m f d1 found lf p con
          by (cases "resolvedRedirect L (lf_Form lf) (redirectField payload ''_success_url'') (requestOrigin L r)";
              cases "resolvedRedirect L (lf_Form lf) (redirectField payload ''_error_url'') (requestOrigin L r)")
            (auto simp: PublicFormSubmission_def bnd_apply ret_apply Let_def intro!: that)
      qed
    qed
  qed
qed

lemma PublicFormSubmission_always: "always db_ok (PublicFormSubmission L V cfg manager r)"
proof (unfold always_def, intro allI impI)
  fix w x w' assume run: "PublicFormSubmission L V cfg manager r w = (x, w')" and ok: "db_ok (db w)"
  show "db_ok (db w')"
  proof (cases "db w' = db w")
    case True
    then show ?thesis using ok by simp
  next
    case False
    with run obtain lf payload su eu w1 where a: "accept_submission L V cfg r lf payload su eu w1 = (x, w')" "db w1 = db w"
      by (rule PublicFormSubmission_stores)
    have "db w' \<noteq> db w1" using False a(2) by simp
    with accept_submission_stores [OF a(1)] obtain q files row w2 w3 where c: "db w2 = db w1"
      "CreateSubmissionWithLimits L lf (AList.delete ''_error_url'' (AList.delete ''_success_url'' q)) (rq_UserAgent r) (cf_DataDirectory cfg) files
         (cf_MaxUploadStorageBytes cfg) w2 = (Inr row, w3)" "db w' = db w3" by blast
    from alwaysD [OF CreateSubmissionWithLimits_ok c(2)] c(1,3) a(2) ok show ?thesis by simp
  qed
qed

text \<open>Where the handler sends the browser.\<close>

lemma accept_submission_redirects:
  assumes "accept_submission L V cfg r lf p successURL errorURL w = (x, w')" "x = Inr (Redirect t)"
  shows "t \<noteq> [] \<and> (t = successURL \<or> t = errorURL)"
proof -
  have eq: "redirectOrJSON u status message = Redirect t \<Longrightarrow> t = u \<and> u \<noteq> []" for u status message
    by (simp add: redirectOrJSON_def split: if_splits)
  have failed: "submission_failed u e = Redirect t \<Longrightarrow> t = u \<and> u \<noteq> []" for u e
    by (auto simp: submission_failed_def dest!: eq split: if_splits)
  obtain v w1 where v: "verifyCaptcha L V r lf p w = (v, w1)" by force
  show ?thesis
  proof (cases v)
    case (Inl e)
    then show ?thesis using assms v by (auto simp: accept_submission_def catch_apply ret_apply dest!: eq split: prod.splits)
  next
    case (Inr q)
    show ?thesis
    proof (cases "uploadedFiles L r lf")
      case Inl': (Inl e)
      then show ?thesis using assms v Inr by (auto simp: accept_submission_def catch_apply ret_apply Let_def dest!: eq)
    next
      case files: (Inr fs)
      obtain y w2 where y: "CreateSubmissionWithLimits L lf (AList.delete ''_error_url'' (AList.delete ''_success_url'' q)) (rq_UserAgent r)
          (cf_DataDirectory cfg) fs (cf_MaxUploadStorageBytes cfg) w1 = (y, w2)" by force
      then show ?thesis using assms v Inr files
        by (cases y) (auto simp: accept_submission_def catch_apply ret_apply Let_def dest!: failed split: if_splits)
    qed
  qed
qed

lemma PublicFormSubmission_redirects:
  assumes "PublicFormSubmission L V cfg manager r w = (Inr (Redirect t), w')"
  shows "\<exists>f\<in>set (forms (db w)). fm_Slug f = trim_space (rq_Slug r) \<and> rq_Token r = fm_Token f \<and> redirect_safe L f t"
proof -
  have m: "requestDB manager = Inr ()"
    using assms by (auto simp: PublicFormSubmission_def ret_apply split: sum.splits)
  obtain found w1 where f: "publicForm L r w = (found, w1)" by force
  from assms m f obtain lf where lf: "found = Inr (Inr lf)"
    by (cases found) (auto simp: PublicFormSubmission_def bnd_apply ret_apply split: sum.splits prod.splits)
  obtain payload oe where p: "extractSubmissionPayload L cfg r = (payload, oe)" by force
  have "redirect_safe L (lf_Form lf) t"
  proof (cases oe)
    case (Some e)
    then obtain u where u: "resolvedRedirect L (lf_Form lf) (redirectField payload ''_error_url'') (requestOrigin L r) = Inr u" "t = u" "u \<noteq> []"
      using assms m f lf p
      by (auto simp: PublicFormSubmission_def bnd_apply ret_apply submissionFailure_def redirectOrJSON_def split: sum.splits if_splits)
    then show ?thesis using resolvedRedirect_safe by metis
  next
    case None
    then obtain u1 u2 where u: "resolvedRedirect L (lf_Form lf) (redirectField payload ''_success_url'') (requestOrigin L r) = Inr u1"
      "resolvedRedirect L (lf_Form lf) (redirectField payload ''_error_url'') (requestOrigin L r) = Inr u2"
      "accept_submission L V cfg r lf payload u1 u2 w1 = (Inr (Redirect t), w')"
      using assms m f lf p
      by (cases "resolvedRedirect L (lf_Form lf) (redirectField payload ''_success_url'') (requestOrigin L r)";
          cases "resolvedRedirect L (lf_Form lf) (redirectField payload ''_error_url'') (requestOrigin L r)")
        (auto simp: PublicFormSubmission_def bnd_apply ret_apply Let_def)
    from accept_submission_redirects [OF u(3) refl] u(1,2) show ?thesis using resolvedRedirect_safe by metis
  qed
  with publicForm_InrD [of L r w lf w1] f lf show ?thesis by auto
qed

section \<open>Limits of the payload\<close>

lemma update_keys: "length (AList.update k v xs) \<le> Suc (length xs)"
  by (induction xs) auto

lemma setFormValues_length: "length (setFormValues p name vals) \<le> Suc (length p)"
  by (simp add: setFormValues_def update_keys)

lemma appendFormValue_length: "length (appendFormValue p name v) \<le> Suc (length p)"
  by (auto simp: appendFormValue_def update_keys le_SucI split: option.splits jval.splits)

end
