(* ===== verification/Accounts.thy ===== *)
theory Accounts
  imports Form_Laws
begin

text \<open>
  Accounts and their sessions, \<open>internal/accounts/accounts.go\<close>: credentials, their changes, and the
  registry of active sessions, which a change of credentials empties. bcrypt, SHA-256, the address
  parser and the decoding of a session token are parameters.
\<close>

section \<open>Accounts\<close>

definition DefaultAdminEmail :: string where
  "DefaultAdminEmail = ''admin@miniform.local''"

definition minimumPasswordLength :: nat where
  "minimumPasswordLength = 8"

definition timingEqualizerHash :: string where
  "timingEqualizerHash = ''$2y$10$GHFFo8zcQOUi53r/u8jJ9.vZ/yz0zvsGz89xg1lmNRW0cFrwvSY.e''"

definition passwordMatches :: "golib \<Rightarrow> string \<Rightarrow> string \<Rightarrow> bool" where
  "passwordMatches L hash password = lib_bcrypt_ok L hash password"

definition normalizeEmail :: "golib \<Rightarrow> string \<Rightarrow> string" where
  "normalizeEmail L email = to_lower L (trim_space email)"

definition isMailbox :: "golib \<Rightarrow> string \<Rightarrow> bool" where
  "isMailbox L email = (case lib_parse_address L email of None \<Rightarrow> False | Some a \<Rightarrow> snd a = email)"

definition load_error :: "err \<Rightarrow> err" where
  "load_error e = (if err_is ErrRecordNotFound e then Sentinel ErrUserNotFound else Wrap ''load account'' e)"

definition loadUser :: "(user \<Rightarrow> bool) \<Rightarrow> user db_prog" where
  "loadUser p = map_err load_error (first users p)"

definition FindByEmail :: "golib \<Rightarrow> string \<Rightarrow> user db_prog" where
  "FindByEmail L email = loadUser (\<lambda>u. us_Email u = normalizeEmail L email)"

definition FindByID :: "nat \<Rightarrow> user db_prog" where
  "FindByID i = loadUser (\<lambda>u. us_ID u = i)"

definition GetAdmin :: "user db_prog" where
  "GetAdmin = loadUser (\<lambda>_. True)"

definition RequiresPasswordChange :: "bool db_prog" where
  "RequiresPasswordChange = catch GetAdmin (\<lambda>r. case r of
     Inl _ \<Rightarrow> ret False
   | Inr admin \<Rightarrow> ret (us_PasswordChangeRequired admin))"

text \<open>An update of accounts checks that e-mail addresses stay unique.\<close>

definition update_users :: "(user \<Rightarrow> bool) \<Rightarrow> (user \<Rightarrow> user) \<Rightarrow> database \<Rightarrow> err + (nat \<times> database)" where
  "update_users p f d =
     checked (\<lambda>d'. if distinct (map us_Email (users d')) then None else Some (unique_failed ''users.email''))
       (count_where p (users d)) (d\<lparr>users := update_where p f (users d)\<rparr>)"

text \<open>
  \<open>EnsureAdmin\<close>: the count before the transaction, the password, and the transaction that counts
  again, creates and announces; a unique violation means somebody else was first.
\<close>

definition ensure_admin_tx :: "user \<Rightarrow> unit db_prog option \<Rightarrow> bool db_prog" where
  "ensure_admin_tx admin announce =
     bnd (count_rows users (\<lambda>_. True)) (\<lambda>n.
     if n \<noteq> 0 then ret False
     else bnd (stmt (insert_user admin)) (\<lambda>_.
          bnd (case announce of None \<Rightarrow> ret () | Some a \<Rightarrow> wrap_err ''announce initial credentials'' a) (\<lambda>_.
          ret True)))"

definition EnsureAdmin :: "golib \<Rightarrow> string \<Rightarrow> bool \<Rightarrow> unit db_prog option \<Rightarrow> bool db_prog" where
  "EnsureAdmin L password markLoggedIn announce =
     bnd (wrap_err ''count accounts'' (count_rows users (\<lambda>_. True))) (\<lambda>n.
     if n \<noteq> 0 then ret False
     else if length password < minimumPasswordLength then fail (Sentinel ErrWeakPassword)
     else bnd (wrap_err ''hash initial password'' (of_result (lib_bcrypt L password))) (\<lambda>hash.
          bnd (if markLoggedIn then bnd time_now (\<lambda>now. ret (Some now)) else ret None) (\<lambda>lastLogin.
          catch (with_retry (ensure_admin_tx
                   \<lparr>us_ID = 0, us_Email = DefaultAdminEmail, us_PasswordHash = hash,
                    us_PasswordChangeRequired = (\<not> markLoggedIn), us_LastLoginAt = lastLogin\<rparr> announce))
            (\<lambda>r. case r of
               Inr created \<Rightarrow> ret created
             | Inl e \<Rightarrow> if IsUniqueConstraint (Some e) then ret False else fail (Wrap ''create initial admin'' e)))))"

text \<open>
  \<open>Authenticate\<close>: a password is compared whether or not the account exists, and both failures
  give the same error.
\<close>

definition Authenticate :: "golib \<Rightarrow> string \<Rightarrow> string \<Rightarrow> user db_prog" where
  "Authenticate L email0 password =
     (let email = normalizeEmail L email0 in
      if email = [] \<or> password = [] then fail (Sentinel ErrMissingFields)
      else catch (FindByEmail L email) (\<lambda>lookup.
        case (case lookup of
                Inr user \<Rightarrow> Inr (us_PasswordHash user)
              | Inl e \<Rightarrow> if err_is ErrUserNotFound e then Inr timingEqualizerHash
                         else Inl (Wrap ''authenticate account'' e)) of
          Inl e \<Rightarrow> fail e
        | Inr hash \<Rightarrow>
            let passwordOK = passwordMatches L hash password in
            (case lookup of
               Inl _ \<Rightarrow> fail (Sentinel ErrInvalidCredentials)
             | Inr user \<Rightarrow>
                 if \<not> passwordOK then fail (Sentinel ErrInvalidCredentials)
                 else bnd time_now (\<lambda>now.
                      bnd (wrap_err ''record account login''
                             (with_retry (stmt (update_users (\<lambda>u. us_ID u = us_ID user) (\<lambda>u. u\<lparr>us_LastLoginAt := Some now\<rparr>)))))
                        (\<lambda>_. ret (user\<lparr>us_LastLoginAt := Some now\<rparr>))))))"

section \<open>Changes of credentials\<close>

definition revoke_sessions :: "nat \<Rightarrow> unit db_prog" where
  "revoke_sessions i = exec (\<lambda>d. d\<lparr>sessions := delete_where (\<lambda>s. as_UserID s = i) (sessions d)\<rparr>)"

definition credential_tx :: "nat \<Rightarrow> (user \<Rightarrow> user) \<Rightarrow> unit db_prog" where
  "credential_tx i f =
     bnd (stmt (update_users (\<lambda>u. us_ID u = i) f)) (\<lambda>_. revoke_sessions i)"

definition change_email_error :: "err \<Rightarrow> err" where
  "change_email_error e =
     (if IsUniqueConstraint (Some e) then Sentinel ErrDuplicateEmail else Wrap ''change account email'' e)"

definition ChangeEmail :: "golib \<Rightarrow> string \<Rightarrow> string \<Rightarrow> string \<Rightarrow> unit db_prog" where
  "ChangeEmail L current new currentPassword =
     (let currentEmail = normalizeEmail L current; newEmail = normalizeEmail L new in
      if \<not> isMailbox L newEmail then fail (Sentinel ErrInvalidEmail)
      else bnd (FindByEmail L currentEmail) (\<lambda>user.
        if \<not> passwordMatches L (us_PasswordHash user) currentPassword then fail (Sentinel ErrPasswordMismatch)
        else if currentEmail = newEmail then ret ()
        else map_err change_email_error
               (with_retry (credential_tx (us_ID user) (\<lambda>u. u\<lparr>us_Email := newEmail\<rparr>)))))"

definition storePassword :: "golib \<Rightarrow> nat \<Rightarrow> string \<Rightarrow> unit db_prog" where
  "storePassword L i password =
     bnd (wrap_err ''hash password'' (of_result (lib_bcrypt L password))) (\<lambda>hash.
     with_retry (credential_tx i (\<lambda>u. u\<lparr>us_PasswordHash := hash, us_PasswordChangeRequired := False\<rparr>)))"

definition ChangePassword :: "golib \<Rightarrow> string \<Rightarrow> string \<Rightarrow> string \<Rightarrow> unit db_prog" where
  "ChangePassword L email currentPassword newPassword =
     (if length newPassword < minimumPasswordLength then fail (Sentinel ErrWeakPassword)
      else bnd (FindByEmail L email) (\<lambda>user.
        if \<not> passwordMatches L (us_PasswordHash user) currentPassword then fail (Sentinel ErrPasswordMismatch)
        else if passwordMatches L (us_PasswordHash user) newPassword then fail (Sentinel ErrPasswordUnchanged)
        else wrap_err ''change account password'' (storePassword L (us_ID user) newPassword)))"

definition ResetPassword :: "golib \<Rightarrow> string \<Rightarrow> string \<Rightarrow> unit db_prog" where
  "ResetPassword L email newPassword =
     (if length newPassword < minimumPasswordLength then fail (Sentinel ErrWeakPassword)
      else bnd (FindByEmail L email) (\<lambda>user.
           wrap_err ''reset account password'' (storePassword L (us_ID user) newPassword)))"

section \<open>Sessions\<close>

definition sessionTokenHash :: "golib \<Rightarrow> string \<Rightarrow> string" where
  "sessionTokenHash L token = lib_sha256_hex L token"

text \<open>\<open>Save\<close>: an update of the row of that key, an insert when there is none.\<close>

definition save_session :: "active_session \<Rightarrow> unit db_prog" where
  "save_session s =
     bnd (stmt (\<lambda>d. Inr (count_where (\<lambda>x. as_TokenHash x = as_TokenHash s) (sessions d),
            d\<lparr>sessions := update_where (\<lambda>x. as_TokenHash x = as_TokenHash s) (\<lambda>_. s) (sessions d)\<rparr>))) (\<lambda>n.
     if n \<noteq> 0 then ret () else exec (\<lambda>d. d\<lparr>sessions := sessions d @ [s]\<rparr>))"

text \<open>The zero time is \<open>None\<close>.\<close>

definition session_tx :: "golib \<Rightarrow> user \<Rightarrow> string \<Rightarrow> gotime \<Rightarrow> unit db_prog" where
  "session_tx L authenticated token expiresAt =
     bnd (map_err (\<lambda>e. if err_is ErrRecordNotFound e then Sentinel ErrInvalidCredentials else e)
            (first users (\<lambda>u. us_ID u = us_ID authenticated))) (\<lambda>current.
     if us_Email current \<noteq> us_Email authenticated \<or> us_PasswordHash current \<noteq> us_PasswordHash authenticated
     then fail (Sentinel ErrInvalidCredentials)
     else bnd time_now (\<lambda>now.
          bnd (exec (\<lambda>d. d\<lparr>sessions := delete_where (\<lambda>s. as_ExpiresAt s \<le> now) (sessions d)\<rparr>)) (\<lambda>_.
          save_session \<lparr>as_TokenHash = sessionTokenHash L token, as_UserID = us_ID authenticated,
                        as_ExpiresAt = expiresAt, as_CreatedAt = now\<rparr>)))"

definition RegisterSession :: "golib \<Rightarrow> user option \<Rightarrow> string \<Rightarrow> gotime option \<Rightarrow> unit db_prog" where
  "RegisterSession L authenticatedUser token0 expiresAt =
     (let token = trim_space token0 in
      case (authenticatedUser, expiresAt) of
        (Some user, Some t) \<Rightarrow>
          if us_ID user = 0 \<or> token = [] then fail (Plain ''invalid session registration'')
          else with_retry (session_tx L user token t)
      | _ \<Rightarrow> fail (Plain ''invalid session registration''))"

definition session_live :: "golib \<Rightarrow> nat \<Rightarrow> string \<Rightarrow> gotime \<Rightarrow> active_session \<Rightarrow> bool" where
  "session_live L userID token now s \<longleftrightarrow>
     as_TokenHash s = sessionTokenHash L token \<and> as_UserID s = userID \<and> now < as_ExpiresAt s"

definition IsSessionActive :: "golib \<Rightarrow> nat \<Rightarrow> string \<Rightarrow> gotime \<Rightarrow> bool db_prog" where
  "IsSessionActive L userID token now =
     (if trim_space token = [] then ret False
      else bnd (query (\<lambda>d. count_where (session_live L userID token now) (sessions d))) (\<lambda>n. ret (n \<noteq> 0)))"

definition RevokeSession :: "golib \<Rightarrow> string \<Rightarrow> unit db_prog" where
  "RevokeSession L token =
     (if trim_space token = [] then ret ()
      else with_retry (exec (\<lambda>d. d\<lparr>sessions := delete_where (\<lambda>s. as_TokenHash s = sessionTokenHash L token) (sessions d)\<rparr>)))"

text \<open>
  \<open>SessionExpiresAt\<close>: base64 and the JSON member are parameters; the inner \<open>None\<close> of the latter
  is the zero time.
\<close>

definition SessionExpiresAt ::
  "(string \<Rightarrow> string option) \<Rightarrow> (string \<Rightarrow> gotime option option) \<Rightarrow> string \<Rightarrow> err + gotime" where
  "SessionExpiresAt base64 expires_at token =
     (case split_on (CHR ''.'') token of
        [p, _] \<Rightarrow>
          (case base64 p of
             None \<Rightarrow> Inl (Plain ''invalid session payload'')
           | Some payload \<Rightarrow>
               (case expires_at payload of
                  Some (Some t) \<Rightarrow> Inr t
                | _ \<Rightarrow> Inl (Plain ''invalid session data'')))
      | _ \<Rightarrow> Inl (Plain ''invalid session token''))"

end
