(* ===== verification/Account_Laws.thy ===== *)
theory Account_Laws
  imports Accounts
begin

text \<open>
  What accounts promise: a change of credentials ends every session of the account and no login that
  was already under way can bring one back; a registered session is active exactly until it expires
  or is revoked; every operation keeps the database well-formed, whatever fails.
\<close>

section \<open>Finding and updating\<close>

lemma loadUser_InrE:
  assumes "loadUser p w = (Inr u, w')"
  obtains "u \<in> set (users (db w))" "p u" "db w' = db w"
  using assms by (auto simp: loadUser_def elim!: first_InrE dest: find_SomeD)

lemma reads_loadUser [tx_keeps]: "reads (loadUser p)"
  unfolding loadUser_def by (intro tx_keeps)

lemma reads_FindByEmail [tx_keeps]: "reads (FindByEmail L email)"
  unfolding FindByEmail_def by (rule reads_loadUser)

lemma update_users_InrD:
  "update_users p f d = Inr (n, d') \<Longrightarrow>
   d' = d\<lparr>users := update_where p f (users d)\<rparr> \<and> distinct (map us_Email (users d')) \<and> n = count_where p (users d)"
  by (auto simp: update_users_def split: if_splits)

lemma keeps_update_users: "(\<And>u. us_ID (f u) = us_ID u) \<Longrightarrow> keeps db_ok (stmt (update_users p f))"
  by (rule keeps_stmt) (auto dest!: update_users_InrD intro: update_users_ok)

lemma keeps_revoke: "keeps db_ok (revoke_sessions i)"
  unfolding revoke_sessions_def by (rule keeps_exec) (rule delete_sessions_ok)

lemma keeps_credential_tx: "(\<And>u. us_ID (f u) = us_ID u) \<Longrightarrow> keeps db_ok (credential_tx i f)"
  unfolding credential_tx_def by (intro keeps_bnd keeps_update_users keeps_revoke)

text \<open>What a stored change of credentials does.\<close>

lemma credential_tx_result:
  assumes "with_retry (credential_tx i f) w = (Inr (), w')"
  shows "db w' = (db w)\<lparr>users := update_where (\<lambda>u. us_ID u = i) f (users (db w)),
      sessions := delete_where (\<lambda>s. as_UserID s = i) (sessions (db w))\<rparr>
    \<and> distinct (map us_Email (users (db w')))"
proof -
  from assms obtain w1 w2 where r: "db w1 = db w" "credential_tx i f w1 = (Inr (), w2)" "db w' = db w2"
    by (rule with_retry_InrE)
  from r(2) obtain n w3 where u: "stmt (update_users (\<lambda>u. us_ID u = i) f) w1 = (Inr n, w3)"
    "exec (\<lambda>d. d\<lparr>sessions := delete_where (\<lambda>s. as_UserID s = i) (sessions d)\<rparr>) w3 = (Inr (), w2)"
    unfolding credential_tx_def revoke_sessions_def by (auto elim!: bnd_InrE)
  have d3: "db w3 = (db w)\<lparr>users := update_where (\<lambda>u. us_ID u = i) f (users (db w))\<rparr>" "distinct (map us_Email (users (db w3)))"
    using update_users_InrD [OF stmt_InrD [OF u(1)]] r(1) by auto
  from u(2) have "db w2 = (db w3)\<lparr>sessions := delete_where (\<lambda>s. as_UserID s = i) (sessions (db w3))\<rparr>"
    by (auto elim!: exec_InrE)
  with d3 r(3) show ?thesis by simp
qed

section \<open>Sessions\<close>

definition active :: "golib \<Rightarrow> nat \<Rightarrow> string \<Rightarrow> gotime \<Rightarrow> database \<Rightarrow> bool" where
  "active L i token now d \<longleftrightarrow> (\<exists>s\<in>set (sessions d). session_live L i token now s)"

lemma IsSessionActive_InrD:
  "IsSessionActive L i token now w = (Inr b, w') \<Longrightarrow>
   b = (trim_space token \<noteq> [] \<and> active L i token now (db w)) \<and> db w' = db w"
  using count_where_0 [of "session_live L i token now" "sessions (db w)"]
  by (auto simp: IsSessionActive_def active_def split: if_splits elim!: bnd_InrE query_InrE)

lemma reads_IsSessionActive: "reads (IsSessionActive L i token now)"
  unfolding IsSessionActive_def by (intro tx_keeps)

lemma save_session_result:
  assumes "save_session s w = (Inr (), w')"
  shows "(\<exists>rows. db w' = (db w)\<lparr>sessions := rows\<rparr> \<and> set rows = insert s {x \<in> set (sessions (db w)). as_TokenHash x \<noteq> as_TokenHash s}
    \<and> (distinct (map as_TokenHash (sessions (db w))) \<longrightarrow> distinct (map as_TokenHash rows)))"
proof -
  let ?p = "\<lambda>x. as_TokenHash x = as_TokenHash s"
  let ?up = "update_where ?p (\<lambda>_. s) (sessions (db w))"
  from assms obtain n w1 where n: "stmt (\<lambda>d. Inr (count_where ?p (sessions d), d\<lparr>sessions := update_where ?p (\<lambda>_. s) (sessions d)\<rparr>)) w = (Inr n, w1)"
    "(if n \<noteq> 0 then ret () else exec (\<lambda>d. d\<lparr>sessions := sessions d @ [s]\<rparr>)) w1 = (Inr (), w')"
    unfolding save_session_def by (rule bnd_InrE)
  from stmt_InrD [OF n(1)] have d1: "n = count_where ?p (sessions (db w))" "db w1 = (db w)\<lparr>sessions := ?up\<rparr>" by auto
  have hashes: "map as_TokenHash ?up = map as_TokenHash (sessions (db w))"
    by (simp add: update_where_def)
  show ?thesis
  proof (cases "n = 0")
    case True
    then have none: "\<forall>x\<in>set (sessions (db w)). as_TokenHash x \<noteq> as_TokenHash s" using d1(1) by (simp add: count_where_0)
    then have "?up = sessions (db w)" by (simp add: update_where_def map_idI)
    then have "db w' = (db w)\<lparr>sessions := sessions (db w) @ [s]\<rparr>" using n(2) True d1(2) by (auto elim!: exec_InrE)
    then show ?thesis using none by (intro exI [of _ "sessions (db w) @ [s]"]) auto
  next
    case False
    then have "db w' = (db w)\<lparr>sessions := ?up\<rparr>" using n(2) d1(2) by simp
    moreover have "\<exists>x\<in>set (sessions (db w)). ?p x" using False d1(1) by (simp add: count_where_0)
    then have "set ?up = insert s {x \<in> set (sessions (db w)). as_TokenHash x \<noteq> as_TokenHash s}"
      by (auto simp: set_update_where)
    ultimately show ?thesis using hashes by metis
  qed
qed

text \<open>What is left of a session after a change of credentials, and the new hash that locks old logins out.\<close>

lemma credential_change_ends_sessions:
  "with_retry (credential_tx i f) w = (Inr (), w') \<Longrightarrow> \<not> active L i token now (db w')"
  using credential_tx_result [of i f w w'] by (auto simp: active_def session_live_def delete_where_def)

text \<open>A session is registered for the credentials it was authenticated with, and no others.\<close>

lemma RegisterSession_result:
  assumes "RegisterSession L (Some u) token (Some t) w = (Inr (), w')"
  shows "\<exists>now c rows. c \<in> set (users (db w)) \<and> us_ID c = us_ID u \<and> us_Email c = us_Email u \<and> us_PasswordHash c = us_PasswordHash u
    \<and> db w' = (db w)\<lparr>sessions := rows\<rparr>
    \<and> set rows = insert \<lparr>as_TokenHash = sessionTokenHash L (trim_space token), as_UserID = us_ID u, as_ExpiresAt = t, as_CreatedAt = now\<rparr>
        {s \<in> set (sessions (db w)). now < as_ExpiresAt s \<and> as_TokenHash s \<noteq> sessionTokenHash L (trim_space token)}"
proof -
  from assms have "with_retry (session_tx L u (trim_space token) t) w = (Inr (), w')"
    by (auto simp: RegisterSession_def Let_def fail_apply split: if_splits)
  then obtain w1 w2 where r: "db w1 = db w" "session_tx L u (trim_space token) t w1 = (Inr (), w2)" "db w' = db w2"
    by (rule with_retry_InrE)
  from r(2) obtain c w3 where c: "map_err (\<lambda>e. if err_is ErrRecordNotFound e then Sentinel ErrInvalidCredentials else e)
       (first users (\<lambda>x. us_ID x = us_ID u)) w1 = (Inr c, w3)"
    and more: "(if us_Email c \<noteq> us_Email u \<or> us_PasswordHash c \<noteq> us_PasswordHash u then fail (Sentinel ErrInvalidCredentials)
      else bnd time_now (\<lambda>now. bnd (exec (\<lambda>d. d\<lparr>sessions := delete_where (\<lambda>s. as_ExpiresAt s \<le> now) (sessions d)\<rparr>)) (\<lambda>_.
        save_session \<lparr>as_TokenHash = sessionTokenHash L (trim_space token), as_UserID = us_ID u, as_ExpiresAt = t, as_CreatedAt = now\<rparr>))) w3
      = (Inr (), w2)"
    unfolding session_tx_def by (rule bnd_InrE)
  from c have cu: "c \<in> set (users (db w))" "us_ID c = us_ID u" "db w3 = db w"
    using r(1) by (auto elim!: first_InrE dest: find_SomeD)
  from more have same: "us_Email c = us_Email u" "us_PasswordHash c = us_PasswordHash u" by (auto split: if_splits)
  from more same obtain now w4 w5 where n: "time_now w3 = (Inr now, w4)"
    "exec (\<lambda>d. d\<lparr>sessions := delete_where (\<lambda>s. as_ExpiresAt s \<le> now) (sessions d)\<rparr>) w4 = (Inr (), w5)"
    "save_session \<lparr>as_TokenHash = sessionTokenHash L (trim_space token), as_UserID = us_ID u, as_ExpiresAt = t, as_CreatedAt = now\<rparr> w5 = (Inr (), w2)"
    by (auto elim!: bnd_InrE)
  have d4: "db w4 = db w" using readsD [OF reads_time_now n(1)] cu(3) by simp
  have d5: "db w5 = (db w)\<lparr>sessions := delete_where (\<lambda>s. as_ExpiresAt s \<le> now) (sessions (db w))\<rparr>"
    using n(2) d4 by (auto elim!: exec_InrE)
  from save_session_result [OF n(3)] obtain rows where rows: "db w2 = (db w5)\<lparr>sessions := rows\<rparr>"
    "set rows = insert \<lparr>as_TokenHash = sessionTokenHash L (trim_space token), as_UserID = us_ID u, as_ExpiresAt = t, as_CreatedAt = now\<rparr>
       {x \<in> set (sessions (db w5)). as_TokenHash x \<noteq> sessionTokenHash L (trim_space token)}" by auto
  have "{x \<in> set (sessions (db w5)). as_TokenHash x \<noteq> sessionTokenHash L (trim_space token)}
      = {s \<in> set (sessions (db w)). now < as_ExpiresAt s \<and> as_TokenHash s \<noteq> sessionTokenHash L (trim_space token)}"
    by (auto simp: d5 delete_where_def)
  with rows d5 r(3) cu same show ?thesis by auto
qed

lemma RevokeSession_result:
  assumes "RevokeSession L token w = (Inr (), w')" "trim_space token \<noteq> []"
  shows "db w' = (db w)\<lparr>sessions := delete_where (\<lambda>s. as_TokenHash s = sessionTokenHash L token) (sessions (db w))\<rparr>"
  using assms by (auto simp: RevokeSession_def elim!: with_retry_InrE exec_InrE)

text \<open>Success of the three changes, down to the transaction.\<close>

lemma storePassword_result:
  assumes "storePassword L i password w = (Inr (), w')"
  shows "\<exists>hash. lib_bcrypt L password = Inr hash
    \<and> db w' = (db w)\<lparr>users := update_where (\<lambda>u. us_ID u = i) (\<lambda>u. u\<lparr>us_PasswordHash := hash, us_PasswordChangeRequired := False\<rparr>) (users (db w)),
        sessions := delete_where (\<lambda>s. as_UserID s = i) (sessions (db w))\<rparr>"
proof -
  from assms obtain hash where h: "lib_bcrypt L password = Inr hash"
    "with_retry (credential_tx i (\<lambda>u. u\<lparr>us_PasswordHash := hash, us_PasswordChangeRequired := False\<rparr>)) w = (Inr (), w')"
    by (auto simp: storePassword_def elim!: bnd_InrE)
  with credential_tx_result [OF h(2)] show ?thesis by blast
qed

lemma ResetPassword_result:
  assumes "ResetPassword L email new w = (Inr (), w')"
  shows "\<exists>u hash. u \<in> set (users (db w)) \<and> us_Email u = normalizeEmail L email \<and> 8 \<le> length new \<and> lib_bcrypt L new = Inr hash
    \<and> db w' = (db w)\<lparr>users := update_where (\<lambda>x. us_ID x = us_ID u) (\<lambda>x. x\<lparr>us_PasswordHash := hash, us_PasswordChangeRequired := False\<rparr>) (users (db w)),
        sessions := delete_where (\<lambda>s. as_UserID s = us_ID u) (sessions (db w))\<rparr>"
proof -
  from assms have len: "8 \<le> length new" by (auto simp: ResetPassword_def minimumPasswordLength_def fail_apply split: if_splits)
  with assms obtain u w1 where u: "FindByEmail L email w = (Inr u, w1)" "storePassword L (us_ID u) new w1 = (Inr (), w')"
    by (auto simp: ResetPassword_def minimumPasswordLength_def elim!: bnd_InrE)
  from u(1) have "u \<in> set (users (db w))" "us_Email u = normalizeEmail L email" "db w1 = db w"
    unfolding FindByEmail_def by (auto elim!: loadUser_InrE)
  with storePassword_result [OF u(2)] len show ?thesis by auto
qed

lemma ChangePassword_result:
  assumes "ChangePassword L email current new w = (Inr (), w')"
  shows "\<exists>u hash. u \<in> set (users (db w)) \<and> us_Email u = normalizeEmail L email \<and> 8 \<le> length new \<and> lib_bcrypt L new = Inr hash
    \<and> passwordMatches L (us_PasswordHash u) current \<and> \<not> passwordMatches L (us_PasswordHash u) new
    \<and> db w' = (db w)\<lparr>users := update_where (\<lambda>x. us_ID x = us_ID u) (\<lambda>x. x\<lparr>us_PasswordHash := hash, us_PasswordChangeRequired := False\<rparr>) (users (db w)),
        sessions := delete_where (\<lambda>s. as_UserID s = us_ID u) (sessions (db w))\<rparr>"
proof -
  from assms have len: "8 \<le> length new" by (auto simp: ChangePassword_def minimumPasswordLength_def fail_apply split: if_splits)
  with assms obtain u w1 where u: "FindByEmail L email w = (Inr u, w1)" "storePassword L (us_ID u) new w1 = (Inr (), w')"
    and m: "passwordMatches L (us_PasswordHash u) current" "\<not> passwordMatches L (us_PasswordHash u) new"
    by (auto simp: ChangePassword_def minimumPasswordLength_def elim!: bnd_InrE split: if_splits)
  from u(1) have "u \<in> set (users (db w))" "us_Email u = normalizeEmail L email" "db w1 = db w"
    unfolding FindByEmail_def by (auto elim!: loadUser_InrE)
  with storePassword_result [OF u(2)] len m show ?thesis by auto
qed

text \<open>
  A login that authenticated before the change is locked out: registering its session fails as long
  as the hash stored now is not the one it was authenticated with.
\<close>

lemma stale_login_rejected:
  assumes "RegisterSession L (Some u) token expires w = (r, w')"
    and "\<forall>c\<in>set (users (db w)). us_ID c = us_ID u \<longrightarrow> us_PasswordHash c \<noteq> us_PasswordHash u"
  shows "(\<exists>e. r = Inl e) \<and> db w' = db w"
proof -
  have no: "r \<noteq> Inr ()"
  proof
    assume "r = Inr ()"
    moreover then obtain t where "expires = Some t"
      using assms(1) by (cases expires) (auto simp: RegisterSession_def Let_def fail_apply)
    ultimately show False using RegisterSession_result [of L u token] assms by blast
  qed
  then obtain e where e: "r = Inl e" by (cases r) auto
  have "db w' = db w"
    using assms(1) e unfolding RegisterSession_def Let_def
    by (auto simp: fail_apply split: option.splits if_splits dest: with_retry_InlD)
  with e show ?thesis by blast
qed

section \<open>Well-formedness\<close>

lemma save_session_ok: "keeps db_ok (save_session s)"
  unfolding keeps_def
proof (intro allI impI)
  fix w x w' assume run: "save_session s w = (Inr x, w')" and ok: "db_ok (db w)"
  from save_session_result [of s w w'] run obtain rows where "db w' = (db w)\<lparr>sessions := rows\<rparr>"
    "distinct (map as_TokenHash (sessions (db w))) \<longrightarrow> distinct (map as_TokenHash rows)" by auto
  then show "db_ok (db w')" using ok by (simp add: db_ok_defs)
qed

lemma session_tx_ok: "keeps db_ok (session_tx L u token t)"
  unfolding session_tx_def
  by (intro tx_keeps keeps_exec save_session_ok keeps_reads [OF reads_map_err [OF reads_first]] keeps_reads [OF reads_time_now])
    (rule delete_sessions_ok)

lemma accounts_always:
  "always db_ok (Authenticate L email password)"
  "always db_ok (ChangeEmail L current new password)"
  "always db_ok (ChangePassword L email password new)"
  "always db_ok (ResetPassword L email new)"
  "always db_ok (RegisterSession L au token expires)"
  "always db_ok (RevokeSession L token)"
proof -
  note r = always_reads [OF reads_fail] always_reads [OF reads_ret] always_reads [OF reads_time_now]
    always_reads [OF reads_FindByEmail] always_reads [OF reads_of_result]
  have store: "always db_ok (storePassword L i password)" for i password
    unfolding storePassword_def by (intro always_rules always_with_retry keeps_credential_tx r) simp
  show "always db_ok (Authenticate L email password)"
    unfolding Authenticate_def Let_def
    by (intro always_rules always_with_retry keeps_update_users r) simp
  show "always db_ok (ChangeEmail L current new password)"
    unfolding ChangeEmail_def Let_def
    by (intro always_rules always_with_retry keeps_credential_tx r) simp
  show "always db_ok (ChangePassword L email password new)"
    unfolding ChangePassword_def by (intro always_rules store r)
  show "always db_ok (ResetPassword L email new)"
    unfolding ResetPassword_def by (intro always_rules store r)
  show "always db_ok (RegisterSession L au token expires)"
    unfolding RegisterSession_def Let_def
    by (auto split: option.split intro!: always_if always_with_retry session_tx_ok r)
  show "always db_ok (RevokeSession L token)"
    unfolding RevokeSession_def
    by (intro always_if always_with_retry keeps_exec delete_sessions_ok r)
qed

lemma EnsureAdmin_always:
  assumes "\<And>a. announce = Some a \<Longrightarrow> reads a"
  shows "always db_ok (EnsureAdmin L password logged announce)"
proof -
  have "keeps db_ok (ensure_admin_tx admin announce)" for admin
  proof (cases announce)
    case None
    show ?thesis unfolding ensure_admin_tx_def None option.case by (intro tx_keeps keeps_reads [OF reads_count_rows])
  next
    case (Some a)
    show ?thesis unfolding ensure_admin_tx_def Some option.case
      by (intro tx_keeps keeps_reads [OF reads_count_rows] keeps_reads [OF assms [OF Some]])
  qed
  then show ?thesis
    unfolding EnsureAdmin_def
    by (intro always_rules always_with_retry always_reads [OF reads_fail] always_reads [OF reads_ret]
        always_reads [OF reads_time_now] always_reads [OF reads_count_rows] always_reads [OF reads_of_result])
qed

end
