(* ===== verification/Handlers.thy ===== *)
theory Handlers
  imports Public Account_Laws
begin

text \<open>
  What the handlers of \<open>internal/http\<close> share: requests, failures, replies, and the helpers of
  \<open>internal/http/forms.go\<close> that read parameters; then the session guards and the sign-in of
  \<open>internal/http/auth.go\<close> and the account settings of \<open>internal/http/settings.go\<close>.
\<close>

section \<open>Handlers\<close>

text \<open>
  Absent parameters, form values, headers and cookies are empty; \<open>ar_Query\<close> has the value of a query
  parameter. A reply redirects, asks htmx to redirect, passes the request on, or shows a view with a
  status.
\<close>

record admin_request =
  ar_Form :: "string \<Rightarrow> string"
  ar_Param :: "string \<Rightarrow> string"
  ar_Query :: "string \<Rightarrow> string"
  ar_Header :: "string \<Rightarrow> string"
  ar_Cookie :: "string \<Rightarrow> string"
  ar_BaseURL :: string
  ar_DB :: db_manager

datatype 'v reply = Goto string | HxGoto string | PassOn | Show int 'v

type_synonym 'v handler = "(failure + 'v) db_prog"

definition h_ret :: "'v \<Rightarrow> 'v handler" where
  "h_ret x = ret (Inr x)"

definition h_fail :: "failure \<Rightarrow> 'v handler" where
  "h_fail e = ret (Inl e)"

definition h_bind :: "'a handler \<Rightarrow> ('a \<Rightarrow> 'v handler) \<Rightarrow> 'v handler" where
  "h_bind m f = bnd m (\<lambda>r. case r of Inl e \<Rightarrow> ret (Inl e) | Inr x \<Rightarrow> f x)"

definition h_check :: "failure + 'a \<Rightarrow> 'a handler" where
  "h_check r = ret r"

text \<open>A call whose error is an internal server error, and one whose missing row is a 404.\<close>

definition or_500 :: "'a db_prog \<Rightarrow> 'a handler" where
  "or_500 m = catch m (\<lambda>r. case r of Inl _ \<Rightarrow> h_fail ErrInternalServerError | Inr x \<Rightarrow> h_ret x)"

definition or_404 :: "'a db_prog \<Rightarrow> 'a handler" where
  "or_404 m = catch m (\<lambda>r. case r of
     Inl e \<Rightarrow> if err_is ErrRecordNotFound e then h_fail ErrNotFoundPage else h_fail ErrInternalServerError
   | Inr x \<Rightarrow> h_ret x)"

lemma h_keeps [tx_keeps]:
  "reads (h_ret x)" "reads (h_fail e)" "reads (h_check r)"
  by (simp_all add: h_ret_def h_fail_def h_check_def reads_ret)

lemma always_h_bind: "always P m \<Longrightarrow> (\<And>x. always P (f x)) \<Longrightarrow> always P (h_bind m f)"
  unfolding h_bind_def by (intro always_bnd always_result always_reads [OF reads_ret])

lemma always_or_500: "always P m \<Longrightarrow> always P (or_500 m)"
  unfolding or_500_def by (intro always_catch always_result always_reads [OF h_keeps(1)] always_reads [OF h_keeps(2)])

lemma always_or_404: "always P m \<Longrightarrow> always P (or_404 m)"
  unfolding or_404_def by (intro always_catch always_result always_if always_reads [OF h_keeps(1)] always_reads [OF h_keeps(2)])

lemma reads_h_bind [tx_keeps]: "reads m \<Longrightarrow> (\<And>x. reads (f x)) \<Longrightarrow> reads (h_bind m f)"
  unfolding h_bind_def by (intro tx_keeps)

lemma reads_or_500 [tx_keeps]: "reads m \<Longrightarrow> reads (or_500 m)"
  unfolding or_500_def by (intro tx_keeps)

lemma reads_or_404 [tx_keeps]: "reads m \<Longrightarrow> reads (or_404 m)"
  unfolding or_404_def by (intro tx_keeps)

lemmas h_always = always_h_bind always_or_500 always_or_404 always_catch always_result always_if always_option
  always_reads [OF h_keeps(1)] always_reads [OF h_keeps(2)] always_reads [OF h_keeps(3)]

section \<open>Parameters\<close>

text \<open>\<open>strconv.ParseUint(s, 10, 32)\<close>: digits only, within 32 bits.\<close>

definition parse_uint32 :: "string \<Rightarrow> nat option" where
  "parse_uint32 s =
     (if s = [] \<or> \<not> list_all ascii_digit s then None
      else if digits_value s < 2 ^ 32 then Some (digits_value s) else None)"

lemma parse_uint32_code [code]:
  "parse_uint32 s =
     (if s = [] \<or> \<not> list_all ascii_digit s then None
      else if int (digits_value s) < 2 ^ 32 then Some (digits_value s) else None)"
proof -
  have "int (digits_value s) < 2 ^ 32 \<longleftrightarrow> digits_value s < 2 ^ 32"
    using of_nat_less_iff [of "digits_value s" "2 ^ 32", where 'a = int] by (simp only: of_nat_power of_nat_numeral)
  then show ?thesis by (simp add: parse_uint32_def)
qed

definition positive_id :: "string \<Rightarrow> failure + nat" where
  "positive_id s = (case parse_uint32 s of None \<Rightarrow> Inl ErrNotFoundPage | Some n \<Rightarrow> if n = 0 then Inl ErrNotFoundPage else Inr n)"

definition requestedID :: "admin_request \<Rightarrow> failure + nat" where
  "requestedID r = positive_id (ar_Param r ''id'')"

definition paramID :: "admin_request \<Rightarrow> string \<Rightarrow> failure + nat" where
  "paramID r name = positive_id (ar_Param r name)"

definition optionalID :: "string \<Rightarrow> nat option" where
  "optionalID v = (case parse_uint32 (trim_space v) of None \<Rightarrow> None | Some n \<Rightarrow> if n = 0 then None else Some n)"

definition checkbox :: "admin_request \<Rightarrow> string \<Rightarrow> bool" where
  "checkbox r name \<longleftrightarrow> (let v = ar_Form r name in v = ''on'' \<or> v = ''true'' \<or> v = ''1'')"

definition request_db :: "admin_request \<Rightarrow> unit handler" where
  "request_db r = h_check (requestDB (ar_DB r))"

section \<open>Sessions\<close>

text \<open>
  The framework's session manager: whether the request is authenticated and as whom, what starting a
  session gives, and the cookie it then set. What a handler does to the session comes with its reply.
\<close>

record session =
  ss_IsAuthenticated :: bool
  ss_UserID :: "nat option"
  ss_Set :: "nat \<Rightarrow> err option"
  ss_SetCookie :: "nat \<Rightarrow> string option"

datatype session_effect = SessionKept | SessionSet nat | SessionCleared

datatype auth_view = LoginView string bool | SettingsView user string

type_synonym auth_outcome = "session_effect \<times> (failure + auth_view reply)"

definition browserRedirect :: "admin_request \<Rightarrow> string \<Rightarrow> 'v reply" where
  "browserRedirect r location = (if ar_Header r ''HX-Request'' = ''true'' then HxGoto location else Goto location)"

definition sessionDatabase :: "db_manager \<Rightarrow> failure + unit" where
  "sessionDatabase manager =
     (case manager of
        NoManager \<Rightarrow> Inl (GoError (Plain ''session database manager is unavailable''))
      | ConnectError e \<Rightarrow> Inl (GoError (Wrap ''connect session database'' e))
      | NoConnection \<Rightarrow> Inl (GoError (Plain ''connect session database: connection is unavailable''))
      | Connected \<Rightarrow> Inr ())"

definition clearSessionAndRedirect :: "admin_request \<Rightarrow> auth_outcome" where
  "clearSessionAndRedirect r = (SessionCleared, Inr (browserRedirect r ''/admin/login''))"

definition kept :: "failure + auth_view reply \<Rightarrow> auth_outcome" where
  "kept x = (SessionKept, x)"

definition RequireSession :: "golib \<Rightarrow> cartridge \<Rightarrow> Config \<Rightarrow> session \<Rightarrow> admin_request \<Rightarrow> auth_outcome db_prog" where
  "RequireSession L C cfg session r =
     (if \<not> ss_IsAuthenticated session then ret (kept (Inr (browserRedirect r ''/admin/login'')))
      else (case sessionDatabase (ar_DB r) of
        Inl e \<Rightarrow> ret (kept (Inl e))
      | Inr _ \<Rightarrow>
          let token = ar_Cookie r (SessionCookieName C cfg) in
          (case ss_UserID session of
             None \<Rightarrow> ret (clearSessionAndRedirect r)
           | Some userID \<Rightarrow>
               catch (FindByID userID) (\<lambda>found. case found of
                 Inl e \<Rightarrow> if err_is ErrUserNotFound e then ret (clearSessionAndRedirect r)
                          else ret (kept (Inl ErrInternalServerError))
               | Inr user \<Rightarrow>
                   bnd time_now (\<lambda>now.
                   catch (IsSessionActive L (us_ID user) token now) (\<lambda>checked. case checked of
                     Inl _ \<Rightarrow> ret (kept (Inl ErrInternalServerError))
                   | Inr live \<Rightarrow> if \<not> live then ret (clearSessionAndRedirect r) else ret (kept (Inr PassOn))))))))"

definition RequirePasswordChanged :: "session \<Rightarrow> admin_request \<Rightarrow> auth_outcome db_prog" where
  "RequirePasswordChanged session r =
     (case ss_UserID session of
        None \<Rightarrow> ret (kept (Inr (browserRedirect r ''/admin/login'')))
      | Some userID \<Rightarrow>
          (case sessionDatabase (ar_DB r) of
             Inl e \<Rightarrow> ret (kept (Inl e))
           | Inr _ \<Rightarrow>
               catch (FindByID userID) (\<lambda>found. case found of
                 Inl e \<Rightarrow> if err_is ErrUserNotFound e then ret (clearSessionAndRedirect r)
                          else ret (kept (Inl ErrInternalServerError))
               | Inr user \<Rightarrow>
                   if us_PasswordChangeRequired user then ret (kept (Inr (browserRedirect r ''/admin/settings'')))
                   else ret (kept (Inr PassOn)))))"

section \<open>Signing in and out\<close>

definition renderLogin :: "string \<Rightarrow> auth_view reply db_prog" where
  "renderLogin message = bnd RequiresPasswordChange (\<lambda>help. ret (Show 200 (LoginView message help)))"

definition AdminLoginPage :: "admin_request \<Rightarrow> auth_outcome db_prog" where
  "AdminLoginPage r =
     (case requestDB (ar_DB r) of
        Inl e \<Rightarrow> ret (kept (Inl e))
      | Inr _ \<Rightarrow> bnd (renderLogin []) (\<lambda>v. ret (kept (Inr v))))"

text \<open>The decoders of the session token are arguments, as in \<open>SessionExpiresAt\<close>.\<close>

definition start_session ::
  "golib \<Rightarrow> (string \<Rightarrow> string option) \<Rightarrow> (string \<Rightarrow> gotime option option) \<Rightarrow> session \<Rightarrow> user \<Rightarrow> auth_outcome db_prog" where
  "start_session L base64 expires_at session user =
     (case ss_Set session (us_ID user) of
        Some _ \<Rightarrow> ret (kept (Inl ErrInternalServerError))
      | None \<Rightarrow>
          let token = (case ss_SetCookie session (us_ID user) of None \<Rightarrow> [] | Some v \<Rightarrow> v) in
          if token = [] then ret (SessionCleared, Inl ErrInternalServerError)
          else (case SessionExpiresAt base64 expires_at token of
                  Inl _ \<Rightarrow> ret (SessionCleared, Inl ErrInternalServerError)
                | Inr expiresAt \<Rightarrow>
                    catch (RegisterSession L (Some user) token (Some expiresAt)) (\<lambda>registered. case registered of
                      Inl e \<Rightarrow>
                        if err_is ErrInvalidCredentials e
                        then bnd (renderLogin ''Invalid credentials'') (\<lambda>v. ret (SessionCleared, Inr v))
                        else ret (SessionCleared, Inl ErrInternalServerError)
                    | Inr _ \<Rightarrow>
                        ret (SessionSet (us_ID user),
                             Inr (Goto (if us_PasswordChangeRequired user then ''/admin/settings'' else ''/admin/submissions''))))))"

definition AdminLoginSubmit ::
  "golib \<Rightarrow> (string \<Rightarrow> string option) \<Rightarrow> (string \<Rightarrow> gotime option option) \<Rightarrow> session option \<Rightarrow> admin_request \<Rightarrow> auth_outcome db_prog" where
  "AdminLoginSubmit L base64 expires_at session r =
     (case requestDB (ar_DB r) of
        Inl e \<Rightarrow> ret (kept (Inl e))
      | Inr _ \<Rightarrow>
          catch (Authenticate L (ar_Form r ''email'') (ar_Form r ''password'')) (\<lambda>authenticated. case authenticated of
            Inl e \<Rightarrow>
              if err_is ErrInvalidCredentials e \<or> err_is ErrMissingFields e
              then bnd (renderLogin ''Invalid credentials'') (\<lambda>v. ret (kept (Inr v)))
              else ret (kept (Inl ErrInternalServerError))
          | Inr user \<Rightarrow>
              (case session of
                 None \<Rightarrow> ret (kept (Inl ErrInternalServerError))
               | Some s \<Rightarrow> start_session L base64 expires_at s user)))"

definition AdminLogout :: "golib \<Rightarrow> cartridge \<Rightarrow> Config \<Rightarrow> session option \<Rightarrow> admin_request \<Rightarrow> auth_outcome db_prog" where
  "AdminLogout L C cfg session r =
     (case session of
        None \<Rightarrow> ret (kept (Inr (Goto ''/admin/login'')))
      | Some _ \<Rightarrow>
          (case requestDB (ar_DB r) of
             Inl e \<Rightarrow> ret (kept (Inl e))
           | Inr _ \<Rightarrow>
               catch (RevokeSession L (ar_Cookie r (SessionCookieName C cfg))) (\<lambda>revoked. case revoked of
                 Inl _ \<Rightarrow> ret (kept (Inl ErrInternalServerError))
               | Inr _ \<Rightarrow> ret (SessionCleared, Inr (Goto ''/admin/login'')))))"

section \<open>Account settings\<close>

definition ErrUnauthorized :: failure where
  "ErrUnauthorized = FiberError 401 ''Unauthorized''"

definition currentUser :: "session option \<Rightarrow> user handler" where
  "currentUser session =
     (case session of
        None \<Rightarrow> h_fail ErrUnauthorized
      | Some s \<Rightarrow> (case ss_UserID s of None \<Rightarrow> h_fail ErrUnauthorized | Some i \<Rightarrow> or_500 (FindByID i)))"

definition renderSettings :: "session option \<Rightarrow> string \<Rightarrow> auth_view reply handler" where
  "renderSettings session failed = h_bind (currentUser session) (\<lambda>user. h_ret (Show 200 (SettingsView user failed)))"

definition with_kept :: "auth_view reply handler \<Rightarrow> auth_outcome db_prog" where
  "with_kept m = bnd m (\<lambda>x. ret (kept x))"

definition AdminSettingsPage :: "session option \<Rightarrow> admin_request \<Rightarrow> auth_outcome db_prog" where
  "AdminSettingsPage session r = with_kept (h_bind (request_db r) (\<lambda>_. renderSettings session []))"

text \<open>After a change: the session is cleared where there is one.\<close>

definition signed_out :: "session option \<Rightarrow> auth_outcome db_prog" where
  "signed_out session =
     ret (case session of None \<Rightarrow> SessionKept | Some _ \<Rightarrow> SessionCleared, Inr (Goto ''/admin/login''))"

definition settings_change ::
  "session option \<Rightarrow> (user \<Rightarrow> unit db_prog) \<Rightarrow> (err \<Rightarrow> string option) \<Rightarrow> auth_outcome db_prog" where
  "settings_change session change explain =
     bnd (currentUser session) (\<lambda>found. case found of
       Inl e \<Rightarrow> ret (kept (Inl e))
     | Inr user \<Rightarrow>
         catch (change user) (\<lambda>done. case done of
           Inl e \<Rightarrow>
             (case explain e of
                Some message \<Rightarrow> with_kept (renderSettings session message)
              | None \<Rightarrow> ret (kept (Inl ErrInternalServerError)))
         | Inr _ \<Rightarrow> signed_out session))"

definition password_message :: "err \<Rightarrow> string option" where
  "password_message e =
     (if err_is ErrWeakPassword e then Some ''Password must be at least 8 characters long''
      else if err_is ErrPasswordMismatch e then Some ''Current password is incorrect''
      else if err_is ErrPasswordUnchanged e then Some ''New password must be different from the current password''
      else None)"

definition AdminSettingsUpdatePassword :: "golib \<Rightarrow> session option \<Rightarrow> admin_request \<Rightarrow> auth_outcome db_prog" where
  "AdminSettingsUpdatePassword L session r =
     (case requestDB (ar_DB r) of
        Inl e \<Rightarrow> ret (kept (Inl e))
      | Inr _ \<Rightarrow>
          let current = ar_Form r ''current_password''; password = ar_Form r ''new_password'';
              confirmation = ar_Form r ''confirm_password'' in
          if current = [] \<or> password = [] \<or> confirmation = []
          then with_kept (renderSettings session ''All password fields are required'')
          else if password \<noteq> confirmation then with_kept (renderSettings session ''New passwords do not match'')
          else settings_change session (\<lambda>user. ChangePassword L (us_Email user) current password) password_message)"

definition email_message :: "err \<Rightarrow> string option" where
  "email_message e =
     (if err_is ErrInvalidEmail e then Some ''Please enter a valid email address''
      else if err_is ErrPasswordMismatch e then Some ''Current password is incorrect''
      else if err_is ErrDuplicateEmail e then Some ''That email is already in use''
      else None)"

definition AdminSettingsUpdateEmail :: "golib \<Rightarrow> session option \<Rightarrow> admin_request \<Rightarrow> auth_outcome db_prog" where
  "AdminSettingsUpdateEmail L session r =
     (case requestDB (ar_DB r) of
        Inl e \<Rightarrow> ret (kept (Inl e))
      | Inr _ \<Rightarrow>
          let email = ar_Form r ''new_email''; password = ar_Form r ''current_password_email'' in
          if email = [] \<or> password = [] then with_kept (renderSettings session ''Email and current password are required'')
          else settings_change session (\<lambda>user. ChangeEmail L (us_Email user) email password) email_message)"

end
