(* ===== verification/Auth_Laws.thy ===== *)
theory Auth_Laws
  imports Public_Laws Handlers
begin

text \<open>
  What the sign-in promises: the session guard lets a request through only with a session that is
  stored, unexpired and of an existing user; signing in takes the password; signing out and changing
  the credentials leave no session behind; every handler keeps the database well-formed.
\<close>

section \<open>The guard\<close>

lemma time_now_InrD: "time_now w = (Inr now, w') \<Longrightarrow> clock w \<le> now \<and> clock w' = now \<and> db w' = db w"
  by (auto simp: time_now_def split: list.splits)

lemma stmt_clock: "stmt f w = (r, w') \<Longrightarrow> clock w' = clock w"
  by (auto simp: stmt_def split: list.splits option.splits sum.splits)

lemma FindByID_InrD:
  "FindByID i w = (Inr u, w') \<Longrightarrow> u \<in> set (users (db w)) \<and> us_ID u = i \<and> db w' = db w"
  unfolding FindByID_def by (auto elim!: loadUser_InrE split: if_splits)

lemma reads_FindByID [tx_keeps]: "reads (FindByID i)"
  unfolding FindByID_def by (intro tx_keeps)

lemma reads_IsSessionActive' [tx_keeps]: "reads (IsSessionActive L i token now)"
  by (rule reads_IsSessionActive)

text \<open>The part of the guard that asks the database.\<close>

lemma RequireSession_runs:
  assumes "RequireSession L C cfg session r w = (Inr (e, Inr PassOn), w')"
  obtains i u now w1 w2 w3 where "ss_IsAuthenticated session" "sessionDatabase (ar_DB r) = Inr ()" "ss_UserID session = Some i"
    "FindByID i w = (Inr u, w1)" "time_now w1 = (Inr now, w2)" "e = SessionKept"
    "IsSessionActive L (us_ID u) (ar_Cookie r (SessionCookieName C cfg)) now w2 = (Inr True, w3)" "w' = w3"
proof -
  have never: "(Inr (Goto x) :: failure + auth_view reply) \<noteq> Inr PassOn"
    "(Inr (browserRedirect r x) :: failure + auth_view reply) \<noteq> Inr PassOn" for x
    by (simp_all add: browserRedirect_def)
  have auth: "ss_IsAuthenticated session" and con: "sessionDatabase (ar_DB r) = Inr ()"
    using assms never by (auto simp: RequireSession_def kept_def Let_def ret_apply split: if_splits sum.splits)
  obtain i where i: "ss_UserID session = Some i"
    using assms never auth con by (cases "ss_UserID session") (auto simp: RequireSession_def clearSessionAndRedirect_def Let_def ret_apply)
  obtain found w1 where f: "FindByID i w = (found, w1)" by force
  obtain u where u: "found = Inr u"
    using assms never auth con i f
    by (cases found) (auto simp: RequireSession_def clearSessionAndRedirect_def kept_def Let_def ret_apply catch_apply split: if_splits)
  obtain now w2 where n: "time_now w1 = (Inr now, w2)" by (cases "ticks w1") (simp_all add: time_now_def)
  obtain checked w3 where c: "IsSessionActive L (us_ID u) (ar_Cookie r (SessionCookieName C cfg)) now w2 = (checked, w3)" by force
  have "checked = Inr True \<and> w' = w3 \<and> e = SessionKept"
    using assms never auth con i f u n c
    by (cases checked) (auto simp: RequireSession_def clearSessionAndRedirect_def kept_def Let_def ret_apply catch_apply bnd_apply split: if_splits)
  with auth con i f u n c show ?thesis using that by blast
qed

lemma FindByID_clock: "FindByID i w = (r, w') \<Longrightarrow> clock w' = clock w"
  unfolding FindByID_def loadUser_def map_err_def first_def query_def
  by (auto simp: catch_apply bnd_apply fail_apply ret_apply of_result_def split: sum.splits option.splits prod.splits if_splits dest: stmt_clock)

lemma RequireSession_result:
  assumes "RequireSession L C cfg session r w = (Inr (e, Inr PassOn), w')"
  shows "e = SessionKept \<and> ss_IsAuthenticated session \<and> db w' = db w
    \<and> (\<exists>u now. u \<in> set (users (db w)) \<and> ss_UserID session = Some (us_ID u) \<and> clock w \<le> now
         \<and> active L (us_ID u) (ar_Cookie r (SessionCookieName C cfg)) now (db w))"
proof -
  from assms obtain i u now w1 w2 w3 where r: "ss_IsAuthenticated session" "ss_UserID session = Some i"
    "FindByID i w = (Inr u, w1)" "time_now w1 = (Inr now, w2)" "e = SessionKept"
    "IsSessionActive L (us_ID u) (ar_Cookie r (SessionCookieName C cfg)) now w2 = (Inr True, w3)" "w' = w3"
    by (rule RequireSession_runs)
  from FindByID_InrD [OF r(3)] FindByID_clock [OF r(3)] time_now_InrD [OF r(4)] IsSessionActive_InrD [OF r(6)] r
  show ?thesis by auto
qed

section \<open>Signing in\<close>

lemma reads_RequiresPasswordChange [tx_keeps]: "reads RequiresPasswordChange"
  unfolding RequiresPasswordChange_def GetAdmin_def by (intro tx_keeps)

lemma reads_renderLogin [tx_keeps]: "reads (renderLogin m)"
  unfolding renderLogin_def by (intro tx_keeps)

text \<open>Whom \<open>Authenticate\<close> lets in, and all it changes.\<close>

lemma Authenticate_result:
  assumes "Authenticate L email password w = (Inr u, w')"
  shows "\<exists>v now. v \<in> set (users (db w)) \<and> us_Email v = normalizeEmail L (normalizeEmail L email) \<and> passwordMatches L (us_PasswordHash v) password
    \<and> u = v\<lparr>us_LastLoginAt := Some now\<rparr>
    \<and> db w' = (db w)\<lparr>users := update_where (\<lambda>x. us_ID x = us_ID v) (\<lambda>x. x\<lparr>us_LastLoginAt := Some now\<rparr>) (users (db w))\<rparr>"
proof -
  let ?e = "normalizeEmail L email"
  have ne: "\<not> (?e = [] \<or> password = [])" using assms by (auto simp: Authenticate_def Let_def fail_apply)
  obtain found w1 where f: "FindByEmail L ?e w = (found, w1)" by force
  obtain v where v: "found = Inr v"
    using assms f ne by (cases found) (auto simp: Authenticate_def Let_def fail_apply catch_apply split: if_splits)
  have m: "passwordMatches L (us_PasswordHash v) password"
    using assms f v ne by (auto simp: Authenticate_def Let_def fail_apply catch_apply split: if_splits)
  have run: "bnd time_now (\<lambda>now. bnd (wrap_err ''record account login''
        (with_retry (stmt (update_users (\<lambda>x. us_ID x = us_ID v) (\<lambda>x. x\<lparr>us_LastLoginAt := Some now\<rparr>)))))
          (\<lambda>_. ret (v\<lparr>us_LastLoginAt := Some now\<rparr>))) w1 = (Inr u, w')"
    using assms f v ne m by (simp add: Authenticate_def Let_def catch_apply)
  then obtain now w2 n where t: "time_now w1 = (Inr now, w2)" "u = v\<lparr>us_LastLoginAt := Some now\<rparr>"
    "with_retry (stmt (update_users (\<lambda>x. us_ID x = us_ID v) (\<lambda>x. x\<lparr>us_LastLoginAt := Some now\<rparr>))) w2 = (Inr n, w')"
    by (auto elim!: bnd_InrE)
  from t(3) obtain w3 w4 where s: "db w3 = db w2"
    "stmt (update_users (\<lambda>x. us_ID x = us_ID v) (\<lambda>x. x\<lparr>us_LastLoginAt := Some now\<rparr>)) w3 = (Inr n, w4)" "db w' = db w4"
    by (rule with_retry_InrE)
  from f v have "v \<in> set (users (db w))" "us_Email v = normalizeEmail L ?e" "db w1 = db w"
    unfolding FindByEmail_def by (auto elim!: loadUser_InrE)
  with t(2) time_now_InrD [OF t(1)] s update_users_InrD [OF stmt_InrD [OF s(2)]] m show ?thesis by auto
qed

lemma start_session_set:
  assumes "start_session L base64 expires_at session u w = (Inr (SessionSet i, out), w')"
  obtains token expires where "i = us_ID u" "ss_SetCookie session (us_ID u) = Some token"
    "SessionExpiresAt base64 expires_at token = Inr expires" "RegisterSession L (Some u) token (Some expires) w = (Inr (), w')"
proof -
  have no: "ss_Set session (us_ID u) = None"
    using assms by (cases "ss_Set session (us_ID u)") (auto simp: start_session_def kept_def ret_apply)
  obtain token where tok: "ss_SetCookie session (us_ID u) = Some token" "token \<noteq> []"
    using assms no by (cases "ss_SetCookie session (us_ID u)") (auto simp: start_session_def Let_def ret_apply split: if_splits)
  obtain expires where e: "SessionExpiresAt base64 expires_at token = Inr expires"
    using assms no tok by (cases "SessionExpiresAt base64 expires_at token") (auto simp: start_session_def Let_def ret_apply)
  obtain done' w1 where r: "RegisterSession L (Some u) token (Some expires) w = (done', w1)" by force
  have "done' = Inr () \<and> i = us_ID u \<and> w' = w1"
    using assms no tok e r
    by (cases done') (auto simp: start_session_def Let_def ret_apply catch_apply bnd_apply split: if_splits sum.splits prod.splits)
  with tok e r that show ?thesis by blast
qed

lemma AdminLoginSubmit_set:
  assumes "AdminLoginSubmit L base64 expires_at session r w = (Inr (SessionSet i, out), w')"
  obtains s u w1 where "session = Some s" "Authenticate L (ar_Form r ''email'') (ar_Form r ''password'') w = (Inr u, w1)"
    "start_session L base64 expires_at s u w1 = (Inr (SessionSet i, out), w')"
proof -
  have con: "requestDB (ar_DB r) = Inr ()"
    using assms by (cases "requestDB (ar_DB r)") (auto simp: AdminLoginSubmit_def kept_def ret_apply)
  obtain a w1 where a: "Authenticate L (ar_Form r ''email'') (ar_Form r ''password'') w = (a, w1)" by force
  obtain u where u: "a = Inr u"
    using assms con a
    by (cases a) (auto simp: AdminLoginSubmit_def kept_def ret_apply catch_apply bnd_apply split: if_splits sum.splits prod.splits)
  obtain s where "session = Some s"
    using assms con a u by (cases session) (auto simp: AdminLoginSubmit_def kept_def ret_apply catch_apply)
  with assms con a u that show ?thesis by (simp add: AdminLoginSubmit_def catch_apply)
qed

lemma AdminLoginSubmit_result:
  assumes "AdminLoginSubmit L base64 expires_at session r w = (Inr (SessionSet i, out), w')"
  shows "\<exists>v token expires s. v \<in> set (users (db w)) \<and> us_ID v = i
    \<and> us_Email v = normalizeEmail L (normalizeEmail L (ar_Form r ''email''))
    \<and> passwordMatches L (us_PasswordHash v) (ar_Form r ''password'')
    \<and> session = Some s \<and> ss_SetCookie s i = Some token
    \<and> (\<exists>x\<in>set (sessions (db w')). as_UserID x = i \<and> as_TokenHash x = sessionTokenHash L (trim_space token) \<and> as_ExpiresAt x = expires)
    \<and> SessionExpiresAt base64 expires_at token = Inr expires"
proof -
  from assms obtain s u w1 where a: "session = Some s" "Authenticate L (ar_Form r ''email'') (ar_Form r ''password'') w = (Inr u, w1)"
    "start_session L base64 expires_at s u w1 = (Inr (SessionSet i, out), w')"
    by (rule AdminLoginSubmit_set)
  from a(3) obtain token expires where t: "i = us_ID u" "ss_SetCookie s (us_ID u) = Some token"
    "SessionExpiresAt base64 expires_at token = Inr expires" "RegisterSession L (Some u) token (Some expires) w1 = (Inr (), w')"
    by (rule start_session_set)
  from Authenticate_result [OF a(2)] obtain v now where v: "v \<in> set (users (db w))"
    "us_Email v = normalizeEmail L (normalizeEmail L (ar_Form r ''email''))"
    "passwordMatches L (us_PasswordHash v) (ar_Form r ''password'')" "u = v\<lparr>us_LastLoginAt := Some now\<rparr>" by blast
  from RegisterSession_result [OF t(4)] have
    "\<exists>x\<in>set (sessions (db w')). as_UserID x = us_ID u \<and> as_TokenHash x = sessionTokenHash L (trim_space token) \<and> as_ExpiresAt x = expires"
    by force
  with a(1) t v show ?thesis by auto
qed

section \<open>Signing out\<close>

lemma AdminLogout_result:
  assumes "AdminLogout L C cfg session r w = (Inr (SessionCleared, out), w')"
    and "trim_space (ar_Cookie r (SessionCookieName C cfg)) \<noteq> []"
  shows "db w' = (db w)\<lparr>sessions := delete_where (\<lambda>s. as_TokenHash s = sessionTokenHash L (ar_Cookie r (SessionCookieName C cfg))) (sessions (db w))\<rparr>"
proof -
  obtain s where s: "session = Some s" using assms(1) by (cases session) (auto simp: AdminLogout_def kept_def ret_apply)
  have con: "requestDB (ar_DB r) = Inr ()"
    using assms(1) s by (cases "requestDB (ar_DB r)") (auto simp: AdminLogout_def kept_def ret_apply)
  obtain x w1 where x: "RevokeSession L (ar_Cookie r (SessionCookieName C cfg)) w = (x, w1)" by force
  have "x = Inr () \<and> w' = w1"
    using assms(1) s con x by (cases x) (auto simp: AdminLogout_def kept_def ret_apply catch_apply)
  with RevokeSession_result [OF _ assms(2)] x show ?thesis by blast
qed

lemma logout_ends_session:
  assumes "AdminLogout L C cfg session r w = (Inr (SessionCleared, out), w')"
    and "trim_space (ar_Cookie r (SessionCookieName C cfg)) \<noteq> []"
  shows "\<not> active L i (ar_Cookie r (SessionCookieName C cfg)) now (db w')"
  using AdminLogout_result [OF assms] by (auto simp: active_def session_live_def delete_where_def)

section \<open>Well-formedness\<close>

lemma auth_always:
  "always db_ok (RequireSession L C cfg session r)"
  "always db_ok (RequirePasswordChanged session r)"
  "always db_ok (AdminLoginPage r)"
  "always db_ok (AdminLoginSubmit L base64 expires_at os r)"
  "always db_ok (AdminLogout L C cfg os r)"
proof -
  note reading = always_reads [OF reads_ret] always_reads [OF reads_FindByID] always_reads [OF reads_renderLogin]
    always_reads [OF reads_time_now] always_reads [OF reads_IsSessionActive]
  show "always db_ok (RequireSession L C cfg session r)"
    unfolding RequireSession_def Let_def by (intro always_rules reading)
  show "always db_ok (RequirePasswordChanged session r)"
    unfolding RequirePasswordChanged_def by (intro always_rules reading)
  show "always db_ok (AdminLoginPage r)"
    unfolding AdminLoginPage_def by (intro always_rules reading)
  have "always db_ok (start_session L base64 expires_at s u)" for s u
    unfolding start_session_def Let_def by (intro always_rules reading accounts_always)
  then show "always db_ok (AdminLoginSubmit L base64 expires_at os r)"
    unfolding AdminLoginSubmit_def by (intro always_rules reading accounts_always)
  show "always db_ok (AdminLogout L C cfg os r)"
    unfolding AdminLogout_def by (intro always_rules reading accounts_always)
qed

lemma settings_always:
  "always db_ok (AdminSettingsPage os r)"
  "always db_ok (AdminSettingsUpdatePassword L os r)"
  "always db_ok (AdminSettingsUpdateEmail L os r)"
proof -
  have user: "reads (currentUser os)"
    unfolding currentUser_def by (intro tx_keeps)
  have page: "reads (renderSettings os m)" for m
    unfolding renderSettings_def by (intro tx_keeps user)
  have "reads (with_kept (renderSettings os m))" for m
    unfolding with_kept_def by (intro tx_keeps page)
  note reading = always_reads [OF reads_ret] always_reads [OF this] always_reads [OF user]
  have change: "always db_ok (settings_change os c g)" if "\<And>u. always db_ok (c u)" for c g
    unfolding settings_change_def signed_out_def by (intro always_rules reading that)
  show "always db_ok (AdminSettingsPage os r)"
    unfolding AdminSettingsPage_def with_kept_def request_db_def by (intro always_reads tx_keeps page)
  show "always db_ok (AdminSettingsUpdatePassword L os r)"
    unfolding AdminSettingsUpdatePassword_def Let_def by (intro always_rules reading change accounts_always)
  show "always db_ok (AdminSettingsUpdateEmail L os r)"
    unfolding AdminSettingsUpdateEmail_def Let_def by (intro always_rules reading change accounts_always)
qed

end
