(* ===== verification/Admin_Profiles.thy ===== *)
theory Admin_Profiles
  imports Handlers
begin

text \<open>
  The handlers for mailer and captcha profiles, \<open>internal/http/mailers.go\<close> and
  \<open>internal/http/captcha.go\<close>. Editors never show a stored secret; an update that leaves it out
  keeps it.
\<close>

section \<open>Mailers\<close>

text \<open>An editor: the profile, the message, edit mode, whether a password is stored and is to be cleared.\<close>

datatype mailer_view =
    MailerList "mailer_profile list"
  | MailerNewPage
  | MailerPage mailer_profile nat string
  | MailerEditor "mailer_profile option" string bool bool bool

definition integrationMessage :: "err \<Rightarrow> string" where
  "integrationMessage e = (case err_validation e of Some (_, message) \<Rightarrow> message | None \<Rightarrow> err_text e)"

definition mailerParams :: "admin_request \<Rightarrow> MailerProfileParams" where
  "mailerParams r =
     (let rawPort = trim_space (ar_Form r ''smtp_port'');
          port = (if rawPort = [] then 587
                  else (case atoi rawPort of None \<Rightarrow> -1 | Some parsed \<Rightarrow> if parsed \<le> 0 then -1 else parsed))
      in \<lparr>mq_Name = ar_Form r ''name'', mq_DefaultFromName = ar_Form r ''default_from_name'',
          mq_DefaultFromEmail = ar_Form r ''default_from_email'', mq_SMTPHost = ar_Form r ''smtp_host'', mq_SMTPPort = port,
          mq_SMTPUsername = ar_Form r ''smtp_username'', mq_SMTPPassword = ar_Form r ''smtp_password'',
          mq_SMTPEncryption = ar_Form r ''smtp_encryption''\<rparr>)"

definition mailerProfileDraft :: "nat \<Rightarrow> MailerProfileParams \<Rightarrow> mailer_profile" where
  "mailerProfileDraft i p =
     \<lparr>mp_ID = i, mp_Name = mq_Name p, mp_DefaultFromName = mq_DefaultFromName p, mp_DefaultFromEmail = mq_DefaultFromEmail p,
      mp_SMTPHost = mq_SMTPHost p, mp_SMTPPort = mq_SMTPPort p, mp_SMTPUsername = mq_SMTPUsername p, mp_SMTPPassword = [],
      mp_SMTPEncryption = mq_SMTPEncryption p\<rparr>"

definition renderMailerEditor :: "mailer_profile option \<Rightarrow> string \<Rightarrow> bool \<Rightarrow> bool \<Rightarrow> mailer_view reply" where
  "renderMailerEditor profile message stored clear =
     Show 200 (MailerEditor (map_option (\<lambda>p. p\<lparr>mp_SMTPPassword := []\<rparr>) profile) message
       (case profile of None \<Rightarrow> False | Some p \<Rightarrow> mp_ID p \<noteq> 0) stored clear)"

definition requestedMailer :: "admin_request \<Rightarrow> mailer_profile handler" where
  "requestedMailer r = h_bind (h_check (requestedID r)) (\<lambda>i. or_404 (GetMailerProfileByID i))"

definition MailerProfileList :: "admin_request \<Rightarrow> mailer_view reply handler" where
  "MailerProfileList r = h_bind (request_db r) (\<lambda>_. h_bind (or_500 ListMailerProfiles) (\<lambda>ps. h_ret (Show 200 (MailerList ps))))"

definition MailerProfileNew :: "admin_request \<Rightarrow> mailer_view reply handler" where
  "MailerProfileNew r = h_ret (Show 200 MailerNewPage)"

definition MailerProfileCreate :: "golib \<Rightarrow> admin_request \<Rightarrow> mailer_view reply handler" where
  "MailerProfileCreate L r =
     h_bind (request_db r) (\<lambda>_.
     let params = mailerParams r in
     catch (CreateMailerProfile L params) (\<lambda>created. case created of
       Inl e \<Rightarrow> if err_validation e \<noteq> None
                then h_ret (renderMailerEditor (Some (mailerProfileDraft 0 params)) (integrationMessage e) False False)
                else h_fail ErrInternalServerError
     | Inr _ \<Rightarrow> h_ret (Goto ''/admin/settings/mailers'')))"

definition MailerProfileShow :: "admin_request \<Rightarrow> mailer_view reply handler" where
  "MailerProfileShow r =
     h_bind (request_db r) (\<lambda>_. h_bind (requestedMailer r) (\<lambda>p.
     h_bind (or_500 (MailerProfileUsage (mp_ID p))) (\<lambda>n. h_ret (Show 200 (MailerPage p n [])))))"

definition MailerProfileEdit :: "admin_request \<Rightarrow> mailer_view reply handler" where
  "MailerProfileEdit r =
     h_bind (request_db r) (\<lambda>_. h_bind (requestedMailer r) (\<lambda>p.
     h_ret (renderMailerEditor (Some p) [] (mp_SMTPPassword p \<noteq> []) False)))"

definition kept_password :: "bool \<Rightarrow> mailer_profile \<Rightarrow> MailerProfileParams \<Rightarrow> MailerProfileParams" where
  "kept_password clear current params =
     (if clear then params\<lparr>mq_SMTPPassword := []\<rparr>
      else if mq_SMTPPassword params = [] then params\<lparr>mq_SMTPPassword := mp_SMTPPassword current\<rparr> else params)"

definition MailerProfileUpdate :: "golib \<Rightarrow> admin_request \<Rightarrow> mailer_view reply handler" where
  "MailerProfileUpdate L r =
     h_bind (h_check (requestedID r)) (\<lambda>i. h_bind (request_db r) (\<lambda>_.
     h_bind (or_404 (GetMailerProfileByID i)) (\<lambda>current.
     let clear = checkbox r ''clear_smtp_password'';
         params = kept_password clear current (mailerParams r) in
     catch (UpdateMailerProfile L i params) (\<lambda>updated. case updated of
       Inl e \<Rightarrow>
         if err_is ErrRecordNotFound e then h_fail ErrNotFoundPage
         else if err_validation e \<noteq> None
         then h_ret (renderMailerEditor (Some (mailerProfileDraft i params)) (integrationMessage e)
                       (mp_SMTPPassword current \<noteq> []) clear)
         else h_fail ErrInternalServerError
     | Inr profile \<Rightarrow> h_ret (Goto (''/admin/settings/mailers/'' @ dec_digits (mp_ID profile)))))))"

definition renderMailerDeleteConflict :: "nat \<Rightarrow> mailer_view reply handler" where
  "renderMailerDeleteConflict i =
     h_bind (or_404 (GetMailerProfileByID i)) (\<lambda>p. h_bind (or_500 (MailerProfileUsage i)) (\<lambda>n.
     h_ret (Show 400 (MailerPage p n ''Cannot delete profile: it is being used by forms''))))"

definition MailerProfileDelete :: "admin_request \<Rightarrow> mailer_view reply handler" where
  "MailerProfileDelete r =
     h_bind (h_check (requestedID r)) (\<lambda>i. h_bind (request_db r) (\<lambda>_.
     h_bind (or_500 (MailerProfileUsage i)) (\<lambda>n.
     if n \<noteq> 0 then renderMailerDeleteConflict i
     else catch (DeleteMailerProfile i) (\<lambda>deleted. case deleted of
            Inl e \<Rightarrow>
              if err_is ErrRecordNotFound e then h_fail ErrNotFoundPage
              else if err_is ErrProfileInUse e then renderMailerDeleteConflict i
              else h_fail ErrInternalServerError
          | Inr _ \<Rightarrow> h_ret (Goto ''/admin/settings/mailers'')))))"

section \<open>Captcha profiles\<close>

datatype captcha_view =
    CaptchaList "captcha_profile list"
  | CaptchaNewPage
  | CaptchaPage captcha_profile nat string
  | CaptchaEditor "captcha_profile option" string bool

definition captchaParams :: "admin_request \<Rightarrow> CaptchaProfileParams" where
  "captchaParams r = \<lparr>cq_Name = ar_Form r ''name'', cq_SiteKey = ar_Form r ''site_key'', cq_SecretKey = ar_Form r ''secret_key''\<rparr>"

definition captchaProfileDraft :: "nat \<Rightarrow> CaptchaProfileParams \<Rightarrow> captcha_profile" where
  "captchaProfileDraft i p = \<lparr>cp_ID = i, cp_Name = cq_Name p, cp_SiteKey = cq_SiteKey p, cp_SecretKey = []\<rparr>"

definition renderCaptchaEditor :: "captcha_profile option \<Rightarrow> string \<Rightarrow> captcha_view reply" where
  "renderCaptchaEditor profile message =
     Show 200 (CaptchaEditor profile message (case profile of None \<Rightarrow> False | Some p \<Rightarrow> cp_ID p \<noteq> 0))"

definition requestedCaptcha :: "admin_request \<Rightarrow> captcha_profile handler" where
  "requestedCaptcha r = h_bind (h_check (requestedID r)) (\<lambda>i. or_404 (GetCaptchaProfileByID i))"

definition CaptchaProfileList :: "admin_request \<Rightarrow> captcha_view reply handler" where
  "CaptchaProfileList r = h_bind (request_db r) (\<lambda>_. h_bind (or_500 ListCaptchaProfiles) (\<lambda>ps. h_ret (Show 200 (CaptchaList ps))))"

definition CaptchaProfileNew :: "admin_request \<Rightarrow> captcha_view reply handler" where
  "CaptchaProfileNew r = h_ret (Show 200 CaptchaNewPage)"

definition CaptchaProfileCreate :: "admin_request \<Rightarrow> captcha_view reply handler" where
  "CaptchaProfileCreate r =
     h_bind (request_db r) (\<lambda>_.
     let params = captchaParams r in
     catch (CreateCaptchaProfile params) (\<lambda>created. case created of
       Inl e \<Rightarrow> if err_validation e \<noteq> None
                then h_ret (renderCaptchaEditor (Some (captchaProfileDraft 0 params)) (integrationMessage e))
                else h_fail ErrInternalServerError
     | Inr _ \<Rightarrow> h_ret (Goto ''/admin/settings/captcha'')))"

definition CaptchaProfileShow :: "admin_request \<Rightarrow> captcha_view reply handler" where
  "CaptchaProfileShow r =
     h_bind (request_db r) (\<lambda>_. h_bind (requestedCaptcha r) (\<lambda>p.
     h_bind (or_500 (CaptchaProfileUsage (cp_ID p))) (\<lambda>n. h_ret (Show 200 (CaptchaPage p n [])))))"

definition CaptchaProfileEdit :: "admin_request \<Rightarrow> captcha_view reply handler" where
  "CaptchaProfileEdit r =
     h_bind (request_db r) (\<lambda>_. h_bind (requestedCaptcha r) (\<lambda>p. h_ret (renderCaptchaEditor (Some p) [])))"

definition CaptchaProfileUpdate :: "admin_request \<Rightarrow> captcha_view reply handler" where
  "CaptchaProfileUpdate r =
     h_bind (h_check (requestedID r)) (\<lambda>i. h_bind (request_db r) (\<lambda>_.
     h_bind (or_404 (GetCaptchaProfileByID i)) (\<lambda>current.
     let given = captchaParams r;
         params = (if trim_space (cq_SecretKey given) = [] then given\<lparr>cq_SecretKey := cp_SecretKey current\<rparr> else given) in
     catch (UpdateCaptchaProfile i params) (\<lambda>updated. case updated of
       Inl e \<Rightarrow>
         if err_is ErrRecordNotFound e then h_fail ErrNotFoundPage
         else if err_validation e \<noteq> None
         then h_ret (renderCaptchaEditor (Some (captchaProfileDraft i params)) (integrationMessage e))
         else h_fail ErrInternalServerError
     | Inr profile \<Rightarrow> h_ret (Goto (''/admin/settings/captcha/'' @ dec_digits (cp_ID profile)))))))"

definition renderCaptchaDeleteConflict :: "nat \<Rightarrow> captcha_view reply handler" where
  "renderCaptchaDeleteConflict i =
     h_bind (or_404 (GetCaptchaProfileByID i)) (\<lambda>p. h_bind (or_500 (CaptchaProfileUsage i)) (\<lambda>n.
     h_ret (Show 400 (CaptchaPage p n ''Cannot delete profile: it is being used by forms''))))"

definition CaptchaProfileDelete :: "admin_request \<Rightarrow> captcha_view reply handler" where
  "CaptchaProfileDelete r =
     h_bind (h_check (requestedID r)) (\<lambda>i. h_bind (request_db r) (\<lambda>_.
     h_bind (or_500 (CaptchaProfileUsage i)) (\<lambda>n.
     if n \<noteq> 0 then renderCaptchaDeleteConflict i
     else catch (DeleteCaptchaProfile i) (\<lambda>deleted. case deleted of
            Inl e \<Rightarrow>
              if err_is ErrRecordNotFound e then h_fail ErrNotFoundPage
              else if err_is ErrProfileInUse e then renderCaptchaDeleteConflict i
              else h_fail ErrInternalServerError
          | Inr _ \<Rightarrow> h_ret (Goto ''/admin/settings/captcha'')))))"

end
