(* ===== verification/Web_Properties.thy ===== *)
theory Web_Properties
  imports Service_Samples Auth_Laws Admin_Profiles
begin

text \<open>
  The properties of the HTTP layer: what the public endpoint stores and where it redirects, the
  session guard, signing in, and changing a password.
\<close>

section \<open>Concrete inputs\<close>

definition captcha_one :: captcha_profile where
  "captcha_one = \<lparr>cp_ID = 1, cp_Name = ''c'', cp_SiteKey = ''site'', cp_SecretKey = ''secret''\<rparr>"

definition db_captcha :: database where
  "db_captcha = db_one\<lparr>forms := [form_one\<lparr>fm_CaptchaProfileID := Some 1\<rparr>], captchas := [captcha_one]\<rparr>"

definition turnstile_one :: turnstile_env where
  "turnstile_one = \<lparr>te_request = (\<lambda>_ _. Responded 200 (Inr \<lparr>tr_Success = True, tr_Hostname = ''example.com'',
     tr_Action = TurnstileAction, tr_ErrorCodes = []\<rparr>)), te_context = (\<lambda>_. None), te_wait = (\<lambda>_ _. None)\<rparr>"

definition post_one :: public_request where
  "post_one = \<lparr>rq_Slug = ''contact'', rq_Token = ''t'', rq_ContentType = ''application/x-www-form-urlencoded'', rq_UserAgent = ''x'',
     rq_Origin = ''https://example.com/hook'', rq_Referer = [], rq_Body = [], rq_Multipart = Inl (Plain ''no form''),
     rq_PostArgs = [(''name'', ''Ann''), (''cf-turnstile-response'', ''ok'')], rq_ClientIP = ''10.0.0.1''\<rparr>"

definition user_one :: user where
  "user_one = \<lparr>us_ID = 1, us_Email = ''a@x'', us_PasswordHash = ''password1'', us_PasswordChangeRequired = False, us_LastLoginAt = None\<rparr>"

definition session_one :: active_session where
  "session_one = \<lparr>as_TokenHash = ''tok'', as_UserID = 1, as_ExpiresAt = 5000, as_CreatedAt = 5\<rparr>"

definition db_signed_in :: database where
  "db_signed_in = empty_db\<lparr>seqs := (\<lambda>_. 1), users := [user_one], sessions := [session_one]\<rparr>"

definition manager_session :: session where
  "manager_session = \<lparr>ss_IsAuthenticated = True, ss_UserID = Some 1, ss_Set = (\<lambda>_. None), ss_SetCookie = (\<lambda>_. Some ''p.s'')\<rparr>"

definition request_one :: admin_request where
  "request_one = \<lparr>ar_Form = (\<lambda>k. if k = ''email'' then ''A@x'' else if k = ''password'' then ''password1'' else []),
     ar_Param = (\<lambda>_. []), ar_Query = (\<lambda>_. []), ar_Header = (\<lambda>_. []), ar_Cookie = (\<lambda>_. ''tok''), ar_BaseURL = ''https://example.com'',
     ar_DB = Connected\<rparr>"


lemma world_of_db: "db (world_of d) = d"
  by (simp add: world_of_def)

lemma post_one_ip: "rq_ClientIP post_one = ''10.0.0.1''"
  by (simp add: post_one_def)

section \<open>The public endpoint\<close>

text \<open>C19: A post changes the database only by storing a submission of the form with that slug, on the form's
  token, from an allowed origin and, when the form has a captcha, after the service accepted the
  token for that secret, this address, the submit action and a host of the form.\<close>
theorem PublicFormSubmission_authorised:
  assumes "PublicFormSubmission L V cfg manager r w = (x, w')" "db w' \<noteq> db w"
  shows "\<exists>lf p payload files row w1 w2. lf_Form lf \<in> set (forms (db w)) \<and> fm_Slug (lf_Form lf) = trim_space (rq_Slug r)
    \<and> rq_Token r \<noteq> [] \<and> rq_Token r = fm_Token (lf_Form lf) \<and> form_allows L (lf_Form lf) (getRequestOrigin L r)
    \<and> extractSubmissionPayload L cfg r = (p, None)
    \<and> (fm_CaptchaProfileID (lf_Form lf) \<noteq> None \<longrightarrow>
         (\<exists>profile token. lf_CaptchaProfile lf = Some profile \<and> fst (extractCaptchaToken p) = Some token
            \<and> captcha_accepts L V (cp_SecretKey profile) token (rq_ClientIP r) (lf_Form lf)))
    \<and> payload = AList.delete ''_error_url'' (AList.delete ''_success_url'' (snd (extractCaptchaToken p)))
    \<and> uploadedFiles L r lf = Inr files \<and> db w1 = db w
    \<and> CreateSubmissionWithLimits L lf payload (rq_UserAgent r) (cf_DataDirectory cfg) files (cf_MaxUploadStorageBytes cfg) w1 = (Inr row, w2)
    \<and> db w' = db w2"
proof -
  from assms obtain lf p su eu w1 where s: "publicForm L r w = (Inr (Inr lf), w1)" "db w1 = db w"
    "extractSubmissionPayload L cfg r = (p, None)" "accept_submission L V cfg r lf p su eu w1 = (x, w')"
    by (rule PublicFormSubmission_stores)
  from accept_submission_stores [OF s(4)] s(2) assms(2) obtain q files row w2 w3 where a: "verifyCaptcha L V r lf p w1 = (Inr q, w2)"
    "db w2 = db w1" "uploadedFiles L r lf = Inr files" "db w' = db w3"
    "CreateSubmissionWithLimits L lf (AList.delete ''_error_url'' (AList.delete ''_success_url'' q)) (rq_UserAgent r) (cf_DataDirectory cfg)
       files (cf_MaxUploadStorageBytes cfg) w2 = (Inr row, w3)" by auto
  from publicForm_InrD [OF s(1)] verifyCaptcha_InrD [OF a(1)] s a show ?thesis by metis
qed

theorem PublicFormSubmission_authorised_witness:
  "\<exists>(lf :: loaded_form) p profile token. lf_Form lf \<in> set (forms db_captcha) \<and> extractSubmissionPayload plain_lib config_one post_one = (p, None)
     \<and> lf_CaptchaProfile lf = Some profile \<and> fst (extractCaptchaToken p) = Some token
     \<and> captcha_accepts plain_lib turnstile_one (cp_SecretKey profile) token ''10.0.0.1'' (lf_Form lf)"
proof -
  let ?run = "PublicFormSubmission plain_lib turnstile_one config_one Connected post_one (world_of db_captcha)"
  obtain x w' where r: "?run = (x, w')" by force
  have "length (submissions (db (snd ?run))) = 2" by code_simp
  moreover have "length (submissions (db (world_of db_captcha))) = 1" by code_simp
  ultimately have "db w' \<noteq> db (world_of db_captcha)" using r by force
  from PublicFormSubmission_authorised [OF r this] show ?thesis
  proof (elim exE conjE)
    fix lf :: loaded_form and p
    assume f: "lf_Form lf \<in> set (forms (db (world_of db_captcha)))" and e: "extractSubmissionPayload plain_lib config_one post_one = (p, None)"
      and c: "fm_CaptchaProfileID (lf_Form lf) \<noteq> None \<longrightarrow> (\<exists>profile token. lf_CaptchaProfile lf = Some profile
        \<and> fst (extractCaptchaToken p) = Some token
        \<and> captcha_accepts plain_lib turnstile_one (cp_SecretKey profile) token (rq_ClientIP post_one) (lf_Form lf))"
    from f have "lf_Form lf \<in> set (forms db_captcha)" "fm_CaptchaProfileID (lf_Form lf) \<noteq> None"
      by (auto simp: world_of_db db_captcha_def)
    with e c show ?thesis unfolding post_one_ip by blast
  qed
qed





section \<open>Sessions and accounts\<close>

text \<open>C21: The guard passes a request on only with an authenticated session of an existing user whose token is
  stored and has not expired, and changes nothing.\<close>
theorem RequireSession_guards:
  assumes "RequireSession L C cfg session r w = (Inr (e, Inr PassOn), w')"
  shows "e = SessionKept \<and> ss_IsAuthenticated session \<and> db w' = db w
    \<and> (\<exists>u\<in>set (users (db w)). ss_UserID session = Some (us_ID u)
         \<and> (\<exists>s\<in>set (sessions (db w)). as_TokenHash s = sessionTokenHash L (ar_Cookie r (SessionCookieName C cfg))
              \<and> as_UserID s = us_ID u \<and> clock w < as_ExpiresAt s))"
proof -
  from RequireSession_result [OF assms] obtain u now where r: "e = SessionKept" "ss_IsAuthenticated session" "db w' = db w"
    "u \<in> set (users (db w))" "ss_UserID session = Some (us_ID u)" "clock w \<le> now"
    "active L (us_ID u) (ar_Cookie r (SessionCookieName C cfg)) now (db w)" by blast
  then have "\<exists>s\<in>set (sessions (db w)). as_TokenHash s = sessionTokenHash L (ar_Cookie r (SessionCookieName C cfg))
      \<and> as_UserID s = us_ID u \<and> clock w < as_ExpiresAt s"
    unfolding active_def session_live_def by force
  with r show ?thesis by blast
qed

theorem RequireSession_guards_witness:
  "\<exists>u\<in>set (users db_signed_in). ss_UserID manager_session = Some (us_ID u)
     \<and> (\<exists>s\<in>set (sessions db_signed_in). as_UserID s = us_ID u \<and> 1000 < as_ExpiresAt s)"
proof -
  let ?run = "RequireSession plain_lib cartridge_one config_one manager_session request_one (world_of db_signed_in)"
  have "fst ?run = Inr (SessionKept, Inr PassOn)" by code_simp
  then obtain w' where "?run = (Inr (SessionKept, Inr PassOn), w')" by (cases ?run) auto
  from RequireSession_guards [OF this] show ?thesis by (auto simp: world_of_def)
qed

text \<open>C22: Signing in starts a session only for the user with that address whose password was given, and only
  once the session's token is stored for that user with the token's own expiry.\<close>
theorem AdminLoginSubmit_signs_in:
  assumes "AdminLoginSubmit L base64 expires_at session r w = (Inr (SessionSet i, out), w')"
  shows "\<exists>v token expires s. v \<in> set (users (db w)) \<and> us_ID v = i
    \<and> us_Email v = normalizeEmail L (normalizeEmail L (ar_Form r ''email''))
    \<and> passwordMatches L (us_PasswordHash v) (ar_Form r ''password'')
    \<and> session = Some s \<and> ss_SetCookie s i = Some token
    \<and> (\<exists>x\<in>set (sessions (db w')). as_UserID x = i \<and> as_TokenHash x = sessionTokenHash L (trim_space token) \<and> as_ExpiresAt x = expires)
    \<and> SessionExpiresAt base64 expires_at token = Inr expires"
  using assms by (rule AdminLoginSubmit_result)

theorem AdminLoginSubmit_signs_in_witness:
  "\<exists>v\<in>set (users db_signed_in). us_Email v = ''a@x'' \<and> passwordMatches plain_lib (us_PasswordHash v) ''password1''"
proof -
  let ?run = "AdminLoginSubmit plain_lib Some (\<lambda>_. Some (Some 9000)) (Some manager_session) request_one (world_of db_signed_in)"
  have "(case fst ?run of Inr (SessionSet i, _) \<Rightarrow> i = 1 | _ \<Rightarrow> False)" by code_simp
  then obtain out w' where r: "?run = (Inr (SessionSet 1, out), w')"
    by (cases ?run) (auto split: sum.splits prod.splits session_effect.splits)
  have "normalizeEmail plain_lib (normalizeEmail plain_lib (ar_Form request_one ''email'')) = ''a@x''"
    "ar_Form request_one ''password'' = ''password1''" by code_simp+
  with AdminLoginSubmit_signs_in [OF r] show ?thesis by (auto simp: world_of_def)
qed

text \<open>C23: Changing a password takes the current one, stores the hash of a different one of at least eight
  characters, ends every session of the account, and locks out a login that had already
  authenticated with the old hash: its session is not registered.\<close>
theorem ChangePassword_locks_out:
  assumes "ChangePassword L email current new w = (Inr (), w')" "db_ok (db w)"
  shows "\<exists>u hash. u \<in> set (users (db w)) \<and> us_Email u = normalizeEmail L email \<and> passwordMatches L (us_PasswordHash u) current
    \<and> \<not> passwordMatches L (us_PasswordHash u) new \<and> 8 \<le> length new \<and> lib_bcrypt L new = Inr hash
    \<and> db w' = (db w)\<lparr>users := update_where (\<lambda>x. us_ID x = us_ID u)
          (\<lambda>x. x\<lparr>us_PasswordHash := hash, us_PasswordChangeRequired := False\<rparr>) (users (db w)),
        sessions := delete_where (\<lambda>s. as_UserID s = us_ID u) (sessions (db w))\<rparr>
    \<and> (\<forall>token now. \<not> active L (us_ID u) token now (db w'))
    \<and> (hash \<noteq> us_PasswordHash u \<longrightarrow> (\<forall>token expires v. db v = db w' \<longrightarrow>
          (\<exists>e v'. RegisterSession L (Some u) token expires v = (Inl e, v') \<and> db v' = db w')))"
proof -
  from ChangePassword_result [OF assms(1)] obtain u hash where c: "u \<in> set (users (db w))" "us_Email u = normalizeEmail L email" "8 \<le> length new"
    "lib_bcrypt L new = Inr hash" "passwordMatches L (us_PasswordHash u) current" "\<not> passwordMatches L (us_PasswordHash u) new"
    "db w' = (db w)\<lparr>users := update_where (\<lambda>x. us_ID x = us_ID u)
          (\<lambda>x. x\<lparr>us_PasswordHash := hash, us_PasswordChangeRequired := False\<rparr>) (users (db w)),
        sessions := delete_where (\<lambda>s. as_UserID s = us_ID u) (sessions (db w))\<rparr>" by blast
  have ended: "\<not> active L (us_ID u) token now (db w')" for token now
    by (simp add: c(7) active_def session_live_def delete_where_def)
  have new: "us_PasswordHash x = hash" if "x \<in> set (users (db w'))" "us_ID x = us_ID u" for x
    using that by (auto simp: c(7) set_update_where split: if_splits)
  have "\<exists>e v'. RegisterSession L (Some u) token expires v = (Inl e, v') \<and> db v' = db w'"
    if "hash \<noteq> us_PasswordHash u" "db v = db w'" for token expires v
  proof -
    obtain x v' where v: "RegisterSession L (Some u) token expires v = (x, v')" by force
    have "\<forall>y\<in>set (users (db v)). us_ID y = us_ID u \<longrightarrow> us_PasswordHash y \<noteq> us_PasswordHash u"
      using that new by auto
    from stale_login_rejected [OF v this] that(2) v show ?thesis by auto
  qed
  with c ended show ?thesis by blast
qed

theorem ChangePassword_locks_out_witness:
  "\<exists>u w'. u \<in> set (users db_signed_in) \<and> fst (ChangePassword plain_lib ''a@x'' ''password1'' ''password2'' (world_of db_signed_in)) = Inr ()
     \<and> w' = snd (ChangePassword plain_lib ''a@x'' ''password1'' ''password2'' (world_of db_signed_in))
     \<and> (\<forall>token now. \<not> active plain_lib (us_ID u) token now (db w'))"
proof -
  let ?run = "ChangePassword plain_lib ''a@x'' ''password1'' ''password2'' (world_of db_signed_in)"
  have ok: "fst ?run = Inr ()" by code_simp
  then obtain w' where r: "?run = (Inr (), w')" by (cases ?run) auto
  have "db_ok (db (world_of db_signed_in))" by code_simp
  from ChangePassword_locks_out [OF r this] ok r show ?thesis by (auto simp: world_of_def)
qed

end
