(* ===== verification/Embed.thy ===== *)
theory Embed
  imports Form_Ops Turnstile
begin

text \<open>
  The markup of \<open>internal/forms/embed/embed.go\<close>: what a site owner pastes. The HTML tokenizer and
  the text of a token are parameters (package \<open>golang.org/x/net/html\<close>): for a source, the raw text
  and the token of each step, and the error that ended it, \<open>None\<close> for \<open>io.EOF\<close>.
\<close>

section \<open>Tokens\<close>

record htmllib =
  hl_scan :: "string \<Rightarrow> (string \<times> html_token) list \<times> err option"
  hl_open :: "string \<Rightarrow> (string \<times> string) list \<Rightarrow> string"

text \<open>The raw texts are consecutive pieces of the source.\<close>

definition scan_ok :: "htmllib \<Rightarrow> bool" where
  "scan_ok H \<longleftrightarrow> (\<forall>source. prefix (concat (map fst (fst (hl_scan H source)))) source)"

text \<open>\<open>EqualFold\<close> of a key against a name with a \<open>k\<close>, to which U+212A folds too.\<close>

definition key_fold :: "string \<Rightarrow> string \<Rightarrow> bool" where
  "key_fold key name \<longleftrightarrow> equal_fold (replace_all [CHR 0xE2, CHR 0x84, CHR 0xAA] ''k'' key) name"

fun setAttribute :: "string \<Rightarrow> string \<Rightarrow> (string \<times> string) list \<Rightarrow> (string \<times> string) list" where
  "setAttribute name v [] = [(name, v)]"
| "setAttribute name v ((key, old) # attrs) =
     (if key_fold key name then (name, v) # attrs else (key, old) # setAttribute name v attrs)"

section \<open>The form tag\<close>

record embed_options =
  eo_ShowToken :: bool
  eo_BaseURL :: string

record embed_result =
  er_Action :: string
  er_HTML :: string
  er_Redacted :: bool
  er_Warning :: string

definition embedFormAction :: "string \<Rightarrow> string \<Rightarrow> string \<Rightarrow> string" where
  "embedFormAction baseURL slug0 token0 =
     (let slug = (if trim_space slug0 = [] then ''your-form'' else trim_space slug0);
          token = (if trim_space token0 = [] then ''YOUR_FORM_TOKEN'' else trim_space token0)
      in rev (dropWhile (\<lambda>c. c = slash) (rev baseURL)) @ ''/forms/'' @ PathEscape slug @ ''/submit?token='' @ QueryEscape token)"

text \<open>The attributes both kinds of markup set on the form tag.\<close>

definition form_attributes :: "form \<Rightarrow> string \<Rightarrow> (string \<times> string) list \<Rightarrow> (string \<times> string) list" where
  "form_attributes f action attrs =
     (let a = setAttribute ''data-form-id'' (dec_digits (fm_ID f)) (setAttribute ''method'' ''POST'' (setAttribute ''action'' action attrs));
          b = (if fm_PublicID f \<noteq> [] then setAttribute ''data-form-public-id'' (fm_PublicID f) a else a)
      in if fm_Token f \<noteq> [] then setAttribute ''data-form-token'' (fm_Token f) b else b)"

definition default_body :: string where
  "default_body =
     newline @ ''  <label>Name'' @ newline @ ''    <input type=\"text\" name=\"name\" required>'' @ newline @ ''  </label>''
     @ newline @ ''  <label>Email'' @ newline @ ''    <input type=\"email\" name=\"email\" required>'' @ newline @ ''  </label>''
     @ newline @ ''  <label>Message'' @ newline @ ''    <textarea name=\"message\" rows=\"4\"></textarea>'' @ newline @ ''  </label>''
     @ newline @ ''  <button type=\"submit\">Send</button>'' @ newline @ ''</form>''"

definition defaultMarkup :: "htmllib \<Rightarrow> form \<Rightarrow> string \<Rightarrow> string" where
  "defaultMarkup H f action = hl_open H ''form'' (form_attributes f action []) @ default_body"

fun first_form_tag :: "(string \<times> html_token) list \<Rightarrow> nat \<Rightarrow> (nat \<times> nat \<times> string \<times> (string \<times> string) list) option" where
  "first_form_tag [] offset = None"
| "first_form_tag ((raw, token) # later) offset =
     (case token of
        StartTag name attrs \<Rightarrow>
          if equal_fold name ''form'' then Some (offset, offset + length raw, name, attrs)
          else first_form_tag later (offset + length raw)
      | _ \<Rightarrow> first_form_tag later (offset + length raw))"

definition firstFormTag :: "htmllib \<Rightarrow> string \<Rightarrow> err + (nat \<times> nat \<times> string \<times> (string \<times> string) list)" where
  "firstFormTag H source =
     (case hl_scan H source of (items, failed) \<Rightarrow>
      case first_form_tag items 0 of
        Some tag \<Rightarrow> Inr tag
      | None \<Rightarrow> (case failed of
                   Some e \<Rightarrow> Inl (Wrap ''parse generated HTML'' e)
                 | None \<Rightarrow> Inl (Plain ''form tag not found in generated HTML'')))"

definition rewriteForm :: "htmllib \<Rightarrow> string \<Rightarrow> form \<Rightarrow> string \<Rightarrow> string \<times> string" where
  "rewriteForm H source f action =
     (case firstFormTag H source of
        Inl e \<Rightarrow> (source, err_text e)
      | Inr (start, stop, name, attrs) \<Rightarrow>
          (take start source @ hl_open H name (form_attributes f action attrs) @ drop stop source, []))"

section \<open>Honeypot and captcha\<close>

definition honeypotMarkup :: string where
  "honeypotMarkup =
     ''  <label aria-hidden=\"true\" style=\"position:absolute;left:-9999px;width:1px;height:1px;overflow:hidden\">'' @ newline
     @ ''    Leave this field empty'' @ newline
     @ ''    <input type=\"text\" name=\"__mf_hp\" tabindex=\"-1\" autocomplete=\"off\">'' @ newline @ ''  </label>''"

fun has_named :: "string \<Rightarrow> (string \<times> html_token) list \<Rightarrow> bool" where
  "has_named fieldName [] = False"
| "has_named fieldName ((_, token) # later) =
     ((case token of
         StartTag _ attrs \<Rightarrow> list_ex (\<lambda>(key, v). equal_fold key ''name'' \<and> v = fieldName) attrs
       | SelfClosingTag _ attrs \<Rightarrow> list_ex (\<lambda>(key, v). equal_fold key ''name'' \<and> v = fieldName) attrs
       | _ \<Rightarrow> False) \<or> has_named fieldName later)"

definition hasNamedField :: "htmllib \<Rightarrow> string \<Rightarrow> string \<Rightarrow> bool" where
  "hasNamedField H source fieldName = has_named fieldName (fst (hl_scan H source))"

fun closing_offset :: "(string \<times> html_token) list \<Rightarrow> nat \<Rightarrow> nat option" where
  "closing_offset [] offset = None"
| "closing_offset ((raw, token) # later) offset =
     (case token of
        EndTag name \<Rightarrow> if equal_fold name ''form'' then Some offset else closing_offset later (offset + length raw)
      | _ \<Rightarrow> closing_offset later (offset + length raw))"

definition closingFormOffset :: "htmllib \<Rightarrow> string \<Rightarrow> nat option" where
  "closingFormOffset H source = closing_offset (fst (hl_scan H source)) 0"

text \<open>\<open>strings.TrimRight(s, "\n")\<close>, and a block put on lines of its own before an offset.\<close>

definition trim_newlines :: "string \<Rightarrow> string" where
  "trim_newlines s = rev (dropWhile (\<lambda>c. c = CHR 0x0A) (rev s))"

definition insert_block :: "string \<Rightarrow> nat \<Rightarrow> string \<Rightarrow> string" where
  "insert_block source position block =
     trim_newlines (take position source) @ newline @ block @ newline @ drop position source"

definition addHoneypot :: "htmllib \<Rightarrow> string \<Rightarrow> string" where
  "addHoneypot H source =
     (if hasNamedField H source HoneypotField then source
      else (case closingFormOffset H source of
              Some position \<Rightarrow> insert_block source position honeypotMarkup
            | None \<Rightarrow> source))"

definition turnstileFor :: "htmllib \<Rightarrow> loaded_form \<Rightarrow> (string \<times> string) option" where
  "turnstileFor H lf =
     (case (fm_CaptchaProfileID (lf_Form lf), lf_CaptchaProfile lf) of
        (Some _, Some profile) \<Rightarrow>
          Some (''  <div class=\"miniform-captcha-block\">''
                @ hl_open H ''div'' [(''class'', ''cf-turnstile''), (''data-sitekey'', trim_space (cp_SiteKey profile)),
                                     (''data-action'', TurnstileAction)] @ ''</div>'',
                ''<script src=\"https://challenges.cloudflare.com/turnstile/v0/api.js\" async defer></script>'')
      | _ \<Rightarrow> None)"

definition appendBlock :: "string \<Rightarrow> string \<Rightarrow> string" where
  "appendBlock source block =
     (if trim_space block = [] then source else trim_newlines source @ newline @ trim_space block)"

definition addTurnstile :: "htmllib \<Rightarrow> string \<Rightarrow> (string \<times> string) option \<Rightarrow> string" where
  "addTurnstile H source captcha =
     (case captcha of
        None \<Rightarrow> source
      | Some (widget, script) \<Rightarrow>
          appendBlock (case closingFormOffset H source of
                         Some position \<Rightarrow> insert_block source position widget
                       | None \<Rightarrow> appendBlock source widget) script)"

definition Build :: "htmllib \<Rightarrow> loaded_form option \<Rightarrow> embed_options \<Rightarrow> embed_result" where
  "Build H given options =
     (case given of
        None \<Rightarrow> \<lparr>er_Action = [], er_HTML = [], er_Redacted = False, er_Warning = ''form context missing''\<rparr>
      | Some lf0 \<Rightarrow>
          let f = (if eo_ShowToken options then lf_Form lf0 else (lf_Form lf0)\<lparr>fm_Token := ''YOUR_FORM_TOKEN''\<rparr>);
              action = embedFormAction (eo_BaseURL options) (fm_Slug f) (fm_Token f);
              (markup, warning) = (if trim_space (fm_GeneratedHTML f) = [] then (defaultMarkup H f action, [])
                                   else rewriteForm H (fm_GeneratedHTML f) f action)
          in \<lparr>er_Action = action, er_HTML = addTurnstile H (addHoneypot H markup) (turnstileFor H (lf0\<lparr>lf_Form := f\<rparr>)),
              er_Redacted = \<not> eo_ShowToken options, er_Warning = warning\<rparr>)"

section \<open>What the markup promises\<close>

lemma setAttribute_value: "\<exists>pre post. setAttribute name v attrs = pre @ (name, v) # post
    \<and> list_all (\<lambda>a. \<not> key_fold (fst a) name) pre \<and> prefix pre attrs \<and> suffix post attrs"
proof (induction attrs)
  case Nil
  show ?case by (intro exI [of _ "[]"]) simp
next
  case (Cons a attrs)
  obtain key old where a: "a = (key, old)" by (cases a)
  show ?case
  proof (cases "key_fold key name")
    case True
    then show ?thesis by (intro exI [of _ "[]"] exI [of _ attrs]) (simp add: a suffix_def)
  next
    case False
    from Cons.IH obtain pre post where "setAttribute name v attrs = pre @ (name, v) # post"
      "list_all (\<lambda>a. \<not> key_fold (fst a) name) pre" "prefix pre attrs" "suffix post attrs" by blast
    with False show ?thesis by (intro exI [of _ "a # pre"] exI [of _ post]) (auto simp: a suffix_ConsI)
  qed
qed

lemma setAttribute_others:
  "key \<noteq> name \<Longrightarrow> \<not> key_fold key name \<Longrightarrow> filter (\<lambda>a. fst a = key) (setAttribute name v attrs) = filter (\<lambda>a. fst a = key) attrs"
  by (induction attrs) auto

text \<open>A tag that is found is a piece of the source, where its offsets say.\<close>

lemma first_form_tag_at:
  "first_form_tag items offset = Some (start, stop, name, attrs) \<Longrightarrow>
   \<exists>before raw later. items = before @ (raw, StartTag name attrs) # later \<and> equal_fold name ''form''
     \<and> start = offset + length (concat (map fst before)) \<and> stop = start + length raw
     \<and> (\<forall>x\<in>set before. \<forall>n a. snd x = StartTag n a \<longrightarrow> \<not> equal_fold n ''form'')"
proof (induction items arbitrary: offset)
  case (Cons item later)
  obtain raw token where item: "item = (raw, token)" by (cases item)
  show ?case
  proof (cases "\<exists>n a. token = StartTag n a \<and> equal_fold n ''form''")
    case True
    with Cons.prems item show ?thesis by - (rule exI [of _ "[]"], auto)
  next
    case False
    then have "first_form_tag later (offset + length raw) = Some (start, stop, name, attrs)"
      using Cons.prems item by (auto split: html_token.splits if_splits)
    from Cons.IH [OF this] obtain before r more' where h: "later = before @ (r, StartTag name attrs) # more'" "equal_fold name ''form''"
      "start = offset + length raw + length (concat (map fst before))" "stop = start + length r"
      "\<forall>x\<in>set before. \<forall>n a. snd x = StartTag n a \<longrightarrow> \<not> equal_fold n ''form''" by auto
    with False item show ?thesis by (intro exI [of _ "item # before"]) auto
  qed
qed simp

text \<open>Rewriting replaces that one tag and nothing else of the author's markup.\<close>

lemma rewriteForm_replaces:
  assumes "scan_ok H" "firstFormTag H source = Inr (start, stop, name, attrs)"
  shows "\<exists>before raw after. source = before @ raw @ after
    \<and> rewriteForm H source f action = (before @ hl_open H name (form_attributes f action attrs) @ after, [])
    \<and> (raw, StartTag name attrs) \<in> set (fst (hl_scan H source))"
proof -
  obtain items failed where s: "hl_scan H source = (items, failed)" by (cases "hl_scan H source")
  from assms(2) s have "first_form_tag items 0 = Some (start, stop, name, attrs)"
    by (auto simp: firstFormTag_def split: option.splits)
  from first_form_tag_at [OF this] obtain before raw later where
    i: "items = before @ (raw, StartTag name attrs) # later" "start = length (concat (map fst before))" "stop = start + length raw" by auto
  from assms(1) s obtain tail where "source = concat (map fst items) @ tail"
    unfolding scan_ok_def prefix_def by (metis fst_conv)
  then have src: "source = concat (map fst before) @ raw @ concat (map fst later) @ tail" by (simp add: i(1))
  have t: "take start source = concat (map fst before)" "drop stop source = concat (map fst later) @ tail"
    by (simp_all add: src i(2,3))
  have "rewriteForm H source f action
      = (concat (map fst before) @ hl_open H name (form_attributes f action attrs) @ (concat (map fst later) @ tail), [])"
    using assms(2) t by (simp add: rewriteForm_def)
  moreover have "(raw, StartTag name attrs) \<in> set (fst (hl_scan H source))" by (simp add: s i(1))
  ultimately show ?thesis using src by blast
qed

text \<open>Without \<open>ShowToken\<close> the result does not depend on the token.\<close>

lemma Build_hides_token:
  assumes "\<not> eo_ShowToken options"
  shows "Build H (Some (lf\<lparr>lf_Form := (lf_Form lf)\<lparr>fm_Token := t\<rparr>\<rparr>)) options = Build H (Some lf) options"
  using assms by (simp add: Build_def Let_def)

end
