(* ===== verification/Admin_Forms.thy ===== *)
theory Admin_Forms
  imports Handlers Embed
begin

text \<open>
  The handlers for forms and their notifications, \<open>internal/http/forms.go\<close> and
  \<open>internal/http/email_deliveries.go\<close>, with \<open>forms.List\<close>. What a template would show is a record;
  \<open>decode\<close> is the header decoder of package \<open>mime\<close> (\<open>None\<close>: an error). The editor never shows a stored
  webhook secret or header, and an update that leaves them out keeps them.
\<close>

section \<open>Views\<close>

record form_editor =
  fe_Error :: string
  fe_Title :: string
  fe_Form :: "loaded_form option"
  fe_IsEdit :: bool
  fe_Mailers :: "mailer_profile list"
  fe_Captchas :: "captcha_profile list"
  fe_DefaultSlug :: string
  fe_FormName :: string
  fe_TemplateID :: string
  fe_PreviewHTML :: string
  fe_SelectedMailer :: nat
  fe_SelectedCaptcha :: nat
  fe_Email :: "email_delivery option"
  fe_Webhook :: "webhook_delivery option"
  fe_EmailRecipient :: string
  fe_EmailFormat :: string
  fe_EmailName :: string
  fe_EmailRecipientSource :: string
  fe_EmailReplyToSource :: string
  fe_EmailReplyTo :: string
  fe_EmailSubject :: string
  fe_EmailText :: string
  fe_EmailHTML :: string
  fe_HasSecret :: bool
  fe_HasHeaders :: bool
  fe_ClearSecret :: bool
  fe_ClearHeaders :: bool

record form_page =
  fv_Form :: loaded_form
  fv_Submissions :: "submission list"
  fv_Endpoint :: string
  fv_Token :: string
  fv_WebhookEvents :: "delivery_event list"
  fv_EmailEvents :: "email_event list"
  fv_EnabledEmailCount :: nat
  fv_EmailRecipient :: string
  fv_FormCode :: string
  fv_FormCodeWarning :: string

record email_editor =
  ee_Error :: string
  ee_Title :: string
  ee_Form :: loaded_form
  ee_Delivery :: email_delivery
  ee_IsEdit :: bool
  ee_SelectedMailer :: nat
  ee_Mailers :: "mailer_profile list"
  ee_Subject :: string
  ee_Text :: string
  ee_HTML :: string
  ee_Submissions :: "submission list"

record email_preview =
  ev_SubmissionShown :: nat
  ev_From :: string
  ev_To :: "string list"
  ev_ReplyTo :: string
  ev_Rendered :: RenderedEmail

type_synonym listed_form = "form \<times> email_delivery list \<times> webhook_delivery option"

datatype form_view =
    FormList "listed_form list"
  | TemplateList "FormTemplate list"
  | FormEditor form_editor
  | FormPage form_page
  | EmailEditor email_editor
  | EmailPreview email_preview
  | EmailPreviewError string

section \<open>Helpers\<close>

definition DisplayEmailAddresses :: "(string \<Rightarrow> string option) \<Rightarrow> string \<Rightarrow> string" where
  "DisplayEmailAddresses decode v = (case decode v of None \<Rightarrow> v | Some s \<Rightarrow> s)"

definition displayEmailDelivery :: "(string \<Rightarrow> string option) \<Rightarrow> email_delivery \<Rightarrow> email_delivery" where
  "displayEmailDelivery decode d =
     d\<lparr>ed_Recipient := DisplayEmailAddresses decode (ed_Recipient d), ed_ReplyTo := DisplayEmailAddresses decode (ed_ReplyTo d)\<rparr>"

definition deliveryRecipient :: "email_delivery option \<Rightarrow> string" where
  "deliveryRecipient delivery = (case delivery of None \<Rightarrow> [] | Some d \<Rightarrow> ed_Recipient d)"

definition deliveryFormat :: "golib \<Rightarrow> email_delivery option \<Rightarrow> string" where
  "deliveryFormat L delivery =
     (case delivery of
        None \<Rightarrow> ''text''
      | Some d \<Rightarrow> (case NormalizeEmailFormat L (ed_Format d) of Inl _ \<Rightarrow> ''text'' | Inr format \<Rightarrow> format))"

definition exampleAction :: "string \<Rightarrow> string" where
  "exampleAction slug = ''/forms/'' @ (if trim_space slug = [] then ''your-form'' else slug) @ ''/submit?token=YOUR_FORM_TOKEN''"

definition formAction :: "string \<Rightarrow> string \<Rightarrow> string" where
  "formAction slug token =
     ''/forms/'' @ (if trim_space slug = [] then ''your-form'' else slug)
     @ ''/submit?token='' @ (if trim_space token = [] then ''YOUR_FORM_TOKEN'' else token)"

definition requestedForm :: "admin_request \<Rightarrow> loaded_form handler" where
  "requestedForm r = h_bind (h_check (requestedID r)) (\<lambda>i. or_404 (GetByID i))"

definition form_location :: "nat \<Rightarrow> string" where
  "form_location i = ''/admin/forms/'' @ dec_digits i"

section \<open>Parameters\<close>

definition createFormParams :: "admin_request \<Rightarrow> CreateParams" where
  "createFormParams r =
     \<lparr>cr_Name = ar_Form r ''name'', cr_Slug = ar_Form r ''slug'', cr_AllowedOrigins = ar_Form r ''allowed_origins'',
      cr_GeneratedHTML = ar_Form r ''generated_html'', cr_UploadsEnabled = checkbox r ''uploads_enabled'',
      cr_TemplateID = ar_Form r ''template_id'', cr_MailerProfileID = optionalID (ar_Form r ''mailer_profile_id''),
      cr_CaptchaProfileID = optionalID (ar_Form r ''captcha_profile_id''), cr_EmailName = ar_Form r ''email_name'',
      cr_EmailRecipientType = ar_Form r ''email_recipient_source'', cr_EmailRecipient = ar_Form r ''email_recipient'',
      cr_EmailReplyToType = ar_Form r ''email_reply_to_source'', cr_EmailReplyTo = ar_Form r ''email_reply_to'',
      cr_EmailSubject = ar_Form r ''email_subject'', cr_EmailFormat = ar_Form r ''email_format'',
      cr_EmailText = ar_Form r ''email_text'', cr_EmailHTML = ar_Form r ''email_html'',
      cr_EmailEnabled = checkbox r ''email_enabled'', cr_WebhookEnabled = checkbox r ''webhook_enabled'',
      cr_WebhookURL = ar_Form r ''webhook_url'', cr_WebhookSecret = ar_Form r ''webhook_secret'',
      cr_WebhookHeadersJSON = ar_Form r ''webhook_headers''\<rparr>"

text \<open>The slug and the markup stay: an empty slug means no change, and the markup is not marked for update.\<close>

definition updateFormParams :: "admin_request \<Rightarrow> nat \<Rightarrow> UpdateParams" where
  "updateFormParams r i =
     \<lparr>up_ID = i, up_Name = ar_Form r ''name'', up_Slug = [], up_AllowedOrigins = ar_Form r ''allowed_origins'', up_GeneratedHTML = [],
      up_MailerProfileID = optionalID (ar_Form r ''mailer_profile_id''),
      up_CaptchaProfileID = optionalID (ar_Form r ''captcha_profile_id''), up_UpdateGeneratedHTML = False,
      up_UploadsEnabled = checkbox r ''uploads_enabled'', up_EmailName = ar_Form r ''email_name'',
      up_EmailRecipientType = ar_Form r ''email_recipient_source'', up_EmailRecipient = ar_Form r ''email_recipient'',
      up_EmailReplyToType = ar_Form r ''email_reply_to_source'', up_EmailReplyTo = ar_Form r ''email_reply_to'',
      up_EmailSubject = ar_Form r ''email_subject'', up_EmailFormat = ar_Form r ''email_format'',
      up_EmailText = ar_Form r ''email_text'', up_EmailHTML = ar_Form r ''email_html'',
      up_EmailEnabled = checkbox r ''email_enabled'', up_WebhookEnabled = checkbox r ''webhook_enabled'',
      up_WebhookURL = ar_Form r ''webhook_url'', up_WebhookSecret = ar_Form r ''webhook_secret'',
      up_WebhookHeadersJSON = ar_Form r ''webhook_headers''\<rparr>"

definition draft_delivery :: "EmailDeliveryParams \<Rightarrow> email_delivery" where
  "draft_delivery p =
     \<lparr>ed_ID = 0, ed_FormID = 0, ed_Name = ep_Name p, ed_Enabled = ep_Enabled p, ed_MailerProfileID = ep_MailerProfileID p,
      ed_RecipientSource = ep_RecipientSource p, ed_Recipient = ep_Recipient p, ed_ReplyToSource = ep_ReplyToSource p,
      ed_ReplyTo = ep_ReplyTo p, ed_SubjectTemplate = ep_SubjectTemplate p, ed_Format = ep_Format p,
      ed_TextTemplate = ep_TextTemplate p, ed_HTMLTemplate = ep_HTMLTemplate p\<rparr>"

definition setDraftDeliveries :: "EmailDeliveryParams \<Rightarrow> bool \<Rightarrow> string \<Rightarrow> loaded_form \<Rightarrow> loaded_form" where
  "setDraftDeliveries p webhookEnabled webhookURL lf =
     lf\<lparr>lf_EmailDeliveries := [draft_delivery p],
        lf_WebhookDelivery := Some \<lparr>wd_ID = 0, wd_FormID = 0, wd_Enabled = webhookEnabled, wd_URL = webhookURL,
                                    wd_Secret = [], wd_HeadersJSON = []\<rparr>\<rparr>"

definition createFormDraft :: "CreateParams \<Rightarrow> loaded_form" where
  "createFormDraft p =
     setDraftDeliveries (emailParamsFromCreate p) (cr_WebhookEnabled p) (cr_WebhookURL p)
       \<lparr>lf_Form = \<lparr>fm_ID = 0, fm_PublicID = [], fm_Name = cr_Name p, fm_Slug = cr_Slug p, fm_Token = [],
            fm_AllowedOrigins = cr_AllowedOrigins p, fm_GeneratedHTML = cr_GeneratedHTML p,
            fm_UploadsEnabled = cr_UploadsEnabled p, fm_CaptchaProfileID = cr_CaptchaProfileID p, fm_CreatedAt = 0\<rparr>,
        lf_EmailDeliveries = [], lf_Mailers = [], lf_WebhookDelivery = None, lf_CaptchaProfile = None\<rparr>"

definition updateFormDraft :: "loaded_form \<Rightarrow> UpdateParams \<Rightarrow> loaded_form" where
  "updateFormDraft lf p =
     setDraftDeliveries (emailParamsFromUpdate p) (up_WebhookEnabled p) (up_WebhookURL p)
       (lf\<lparr>lf_Form := (lf_Form lf)\<lparr>fm_Name := up_Name p, fm_AllowedOrigins := up_AllowedOrigins p,
             fm_UploadsEnabled := up_UploadsEnabled p, fm_CaptchaProfileID := up_CaptchaProfileID p\<rparr>\<rparr>)"

section \<open>The form editor\<close>

definition hide_hook :: "webhook_delivery \<Rightarrow> webhook_delivery" where
  "hide_hook h = h\<lparr>wd_Secret := [], wd_HeadersJSON := []\<rparr>"

definition safe_form :: "loaded_form \<Rightarrow> loaded_form" where
  "safe_form lf = lf\<lparr>lf_WebhookDelivery := map_option hide_hook (lf_WebhookDelivery lf)\<rparr>"

text \<open>\<open>formEditorSecrets\<close>: what is stored, and what the request asks to clear.\<close>

record formEditorSecrets =
  fs_hasSecret :: bool
  fs_hasHeaders :: bool
  fs_clearSecret :: bool
  fs_clearHeaders :: bool

definition no_secrets :: formEditorSecrets where
  "no_secrets = \<lparr>fs_hasSecret = False, fs_hasHeaders = False, fs_clearSecret = False, fs_clearHeaders = False\<rparr>"

definition stored_secrets :: "loaded_form \<Rightarrow> formEditorSecrets" where
  "stored_secrets lf =
     no_secrets\<lparr>fs_hasSecret := (case lf_WebhookDelivery lf of None \<Rightarrow> False | Some h \<Rightarrow> wd_Secret h \<noteq> []),
                fs_hasHeaders := (case lf_WebhookDelivery lf of None \<Rightarrow> False | Some h \<Rightarrow> wd_HeadersJSON h \<noteq> [])\<rparr>"

text \<open>The preview: the form's markup or the template's, and the blank template where there is none.\<close>

definition preview_html :: "loaded_form option \<Rightarrow> FormTemplate option \<Rightarrow> bool \<Rightarrow> string" where
  "preview_html form template isEdit =
     (let own = (case form of None \<Rightarrow> [] | Some lf \<Rightarrow> fm_GeneratedHTML (lf_Form lf));
          preview = (case template of
                       Some t \<Rightarrow> if \<not> isEdit then RenderHTML (Some t) (exampleAction (ft_Slug t)) else own
                     | None \<Rightarrow> own)
      in if trim_space preview = []
         then (case GetTemplateByID ''blank'' of
                 None \<Rightarrow> preview
               | Some blank \<Rightarrow>
                   RenderHTML (Some blank) (case form of
                     None \<Rightarrow> exampleAction []
                   | Some lf \<Rightarrow> formAction (fm_Slug (lf_Form lf)) (fm_Token (lf_Form lf))))
         else preview)"

definition editor_view ::
  "golib \<Rightarrow> (string \<Rightarrow> string option) \<Rightarrow> mailer_profile list \<Rightarrow> captcha_profile list \<Rightarrow> loaded_form option \<Rightarrow> FormTemplate option
   \<Rightarrow> string \<Rightarrow> formEditorSecrets \<Rightarrow> form_editor" where
  "editor_view L decode profiles captchaProfiles form0 template message secrets =
     (let form = map_option safe_form form0;
          isEdit = (case form of None \<Rightarrow> False | Some lf \<Rightarrow> fm_ID (lf_Form lf) \<noteq> 0);
          email = map_option (displayEmailDelivery decode) (PrimaryEmailDelivery form);
          webhook = (case form of None \<Rightarrow> None | Some lf \<Rightarrow> lf_WebhookDelivery lf)
      in \<lparr>fe_Error = message, fe_Title = (if isEdit then ''Edit endpoint'' else ''Create endpoint''), fe_Form = form, fe_IsEdit = isEdit,
          fe_Mailers = profiles, fe_Captchas = captchaProfiles,
          fe_DefaultSlug = (case form of
             Some lf \<Rightarrow> fm_Slug (lf_Form lf)
           | None \<Rightarrow> (case template of Some t \<Rightarrow> if ft_Slug t \<noteq> [] then ft_Slug t else ''new-form'' | None \<Rightarrow> ''new-form'')),
          fe_FormName = (case (form, template) of (None, Some t) \<Rightarrow> ft_Name t | _ \<Rightarrow> []),
          fe_TemplateID = (case template of Some t \<Rightarrow> if \<not> isEdit then ft_ID t else [] | None \<Rightarrow> []),
          fe_PreviewHTML = preview_html form template isEdit,
          fe_SelectedMailer = (case email of None \<Rightarrow> 0 | Some d \<Rightarrow> (case ed_MailerProfileID d of None \<Rightarrow> 0 | Some i \<Rightarrow> i)),
          fe_SelectedCaptcha = (case form of None \<Rightarrow> 0 | Some lf \<Rightarrow> (case fm_CaptchaProfileID (lf_Form lf) of None \<Rightarrow> 0 | Some i \<Rightarrow> i)),
          fe_Email = email, fe_Webhook = webhook,
          fe_EmailRecipient = deliveryRecipient email, fe_EmailFormat = deliveryFormat L email,
          fe_EmailName = (case email of None \<Rightarrow> DefaultEmailDeliveryName | Some d \<Rightarrow> ed_Name d),
          fe_EmailRecipientSource = (case email of None \<Rightarrow> ''static'' | Some d \<Rightarrow> ed_RecipientSource d),
          fe_EmailReplyToSource = (case email of None \<Rightarrow> ''none'' | Some d \<Rightarrow> ed_ReplyToSource d),
          fe_EmailReplyTo = (case email of None \<Rightarrow> [] | Some d \<Rightarrow> ed_ReplyTo d),
          fe_EmailSubject = (case email of None \<Rightarrow> DefaultEmailSubject | Some d \<Rightarrow> EffectiveEmailSubject d),
          fe_EmailText = (case email of None \<Rightarrow> DefaultEmailText | Some d \<Rightarrow> EffectiveEmailText d),
          fe_EmailHTML = (case email of None \<Rightarrow> DefaultEmailHTML | Some d \<Rightarrow> EffectiveEmailHTML d),
          fe_HasSecret = fs_hasSecret secrets, fe_HasHeaders = fs_hasHeaders secrets,
          fe_ClearSecret = fs_clearSecret secrets, fe_ClearHeaders = fs_clearHeaders secrets\<rparr>)"

definition renderFormEditor ::
  "golib \<Rightarrow> (string \<Rightarrow> string option) \<Rightarrow> loaded_form option \<Rightarrow> FormTemplate option \<Rightarrow> string \<Rightarrow> formEditorSecrets \<Rightarrow> form_view reply handler" where
  "renderFormEditor L decode form template message secrets =
     h_bind (or_500 ListMailerProfiles) (\<lambda>profiles.
     h_bind (or_500 ListCaptchaProfiles) (\<lambda>captchaProfiles.
     h_ret (Show 200 (FormEditor (editor_view L decode profiles captchaProfiles form template message secrets)))))"

section \<open>The forms\<close>

text \<open>\<open>forms.List\<close>: by name; the two preloads only happen when there is a form.\<close>

definition forms_List :: "listed_form list db_prog" where
  "forms_List = wrap_err ''list forms''
     (bnd (query (\<lambda>d. sort_key fm_Name (forms d))) (\<lambda>fs.
      if fs = [] then ret []
      else bnd (query email_deliveries) (\<lambda>es. bnd (query webhook_deliveries) (\<lambda>hs.
           ret (map (\<lambda>f. (f, filter (\<lambda>e. ed_FormID e = fm_ID f) es, find (\<lambda>h. wd_FormID h = fm_ID f) hs)) fs)))))"

definition AdminFormsIndex :: "admin_request \<Rightarrow> form_view reply handler" where
  "AdminFormsIndex r = h_bind (request_db r) (\<lambda>_. h_bind (or_500 forms_List) (\<lambda>fs. h_ret (Show 200 (FormList fs))))"

definition AdminFormsNew :: "golib \<Rightarrow> (string \<Rightarrow> string option) \<Rightarrow> admin_request \<Rightarrow> form_view reply handler" where
  "AdminFormsNew L decode r =
     (let templateID = trim_space (ar_Query r ''template'') in
      if templateID = [] then h_ret (Show 200 (TemplateList GetFormTemplates))
      else (case GetTemplateByID templateID of
              None \<Rightarrow> h_ret (Goto ''/admin/forms/new'')
            | Some t \<Rightarrow> h_bind (request_db r) (\<lambda>_. renderFormEditor L decode None (Some t) [] no_secrets)))"

definition AdminFormsCreate :: "golib \<Rightarrow> (string \<Rightarrow> string option) \<Rightarrow> admin_request \<Rightarrow> form_view reply handler" where
  "AdminFormsCreate L decode r =
     h_bind (request_db r) (\<lambda>_.
     let template = GetTemplateByID (trim_space (ar_Form r ''template_id'')); params = createFormParams r in
     catch (Create L params) (\<lambda>created. case created of
       Inr f \<Rightarrow> h_ret (Goto (form_location (fm_ID f)))
     | Inl e \<Rightarrow>
         (case err_validation e of
            Some (_, message) \<Rightarrow> renderFormEditor L decode (Some (createFormDraft params)) template message no_secrets
          | None \<Rightarrow> h_fail ErrInternalServerError)))"

definition form_page_view ::
  "htmllib \<Rightarrow> (string \<Rightarrow> string option) \<Rightarrow> string \<Rightarrow> loaded_form \<Rightarrow> submission list \<Rightarrow> delivery_event list \<Rightarrow> email_event list \<Rightarrow> form_page" where
  "form_page_view H decode baseURL lf entries hooks mails =
     (let markup = Build H (Some lf) \<lparr>eo_ShowToken = True, eo_BaseURL = baseURL\<rparr>;
          shown = lf\<lparr>lf_EmailDeliveries := map (displayEmailDelivery decode) (lf_EmailDeliveries lf)\<rparr>
      in \<lparr>fv_Form = shown, fv_Submissions = entries, fv_Endpoint = ''/forms/'' @ fm_Slug (lf_Form lf) @ ''/submit'',
          fv_Token = fm_Token (lf_Form lf), fv_WebhookEvents = hooks, fv_EmailEvents = mails,
          fv_EnabledEmailCount = length (filter ed_Enabled (lf_EmailDeliveries lf)),
          fv_EmailRecipient = deliveryRecipient (PrimaryEmailDelivery (Some shown)),
          fv_FormCode = er_HTML markup, fv_FormCodeWarning = er_Warning markup\<rparr>)"

definition AdminFormShow :: "htmllib \<Rightarrow> (string \<Rightarrow> string option) \<Rightarrow> admin_request \<Rightarrow> form_view reply handler" where
  "AdminFormShow H decode r =
     h_bind (request_db r) (\<lambda>_. h_bind (requestedForm r) (\<lambda>lf.
     h_bind (or_500 (GetSubmissions (fm_ID (lf_Form lf)) 25)) (\<lambda>entries.
     h_bind (or_500 (GetWebhookEvents (fm_ID (lf_Form lf)) 20)) (\<lambda>hooks.
     h_bind (or_500 (GetEmailEvents (fm_ID (lf_Form lf)) 20)) (\<lambda>mails.
     h_ret (Show 200 (FormPage (form_page_view H decode (ar_BaseURL r) lf entries hooks mails))))))))"

definition AdminFormsEdit :: "golib \<Rightarrow> (string \<Rightarrow> string option) \<Rightarrow> admin_request \<Rightarrow> form_view reply handler" where
  "AdminFormsEdit L decode r =
     h_bind (request_db r) (\<lambda>_. h_bind (requestedForm r) (\<lambda>lf.
     renderFormEditor L decode (Some lf) None [] (stored_secrets lf)))"

text \<open>What an update stores of the webhook: what is left out stays, unless it is to be cleared.\<close>

definition kept_webhook :: "formEditorSecrets \<Rightarrow> webhook_delivery option \<Rightarrow> UpdateParams \<Rightarrow> UpdateParams" where
  "kept_webhook secrets hook p =
     (case hook of
        None \<Rightarrow> p
      | Some h \<Rightarrow>
          p\<lparr>up_WebhookSecret := (if fs_clearSecret secrets then []
               else if up_WebhookSecret p = [] then wd_Secret h else up_WebhookSecret p),
            up_WebhookHeadersJSON := (if fs_clearHeaders secrets then []
               else if trim_space (up_WebhookHeadersJSON p) = [] then wd_HeadersJSON h else up_WebhookHeadersJSON p)\<rparr>)"

definition requested_secrets :: "admin_request \<Rightarrow> loaded_form \<Rightarrow> formEditorSecrets" where
  "requested_secrets r lf =
     (stored_secrets lf)\<lparr>fs_clearSecret := checkbox r ''clear_webhook_secret'', fs_clearHeaders := checkbox r ''clear_webhook_headers''\<rparr>"

definition AdminFormsUpdate :: "golib \<Rightarrow> (string \<Rightarrow> string option) \<Rightarrow> admin_request \<Rightarrow> form_view reply handler" where
  "AdminFormsUpdate L decode r =
     h_bind (h_check (requestedID r)) (\<lambda>i. h_bind (request_db r) (\<lambda>_. h_bind (or_404 (GetByID i)) (\<lambda>lf.
     let secrets = requested_secrets r lf;
         params = kept_webhook secrets (lf_WebhookDelivery lf) (updateFormParams r i) in
     catch (Update L params) (\<lambda>updated. case updated of
       Inr f \<Rightarrow> h_ret (Goto (form_location (fm_ID (lf_Form f))))
     | Inl e \<Rightarrow>
         if err_is ErrRecordNotFound e then h_fail ErrNotFoundPage
         else (case err_validation e of
                 Some (_, message) \<Rightarrow> renderFormEditor L decode (Some (updateFormDraft lf params)) None message secrets
               | None \<Rightarrow> h_fail ErrInternalServerError)))))"

section \<open>Notifications\<close>

definition emailDeliveryParams :: "admin_request \<Rightarrow> nat \<Rightarrow> nat \<Rightarrow> EmailDeliveryParams" where
  "emailDeliveryParams r formID i =
     \<lparr>ep_ID = i, ep_FormID = formID, ep_Name = ar_Form r ''name'', ep_Enabled = checkbox r ''enabled'',
      ep_MailerProfileID = optionalID (ar_Form r ''mailer_profile_id''),
      ep_RecipientSource = ar_Form r ''recipient_source'', ep_Recipient = ar_Form r ''recipient'',
      ep_ReplyToSource = ar_Form r ''reply_to_source'', ep_ReplyTo = ar_Form r ''reply_to'',
      ep_SubjectTemplate = ar_Form r ''subject_template'', ep_Format = ar_Form r ''format'',
      ep_TextTemplate = ar_Form r ''text_template'', ep_HTMLTemplate = ar_Form r ''html_template''\<rparr>"

definition emailDeliveryDraft :: "EmailDeliveryParams \<Rightarrow> email_delivery" where
  "emailDeliveryDraft p = (draft_delivery p)\<lparr>ed_ID := ep_ID p, ed_FormID := ep_FormID p\<rparr>"

definition default_delivery :: email_delivery where
  "default_delivery =
     \<lparr>ed_ID = 0, ed_FormID = 0, ed_Name = DefaultEmailDeliveryName, ed_Enabled = False, ed_MailerProfileID = None,
      ed_RecipientSource = ''static'', ed_Recipient = [], ed_ReplyToSource = ''none'', ed_ReplyTo = [],
      ed_SubjectTemplate = DefaultEmailSubject, ed_Format = ''text'', ed_TextTemplate = DefaultEmailText,
      ed_HTMLTemplate = DefaultEmailHTML\<rparr>"

definition requestedEmailDeliveryID :: "admin_request \<Rightarrow> failure + nat" where
  "requestedEmailDeliveryID r = positive_id (trim_space (ar_Param r ''delivery_id''))"

definition requestedEmailDelivery :: "admin_request \<Rightarrow> nat \<Rightarrow> email_delivery handler" where
  "requestedEmailDelivery r formID =
     h_bind (h_check (requestedEmailDeliveryID r)) (\<lambda>i. h_bind (or_404 (GetEmailDelivery formID i)) (\<lambda>(d, _). h_ret d))"

definition renderEmailDeliveryEditor ::
  "(string \<Rightarrow> string option) \<Rightarrow> loaded_form \<Rightarrow> email_delivery option \<Rightarrow> string \<Rightarrow> form_view reply handler" where
  "renderEmailDeliveryEditor decode lf given message =
     h_bind (or_500 ListMailerProfiles) (\<lambda>profiles.
     let d = displayEmailDelivery decode (case given of None \<Rightarrow> default_delivery | Some x \<Rightarrow> x) in
     h_bind (or_500 (GetSubmissions (fm_ID (lf_Form lf)) 25)) (\<lambda>entries.
     h_ret (Show 200 (EmailEditor
       \<lparr>ee_Error = message, ee_Title = (if ed_ID d \<noteq> 0 then ''Edit email notification'' else ''Add email notification''),
        ee_Form = lf, ee_Delivery = d, ee_IsEdit = (ed_ID d \<noteq> 0),
        ee_SelectedMailer = (case ed_MailerProfileID d of None \<Rightarrow> 0 | Some i \<Rightarrow> i), ee_Mailers = profiles,
        ee_Subject = EffectiveEmailSubject d, ee_Text = EffectiveEmailText d, ee_HTML = EffectiveEmailHTML d,
        ee_Submissions = entries\<rparr>))))"

definition AdminFormEmailNew :: "(string \<Rightarrow> string option) \<Rightarrow> admin_request \<Rightarrow> form_view reply handler" where
  "AdminFormEmailNew decode r =
     h_bind (request_db r) (\<lambda>_. h_bind (requestedForm r) (\<lambda>lf. renderEmailDeliveryEditor decode lf None []))"

definition AdminFormEmailCreate :: "golib \<Rightarrow> (string \<Rightarrow> string option) \<Rightarrow> admin_request \<Rightarrow> form_view reply handler" where
  "AdminFormEmailCreate L decode r =
     h_bind (request_db r) (\<lambda>_. h_bind (requestedForm r) (\<lambda>lf.
     let params = emailDeliveryParams r (fm_ID (lf_Form lf)) 0 in
     catch (CreateEmailDelivery L params) (\<lambda>created. case created of
       Inr _ \<Rightarrow> h_ret (Goto (form_location (fm_ID (lf_Form lf))))
     | Inl e \<Rightarrow>
         (case err_validation e of
            Some (_, message) \<Rightarrow> renderEmailDeliveryEditor decode lf (Some (emailDeliveryDraft params)) message
          | None \<Rightarrow> h_fail ErrInternalServerError))))"

definition AdminFormEmailEdit :: "(string \<Rightarrow> string option) \<Rightarrow> admin_request \<Rightarrow> form_view reply handler" where
  "AdminFormEmailEdit decode r =
     h_bind (request_db r) (\<lambda>_. h_bind (requestedForm r) (\<lambda>lf.
     h_bind (requestedEmailDelivery r (fm_ID (lf_Form lf))) (\<lambda>d. renderEmailDeliveryEditor decode lf (Some d) [])))"

definition AdminFormEmailUpdate :: "golib \<Rightarrow> (string \<Rightarrow> string option) \<Rightarrow> admin_request \<Rightarrow> form_view reply handler" where
  "AdminFormEmailUpdate L decode r =
     h_bind (request_db r) (\<lambda>_. h_bind (requestedForm r) (\<lambda>lf. h_bind (h_check (requestedEmailDeliveryID r)) (\<lambda>i.
     let params = emailDeliveryParams r (fm_ID (lf_Form lf)) i in
     catch (UpdateEmailDelivery L params) (\<lambda>updated. case updated of
       Inr _ \<Rightarrow> h_ret (Goto (form_location (fm_ID (lf_Form lf))))
     | Inl e \<Rightarrow>
         if err_is ErrRecordNotFound e then h_fail ErrNotFoundPage
         else (case err_validation e of
                 Some (_, message) \<Rightarrow> renderEmailDeliveryEditor decode lf (Some (emailDeliveryDraft params)) message
               | None \<Rightarrow> h_fail ErrInternalServerError)))))"

definition AdminFormEmailDelete :: "admin_request \<Rightarrow> form_view reply handler" where
  "AdminFormEmailDelete r =
     h_bind (request_db r) (\<lambda>_. h_bind (requestedForm r) (\<lambda>lf. h_bind (h_check (requestedEmailDeliveryID r)) (\<lambda>i.
     catch (DeleteEmailDelivery (fm_ID (lf_Form lf)) i) (\<lambda>deleted. case deleted of
       Inr _ \<Rightarrow> h_ret (Goto (form_location (fm_ID (lf_Form lf))))
     | Inl e \<Rightarrow> if err_is ErrRecordNotFound e then h_fail ErrNotFoundPage else h_fail ErrInternalServerError))))"

section \<open>The preview of a notification\<close>

definition emailPreviewError :: "string \<Rightarrow> form_view reply handler" where
  "emailPreviewError message = h_ret (Show 422 (EmailPreviewError message))"

text \<open>From the submission on: a failure of any step is shown instead of the preview.\<close>

definition preview_message ::
  "golib \<Rightarrow> (string \<Rightarrow> string option) \<Rightarrow> email_delivery \<Rightarrow> submission_details \<Rightarrow> mailer_profile \<Rightarrow> string list \<Rightarrow> string \<Rightarrow> err + email_preview" where
  "preview_message L decode d details profile recipients replyTo =
     rbind (MailerSender L (Some profile)) (\<lambda>sender.
     rbind (RenderEmail L (Some d) (Some (sd_Submission details, sd_Form details))) (\<lambda>rendered.
     Inr \<lparr>ev_SubmissionShown = sb_ID (sd_Submission details), ev_From = DisplayEmailAddresses decode sender,
          ev_To = map (DisplayEmailAddresses decode) recipients, ev_ReplyTo = DisplayEmailAddresses decode replyTo,
          ev_Rendered = rendered\<rparr>))"

definition preview_for ::
  "golib \<Rightarrow> (string \<Rightarrow> string option) \<Rightarrow> email_delivery \<Rightarrow> submission_details \<Rightarrow> form_view reply handler" where
  "preview_for L decode d details =
     (let vals = emailTemplateFields L (sb_DataJSON (sd_Submission details)) in
      case rbind (ResolveEmailRecipients L (Some d) vals) (\<lambda>recipients.
           rbind (ResolveEmailReplyTo L (Some d) vals) (\<lambda>replyTo. Inr (recipients, replyTo))) of
        Inl e \<Rightarrow> emailPreviewError (err_text e)
      | Inr (recipients, replyTo) \<Rightarrow>
          (case ed_MailerProfileID d of
             None \<Rightarrow> emailPreviewError ''Select an email route to preview the sender''
           | Some i \<Rightarrow>
               catch (GetMailerProfileByID i) (\<lambda>found. case found of
                 Inl e \<Rightarrow> if err_is ErrRecordNotFound e then emailPreviewError ''The selected email route is unavailable''
                          else h_fail ErrInternalServerError
               | Inr profile \<Rightarrow>
                   (case preview_message L decode d details profile recipients replyTo of
                      Inl e \<Rightarrow> emailPreviewError (err_text e)
                    | Inr shown \<Rightarrow> h_ret (Show 200 (EmailPreview shown))))))"

definition AdminFormEmailPreview :: "golib \<Rightarrow> (string \<Rightarrow> string option) \<Rightarrow> admin_request \<Rightarrow> form_view reply handler" where
  "AdminFormEmailPreview L decode r =
     h_bind (request_db r) (\<lambda>_. h_bind (requestedForm r) (\<lambda>lf.
     case optionalID (ar_Form r ''preview_submission_id'') of
       None \<Rightarrow> emailPreviewError ''Select a submission to preview this email''
     | Some submissionID \<Rightarrow>
         catch (GetSubmissionByID submissionID) (\<lambda>found. case found of
           Inl e \<Rightarrow> if err_is ErrRecordNotFound e
                    then emailPreviewError ''The selected submission does not belong to this endpoint''
                    else h_fail ErrInternalServerError
         | Inr details \<Rightarrow>
             if sb_FormID (sd_Submission details) \<noteq> fm_ID (lf_Form lf)
             then emailPreviewError ''The selected submission does not belong to this endpoint''
             else preview_for L decode (emailDeliveryDraft (emailDeliveryParams r (fm_ID (lf_Form lf)) 0)) details)))"

end
