(* ===== verification/Export.thy ===== *)
theory Export
  imports Submissions Go_Num "HOL-Library.AList"
begin

text \<open>
  The CSV export of \<open>internal/forms/export.go\<close>. The JSON decoder is a parameter: for a text, the
  tokens and values it yields up to where it stops; reading a quoted string is another. The writer of
  \<open>encoding/csv\<close> is modelled, and a reader for it defined here to state that nothing is lost.
\<close>

section \<open>Limits\<close>

definition MaxCSVExportEntries :: int where "MaxCSVExportEntries = 10000"
definition MaxCSVExportFields :: int where "MaxCSVExportFields = 500"
definition MaxCSVExportContentBytes :: int where "MaxCSVExportContentBytes = 8 * 1024 * 1024"

definition csvMetadataColumns :: "string list" where
  "csvMetadataColumns = [''submission_id'', ''received_at'', ''endpoint_id'', ''endpoint_name'', ''endpoint_slug'',
     ''is_spam'', ''user_agent'']"

definition too_many_entries :: err where
  "too_many_entries = invalid ''export''
     (''Export exceeds '' @ itoa MaxCSVExportEntries @ '' entries; narrow the inbox filters and try again'')"

definition too_much_content :: err where
  "too_much_content = invalid ''export''
     (''Export exceeds '' @ itoa (MaxCSVExportContentBytes div (1024 * 1024))
      @ '' MiB of submission content; narrow the inbox filters and try again'')"

definition too_many_fields :: err where
  "too_many_fields = invalid ''export''
     (''Export exceeds '' @ itoa MaxCSVExportFields @ '' distinct fields; narrow the inbox filters and try again'')"

text \<open>A limit that is not reached needs no counting.\<close>

lemma sql_limit_code [code]:
  "sql_limit n xs = (if n < 0 \<or> int (length xs) \<le> n then xs else take (nat n) xs)"
  by (auto simp: sql_limit_def)

section \<open>Payloads\<close>

datatype json_token = Delim char | StringToken string | OtherJson

text \<open>The opening token; for each member its name and value; the closing token; what follows it.\<close>

record json_walk =
  jw_opening :: "err + json_token"
  jw_members :: "((err + json_token) \<times> (err + string)) list"
  jw_closing :: "err + json_token"
  jw_trailing :: json_next

record csvlib =
  cl_walk :: "string \<Rightarrow> json_walk"
  cl_unquote :: "string \<Rightarrow> err + string"

fun visit_members ::
  "(string \<Rightarrow> string \<Rightarrow> 's \<Rightarrow> err + 's) \<Rightarrow> ((err + json_token) \<times> (err + string)) list \<Rightarrow> 's \<Rightarrow> err + 's" where
  "visit_members visit [] s = Inr s"
| "visit_members visit ((token, val) # members) s =
     (case token of
        Inl e \<Rightarrow> Inl e
      | Inr (StringToken name) \<Rightarrow>
          rbind val (\<lambda>raw. rbind (visit name raw s) (visit_members visit members))
      | Inr _ \<Rightarrow> Inl (Plain ''submission field name is not a string''))"

definition visitCSVPayload :: "csvlib \<Rightarrow> string \<Rightarrow> (string \<Rightarrow> string \<Rightarrow> 's \<Rightarrow> err + 's) \<Rightarrow> 's \<Rightarrow> err + 's" where
  "visitCSVPayload X encoded visit s0 =
     (let walk = cl_walk X encoded in
      rbind (jw_opening walk) (\<lambda>opening.
      if opening \<noteq> Delim (CHR ''{'') then Inl (Plain ''submission payload is not a JSON object'')
      else rbind (visit_members visit (jw_members walk) s0) (\<lambda>s.
           rbind (jw_closing walk) (\<lambda>closing.
           if closing \<noteq> Delim (CHR ''}'') then Inl (Plain ''submission payload has an invalid closing delimiter'')
           else (case jw_trailing walk of
                   JEof \<Rightarrow> Inr s
                 | JValue \<Rightarrow> Inl (Plain ''submission payload contains multiple JSON values'')
                 | JError e \<Rightarrow> Inl e)))))"

text \<open>A set of names is a list without duplicates; a later member of the same name wins.\<close>

definition add_field :: "string \<Rightarrow> string \<Rightarrow> string list \<Rightarrow> err + string list" where
  "add_field name raw names =
     (let names' = (if name \<in> set names then names else names @ [name])
      in if int (length names') > MaxCSVExportFields then Inl too_many_fields else Inr names')"

definition collectCSVFieldNames :: "csvlib \<Rightarrow> string \<Rightarrow> string list \<Rightarrow> err + string list" where
  "collectCSVFieldNames X encoded names = visitCSVPayload X encoded add_field names"

definition decodeCSVPayload :: "csvlib \<Rightarrow> string \<Rightarrow> err + (string \<times> string) list" where
  "decodeCSVPayload X encoded = visitCSVPayload X encoded (\<lambda>name raw payload. Inr (AList.update name raw payload)) []"

section \<open>Cells\<close>

definition safeCSVText :: "string \<Rightarrow> string" where
  "safeCSVText v =
     (case trim_left_space v of
        [] \<Rightarrow> v
      | c # _ \<Rightarrow> if c \<notin> set ''=+-@'' then v else [CHR 0x27] @ v)"

definition csvFieldValue :: "csvlib \<Rightarrow> string option \<Rightarrow> err + string" where
  "csvFieldValue X val =
     (let trimmed = trim_space (case val of None \<Rightarrow> [] | Some raw \<Rightarrow> raw) in
      case trimmed of
        [] \<Rightarrow> Inr []
      | c # _ \<Rightarrow>
          if trimmed = ''null'' then Inr []
          else if c \<noteq> CHR 0x22 then Inr trimmed
          else rbind (cl_unquote X trimmed) (\<lambda>text. Inr (safeCSVText text)))"

text \<open>\<open>csv.Writer\<close>: a field is quoted when it holds a comma, a quote or a line break, or begins with white space.\<close>

definition fieldNeedsQuotes :: "string \<Rightarrow> bool" where
  "fieldNeedsQuotes f \<longleftrightarrow>
     f \<noteq> [] \<and> (f = [CHR 0x5C, CHR ''.''] \<or> (\<exists>c\<in>set f. c = CHR '','' \<or> c = CHR 0x22 \<or> c = CHR 0x0A \<or> c = CHR 0x0D)
                \<or> trim_left_space f \<noteq> f)"

definition csv_field :: "string \<Rightarrow> string" where
  "csv_field f =
     (if fieldNeedsQuotes f
      then [CHR 0x22] @ concat (map (\<lambda>c. if c = CHR 0x22 then [CHR 0x22, CHR 0x22] else [c]) f) @ [CHR 0x22]
      else f)"

definition csv_row :: "string list \<Rightarrow> string" where
  "csv_row fs = join '','' (map csv_field fs) @ [CHR 0x0A]"

section \<open>The export\<close>

text \<open>Where the text goes: what the \<open>n\<close>-th record and the flush report.\<close>

record csv_sink =
  cs_write :: "nat \<Rightarrow> err option"
  cs_flush :: "err option"

fun measured :: "submission list \<Rightarrow> int \<times> int" where
  "measured [] = (0, 0)"
| "measured (s # ss) = (case measured ss of (n, b) \<Rightarrow> (n + 1, b + int (length (sb_DataJSON s) + length (sb_UserAgent s))))"

definition measureCSVExport :: "(submission \<Rightarrow> bool) \<Rightarrow> (int \<times> int) db_prog" where
  "measureCSVExport p = wrap_err ''measure submissions for CSV export''
     (query (\<lambda>d. measured (sql_limit (MaxCSVExportEntries + 1) (filter p (submissions d)))))"

fun collect_each :: "csvlib \<Rightarrow> submission list \<Rightarrow> int \<Rightarrow> string list \<Rightarrow> err + string list" where
  "collect_each X [] bytes names = Inr names"
| "collect_each X (s # ss) bytes names =
     (let bytes' = bytes + int (length (sb_DataJSON s) + length (sb_UserAgent s)) in
      if bytes' > MaxCSVExportContentBytes then Inl too_much_content
      else (case collectCSVFieldNames X (sb_DataJSON s) names of
              Inl e \<Rightarrow> Inl (Wrap (''decode submission '' @ dec_digits (sb_ID s) @ '' for CSV export'') e)
            | Inr names' \<Rightarrow> collect_each X ss bytes' names'))"

fun field_cells :: "golib \<Rightarrow> csvlib \<Rightarrow> nat \<Rightarrow> (string \<times> string) list \<Rightarrow> string list \<Rightarrow> err + string list" where
  "field_cells L X i payload [] = Inr []"
| "field_cells L X i payload (name # names) =
     (case csvFieldValue X (map_of payload name) of
        Inl e \<Rightarrow> Inl (Wrap (''encode submission '' @ dec_digits i @ '' field '' @ lib_quote L name @ '' for CSV export'') e)
      | Inr v \<Rightarrow> rbind (field_cells L X i payload names) (\<lambda>vs. Inr (v # vs)))"

definition bool_text :: "bool \<Rightarrow> string" where
  "bool_text b = (if b then ''true'' else ''false'')"

text \<open>A submission comes with the name and the slug of its form.\<close>

definition csv_cells :: "golib \<Rightarrow> csvlib \<Rightarrow> string list \<Rightarrow> submission \<times> string \<times> string \<Rightarrow> err + string list" where
  "csv_cells L X names r =
     (case r of (s, formName, formSlug) \<Rightarrow>
      case decodeCSVPayload X (sb_DataJSON s) of
        Inl e \<Rightarrow> Inl (Wrap (''decode submission '' @ dec_digits (sb_ID s) @ '' for CSV export'') e)
      | Inr payload \<Rightarrow>
          rbind (field_cells L X (sb_ID s) payload names) (\<lambda>cells.
          Inr ([dec_digits (sb_ID s), lib_rfc3339 L (sb_CreatedAt s), dec_digits (sb_FormID s), safeCSVText formName,
                safeCSVText formSlug, bool_text (sb_IsSpam s), safeCSVText (sb_UserAgent s)] @ cells)))"

fun write_rows :: "golib \<Rightarrow> csvlib \<Rightarrow> csv_sink \<Rightarrow> string list \<Rightarrow> nat \<Rightarrow> (submission \<times> string \<times> string) list \<Rightarrow> err + string list list" where
  "write_rows L X out names n [] = Inr []"
| "write_rows L X out names n (r # rs) =
     rbind (csv_cells L X names r) (\<lambda>cells.
     case cs_write out (Suc n) of
       Some e \<Rightarrow> Inl (Wrap (''write submission '' @ dec_digits (sb_ID (fst r)) @ '' to CSV'') e)
     | None \<Rightarrow> rbind (write_rows L X out names (Suc n) rs) (\<lambda>rows. Inr (cells # rows)))"

definition csv_header :: "string list \<Rightarrow> string list" where
  "csv_header names = csvMetadataColumns @ map (\<lambda>name. ''field.'' @ name) names"

definition write_csv :: "golib \<Rightarrow> csvlib \<Rightarrow> csv_sink \<Rightarrow> string list \<Rightarrow> (submission \<times> string \<times> string) list \<Rightarrow> err + string list list" where
  "write_csv L X out names rs =
     (case cs_write out 0 of
        Some e \<Rightarrow> Inl (Wrap ''write CSV header'' e)
      | None \<Rightarrow>
          rbind (write_rows L X out names 0 rs) (\<lambda>rows.
          case cs_flush out of Some e \<Rightarrow> Inl (Wrap ''flush CSV export'' e) | None \<Rightarrow> Inr (csv_header names # rows)))"

text \<open>The rows with their forms (\<open>Preload\<close>); a form that is gone leaves the zero value.\<close>

definition csv_rows :: "(submission \<Rightarrow> bool) \<Rightarrow> (submission \<times> string \<times> string) list db_prog" where
  "csv_rows p = wrap_err ''list submissions for CSV export''
     (bnd (query (\<lambda>d. sql_limit (MaxCSVExportEntries + 1) (newest_first (filter p (submissions d))))) (\<lambda>rows.
      if rows = [] then ret []
      else bnd (query forms) (\<lambda>fs. ret (map (\<lambda>s. case find (\<lambda>f. fm_ID f = sb_FormID s) fs of
             None \<Rightarrow> (s, [], []) | Some f \<Rightarrow> (s, fm_Name f, fm_Slug f)) rows))))"

text \<open>From the selection of the rows on.\<close>

definition export_selected :: "golib \<Rightarrow> csvlib \<Rightarrow> csv_sink \<Rightarrow> (submission \<Rightarrow> bool) \<Rightarrow> (nat \<times> string) db_prog" where
  "export_selected L X out p =
     bnd (measureCSVExport p) (\<lambda>(entryCount, contentBytes).
     if entryCount > MaxCSVExportEntries then fail too_many_entries
     else if contentBytes > MaxCSVExportContentBytes then fail too_much_content
     else bnd (csv_rows p) (\<lambda>rs.
          if int (length rs) > MaxCSVExportEntries then fail too_many_entries
          else bnd (of_result (collect_each X (map fst rs) 0 [])) (\<lambda>fieldSet.
               bnd (of_result (write_csv L X out (sort fieldSet) rs)) (\<lambda>rows.
               ret (length rs, concat (map csv_row rows))))))"

definition ExportSubmissionsCSV :: "golib \<Rightarrow> csvlib \<Rightarrow> csv_sink \<Rightarrow> SubmissionFilter \<Rightarrow> (nat \<times> string) db_prog" where
  "ExportSubmissionsCSV L X out f =
     bnd time_now (\<lambda>now. bnd (of_result (submissionFilterQuery f now)) (export_selected L X out))"

end
