(* ===== verification/Go_Time.thy ===== *)
theory Go_Time
  imports Go_Num
begin

text \<open>
  Moments as the file names show them: \<open>Time.UTC().Format("20060102" + sep + "150405")\<close>, and the parser
  of the same layout, \<open>time.Parse\<close>. Dates are computed from the days since 1 January of the year 1 in
  cycles of 400, 100, 4 and 1 years.
\<close>

section \<open>Dates\<close>

definition is_leap :: "int \<Rightarrow> bool" where
  "is_leap y \<longleftrightarrow> y mod 4 = 0 \<and> (y mod 100 \<noteq> 0 \<or> y mod 400 = 0)"

definition month_lengths :: "int \<Rightarrow> int list" where
  "month_lengths y = [31, if is_leap y then 29 else 28, 31, 30, 31, 30, 31, 31, 30, 31, 30, 31]"

text \<open>The year, and the day of the year from zero.\<close>

definition year_day :: "int \<Rightarrow> int \<times> int" where
  "year_day d =
     (let n400 = d div 146097; d1 = d mod 146097;
          c = d1 div 36524; n100 = c - c div 4; d2 = d1 - 36524 * n100;
          n4 = d2 div 1461; d3 = d2 mod 1461;
          q = d3 div 365; n1 = q - q div 4
      in (400 * n400 + 100 * n100 + 4 * n4 + n1 + 1, d3 - 365 * n1))"

text \<open>The month, counted from the given one, and the day of the month.\<close>

fun month_day :: "int \<Rightarrow> int list \<Rightarrow> int \<Rightarrow> int \<times> int" where
  "month_day m (l # ls) d = (if ls = [] \<or> d < l then (m, d + 1) else month_day (m + 1) ls (d - l))"
| "month_day m [] d = (m, d + 1)"

definition civil :: "int \<Rightarrow> int \<times> int \<times> int" where
  "civil days = (case year_day (days + 719162) of (y, yd) \<Rightarrow> (y, month_day 1 (month_lengths y) yd))"

section \<open>Formatting\<close>

definition pad_digits :: "nat \<Rightarrow> int \<Rightarrow> string" where
  "pad_digits w n = (let s = dec_digits (nat \<bar>n\<bar>) in (if n < 0 then ''-'' else []) @ replicate (w - length s) (CHR ''0'') @ s)"

definition format_stamp :: "string \<Rightarrow> gotime \<Rightarrow> string" where
  "format_stamp sep t =
     (let s = t div 1000000000; sec = s mod 86400 in
      case civil (s div 86400) of (y, m, d) \<Rightarrow>
        pad_digits 4 y @ pad_digits 2 m @ pad_digits 2 d @ sep
        @ pad_digits 2 (sec div 3600) @ pad_digits 2 (sec div 60 mod 60) @ pad_digits 2 (sec mod 60))"

section \<open>Parsing\<close>

text \<open>
  \<open>time.Parse\<close> with the layout \<open>20060102_150405\<close>: each field has its fixed number of digits, the day is
  checked against the month, and a fraction of a second may follow although the layout has none.
\<close>

definition field :: "nat \<Rightarrow> nat \<Rightarrow> string \<Rightarrow> nat option" where
  "field from w s =
     (let ds = take w (drop from s) in if length ds = w \<and> list_all ascii_digit ds then Some (digits_value ds) else None)"

definition fraction :: "string \<Rightarrow> bool" where
  "fraction s \<longleftrightarrow> (case s of [] \<Rightarrow> True | c # ds \<Rightarrow> c \<in> {CHR ''.'', CHR '',''} \<and> ds \<noteq> [] \<and> list_all ascii_digit ds)"

definition stamp_parses :: "string \<Rightarrow> bool" where
  "stamp_parses s \<longleftrightarrow>
     (case (field 0 4 s, field 4 2 s, field 6 2 s, field 9 2 s, field 11 2 s, field 13 2 s) of
        (Some y, Some m, Some d, Some h, Some mi, Some sec) \<Rightarrow>
          take 1 (drop 8 s) = ''_'' \<and> 1 \<le> m \<and> m \<le> 12 \<and> 1 \<le> d \<and> int d \<le> month_lengths (int y) ! (m - 1)
          \<and> h < 24 \<and> mi < 60 \<and> sec < 60 \<and> fraction (drop 15 s)
      | _ \<Rightarrow> False)"

section \<open>Every date is one of the calendar\<close>

lemma year_day_range:
  assumes "year_day d = (y, yd)"
  shows "0 \<le> yd \<and> yd < (if is_leap y then 366 else 365)"
proof -
  define n400 d1 where "n400 = d div 146097" and "d1 = d mod 146097"
  define c where "c = d1 div 36524"
  define n100 where "n100 = c - c div 4"
  define d2 where "d2 = d1 - 36524 * n100"
  define n4 d3 where "n4 = d2 div 1461" and "d3 = d2 mod 1461"
  define q where "q = d3 div 365"
  define n1 where "n1 = q - q div 4"
  have "year_day d = (400 * n400 + 100 * n100 + 4 * n4 + n1 + 1, d3 - 365 * n1)"
    unfolding year_day_def Let_def n1_def q_def d3_def n4_def d2_def n100_def c_def d1_def n400_def by (rule refl)
  then have y: "y = 400 * n400 + 100 * n100 + 4 * n4 + n1 + 1" and yd: "yd = d3 - 365 * n1"
    using assms by simp_all
  have d1: "0 \<le> d1" "d1 < 146097" by (simp_all add: d1_def)
  have c: "0 \<le> c" "c \<le> 4" "36524 * c \<le> d1" "d1 < 36524 * c + 36524" using d1 by (simp_all add: c_def)
  have d2: "0 \<le> d2 \<and> (d2 < 36524 \<or> (n100 = 3 \<and> d2 = 36524)) \<and> 0 \<le> n100 \<and> n100 \<le> 3"
  proof (cases "c = 4")
    case True
    then have "n100 = 3" by (simp add: n100_def)
    moreover have "d1 = 146096" using True c(3) d1(2) by linarith
    ultimately show ?thesis by (simp add: d2_def)
  next
    case False
    then have "c < 4" using c(2) by linarith
    then have n: "n100 = c" using c(1) by (simp add: n100_def)
    have "0 \<le> d2 \<and> d2 < 36524" using c(3) c(4) by (simp add: d2_def n)
    then show ?thesis using n c(1) \<open>c < 4\<close> by simp
  qed
  have d3: "0 \<le> d3" "d3 < 1461" by (simp_all add: d3_def)
  have q: "0 \<le> q" "q \<le> 4" "365 * q \<le> d3" "d3 < 365 * q + 365" using d3 by (simp_all add: q_def)
  have n4: "0 \<le> n4" "n4 \<le> 24" "d2 = 1461 * n4 + d3" using d2 by (auto simp: n4_def d3_def)
  show ?thesis
  proof (cases "q = 4")
    case False
    then have "q div 4 = 0" using q by simp
    then show ?thesis using q yd by (simp add: n1_def)
  next
    case True
    then have n1: "n1 = 3" and d3': "d3 = 1460" using q d3 by (simp_all add: n1_def)
    have "is_leap y"
    proof (cases "n4 = 24")
      case True
      then have "n100 = 3" using d2 n4 d3' by auto
      then have "y = 400 * (n400 + 1)" using y n1 True by simp
      then show ?thesis by (simp add: is_leap_def)
    next
      case False
      then have "0 < 4 * n4 + 4" "4 * n4 + 4 < 100" using n4 by auto
      moreover have y4: "y = 4 * n4 + 4 + 100 * (4 * n400 + n100)" using y n1 by simp
      moreover from y4 have "y mod 100 = (4 * n4 + 4) mod 100" by (simp only: mod_mult_self2)
      ultimately have "y mod 100 \<noteq> 0" using mod_pos_pos_trivial [of "4 * n4 + 4" 100] by linarith
      moreover have "y = 4 * (n4 + 1 + 25 * (4 * n400 + n100))" using y4 by simp
      then have "y mod 4 = 0" by simp
      ultimately show ?thesis by (simp add: is_leap_def)
    qed
    then show ?thesis using yd n1 d3' by simp
  qed
qed

lemma month_day_range:
  "month_day m ls yd = (m', d) \<Longrightarrow> 0 \<le> yd \<Longrightarrow> yd < sum_list ls \<Longrightarrow>
   m \<le> m' \<and> m' < m + int (length ls) \<and> 1 \<le> d \<and> d \<le> ls ! nat (m' - m)"
proof (induction m ls yd rule: month_day.induct)
  case (1 m l ls d0)
  show ?case
  proof (cases "ls = [] \<or> d0 < l")
    case True then show ?thesis using 1 by auto
  next
    case False
    with 1 have "m + 1 \<le> m' \<and> m' < m + 1 + int (length ls) \<and> 1 \<le> d \<and> d \<le> ls ! nat (m' - (m + 1))" by simp
    moreover from this have "nat (m' - m) = Suc (nat (m' - (m + 1)))" by linarith
    ultimately show ?thesis by simp
  qed
qed simp

lemma civil_range:
  assumes "civil n = (y, m, d)"
  shows "1 \<le> m \<and> m \<le> 12 \<and> 1 \<le> d \<and> d \<le> month_lengths y ! nat (m - 1)"
proof -
  obtain yd where y: "year_day (n + 719162) = (y, yd)" and md: "month_day 1 (month_lengths y) yd = (m, d)"
    using assms by (auto simp: civil_def split: prod.splits)
  have "0 \<le> yd \<and> yd < sum_list (month_lengths y)" using year_day_range [OF y] by (cases "is_leap y") (simp_all add: month_lengths_def)
  from month_day_range [OF md] this show ?thesis by (auto simp: month_lengths_def)
qed

end
