(* ===== verification/Admin_Submissions.thy ===== *)
theory Admin_Submissions
  imports Handlers Export Go_Time
begin

text \<open>
  The inbox, \<open>internal/http/submissions.go\<close>, and the demo page, \<open>internal/http/demo.go\<close>: the list with
  its filter, the export, one entry, and the download of a stored file, whole or in part. The parser of
  byte ranges and the check of \<open>If-Modified-Since\<close> are the server library's and the table of media
  types is the system's; they come with the request.
\<close>

section \<open>Numbers of a query\<close>

text \<open>
  \<open>strconv.ParseUint\<close> reads from the left: it stops with the limit where the number outgrows it and with
  zero at a character that is not a digit. The handlers use its number and drop its error.
\<close>

fun scan_uint :: "int \<Rightarrow> int \<Rightarrow> string \<Rightarrow> int" where
  "scan_uint limit n [] = n"
| "scan_uint limit n (c # cs) =
     (if \<not> ascii_digit c then 0
      else let m = n * 10 + int (digit_value c) in if m > limit then limit else scan_uint limit m cs)"

text \<open>\<open>strconv.Atoi\<close>, clamped to 64 bits.\<close>

definition atoi_value :: "string \<Rightarrow> int" where
  "atoi_value s = (case split_sign s of (neg, ds) \<Rightarrow>
     let n = scan_uint (2 ^ 64 - 1) 0 ds in
     if neg then (if n > 2 ^ 63 then - (2 ^ 63) else - n) else (if n \<ge> 2 ^ 63 then 2 ^ 63 - 1 else n))"

section \<open>The inbox\<close>

definition submissionFilter :: "admin_request \<Rightarrow> SubmissionFilter" where
  "submissionFilter r =
     \<lparr>fi_FormID = nat (scan_uint (2 ^ 32 - 1) 0 (ar_Query r ''form_id'')), fi_Range = trim_space (ar_Query r ''range''),
      fi_Query = trim_space (ar_Query r ''q''), fi_Page = atoi_value (if ar_Query r ''page'' = [] then ''1'' else ar_Query r ''page''),
      fi_PerPage = 0, fi_IsSpam = None\<rparr>"

definition submissionExportURL :: "SubmissionFilter \<Rightarrow> string" where
  "submissionExportURL f =
     (let pairs = (if fi_FormID f > 0 then [''form_id='' @ QueryEscape (dec_digits (fi_FormID f))] else [])
                @ (if fi_Query f \<noteq> [] then [''q='' @ QueryEscape (fi_Query f)] else [])
                @ (if fi_Range f \<noteq> [] then [''range='' @ QueryEscape (fi_Range f)] else [])
      in if pairs \<noteq> [] then ''/admin/submissions/export.csv?'' @ join ''&'' pairs else ''/admin/submissions/export.csv'')"

definition previewJSON :: "string \<Rightarrow> string" where
  "previewJSON raw =
     (let s = replace_all [CHR 0x0A] '' '' raw; rs = runes s
      in if length rs \<le> 100 then s else concat (map valid_rune (take 100 rs)) @ ''...'')"

definition prettyJSON :: "(string \<Rightarrow> string option) \<Rightarrow> string \<Rightarrow> string" where
  "prettyJSON json_indent raw = (case json_indent raw of Some s \<Rightarrow> s | None \<Rightarrow> raw)"

record inbox_page =
  ib_Submissions :: "(submission \<times> string) list"
  ib_Endpoints :: "(nat \<times> string) list"
  ib_EndpointCount :: nat
  ib_EntriesLast24h :: nat
  ib_Page :: int
  ib_NextPage :: int
  ib_PrevPage :: int
  ib_TotalPages :: int
  ib_TotalCount :: nat
  ib_HasNext :: bool
  ib_HasPrev :: bool
  ib_FormID :: string
  ib_Range :: string
  ib_Search :: string
  ib_ExportURL :: string

text \<open>A reply with a body of its own: the export, a file, or part of one.\<close>

record content =
  ct_Headers :: "(string \<times> string) list"
  ct_Body :: string

datatype submission_view =
    InboxView inbox_page
  | EntryView submission_details string bool
  | TextView string
  | ContentView content
  | DemoView string string string

definition inbox_view :: "admin_request \<Rightarrow> SubmissionFilter \<Rightarrow> SubmissionPage \<Rightarrow> InboxSummary \<Rightarrow> inbox_page" where
  "inbox_view r f p s =
     \<lparr>ib_Submissions = map (\<lambda>i. (i, previewJSON (sb_DataJSON i))) (pg_Items p), ib_Endpoints = is_Forms s,
      ib_EndpointCount = is_FormCount s, ib_EntriesLast24h = is_EntriesLast24 s, ib_Page = pg_Page p,
      ib_NextPage = wrap64 (pg_Page p + 1), ib_PrevPage = wrap64 (pg_Page p - 1), ib_TotalPages = pg_TotalPages p,
      ib_TotalCount = pg_TotalCount p, ib_HasNext = (pg_Page p < pg_TotalPages p), ib_HasPrev = (pg_Page p > 1),
      ib_FormID = ar_Query r ''form_id'', ib_Range = fi_Range f, ib_Search = fi_Query f, ib_ExportURL = submissionExportURL f\<rparr>"

definition or_validation :: "'a db_prog \<Rightarrow> ('a \<Rightarrow> submission_view reply handler) \<Rightarrow> submission_view reply handler" where
  "or_validation m f = catch m (\<lambda>r. case r of
     Inr x \<Rightarrow> f x
   | Inl e \<Rightarrow> (case err_validation e of
                Some (_, message) \<Rightarrow> h_ret (Show 400 (TextView message)) | None \<Rightarrow> h_fail ErrInternalServerError))"

definition SubmissionList :: "admin_request \<Rightarrow> submission_view reply handler" where
  "SubmissionList r =
     h_bind (request_db r) (\<lambda>_.
     let f = (submissionFilter r)\<lparr>fi_PerPage := 20\<rparr> in
     or_validation (ListSubmissions f) (\<lambda>p.
     bnd time_now (\<lambda>now. h_bind (or_500 (GetInboxSummary now)) (\<lambda>s. h_ret (Show 200 (InboxView (inbox_view r f p s)))))))"

section \<open>Attachments\<close>

text \<open>\<open>mime.FormatMediaType("attachment", filename)\<close>: a token as it is, other printable text quoted, the rest encoded.\<close>

definition tspecial :: "char \<Rightarrow> bool" where
  "tspecial c \<longleftrightarrow> c \<in> set ''()<>@,;:/[]?='' \<or> c = CHR 0x22 \<or> c = CHR 0x5C"

definition token_char :: "char \<Rightarrow> bool" where
  "token_char c \<longleftrightarrow> (0x20 :: nat) < of_char c \<and> (of_char c :: nat) < 0x7F \<and> \<not> tspecial c"

definition needs_encoding :: "string \<Rightarrow> bool" where
  "needs_encoding s \<longleftrightarrow> list_ex (\<lambda>c. ((of_char c :: nat) < 0x20 \<or> (0x7E :: nat) < of_char c) \<and> c \<noteq> CHR 0x09) s"

definition attribute_char :: "char \<Rightarrow> string" where
  "attribute_char c =
     (if \<not> token_char c \<or> c = CHR ''*'' \<or> c = CHR 0x27 \<or> c = CHR ''%''
      then percent c else [c])"

definition quoted_char :: "char \<Rightarrow> string" where
  "quoted_char c = (if c = CHR 0x22 \<or> c = CHR 0x5C then [CHR 0x5C, c] else [c])"

definition attachment :: "string \<Rightarrow> string" where
  "attachment filename =
     (if needs_encoding filename then ''attachment; filename*=utf-8'' @ [CHR 0x27, CHR 0x27] @ concat (map attribute_char filename)
      else if filename \<noteq> [] \<and> list_all token_char filename then ''attachment; filename='' @ filename
      else ''attachment; filename='' @ [CHR 0x22] @ concat (map quoted_char filename) @ [CHR 0x22])"

definition buffer :: csv_sink where
  "buffer = \<lparr>cs_write = (\<lambda>_. None), cs_flush = None\<rparr>"

definition SubmissionExportCSV :: "golib \<Rightarrow> csvlib \<Rightarrow> admin_request \<Rightarrow> submission_view reply handler" where
  "SubmissionExportCSV L X r =
     h_bind (request_db r) (\<lambda>_.
     or_validation (ExportSubmissionsCSV L X buffer (submissionFilter r)) (\<lambda>(n, output).
     bnd time_now (\<lambda>now.
     h_ret (Show 200 (ContentView
       \<lparr>ct_Headers = [(''Content-Disposition'', attachment (''miniform-submissions-'' @ format_stamp ''-'' now @ ''.csv'')),
                      (''Content-Type'', ''text/csv; charset=utf-8''), (''Cache-Control'', ''no-store''),
                      (''X-Miniform-Export-Count'', dec_digits n)],
        ct_Body = output\<rparr>)))))"

section \<open>One entry\<close>

definition AdminSubmissionShow :: "(string \<Rightarrow> string option) \<Rightarrow> admin_request \<Rightarrow> submission_view reply handler" where
  "AdminSubmissionShow json_indent r =
     h_bind (h_check (requestedID r)) (\<lambda>i. h_bind (request_db r) (\<lambda>_. h_bind (or_404 (GetSubmissionByID i)) (\<lambda>d.
     h_ret (Show 200 (EntryView d (prettyJSON json_indent (sb_DataJSON (sd_Submission d))) (sd_Files d \<noteq> []))))))"

section \<open>Downloads\<close>

record download_env =
  dl_Stat :: "err option"
  dl_ModTime :: gotime
  dl_HTTPTime :: "gotime \<Rightarrow> string"
  dl_ModifiedSince :: "gotime \<Rightarrow> bool"
  dl_ParseByteRange :: "string \<Rightarrow> int \<Rightarrow> err + (int \<times> int)"
  dl_Seek :: "err option"
  dl_TypeByExtension :: "string \<Rightarrow> string"

definition sendDownload :: "download_env \<Rightarrow> admin_request \<Rightarrow> (string \<times> string) list \<Rightarrow> string \<Rightarrow> failure + submission_view reply" where
  "sendDownload D r headers source =
     (let info_size = int (length source); size = wrap64 info_size in
      if size \<noteq> info_size then Inl ErrInternalServerError
      else let hs = headers @ [(''Accept-Ranges'', ''bytes''), (''Last-Modified'', dl_HTTPTime D (dl_ModTime D))] in
      if \<not> dl_ModifiedSince D (dl_ModTime D) then Inr (Show 304 (ContentView \<lparr>ct_Headers = [], ct_Body = []\<rparr>))
      else if ar_Header r ''Range'' = [] then Inr (Show 200 (ContentView \<lparr>ct_Headers = hs, ct_Body = source\<rparr>))
      else (case dl_ParseByteRange D (ar_Header r ''Range'') size of
              Inl _ \<Rightarrow>
                Inr (Show 416 (ContentView \<lparr>ct_Headers = hs @ [(''Content-Range'', ''bytes */'' @ itoa size)],
                                            ct_Body = ''Requested Range Not Satisfiable''\<rparr>))
            | Inr (start, end_of) \<Rightarrow>
                (case dl_Seek D of
                   Some _ \<Rightarrow> Inl ErrInternalServerError
                 | None \<Rightarrow>
                     Inr (Show 206 (ContentView
                       \<lparr>ct_Headers = hs @ [(''Content-Range'', ''bytes '' @ itoa start @ ''-'' @ itoa end_of @ ''/'' @ itoa size)],
                        ct_Body = take (nat (end_of - start + 1)) (drop (nat start) source)\<rparr>)))))"

definition download_type :: "download_env \<Rightarrow> submission_file \<Rightarrow> string" where
  "download_type D file =
     (let contentType = (if sf_ContentType file = [] then dl_TypeByExtension D (path_ext (sf_Filename file)) else sf_ContentType file)
      in if contentType = [] then ''application/octet-stream'' else contentType)"

definition AdminSubmissionFileDownload :: "golib \<Rightarrow> download_env \<Rightarrow> admin_request \<Rightarrow> submission_view reply handler" where
  "AdminSubmissionFileDownload L D r =
     h_bind (h_check (requestedID r)) (\<lambda>submissionID. h_bind (h_check (paramID r ''file_id'')) (\<lambda>fileID.
     h_bind (request_db r) (\<lambda>_. h_bind (or_404 (GetSubmissionFile submissionID fileID)) (\<lambda>file.
     catch (OpenSubmissionFile L file) (\<lambda>opened. case opened of
       Inl e \<Rightarrow> if err_is ErrNotExist e then h_fail ErrNotFoundPage else h_fail ErrInternalServerError
     | Inr source \<Rightarrow>
         if dl_Stat D \<noteq> None then h_fail ErrInternalServerError
         else h_check (sendDownload D r
           [(''Content-Disposition'', attachment (sf_Filename file)), (''Content-Type'', download_type D file)] source))))))"

section \<open>The demo page\<close>

definition DemoContactForm :: "admin_request \<Rightarrow> submission_view reply handler" where
  "DemoContactForm r =
     h_bind (request_db r) (\<lambda>_.
     catch (GetBySlug (trim_space (if ar_Query r ''slug'' = [] then ''contact'' else ar_Query r ''slug''))) (\<lambda>found. case found of
       Inl e \<Rightarrow> if err_is ErrRecordNotFound e
                then h_ret (Show 404 (TextView ''Demo endpoint not found. Run 'make demo' or pass an existing slug with ?slug=your-slug.''))
                else h_fail ErrInternalServerError
     | Inr lf \<Rightarrow> h_ret (Show 200 (DemoView (fm_Name (lf_Form lf)) (fm_Slug (lf_Form lf)) (fm_Token (lf_Form lf))))))"

end
