(* ===== verification/Admin_Laws.thy ===== *)
theory Admin_Laws
  imports Admin_Forms Admin_Submissions Form_Laws
begin

text \<open>
  What the handlers of the forms and of the inbox promise: an update keeps the webhook secret it is not
  given, the editor cannot tell one stored secret from another, previews are short, the header of an
  attachment stays on one line, and a part of a file is that part.
\<close>

section \<open>Secrets that an update keeps\<close>

lemma stmt_keeps_hooks:
  "stmt (update_forms p f) w = (Inr n, w') \<Longrightarrow> webhook_deliveries (db w') = webhook_deliveries (db w)"
  "stmt (update_email_deliveries q g) w = (Inr m, w') \<Longrightarrow> webhook_deliveries (db w') = webhook_deliveries (db w)"
  "stmt (insert_email_delivery e) w = (Inr k, w') \<Longrightarrow> webhook_deliveries (db w') = webhook_deliveries (db w)"
  by (auto dest!: stmt_InrD update_forms_effect(4) update_email_deliveries_effect(4) insert_email_delivery_effect(3))

lemma primary_keeps_hooks:
  assumes "(case primary of
      Some e \<Rightarrow> bnd (stmt (update_email_deliveries (\<lambda>x. ed_ID x = ed_ID e) (set_delivery email))) (\<lambda>_. ret ())
    | None \<Rightarrow> if asked then bnd (stmt (insert_email_delivery row)) (\<lambda>_. ret ()) else ret ()) w = (Inr u, w')"
  shows "webhook_deliveries (db w') = webhook_deliveries (db w)"
  using assms by (cases primary) (auto elim!: bnd_InrE dest: stmt_keeps_hooks simp: ret_apply split: if_splits)

lemma update_form_tx_hooks:
  assumes "update_form_tx p i primary h email webhook n s og html w = (Inr (), w')"
  shows "webhook_deliveries (db w') = update_where (\<lambda>x. wd_ID x = h) (set_hook (up_WebhookEnabled p) webhook) (webhook_deliveries (db w))"
  using assms unfolding update_form_tx_def update_hook_def
  by (elim bnd_InrE exec_InrE)
     (simp add: primary_keeps_hooks stmt_keeps_hooks(1) readsD [OF reads_validateProfileReferences] readsD [OF reads_validateAdditional])

lemma Update_hooks:
  assumes "Update L p w = (Inr lf', w')"
  obtains hook webhook where "find (\<lambda>h. wd_FormID h = up_ID p) (webhook_deliveries (db w)) = Some hook"
    "prepareWebhookDelivery L (up_WebhookEnabled p) (up_WebhookURL p) (up_WebhookSecret p) (up_WebhookHeadersJSON p) = Inr webhook"
    "webhook_deliveries (db w') = update_where (\<lambda>h. wd_ID h = wd_ID hook) (set_hook (up_WebhookEnabled p) webhook) (webhook_deliveries (db w))"
proof -
  from assms obtain lf hook email webhook slug origins html w1 w2 w3 w4 where s:
    "GetByID (up_ID p) w = (Inr lf, w1)" "lf_WebhookDelivery lf = Some hook"
    "prepareWebhookDelivery L (up_WebhookEnabled p) (up_WebhookURL p) (up_WebhookSecret p) (up_WebhookHeadersJSON p) = Inr webhook"
    "db w2 = db w"
    "update_form_tx p (fm_ID (lf_Form lf)) (PrimaryEmailDelivery (Some lf)) (wd_ID hook) email webhook
       (trim_space (up_Name p)) slug origins html w2 = (Inr (), w3)"
    "db w4 = db w3" "GetByID (up_ID p) w4 = (Inr lf', w')"
    by (rule Update_steps)
  have "fm_ID (lf_Form lf) = up_ID p" using find_SomeD [OF loadForm_result(2) [OF s(1) [unfolded GetByID_def]]] by simp
  with loadForm_result(4) [OF s(1) [unfolded GetByID_def]] s(2)
  have "find (\<lambda>h. wd_FormID h = up_ID p) (webhook_deliveries (db w)) = Some hook" by simp
  moreover have "webhook_deliveries (db w') = update_where (\<lambda>h. wd_ID h = wd_ID hook) (set_hook (up_WebhookEnabled p) webhook) (webhook_deliveries (db w))"
    using update_form_tx_hooks [OF s(5)] s(4,6) readsD [OF reads_GetByID s(7)] by simp
  ultimately show ?thesis using s(3) that by blast
qed

lemma h_bind_okE:
  assumes "h_bind m f w = (Inr (Inr y), w'')"
  obtains x w' where "m w = (Inr (Inr x), w')" "f x w' = (Inr (Inr y), w'')"
  using assms by (auto simp: h_bind_def bnd_apply ret_apply split: prod.splits sum.splits)

lemma or_404_ok: "or_404 m w = (Inr (Inr x), w') \<longleftrightarrow> m w = (Inr x, w')"
  by (auto simp: or_404_def catch_apply h_fail_def h_ret_def ret_apply split: prod.splits sum.splits if_splits)

lemma or_500_ok: "or_500 m w = (Inr (Inr x), w') \<longleftrightarrow> m w = (Inr x, w')"
  by (auto simp: or_500_def catch_apply h_fail_def h_ret_def ret_apply split: prod.splits sum.splits)

lemma h_check_ok: "h_check x w = (Inr (Inr y), w') \<longleftrightarrow> x = Inr y \<and> w' = w"
  by (auto simp: h_check_def ret_apply)

lemma editor_shows: "renderFormEditor L decode f t m secrets w = (Inr (Inr (Goto u)), w') \<Longrightarrow> False"
  unfolding renderFormEditor_def by (elim h_bind_okE) (simp add: h_ret_def ret_apply)

lemma AdminFormsUpdate_runs:
  assumes "AdminFormsUpdate L decode r w = (Inr (Inr (Goto u)), w')"
  obtains i lf updated w1 where "requestedID r = Inr i" "GetByID i w = (Inr lf, w1)"
    "Update L (kept_webhook (requested_secrets r lf) (lf_WebhookDelivery lf) (updateFormParams r i)) w1 = (Inr updated, w')"
proof -
  from assms obtain i lf w1 where s: "requestedID r = Inr i" "GetByID i w = (Inr lf, w1)"
    "(let secrets = requested_secrets r lf; params = kept_webhook secrets (lf_WebhookDelivery lf) (updateFormParams r i) in
     catch (Update L params) (\<lambda>updated. case updated of
       Inr f \<Rightarrow> h_ret (Goto (form_location (fm_ID (lf_Form f))))
     | Inl e \<Rightarrow>
         if err_is ErrRecordNotFound e then h_fail ErrNotFoundPage
         else (case err_validation e of
                 Some (_, message) \<Rightarrow> renderFormEditor L decode (Some (updateFormDraft lf params)) None message secrets
               | None \<Rightarrow> h_fail ErrInternalServerError))) w1 = (Inr (Inr (Goto u)), w')"
    unfolding AdminFormsUpdate_def request_db_def by (elim h_bind_okE) (auto simp: or_404_ok h_check_ok)
  obtain x w2 where up: "Update L (kept_webhook (requested_secrets r lf) (lf_WebhookDelivery lf) (updateFormParams r i)) w1 = (x, w2)" by force
  have "\<exists>updated. x = Inr updated \<and> w' = w2"
    using s(3) [unfolded Let_def] up by (cases x) (auto simp: catch_apply h_ret_def h_fail_def ret_apply split: if_splits option.splits dest: editor_shows)
  with s up that show ?thesis by blast
qed

lemma AdminFormsUpdate_hook:
  assumes "AdminFormsUpdate L decode r w = (Inr (Inr (Goto u)), w')"
  shows "\<exists>i hook v. requestedID r = Inr i \<and> find (\<lambda>h. wd_FormID h = i) (webhook_deliveries (db w)) = Some hook
    \<and> webhook_deliveries (db w') = update_where (\<lambda>h. wd_ID h = wd_ID hook) (set_hook (checkbox r ''webhook_enabled'') v) (webhook_deliveries (db w))
    \<and> wv_webhookSecret v = (if checkbox r ''clear_webhook_secret'' then []
          else if ar_Form r ''webhook_secret'' = [] then wd_Secret hook else ar_Form r ''webhook_secret'')
    \<and> canonicalWebhookHeaders L (if checkbox r ''clear_webhook_headers'' then []
          else if trim_space (ar_Form r ''webhook_headers'') = [] then wd_HeadersJSON hook else ar_Form r ''webhook_headers'')
        = Inr (wv_webhookHeaders v)"
proof -
  from assms obtain i lf updated w1 where s: "requestedID r = Inr i" "GetByID i w = (Inr lf, w1)"
    "Update L (kept_webhook (requested_secrets r lf) (lf_WebhookDelivery lf) (updateFormParams r i)) w1 = (Inr updated, w')"
    by (rule AdminFormsUpdate_runs)
  note l = loadForm_result [OF s(2) [unfolded GetByID_def]]
  have i: "fm_ID (lf_Form lf) = i" using find_SomeD [OF l(2)] by simp
  let ?p = "kept_webhook (requested_secrets r lf) (lf_WebhookDelivery lf) (updateFormParams r i)"
  have p: "up_ID ?p = i" "up_WebhookEnabled ?p = checkbox r ''webhook_enabled''"
    by (simp_all add: kept_webhook_def updateFormParams_def split: option.splits)
  from s(3) obtain hook v where h:
    "find (\<lambda>h. wd_FormID h = up_ID ?p) (webhook_deliveries (db w1)) = Some hook"
    "prepareWebhookDelivery L (up_WebhookEnabled ?p) (up_WebhookURL ?p) (up_WebhookSecret ?p) (up_WebhookHeadersJSON ?p) = Inr v"
    "webhook_deliveries (db w') = update_where (\<lambda>h. wd_ID h = wd_ID hook) (set_hook (up_WebhookEnabled ?p) v) (webhook_deliveries (db w1))"
    by (rule Update_hooks)
  have lf: "lf_WebhookDelivery lf = Some hook" using h(1) l(1,4) i p(1) by simp
  have q: "up_WebhookSecret ?p = (if checkbox r ''clear_webhook_secret'' then []
          else if ar_Form r ''webhook_secret'' = [] then wd_Secret hook else ar_Form r ''webhook_secret'')"
    "up_WebhookHeadersJSON ?p = (if checkbox r ''clear_webhook_headers'' then []
          else if trim_space (ar_Form r ''webhook_headers'') = [] then wd_HeadersJSON hook else ar_Form r ''webhook_headers'')"
    by (simp_all add: kept_webhook_def updateFormParams_def requested_secrets_def lf)
  have "wv_webhookSecret v = up_WebhookSecret ?p" "canonicalWebhookHeaders L (up_WebhookHeadersJSON ?p) = Inr (wv_webhookHeaders v)"
    using h(2) by (auto simp: prepareWebhookDelivery_def Let_def rbind_Inr_iff split: if_splits)
  with s(1) h(1,3) l(1) p q show ?thesis by auto
qed

section \<open>Secrets that the editor does not see\<close>

text \<open>
  The database with every stored webhook secret and header text replaced by one character, and what a
  program does there: \<open>sees g m m'\<close> says that it ends the same way, with \<open>g\<close> of the result.
\<close>

definition star :: "string \<Rightarrow> string" where
  "star s = (if s = [] then [] else ''*'')"

definition star_hook :: "webhook_delivery \<Rightarrow> webhook_delivery" where
  "star_hook h = h\<lparr>wd_Secret := star (wd_Secret h), wd_HeadersJSON := star (wd_HeadersJSON h)\<rparr>"

definition star_db :: "database \<Rightarrow> database" where
  "star_db d = d\<lparr>webhook_deliveries := map star_hook (webhook_deliveries d)\<rparr>"

definition star_world :: "database world \<Rightarrow> database world" where
  "star_world w = w\<lparr>db := star_db (db w)\<rparr>"

definition star_form :: "loaded_form \<Rightarrow> loaded_form" where
  "star_form lf = lf\<lparr>lf_WebhookDelivery := map_option star_hook (lf_WebhookDelivery lf)\<rparr>"

definition sees :: "('a \<Rightarrow> 'b) \<Rightarrow> 'a db_prog \<Rightarrow> 'b db_prog \<Rightarrow> bool" where
  "sees g m m' \<longleftrightarrow> (\<forall>w. m' (star_world w) = (map_sum id g (fst (m w)), star_world (snd (m w))))"

lemma sees_ret: "y = g x \<Longrightarrow> sees g (ret x) (ret y)"
  by (simp add: sees_def ret_apply)

lemma sees_fail: "sees g (fail e) (fail e)"
  by (simp add: sees_def fail_apply)

lemma sees_bnd: "sees g m m' \<Longrightarrow> (\<And>x. sees k (f x) (f' (g x))) \<Longrightarrow> sees k (bnd m f) (bnd m' f')"
  by (auto simp: sees_def bnd_apply split: prod.splits sum.splits)

lemma sees_bnd_id: "sees id m m' \<Longrightarrow> (\<And>x. sees k (f x) (f' x)) \<Longrightarrow> sees k (bnd m f) (bnd m' f')"
  by (auto simp: sees_def bnd_apply split: prod.splits sum.splits)

lemma sees_catch:
  "sees g m m' \<Longrightarrow> (\<And>x. sees k (f x) (f' (map_sum id g x))) \<Longrightarrow> sees k (catch m f) (catch m' f')"
  by (auto simp: sees_def catch_apply split: prod.splits)

lemma sees_wrap_err: "sees g m m' \<Longrightarrow> sees g (wrap_err p m) (wrap_err p m')"
  by (auto simp: sees_def wrap_err_apply split: prod.splits sum.splits)

lemma sees_query: "(\<And>d. f' (star_db d) = g (f d)) \<Longrightarrow> sees g (query f) (query f')"
  by (auto simp: sees_def query_def stmt_def star_world_def split: list.splits option.splits)

lemma sees_query_id: "(\<And>d. f (star_db d) = f d) \<Longrightarrow> sees id (query f) (query f)"
  by (rule sees_query) simp

lemma sees_if: "sees g a a' \<Longrightarrow> sees g b b' \<Longrightarrow> sees g (if c then a else b) (if c then a' else b')"
  by simp

lemma star_db_tables [simp]:
  "forms (star_db d) = forms d" "email_deliveries (star_db d) = email_deliveries d" "mailers (star_db d) = mailers d"
  "captchas (star_db d) = captchas d" "webhook_deliveries (star_db d) = map star_hook (webhook_deliveries d)"
  by (simp_all add: star_db_def)

lemma find_map_star: "find (\<lambda>h. wd_FormID h = i) (map star_hook hs) = map_option star_hook (find (\<lambda>h. wd_FormID h = i) hs)"
  by (induction hs) (simp_all add: star_hook_def)

lemma sees_first: "(\<And>d. tab (star_db d) = tab d) \<Longrightarrow> sees id (first tab p) (first tab p)"
  unfolding first_def
  by (rule sees_bnd [of id]) (auto intro: sees_query sees_ret sees_fail split: option.splits)

lemma sees_loadForm: "sees star_form (loadForm p) (loadForm p)"
  unfolding loadForm_def
proof (rule sees_wrap_err, rule sees_bnd_id [OF sees_first], simp)
  fix f
  have captcha: "\<And>d. captcha_of f (star_db d) = captcha_of f d" by (simp add: captcha_of_def split: option.splits)
  show "sees star_form
     (bnd (query (captcha_of f)) (\<lambda>captcha. bnd (query (\<lambda>d. filter (\<lambda>e. ed_FormID e = fm_ID f) (email_deliveries d))) (\<lambda>emails.
      bnd (query (\<lambda>d. filter (\<lambda>m. list_ex (\<lambda>e. ed_MailerProfileID e = Some (mp_ID m)) emails) (mailers d))) (\<lambda>profiles.
      bnd (query (\<lambda>d. find (\<lambda>h. wd_FormID h = fm_ID f) (webhook_deliveries d))) (\<lambda>hook.
      ret \<lparr>lf_Form = f, lf_EmailDeliveries = emails, lf_Mailers = profiles, lf_WebhookDelivery = hook, lf_CaptchaProfile = captcha\<rparr>)))))
     (bnd (query (captcha_of f)) (\<lambda>captcha. bnd (query (\<lambda>d. filter (\<lambda>e. ed_FormID e = fm_ID f) (email_deliveries d))) (\<lambda>emails.
      bnd (query (\<lambda>d. filter (\<lambda>m. list_ex (\<lambda>e. ed_MailerProfileID e = Some (mp_ID m)) emails) (mailers d))) (\<lambda>profiles.
      bnd (query (\<lambda>d. find (\<lambda>h. wd_FormID h = fm_ID f) (webhook_deliveries d))) (\<lambda>hook.
      ret \<lparr>lf_Form = f, lf_EmailDeliveries = emails, lf_Mailers = profiles, lf_WebhookDelivery = hook, lf_CaptchaProfile = captcha\<rparr>)))))"
    by (intro sees_bnd_id [OF sees_query_id] sees_bnd [OF sees_query [where g = "map_option star_hook"]] sees_ret)
       (simp_all add: captcha find_map_star star_form_def)
qed

lemma sees_h_bind: "sees (map_sum id g) m m' \<Longrightarrow> (\<And>x. sees k (f x) (f' (g x))) \<Longrightarrow> (\<And>e. k (Inl e) = Inl e) \<Longrightarrow> sees k (h_bind m f) (h_bind m' f')"
  unfolding h_bind_def by (erule sees_bnd) (auto intro: sees_ret split: sum.splits)

lemma sees_or_404: "sees g m m' \<Longrightarrow> sees (map_sum id g) (or_404 m) (or_404 m')"
  unfolding or_404_def by (erule sees_catch) (auto simp: h_fail_def h_ret_def intro: sees_ret split: sum.splits)

lemma sees_or_500: "sees g m m' \<Longrightarrow> sees (map_sum id g) (or_500 m) (or_500 m')"
  unfolding or_500_def by (erule sees_catch) (auto simp: h_fail_def h_ret_def intro: sees_ret split: sum.splits)

lemma sees_h_check: "sees id (h_check x) (h_check x)"
  by (simp add: h_check_def sees_ret)

lemma editor_view_star: "editor_view L decode ps cs (Some (star_form lf)) t m secrets = editor_view L decode ps cs (Some lf) t m secrets"
proof -
  have "safe_form (star_form lf) = safe_form lf"
    by (cases "lf_WebhookDelivery lf") (simp_all add: safe_form_def star_form_def hide_hook_def star_hook_def)
  then show ?thesis by (simp add: editor_view_def)
qed

lemma stored_secrets_star: "stored_secrets (star_form lf) = stored_secrets lf"
  by (cases "lf_WebhookDelivery lf") (simp_all add: stored_secrets_def star_form_def star_hook_def star_def)

lemma sees_lists: "sees id ListMailerProfiles ListMailerProfiles" "sees id ListCaptchaProfiles ListCaptchaProfiles"
  by (simp_all add: ListMailerProfiles_def ListCaptchaProfiles_def listProfiles_def mailer_kind_def captcha_kind_def sees_query_id)

lemma sees_renderFormEditor:
  "sees id (renderFormEditor L decode (Some lf) t m secrets) (renderFormEditor L decode (Some (star_form lf)) t m secrets)"
  unfolding renderFormEditor_def editor_view_star
  by (intro sees_h_bind [where g = id] sees_or_500 sees_lists) (simp_all add: h_ret_def sees_ret)

lemma sees_requestedForm: "sees (map_sum id star_form) (requestedForm r) (requestedForm r)"
  unfolding requestedForm_def GetByID_def
  by (intro sees_h_bind [where g = id] sees_or_404 sees_loadForm) (simp_all add: sees_h_check sum.map_id0 sees_loadForm)

lemma sees_AdminFormsEdit: "sees id (AdminFormsEdit L decode r) (AdminFormsEdit L decode r)"
  unfolding AdminFormsEdit_def request_db_def
  by (rule sees_h_bind [where g = id], simp add: sum.map_id0 sees_h_check,
      rule sees_h_bind [OF sees_requestedForm], unfold stored_secrets_star, rule sees_renderFormEditor, simp_all)

section \<open>Attachments\<close>

definition printable :: "char \<Rightarrow> bool" where
  "printable c \<longleftrightarrow> (0x20 :: nat) \<le> of_char c \<and> (of_char c :: nat) \<le> 0x7E \<or> c = CHR 0x09"

lemma hex_printable: "n < 16 \<Longrightarrow> printable (hex_upper n)"
  by (simp add: printable_def hex_upper_def)

lemma percent_printable: "list_all printable (percent c)"
proof -
  have "of_char c mod (256 :: nat) = of_char c" by simp
  then have "(of_char c :: nat) < 256" by (metis mod_less_divisor zero_less_numeral)
  then show ?thesis by (simp add: percent_def hex_printable less_mult_imp_div_less) (simp add: printable_def)
qed

lemma token_printable: "token_char c \<Longrightarrow> printable c"
  by (auto simp: token_char_def printable_def)

text \<open>The header of an attachment has no control character, so it stays on one line, whatever the file is called.\<close>

lemma attachment_one_line: "list_all printable (attachment filename)"
proof -
  have enc: "list_all printable (attribute_char c)" for c
    by (simp add: attribute_char_def percent_printable token_printable)
  have quot: "list_all printable (quoted_char c)" if "\<not> needs_encoding filename" "c \<in> set filename" for c
  proof -
    have "printable c" using that by (auto simp: needs_encoding_def list_ex_iff printable_def not_less)
    then show ?thesis by (simp add: quoted_char_def) (simp add: printable_def)
  qed
  have all: "list_all printable (concat (map f xs))" if "\<And>c. c \<in> set xs \<Longrightarrow> list_all printable (f c)" for f and xs :: string
    using that by (induction xs) auto
  have word: "list_all printable ''attachment; filename*=utf-8''" "list_all printable ''attachment; filename=''"
    "list_all printable [CHR 0x27, CHR 0x27]" "printable (CHR 0x22)"
    by (simp_all add: printable_def)
  show ?thesis
  proof (cases "needs_encoding filename")
    case True
    then show ?thesis using word all [of filename attribute_char] enc by (simp only: attachment_def if_True list_all_append)
  next
    case False
    then have q: "list_all printable (concat (map quoted_char filename))" using quot by (intro all) simp
    have "list_all token_char filename \<Longrightarrow> list_all printable filename" by (auto simp: list_all_iff token_printable)
    with False q word show ?thesis by (simp only: attachment_def if_False list_all_append list.pred_inject split: if_splits) simp
  qed
qed

section \<open>Parts of a file\<close>

text \<open>What the parser of byte ranges promises: a range within the file.\<close>

definition range_parser :: "(string \<Rightarrow> int \<Rightarrow> err + (int \<times> int)) \<Rightarrow> bool" where
  "range_parser p \<longleftrightarrow> (\<forall>v n a b. p v n = Inr (a, b) \<longrightarrow> 0 \<le> a \<and> a \<le> b \<and> b < n)"

lemma sendDownload_part:
  assumes "range_parser (dl_ParseByteRange D)"
    and "sendDownload D r hs source = Inr (Show 206 (ContentView c))"
  shows "\<exists>a b. a \<le> b \<and> b < length source \<and> length (ct_Body c) = b - a + 1
    \<and> source = take a source @ ct_Body c @ drop (Suc b) source
    \<and> (''Content-Range'', ''bytes '' @ dec_digits a @ ''-'' @ dec_digits b @ ''/'' @ dec_digits (length source)) \<in> set (ct_Headers c)"
proof -
  from assms(2) obtain a b where p: "dl_ParseByteRange D (ar_Header r ''Range'') (int (length source)) = Inr (a, b)"
    and c: "ct_Body c = take (nat (b - a + 1)) (drop (nat a) source)"
      "(''Content-Range'', ''bytes '' @ itoa a @ ''-'' @ itoa b @ ''/'' @ itoa (int (length source))) \<in> set (ct_Headers c)"
    by (auto simp: sendDownload_def Let_def split: if_splits sum.splits prod.splits option.splits)
  have range: "0 \<le> a" "a \<le> b" "b < int (length source)" using assms(1) p unfolding range_parser_def by blast+
  then have n: "nat (b - a + 1) = nat b - nat a + 1" by linarith
  have "nat b - nat a + 1 + nat a = Suc (nat b)" using range by linarith
  then have "drop (nat b - nat a + 1) (drop (nat a) source) = drop (Suc (nat b)) source" by (simp only: drop_drop)
  then have "source = take (nat a) source @ take (nat b - nat a + 1) (drop (nat a) source) @ drop (Suc (nat b)) source"
    by (metis append_take_drop_id)
  moreover have "itoa a = dec_digits (nat a)" "itoa b = dec_digits (nat b)" "itoa (int (length source)) = dec_digits (length source)"
    using range by (simp_all add: itoa_def)
  ultimately show ?thesis
    using range c n by (intro exI [of _ "nat a"] exI [of _ "nat b"]) (auto simp: nat_le_eq_zle)
qed

lemma sendDownload_headers:
  "sendDownload D r hs source = Inr (Show 206 (ContentView c)) \<Longrightarrow> set hs \<subseteq> set (ct_Headers c)"
  by (auto simp: sendDownload_def Let_def split: if_splits sum.splits prod.splits option.splits)

lemma AdminSubmissionFileDownload_runs:
  assumes "AdminSubmissionFileDownload L D r w = (Inr (Inr (Show n (ContentView c))), w')"
  obtains i j stored w1 w2 source where "requestedID r = Inr i" "paramID r ''file_id'' = Inr j"
    "GetSubmissionFile i j w = (Inr stored, w1)" "OpenSubmissionFile L stored w1 = (Inr source, w2)" "w' = w2"
    "sendDownload D r [(''Content-Disposition'', attachment (sf_Filename stored)), (''Content-Type'', download_type D stored)] source
       = Inr (Show n (ContentView c))"
proof -
  from assms obtain i j stored w1 where s: "requestedID r = Inr i" "paramID r ''file_id'' = Inr j" "GetSubmissionFile i j w = (Inr stored, w1)"
    "catch (OpenSubmissionFile L stored) (\<lambda>opened. case opened of
       Inl e \<Rightarrow> if err_is ErrNotExist e then h_fail ErrNotFoundPage else h_fail ErrInternalServerError
     | Inr source \<Rightarrow>
         if dl_Stat D \<noteq> None then h_fail ErrInternalServerError
         else h_check (sendDownload D r
           [(''Content-Disposition'', attachment (sf_Filename stored)), (''Content-Type'', download_type D stored)] source)) w1
      = (Inr (Inr (Show n (ContentView c))), w')"
    unfolding AdminSubmissionFileDownload_def request_db_def by (elim h_bind_okE) (auto simp: or_404_ok h_check_ok)
  obtain x w2 where o: "OpenSubmissionFile L stored w1 = (x, w2)" by force
  have "\<exists>source. x = Inr source \<and> w' = w2 \<and> sendDownload D r
       [(''Content-Disposition'', attachment (sf_Filename stored)), (''Content-Type'', download_type D stored)] source = Inr (Show n (ContentView c))"
    using s(4) o by (cases x) (auto simp: catch_apply h_check_ok h_fail_def ret_apply split: if_splits)
  with s o that show ?thesis by blast
qed

lemma GetSubmissionFile_InrD:
  "GetSubmissionFile i j w = (Inr f, w') \<Longrightarrow> f \<in> set (submission_files (db w)) \<and> sf_SubmissionID f = i \<and> sf_ID f = j \<and> db w' = db w"
  unfolding GetSubmissionFile_def by (auto elim!: first_InrE dest: find_SomeD)

lemma OpenSubmissionFile_InrD:
  "OpenSubmissionFile L f w = (Inr s, w') \<Longrightarrow> file_at (disk w') (sf_StoragePath f) = Some s \<and> db w' = db w"
  by (auto simp: OpenSubmissionFile_def wrap_err_apply fs_op_def split: list.splits option.splits prod.splits sum.splits)

section \<open>The last page number\<close>

text \<open>
  The offset is computed on 64 bits: with twenty entries a page, the greatest page number gives a
  negative offset, which the query drops, so that the newest entries are shown as that page.
\<close>

lemma greatest_page_shows_first: "page_items (2 ^ 63 - 1) 20 rows = take 20 rows"
  by (simp add: page_items_def sql_limit_def wrap64_def)

end
