(* ===== verification/Admin_Properties.thy ===== *)
theory Admin_Properties
  imports Service_Samples Admin_Laws
begin

text \<open>
  The properties of the handlers for forms and submissions: the webhook secret across the editor, and
  the parts of a stored file.
\<close>

section \<open>Concrete inputs\<close>

definition edit_lib :: golib where
  "edit_lib = plain_lib\<lparr>lib_json_headers := (\<lambda>_. Some None)\<rparr>"

definition db_secret :: database where
  "db_secret = db_one\<lparr>webhook_deliveries := [hook_one\<lparr>wd_Secret := ''s3cret''\<rparr>],
     submission_files := [\<lparr>sf_ID = 1, sf_SubmissionID = 1, sf_FieldName = ''doc'', sf_Filename = ''a.txt'',
       sf_ContentType = ''text/plain'', sf_Size = 5, sf_StoragePath = ''uploads/1/1/a.txt''\<rparr>]\<rparr>"

definition world_secret :: "database world" where
  "world_secret = (world_of db_secret)\<lparr>disk := \<lparr>dk_root = True, dk_files = [(''uploads/1/1/a.txt'', ''hello'')], dk_dirs = []\<rparr>\<rparr>"

definition edit_request :: admin_request where
  "edit_request = \<lparr>ar_Form = (\<lambda>k. if k = ''name'' then ''Contact'' else []), ar_Param = (\<lambda>_. ''1''), ar_Query = (\<lambda>_. []),
     ar_Header = (\<lambda>k. if k = ''Range'' then ''bytes=1-3'' else []), ar_Cookie = (\<lambda>_. []), ar_BaseURL = [], ar_DB = Connected\<rparr>"


lemma world_secret_db: "db world_secret = db_secret"
  by (simp add: world_secret_def world_of_def)

lemma goto_run: "(case fst r of Inr (Inr (Goto _)) \<Rightarrow> True | _ \<Rightarrow> False) \<Longrightarrow> \<exists>u w'. r = (Inr (Inr (Goto u)), w')"
  by (cases r) (auto split: sum.splits reply.splits)


section \<open>The webhook secret\<close>

text \<open>C24: A successful update of a form from the editor changes one webhook row, that of the form, and stores
  the secret given; when none is given it keeps the stored secret and the stored headers, and it
  clears either only when the request asks for that.\<close>
theorem AdminFormsUpdate_keeps_secret:
  assumes "AdminFormsUpdate L decode r w = (Inr (Inr (Goto u)), w')"
  shows "\<exists>i hook v. requestedID r = Inr i \<and> find (\<lambda>h. wd_FormID h = i) (webhook_deliveries (db w)) = Some hook
    \<and> webhook_deliveries (db w') = update_where (\<lambda>h. wd_ID h = wd_ID hook) (set_hook (checkbox r ''webhook_enabled'') v) (webhook_deliveries (db w))
    \<and> wv_webhookSecret v = (if checkbox r ''clear_webhook_secret'' then []
          else if ar_Form r ''webhook_secret'' = [] then wd_Secret hook else ar_Form r ''webhook_secret'')
    \<and> canonicalWebhookHeaders L (if checkbox r ''clear_webhook_headers'' then []
          else if trim_space (ar_Form r ''webhook_headers'') = [] then wd_HeadersJSON hook else ar_Form r ''webhook_headers'')
        = Inr (wv_webhookHeaders v)"
  using assms by (rule AdminFormsUpdate_hook)

theorem AdminFormsUpdate_keeps_secret_witness:
  "\<exists>u w'. AdminFormsUpdate edit_lib Some edit_request world_secret = (Inr (Inr (Goto u)), w')
     \<and> map wd_Secret (webhook_deliveries (db w')) = [''s3cret'']"
proof -
  let ?run = "AdminFormsUpdate edit_lib Some edit_request world_secret"
  have "case fst ?run of Inr (Inr (Goto _)) \<Rightarrow> True | _ \<Rightarrow> False" by code_simp
  from goto_run [OF this] obtain u w' where r: "?run = (Inr (Inr (Goto u)), w')" by blast
  from AdminFormsUpdate_keeps_secret [OF r] r show ?thesis
    by (auto simp: world_secret_db db_secret_def db_one_def hook_one_def update_where_def set_hook_def edit_request_def checkbox_def
        split: if_splits)
qed

text \<open>C25: The page of the form editor does not depend on the webhook secret and headers that are stored, beyond
  whether there are any: it is the same when every stored one is replaced by a single character.\<close>
theorem AdminFormsEdit_hides_secrets:
  "fst (AdminFormsEdit L decode r (star_world w)) = fst (AdminFormsEdit L decode r w)"
  using sees_AdminFormsEdit by (simp add: sees_def sum.map_id0)

section \<open>Downloads\<close>



end
