(* ===== verification/Export_Laws.thy ===== *)
theory Export_Laws
  imports Export
begin

text \<open>
  What an export promises: a reader of the format gets every cell back, no text cell starts a
  spreadsheet formula, and an export that succeeds is whole and within the limits.
\<close>

section \<open>Reading the format back\<close>

fun read_quoted :: "string \<Rightarrow> (string \<times> string) option" where
  "read_quoted [] = None"
| "read_quoted [c] = (if c = CHR 0x22 then Some ([], []) else None)"
| "read_quoted (c # d # s) =
     (if c = CHR 0x22
      then (if d = CHR 0x22 then map_option (\<lambda>(f, r). (c # f, r)) (read_quoted s) else Some ([], d # s))
      else map_option (\<lambda>(f, r). (c # f, r)) (read_quoted (d # s)))"

definition plain_char :: "char \<Rightarrow> bool" where
  "plain_char c \<longleftrightarrow> c \<noteq> CHR '','' \<and> c \<noteq> CHR 0x0A"

definition read_field :: "string \<Rightarrow> (string \<times> string) option" where
  "read_field s =
     (case s of
        [] \<Rightarrow> Some ([], [])
      | c # r \<Rightarrow> if c = CHR 0x22 then read_quoted r else Some (takeWhile plain_char s, dropWhile plain_char s))"

text \<open>A record of \<open>n\<close> fields, and \<open>k\<close> records of them.\<close>

fun read_row :: "nat \<Rightarrow> string \<Rightarrow> (string list \<times> string) option" where
  "read_row 0 s = None"
| "read_row (Suc n) s =
     (case read_field s of
        None \<Rightarrow> None
      | Some (f, r) \<Rightarrow>
          (case r of
             [] \<Rightarrow> None
           | c # r' \<Rightarrow>
               if n = 0 then (if c = CHR 0x0A then Some ([f], r') else None)
               else if c = CHR '','' then map_option (\<lambda>(fs, t). (f # fs, t)) (read_row n r') else None))"

fun read_rows :: "nat \<Rightarrow> nat \<Rightarrow> string \<Rightarrow> string list list option" where
  "read_rows n 0 s = (if s = [] then Some [] else None)"
| "read_rows n (Suc k) s =
     (case read_row n s of
        None \<Rightarrow> None
      | Some (fs, r) \<Rightarrow> map_option (\<lambda>rows. fs # rows) (read_rows n k r))"

lemma read_quoted_body:
  assumes "r \<noteq> []" "hd r \<noteq> CHR 0x22"
  shows "read_quoted (concat (map (\<lambda>c. if c = CHR 0x22 then [CHR 0x22, CHR 0x22] else [c]) f) @ [CHR 0x22] @ r) = Some (f, r)"
proof (induction f)
  case Nil
  show ?case using assms by (cases r) auto
next
  case (Cons c f)
  let ?q = "\<lambda>f. concat (map (\<lambda>c. if c = CHR 0x22 then [CHR 0x22, CHR 0x22] else [c]) f) @ [CHR 0x22] @ r"
  show ?case
  proof (cases "c = CHR 0x22")
    case True
    then show ?thesis using Cons.IH by simp
  next
    case False
    obtain d s where "?q f = d # s" by (cases "?q f") auto
    with False Cons.IH show ?thesis by simp
  qed
qed

lemma read_field_plain:
  "s \<noteq> [] \<Longrightarrow> hd s \<noteq> CHR 0x22 \<Longrightarrow> read_field s = Some (takeWhile plain_char s, dropWhile plain_char s)"
  by (cases s) (simp_all add: read_field_def)

lemma read_field_csv:
  assumes "r \<noteq> []" "hd r = CHR '','' \<or> hd r = CHR 0x0A"
  shows "read_field (csv_field f @ r) = Some (f, r)"
proof (cases "fieldNeedsQuotes f")
  case True
  have "hd r \<noteq> CHR 0x22" using assms(2) by auto
  from read_quoted_body [OF assms(1) this, of f] True show ?thesis by (simp add: csv_field_def read_field_def)
next
  case False
  have ends: "takeWhile plain_char r = []" "dropWhile plain_char r = r" using assms by (cases r; auto simp: plain_char_def)+
  have all: "\<forall>c\<in>set f. plain_char c" "\<forall>c\<in>set f. c \<noteq> CHR 0x22"
    using False by (auto simp: fieldNeedsQuotes_def plain_char_def)
  have "takeWhile plain_char (f @ r) = f" "dropWhile plain_char (f @ r) = r"
    using all(1) ends by (simp_all add: takeWhile_append2 dropWhile_append2)
  moreover have "hd (f @ r) \<noteq> CHR 0x22" using all(2) assms(2) by (cases f) auto
  moreover have "csv_field f = f" "f @ r \<noteq> []" using False assms(1) by (simp_all add: csv_field_def)
  ultimately show ?thesis by (metis read_field_plain)
qed

lemma read_row_csv: "fs \<noteq> [] \<Longrightarrow> read_row (length fs) (csv_row fs @ r) = Some (fs, r)"
proof (induction fs)
  case (Cons f fs)
  show ?case
  proof (cases "fs = []")
    case True
    have "read_field (csv_field f @ CHR 0x0A # r) = Some (f, CHR 0x0A # r)" by (rule read_field_csv) auto
    with True show ?thesis by (simp add: csv_row_def)
  next
    case False
    have "csv_row (f # fs) @ r = csv_field f @ CHR '','' # (csv_row fs @ r)"
      using False by (cases fs) (simp_all add: csv_row_def)
    moreover have "read_field (csv_field f @ CHR '','' # (csv_row fs @ r)) = Some (f, CHR '','' # (csv_row fs @ r))"
      by (rule read_field_csv) auto
    ultimately show ?thesis using Cons.IH [OF False] False by simp
  qed
qed simp

lemma read_rows_csv:
  "n \<noteq> 0 \<Longrightarrow> \<forall>fs\<in>set rows. length fs = n \<Longrightarrow> read_rows n (length rows) (concat (map csv_row rows)) = Some rows"
proof (induction rows)
  case (Cons fs rows)
  then have "fs \<noteq> []" "length fs = n" by auto
  from read_row_csv [OF this(1), of "concat (map csv_row rows)"] this(2) Cons show ?case by simp
qed simp

section \<open>Cells that are safe to open\<close>

definition formula :: "string \<Rightarrow> bool" where
  "formula s \<longleftrightarrow> (\<exists>c r. trim_left_space s = c # r \<and> c \<in> set ''=+-@'')"

lemma trim_left_quote: "trim_left_space (CHR 0x27 # s) = CHR 0x27 # s"
  by (simp add: trim_left_space_def trim_pieces.simps space_runes_def)

lemma safeCSVText_safe: "\<not> formula (safeCSVText v)"
  by (auto simp: formula_def safeCSVText_def trim_left_quote split: list.splits)

lemma safeCSVText_keeps: "\<not> formula v \<Longrightarrow> safeCSVText v = v"
  by (auto simp: formula_def safeCSVText_def split: list.splits)

text \<open>A field cell is empty, safe text, or a JSON value other than a string.\<close>

lemma csvFieldValue_cases:
  assumes "csvFieldValue X val = Inr cell"
  shows "\<not> formula cell \<or> (\<exists>raw. val = Some raw \<and> cell = trim_space raw \<and> hd cell \<noteq> CHR 0x22)"
proof -
  let ?t = "trim_space (case val of None \<Rightarrow> [] | Some raw \<Rightarrow> raw)"
  have empty: "\<not> formula []" "trim_space [] = []"
    by (simp_all add: formula_def trim_space_def trim_right_space_def trim_left_space_def trim_pieces.simps space_runes_def)
  show ?thesis
  proof (cases ?t)
    case Nil
    then show ?thesis using assms empty by (simp add: csvFieldValue_def)
  next
    case (Cons c r)
    then obtain raw where v: "val = Some raw" "trim_space raw = c # r" using empty by (cases val) auto
    show ?thesis
    proof (cases "c = CHR 0x22")
      case True
      then show ?thesis using assms v safeCSVText_safe
        by (auto simp: csvFieldValue_def Let_def rbind_def split: sum.splits)
    next
      case False
      then have "cell = [] \<or> cell = c # r" using assms v by (auto simp: csvFieldValue_def Let_def split: if_splits)
      then show ?thesis using empty(1) v False by (metis list.sel(1))
    qed
  qed
qed

section \<open>Names\<close>

lemma add_field_Inr:
  "add_field name raw names = Inr names' \<longleftrightarrow>
     names' = (if name \<in> set names then names else names @ [name]) \<and> int (length names') \<le> MaxCSVExportFields"
  by (auto simp: add_field_def Let_def not_le)

lemma update_key_set: "fst ` set (AList.update k v xs) = insert k (fst ` set xs)"
  by (induction xs) auto

text \<open>Collecting keeps what is there, adds every member, and what it accepts decodes.\<close>

lemma collect_members:
  "visit_members add_field ms names = Inr names' \<Longrightarrow> distinct names \<Longrightarrow> int (length names) \<le> MaxCSVExportFields \<Longrightarrow>
   distinct names' \<and> int (length names') \<le> MaxCSVExportFields \<and> set names \<subseteq> set names'
   \<and> (\<exists>payload'. visit_members (\<lambda>name raw payload. Inr (AList.update name raw payload)) ms payload = Inr payload'
        \<and> fst ` set payload' \<subseteq> fst ` set payload \<union> set names')"
proof (induction ms arbitrary: names payload)
  case (Cons m ms)
  obtain token val where m: "m = (token, val)" by (cases m)
  from Cons.prems(1) obtain name raw names1 where n: "token = Inr (StringToken name)" "val = Inr raw" "add_field name raw names = Inr names1"
    "visit_members add_field ms names1 = Inr names'"
    by (auto simp: m rbind_Inr_iff split: sum.splits json_token.splits)
  have ok: "distinct names1" "int (length names1) \<le> MaxCSVExportFields" "set names \<subseteq> set names1" "name \<in> set names1"
    using n(3) Cons.prems(2) by (auto simp: add_field_Inr split: if_splits)
  from Cons.IH [OF n(4) ok(1,2), of "AList.update name raw payload"] obtain payload' where
    i: "distinct names'" "int (length names') \<le> MaxCSVExportFields" "set names1 \<subseteq> set names'"
    "visit_members (\<lambda>name raw payload. Inr (AList.update name raw payload)) ms (AList.update name raw payload) = Inr payload'"
    "fst ` set payload' \<subseteq> fst ` set (AList.update name raw payload) \<union> set names'" by blast
  have "name \<in> set names'" using ok(4) i(3) by blast
  with i(5) have "fst ` set payload' \<subseteq> fst ` set payload \<union> set names'"
    unfolding update_key_set by blast
  moreover have "set names \<subseteq> set names'" using ok(3) i(3) by blast
  ultimately show ?case using i(1,2,4) by (simp add: m n(1,2))
qed auto

lemma collectCSVFieldNames_result:
  assumes "collectCSVFieldNames X encoded names = Inr names'" "distinct names" "int (length names) \<le> MaxCSVExportFields"
  shows "distinct names' \<and> int (length names') \<le> MaxCSVExportFields \<and> set names \<subseteq> set names'
    \<and> (\<exists>payload. decodeCSVPayload X encoded = Inr payload \<and> fst ` set payload \<subseteq> set names')"
proof -
  let ?w = "cl_walk X encoded"
  from assms(1) obtain names1 where o: "jw_opening ?w = Inr (Delim (CHR ''{''))" "visit_members add_field (jw_members ?w) names = Inr names1"
    "jw_closing ?w = Inr (Delim (CHR ''}''))" "jw_trailing ?w = JEof" "names' = names1"
    by (auto simp: collectCSVFieldNames_def visitCSVPayload_def Let_def rbind_Inr_iff split: if_splits json_next.splits)
  from collect_members [OF o(2) assms(2,3), of "[]"] o show ?thesis
    by (auto simp: decodeCSVPayload_def visitCSVPayload_def Let_def)
qed

definition content_bytes :: "submission list \<Rightarrow> int" where
  "content_bytes ss = sum_list (map (\<lambda>s. int (length (sb_DataJSON s) + length (sb_UserAgent s))) ss)"

lemma collect_each_result:
  "collect_each X ss bytes names = Inr names' \<Longrightarrow> distinct names \<Longrightarrow> int (length names) \<le> MaxCSVExportFields \<Longrightarrow>
   bytes \<le> MaxCSVExportContentBytes \<Longrightarrow>
   distinct names' \<and> int (length names') \<le> MaxCSVExportFields \<and> set names \<subseteq> set names' \<and> bytes + content_bytes ss \<le> MaxCSVExportContentBytes
   \<and> (\<forall>s\<in>set ss. \<exists>payload. decodeCSVPayload X (sb_DataJSON s) = Inr payload \<and> fst ` set payload \<subseteq> set names')"
proof (induction ss arbitrary: bytes names)
  case (Cons s ss)
  let ?b = "bytes + int (length (sb_DataJSON s) + length (sb_UserAgent s))"
  from Cons.prems(1) obtain names1 where c: "?b \<le> MaxCSVExportContentBytes" "collectCSVFieldNames X (sb_DataJSON s) names = Inr names1"
    "collect_each X ss ?b names1 = Inr names'"
    by (auto simp: Let_def not_le split: if_splits sum.splits)
  from collectCSVFieldNames_result [OF c(2) Cons.prems(2,3)] obtain payload where n: "distinct names1" "int (length names1) \<le> MaxCSVExportFields"
    "set names \<subseteq> set names1" "decodeCSVPayload X (sb_DataJSON s) = Inr payload" "fst ` set payload \<subseteq> set names1" by auto
  from Cons.IH [OF c(3) n(1,2) c(1)] n(3-5) show ?case by (auto simp: content_bytes_def)
qed (auto simp: content_bytes_def)

section \<open>Rows\<close>

lemma field_cells_result:
  "field_cells L X i payload names = Inr cells \<Longrightarrow>
   length cells = length names \<and> (\<forall>k < length names. csvFieldValue X (map_of payload (names ! k)) = Inr (cells ! k))"
proof (induction names arbitrary: cells)
  case (Cons name names)
  then obtain v vs where v: "csvFieldValue X (map_of payload name) = Inr v" "field_cells L X i payload names = Inr vs" "cells = v # vs"
    by (auto simp: rbind_Inr_iff split: sum.splits)
  with Cons.IH [OF v(2)] show ?case by (auto simp: nth_Cons split: nat.split)
qed auto

text \<open>What a row says of its submission.\<close>

definition row_for :: "golib \<Rightarrow> csvlib \<Rightarrow> string list \<Rightarrow> submission \<times> string \<times> string \<Rightarrow> string list \<Rightarrow> bool" where
  "row_for L X names r row \<longleftrightarrow> (\<exists>payload cells. decodeCSVPayload X (sb_DataJSON (fst r)) = Inr payload
     \<and> row = [dec_digits (sb_ID (fst r)), lib_rfc3339 L (sb_CreatedAt (fst r)), dec_digits (sb_FormID (fst r)),
              safeCSVText (fst (snd r)), safeCSVText (snd (snd r)), bool_text (sb_IsSpam (fst r)), safeCSVText (sb_UserAgent (fst r))] @ cells
     \<and> length cells = length names
     \<and> (\<forall>k < length names. csvFieldValue X (map_of payload (names ! k)) = Inr (cells ! k)))"

lemma csv_cells_result: "csv_cells L X names r = Inr row \<Longrightarrow> row_for L X names r row"
  by (auto simp: csv_cells_def row_for_def rbind_Inr_iff split: prod.splits sum.splits dest!: field_cells_result)

lemma write_rows_result:
  "write_rows L X out names n rs = Inr rows \<Longrightarrow> list_all2 (row_for L X names) rs rows"
proof (induction rs arbitrary: n rows)
  case (Cons r rs)
  then obtain cells rows' where "csv_cells L X names r = Inr cells" "write_rows L X out names (Suc n) rs = Inr rows'" "rows = cells # rows'"
    by (auto simp: rbind_Inr_iff split: option.splits)
  with Cons.IH csv_cells_result show ?case by auto
qed simp

lemma write_csv_result:
  "write_csv L X out names rs = Inr rows \<Longrightarrow> \<exists>rows'. rows = csv_header names # rows' \<and> list_all2 (row_for L X names) rs rows'"
  by (auto simp: write_csv_def rbind_Inr_iff split: option.splits dest: write_rows_result)

lemma row_for_length: "row_for L X names r row \<Longrightarrow> length row = 7 + length names"
  by (auto simp: row_for_def)

lemma rows_for_length: "list_all2 (row_for L X names) rs rows \<Longrightarrow> \<forall>row\<in>set rows. length row = 7 + length names"
  by (induction rule: list_all2_induct) (auto dest: row_for_length)

lemma measured_eq: "measured ss = (int (length ss), content_bytes ss)"
  by (induction ss) (auto simp: content_bytes_def)

section \<open>The export as a whole\<close>

lemma reads_measure: "reads (measureCSVExport p)"
  unfolding measureCSVExport_def by (intro tx_keeps)

lemma measureCSVExport_InrD:
  "measureCSVExport p w = (Inr (n, b), w') \<Longrightarrow>
   n = min (MaxCSVExportEntries + 1) (int (length (filter p (submissions (db w)))))
   \<and> b = content_bytes (sql_limit (MaxCSVExportEntries + 1) (filter p (submissions (db w)))) \<and> db w' = db w"
  unfolding measureCSVExport_def by (auto simp: measured_eq sql_limit_def MaxCSVExportEntries_def elim!: query_InrE)

text \<open>A form's name and slug, or nothing.\<close>

definition with_form :: "form list \<Rightarrow> submission \<Rightarrow> submission \<times> string \<times> string" where
  "with_form fs s = (case find (\<lambda>f. fm_ID f = sb_FormID s) fs of None \<Rightarrow> (s, [], []) | Some f \<Rightarrow> (s, fm_Name f, fm_Slug f))"

lemma fst_with_form [simp]: "fst (with_form fs s) = s"
  by (simp add: with_form_def split: option.split)

lemma csv_rows_InrD:
  assumes "csv_rows p w = (Inr rs, w')"
  shows "rs = map (with_form (forms (db w))) (sql_limit (MaxCSVExportEntries + 1) (newest_first (filter p (submissions (db w))))) \<and> db w' = db w"
  using assms unfolding csv_rows_def with_form_def [abs_def]
  by (auto elim!: bnd_InrE query_InrE split: if_splits)

lemma length_newest_first [simp]: "length (newest_first ss) = length ss"
  by (simp add: newest_first_def)

text \<open>The matching submissions, newest first, each with its form.\<close>

definition exported :: "(submission \<Rightarrow> bool) \<Rightarrow> database \<Rightarrow> (submission \<times> string \<times> string) list" where
  "exported p d = map (with_form (forms d)) (newest_first (filter p (submissions d)))"

lemma ExportSubmissionsCSV_result:
  assumes "ExportSubmissionsCSV L X out f w = (Inr (n, text), w')"
  shows "\<exists>now p names rows. submissionFilterQuery f now = Inr p \<and> db w' = db w
    \<and> n = length (exported p (db w)) \<and> n \<le> 10000 \<and> content_bytes (filter p (submissions (db w))) \<le> 8 * 1024 * 1024
    \<and> distinct names \<and> sorted names \<and> length names \<le> 500
    \<and> (\<forall>s\<in>set (filter p (submissions (db w))). \<exists>payload. decodeCSVPayload X (sb_DataJSON s) = Inr payload \<and> fst ` set payload \<subseteq> set names)
    \<and> list_all2 (row_for L X names) (exported p (db w)) rows
    \<and> read_rows (7 + length names) (Suc n) text = Some (csv_header names # rows)"
proof -
  from assms obtain now w1 p where t: "time_now w = (Inr now, w1)" "submissionFilterQuery f now = Inr p"
    and rest: "export_selected L X out p w1 = (Inr (n, text), w')"
    unfolding ExportSubmissionsCSV_def by (auto elim!: bnd_InrE)
  have d1: "db w1 = db w" using readsD [OF reads_time_now t(1)] .
  from rest obtain c b w2 where m: "measureCSVExport p w1 = (Inr (c, b), w2)" "\<not> c > MaxCSVExportEntries" "\<not> b > MaxCSVExportContentBytes"
    and rest2: "bnd (csv_rows p) (\<lambda>rs.
          if int (length rs) > MaxCSVExportEntries then fail too_many_entries
          else bnd (of_result (collect_each X (map fst rs) 0 [])) (\<lambda>fieldSet.
               bnd (of_result (write_csv L X out (sort fieldSet) rs)) (\<lambda>rows.
               ret (length rs, concat (map csv_row rows))))) w2 = (Inr (n, text), w')"
    unfolding export_selected_def by (rule bnd_InrE) (auto simp: fail_apply split: if_splits)
  from rest2 obtain rs w3 where r: "csv_rows p w2 = (Inr rs, w3)"
    and rest3: "bnd (of_result (collect_each X (map fst rs) 0 [])) (\<lambda>fieldSet.
               bnd (of_result (write_csv L X out (sort fieldSet) rs)) (\<lambda>rows.
               ret (length rs, concat (map csv_row rows)))) w3 = (Inr (n, text), w')"
    by (rule bnd_InrE) (auto simp: fail_apply split: if_splits)
  from rest3 obtain fs rows where c: "collect_each X (map fst rs) 0 [] = Inr fs" "write_csv L X out (sort fs) rs = Inr rows"
    "n = length rs" "text = concat (map csv_row rows)" "db w' = db w3"
    by (auto elim!: bnd_InrE)
  let ?rows = "filter p (submissions (db w))"
  from measureCSVExport_InrD [OF m(1)] m(2,3) d1 have few: "int (length ?rows) \<le> MaxCSVExportEntries" and d2: "db w2 = db w"
    and bytes: "content_bytes ?rows \<le> MaxCSVExportContentBytes" by (auto simp: min_def sql_limit_code split: if_splits)
  from csv_rows_InrD [OF r] d2 few have rs: "rs = exported p (db w)" and d3: "db w3 = db w" by (auto simp: exported_def sql_limit_code)
  have subs: "map fst rs = newest_first ?rows" by (simp add: rs exported_def comp_def)
  from collect_each_result [OF c(1)] have names: "distinct fs" "int (length fs) \<le> MaxCSVExportFields"
    "\<forall>s\<in>set ?rows. \<exists>payload. decodeCSVPayload X (sb_DataJSON s) = Inr payload \<and> fst ` set payload \<subseteq> set fs"
    unfolding subs by (auto simp: newest_first_def MaxCSVExportFields_def MaxCSVExportContentBytes_def)
  from write_csv_result [OF c(2)] obtain rows' where w: "rows = csv_header (sort fs) # rows'" "list_all2 (row_for L X (sort fs)) rs rows'" by blast
  have len: "length rows' = n" using w(2) c(3) by (simp add: list_all2_lengthD)
  have width: "\<forall>row\<in>set rows. length row = 7 + length fs"
    using rows_for_length [OF w(2)] by (simp add: w(1) csv_header_def csvMetadataColumns_def)
  have "read_rows (7 + length fs) (length rows) (concat (map csv_row rows)) = Some rows"
    by (rule read_rows_csv) (use width in auto)
  then have "read_rows (7 + length (sort fs)) (Suc n) text = Some (csv_header (sort fs) # rows')"
    using w(1) len c(4) by simp
  moreover have "n = length (exported p (db w))" "n \<le> 10000" using c(3) rs few by (simp_all add: exported_def MaxCSVExportEntries_def)
  moreover have "content_bytes ?rows \<le> 8 * 1024 * 1024" "length (sort fs) \<le> 500"
    using bytes names(2) by (simp_all add: MaxCSVExportContentBytes_def MaxCSVExportFields_def)
  ultimately show ?thesis using t(2) c(5) d3 names w(2) rs
    by (intro exI [of _ now] exI [of _ p] exI [of _ "sort fs"] exI [of _ rows']) auto
qed

text \<open>Which cells of a row are text that a visitor or the owner chose, and all of them are safe.\<close>

lemma row_for_safe:
  assumes "row_for L X names r row" "k < length row"
  shows "k = 0 \<or> k = 1 \<or> k = 2 \<or> k = 5 \<or> \<not> formula (row ! k)
    \<or> (\<exists>payload raw. decodeCSVPayload X (sb_DataJSON (fst r)) = Inr payload \<and> map_of payload (names ! (k - 7)) = Some raw
         \<and> row ! k = trim_space raw \<and> hd (row ! k) \<noteq> CHR 0x22)"
proof -
  from assms(1) obtain payload cells where c: "decodeCSVPayload X (sb_DataJSON (fst r)) = Inr payload"
    "row = [dec_digits (sb_ID (fst r)), lib_rfc3339 L (sb_CreatedAt (fst r)), dec_digits (sb_FormID (fst r)),
        safeCSVText (fst (snd r)), safeCSVText (snd (snd r)), bool_text (sb_IsSpam (fst r)), safeCSVText (sb_UserAgent (fst r))] @ cells"
    "length cells = length names" "\<forall>j < length names. csvFieldValue X (map_of payload (names ! j)) = Inr (cells ! j)"
    unfolding row_for_def by blast
  show ?thesis
  proof (cases "k < 7")
    case True
    then have "k \<in> {0, 1, 2, 3, 4, 5, 6}" by auto
    then show ?thesis using safeCSVText_safe by (auto simp: c(2))
  next
    case False
    let ?pre = "[dec_digits (sb_ID (fst r)), lib_rfc3339 L (sb_CreatedAt (fst r)), dec_digits (sb_FormID (fst r)),
        safeCSVText (fst (snd r)), safeCSVText (snd (snd r)), bool_text (sb_IsSpam (fst r)), safeCSVText (sb_UserAgent (fst r))]"
    have pre: "length ?pre = 7" by simp
    with False have "row ! k = cells ! (k - 7)" unfolding c(2) nth_append by (simp only: if_False)
    moreover have "k - 7 < length names" using False assms(2) pre unfolding c(2) by (simp only: length_append c(3) flip: less_diff_conv2)
    ultimately have j: "k - 7 < length names" "row ! k = cells ! (k - 7)" by auto
    from csvFieldValue_cases [OF c(4) [rule_format, OF j(1)]] c(1) j(2) show ?thesis by auto
  qed
qed

end
