(* ===== verification/Share_Properties.thy ===== *)
theory Share_Properties
  imports Service_Samples Embed Export_Laws
begin

text \<open>
  The properties of what leaves the program: the CSV export of the inbox and the markup a site owner
  copies.
\<close>

section \<open>Concrete inputs\<close>

definition csvlib_one :: csvlib where
  "csvlib_one = \<lparr>cl_walk = (\<lambda>_. \<lparr>jw_opening = Inr (Delim (CHR ''{'')),
       jw_members = [(Inr (StringToken ''name''), Inr ([CHR 0x22] @ ''=1, 2'' @ [CHR 0x22]))],
       jw_closing = Inr (Delim (CHR ''}'')), jw_trailing = JEof\<rparr>),
     cl_unquote = (\<lambda>s. Inr (butlast (tl s)))\<rparr>"

definition sink_one :: csv_sink where
  "sink_one = \<lparr>cs_write = (\<lambda>_. None), cs_flush = None\<rparr>"


section \<open>Export\<close>

text \<open>C27: An export that succeeds is whole and loses nothing: it has one row per submission that the filter
  selects, newest first, with the submission's data under a sorted header that names every field of
  every payload; a reader of the format gets exactly these rows back; and it stays within 10,000
  entries, 500 fields and 8 MiB of content.\<close>
theorem ExportSubmissionsCSV_reads_back:
  assumes "ExportSubmissionsCSV L X out f w = (Inr (n, text), w')"
  shows "\<exists>now p names rows. submissionFilterQuery f now = Inr p \<and> db w' = db w
    \<and> n = length (exported p (db w)) \<and> n \<le> 10000 \<and> content_bytes (filter p (submissions (db w))) \<le> 8 * 1024 * 1024
    \<and> distinct names \<and> sorted names \<and> length names \<le> 500
    \<and> (\<forall>s\<in>set (filter p (submissions (db w))). \<exists>payload. decodeCSVPayload X (sb_DataJSON s) = Inr payload \<and> fst ` set payload \<subseteq> set names)
    \<and> list_all2 (row_for L X names) (exported p (db w)) rows
    \<and> read_rows (7 + length names) (Suc n) text = Some (csv_header names # rows)"
  using assms by (rule ExportSubmissionsCSV_result)

theorem ExportSubmissionsCSV_reads_back_witness:
  "\<exists>text names rows. fst (ExportSubmissionsCSV plain_lib csvlib_one sink_one filter_one (world_of db_one)) = Inr (1, text)
     \<and> read_rows (7 + length names) 2 text = Some (csv_header names # rows)"
proof -
  let ?run = "ExportSubmissionsCSV plain_lib csvlib_one sink_one filter_one (world_of db_one)"
  have "case fst ?run of Inl _ \<Rightarrow> False | Inr (n, _) \<Rightarrow> n = 1" by code_simp
  then obtain csv w' where r: "?run = (Inr (1, csv), w')" by (cases ?run) (auto split: sum.splits)
  from ExportSubmissionsCSV_reads_back [OF r] obtain names :: "string list" and rows
    where "read_rows (7 + length names) (Suc 1) csv = Some (csv_header names # rows)" by blast
  with r show ?thesis by (auto simp: numeral_2_eq_2)
qed

text \<open>C28: No text in an exported row can be taken for a formula by a spreadsheet: apart from the numbers and
  the date of the row, a cell starts with none of the four signs unless it is a JSON value other
  than a string, written as it is stored.\<close>
theorem csv_cells_no_formula:
  assumes "csv_cells L X names r = Inr row" "k < length row" "formula (row ! k)"
  shows "k = 0 \<or> k = 1 \<or> k = 2 \<or> k = 5
    \<or> (\<exists>payload raw. decodeCSVPayload X (sb_DataJSON (fst r)) = Inr payload \<and> map_of payload (names ! (k - 7)) = Some raw
         \<and> row ! k = trim_space raw \<and> hd (row ! k) \<noteq> CHR 0x22)"
  using row_for_safe [OF csv_cells_result [OF assms(1)] assms(2)] assms(3) by blast

theorem csv_cells_no_formula_witness:
  "\<exists>row. csv_cells plain_lib (csvlib_one\<lparr>cl_walk := (\<lambda>_. (cl_walk csvlib_one [])\<lparr>jw_members := [(Inr (StringToken ''n''), Inr ''-5'')]\<rparr>)\<rparr>)
        [''n''] (submission_one, ''Contact'', ''contact'') = Inr row
     \<and> formula (row ! 7) \<and> (\<exists>raw. row ! 7 = trim_space raw \<and> hd (row ! 7) \<noteq> CHR 0x22)"
proof -
  let ?X = "csvlib_one\<lparr>cl_walk := (\<lambda>_. (cl_walk csvlib_one [])\<lparr>jw_members := [(Inr (StringToken ''n''), Inr ''-5'')]\<rparr>)\<rparr>"
  have e: "csv_cells plain_lib ?X [''n''] (submission_one, ''Contact'', ''contact'')
      = Inr [''1'', [], ''1'', ''Contact'', ''contact'', ''false'', [], ''-5'']" by code_simp
  have "trim_left_space ''-5'' = ''-5''" by code_simp
  then have f: "formula ([''1'', [], ''1'', ''Contact'', ''contact'', ''false'', [], ''-5''] ! 7)" by (simp add: formula_def)
  from csv_cells_no_formula [OF e _ f] e f show ?thesis by auto
qed

section \<open>Embedding\<close>



end
