(* ===== verification/Host.thy ===== *)
theory Host
  imports Templates Go_Time "HOL-Library.AList"
begin

text \<open>
  The host of a deployment: its files, the container engine, the deployment lock and what was printed;
  the calls of package \<open>os\<close> that \<open>cmd/miniform/deployment.go\<close> makes, and its sessions with SQLite.
  A call that the environment's schedule lets fail has no effect. The engine behind \<open>sql.DB\<close> is a
  parameter: a session takes the files of a database, the main one with its \<open>-wal\<close> and \<open>-shm\<close>
  sidecars, to a result and the files it leaves.
\<close>

section \<open>Files\<close>

datatype kind = RegularFile | Directory | SpecialFile

record inode =
  in_Kind :: kind
  in_Data :: string
  in_Mode :: int
  in_Owner :: "nat \<times> nat"

record 'c host =
  ht_Nodes :: "(string \<times> inode) list"
  ht_Engine :: 'c
  ht_Locked :: bool
  ht_Output :: "string list"

type_synonym ('c, 'a) host_prog = "('c host, 'a) prog"

definition node_at :: "'c host \<Rightarrow> string \<Rightarrow> inode option" where
  "node_at h p = map_of (ht_Nodes h) p"

definition put_node :: "string \<Rightarrow> inode \<Rightarrow> 'c host \<Rightarrow> 'c host" where
  "put_node p n h = h\<lparr>ht_Nodes := AList.update p n (ht_Nodes h)\<rparr>"

definition drop_node :: "string \<Rightarrow> 'c host \<Rightarrow> 'c host" where
  "drop_node p h = h\<lparr>ht_Nodes := AList.delete p (ht_Nodes h)\<rparr>"

text \<open>The directories above an absolute path, outermost first, and the path itself.\<close>

definition ancestors :: "string \<Rightarrow> string list" where
  "ancestors p = (let parts = split_on slash p in map (\<lambda>n. join [slash] (take n parts)) [2..<Suc (length parts)])"

definition is_directory :: "'c host \<Rightarrow> string \<Rightarrow> bool" where
  "is_directory h p \<longleftrightarrow> (case node_at h p of None \<Rightarrow> False | Some n \<Rightarrow> in_Kind n = Directory)"

definition lookup :: "'c host \<Rightarrow> string \<Rightarrow> err + inode" where
  "lookup h p = (case node_at h p of
       Some n \<Rightarrow> Inr n
     | None \<Rightarrow> if list_ex (\<lambda>q. node_at h q \<noteq> None \<and> \<not> is_directory h q) (ancestors p)
               then Inl (Plain ''not a directory'') else Inl (Sentinel ErrNotExist))"

definition os_Stat :: "string \<Rightarrow> ('c, inode) host_prog" where
  "os_Stat p = stmt (\<lambda>h. case lookup h p of Inl e \<Rightarrow> Inl e | Inr n \<Rightarrow> Inr (n, h))"

definition new_dir :: inode where
  "new_dir = \<lparr>in_Kind = Directory, in_Data = [], in_Mode = 448, in_Owner = (0, 0)\<rparr>"

definition os_MkdirAll :: "string \<Rightarrow> ('c, unit) host_prog" where
  "os_MkdirAll p = stmt (\<lambda>h.
     if list_ex (\<lambda>q. node_at h q \<noteq> None \<and> \<not> is_directory h q) (ancestors p) then Inl (Plain ''not a directory'')
     else Inr ((), foldl (\<lambda>g q. if node_at g q = None then put_node q new_dir g else g) h (ancestors p)))"

text \<open>The entries of a directory, by name.\<close>

definition dir_entries :: "'c host \<Rightarrow> string \<Rightarrow> (string \<times> inode) list" where
  "dir_entries h dir = sort_key fst (map (\<lambda>(p, n). (drop (Suc (length dir)) p, n))
     (filter (\<lambda>(p, n). prefix (dir @ [slash]) p \<and> slash \<notin> set (drop (Suc (length dir)) p) \<and> drop (Suc (length dir)) p \<noteq> [])
       (AList.clearjunk (ht_Nodes h))))"

definition os_ReadDir :: "string \<Rightarrow> ('c, (string \<times> inode) list) host_prog" where
  "os_ReadDir dir = stmt (\<lambda>h. case lookup h dir of
     Inl e \<Rightarrow> Inl e
   | Inr n \<Rightarrow> if in_Kind n \<noteq> Directory then Inl (Plain ''not a directory'') else Inr (dir_entries h dir, h))"

definition os_Remove :: "string \<Rightarrow> ('c, unit) host_prog" where
  "os_Remove p = stmt (\<lambda>h. case lookup h p of
     Inl e \<Rightarrow> Inl e
   | Inr n \<Rightarrow> if in_Kind n = Directory \<and> dir_entries h p \<noteq> [] then Inl (Plain ''directory not empty'')
              else Inr ((), drop_node p h))"

definition change_node :: "string \<Rightarrow> (inode \<Rightarrow> inode) \<Rightarrow> ('c, unit) host_prog" where
  "change_node p f = stmt (\<lambda>h. case lookup h p of Inl e \<Rightarrow> Inl e | Inr n \<Rightarrow> Inr ((), put_node p (f n) h))"

definition os_Chmod :: "string \<Rightarrow> int \<Rightarrow> ('c, unit) host_prog" where
  "os_Chmod p m = change_node p (\<lambda>n. n\<lparr>in_Mode := m\<rparr>)"

definition os_Chown :: "string \<Rightarrow> nat \<times> nat \<Rightarrow> ('c, unit) host_prog" where
  "os_Chown p owner = change_node p (\<lambda>n. n\<lparr>in_Owner := owner\<rparr>)"

definition os_Rename :: "string \<Rightarrow> string \<Rightarrow> ('c, unit) host_prog" where
  "os_Rename a b = stmt (\<lambda>h. case lookup h a of
     Inl e \<Rightarrow> Inl e
   | Inr n \<Rightarrow> if is_directory h b then Inl (Plain ''file exists'') else Inr ((), put_node b n (drop_node a h)))"

text \<open>A call of which only the failure matters: opening, closing or syncing a file, closing a database.\<close>

definition sys_ok :: "('c, unit) host_prog" where
  "sys_ok = stmt (\<lambda>h. Inr ((), h))"

definition print_line :: "string \<Rightarrow> ('c, unit) host_prog" where
  "print_line s = stmt (\<lambda>h. Inr ((), h\<lparr>ht_Output := ht_Output h @ [s]\<rparr>))"

text \<open>A regular file that is written whole; an existing one keeps its mode and its owner.\<close>

definition put_file :: "string \<Rightarrow> string \<Rightarrow> 'c host \<Rightarrow> 'c host" where
  "put_file p s h = (case node_at h p of
       Some n \<Rightarrow> put_node p (n\<lparr>in_Data := s\<rparr>) h
     | None \<Rightarrow> put_node p \<lparr>in_Kind = RegularFile, in_Data = s, in_Mode = 420, in_Owner = (0, 0)\<rparr> h)"

text \<open>
  \<open>os.CreateTemp(dir, ".miniform-restore-*.db")\<close>: a random number in the name, drawn again while the name is
  taken, ten thousand times at most.
\<close>

fun temp_name :: "'c host \<Rightarrow> string \<Rightarrow> int \<Rightarrow> nat list \<Rightarrow> (string \<times> nat list) option" where
  "temp_name h dir tries [] = None"
| "temp_name h dir tries (n # ns) =
     (let p = path_join dir (''.miniform-restore-'' @ dec_digits n @ ''.db'') in
      if node_at h p = None then Some (p, ns) else if tries \<le> 1 then None else temp_name h dir (tries - 1) ns)"

definition os_CreateTemp :: "string \<Rightarrow> ('c, string) host_prog" where
  "os_CreateTemp dir = bnd sys_ok (\<lambda>_ w.
     if \<not> is_directory (db w) dir then (Inl (Sentinel ErrNotExist), w)
     else (case temp_name (db w) dir 10000 (entropy w) of
             None \<Rightarrow> (Inl (Plain ''file exists''), w)
           | Some (p, ns) \<Rightarrow> (Inr p, w\<lparr>entropy := ns, db := put_file p [] (db w)\<rparr>)))"

section \<open>Sessions with SQLite\<close>

type_synonym db_files = "string \<times> string option \<times> string option"

text \<open>\<open>VACUUM INTO\<close> gives what it wrote, which may be something even when it fails.\<close>

record sqlite =
  sq_Integrity :: "db_files \<Rightarrow> (err + string) \<times> db_files"
  sq_Tables :: "db_files \<Rightarrow> (err + int) \<times> db_files"
  sq_VacuumInto :: "db_files \<Rightarrow> (err option \<times> string option) \<times> db_files"
  sq_Checkpoint :: "db_files \<Rightarrow> (err + unit) \<times> db_files"

definition data_at :: "'c host \<Rightarrow> string \<Rightarrow> string option" where
  "data_at h p = map_option in_Data (node_at h p)"

definition files_of :: "string \<Rightarrow> 'c host \<Rightarrow> db_files" where
  "files_of p h = (case data_at h p of None \<Rightarrow> [] | Some s \<Rightarrow> s, data_at h (p @ ''-wal''), data_at h (p @ ''-shm''))"

definition put_sidecar :: "string \<Rightarrow> string option \<Rightarrow> 'c host \<Rightarrow> 'c host" where
  "put_sidecar p v h = (case v of None \<Rightarrow> drop_node p h | Some s \<Rightarrow> put_file p s h)"

definition put_files :: "string \<Rightarrow> db_files \<Rightarrow> 'c host \<Rightarrow> 'c host" where
  "put_files p f h = (case f of (m, wal, shm) \<Rightarrow>
     put_sidecar (p @ ''-shm'') shm (put_sidecar (p @ ''-wal'') wal (if node_at h p = None then h else put_file p m h)))"

definition session :: "string \<Rightarrow> (db_files \<Rightarrow> 'x \<times> db_files) \<Rightarrow> ('c, 'x) host_prog" where
  "session p f = (\<lambda>w. case f (files_of p (db w)) of (x, files) \<Rightarrow> (Inr x, w\<lparr>db := put_files p files (db w)\<rparr>))"

text \<open>\<open>defer func() { resultErr = errors.Join(resultErr, db.Close()) }()\<close>\<close>

definition error_of :: "err + 'a \<Rightarrow> err option" where
  "error_of r = (case r of Inl e \<Rightarrow> Some e | Inr _ \<Rightarrow> None)"

definition with_close :: "('c, 'a) host_prog \<Rightarrow> ('c, 'a) host_prog" where
  "with_close m = catch m (\<lambda>r. catch sys_ok (\<lambda>c.
     case join_err (error_of r) (error_of c) of Some e \<Rightarrow> fail e | None \<Rightarrow> of_result r))"

definition no_schema :: err where
  "no_schema = Plain ''database does not contain the Miniform schema''"

definition validateDatabase :: "golib \<Rightarrow> sqlite \<Rightarrow> string \<Rightarrow> ('c, unit) host_prog" where
  "validateDatabase L S p =
     bnd (os_Stat p) (\<lambda>info.
     if in_Kind info \<noteq> RegularFile \<or> in_Data info = [] then fail no_schema
     else bnd sys_ok (\<lambda>_. with_close
       (bnd (session p (sq_Integrity S)) (\<lambda>r. bnd (of_result r) (\<lambda>result.
        if result \<noteq> ''ok'' then fail (Plain (''integrity check returned '' @ lib_quote L result))
        else bnd (session p (sq_Tables S)) (\<lambda>t. bnd (of_result t) (\<lambda>schemaTables.
             if schemaTables \<noteq> 3 then fail no_schema else ret ())))))))"

definition written :: "string \<Rightarrow> err option \<times> string option \<Rightarrow> ('c, unit) host_prog" where
  "written destination r = (\<lambda>w. (case fst r of None \<Rightarrow> Inr () | Some x \<Rightarrow> Inl x,
     case snd r of None \<Rightarrow> w | Some s \<Rightarrow> w\<lparr>db := put_file destination s (db w)\<rparr>))"

definition no_output :: "string \<Rightarrow> ('c, unit) host_prog" where
  "no_output destination = stmt (\<lambda>h. case node_at h destination of
       None \<Rightarrow> Inr ((), h)
     | Some n \<Rightarrow> if in_Kind n = RegularFile \<and> in_Data n = [] then Inr ((), h) else Inl (Plain ''output file already exists''))"

definition vacuum_into :: "sqlite \<Rightarrow> string \<Rightarrow> string \<Rightarrow> ('c, unit) host_prog" where
  "vacuum_into S source destination =
     bnd (no_output destination) (\<lambda>_. bnd (session source (sq_VacuumInto S)) (written destination))"

definition snapshotDatabase :: "golib \<Rightarrow> sqlite \<Rightarrow> string \<Rightarrow> string \<Rightarrow> ('c, unit) host_prog" where
  "snapshotDatabase L S source destination =
     bnd (wrap_err ''open database'' sys_ok) (\<lambda>_. with_close
       (bnd (wrap_err ''create SQLite snapshot'' (vacuum_into S source destination)) (\<lambda>_.
        wrap_err ''validate snapshot'' (validateDatabase L S destination))))"

definition checkpointDatabase :: "sqlite \<Rightarrow> string \<Rightarrow> ('c, unit) host_prog" where
  "checkpointDatabase S p =
     bnd (wrap_err ''open current database'' sys_ok) (\<lambda>_.
     bnd (session p (sq_Checkpoint S)) (\<lambda>r. case r of
       Inl e \<Rightarrow> catch sys_ok (\<lambda>_. fail (Wrap ''checkpoint current database'' e))
     | Inr _ \<Rightarrow> wrap_err ''close current database'' sys_ok))"

text \<open>The name under which SQLite opens a file: a URI whose path has everything but slashes escaped.\<close>

definition sqliteFileDSN :: "string \<Rightarrow> string" where
  "sqliteFileDSN p = ''file:'' @ replace_all ''%2F'' ''/'' (PathEscape p)"

end
