(* ===== verification/Deployment.thy ===== *)
theory Deployment
  imports Host
begin

text \<open>
  The deployment commands, \<open>cmd/miniform/deployment.go\<close>: install, backup, update, reload and restore, with
  their compensating steps. The manager (package \<open>matcha\<close>) and the container engine it drives are
  parameters; a docker command ends with an error or not, and with what it printed. Output that only
  explains an error to a reader (\<open>stderr\<close>) is left out of the error's text.
\<close>

section \<open>The manager\<close>

record app_config =
  ac_Image :: string
  ac_Env :: "string \<Rightarrow> string"

record docker_run =
  dr_Error :: "err option"
  dr_Timeout :: "err option"
  dr_Stdout :: string

record 'c matcha =
  mc_AppContainerName :: string
  mc_Name :: string
  mc_ConfigPath :: string
  mc_ProxyImage :: string
  mc_DataDir :: string
  mc_DefaultConfigPath :: string
  mc_LoadApp :: "string \<Rightarrow> err + app_config"
  mc_LoadAppFrom :: "string \<Rightarrow> string \<Rightarrow> err + app_config"
  mc_LoadConfigFrom :: "string \<Rightarrow> err + string list"
  mc_Install :: "'c host \<Rightarrow> err option \<times> 'c host"
  mc_SelfUpdate :: "'c host \<Rightarrow> err option \<times> 'c host"
  mc_Reload :: "bool \<Rightarrow> bool \<Rightarrow> 'c host \<Rightarrow> err option \<times> 'c host"
  mc_Docker :: "string list \<Rightarrow> 'c \<Rightarrow> docker_run \<times> 'c"

definition run_manager :: "('c host \<Rightarrow> err option \<times> 'c host) \<Rightarrow> ('c, unit) host_prog" where
  "run_manager f = (\<lambda>w. case f (db w) of (e, h) \<Rightarrow> (case e of None \<Rightarrow> Inr () | Some x \<Rightarrow> Inl x, w\<lparr>db := h\<rparr>))"

definition loadDeploymentApp :: "'c matcha \<Rightarrow> err + app_config" where
  "loadDeploymentApp M =
     (if mc_ConfigPath M = [] then mc_LoadApp M (mc_Name M) else mc_LoadAppFrom M (mc_ConfigPath M) (mc_Name M))"

definition deploymentConfigured :: "'c matcha \<Rightarrow> err + bool" where
  "deploymentConfigured M =
     (case mc_LoadConfigFrom M (if mc_ConfigPath M = [] then mc_DefaultConfigPath M else mc_ConfigPath M) of
        Inl e \<Rightarrow> Inl (Wrap ''load deployment configuration'' e)
      | Inr apps \<Rightarrow> Inr (mc_AppContainerName M \<in> set apps))"

section \<open>Docker\<close>

definition runDockerCommand :: "'c matcha \<Rightarrow> string \<Rightarrow> string list \<Rightarrow> ('c, err option \<times> string) host_prog" where
  "runDockerCommand M timeout arguments = (\<lambda>w.
     case mc_Docker M arguments (ht_Engine (db w)) of (run, engine) \<Rightarrow>
       (Inr (case dr_Error run of
               None \<Rightarrow> None
             | Some e \<Rightarrow> (case dr_Timeout run of
                           Some c \<Rightarrow> Some (Wrap (''docker command timed out after '' @ timeout) c) | None \<Rightarrow> Some e),
             dr_Stdout run),
        w\<lparr>db := (db w)\<lparr>ht_Engine := engine\<rparr>\<rparr>))"

definition dockerCommandTimeout :: string where
  "dockerCommandTimeout = ''10m0s''"

definition runDocker :: "'c matcha \<Rightarrow> string list \<Rightarrow> ('c, unit) host_prog" where
  "runDocker M arguments =
     bnd (runDockerCommand M dockerCommandTimeout arguments) (\<lambda>(e, _). case e of None \<Rightarrow> ret () | Some x \<Rightarrow> fail x)"

definition dockerOutput :: "'c matcha \<Rightarrow> string list \<Rightarrow> ('c, string) host_prog" where
  "dockerOutput M arguments =
     bnd (runDockerCommand M dockerCommandTimeout arguments) (\<lambda>(e, out). case e of
       None \<Rightarrow> ret out | Some x \<Rightarrow> fail (Wrap (''docker '' @ join '' '' arguments) x))"

definition requireDocker :: "'c matcha \<Rightarrow> ('c, unit) host_prog" where
  "requireDocker M =
     bnd (runDockerCommand M ''30s'' [''version'']) (\<lambda>(e, _). case e of
       None \<Rightarrow> ret ()
     | Some x \<Rightarrow> fail (Wrap (''Docker Engine must be installed and running before Miniform installation; ''
                          @ ''follow https://docs.docker.com/engine/install/'') x))"

definition next_name :: "'c matcha \<Rightarrow> string" where
  "next_name M = mc_AppContainerName M @ ''-next''"

definition name_filter :: "string \<Rightarrow> string" where
  "name_filter n = ''name=^'' @ n @ ''$''"

definition is_running :: "'c matcha \<Rightarrow> string \<Rightarrow> ('c, bool) host_prog" where
  "is_running M n = bnd (dockerOutput M [''ps'', ''-q'', ''--filter'', name_filter n]) (\<lambda>out. ret (trim_space out \<noteq> []))"

definition there_is :: "'c matcha \<Rightarrow> string \<Rightarrow> ('c, bool) host_prog" where
  "there_is M n = bnd (dockerOutput M [''ps'', ''-aq'', ''--filter'', name_filter n]) (\<lambda>out. ret (trim_space out \<noteq> []))"

definition runningApplication :: "'c matcha \<Rightarrow> ('c, string) host_prog" where
  "runningApplication M =
     bnd (is_running M (mc_AppContainerName M)) (\<lambda>base.
     bnd (is_running M (next_name M)) (\<lambda>replacement.
     if base \<and> replacement then fail (Plain ''both application containers are running'')
     else ret (if base then mc_AppContainerName M else if replacement then next_name M else [])))"

definition restartPreviousApplication :: "'c matcha \<Rightarrow> string \<Rightarrow> ('c, unit) host_prog" where
  "restartPreviousApplication M original =
     (if original = [] then ret () else wrap_err ''restart previous container'' (runDocker M [''start'', original]))"

text \<open>\<open>errors.Join(err, cleanup())\<close>: the cleanup runs, and its error is added.\<close>

definition fail_after :: "err \<Rightarrow> ('c, unit) host_prog \<Rightarrow> ('c, 'a) host_prog" where
  "fail_after e cleanup = catch cleanup (\<lambda>r. fail (case error_of r of None \<Rightarrow> Joined [e] | Some x \<Rightarrow> Joined [e, x]))"

definition or_restart :: "'c matcha \<Rightarrow> string \<Rightarrow> ('c, 'a) host_prog \<Rightarrow> ('a \<Rightarrow> ('c, 'b) host_prog) \<Rightarrow> ('c, 'b) host_prog" where
  "or_restart M original m f = catch m (\<lambda>r. case r of Inl e \<Rightarrow> fail_after e (restartPreviousApplication M original) | Inr x \<Rightarrow> f x)"

definition stopApplication :: "'c matcha \<Rightarrow> ('c, string) host_prog" where
  "stopApplication M =
     bnd (runningApplication M) (\<lambda>original.
     if original = [] then ret original
     else bnd (runDocker M [''stop'', ''--timeout'', ''15'', original]) (\<lambda>_.
          if original \<noteq> next_name M then ret original
          else or_restart M original (there_is M (mc_AppContainerName M)) (\<lambda>stale.
               or_restart M original (if stale then runDocker M [''rm'', ''-f'', mc_AppContainerName M] else ret ()) (\<lambda>_.
               or_restart M original (runDocker M [''rename'', next_name M, mc_AppContainerName M]) (\<lambda>_. ret original)))))"

definition prepareApplicationRollback :: "'c matcha \<Rightarrow> string \<Rightarrow> ('c, unit) host_prog" where
  "prepareApplicationRollback M original =
     bnd (wrap_err ''inspect failed replacement'' (there_is M (next_name M))) (\<lambda>replacement.
     bnd (if replacement then wrap_err ''remove failed replacement'' (runDocker M [''rm'', ''-f'', next_name M]) else ret ()) (\<lambda>_.
     if original = next_name M
     then wrap_err ''restore previous container name'' (runDocker M [''rename'', mc_AppContainerName M, next_name M])
     else ret ()))"

definition restartStoppedApplication :: "'c matcha \<Rightarrow> string \<Rightarrow> ('c, unit) host_prog" where
  "restartStoppedApplication M original = bnd (prepareApplicationRollback M original) (\<lambda>_. restartPreviousApplication M original)"

section \<open>The path of the database\<close>

text \<open>\<open>filepath.Rel\<close> of two absolute clean paths.\<close>

definition path_elements :: "string \<Rightarrow> string list" where
  "path_elements p = filter (\<lambda>e. e \<noteq> []) (split_on slash p)"

fun rel_parts :: "string list \<Rightarrow> string list \<Rightarrow> string list" where
  "rel_parts (b # bs) (t # ts) = (if b = t then rel_parts bs ts else map (\<lambda>_. ''..'') (b # bs) @ t # ts)"
| "rel_parts bs ts = map (\<lambda>_. ''..'') bs @ ts"

definition path_rel :: "string \<Rightarrow> string \<Rightarrow> string" where
  "path_rel base target =
     (let r = rel_parts (path_elements base) (path_elements target) in if r = [] then ''.'' else join [slash] r)"

definition outside_storage :: "string \<Rightarrow> bool" where
  "outside_storage relative \<longleftrightarrow> relative = ''..'' \<or> prefix (''..'' @ [slash]) relative"

definition default_container_path :: "(string \<Rightarrow> string) \<Rightarrow> err + string" where
  "default_container_path env =
     (let given = trim_space (env ''MINIFORM_DATA_DIR'');
          dataDirectory = (if given = [] then ''/app/storage'' else if \<not> path_is_abs given then path_join ''/app'' given else given);
          named = trim_space (env ''MINIFORM_DATABASE_FILENAME'');
          filename = (if named = [] then ''miniform.db'' else named)
      in if named \<noteq> [] \<and> (named = ''.'' \<or> named = ''..'' \<or> path_is_abs named \<or> path_base named \<noteq> named)
         then Inl (Plain (''MINIFORM_DATABASE_FILENAME must be a filename without path components; ''
                       @ ''use MINIFORM_DATABASE_PATH for database paths''))
         else (let extension = path_ext filename;
                   base = take (length filename - length extension) filename;
                   environment = (let e = trim_space (env ''MINIFORM_ENV'') in if e = [] then ''production'' else e)
               in Inr (path_join dataDirectory (base @ ''.'' @ environment @ (if extension = [] then ''.db'' else extension)))))"

definition deployedDatabasePath :: "golib \<Rightarrow> 'c matcha \<Rightarrow> err + string" where
  "deployedDatabasePath L M =
     (case loadDeploymentApp M of
        Inl e \<Rightarrow> Inl (Wrap ''load deployment configuration'' e)
      | Inr app \<Rightarrow>
          (let given = trim_space (ac_Env app ''MINIFORM_DATABASE_PATH'') in
           case (if given = [] then default_container_path (ac_Env app)
                 else if \<not> path_is_abs given then Inr (path_join ''/app'' given) else Inr given) of
             Inl e \<Rightarrow> Inl e
           | Inr containerPath \<Rightarrow>
               (let relative = path_rel ''/app/storage'' (path_clean containerPath)
                in if outside_storage relative
                   then Inl (Plain (''database path '' @ lib_quote L containerPath @ '' is outside /app/storage''))
                   else Inr (path_join (path_join (mc_DataDir M) ''storage'') relative))))"

section \<open>Backups\<close>

definition isDatabaseBackup :: "string \<Rightarrow> bool" where
  "isDatabaseBackup name \<longleftrightarrow>
     prefix ''backup_'' name \<and> suffix ''.db'' name
     \<and> (let stem = (let s = drop 7 name in if suffix ''.db'' s then take (length s - 3) s else s); parts = split_on (CHR ''_'') stem
        in (length parts = 2 \<or> length parts = 3) \<and> stamp_parses (parts ! 0 @ ''_'' @ parts ! 1)
           \<and> (length parts = 3 \<longrightarrow> length (parts ! 2) = 6 \<and> atoi (parts ! 2) \<noteq> None))"

definition backup_name :: "gotime \<Rightarrow> int \<Rightarrow> string" where
  "backup_name now index =
     ''backup_'' @ format_stamp ''_'' now @ (if index > 0 then ''_'' @ pad_digits 6 index else []) @ ''.db''"

function free_backup :: "string \<Rightarrow> gotime \<Rightarrow> int \<Rightarrow> ('c, string) host_prog" where
  "free_backup dir now index w =
     (if index \<ge> 1000000 then (Inl (Plain ''too many backups created in one second''), w)
      else let p = path_join dir (backup_name now index) in
        (case os_Stat p w of
           (Inr _, w') \<Rightarrow> free_backup dir now (index + 1) w'
         | (Inl e, w') \<Rightarrow> if err_is ErrNotExist e then (Inr p, w') else (Inl (Wrap ''inspect backup path'' e), w')))"
  by pat_completeness auto
termination by (relation "measure (\<lambda>(dir, now, index, w). nat (1000000 - index))") auto

definition availableBackupPath :: "string \<Rightarrow> gotime \<Rightarrow> ('c, string) host_prog" where
  "availableBackupPath dir now = free_backup dir now 0"

definition backup_paths :: "string \<Rightarrow> (string \<times> inode) list \<Rightarrow> string list" where
  "backup_paths dir entries = map (\<lambda>(n, _). path_join dir n)
     (filter (\<lambda>(n, i). in_Kind i \<noteq> Directory \<and> isDatabaseBackup n) entries)"

fun remove_beyond :: "nat \<Rightarrow> string list \<Rightarrow> ('c, unit) host_prog" where
  "remove_beyond n [] = ret ()"
| "remove_beyond n (p # ps) =
     (if length (p # ps) > n then bnd (wrap_err ''remove old backup'' (os_Remove p)) (\<lambda>_. remove_beyond n ps) else ret ())"

definition removeOldBackups :: "string \<Rightarrow> ('c, unit) host_prog" where
  "removeOldBackups dir =
     bnd (wrap_err ''list backups'' (os_ReadDir dir)) (\<lambda>entries. remove_beyond 3 (backup_paths dir entries))"

definition or_discard :: "string \<Rightarrow> ('c, 'a) host_prog \<Rightarrow> ('a \<Rightarrow> ('c, 'b) host_prog) \<Rightarrow> ('c, 'b) host_prog" where
  "or_discard p m f = catch m (\<lambda>r. case r of Inl e \<Rightarrow> catch (os_Remove p) (\<lambda>_. fail e) | Inr x \<Rightarrow> f x)"

definition createDatabaseBackup :: "golib \<Rightarrow> sqlite \<Rightarrow> string \<Rightarrow> string \<Rightarrow> gotime \<Rightarrow> ('c, string) host_prog" where
  "createDatabaseBackup L S databasePath dir now =
     bnd (wrap_err ''inspect database'' (os_Stat databasePath)) (\<lambda>info.
     bnd (guard (in_Kind info = RegularFile) (Plain (''database is not a regular file: '' @ databasePath))) (\<lambda>_.
     bnd (wrap_err ''create backup directory'' (os_MkdirAll dir)) (\<lambda>_.
     bnd (availableBackupPath dir now) (\<lambda>backupPath.
     or_discard backupPath (snapshotDatabase L S databasePath backupPath) (\<lambda>_.
     or_discard backupPath (wrap_err ''secure backup'' (os_Chmod backupPath 384)) (\<lambda>_.
     bnd (removeOldBackups dir) (\<lambda>_. ret backupPath)))))))"

definition backups_dir :: "'c matcha \<Rightarrow> string" where
  "backups_dir M = path_join (mc_DataDir M) ''backups''"

definition backupDeploymentDatabase :: "golib \<Rightarrow> sqlite \<Rightarrow> 'c matcha \<Rightarrow> ('c, string) host_prog" where
  "backupDeploymentDatabase L S M =
     bnd (of_result (deployedDatabasePath L M)) (\<lambda>p. bnd time_now (\<lambda>now. createDatabaseBackup L S p (backups_dir M) now))"

definition backupDatabaseForRestore :: "golib \<Rightarrow> sqlite \<Rightarrow> 'c matcha \<Rightarrow> string \<Rightarrow> ('c, string) host_prog" where
  "backupDatabaseForRestore L S M databasePath =
     catch (os_Stat databasePath) (\<lambda>r. case r of
       Inl e \<Rightarrow> if err_is ErrNotExist e then ret [] else fail (Wrap ''inspect database'' e)
     | Inr info \<Rightarrow>
         if in_Kind info \<noteq> RegularFile then ret []
         else catch (validateDatabase L S databasePath) (\<lambda>v. case v of
                Inl _ \<Rightarrow> ret []
              | Inr _ \<Rightarrow> bnd time_now (\<lambda>now. createDatabaseBackup L S databasePath (backups_dir M) now)))"

section \<open>Restoring\<close>

definition prepareDatabaseRestore :: "golib \<Rightarrow> sqlite \<Rightarrow> string \<Rightarrow> string \<Rightarrow> ('c, string) host_prog" where
  "prepareDatabaseRestore L S databasePath backupPath =
     bnd (wrap_err ''validate selected backup'' (validateDatabase L S backupPath)) (\<lambda>_.
     bnd (wrap_err ''create database directory'' (os_MkdirAll (path_dir databasePath))) (\<lambda>_.
     bnd (wrap_err ''create restore file'' (os_CreateTemp (path_dir databasePath))) (\<lambda>temporaryPath.
     or_discard temporaryPath (wrap_err ''close restore file'' sys_ok) (\<lambda>_.
     or_discard temporaryPath (wrap_err ''prepare restore file'' (os_Remove temporaryPath)) (\<lambda>_.
     or_discard temporaryPath (snapshotDatabase L S backupPath temporaryPath) (\<lambda>_.
     or_discard temporaryPath (wrap_err ''secure restored database'' (os_Chmod temporaryPath 384)) (\<lambda>_.
     ret temporaryPath)))))))"

definition keep_permissions :: "golib \<Rightarrow> sqlite \<Rightarrow> string \<Rightarrow> string \<Rightarrow> inode \<Rightarrow> ('c, unit) host_prog" where
  "keep_permissions L S databasePath temporaryPath info =
     bnd (guard (in_Kind info = RegularFile) (Plain (''current database is not a regular file: '' @ databasePath))) (\<lambda>_.
     bnd (wrap_err ''preserve database permissions'' (os_Chmod temporaryPath (in_Mode info))) (\<lambda>_.
     bnd (wrap_err ''preserve database ownership'' (os_Chown temporaryPath (in_Owner info))) (\<lambda>_.
     catch (validateDatabase L S databasePath) (\<lambda>v. case v of
       Inl _ \<Rightarrow> ret () | Inr _ \<Rightarrow> checkpointDatabase S databasePath))))"

definition remove_sidecar :: "string \<Rightarrow> ('c, unit) host_prog" where
  "remove_sidecar p = catch (os_Remove p) (\<lambda>r. case r of
     Inl e \<Rightarrow> if err_is ErrNotExist e then ret () else fail (Wrap ''remove stale SQLite sidecar'' e) | Inr _ \<Rightarrow> ret ())"

definition replaceDatabase :: "golib \<Rightarrow> sqlite \<Rightarrow> string \<Rightarrow> string \<Rightarrow> ('c, unit) host_prog" where
  "replaceDatabase L S databasePath temporaryPath =
     catch (os_Stat databasePath) (\<lambda>r.
     bnd (case r of
            Inl e \<Rightarrow> if err_is ErrNotExist e then ret () else fail (Wrap ''inspect current database'' e)
          | Inr info \<Rightarrow> keep_permissions L S databasePath temporaryPath info) (\<lambda>_.
     bnd (remove_sidecar (databasePath @ ''-wal'')) (\<lambda>_. bnd (remove_sidecar (databasePath @ ''-shm'')) (\<lambda>_.
     bnd (wrap_err ''replace database'' (os_Rename temporaryPath databasePath)) (\<lambda>_.
     bnd (wrap_err ''open database directory'' sys_ok) (\<lambda>_. with_close (wrap_err ''sync restored database'' sys_ok)))))))"

definition restoreDatabase :: "golib \<Rightarrow> sqlite \<Rightarrow> string \<Rightarrow> string \<Rightarrow> ('c, unit) host_prog" where
  "restoreDatabase L S databasePath backupPath =
     bnd (prepareDatabaseRestore L S databasePath backupPath) (\<lambda>temporaryPath.
     catch (replaceDatabase L S databasePath temporaryPath) (\<lambda>r. catch (os_Remove temporaryPath) (\<lambda>_. of_result r)))"

definition rollbackRestore :: "golib \<Rightarrow> sqlite \<Rightarrow> 'c matcha \<Rightarrow> string \<Rightarrow> string \<Rightarrow> string \<Rightarrow> ('c, unit) host_prog" where
  "rollbackRestore L S M original databasePath safetyBackup =
     bnd (prepareApplicationRollback M original) (\<lambda>_.
     if safetyBackup = [] then fail (Plain ''previous database was not valid; application remains stopped'')
     else bnd (restoreDatabase L S databasePath safetyBackup) (\<lambda>_. restartPreviousApplication M original))"

text \<open>The number the operator typed (\<open>fmt.Fscan\<close>) is an argument.\<close>

fun print_choices :: "int \<Rightarrow> string list \<Rightarrow> ('c, unit) host_prog" where
  "print_choices i [] = ret ()"
| "print_choices i (p # ps) = bnd (print_line (''  '' @ itoa i @ ''. '' @ path_base p)) (\<lambda>_. print_choices (i + 1) ps)"

definition selectDatabaseBackup :: "err + int \<Rightarrow> string \<Rightarrow> ('c, string) host_prog" where
  "selectDatabaseBackup input dir =
     bnd (wrap_err ''list backups'' (os_ReadDir dir)) (\<lambda>entries.
     let paths = rev (sort (backup_paths dir entries)) in
     if paths = [] then fail (Plain ''no backups found'')
     else bnd (print_line ''Available backups:'') (\<lambda>_. bnd (print_choices 1 paths) (\<lambda>_.
          bnd (print_line ''Select backup number: '') (\<lambda>_.
          bnd (wrap_err ''read backup selection'' (of_result input)) (\<lambda>selection.
          if selection < 1 \<or> selection > int (length paths) then fail (Plain ''selection out of range'')
          else ret (paths ! nat (selection - 1)))))))"

section \<open>Starting and restarting\<close>

text \<open>The replacement starts without a backup of the manager's own and without pulling an image.\<close>

definition startDeployment :: "'c matcha \<Rightarrow> ('c, unit) host_prog" where
  "startDeployment M = wrap_err ''start application'' (run_manager (mc_Reload M False True))"

definition restartDeployment :: "golib \<Rightarrow> sqlite \<Rightarrow> 'c matcha \<Rightarrow> ('c, unit) host_prog" where
  "restartDeployment L S M =
     bnd (of_result (deployedDatabasePath L M)) (\<lambda>databasePath.
     bnd (wrap_err ''stop application'' (stopApplication M)) (\<lambda>stopped.
     catch (backupDeploymentDatabase L S M) (\<lambda>backup. case backup of
       Inl e \<Rightarrow> fail_after (Wrap ''pre-deploy backup'' e) (restartStoppedApplication M stopped)
     | Inr safetyBackup \<Rightarrow>
         catch (startDeployment M) (\<lambda>started. case started of
           Inl e \<Rightarrow> fail_after e (rollbackRestore L S M stopped databasePath safetyBackup)
         | Inr _ \<Rightarrow> ret ()))))"

section \<open>A database left behind\<close>

text \<open>\<open>filepath.Walk\<close>: the tree below a directory, parents first and siblings by name.\<close>

definition walk_order :: "'c host \<Rightarrow> string \<Rightarrow> string list" where
  "walk_order h root = root # sort_key (split_on slash) (filter (prefix (root @ [slash])) (map fst (AList.clearjunk (ht_Nodes h))))"

fun residual_walk :: "golib \<Rightarrow> sqlite \<Rightarrow> string \<Rightarrow> string list \<Rightarrow> string list \<Rightarrow> ('c, string) host_prog" where
  "residual_walk L S root skipped [] = ret []"
| "residual_walk L S root skipped (p # ps) =
     (if list_ex (\<lambda>d. prefix (d @ [slash]) p) skipped then residual_walk L S root skipped ps
      else bnd (os_Stat p) (\<lambda>info.
        if in_Kind info = Directory
        then bnd (os_ReadDir p) (\<lambda>_. residual_walk L S root
               (if p \<noteq> root \<and> (path_base p = ''uploads'' \<or> prefix ''.upload-'' (path_base p)) then p # skipped else skipped) ps)
        else if in_Kind info \<noteq> RegularFile then residual_walk L S root skipped ps
        else if to_lower L (path_ext p) \<in> {''.db'', ''.sqlite'', ''.sqlite3''} then ret p
        else catch (validateDatabase L S p) (\<lambda>v. case v of Inr _ \<Rightarrow> ret p | Inl _ \<Rightarrow> residual_walk L S root skipped ps)))"

definition findResidualDatabase :: "golib \<Rightarrow> sqlite \<Rightarrow> string \<Rightarrow> ('c, string) host_prog" where
  "findResidualDatabase L S storageDirectory =
     catch (os_Stat storageDirectory) (\<lambda>r. case r of
       Inl e \<Rightarrow> if err_is ErrNotExist e then ret [] else fail e
     | Inr _ \<Rightarrow> (\<lambda>w. residual_walk L S storageDirectory [] (walk_order (db w) storageDirectory) w))"

section \<open>The commands\<close>

definition lockDeployment :: "string \<Rightarrow> ('c, unit) host_prog" where
  "lockDeployment dir =
     bnd (wrap_err ''create deployment directory'' (os_MkdirAll dir)) (\<lambda>_.
     bnd (wrap_err ''open deployment lock'' (stmt (\<lambda>h. let p = path_join dir ''deployment.lock'' in
            if node_at h p = None then Inr ((), put_file p [] h) else Inr ((), h)))) (\<lambda>_.
     map_err (\<lambda>_. Plain ''another deployment command is already running'')
       (stmt (\<lambda>h. if ht_Locked h then Inl (Plain ''resource temporarily unavailable'') else Inr ((), h\<lparr>ht_Locked := True\<rparr>)))))"

definition unlock :: "('c, unit) host_prog" where
  "unlock = (\<lambda>w. (Inr (), w\<lparr>db := (db w)\<lparr>ht_Locked := False\<rparr>\<rparr>))"

text \<open>An installation over a configuration that exists but does not run.\<close>

definition backup_before_install :: "golib \<Rightarrow> sqlite \<Rightarrow> 'c matcha \<Rightarrow> ('c, unit) host_prog" where
  "backup_before_install L S M =
     bnd (wrap_err ''inspect existing deployment'' (runningApplication M)) (\<lambda>active.
     bnd (guard (active = []) (Plain ''deployment is already running; use update or reload'')) (\<lambda>_.
     bnd (of_result (deployedDatabasePath L M)) (\<lambda>databasePath.
     catch (os_Stat databasePath) (\<lambda>r. case r of
       Inr _ \<Rightarrow> bnd (wrap_err ''pre-install backup'' (backupDeploymentDatabase L S M)) (\<lambda>_. ret ())
     | Inl e \<Rightarrow> if err_is ErrNotExist e then ret () else fail (Wrap ''inspect database'' e)))))"

definition residual_error :: "golib \<Rightarrow> string \<Rightarrow> err" where
  "residual_error L residual = Plain (''existing Miniform database '' @ lib_quote L residual
     @ '' found without deployment configuration; restore the Matcha configuration ''
     @ ''or move and back up the database before install'')"

definition install_command :: "golib \<Rightarrow> sqlite \<Rightarrow> 'c matcha \<Rightarrow> ('c, unit) host_prog" where
  "install_command L S M =
     bnd (of_result (deploymentConfigured M)) (\<lambda>configured.
     bnd (if configured then ret []
          else wrap_err ''inspect residual storage'' (findResidualDatabase L S (path_join (mc_DataDir M) ''storage''))) (\<lambda>residual.
     bnd (guard (residual = []) (residual_error L residual)) (\<lambda>_.
     bnd (requireDocker M) (\<lambda>_.
     bnd (if configured then backup_before_install L S M else ret ()) (\<lambda>_.
     run_manager (mc_Install M))))))"

definition backup_command :: "golib \<Rightarrow> sqlite \<Rightarrow> 'c matcha \<Rightarrow> ('c, unit) host_prog" where
  "backup_command L S M =
     bnd (backupDeploymentDatabase L S M) (\<lambda>p. print_line (''Backup created: '' @ p))"

definition update_command :: "golib \<Rightarrow> sqlite \<Rightarrow> 'c matcha \<Rightarrow> ('c, unit) host_prog" where
  "update_command L S M =
     bnd (wrap_err ''update manager'' (run_manager (mc_SelfUpdate M))) (\<lambda>_.
     bnd (of_result (loadDeploymentApp M)) (\<lambda>app.
     bnd (guard (trim_space (ac_Image app) \<noteq> []) (Plain ''deployment image is empty'')) (\<lambda>_.
     bnd (each (\<lambda>image. wrap_err (''pull image '' @ lib_quote L image) (runDocker M [''pull'', image]))
            [ac_Image app, mc_ProxyImage M]) (\<lambda>_.
     restartDeployment L S M))))"

text \<open>From the stop of the application on; the staged copy is removed at the end whatever happens.\<close>

definition restore_staged :: "golib \<Rightarrow> sqlite \<Rightarrow> 'c matcha \<Rightarrow> string \<Rightarrow> string \<Rightarrow> ('c, unit) host_prog" where
  "restore_staged L S M databasePath staged_copy =
     bnd (wrap_err ''stop application'' (stopApplication M)) (\<lambda>stopped.
     catch (backupDatabaseForRestore L S M databasePath) (\<lambda>backup. case backup of
       Inl e \<Rightarrow> fail_after (Wrap ''pre-restore backup'' e) (restartStoppedApplication M stopped)
     | Inr safetyBackup \<Rightarrow>
         catch (bnd (replaceDatabase L S databasePath staged_copy) (\<lambda>_. startDeployment M)) (\<lambda>r. case r of
           Inl e \<Rightarrow> fail_after e (rollbackRestore L S M stopped databasePath safetyBackup)
         | Inr _ \<Rightarrow> ret ())))"

definition restore_command :: "golib \<Rightarrow> sqlite \<Rightarrow> 'c matcha \<Rightarrow> err + int \<Rightarrow> ('c, unit) host_prog" where
  "restore_command L S M input =
     bnd (of_result (deployedDatabasePath L M)) (\<lambda>databasePath.
     bnd (selectDatabaseBackup input (backups_dir M)) (\<lambda>selected.
     bnd (prepareDatabaseRestore L S databasePath selected) (\<lambda>staged_copy.
     catch (restore_staged L S M databasePath staged_copy) (\<lambda>r. catch (os_Remove staged_copy) (\<lambda>_. of_result r)))))"

definition deployment_command :: "golib \<Rightarrow> sqlite \<Rightarrow> 'c matcha \<Rightarrow> err + int \<Rightarrow> string \<Rightarrow> ('c, unit) host_prog" where
  "deployment_command L S M input command =
     (if command = ''install'' then install_command L S M
      else if command = ''backup'' then backup_command L S M
      else if command = ''update'' then update_command L S M
      else if command = ''reload'' then restartDeployment L S M
      else if command = ''restore-db'' then restore_command L S M input
      else fail (Plain (''unsupported deployment command '' @ lib_quote L command)))"

definition runDeploymentCommand :: "golib \<Rightarrow> sqlite \<Rightarrow> 'c matcha \<Rightarrow> err + int \<Rightarrow> string \<Rightarrow> ('c, unit) host_prog" where
  "runDeploymentCommand L S M input command =
     bnd (lockDeployment (mc_DataDir M)) (\<lambda>_.
     catch (deployment_command L S M input command) (\<lambda>r. bnd unlock (\<lambda>_. of_result r)))"

end
