(* ===== verification/Path_Laws.thy ===== *)
theory Path_Laws
  imports Upload_Laws Deployment
begin

text \<open>
  Absolute clean paths as lists of elements: cleaning and joining such paths, and the promise about the
  path of the database, that it stays below the storage directory.
\<close>

section \<open>Elements\<close>

definition plain_element :: "string \<Rightarrow> bool" where
  "plain_element e \<longleftrightarrow> e \<noteq> [] \<and> e \<noteq> ''.'' \<and> e \<noteq> ''..'' \<and> slash \<notin> set e"

definition abs_path :: "string list \<Rightarrow> string" where
  "abs_path es = slash # join [slash] es"

lemma split_abs_path: "list_all plain_element es \<Longrightarrow> split_on slash (abs_path es) = [] # (if es = [] then [[]] else es)"
  using split_on_of_join [of es slash] by (auto simp: abs_path_def list_all_iff plain_element_def)

lemma path_elements_abs: "list_all plain_element es \<Longrightarrow> path_elements (abs_path es) = es"
  by (auto simp: path_elements_def split_abs_path list_all_iff plain_element_def intro: filter_True)

lemma abs_path_inj: "list_all plain_element es \<Longrightarrow> list_all plain_element fs \<Longrightarrow> abs_path es = abs_path fs \<Longrightarrow> es = fs"
  by (metis path_elements_abs)

lemma clean_parts_plain: "list_all plain_element es \<Longrightarrow> clean_parts rooted acc es = rev acc @ es"
  by (induction es arbitrary: acc) (simp_all add: plain_element_def)

lemma clean_parts_append: "clean_parts rooted acc (xs @ ys) = clean_parts rooted (rev (clean_parts rooted acc xs)) ys"
proof (induction xs arbitrary: acc rooted)
  case (Cons x xs)
  show ?case by (cases acc) (simp_all add: Cons.IH)
qed simp

lemma clean_parts_rooted_plain:
  "list_all plain_element acc \<Longrightarrow> \<forall>x\<in>set xs. slash \<notin> set x \<Longrightarrow> list_all plain_element (clean_parts True acc xs)"
proof (induction xs arbitrary: acc)
  case (Cons x xs)
  have "list_all plain_element (x # acc)" if "x \<noteq> []" "x \<noteq> ''.''" "x \<noteq> ''..''"
    using that Cons.prems by (simp add: plain_element_def [of x])
  moreover have "\<not> plain_element ''..''" by (simp add: plain_element_def)
  ultimately show ?case using Cons by (cases acc) auto
qed simp

lemma path_is_abs_path [simp]: "path_is_abs (abs_path es)"
  by (simp add: path_is_abs_def abs_path_def)

lemma path_clean_abs:
  assumes "path_is_abs p"
  obtains es where "path_clean p = abs_path es" "list_all plain_element es"
  using assms clean_parts_rooted_plain [of "[]" "split_on slash p"] split_on_pieces [of _ slash p]
  by (auto simp: path_clean_def abs_path_def Let_def)

lemma path_clean_abs_path:
  assumes "list_all plain_element es"
  shows "path_clean (abs_path es) = abs_path es"
proof -
  have "clean_parts True [] (split_on slash (abs_path es)) = es"
    using clean_parts_plain [OF assms, of True "[]"] by (simp add: split_abs_path [OF assms])
  then show ?thesis by (simp only: path_clean_def Let_def path_is_abs_path if_True) (simp add: abs_path_def)
qed

lemma split_on_two: "split_on c (a @ c # b) = split_on c a @ split_on c b"
  by (induction a) (auto split: list.splits)

lemma path_join_abs:
  assumes "list_all plain_element es" "list_all plain_element fs" "fs \<noteq> []"
  shows "path_join (abs_path es) (join [slash] fs) = abs_path (es @ fs)"
proof -
  have f: "split_on slash (join [slash] fs) = fs"
    using split_on_of_join [of fs slash] assms(2,3) by (auto simp: list_all_iff plain_element_def)
  have abs: "path_is_abs (abs_path es @ [slash] @ join [slash] fs)" by (simp add: path_is_abs_def abs_path_def)
  have s: "split_on slash (abs_path es @ [slash] @ join [slash] fs) = ([] # (if es = [] then [[]] else es)) @ fs"
    by (simp add: split_on_two split_abs_path [OF assms(1)] f)
  have "clean_parts True [] (([] # (if es = [] then [[]] else es)) @ fs) = es @ fs"
    unfolding clean_parts_append using assms(1,2) by (cases "es = []") (simp_all add: clean_parts_plain)
  then show ?thesis using s abs by (simp only: path_join_def path_clean_def Let_def if_True abs_path_def)
qed

lemma path_join_one: "list_all plain_element es \<Longrightarrow> plain_element e \<Longrightarrow> path_join (abs_path es) e = abs_path (es @ [e])"
  using path_join_abs [of es "[e]"] by simp

lemma path_join_dot: "list_all plain_element es \<Longrightarrow> path_join (abs_path es) ''.'' = abs_path es"
proof -
  assume es: "list_all plain_element es"
  have "split_on slash (abs_path es @ [slash] @ ''.'') = ([] # (if es = [] then [[]] else es)) @ [''.'']"
    using split_on_two [of slash "abs_path es" "''.''"] by (simp add: split_abs_path [OF es]) (simp add: slash_def)
  moreover have "clean_parts True [] (([] # (if es = [] then [[]] else es)) @ [''.'']) = es"
    unfolding clean_parts_append using es by (cases "es = []") (simp_all add: clean_parts_plain)
  moreover have "path_is_abs (abs_path es @ [slash] @ ''.'')" by (simp add: path_is_abs_def abs_path_def)
  ultimately show ?thesis by (simp only: path_join_def path_clean_def Let_def if_True abs_path_def)
qed

section \<open>The path of the database\<close>

lemma rel_parts_cases: "(\<exists>rest. ts = bs @ rest \<and> rel_parts bs ts = rest) \<or> (\<exists>ps. rel_parts bs ts = ''..'' # ps)"
proof (induction bs arbitrary: ts)
  case (Cons b bs)
  then show ?case by (cases ts) auto
qed simp

lemma outside_up: "outside_storage (join [slash] (''..'' # ps))"
  by (cases ps) (simp_all add: outside_storage_def)

lemma inside_storage:
  assumes "list_all plain_element ts" "\<not> outside_storage (path_rel (abs_path bs) (abs_path ts))" "list_all plain_element bs"
  shows "\<exists>rest. ts = bs @ rest \<and> path_rel (abs_path bs) (abs_path ts) = (if rest = [] then ''.'' else join [slash] rest)"
proof -
  have r: "path_rel (abs_path bs) (abs_path ts) = (if rel_parts bs ts = [] then ''.'' else join [slash] (rel_parts bs ts))"
    using assms(1,3) by (simp add: path_rel_def path_elements_abs Let_def)
  from rel_parts_cases [of ts bs] show ?thesis
  proof
    assume "\<exists>rest. ts = bs @ rest \<and> rel_parts bs ts = rest"
    then obtain rest where "ts = bs @ rest" "rel_parts bs ts = rest" by blast
    with r show ?thesis by (intro exI [of _ rest]) simp
  next
    assume "\<exists>ps. rel_parts bs ts = ''..'' # ps"
    then obtain ps where "rel_parts bs ts = ''..'' # ps" by blast
    with r assms(2) outside_up [of ps] show ?thesis by simp
  qed
qed

lemma storage_path: "''/app/storage'' = abs_path [''app'', ''storage'']"
  by (simp add: abs_path_def slash_def)

lemma path_join_is_abs: "path_is_abs a \<Longrightarrow> path_is_abs (path_join a b)"
proof -
  assume "path_is_abs a"
  then have "path_is_abs (a @ [slash] @ b)" by (cases a) (simp_all add: path_is_abs_def)
  then obtain es where "path_clean (a @ [slash] @ b) = abs_path es" by (rule path_clean_abs)
  then show ?thesis by (simp only: path_join_def path_is_abs_path)
qed

lemma app_is_abs: "path_is_abs ''/app''" "path_is_abs ''/app/storage''"
  by (simp_all add: path_is_abs_def slash_def)

lemma default_is_abs: "default_container_path env = Inr p \<Longrightarrow> path_is_abs p"
  by (auto simp: default_container_path_def Let_def path_join_is_abs app_is_abs split: if_splits)

lemma deployedDatabasePath_result:
  assumes "deployedDatabasePath L M = Inr p" "mc_DataDir M = abs_path ds" "list_all plain_element ds"
  shows "\<exists>rest. p = abs_path (ds @ ''storage'' # rest) \<and> list_all plain_element rest"
proof -
  from assms(1) obtain app where app: "loadDeploymentApp M = Inr app"
    by (auto simp: deployedDatabasePath_def split: sum.splits)
  let ?given = "trim_space (ac_Env app ''MINIFORM_DATABASE_PATH'')"
  let ?path = "if ?given = [] then default_container_path (ac_Env app)
    else if \<not> path_is_abs ?given then Inr (path_join ''/app'' ?given) else Inr ?given"
  obtain container where given: "?path = Inr container"
    using assms(1) app by (cases ?path) (simp_all add: deployedDatabasePath_def Let_def)
  have "\<not> outside_storage (path_rel ''/app/storage'' (path_clean container))
    \<and> p = path_join (path_join (mc_DataDir M) ''storage'') (path_rel ''/app/storage'' (path_clean container))"
    using assms(1) unfolding deployedDatabasePath_def app Let_def sum.case given by (auto split: if_splits)
  then have c: "\<not> outside_storage (path_rel ''/app/storage'' (path_clean container))"
    and p: "p = path_join (path_join (mc_DataDir M) ''storage'') (path_rel ''/app/storage'' (path_clean container))" by blast+
  have st: "plain_element ''storage''" "plain_element ''app''" by (simp_all add: plain_element_def slash_def)
  have d: "path_join (mc_DataDir M) ''storage'' = abs_path (ds @ [''storage''])" using assms(2,3) st by (simp add: path_join_one)
  have container: "path_is_abs container"
    using given by (auto simp: default_is_abs path_join_is_abs app_is_abs split: if_splits)
  then obtain es where es: "path_clean container = abs_path es" "list_all plain_element es" by (rule path_clean_abs)
  have "\<exists>rest. es = [''app'', ''storage''] @ rest
      \<and> path_rel ''/app/storage'' (path_clean container) = (if rest = [] then ''.'' else join [slash] rest)"
    unfolding es(1) storage_path using c es st by (intro inside_storage) (simp_all add: storage_path)
  then obtain rest where rest: "es = [''app'', ''storage''] @ rest"
    "path_rel ''/app/storage'' (path_clean container) = (if rest = [] then ''.'' else join [slash] rest)" by blast
  have ok: "list_all plain_element (ds @ [''storage''])" "list_all plain_element rest" using assms(3) st es(2) rest(1) by simp_all
  have "p = abs_path ((ds @ [''storage'']) @ rest)"
    unfolding p d rest(2) using ok by (cases "rest = []") (simp_all add: path_join_dot path_join_abs del: append_assoc)
  with ok show ?thesis by auto
qed

end
