(* ===== verification/Deployment_Laws.thy ===== *)
theory Deployment_Laws
  imports Path_Laws
begin

text \<open>
  What the deployment commands promise: which files each step touches, what a snapshot and a restore do
  to the content of a database, and that a failed restart puts back the database and the container.
\<close>

section \<open>Which files a step touches\<close>

text \<open>
  \<open>touches X m\<close>: the program changes no file but those in \<open>X\<close>, leaves the container engine alone, and
  meets only failures that the schedule holds. An honest environment does not fail a call with
  \<open>fs.ErrNotExist\<close> when the file is there.
\<close>

definition touches :: "(string \<Rightarrow> bool) \<Rightarrow> ('c, 'a) host_prog \<Rightarrow> bool" where
  "touches X m \<longleftrightarrow> (\<forall>w r w'. m w = (r, w') \<longrightarrow>
     ht_Engine (db w') = ht_Engine (db w) \<and> set (faults w') \<subseteq> set (faults w)
     \<and> (\<forall>q. \<not> X q \<longrightarrow> node_at (db w') q = node_at (db w) q))"

definition honest :: "'d world \<Rightarrow> bool" where
  "honest w \<longleftrightarrow> (\<forall>e. Some e \<in> set (faults w) \<longrightarrow> \<not> err_is ErrNotExist e)"

lemma touches_honest: "touches X m \<Longrightarrow> m w = (r, w') \<Longrightarrow> honest w \<Longrightarrow> honest w'"
  unfolding touches_def honest_def by blast

lemma touchesD: "touches X m \<Longrightarrow> m w = (r, w') \<Longrightarrow> \<not> X q \<Longrightarrow> node_at (db w') q = node_at (db w) q"
  by (auto simp: touches_def)

lemma touches_engine: "touches X m \<Longrightarrow> m w = (r, w') \<Longrightarrow> ht_Engine (db w') = ht_Engine (db w)"
  by (auto simp: touches_def)

lemma touches_mono: "touches X m \<Longrightarrow> (\<And>q. X q \<Longrightarrow> Y q) \<Longrightarrow> touches Y m"
  unfolding touches_def by blast

named_theorems touch

lemma touches_basic [touch]:
  "touches X (ret x)" "touches X (fail e)" "touches X (of_result r)" "touches X (guard b e)" "touches X time_now"
  by (auto simp: touches_def ret_apply fail_apply of_result_apply guard_apply time_now_def split: list.splits)

lemma touches_bnd [touch]: "touches X m \<Longrightarrow> (\<And>x. touches X (f x)) \<Longrightarrow> touches X (bnd m f)"
  unfolding touches_def bnd_apply by (fastforce split: prod.splits sum.splits)

lemma touches_catch [touch]: "touches X m \<Longrightarrow> (\<And>r. touches X (f r)) \<Longrightarrow> touches X (catch m f)"
  unfolding touches_def catch_apply by (fastforce split: prod.splits)

lemma touches_wrap_err [touch]: "touches X m \<Longrightarrow> touches X (wrap_err p m)"
  unfolding touches_def wrap_err_apply by (fastforce split: prod.splits sum.splits)

lemma touches_cases [touch]:
  "touches X a \<Longrightarrow> touches X b \<Longrightarrow> touches X (if c then a else b)"
  "(\<And>e. touches X (f e)) \<Longrightarrow> (\<And>x. touches X (g x)) \<Longrightarrow> touches X (case r of Inl e \<Rightarrow> f e | Inr x \<Rightarrow> g x)"
  "touches X m \<Longrightarrow> (\<And>x. touches X (k x)) \<Longrightarrow> touches X (case v of None \<Rightarrow> m | Some x \<Rightarrow> k x)"
  by (auto split: sum.splits option.splits)

lemma touches_stmt:
  assumes "\<And>h x h'. f h = Inr (x, h') \<Longrightarrow> ht_Engine h' = ht_Engine h \<and> (\<forall>q. \<not> X q \<longrightarrow> node_at h' q = node_at h q)"
  shows "touches X (stmt f)"
proof -
  have "set (tl xs) \<subseteq> set xs" for xs :: "err option list" by (cases xs) auto
  with assms show ?thesis by (fastforce simp: touches_def stmt_def split: list.splits option.splits sum.splits)
qed

lemma node_at_put: "node_at (put_node p n h) q = (if q = p then Some n else node_at h q)"
  by (simp add: node_at_def put_node_def update_conv')

lemma node_at_drop: "node_at (drop_node p h) q = (if q = p then None else node_at h q)"
  by (simp add: node_at_def drop_node_def delete_conv')

lemma engine_put [simp]: "ht_Engine (put_node p n h) = ht_Engine h" "ht_Engine (drop_node p h) = ht_Engine h"
  by (simp_all add: put_node_def drop_node_def)

lemma put_file_node: "node_at (put_file p s h) q = (if q = p then Some (case node_at h p of Some n \<Rightarrow> n\<lparr>in_Data := s\<rparr>
    | None \<Rightarrow> \<lparr>in_Kind = RegularFile, in_Data = s, in_Mode = 420, in_Owner = (0, 0)\<rparr>) else node_at h q)"
  by (simp add: put_file_def node_at_put split: option.splits)

lemma engine_put_file [simp]: "ht_Engine (put_file p s h) = ht_Engine h"
  by (simp add: put_file_def split: option.splits)

lemma touches_os [touch]:
  "touches X (os_Stat p)" "touches X (os_ReadDir p)" "touches X sys_ok"
  "touches (\<lambda>q. q = p) (os_Remove p)" "touches (\<lambda>q. q = p) (os_Chmod p m)" "touches (\<lambda>q. q = p) (os_Chown p owner)"
  "touches (\<lambda>q. q = a \<or> q = b) (os_Rename a b)"
  unfolding os_Stat_def os_ReadDir_def sys_ok_def os_Remove_def os_Chmod_def os_Chown_def change_node_def os_Rename_def
  by (auto intro!: touches_stmt simp: node_at_put node_at_drop split: sum.splits if_splits)

lemma mkdir_fold:
  "ht_Engine (foldl (\<lambda>g q. if node_at g q = None then put_node q new_dir g else g) h ps) = ht_Engine h
   \<and> node_at (foldl (\<lambda>g q. if node_at g q = None then put_node q new_dir g else g) h ps) x
     = (if node_at h x = None \<and> x \<in> set ps then Some new_dir else node_at h x)"
  by (induction ps arbitrary: h) (auto simp: node_at_put)

lemma touches_MkdirAll: "touches (\<lambda>q. q \<in> set (ancestors p)) (os_MkdirAll p)"
  unfolding os_MkdirAll_def by (rule touches_stmt) (auto simp: mkdir_fold split: if_splits)

section \<open>Databases\<close>

definition db_names :: "string \<Rightarrow> string \<Rightarrow> bool" where
  "db_names p q \<longleftrightarrow> q = p \<or> q = p @ ''-wal'' \<or> q = p @ ''-shm''"

lemma files_of_cong: "(\<And>q. db_names p q \<Longrightarrow> node_at h' q = node_at h q) \<Longrightarrow> files_of p h' = files_of p h"
  by (simp add: files_of_def data_at_def db_names_def)

lemma node_at_sidecar: "node_at (put_sidecar p v h) q =
   (if q = p then (case v of None \<Rightarrow> None | Some s \<Rightarrow> node_at (put_file p s h) p) else node_at h q)"
  by (auto simp: put_sidecar_def node_at_drop put_file_node split: option.splits)

lemma engine_sidecar [simp]: "ht_Engine (put_sidecar p v h) = ht_Engine h"
  by (simp add: put_sidecar_def split: option.splits)

lemma put_files_other: "\<not> db_names p q \<Longrightarrow> node_at (put_files p f h) q = node_at h q"
  by (cases f) (simp add: put_files_def node_at_sidecar put_file_node db_names_def)

lemma engine_put_files [simp]: "ht_Engine (put_files p f h) = ht_Engine h"
  by (cases f) (simp add: put_files_def)

lemma put_files_main: "node_at (put_files p f h) p = (case node_at h p of None \<Rightarrow> None | Some n \<Rightarrow> Some (n\<lparr>in_Data := fst f\<rparr>))"
  by (cases f) (simp add: put_files_def node_at_sidecar put_file_node split: option.splits)

lemma files_of_put_files: "node_at h p \<noteq> None \<Longrightarrow> files_of p (put_files p f h) = f"
  by (cases f) (auto simp: files_of_def data_at_def put_files_def node_at_sidecar put_file_node split: option.splits)

lemma touches_session [touch]: "touches (db_names p) (session p f)"
  by (auto simp: touches_def session_def put_files_other split: prod.splits)

lemma touches_with_close [touch]: "touches X m \<Longrightarrow> touches X (with_close m)"
  unfolding with_close_def by (intro touch)

lemma touches_validate: "touches (db_names p) (validateDatabase L S p)"
  unfolding validateDatabase_def by (intro touch)

lemma touches_written: "touches (\<lambda>q. q = b) (written b r)"
  by (auto simp: touches_def written_def put_file_node split: option.splits)

lemma touches_no_output: "touches (\<lambda>_. False) (no_output b)"
  unfolding no_output_def by (rule touches_stmt) (auto split: option.splits if_splits)

lemma touches_vacuum: "touches (\<lambda>q. db_names a q \<or> q = b) (vacuum_into S a b)"
  unfolding vacuum_into_def
  by (intro touches_bnd touches_mono [OF touches_no_output] touches_mono [OF touches_session] touches_mono [OF touches_written]) auto

lemma touches_snapshot: "touches (\<lambda>q. db_names a q \<or> db_names b q) (snapshotDatabase L S a b)"
  unfolding snapshotDatabase_def
  by (intro touch touches_mono [OF touches_vacuum] touches_mono [OF touches_validate]) (auto simp: db_names_def)

lemma touches_checkpoint: "touches (db_names p) (checkpointDatabase S p)"
  unfolding checkpointDatabase_def by (intro touch)

section \<open>What SQLite promises\<close>

text \<open>
  \<open>C\<close> is the content of a database. Reading does not change it, and leaves a database without sidecars
  as it is; a checkpoint does not change it; \<open>VACUUM INTO\<close> writes a database of the same content.
\<close>

definition sqlite_ok :: "sqlite \<Rightarrow> (db_files \<Rightarrow> 'v) \<Rightarrow> bool" where
  "sqlite_ok S C \<longleftrightarrow>
     (\<forall>f. C (snd (sq_Integrity S f)) = C f \<and> C (snd (sq_Tables S f)) = C f \<and> C (snd (sq_VacuumInto S f)) = C f
        \<and> C (snd (sq_Checkpoint S f)) = C f)
   \<and> (\<forall>m. snd (sq_Integrity S (m, None, None)) = (m, None, None) \<and> snd (sq_Tables S (m, None, None)) = (m, None, None))
   \<and> (\<forall>f out. fst (sq_VacuumInto S f) = (None, out) \<longrightarrow> (\<exists>s. out = Some s \<and> C (s, None, None) = C f))"

lemma session_files: "session p f w = (r, w') \<Longrightarrow> node_at (db w) p \<noteq> None \<Longrightarrow>
   files_of p (db w') = snd (f (files_of p (db w))) \<and> node_at (db w') p \<noteq> None \<and> r = Inr (fst (f (files_of p (db w))))"
  by (auto simp: session_def files_of_put_files put_files_main split: prod.splits option.splits)

text \<open>A property of the files of a database that the steps of a program keep.\<close>

definition db_at :: "(db_files \<Rightarrow> bool) \<Rightarrow> string \<Rightarrow> 'c host \<Rightarrow> bool" where
  "db_at P p h \<longleftrightarrow> node_at h p \<noteq> None \<and> P (files_of p h)"

definition steady :: "(db_files \<Rightarrow> bool) \<Rightarrow> string \<Rightarrow> ('c, 'a) host_prog \<Rightarrow> bool" where
  "steady P p m \<longleftrightarrow> (\<forall>w r w'. m w = (r, w') \<longrightarrow> node_at (db w) p \<noteq> None \<longrightarrow> P (files_of p (db w)) \<longrightarrow>
     node_at (db w') p \<noteq> None \<and> P (files_of p (db w')))"

lemma steadyD: "steady P p m \<Longrightarrow> m w = (r, w') \<Longrightarrow> node_at (db w) p \<noteq> None \<Longrightarrow> P (files_of p (db w)) \<Longrightarrow>
   node_at (db w') p \<noteq> None \<and> P (files_of p (db w'))"
  unfolding steady_def by blast

lemma steady_step: "steady P p m \<Longrightarrow> m w = (r, w') \<Longrightarrow> db_at P p (db w) \<Longrightarrow> db_at P p (db w')"
  unfolding db_at_def using steadyD by blast

lemma steady_untouched: "touches X m \<Longrightarrow> (\<And>q. db_names p q \<Longrightarrow> \<not> X q) \<Longrightarrow> steady P p m"
  unfolding steady_def using files_of_cong [of p] touchesD by (metis db_names_def)

lemma steady_bnd: "steady P p m \<Longrightarrow> (\<And>x. steady P p (f x)) \<Longrightarrow> steady P p (bnd m f)"
  unfolding steady_def bnd_apply by (fastforce split: prod.splits sum.splits)

lemma steady_catch: "steady P p m \<Longrightarrow> (\<And>r. steady P p (f r)) \<Longrightarrow> steady P p (catch m f)"
  unfolding steady_def catch_apply by (fastforce split: prod.splits)

lemma steady_wrap_err: "steady P p m \<Longrightarrow> steady P p (wrap_err s m)"
  unfolding steady_def wrap_err_apply by (fastforce split: prod.splits sum.splits)

lemma steady_session: "(\<And>f. P f \<Longrightarrow> P (snd (g f))) \<Longrightarrow> steady P p (session p g)"
  unfolding steady_def using session_files by metis

named_theorems steady

declare steady_bnd [steady] steady_catch [steady] steady_wrap_err [steady]

lemma steady_cases [steady]:
  "steady P p a \<Longrightarrow> steady P p b \<Longrightarrow> steady P p (if c then a else b)"
  "(\<And>e. steady P p (f e)) \<Longrightarrow> (\<And>x. steady P p (g x)) \<Longrightarrow> steady P p (case r of Inl e \<Rightarrow> f e | Inr x \<Rightarrow> g x)"
  "steady P p m \<Longrightarrow> (\<And>x. steady P p (k x)) \<Longrightarrow> steady P p (case v of None \<Rightarrow> m | Some x \<Rightarrow> k x)"
  by (auto split: sum.splits option.splits)

lemma steady_quiet [steady]:
  "steady P p (ret x)" "steady P p (fail e)" "steady P p (of_result r)" "steady P p (guard b e)" "steady P p time_now"
  "steady P p (os_Stat q)" "steady P p (os_ReadDir q)" "steady P p sys_ok"
  by (rule steady_untouched [where X = "\<lambda>_. False"], rule touch, simp)+

lemma steady_with_close [steady]: "steady P p m \<Longrightarrow> steady P p (with_close m)"
  unfolding with_close_def by (intro steady)

lemma steady_validate:
  assumes "\<And>f. P f \<Longrightarrow> P (snd (sq_Integrity S f))" "\<And>f. P f \<Longrightarrow> P (snd (sq_Tables S f))"
  shows "steady P p (validateDatabase L S p)"
  unfolding validateDatabase_def by (intro steady steady_session assms)

lemma reads_host: "reads (os_Stat p)" "reads (os_ReadDir p)" "reads sys_ok" "reads (no_output p)"
  by (auto simp: reads_def os_Stat_def os_ReadDir_def sys_ok_def no_output_def stmt_def split: list.splits option.splits sum.splits if_splits)

lemma with_close_InrE:
  assumes "with_close m w = (Inr x, w')"
  obtains w1 where "m w = (Inr x, w1)" "db w' = db w1"
proof -
  obtain r w1 where m: "m w = (r, w1)" by force
  obtain c w2 where c: "sys_ok w1 = (c, w2)" by force
  have "r = Inr x \<and> w' = w2"
    using assms m c by (auto simp: with_close_def catch_apply of_result_apply fail_apply error_of_def split: option.splits sum.splits)
  with m readsD [OF reads_host(3) c] that show ?thesis by simp
qed

lemma reads_with_close: "reads m \<Longrightarrow> reads (with_close m)"
  unfolding with_close_def by (intro tx_keeps reads_host(3))

lemma sqlite_okD:
  assumes "sqlite_ok S C"
  shows "C (snd (sq_Integrity S f)) = C f" "C (snd (sq_Tables S f)) = C f" "C (snd (sq_VacuumInto S f)) = C f"
    "C (snd (sq_Checkpoint S f)) = C f"
    "snd (sq_Integrity S (m, None, None)) = (m, None, None)" "snd (sq_Tables S (m, None, None)) = (m, None, None)"
    "fst (sq_VacuumInto S f) = (None, out) \<Longrightarrow> \<exists>s. out = Some s \<and> C (s, None, None) = C f"
  using assms unfolding sqlite_ok_def by blast+

lemma vacuum_result:
  assumes ok: "sqlite_ok S C" and run: "vacuum_into S a b w = (Inr (), w')"
    and apart: "\<And>q. db_names a q \<Longrightarrow> \<not> db_names b q" and src: "node_at (db w) a \<noteq> None"
    and lone: "node_at (db w) (b @ ''-wal'') = None" "node_at (db w) (b @ ''-shm'') = None"
  shows "\<exists>s. files_of b (db w') = (s, None, None) \<and> node_at (db w') b \<noteq> None \<and> C (s, None, None) = C (files_of a (db w))"
proof -
  from run obtain w1 r w2 where s: "db w1 = db w" "session a (sq_VacuumInto S) w1 = (Inr r, w2)" "written b r w2 = (Inr (), w')"
    unfolding vacuum_into_def by (elim bnd_InrE) (metis readsD reads_host(4))
  have r: "r = fst (sq_VacuumInto S (files_of a (db w)))" using session_files [OF s(2)] src s(1) by simp
  obtain v where v: "r = (None, Some v)" "C (v, None, None) = C (files_of a (db w))"
  proof -
    have "fst r = None" using s(3) by (auto simp: written_def split: option.splits)
    then have "fst (sq_VacuumInto S (files_of a (db w))) = (None, snd r)" unfolding r by (metis prod.collapse)
    from sqlite_okD(7) [OF ok this] r that show thesis by (metis prod.collapse \<open>fst r = None\<close>)
  qed
  have w': "db w' = put_file b v (db w2)" using s(3) v(1) by (auto simp: written_def)
  have "\<not> db_names a q" if "db_names b q" for q using apart that by blast
  then have "node_at (db w2) q = node_at (db w) q" if "db_names b q" for q
    using touchesD [OF touches_session s(2)] s(1) that by metis
  then have "node_at (db w2) (b @ ''-wal'') = None" "node_at (db w2) (b @ ''-shm'') = None" using lone by (simp_all add: db_names_def)
  then have "files_of b (db w') = (v, None, None)"
    unfolding w' by (simp add: files_of_def data_at_def put_file_node split: option.splits)
  moreover have "node_at (db w') b \<noteq> None" unfolding w' by (simp add: put_file_node)
  ultimately show ?thesis using v(2) by blast
qed

lemma snapshot_result:
  assumes ok: "sqlite_ok S C" and run: "snapshotDatabase L S a b w = (Inr (), w')"
    and apart: "\<And>q. db_names a q \<Longrightarrow> \<not> db_names b q" and src: "node_at (db w) a \<noteq> None"
    and lone: "node_at (db w) (b @ ''-wal'') = None" "node_at (db w) (b @ ''-shm'') = None"
  shows "\<exists>s. files_of b (db w') = (s, None, None) \<and> node_at (db w') b \<noteq> None \<and> C (s, None, None) = C (files_of a (db w))"
proof -
  from run obtain w1 where open_db: "sys_ok w = (Inr (), w1)"
    "with_close (bnd (wrap_err ''create SQLite snapshot'' (vacuum_into S a b))
       (\<lambda>_. wrap_err ''validate snapshot'' (validateDatabase L S b))) w1 = (Inr (), w')"
    unfolding snapshotDatabase_def by (elim bnd_InrE) simp
  from open_db(2) obtain w3 where "bnd (wrap_err ''create SQLite snapshot'' (vacuum_into S a b))
       (\<lambda>_. wrap_err ''validate snapshot'' (validateDatabase L S b)) w1 = (Inr (), w3)" "db w' = db w3" by (rule with_close_InrE)
  then obtain w2 where s: "db w1 = db w" "vacuum_into S a b w1 = (Inr (), w2)" "validateDatabase L S b w2 = (Inr (), w3)" "db w' = db w3"
    using readsD [OF reads_host(3) open_db(1)] by (elim bnd_InrE) simp
  from vacuum_result [OF ok s(2) apart] src lone s(1) obtain v where v: "files_of b (db w2) = (v, None, None)"
    "node_at (db w2) b \<noteq> None" "C (v, None, None) = C (files_of a (db w))" by auto
  have "steady (\<lambda>f. f = (v, None, None)) b (validateDatabase L S b)"
    by (rule steady_validate) (simp_all add: sqlite_okD [OF ok])
  from steadyD [OF this s(3) v(2)] v(1,3) s(4) show ?thesis by auto
qed

lemma snapshot_source: 
  assumes "sqlite_ok S C" "\<And>q. db_names a q \<Longrightarrow> \<not> db_names b q"
  shows "steady (\<lambda>f. C f = c) a (snapshotDatabase L S a b)"
proof -
  have "steady (\<lambda>f. C f = c) a (vacuum_into S a b)"
    unfolding vacuum_into_def
  proof (intro steady_bnd steady_session)
    show "steady (\<lambda>f. C f = c) a (no_output b)" by (rule steady_untouched [OF touches_no_output]) simp
    show "steady (\<lambda>f. C f = c) a (written b r)" for r
      using assms(2) by (intro steady_untouched [OF touches_written]) (auto simp: db_names_def)
  qed (simp add: sqlite_okD [OF assms(1)])
  moreover have "steady (\<lambda>f. C f = c) a (validateDatabase L S b)"
    by (rule steady_untouched [OF touches_validate]) (rule assms(2))
  ultimately show ?thesis unfolding snapshotDatabase_def by (intro steady)
qed

section \<open>Staging and replacing a database\<close>

lemma or_discard_InrE:
  assumes "or_discard p m f w = (Inr y, w'')"
  obtains x w' where "m w = (Inr x, w')" "f x w' = (Inr y, w'')"
  using assms by (auto simp: or_discard_def catch_apply split: prod.splits sum.splits)

text \<open>The names of staged copies, and when the files of a database, of a backup and of staged copies are apart.\<close>

definition restore_name :: "string \<Rightarrow> string \<Rightarrow> bool" where
  "restore_name dir t \<longleftrightarrow> (\<exists>n. t = path_join dir (''.miniform-restore-'' @ dec_digits n @ ''.db''))"

definition apart :: "string \<Rightarrow> string \<Rightarrow> bool" where
  "apart p b \<longleftrightarrow>
     (\<forall>q. db_names b q \<longrightarrow> \<not> db_names p q \<and> q \<notin> set (ancestors (path_dir p)))
   \<and> (\<forall>t q. restore_name (path_dir p) t \<longrightarrow> db_names t q \<longrightarrow> \<not> db_names p q \<and> \<not> db_names b q \<and> q \<notin> set (ancestors (path_dir p)))"

definition no_sidecars :: "(string \<Rightarrow> bool) \<Rightarrow> 'c host \<Rightarrow> bool" where
  "no_sidecars N h \<longleftrightarrow> (\<forall>t. N t \<longrightarrow> node_at h (t @ ''-wal'') = None \<and> node_at h (t @ ''-shm'') = None)"

lemma temp_name_result: "temp_name h dir n ns = Some (p, ns') \<Longrightarrow> restore_name dir p \<and> node_at h p = None"
  by (induction h dir n ns rule: temp_name.induct) (auto simp: restore_name_def Let_def split: if_splits)

lemma CreateTemp_result:
  assumes "os_CreateTemp dir w = (Inr t, w')"
  shows "restore_name dir t \<and> node_at (db w) t = None"
proof -
  from assms obtain w1 where s: "sys_ok w = (Inr (), w1)" "is_directory (db w1) dir"
    "(case temp_name (db w1) dir 10000 (entropy w1) of None \<Rightarrow> (Inl (Plain ''file exists''), w1)
      | Some (p, ns) \<Rightarrow> (Inr p, w1\<lparr>entropy := ns, db := put_file p [] (db w1)\<rparr>)) = (Inr t, w')"
    unfolding os_CreateTemp_def by (elim bnd_InrE) (auto split: if_splits)
  from s(3) have "\<exists>ns. temp_name (db w1) dir 10000 (entropy w1) = Some (t, ns)"
    by (cases "temp_name (db w1) dir 10000 (entropy w1)") auto
  with temp_name_result readsD [OF reads_host(3) s(1)] show ?thesis by metis
qed

lemma touches_CreateTemp: "touches (restore_name dir) (os_CreateTemp dir)"
  unfolding os_CreateTemp_def
  by (intro touches_bnd touch) (auto simp: touches_def put_file_node split: option.splits dest: temp_name_result)

lemma only_temp: "os_CreateTemp dir w = (Inr t, w') \<Longrightarrow> q \<noteq> t \<Longrightarrow> node_at (db w') q = node_at (db w) q"
  unfolding os_CreateTemp_def
  by (elim bnd_InrE) (auto simp: put_file_node split: if_splits option.splits prod.splits dest: readsD [OF reads_host(3)])

lemma validate_exists: "validateDatabase L S b w = (Inr (), w') \<Longrightarrow> node_at (db w) b \<noteq> None"
  unfolding validateDatabase_def os_Stat_def
  by (elim bnd_InrE stmt_InrE) (auto simp: lookup_def split: option.splits if_splits sum.splits)

lemma steady_change: "(\<And>n. in_Data (f n) = in_Data n) \<Longrightarrow> steady P p (change_node q f)"
proof -
  assume f: "\<And>n. in_Data (f n) = in_Data n"
  show ?thesis
    unfolding steady_def
  proof (intro allI impI)
    fix w r w' assume run: "change_node q f w = (r, w')" and p: "node_at (db w) p \<noteq> None" "P (files_of p (db w))"
    have "\<forall>x. data_at (db w') x = data_at (db w) x"
      using run f by (auto simp: change_node_def stmt_def data_at_def node_at_put lookup_def
          split: list.splits option.splits sum.splits if_splits)
    then show "node_at (db w') p \<noteq> None \<and> P (files_of p (db w'))"
      using p by (metis files_of_def data_at_def option.map_disc_iff)
  qed
qed

lemma steady_chmod [steady]: "steady P p (os_Chmod q m)" "steady P p (os_Chown q owner)"
  unfolding os_Chmod_def os_Chown_def by (rule steady_change, simp)+

lemma prepare_result:
  assumes ok: "sqlite_ok S C" and run: "prepareDatabaseRestore L S p b w = (Inr t, w')" and apart: "apart p b"
    and lone: "no_sidecars (restore_name (path_dir p)) (db w)"
  shows "restore_name (path_dir p) t \<and> node_at (db w') t \<noteq> None
    \<and> (\<exists>s. files_of t (db w') = (s, None, None) \<and> C (s, None, None) = C (files_of b (db w)))"
proof -
  from run obtain w1 w2 w3 w4 w5 w6 where s: "validateDatabase L S b w = (Inr (), w1)" "os_MkdirAll (path_dir p) w1 = (Inr (), w2)"
    "os_CreateTemp (path_dir p) w2 = (Inr t, w3)" "sys_ok w3 = (Inr (), w4)" "os_Remove t w4 = (Inr (), w5)"
    "snapshotDatabase L S b t w5 = (Inr (), w6)" "os_Chmod t 384 w6 = (Inr (), w')"
    unfolding prepareDatabaseRestore_def by (elim bnd_InrE or_discard_InrE) simp
  from CreateTemp_result [OF s(3)] have t: "restore_name (path_dir p) t" by simp
  have ap: "\<And>q. db_names b q \<Longrightarrow> \<not> db_names t q" "\<And>q. db_names t q \<Longrightarrow> \<not> db_names b q"
    "\<And>q. db_names t q \<Longrightarrow> q \<notin> set (ancestors (path_dir p))" "\<And>q. db_names b q \<Longrightarrow> q \<notin> set (ancestors (path_dir p))"
    "\<And>q t. db_names b q \<Longrightarrow> \<not> restore_name (path_dir p) q"
    using apart t unfolding apart_def by (blast, blast, blast, blast, metis db_names_def)
  define P where "P = (\<lambda>f. C f = C (files_of b (db w)))"
  have keep: "steady P b (validateDatabase L S b)" unfolding P_def by (rule steady_validate) (simp_all add: sqlite_okD [OF ok])
  have "db_at P b (db w)" using validate_exists [OF s(1)] by (simp add: db_at_def P_def)
  from steady_step [OF keep s(1) this] have "db_at P b (db w1)" .
  from steady_step [OF steady_untouched [OF touches_MkdirAll ap(4)] s(2) this] have "db_at P b (db w2)" .
  from steady_step [OF steady_untouched [OF touches_CreateTemp ap(5)] s(3) this] have "db_at P b (db w3)" .
  from steady_step [OF steady_quiet(8) s(4) this] have "db_at P b (db w4)" .
  moreover have "q \<noteq> t" if "db_names b q" for q using ap(1) that by (auto simp: db_names_def)
  ultimately have five: "db_at P b (db w5)" using steady_step [OF steady_untouched [OF touches_os(4)] s(5)] by blast
  have "node_at (db w5) (t @ e) = None" if e: "e = ''-wal'' \<or> e = ''-shm''" for e
  proof -
    have n: "db_names t (t @ e)" "t @ e \<noteq> t" using e by (auto simp: db_names_def)
    have "node_at (db w) (t @ e) = None" using lone t e by (auto simp: no_sidecars_def)
    then have "node_at (db w1) (t @ e) = None" using touchesD [OF touches_validate s(1)] ap(2) n(1) by metis
    then have "node_at (db w2) (t @ e) = None" using touchesD [OF touches_MkdirAll s(2)] ap(3) n(1) by metis
    then have "node_at (db w3) (t @ e) = None" using only_temp [OF s(3) n(2)] by simp
    then have "node_at (db w4) (t @ e) = None" using readsD [OF reads_host(3) s(4)] by simp
    then show ?thesis using touchesD [OF touches_os(4) s(5)] n(2) by metis
  qed
  then obtain v where v: "files_of t (db w6) = (v, None, None)" "node_at (db w6) t \<noteq> None"
    "C (v, None, None) = C (files_of b (db w5))" using snapshot_result [OF ok s(6) ap(1)] five by (auto simp: db_at_def)
  have "node_at (db w') t \<noteq> None \<and> files_of t (db w') = (v, None, None)"
    using steadyD [OF steady_chmod(1) [where P = "\<lambda>f. f = (v, None, None)"] s(7) v(2)] v(1) by simp
  with t v(3) five show ?thesis by (auto simp: db_at_def P_def)
qed

lemma prepare_honest: "prepareDatabaseRestore L S p b w = (Inr t, w') \<Longrightarrow> honest w \<Longrightarrow> honest w'"
  unfolding prepareDatabaseRestore_def
  by (elim bnd_InrE or_discard_InrE)
     (auto dest!: touches_honest [OF touches_validate] touches_honest [OF touches_MkdirAll] touches_honest [OF touches_CreateTemp]
        touches_honest [OF touches_os(3)] touches_honest [OF touches_os(4)] touches_honest [OF touches_snapshot]
        touches_honest [OF touches_os(5)])

lemma touches_remove_sidecar: "touches (\<lambda>q. q = p) (remove_sidecar p)"
  unfolding remove_sidecar_def by (intro touch)

lemma remove_sidecar_result:
  assumes "remove_sidecar q w = (Inr (), w')" "honest w"
  shows "node_at (db w') q = None"
proof -
  obtain r w1 where o: "os_Remove q w = (r, w1)" by force
  have w': "w' = w1" and r: "case r of Inr _ \<Rightarrow> True | Inl e \<Rightarrow> err_is ErrNotExist e"
    using assms(1) o by (auto simp: remove_sidecar_def catch_apply ret_apply fail_apply split: sum.splits if_splits)
  show ?thesis
  proof (cases r)
    case (Inr x)
    with o have "node_at (db w1) q = None"
      by (auto simp: os_Remove_def node_at_drop elim!: stmt_InrE split: sum.splits if_splits)
    then show ?thesis by (simp add: w')
  next
    case (Inl e)
    with r have e: "err_is ErrNotExist e" by simp
    have "node_at (db w) q = None \<and> db w1 = db w"
    proof (cases "\<exists>f fs. faults w = Some f # fs")
      case True
      then show ?thesis using o Inl e assms(2) by (auto simp: os_Remove_def stmt_def honest_def)
    next
      case False
      then have "(case lookup (db w) q of Inl e' \<Rightarrow> e' = e | Inr n \<Rightarrow> False) \<and> db w1 = db w"
        using o Inl e by (cases "faults w") (auto simp: os_Remove_def stmt_def split: sum.splits option.splits if_splits)
      then show ?thesis using e by (auto simp: lookup_def split: option.splits sum.splits if_splits)
    qed
    then show ?thesis by (simp add: w')
  qed
qed

lemma touches_keep_permissions: "touches (\<lambda>q. q = t \<or> db_names p q) (keep_permissions L S p t info)"
  unfolding keep_permissions_def
  by (intro touch touches_mono [OF touches_validate] touches_mono [OF touches_checkpoint] touches_mono [OF touches_os(5)]
      touches_mono [OF touches_os(6)]) auto

lemma steady_keep_permissions:
  assumes "\<And>q. db_names t q \<Longrightarrow> \<not> db_names p q"
  shows "steady P t (keep_permissions L S p t info)"
proof -
  have "steady P t (validateDatabase L S p)" "steady P t (checkpointDatabase S p)"
    by (rule steady_untouched [OF touches_validate assms], assumption, rule steady_untouched [OF touches_checkpoint assms])
  then show ?thesis unfolding keep_permissions_def by (intro steady)
qed

lemma rename_result:
  assumes "os_Rename t p w = (Inr (), w')" "t \<noteq> p"
  shows "data_at (db w') p = data_at (db w) t \<and> node_at (db w') p \<noteq> None"
  using assms
  by (auto simp: os_Rename_def data_at_def node_at_put node_at_drop lookup_def elim!: stmt_InrE split: sum.splits option.splits if_splits)

lemma replace_result:
  assumes run: "replaceDatabase L S p t w = (Inr (), w')" and h: "honest w"
    and ap: "\<And>q. db_names t q \<Longrightarrow> \<not> db_names p q" and t: "node_at (db w) t \<noteq> None" "files_of t (db w) = (s, None, None)"
  shows "files_of p (db w') = (s, None, None) \<and> node_at (db w') p \<noteq> None"
proof -
  obtain x w0 where st: "os_Stat p w = (x, w0)" by force
  from run st obtain u w1 w2 w3 w4 w5 where r:
    "(case x of Inl e \<Rightarrow> if err_is ErrNotExist e then ret () else fail (Wrap ''inspect current database'' e)
      | Inr info \<Rightarrow> keep_permissions L S p t info) w0 = (Inr (), w1)"
    "remove_sidecar (p @ ''-wal'') w1 = (Inr (), w2)" "remove_sidecar (p @ ''-shm'') w2 = (Inr (), w3)"
    "os_Rename t p w3 = (Inr (), w4)" "sys_ok w4 = (Inr (), w5)" "with_close (wrap_err ''sync restored database'' sys_ok) w5 = (Inr (), w')"
    unfolding replaceDatabase_def by (simp add: catch_apply) (elim bnd_InrE, simp)
  define P where "P = (\<lambda>f. f = (s, None :: string option, None :: string option))"
  let ?first = "case x of Inl e \<Rightarrow> if err_is ErrNotExist e then ret () else fail (Wrap ''inspect current database'' e)
      | Inr info \<Rightarrow> keep_permissions L S p t info"
  have st1: "steady P t ?first" by (intro steady steady_keep_permissions ap)
  have to1: "touches (\<lambda>q. q = t \<or> db_names p q) ?first" by (intro touch touches_keep_permissions)
  have "db_at P t (db w0)" using readsD [OF reads_host(1) st] t by (simp add: db_at_def P_def)
  from steady_step [OF st1 r(1) this] have one: "db_at P t (db w1)" .
  have nt: "\<And>q. db_names t q \<Longrightarrow> q \<noteq> p @ ''-wal''" "\<And>q. db_names t q \<Longrightarrow> q \<noteq> p @ ''-shm''" "t \<noteq> p"
    using ap by (auto simp: db_names_def)
  from steady_step [OF steady_untouched [OF touches_remove_sidecar nt(1)] r(2) one] have "db_at P t (db w2)" .
  from steady_step [OF steady_untouched [OF touches_remove_sidecar nt(2)] r(3) this] have three: "db_at P t (db w3)" .
  have h1: "honest w1" using h touches_honest [OF touches_os(1) st] touches_honest [OF to1 r(1)] by blast
  have h2: "honest w2" using touches_honest [OF touches_remove_sidecar r(2) h1] .
  have wal: "node_at (db w2) (p @ ''-wal'') = None" using remove_sidecar_result [OF r(2) h1] .
  have wal3: "node_at (db w3) (p @ ''-wal'') = None" using touchesD [OF touches_remove_sidecar r(3), of "p @ ''-wal''"] wal by simp
  have shm3: "node_at (db w3) (p @ ''-shm'') = None" using remove_sidecar_result [OF r(3) h2] .
  have side: "node_at (db w4) (p @ e) = node_at (db w3) (p @ e)" if e: "e = ''-wal'' \<or> e = ''-shm''" for e
  proof -
    have "p @ e \<noteq> p" "p @ e \<noteq> t" using e ap [of t] by (auto simp: db_names_def)
    then show ?thesis using touchesD [OF touches_os(7) r(4)] by blast
  qed
  have main: "data_at (db w4) p = Some s \<and> node_at (db w4) p \<noteq> None"
    using rename_result [OF r(4) nt(3)] three by (auto simp: db_at_def P_def files_of_def data_at_def split: option.splits)
  have "db w' = db w4"
    using readsD [OF reads_host(3) r(5)] readsD [OF reads_with_close [OF reads_wrap_err [OF reads_host(3)]] r(6)] by simp
  then show ?thesis using main side [of "''-wal''"] side [of "''-shm''"] wal3 shm3 by (auto simp: files_of_def data_at_def)
qed

lemma restore_result:
  assumes ok: "sqlite_ok S C" and run: "restoreDatabase L S p b w = (Inr (), w')" and ap: "apart p b" and h: "honest w"
    and lone: "no_sidecars (restore_name (path_dir p)) (db w)"
  shows "node_at (db w') p \<noteq> None \<and> C (files_of p (db w')) = C (files_of b (db w))"
proof -
  from run obtain t w1 where prep: "prepareDatabaseRestore L S p b w = (Inr t, w1)"
    "catch (replaceDatabase L S p t) (\<lambda>r. catch (os_Remove t) (\<lambda>_. of_result r)) w1 = (Inr (), w')"
    unfolding restoreDatabase_def by (elim bnd_InrE)
  obtain r w2 where rep: "replaceDatabase L S p t w1 = (r, w2)" by force
  obtain x w3 where rem: "os_Remove t w2 = (x, w3)" by force
  have r: "r = Inr ()" "w' = w3" using prep(2) rep rem by (simp_all add: catch_apply)
  from prepare_result [OF ok prep(1) ap lone] obtain s where t: "restore_name (path_dir p) t" "node_at (db w1) t \<noteq> None"
    "files_of t (db w1) = (s, None, None)" "C (s, None, None) = C (files_of b (db w))" by blast
  have apt: "\<And>q. db_names t q \<Longrightarrow> \<not> db_names p q" using ap t(1) unfolding apart_def by blast
  have "honest w1" using prepare_honest [OF prep(1) h] .
  from replace_result [OF rep [unfolded r] this apt t(2,3)]
  have p: "files_of p (db w2) = (s, None, None) \<and> node_at (db w2) p \<noteq> None" .
  have "q \<noteq> t" if "db_names p q" for q using apt [of t] that by (auto simp: db_names_def)
  then have "steady (\<lambda>f. f = (s, None, None)) p (os_Remove t)" by (intro steady_untouched [OF touches_os(4)])
  from steadyD [OF this rem] p t(4) r(2) show ?thesis by simp
qed

section \<open>Backups\<close>

lemma touches_free_backup: "touches (\<lambda>_. False) (free_backup dir now index)"
proof -
  have "free_backup dir now index w = (r, w') \<Longrightarrow> ht_Engine (db w') = ht_Engine (db w) \<and> set (faults w') \<subseteq> set (faults w)
      \<and> (\<forall>q. node_at (db w') q = node_at (db w) q)" for w r w'
  proof (induction dir now index w rule: free_backup.induct)
    case (1 dir now index w)
    obtain x w1 where o: "os_Stat (path_join dir (backup_name now index)) w = (x, w1)" by force
    have st: "ht_Engine (db w1) = ht_Engine (db w)" "set (faults w1) \<subseteq> set (faults w)" "\<And>q. node_at (db w1) q = node_at (db w) q"
      using touches_os(1) [of "\<lambda>_. False" "path_join dir (backup_name now index)"] o unfolding touches_def by blast+
    show ?case
    proof (cases "index \<ge> 1000000 \<or> (\<exists>e. x = Inl e)")
      case True
      with "1.prems" o st show ?thesis by (subst (asm) free_backup.simps) (auto simp: Let_def split: if_splits)
    next
      case False
      then obtain n where "x = Inr n" by (cases x) auto
      with False "1.prems" o have "free_backup dir now (index + 1) w1 = (r, w')" by (subst (asm) free_backup.simps) (simp add: Let_def)
      from "1.IH" [OF _ refl o [symmetric] _ this] False \<open>x = Inr n\<close> st show ?thesis by auto
    qed
  qed
  then show ?thesis unfolding touches_def by blast
qed

lemma free_backup_name: "free_backup dir now index w = (Inr b, w') \<Longrightarrow> \<exists>i. b = path_join dir (backup_name now i) \<and> index \<le> i \<and> i < 1000000"
proof (induction dir now index w rule: free_backup.induct)
  case (1 dir now index w)
  obtain x w1 where o: "os_Stat (path_join dir (backup_name now index)) w = (x, w1)" by force
  show ?case
  proof (cases x)
    case (Inl e)
    with "1.prems" o have "b = path_join dir (backup_name now index)" "index < 1000000"
      by (subst (asm) free_backup.simps, auto simp: Let_def split: if_splits)+
    then show ?thesis by auto
  next
    case (Inr n)
    with "1.prems" o have "\<not> index \<ge> 1000000" "free_backup dir now (index + 1) w1 = (Inr b, w')"
      by (subst (asm) free_backup.simps, simp add: Let_def split: if_splits)+
    from "1.IH" [OF this(1) refl o [symmetric] Inr this(2)] show ?thesis by fastforce
  qed
qed

lemma free_backup_result:
  "free_backup dir now index w = (Inr b, w') \<Longrightarrow> honest w \<Longrightarrow>
   node_at (db w) b = None \<and> db w' = db w"
proof (induction dir now index w rule: free_backup.induct)
  case (1 dir now index w)
  obtain x w1 where o: "os_Stat (path_join dir (backup_name now index)) w = (x, w1)" by force
  have st: "db w1 = db w" "honest w1" using readsD [OF reads_host(1) o] touches_honest [OF touches_os(1) o] "1.prems"(2) by auto
  show ?case
  proof (cases x)
    case (Inl e)
    with "1.prems" o have e: "b = path_join dir (backup_name now index)" "w' = w1" "err_is ErrNotExist e" "index < 1000000"
      by (subst (asm) free_backup.simps, auto simp: Let_def split: if_splits)+
    have "node_at (db w) b = None"
      using o Inl e "1.prems"(2) by (auto simp: os_Stat_def stmt_def honest_def lookup_def split: list.splits option.splits sum.splits if_splits)
    with e st show ?thesis by auto
  next
    case (Inr n)
    with "1.prems" o have "\<not> index \<ge> 1000000" "free_backup dir now (index + 1) w1 = (Inr b, w')"
      by (subst (asm) free_backup.simps, simp add: Let_def split: if_splits)+
    from "1.IH" [OF this(1) refl o [symmetric] Inr this(2) st(2)] st(1) show ?thesis by simp
  qed
qed

text \<open>The paths of backups, and that nothing of them has sidecars.\<close>

definition backup_path :: "string \<Rightarrow> string \<Rightarrow> bool" where
  "backup_path dir b \<longleftrightarrow> (\<exists>name. b = path_join dir name \<and> isDatabaseBackup name)"

lemma remove_beyond_touches: "(\<And>p. p \<in> set ps \<Longrightarrow> X p) \<Longrightarrow> touches X (remove_beyond n ps)"
proof (induction ps)
  case (Cons p ps)
  have "touches X (os_Remove p)" by (rule touches_mono [OF touches_os(4)]) (simp add: Cons.prems)
  with Cons show ?case unfolding remove_beyond.simps by (intro touch) auto
qed (simp add: touch)

end
