(* ===== verification/Backup_Laws.thy ===== *)
theory Backup_Laws
  imports Deployment_Laws
begin

text \<open>
  What backups promise: their names are names of backups, at most three of them stay, and a backup holds
  the content of the database; and the case in which a backup removes itself.
\<close>

section \<open>Names\<close>

lemma digits_value_append: "digits_value (s @ t) = digits_value s * 10 ^ length t + digits_value t"
proof (induction t rule: rev_induct)
  case (snoc c t)
  have "digits_value (s @ t @ [c]) = digits_value ((s @ t) @ [c])" by simp
  also have "\<dots> = digits_value (s @ t) * 10 + digit_value c" by (rule digits_value_snoc)
  finally show ?case using snoc by (simp add: digits_value_snoc algebra_simps)
qed (simp add: digits_value_def)

lemma digits_value_zeros: "digits_value (replicate n (CHR ''0'')) = 0"
proof (induction n)
  case (Suc n)
  have "digits_value [CHR ''0''] = 0" by (simp add: digits_value_def digit_value_def)
  with Suc digits_value_append [of "[CHR ''0'']" "replicate n (CHR ''0'')"] show ?case by simp
qed (simp add: digits_value_def)

lemma dec_digits_length: "n < 10 ^ w \<Longrightarrow> 0 < w \<Longrightarrow> length (dec_digits n) \<le> w"
proof (induction n arbitrary: w rule: dec_digits.induct)
  case (1 n)
  show ?case
  proof (cases "n < 10")
    case True then show ?thesis using 1(3) by (simp add: dec_digits.simps [of n])
  next
    case False
    then have w: "1 < w" using 1(2,3) by (cases "w = 1") auto
    then obtain v where v: "w = Suc v" "0 < v" by (cases w) auto
    then have "n div 10 < 10 ^ v" using 1(2) by (simp add: less_mult_imp_div_less mult.commute)
    from 1(1) [OF False this v(2)] False v show ?thesis by (simp add: dec_digits.simps [of n])
  qed
qed

lemma pad_digits_read:
  assumes "0 \<le> n" "n < 10 ^ w" "0 < w"
  shows "length (pad_digits w n) = w \<and> list_all ascii_digit (pad_digits w n) \<and> digits_value (pad_digits w n) = nat n"
proof -
  have "nat n < 10 ^ w" using assms(1,2) by (simp add: nat_less_iff)
  then have l: "length (dec_digits (nat n)) \<le> w" using assms(3) by (rule dec_digits_length)
  have p: "pad_digits w n = replicate (w - length (dec_digits (nat n))) (CHR ''0'') @ dec_digits (nat n)"
    using assms(1) by (simp add: pad_digits_def Let_def)
  have "ascii_digit (CHR ''0'')" by (simp add: ascii_digit_def)
  then show ?thesis using l dec_digits_read [of "nat n"] by (auto simp: p digits_value_append digits_value_zeros list_all_iff)
qed

text \<open>The moments of the years 0 to 9999.\<close>

definition dated :: "gotime \<Rightarrow> bool" where
  "dated t \<longleftrightarrow> (case civil (t div 1000000000 div 86400) of (y, _) \<Rightarrow> 0 \<le> y \<and> y \<le> 9999)"

lemma format_stamp_parts:
  assumes "dated t"
  obtains y m d h mi s where "format_stamp ''_'' t = y @ m @ d @ ''_'' @ h @ mi @ s"
    "length y = 4" "length m = 2" "length d = 2" "length h = 2" "length mi = 2" "length s = 2"
    "list_all ascii_digit (y @ m @ d @ h @ mi @ s)"
    "1 \<le> digits_value m \<and> digits_value m \<le> 12" "1 \<le> digits_value d"
    "int (digits_value d) \<le> month_lengths (int (digits_value y)) ! (digits_value m - 1)"
    "digits_value h < 24" "digits_value mi < 60" "digits_value s < 60"
proof -
  obtain y m d where c: "civil (t div 1000000000 div 86400) = (y, m, d)" by (metis prod_cases3)
  have y: "0 \<le> y" "y < 10 ^ 4" using assms c by (auto simp: dated_def)
  note r = civil_range [OF c]
  have dl: "d \<le> 31"
  proof -
    have "\<forall>l\<in>set (month_lengths y). l \<le> 31" by (simp add: month_lengths_def)
    moreover have "length (month_lengths y) = 12" "nat (m - 1) < 12" using r by (simp add: month_lengths_def, linarith)
    ultimately have "month_lengths y ! nat (m - 1) \<le> 31" by simp
    then show ?thesis using r by linarith
  qed
  define sec where "sec = t div 1000000000 mod 86400"
  have sec: "0 \<le> sec" "sec < 86400" by (simp_all add: sec_def)
  have hms: "0 \<le> sec div 3600" "sec div 3600 < 24" "0 \<le> sec div 60 mod 60" "sec div 60 mod 60 < 60" "0 \<le> sec mod 60" "sec mod 60 < 60"
    using sec by auto
  have f: "format_stamp ''_'' t = pad_digits 4 y @ pad_digits 2 m @ pad_digits 2 d @ ''_''
      @ pad_digits 2 (sec div 3600) @ pad_digits 2 (sec div 60 mod 60) @ pad_digits 2 (sec mod 60)"
    by (simp add: format_stamp_def Let_def c sec_def)
  have p: "length (pad_digits 2 n) = 2" "list_all ascii_digit (pad_digits 2 n)" "digits_value (pad_digits 2 n) = nat n"
    if "0 \<le> n" "n < 100" for n using pad_digits_read [of n 2] that by simp_all
  have py: "length (pad_digits 4 y) = 4" "list_all ascii_digit (pad_digits 4 y)" "digits_value (pad_digits 4 y) = nat y"
    using pad_digits_read [OF y] by simp_all
  have mr: "0 \<le> m" "m < 100" and dr: "0 \<le> d" "d < 100" using r dl by linarith+
  have sr: "sec div 3600 < 100" "sec div 60 mod 60 < 100" "sec mod 60 < 100" using hms by linarith+
  have cal: "int (digits_value (pad_digits 2 d)) \<le> month_lengths (int (digits_value (pad_digits 4 y))) ! (digits_value (pad_digits 2 m) - 1)"
  proof -
    have "int (digits_value (pad_digits 2 d)) = d" "int (digits_value (pad_digits 4 y)) = y"
      using p(3) [OF dr] py(3) dr(1) y(1) by simp_all
    moreover have "digits_value (pad_digits 2 m) - 1 = nat (m - 1)" using p(3) [OF mr] by linarith
    ultimately show ?thesis using r by simp
  qed
  have digits: "list_all ascii_digit (pad_digits 4 y @ pad_digits 2 m @ pad_digits 2 d
      @ pad_digits 2 (sec div 3600) @ pad_digits 2 (sec div 60 mod 60) @ pad_digits 2 (sec mod 60))"
    using py(2) p(2) [OF mr] p(2) [OF dr] p(2) [OF hms(1) sr(1)] p(2) [OF hms(3) sr(2)] p(2) [OF hms(5) sr(3)] by simp
  have nat24: "nat x < 24" if "x < 24" for x using that by linarith
  have nat60: "nat x < 60" if "x < 60" for x using that by linarith
  have ranges: "1 \<le> digits_value (pad_digits 2 m) \<and> digits_value (pad_digits 2 m) \<le> 12" "1 \<le> digits_value (pad_digits 2 d)"
    using p(3) [OF mr] p(3) [OF dr] r by linarith+
  have times: "digits_value (pad_digits 2 (sec div 3600)) < 24" "digits_value (pad_digits 2 (sec div 60 mod 60)) < 60"
    "digits_value (pad_digits 2 (sec mod 60)) < 60"
    unfolding p(3) [OF hms(1) sr(1)] p(3) [OF hms(3) sr(2)] p(3) [OF hms(5) sr(3)]
    by (rule nat24 [OF hms(2)], rule nat60 [OF hms(4)], rule nat60 [OF hms(6)])
  show ?thesis
    by (rule that [OF f py(1) p(1) [OF mr] p(1) [OF dr] p(1) [OF hms(1) sr(1)] p(1) [OF hms(3) sr(2)] p(1) [OF hms(5) sr(3)]
        digits ranges cal times])
qed

lemma digits_no_underscore: "list_all ascii_digit s \<Longrightarrow> CHR ''_'' \<notin> set s"
  by (auto simp: list_all_iff ascii_digit_def)

lemma field_at: "length a = n \<Longrightarrow> length b = w \<Longrightarrow> list_all ascii_digit b \<Longrightarrow> field n w (a @ b @ c) = Some (digits_value b)"
  by (simp add: field_def)

lemma stamp_parts_parse:
  assumes "length y = 4" "length m = 2" "length d = 2" "length h = 2" "length mi = 2" "length s = 2"
    "list_all ascii_digit (y @ m @ d @ h @ mi @ s)" "1 \<le> digits_value m \<and> digits_value m \<le> 12" "1 \<le> digits_value d"
    "int (digits_value d) \<le> month_lengths (int (digits_value y)) ! (digits_value m - 1)"
    "digits_value h < 24" "digits_value mi < 60" "digits_value s < 60"
  shows "stamp_parses (y @ m @ d @ ''_'' @ h @ mi @ s)"
proof -
  let ?s = "y @ m @ d @ ''_'' @ h @ mi @ s"
  have f: "field 0 4 ?s = Some (digits_value y)" "field 4 2 ?s = Some (digits_value m)" "field 6 2 ?s = Some (digits_value d)"
    "field 9 2 ?s = Some (digits_value h)" "field 11 2 ?s = Some (digits_value mi)" "field 13 2 ?s = Some (digits_value s)"
    using field_at [of "[]" 0 y 4 "m @ d @ ''_'' @ h @ mi @ s"] field_at [of y 4 m 2 "d @ ''_'' @ h @ mi @ s"]
      field_at [of "y @ m" 6 d 2 "''_'' @ h @ mi @ s"] field_at [of "y @ m @ d @ ''_''" 9 h 2 "mi @ s"]
      field_at [of "y @ m @ d @ ''_'' @ h" 11 mi 2 s] field_at [of "y @ m @ d @ ''_'' @ h @ mi" 13 s 2 "[]"] assms(1-7) by simp_all
  have "drop 8 ?s = ''_'' @ h @ mi @ s" "drop 15 ?s = []" using assms(1-6) by simp_all
  then show ?thesis unfolding stamp_parses_def f option.case prod.case using assms(8-13) by (simp add: fraction_def)
qed

text \<open>A name under which a backup is made, whatever its number, is the name of a backup.\<close>

lemma isDatabaseBackup_made:
  assumes "dated t" "0 \<le> i" "i < 1000000"
  shows "isDatabaseBackup (backup_name t i)"
proof -
  from assms(1) obtain y m d h mi s where f: "format_stamp ''_'' t = y @ m @ d @ ''_'' @ h @ mi @ s"
    and p: "length y = 4" "length m = 2" "length d = 2" "length h = 2" "length mi = 2" "length s = 2"
    "list_all ascii_digit (y @ m @ d @ h @ mi @ s)" "1 \<le> digits_value m \<and> digits_value m \<le> 12" "1 \<le> digits_value d"
    "int (digits_value d) \<le> month_lengths (int (digits_value y)) ! (digits_value m - 1)"
    "digits_value h < 24" "digits_value mi < 60" "digits_value s < 60" by (rule format_stamp_parts)
  let ?day = "y @ m @ d" and ?time = "h @ mi @ s"
  have no: "CHR ''_'' \<notin> set ?day" "CHR ''_'' \<notin> set ?time" using p(7) digits_no_underscore by auto
  have parse: "stamp_parses (?day @ ''_'' @ ?time)" using stamp_parts_parse [OF p] by simp
  have strip: "(let s = drop 7 (''backup_'' @ stem @ ''.db'') in if suffix ''.db'' s then take (length s - 3) s else s) = stem" for stem
    by (simp add: suffix_def)
  show ?thesis
  proof (cases "i > 0")
    case False
    then have n: "backup_name t i = ''backup_'' @ (?day @ CHR ''_'' # ?time) @ ''.db''" by (simp add: backup_name_def f)
    have "split_on (CHR ''_'') (?day @ CHR ''_'' # ?time) = [?day, ?time]"
      by (simp only: split_on_append [OF no(1)] split_on_no_sep [OF no(2)])
    then show ?thesis unfolding isDatabaseBackup_def n strip using parse by (simp add: Let_def suffix_def)
  next
    case True
    have num: "length (pad_digits 6 i) = 6" "list_all ascii_digit (pad_digits 6 i)" "digits_value (pad_digits 6 i) = nat i"
      using pad_digits_read [of i 6] assms(2,3) by simp_all
    have n: "backup_name t i = ''backup_'' @ (?day @ CHR ''_'' # ?time @ CHR ''_'' # pad_digits 6 i) @ ''.db''"
      using True by (simp add: backup_name_def f)
    have sp: "split_on (CHR ''_'') (?day @ CHR ''_'' # ?time @ CHR ''_'' # pad_digits 6 i) = [?day, ?time, pad_digits 6 i]"
      by (simp only: split_on_append [OF no(1)] split_on_append [OF no(2)] split_on_no_sep [OF digits_no_underscore [OF num(2)]])
    have "atoi (pad_digits 6 i) \<noteq> None"
    proof -
      obtain c cs where c: "pad_digits 6 i = c # cs" using num(1) by (cases "pad_digits 6 i") auto
      then have "split_sign (pad_digits 6 i) = (False, pad_digits 6 i)"
        using num(2) digit_not_sign [of c] by (simp add: split_sign_def)
      then show ?thesis using num assms(3) c by (simp add: atoi_def in_int64_def)
    qed
    then show ?thesis unfolding isDatabaseBackup_def n strip using parse sp num(1) by (simp add: Let_def suffix_def)
  qed
qed

section \<open>Where the files are\<close>

text \<open>The start of the paths below a directory.\<close>

definition root_of :: "string list \<Rightarrow> string" where
  "root_of ds = (if ds = [] then [slash] else abs_path ds @ [slash])"

lemma join_append: "xs \<noteq> [] \<Longrightarrow> ys \<noteq> [] \<Longrightarrow> join sep (xs @ ys) = join sep xs @ sep @ join sep ys"
  by (induction sep xs rule: join.induct) (auto simp: neq_Nil_conv)

lemma abs_path_below: "es \<noteq> [] \<Longrightarrow> abs_path (ds @ es) = root_of ds @ join [slash] es"
  by (cases "ds = []") (simp_all add: abs_path_def root_of_def join_append)

lemma join_starts: "join sep (e # es) = e @ drop (length e) (join sep (e # es))"
  by (cases es) simp_all

lemma starts_apart:
  assumes "prefix (root @ [a]) q" "prefix (root @ [b]) q" shows "a = b"
  using assms by (auto simp: prefix_def)

lemma ancestors_prefix: "q \<in> set (ancestors d) \<Longrightarrow> prefix q d"
proof -
  assume "q \<in> set (ancestors d)"
  then obtain n where n: "q = join [slash] (take n (split_on slash d))" "2 \<le> n" "n \<le> length (split_on slash d)"
    by (auto simp: ancestors_def Let_def)
  have "d = join [slash] (take n (split_on slash d) @ drop n (split_on slash d))" by (simp add: split_on_join)
  moreover have "take n (split_on slash d) \<noteq> []" using n(2,3) by auto
  ultimately show ?thesis unfolding n(1)
    by (metis append_Nil2 join_append prefix_def self_append_conv)
qed

lemma path_dir_abs:
  assumes "list_all plain_element es" "plain_element e"
  shows "path_dir (abs_path (es @ [e])) = abs_path es"
proof -
  have "slash \<notin> set e" using assms(2) by (simp add: plain_element_def)
  then have d: "rev (dropWhile (\<lambda>c. c \<noteq> slash) (rev (root_of es @ e))) = root_of es"
  proof -
    have "dropWhile (\<lambda>c. c \<noteq> slash) (rev e @ rev (root_of es)) = dropWhile (\<lambda>c. c \<noteq> slash) (rev (root_of es))"
      using \<open>slash \<notin> set e\<close> by (intro dropWhile_append2) auto
    also have "\<dots> = rev (root_of es)" by (simp add: root_of_def)
    finally show ?thesis by simp
  qed
  have c: "path_clean (root_of es) = abs_path es"
  proof (cases "es = []")
    case True
    then show ?thesis by (simp add: root_of_def) (simp add: path_clean_def abs_path_def path_is_abs_def slash_def)
  next
    case False
    have "split_on slash (root_of es) = [] # es @ [[]]"
      using False split_on_two [of slash "abs_path es" "[]"] by (simp add: root_of_def split_abs_path [OF assms(1)])
    moreover have "clean_parts True [] ([] # es @ [[]]) = es"
      using clean_parts_append [of True "[]" es "[[]]"] clean_parts_plain [OF assms(1), of True "[]"] by simp
    moreover have "path_is_abs (root_of es)" using False by (simp add: root_of_def abs_path_def path_is_abs_def)
    ultimately show ?thesis by (simp only: path_clean_def Let_def if_True abs_path_def)
  qed
  have "abs_path (es @ [e]) = root_of es @ e" using abs_path_below [of "[e]" es] by simp
  then show ?thesis by (simp only: path_dir_def d c)
qed

lemma backup_plain: "isDatabaseBackup n \<Longrightarrow> slash \<notin> set n \<Longrightarrow> plain_element n"
  by (auto simp: isDatabaseBackup_def plain_element_def prefix_def)

lemma temp_plain: "plain_element (''.miniform-restore-'' @ dec_digits n @ ''.db'')"
proof -
  have "slash \<notin> set (dec_digits n)" using dec_digits_read [of n] by (auto simp: list_all_iff ascii_digit_def slash_def)
  then show ?thesis by (simp add: plain_element_def) (simp add: slash_def)
qed

definition unstaged :: "string \<Rightarrow> bool" where
  "unstaged p \<longleftrightarrow> (\<forall>t q. restore_name (path_dir p) t \<longrightarrow> db_names t q \<longrightarrow> \<not> db_names p q)"

lemma db_names_prefix: "db_names p q \<Longrightarrow> prefix p q"
  by (auto simp: db_names_def)

lemma prefix_start: "prefix p q \<Longrightarrow> prefix (root @ [c]) p \<Longrightarrow> prefix (root @ [c]) q"
  by (rule prefix_order.trans)

text \<open>A staged copy is beside the database, and so never at or below the directory of the backups.\<close>

lemma restore_start:
  assumes p: "p = abs_path (ds @ ''storage'' # rest)" and plain: "list_all plain_element (ds @ ''storage'' # rest)"
    and t: "restore_name (path_dir p) t"
  shows "\<exists>c. c \<noteq> CHR ''b'' \<and> prefix (root_of ds @ [c]) t \<and> length (path_dir p) < length t"
proof -
  obtain es e where le: "''storage'' # rest = es @ [e]" by (cases "''storage'' # rest" rule: rev_cases) auto
  have pl: "list_all plain_element (ds @ es)" "plain_element e" using plain unfolding le by simp_all
  have dir: "path_dir p = abs_path (ds @ es)" unfolding p le using path_dir_abs [OF pl] by simp
  obtain n where n: "t = path_join (path_dir p) (''.miniform-restore-'' @ dec_digits n @ ''.db'')" using t unfolding restore_name_def by blast
  let ?n = "''.miniform-restore-'' @ dec_digits n @ ''.db''"
  have tt: "t = abs_path (ds @ es @ [?n])" unfolding n dir using path_join_one [OF pl(1) temp_plain [of n]] by simp
  have "length (path_dir p) < length t"
    unfolding tt dir using abs_path_below [of "[?n]" "ds @ es"] by (auto simp: root_of_def abs_path_def)
  moreover obtain x xs where x: "es @ [?n] = x # xs" by (cases "es @ [?n]") auto
  then have "x = ''storage'' \<or> x = ?n" using le by (cases es) auto
  then obtain c cs where c: "x = c # cs" "c \<noteq> CHR ''b''" by auto
  have "prefix (root_of ds @ [c]) t"
    unfolding tt x using abs_path_below [of "x # xs" ds] join_starts [of "[slash]" x xs] c by (auto simp: prefix_def)
  ultimately show ?thesis using c(2) by blast
qed

lemma apart_paths:
  assumes p: "p = abs_path (ds @ ''storage'' # rest)" and b: "b = abs_path (ds @ [''backups'', name])"
    and plain: "list_all plain_element (ds @ ''storage'' # rest)" and un: "unstaged p"
  shows "apart p b"
proof -
  let ?D = "root_of ds"
  have ps: "prefix (?D @ [CHR ''s'']) p"
    unfolding p using abs_path_below [of "''storage'' # rest" ds] join_starts [of "[slash]" "''storage''" rest] by (auto simp: prefix_def)
  have bs: "prefix (?D @ [CHR ''b'']) b" unfolding b using abs_path_below [of "[''backups'', name]" ds] by (simp add: prefix_def)
  obtain es e where le: "''storage'' # rest = es @ [e]" by (cases "''storage'' # rest" rule: rev_cases) auto
  have pl: "list_all plain_element (ds @ es)" "plain_element e" using plain unfolding le by simp_all
  have dir: "path_dir p = abs_path (ds @ es)" unfolding p le using path_dir_abs [OF pl] by simp
  have pd: "prefix (path_dir p) p"
  proof -
    have "prefix (abs_path (ds @ es)) (abs_path ((ds @ es) @ [e]))"
      unfolding abs_path_below [OF not_Cons_self2 [of e "[]"], of "ds @ es"] by (auto simp: root_of_def abs_path_def prefix_def)
    moreover have "p = abs_path ((ds @ es) @ [e])" unfolding p le by simp
    ultimately show ?thesis using dir by simp
  qed
  have bq: "prefix (?D @ [CHR ''b'']) q" if "db_names b q" for q using prefix_start [OF db_names_prefix [OF that] bs] .
  have one: "\<not> db_names p q \<and> q \<notin> set (ancestors (path_dir p))" if q: "db_names b q" for q
  proof -
    have "\<not> prefix q p"
    proof
      assume "prefix q p"
      then have "prefix (?D @ [CHR ''b'']) p" using bq [OF q] prefix_order.trans by blast
      from starts_apart [OF ps this] show False by simp
    qed
    moreover have "\<not> db_names p q"
      using starts_apart [OF bq [OF q]] prefix_start [OF db_names_prefix ps] by fastforce
    ultimately show ?thesis using ancestors_prefix pd prefix_order.trans by blast
  qed
  have two: "\<not> db_names p q \<and> \<not> db_names b q \<and> q \<notin> set (ancestors (path_dir p))"
    if t: "restore_name (path_dir p) t" "db_names t q" for t q
  proof -
    obtain c where c: "c \<noteq> CHR ''b''" "prefix (?D @ [c]) t" "length (path_dir p) < length t" using restore_start [OF p plain t(1)] by blast
    have "length t \<le> length q" using db_names_prefix [OF t(2)] prefix_length_le by blast
    then have "q \<notin> set (ancestors (path_dir p))" using ancestors_prefix prefix_length_le c(3) by fastforce
    moreover have "\<not> db_names b q" using bq starts_apart [OF _ prefix_start [OF db_names_prefix [OF t(2)] c(2)]] c(1) by blast
    ultimately show ?thesis using un t unfolding unstaged_def by blast
  qed
  show ?thesis unfolding apart_def using one two by blast
qed

section \<open>Old backups\<close>

definition backups_below :: "string \<Rightarrow> string \<Rightarrow> bool" where
  "backups_below dir q \<longleftrightarrow> (\<exists>n. q = dir @ [slash] @ n \<and> isDatabaseBackup n \<and> slash \<notin> set n)"

lemma dir_entries_names: "(n, i) \<in> set (dir_entries h dir) \<Longrightarrow> slash \<notin> set n"
  by (auto simp: dir_entries_def)

lemma path_join_below: "list_all plain_element es \<Longrightarrow> es \<noteq> [] \<Longrightarrow> plain_element n \<Longrightarrow> path_join (abs_path es) n = abs_path es @ [slash] @ n"
  using abs_path_below [of "[n]" es] by (simp add: path_join_one root_of_def)

lemma backup_paths_below:
  assumes "dir = abs_path es" "list_all plain_element es" "es \<noteq> []" "q \<in> set (backup_paths dir (dir_entries h dir))"
  shows "backups_below dir q"
proof -
  from assms(4) obtain n i where n: "(n, i) \<in> set (dir_entries h dir)" "isDatabaseBackup n" "q = path_join dir n"
    by (auto simp: backup_paths_def)
  have "slash \<notin> set n" using n(1) by (rule dir_entries_names)
  moreover have "q = dir @ [slash] @ n"
    unfolding n(3) assms(1) using path_join_below [OF assms(2,3) backup_plain [OF n(2) calculation]] by simp
  ultimately show ?thesis using n(2) unfolding backups_below_def by blast
qed

lemma touches_bnd_run:
  assumes "touches X m" "\<And>w x w'. m w = (Inr x, w') \<Longrightarrow> touches X (f x)" shows "touches X (bnd m f)"
  unfolding touches_def
proof (intro allI impI)
  fix w r w' assume run: "bnd m f w = (r, w')"
  obtain x w1 where m: "m w = (x, w1)" by force
  note a = assms(1) [unfolded touches_def, rule_format, OF m]
  show "ht_Engine (db w') = ht_Engine (db w) \<and> set (faults w') \<subseteq> set (faults w) \<and> (\<forall>q. \<not> X q \<longrightarrow> node_at (db w') q = node_at (db w) q)"
  proof (cases x)
    case (Inl e)
    with run m a show ?thesis by (simp add: bnd_apply)
  next
    case (Inr y)
    with run m have "f y w1 = (r, w')" by (simp add: bnd_apply)
    from assms(2) [OF m [unfolded Inr], unfolded touches_def, rule_format, OF this] a show ?thesis by auto
  qed
qed

lemma ReadDir_InrD: "os_ReadDir dir w = (Inr es, w') \<Longrightarrow> es = dir_entries (db w) dir \<and> db w' = db w"
  by (auto simp: os_ReadDir_def elim!: stmt_InrE split: sum.splits if_splits)

lemma touches_removeOld:
  assumes "dir = abs_path es" "list_all plain_element es" "es \<noteq> []"
  shows "touches (backups_below dir) (removeOldBackups dir)"
  unfolding removeOldBackups_def
proof (rule touches_bnd_run)
  fix w x w' assume "wrap_err ''list backups'' (os_ReadDir dir) w = (Inr x, w')"
  then have "x = dir_entries (db w) dir" using ReadDir_InrD by fastforce
  then show "touches (backups_below dir) (remove_beyond 3 (backup_paths dir x))"
    using backup_paths_below [OF assms] by (intro remove_beyond_touches) simp
qed (intro touch)

text \<open>Removing a path removes its entry.\<close>

lemma entries_without:
  "dir_entries (drop_node (dir @ [slash] @ n) h) dir = filter (\<lambda>(m, _). m \<noteq> n) (dir_entries h dir)"
proof -
  let ?f = "\<lambda>(p, i). (drop (Suc (length dir)) p, i)"
  let ?P = "\<lambda>(p, i :: inode). prefix (dir @ [slash]) p \<and> slash \<notin> set (drop (Suc (length dir)) p) \<and> drop (Suc (length dir)) p \<noteq> []"
  have d: "AList.clearjunk (AList.delete k xs) = filter (\<lambda>(p, _). p \<noteq> k) (AList.clearjunk xs)" for k and xs :: "(string \<times> inode) list"
    unfolding clearjunk_delete by (simp add: AList.delete_eq case_prod_beta' eq_commute)
  have same: "filter ?P (filter (\<lambda>(p, _). p \<noteq> dir @ [slash] @ n) xs) = filter (\<lambda>x. fst (?f x) \<noteq> n) (filter ?P xs)" for xs
    by (auto simp: filter_filter prefix_def intro!: filter_cong)
  have fm: "map ?f (filter (\<lambda>x. fst (?f x) \<noteq> n) ys) = filter (\<lambda>(m, _). m \<noteq> n) (map ?f ys)" for ys :: "(string \<times> inode) list"
    by (simp add: filter_map o_def case_prod_beta')
  have nodes: "ht_Nodes (drop_node k h) = AList.delete k (ht_Nodes h)" for k by (simp add: drop_node_def)
  show ?thesis
    by (simp only: dir_entries_def nodes d same fm filter_sort)
qed

lemma remove_beyond_result:
  assumes "remove_beyond k (map (\<lambda>n. dir @ [slash] @ n) ns) w = (Inr (), w')" "distinct ns"
  shows "\<exists>gone. ns = gone @ drop (length gone) ns \<and> length ns - length gone \<le> k \<and> length gone = length ns - k
    \<and> dir_entries (db w') dir = filter (\<lambda>(m, _). m \<notin> set gone) (dir_entries (db w) dir)"
  using assms
proof (induction ns arbitrary: w)
  case Nil
  then show ?case by (auto intro!: exI [of _ "[]"])
next
  case (Cons n ns)
  show ?case
  proof (cases "length (n # ns) > k")
    case False
    then have "w' = w" using Cons.prems(1) by (simp split: if_splits)
    then show ?thesis using False by (intro exI [of _ "[]"]) auto
  next
    case True
    then obtain w1 where r: "os_Remove (dir @ [slash] @ n) w = (Inr (), w1)" "remove_beyond k (map (\<lambda>n. dir @ [slash] @ n) ns) w1 = (Inr (), w')"
      using Cons.prems(1) by (auto elim!: bnd_InrE split: if_splits)
    from Cons.IH [OF r(2)] Cons.prems(2) obtain gone where g: "ns = gone @ drop (length gone) ns" "length gone = length ns - k"
      "dir_entries (db w') dir = filter (\<lambda>(m, _). m \<notin> set gone) (dir_entries (db w1) dir)" by auto
    have "db w1 = drop_node (dir @ [slash] @ n) (db w)"
      using r(1) by (auto simp: os_Remove_def elim!: stmt_InrE split: sum.splits if_splits)
    then have "dir_entries (db w1) dir = filter (\<lambda>(m, _). m \<noteq> n) (dir_entries (db w) dir)" by (simp only: entries_without)
    then have "dir_entries (db w') dir = filter (\<lambda>(m, _). m \<notin> set (n # gone)) (dir_entries (db w) dir)"
      unfolding g(3) by (auto intro: filter_cong)
    then show ?thesis using g(1,2) True by (intro exI [of _ "n # gone"]) auto
  qed
qed

text \<open>The names of the backups in a directory, and that the last three of them stay.\<close>

definition backup_names :: "string \<Rightarrow> 'c host \<Rightarrow> string list" where
  "backup_names dir h = map fst (filter (\<lambda>(n, i). in_Kind i \<noteq> Directory \<and> isDatabaseBackup n) (dir_entries h dir))"

lemma distinct_names_sorted: "distinct (map fst ys) \<Longrightarrow> distinct (map fst (sort_key fst ys))"
  by (simp add: distinct_map)

lemma backup_names_distinct: "distinct (backup_names dir h) \<and> sorted (backup_names dir h)"
proof -
  let ?P = "\<lambda>(p, i :: inode). prefix (dir @ [slash]) p \<and> slash \<notin> set (drop (Suc (length dir)) p) \<and> drop (Suc (length dir)) p \<noteq> []"
  let ?es = "filter ?P (AList.clearjunk (ht_Nodes h))"
  have "distinct (map fst ?es)" by (rule distinct_map_filter) (simp add: distinct_clearjunk)
  moreover have "inj_on (drop (Suc (length dir))) (fst ` set ?es)" by (auto simp: inj_on_def prefix_def)
  ultimately have "distinct (map (drop (Suc (length dir))) (map fst ?es))" by (simp only: distinct_map set_map)
  then have "distinct (map fst (map (\<lambda>(p, i). (drop (Suc (length dir)) p, i)) ?es))" by (simp add: case_prod_beta' comp_def)
  then have "distinct (map fst (dir_entries h dir))" unfolding dir_entries_def by (rule distinct_names_sorted)
  moreover have "sorted (map fst (dir_entries h dir))" by (simp add: dir_entries_def)
  ultimately show ?thesis unfolding backup_names_def by (simp add: distinct_map_filter sorted_filter)
qed

section \<open>Making a backup\<close>

text \<open>Where the data directory of the deployment keeps the database and its backups.\<close>

definition laid_out :: "string \<Rightarrow> string \<Rightarrow> bool" where
  "laid_out p dir \<longleftrightarrow> (\<exists>ds rest. p = abs_path (ds @ ''storage'' # rest) \<and> dir = abs_path (ds @ [''backups''])
     \<and> list_all plain_element (ds @ ''storage'' # rest)) \<and> unstaged p"

definition backup_at :: "string \<Rightarrow> gotime \<Rightarrow> int \<Rightarrow> string" where
  "backup_at dir now i = dir @ [slash] @ backup_name now i"

lemma backup_name_plain: "plain_element (backup_name now i)"
proof -
  have d: "slash \<notin> set (dec_digits n)" for n using dec_digits_read [of n] by (auto simp: list_all_iff ascii_digit_def slash_def)
  have p: "slash \<notin> set (pad_digits w n)" for w n using d by (auto simp: pad_digits_def Let_def slash_def)
  have "slash \<notin> set (format_stamp ''_'' now)" using p by (auto simp: format_stamp_def Let_def slash_def split: prod.splits)
  with p show ?thesis by (auto simp: backup_name_def plain_element_def slash_def)
qed

lemma laid_out_backups:
  assumes "laid_out p dir"
  shows "\<exists>es. dir = abs_path es \<and> list_all plain_element es \<and> es \<noteq> []"
  using assms unfolding laid_out_def by (auto simp: plain_element_def slash_def)

lemma backup_join: "laid_out p dir \<Longrightarrow> plain_element n \<Longrightarrow> path_join dir n = dir @ [slash] @ n"
  using laid_out_backups path_join_below by blast

lemma laid_out_apart:
  assumes "laid_out p dir" "plain_element n" shows "apart p (dir @ [slash] @ n)"
proof -
  from assms(1) obtain ds rest where l: "p = abs_path (ds @ ''storage'' # rest)" "dir = abs_path (ds @ [''backups''])"
    "list_all plain_element (ds @ ''storage'' # rest)" "unstaged p" unfolding laid_out_def by blast
  have "dir @ [slash] @ n = abs_path (ds @ [''backups'', n])"
    unfolding l(2) using abs_path_below [of "[n]" "ds @ [''backups'']"] by (simp add: root_of_def)
  then show ?thesis using apart_paths [OF l(1) _ l(3,4)] by simp
qed

text \<open>The database is neither a directory above the backups nor anything below that directory.\<close>

lemma laid_out_names:
  assumes "laid_out p dir" "db_names p q"
  shows "q \<notin> set (ancestors dir) \<and> \<not> prefix (dir @ [slash]) q"
proof -
  from assms(1) obtain ds rest where l: "p = abs_path (ds @ ''storage'' # rest)" "dir = abs_path (ds @ [''backups''])"
    unfolding laid_out_def by blast
  let ?D = "root_of ds"
  have "prefix (?D @ [CHR ''s'']) p"
    unfolding l using abs_path_below [of "''storage'' # rest" ds] join_starts [of "[slash]" "''storage''" rest] by (auto simp: prefix_def)
  then have q: "prefix (?D @ [CHR ''s'']) q" using prefix_start [OF db_names_prefix [OF assms(2)]] by blast
  have d: "prefix (?D @ [CHR ''b'']) dir" unfolding l using abs_path_below [of "[''backups'']" ds] by (simp add: prefix_def)
  have "\<not> prefix q dir" using starts_apart [OF _ d] prefix_order.trans [OF q] by fastforce
  moreover have "\<not> prefix (dir @ [slash]) q"
  proof
    assume "prefix (dir @ [slash]) q"
    then have "prefix dir q" by (auto simp: prefix_def)
    from starts_apart [OF q prefix_order.trans [OF d this]] show False by simp
  qed
  ultimately show ?thesis using ancestors_prefix by blast
qed

lemma laid_out_staged:
  assumes "laid_out p dir" "restore_name (path_dir p) t" "db_names t q"
  shows "q \<notin> set (ancestors dir) \<and> \<not> prefix (dir @ [slash]) q \<and> \<not> db_names p q"
proof -
  from assms(1) obtain ds rest where l: "p = abs_path (ds @ ''storage'' # rest)" "dir = abs_path (ds @ [''backups''])"
    "list_all plain_element (ds @ ''storage'' # rest)" "unstaged p" unfolding laid_out_def by blast
  obtain c where c: "c \<noteq> CHR ''b''" "prefix (root_of ds @ [c]) t" using restore_start [OF l(1,3) assms(2)] by blast
  note q = prefix_start [OF db_names_prefix [OF assms(3)] c(2)]
  have d: "prefix (root_of ds @ [CHR ''b'']) dir" unfolding l using abs_path_below [of "[''backups'']" ds] by (simp add: prefix_def)
  have "\<not> prefix q dir" using starts_apart [OF _ d] prefix_order.trans [OF q] c(1) by blast
  moreover have "\<not> prefix (dir @ [slash]) q"
  proof
    assume "prefix (dir @ [slash]) q"
    then have "prefix dir q" by (auto simp: prefix_def)
    from starts_apart [OF q prefix_order.trans [OF d this]] c(1) show False by simp
  qed
  ultimately show ?thesis using ancestors_prefix l(4) assms(2,3) unfolding unstaged_def by blast
qed

lemma removeOldBackups_result:
  assumes "laid_out p dir" "removeOldBackups dir w = (Inr (), w')"
  shows "backup_names dir (db w') = drop (length (backup_names dir (db w)) - 3) (backup_names dir (db w))"
proof -
  obtain es where es: "dir = abs_path es" "list_all plain_element es" "es \<noteq> []" using laid_out_backups [OF assms(1)] by blast
  from assms(2) obtain w1 where s: "db w1 = db w" "remove_beyond 3 (backup_paths dir (dir_entries (db w) dir)) w1 = (Inr (), w')"
    unfolding removeOldBackups_def by (elim bnd_InrE) (auto dest: ReadDir_InrD)
  let ?ns = "backup_names dir (db w)"
  have "path_join dir n = dir @ [slash] @ n" if "(n, i) \<in> set (dir_entries (db w) dir)" "isDatabaseBackup n" for n i
    using path_join_below [OF es(2,3) backup_plain [OF that(2) dir_entries_names [OF that(1)]]] es(1) by simp
  then have "backup_paths dir (dir_entries (db w) dir) = map (\<lambda>n. dir @ [slash] @ n) ?ns"
    by (auto simp: backup_paths_def backup_names_def)
  with s(2) have "remove_beyond 3 (map (\<lambda>n. dir @ [slash] @ n) ?ns) w1 = (Inr (), w')" by simp
  from remove_beyond_result [OF this] backup_names_distinct [of dir "db w"] obtain gone where g: "?ns = gone @ drop (length gone) ?ns"
    "length gone = length ?ns - 3" "dir_entries (db w') dir = filter (\<lambda>(m, _). m \<notin> set gone) (dir_entries (db w) dir)"
    using s(1) by auto
  have "backup_names dir (db w') = filter (\<lambda>m. m \<notin> set gone) ?ns"
    unfolding backup_names_def g(3) by (simp add: filter_map o_def case_prod_beta' conj_commute)
  also have "\<dots> = filter (\<lambda>m. m \<notin> set gone) (gone @ drop (length gone) ?ns)" using g(1) by simp
  also have "\<dots> = drop (length gone) ?ns"
  proof -
    have "set gone \<inter> set (drop (length gone) ?ns) = {}"
      using backup_names_distinct [of dir "db w"] g(1) distinct_append by metis
    then show ?thesis by (auto simp: filter_id_conv filter_empty_conv)
  qed
  finally show ?thesis using g(2) by simp
qed

lemma removeOld_removes:
  assumes "removeOldBackups dir w = (r, w')"
  shows "node_at (db w') q = node_at (db w) q \<or> node_at (db w') q = None"
proof -
  have one: "node_at (db w') q = node_at (db w) q \<or> node_at (db w') q = None" if "remove_beyond n ps w = (r, w')" for n ps r w w'
    using that
  proof (induction ps arbitrary: w)
    case (Cons p ps)
    show ?case
    proof (cases "length (p # ps) > n")
      case True
      obtain x w1 where o: "os_Remove p w = (x, w1)" by force
      have "node_at (db w1) q = node_at (db w) q \<or> node_at (db w1) q = None"
        using o by (auto simp: os_Remove_def stmt_def node_at_drop split: list.splits option.splits sum.splits if_splits)
      moreover have "x = Inr () \<Longrightarrow> node_at (db w') q = node_at (db w1) q \<or> node_at (db w') q = None"
        using True Cons.prems o by (intro Cons.IH) (simp add: bnd_apply wrap_err_apply)
      moreover have "x = Inl e \<Longrightarrow> w' = w1" for e using True Cons.prems o by (simp add: bnd_apply wrap_err_apply)
      ultimately show ?thesis by (cases x) auto
    qed (use Cons.prems in \<open>simp add: ret_apply\<close>)
  qed (simp add: ret_apply)
  obtain x w1 where "os_ReadDir dir w = (x, w1)" by force
  with assms readsD [OF reads_host(2) this] one [of 3 _ w1 r w'] show ?thesis
    unfolding removeOldBackups_def by (cases x) (simp_all add: bnd_apply wrap_err_apply)
qed

lemma not_backup_sidecar: "e = ''-wal'' \<or> e = ''-shm'' \<Longrightarrow> \<not> isDatabaseBackup (n @ e)"
  by (auto simp: isDatabaseBackup_def suffix_def)

text \<open>
  A backup that is made holds the content of the database, which it leaves as it is; that it is there afterwards
  does not follow: the oldest backups by name are removed, and the new one may be among them.
\<close>

definition made_backup :: "string \<Rightarrow> string \<Rightarrow> bool" where
  "made_backup dir q \<longleftrightarrow> (\<exists>now i. q = backup_at dir now i)"

lemma createDatabaseBackup_result:
  assumes ok: "sqlite_ok S C" and run: "createDatabaseBackup L S p dir now w = (Inr b, w')" and laid: "laid_out p dir"
    and lone: "no_sidecars (made_backup dir) (db w)" and h: "honest w"
  shows "(\<exists>i. b = backup_at dir now i \<and> 0 \<le> i \<and> i < 1000000 \<and> node_at (db w) b = None)
    \<and> db_at (\<lambda>f. C f = C (files_of p (db w))) p (db w')
    \<and> (node_at (db w') b \<noteq> None \<longrightarrow> C (files_of b (db w')) = C (files_of p (db w)))
    \<and> length (backup_names dir (db w')) \<le> 3"
proof -
  obtain es where es: "dir = abs_path es" "list_all plain_element es" "es \<noteq> []" using laid_out_backups [OF laid] by blast
  from run obtain info w1 w2 w3 w4 w5 where s: "os_Stat p w = (Inr info, w1)" "os_MkdirAll dir w1 = (Inr (), w2)"
    "availableBackupPath dir now w2 = (Inr b, w3)" "snapshotDatabase L S p b w3 = (Inr (), w4)" "os_Chmod b 384 w4 = (Inr (), w5)"
    "removeOldBackups dir w5 = (Inr (), w')"
    unfolding createDatabaseBackup_def by (elim bnd_InrE or_discard_InrE) auto
  have h2: "honest w2" using h touches_honest [OF touches_os(1) s(1)] touches_honest [OF touches_MkdirAll s(2)] by blast
  from free_backup_result [OF s(3) [unfolded availableBackupPath_def] h2] free_backup_name [OF s(3) [unfolded availableBackupPath_def]]
  obtain i where b: "node_at (db w2) b = None" "db w3 = db w2" "b = path_join dir (backup_name now i)" "0 \<le> i" "i < 1000000" by blast
  have ba: "b = backup_at dir now i" using b(3) backup_join [OF laid backup_name_plain] by (simp add: backup_at_def)
  have ap: "db_names b q \<Longrightarrow> \<not> db_names p q" "db_names p q \<Longrightarrow> \<not> db_names b q" for q
    using laid_out_apart [OF laid backup_name_plain [of now i]] ba unfolding apart_def backup_at_def by blast+
  have pd: "q \<notin> set (ancestors dir)" "\<not> backups_below dir q" "q \<noteq> b" if "db_names p q" for q
    using laid_out_names [OF laid that] ap(2) [OF that] by (auto simp: backups_below_def db_names_def prefix_def)
  define P where "P = (\<lambda>f. C f = C (files_of p (db w)))"
  have src: "node_at (db w) p \<noteq> None" using s(1)
    by (auto simp: os_Stat_def lookup_def elim!: stmt_InrE split: option.splits sum.splits if_splits)
  have "db_at P p (db w1)" using src readsD [OF reads_host(1) s(1)] by (simp add: db_at_def P_def)
  from steady_step [OF steady_untouched [OF touches_MkdirAll pd(1)] s(2) this] b(2) have three: "db_at P p (db w3)" by simp
  have steady_src: "steady P p (snapshotDatabase L S p b)" unfolding P_def by (rule snapshot_source [OF ok ap(2)])
  have four: "db_at P p (db w4)" by (rule steady_step [OF steady_src s(4) three])
  have five: "db_at P p (db w5)" by (rule steady_step [OF steady_chmod(1) s(5) four])
  have six: "db_at P p (db w')" by (rule steady_step [OF steady_untouched [OF touches_removeOld [OF es] pd(2)] s(6) five])
  have anc: "b @ e \<notin> set (ancestors dir)" for e
    using ancestors_prefix [of "b @ e" dir] prefix_length_le [of "b @ e" dir] by (auto simp: ba backup_at_def)
  have w1: "db w1 = db w" using readsD [OF reads_host(1) s(1)] .
  have side: "node_at (db w3) (b @ ''-wal'') = None" "node_at (db w3) (b @ ''-shm'') = None"
    using lone ba touchesD [OF touches_MkdirAll s(2)] anc w1 b(2)
    by (auto simp: no_sidecars_def made_backup_def)
  from snapshot_result [OF ok s(4) ap(2) _ side] three obtain v where v: "files_of b (db w4) = (v, None, None)" "node_at (db w4) b \<noteq> None"
    "C (v, None, None) = C (files_of p (db w3))" by (auto simp: db_at_def)
  have five': "db_at (\<lambda>f. f = (v, None, None)) b (db w5)"
    using steady_step [OF steady_chmod(1) s(5), of "\<lambda>f. f = (v, None, None)" b] v(1,2) by (simp add: db_at_def)
  have content: "C (files_of b (db w')) = C (files_of p (db w))" if "node_at (db w') b \<noteq> None"
  proof -
    have "node_at (db w') b = node_at (db w5) b" using removeOld_removes [OF s(6), of b] that by blast
    moreover have "node_at (db w') (b @ e) = node_at (db w5) (b @ e)" if "e = ''-wal'' \<or> e = ''-shm''" for e
    proof (rule touchesD [OF touches_removeOld [OF es] s(6)])
      have "b @ e = dir @ [slash] @ backup_name now i @ e" by (simp add: ba backup_at_def)
      then show "\<not> backups_below dir (b @ e)" using not_backup_sidecar [OF that, of "backup_name now i"] by (simp add: backups_below_def)
    qed
    ultimately have "files_of b (db w') = files_of b (db w5)" by (simp add: files_of_def data_at_def)
    then show ?thesis using five' v(3) three by (simp add: db_at_def P_def)
  qed
  have "length (backup_names dir (db w')) \<le> 3" unfolding removeOldBackups_result [OF laid s(6)] by simp
  moreover have "node_at (db w) b = None" using b(1) touchesD [OF touches_MkdirAll s(2)] anc [of "[]"] w1 by simp
  ultimately show ?thesis using ba b(4,5) six content unfolding P_def by blast
qed

text \<open>Making a backup changes the files of the database, those in the directory of the backups and the way to it.\<close>

definition backup_files :: "string \<Rightarrow> string \<Rightarrow> string \<Rightarrow> bool" where
  "backup_files p dir q \<longleftrightarrow> db_names p q \<or> prefix (dir @ [slash]) q \<or> q \<in> set (ancestors dir)"

lemma touches_create:
  assumes "laid_out p dir"
  shows "touches (backup_files p dir) (createDatabaseBackup L S p dir now)"
proof -
  obtain es where es: "dir = abs_path es" "list_all plain_element es" "es \<noteq> []" using laid_out_backups [OF assms] by blast
  have prune: "touches (backup_files p dir) (removeOldBackups dir)"
    by (rule touches_mono [OF touches_removeOld [OF es]]) (auto simp: backups_below_def backup_files_def)
  have inner: "touches (backup_files p dir)
      (or_discard b (snapshotDatabase L S p b) (\<lambda>_. or_discard b (wrap_err ''secure backup'' (os_Chmod b 384)) (\<lambda>_.
       bnd (removeOldBackups dir) (\<lambda>_. ret b))))" if "b = backup_at dir now i" for b i
  proof -
    have b: "backup_files p dir q" if "db_names b q" for q
      using that \<open>b = backup_at dir now i\<close> by (auto simp: backup_files_def backup_at_def db_names_def)
    show ?thesis unfolding or_discard_def
      by (intro touch prune touches_mono [OF touches_snapshot] touches_mono [OF touches_os(4)] touches_mono [OF touches_os(5)])
         (use b in \<open>auto simp: backup_files_def db_names_def\<close>)
  qed
  have free: "\<exists>i. b = backup_at dir now i" if "availableBackupPath dir now w = (Inr b, w')" for b w w'
    using free_backup_name [OF that [unfolded availableBackupPath_def]] backup_join [OF assms backup_name_plain] by (auto simp: backup_at_def)
  have rest: "touches (backup_files p dir) (bnd (availableBackupPath dir now) (\<lambda>b.
      or_discard b (snapshotDatabase L S p b) (\<lambda>_. or_discard b (wrap_err ''secure backup'' (os_Chmod b 384)) (\<lambda>_.
       bnd (removeOldBackups dir) (\<lambda>_. ret b)))))"
  proof (rule touches_bnd_run)
    show "touches (backup_files p dir) (availableBackupPath dir now)"
      unfolding availableBackupPath_def by (rule touches_mono [OF touches_free_backup]) simp
  qed (use free inner in blast)
  show ?thesis unfolding createDatabaseBackup_def
    by (intro touch rest touches_mono [OF touches_MkdirAll]) (simp add: backup_files_def)
qed

end
