(* ===== verification/Restart_Laws.thy ===== *)
theory Restart_Laws
  imports Backup_Laws
begin

text \<open>
  What a failed restart leaves: the contract of the container engine and of the manager's reload on which the
  compensation rests, what each docker step does to the containers, and that after a rollback without an
  error the database and the container that ran are as they were.
\<close>

section \<open>The containers\<close>

record container =
  cn_ID :: string
  cn_Running :: bool

type_synonym containers = "string \<Rightarrow> container option"

text \<open>
  What the commands rely on: a listing names a container exactly when there is one (that runs), and changes
  nothing; a command that succeeds has done what it says.
\<close>

definition listing_ok :: "'c matcha \<Rightarrow> ('c \<Rightarrow> containers) \<Rightarrow> string list \<Rightarrow> (container option \<Rightarrow> bool) \<Rightarrow> string \<Rightarrow> bool" where
  "listing_ok M view args shown n \<longleftrightarrow> (\<forall>e run e'. mc_Docker M args e = (run, e') \<longrightarrow>
     view e' = view e \<and> (dr_Error run = None \<longrightarrow> (trim_space (dr_Stdout run) \<noteq> [] \<longleftrightarrow> shown (view e n))))"

definition command_ok :: "'c matcha \<Rightarrow> ('c \<Rightarrow> containers) \<Rightarrow> string list \<Rightarrow> (containers \<Rightarrow> containers option) \<Rightarrow> bool" where
  "command_ok M view args f \<longleftrightarrow> (\<forall>e run e'. mc_Docker M args e = (run, e') \<longrightarrow> dr_Error run = None \<longrightarrow> f (view e) = Some (view e'))"

definition runs :: "container option \<Rightarrow> bool" where
  "runs c \<longleftrightarrow> (case c of None \<Rightarrow> False | Some x \<Rightarrow> cn_Running x)"

definition set_running :: "bool \<Rightarrow> string \<Rightarrow> containers \<Rightarrow> containers option" where
  "set_running b n v = map_option (\<lambda>c. v(n \<mapsto> c\<lparr>cn_Running := b\<rparr>)) (v n)"

definition renamed :: "string \<Rightarrow> string \<Rightarrow> containers \<Rightarrow> containers option" where
  "renamed a b v = (case (v a, v b) of (Some c, None) \<Rightarrow> Some (v(a := None, b \<mapsto> c)) | _ \<Rightarrow> None)"

definition docker_ok :: "'c matcha \<Rightarrow> ('c \<Rightarrow> containers) \<Rightarrow> bool" where
  "docker_ok M view \<longleftrightarrow> (\<forall>n b.
     listing_ok M view [''ps'', ''-q'', ''--filter'', name_filter n] runs n
   \<and> listing_ok M view [''ps'', ''-aq'', ''--filter'', name_filter n] (\<lambda>c. c \<noteq> None) n
   \<and> command_ok M view [''stop'', ''--timeout'', ''15'', n] (set_running False n)
   \<and> command_ok M view [''start'', n] (set_running True n)
   \<and> command_ok M view [''rm'', ''-f'', n] (\<lambda>v. Some (v(n := None)))
   \<and> command_ok M view [''rename'', n, b] (renamed n b))"

text \<open>
  A reload of the manager that fails has kept the container with the application's name, running or not,
  and no file of the backups or of a staged copy has come or gone.
\<close>

definition reload_ok :: "'c matcha \<Rightarrow> ('c \<Rightarrow> containers) \<Rightarrow> (string \<Rightarrow> bool) \<Rightarrow> bool" where
  "reload_ok M view own \<longleftrightarrow> (\<forall>h e h'. mc_Reload M False True h = (Some e, h') \<longrightarrow>
     map_option cn_ID (view (ht_Engine h') (mc_AppContainerName M)) = map_option cn_ID (view (ht_Engine h) (mc_AppContainerName M))
   \<and> (\<forall>q. own q \<longrightarrow> node_at h' q = node_at h q))"

section \<open>Docker steps\<close>

text \<open>What a docker step keeps of the host: all files and the failures to come.\<close>

definition same_files :: "'c host world \<Rightarrow> 'c host world \<Rightarrow> bool" where
  "same_files w w' \<longleftrightarrow> ht_Nodes (db w') = ht_Nodes (db w) \<and> faults w' = faults w"

abbreviation view_of :: "('c \<Rightarrow> containers) \<Rightarrow> 'c host world \<Rightarrow> containers" where
  "view_of view w \<equiv> view (ht_Engine (db w))"

lemma same_files_trans: "same_files w w' \<Longrightarrow> same_files w' w'' \<Longrightarrow> same_files w w''"
  by (simp add: same_files_def)

lemma command_result:
  assumes "command_ok M view args f" "runDocker M args w = (Inr (), w')"
  shows "f (view_of view w) = Some (view_of view w') \<and> same_files w w'"
proof -
  obtain run e' where m: "mc_Docker M args (ht_Engine (db w)) = (run, e')" by force
  then have "dr_Error run = None \<and> w' = w\<lparr>db := (db w)\<lparr>ht_Engine := e'\<rparr>\<rparr>"
    using assms(2) by (auto simp: runDocker_def runDockerCommand_def bnd_apply ret_apply fail_apply split: option.splits)
  then show ?thesis using assms(1) [unfolded command_ok_def, rule_format, OF m] by (simp add: same_files_def)
qed

lemma listing_result:
  assumes "listing_ok M view args shown n" "dockerOutput M args w = (r, w')"
  shows "view_of view w' = view_of view w \<and> same_files w w'
    \<and> (\<forall>out. r = Inr out \<longrightarrow> (trim_space out \<noteq> []) = shown (view_of view w n))"
proof -
  obtain run e' where m: "mc_Docker M args (ht_Engine (db w)) = (run, e')" by force
  note c = assms(1) [unfolded listing_ok_def, rule_format, OF m]
  have "w' = w\<lparr>db := (db w)\<lparr>ht_Engine := e'\<rparr>\<rparr>" "r = Inr out \<Longrightarrow> dr_Error run = None \<and> out = dr_Stdout run" for out
    using assms(2) m by (auto simp: dockerOutput_def runDockerCommand_def bnd_apply ret_apply fail_apply split: option.splits)
  then show ?thesis using c by (simp add: same_files_def) metis
qed

lemma docker_okD:
  assumes "docker_ok M view"
  shows "listing_ok M view [''ps'', ''-q'', ''--filter'', name_filter n] runs n"
    "listing_ok M view [''ps'', ''-aq'', ''--filter'', name_filter n] (\<lambda>c. c \<noteq> None) n"
    "command_ok M view [''stop'', ''--timeout'', ''15'', n] (set_running False n)"
    "command_ok M view [''start'', n] (set_running True n)"
    "command_ok M view [''rm'', ''-f'', n] (\<lambda>v. Some (v(n := None)))"
    "command_ok M view [''rename'', n, b] (renamed n b)"
  using assms unfolding docker_ok_def by blast+

lemma is_running_result:
  assumes "docker_ok M view" "is_running M n w = (Inr b, w')"
  shows "b = runs (view_of view w n) \<and> view_of view w' = view_of view w \<and> same_files w w'"
proof -
  from assms(2) obtain out where "dockerOutput M [''ps'', ''-q'', ''--filter'', name_filter n] w = (Inr out, w')" "b = (trim_space out \<noteq> [])"
    unfolding is_running_def by (elim bnd_InrE) (simp add: ret_apply)
  with listing_result [OF docker_okD(1) [OF assms(1)] this(1)] show ?thesis by blast
qed

lemma there_is_result:
  assumes "docker_ok M view" "there_is M n w = (Inr b, w')"
  shows "b = (view_of view w n \<noteq> None) \<and> view_of view w' = view_of view w \<and> same_files w w'"
proof -
  from assms(2) obtain out where "dockerOutput M [''ps'', ''-aq'', ''--filter'', name_filter n] w = (Inr out, w')" "b = (trim_space out \<noteq> [])"
    unfolding there_is_def by (elim bnd_InrE) (simp add: ret_apply)
  with listing_result [OF docker_okD(2) [OF assms(1)] this(1)] show ?thesis by blast
qed

lemma runningApplication_result:
  assumes ok: "docker_ok M view" and run: "runningApplication M w = (Inr original, w')" and named: "mc_AppContainerName M \<noteq> []"
  shows "view_of view w' = view_of view w \<and> same_files w w'
    \<and> (\<forall>n \<in> {mc_AppContainerName M, next_name M}. runs (view_of view w n) = (n = original))"
proof -
  from run obtain a w1 b where s: "is_running M (mc_AppContainerName M) w = (Inr a, w1)" "is_running M (next_name M) w1 = (Inr b, w')"
    "\<not> (a \<and> b)" "original = (if a then mc_AppContainerName M else if b then next_name M else [])"
    unfolding runningApplication_def by (elim bnd_InrE) (auto simp: ret_apply fail_apply split: if_splits)
  have "next_name M \<noteq> mc_AppContainerName M" "next_name M \<noteq> []" by (simp_all add: next_name_def)
  with is_running_result [OF ok s(1)] is_running_result [OF ok s(2)] s(3,4) named same_files_trans show ?thesis by (auto split: if_splits)
qed

lemma remove_container:
  assumes "docker_ok M view" "runDocker M [''rm'', ''-f'', n] w = (Inr (), w')"
  shows "view_of view w' = (view_of view w)(n := None) \<and> same_files w w'"
  using command_result [OF docker_okD(5) [OF assms(1)] assms(2)] by simp

lemma rename_container:
  assumes "docker_ok M view" "runDocker M [''rename'', a, b] w = (Inr (), w')"
  shows "\<exists>c. view_of view w a = Some c \<and> view_of view w' = (view_of view w)(a := None, b \<mapsto> c) \<and> same_files w w'"
  using command_result [OF docker_okD(6) [OF assms(1)] assms(2)] by (auto simp: renamed_def split: option.splits)

lemma stop_container:
  assumes "docker_ok M view" "runDocker M [''stop'', ''--timeout'', ''15'', n] w = (Inr (), w')"
  shows "\<exists>c. view_of view w n = Some c \<and> view_of view w' = (view_of view w)(n \<mapsto> c\<lparr>cn_Running := False\<rparr>) \<and> same_files w w'"
  using command_result [OF docker_okD(3) [OF assms(1)] assms(2)] by (auto simp: set_running_def)

lemma start_container:
  assumes "docker_ok M view" "runDocker M [''start'', n] w = (Inr (), w')"
  shows "\<exists>c. view_of view w n = Some c \<and> view_of view w' = (view_of view w)(n \<mapsto> c\<lparr>cn_Running := True\<rparr>) \<and> same_files w w'"
  using command_result [OF docker_okD(4) [OF assms(1)] assms(2)] by (auto simp: set_running_def)

lemma fail_after_Inl: "fail_after e m w \<noteq> (Inr y, w')"
  by (cases "m w") (simp add: fail_after_def catch_apply fail_apply)

lemma or_restart_InrE:
  assumes "or_restart M x m f w = (Inr y, w'')"
  obtains z w' where "m w = (Inr z, w')" "f z w' = (Inr y, w'')"
proof (cases "m w")
  case (Pair r w1)
  with assms that show thesis by (cases r) (auto simp: or_restart_def catch_apply fail_after_Inl)
qed

text \<open>
  Stopping the application: the container that ran is kept, stopped, under the application's name.
\<close>

lemma stop_result:
  assumes ok: "docker_ok M view" and run: "stopApplication M w = (Inr original, w')" and named: "mc_AppContainerName M \<noteq> []"
  shows "same_files w w' \<and> (\<forall>n \<in> {mc_AppContainerName M, next_name M}. runs (view_of view w n) = (n = original))
    \<and> (original \<noteq> [] \<longrightarrow> (\<exists>c. view_of view w original = Some c
         \<and> map_option cn_ID (view_of view w' (mc_AppContainerName M)) = Some (cn_ID c)))"
proof -
  let ?base = "mc_AppContainerName M"
  from run obtain x w1 where r: "runningApplication M w = (Inr x, w1)"
    "(if x = [] then ret x else bnd (runDocker M [''stop'', ''--timeout'', ''15'', x]) (\<lambda>_.
          if x \<noteq> next_name M then ret x
          else or_restart M x (there_is M ?base) (\<lambda>stale.
               or_restart M x (if stale then runDocker M [''rm'', ''-f'', ?base] else ret ()) (\<lambda>_.
               or_restart M x (runDocker M [''rename'', next_name M, ?base]) (\<lambda>_. ret x))))) w1 = (Inr original, w')"
    unfolding stopApplication_def by (elim bnd_InrE)
  note a = runningApplication_result [OF ok r(1) named]
  show ?thesis
  proof (cases "x = []")
    case True
    with r(2) a show ?thesis by (simp add: ret_apply)
  next
    case False
    with r(2) obtain w2 where s: "runDocker M [''stop'', ''--timeout'', ''15'', x] w1 = (Inr (), w2)"
      "(if x \<noteq> next_name M then ret x
          else or_restart M x (there_is M ?base) (\<lambda>stale.
               or_restart M x (if stale then runDocker M [''rm'', ''-f'', ?base] else ret ()) (\<lambda>_.
               or_restart M x (runDocker M [''rename'', next_name M, ?base]) (\<lambda>_. ret x)))) w2 = (Inr original, w')"
      by (auto elim!: bnd_InrE)
    from stop_container [OF ok s(1)] a obtain c where c: "view_of view w x = Some c"
      "view_of view w2 = (view_of view w)(x \<mapsto> c\<lparr>cn_Running := False\<rparr>)" "same_files w w2" using same_files_trans by auto
    show ?thesis
    proof (cases "x = next_name M")
      case False
      with s(2) have o: "original = x" "w' = w2" by (simp_all add: ret_apply)
      have "runs (view_of view w ?base) \<or> x = [] \<or> x = next_name M \<or> x = ?base"
        using r(1) by (auto simp: runningApplication_def ret_apply fail_apply elim!: bnd_InrE split: if_splits)
      then have "x = ?base" using False \<open>x \<noteq> []\<close> a by auto
      then show ?thesis using o c a \<open>x \<noteq> []\<close> by auto
    next
      case True
      with s(2) have "or_restart M x (there_is M ?base) (\<lambda>stale.
               or_restart M x (if stale then runDocker M [''rm'', ''-f'', ?base] else ret ()) (\<lambda>_.
               or_restart M x (runDocker M [''rename'', next_name M, ?base]) (\<lambda>_. ret x))) w2 = (Inr original, w')" by simp
      then obtain st w3 where "there_is M ?base w2 = (Inr st, w3)" "or_restart M x (if st then runDocker M [''rm'', ''-f'', ?base] else ret ()) (\<lambda>_.
               or_restart M x (runDocker M [''rename'', next_name M, ?base]) (\<lambda>_. ret x)) w3 = (Inr original, w')" by (rule or_restart_InrE)
      moreover from this(2) obtain u w4 where "(if st then runDocker M [''rm'', ''-f'', ?base] else ret ()) w3 = (Inr u, w4)"
        "or_restart M x (runDocker M [''rename'', next_name M, ?base]) (\<lambda>_. ret x) w4 = (Inr original, w')" by (rule or_restart_InrE)
      moreover from this(2) obtain v w5 where "runDocker M [''rename'', next_name M, ?base] w4 = (Inr v, w5)" "ret x w5 = (Inr original, w')"
        by (rule or_restart_InrE)
      ultimately have t: "there_is M ?base w2 = (Inr st, w3)" "(if st then runDocker M [''rm'', ''-f'', ?base] else ret ()) w3 = (Inr (), w4)"
        "runDocker M [''rename'', next_name M, ?base] w4 = (Inr (), w')" "original = x" by (simp_all add: ret_apply)
      have nb: "next_name M \<noteq> ?base" by (simp add: next_name_def)
      have three: "view_of view w3 = view_of view w2 \<and> same_files w w3" using there_is_result [OF ok t(1)] same_files_trans c(3) by blast
      have four: "view_of view w4 (next_name M) = view_of view w2 (next_name M) \<and> same_files w w4"
        using t(2) remove_container [OF ok, of ?base w3 w4] three nb same_files_trans by (auto simp: ret_apply split: if_splits)
      from rename_container [OF ok t(3)] four c(2) True obtain d where "d = c\<lparr>cn_Running := False\<rparr>"
        "view_of view w' = (view_of view w4)(next_name M := None, ?base \<mapsto> d)" "same_files w w'" using same_files_trans by auto
      then show ?thesis using a c(1) t(4) True by auto
    qed
  qed
qed

section \<open>Rolling back\<close>

lemma fail_after_clean: "fail_after e m w = (Inl (Joined [x]), w') \<Longrightarrow> m w = (Inr (), w') \<and> x = e"
  by (auto simp: fail_after_def catch_apply fail_apply error_of_def split: prod.splits sum.splits)

lemma prepare_rollback_result:
  assumes ok: "docker_ok M view" and run: "prepareApplicationRollback M original w = (Inr (), w')"
  shows "same_files w w' \<and> (original \<in> {mc_AppContainerName M, next_name M} \<longrightarrow>
     view_of view w' original = view_of view w (mc_AppContainerName M))"
proof -
  let ?base = "mc_AppContainerName M"
  from run obtain r w1 w2 where s: "there_is M (next_name M) w = (Inr r, w1)"
    "(if r then wrap_err ''remove failed replacement'' (runDocker M [''rm'', ''-f'', next_name M]) else ret ()) w1 = (Inr (), w2)"
    "(if original = next_name M then wrap_err ''restore previous container name'' (runDocker M [''rename'', ?base, next_name M])
      else ret ()) w2 = (Inr (), w')"
    unfolding prepareApplicationRollback_def by (elim bnd_InrE) auto
  have nb: "?base \<noteq> next_name M" by (simp add: next_name_def)
  have one: "view_of view w1 = view_of view w \<and> same_files w w1" using there_is_result [OF ok s(1)] by simp
  have two: "view_of view w2 ?base = view_of view w ?base \<and> same_files w w2"
    using s(2) remove_container [OF ok, of "next_name M" w1 w2] one nb same_files_trans by (auto simp: ret_apply split: if_splits)
  show ?thesis
  proof (cases "original = next_name M")
    case True
    with s(3) have "runDocker M [''rename'', ?base, next_name M] w2 = (Inr (), w')" by simp
    from rename_container [OF ok this] two True show ?thesis using same_files_trans by auto
  next
    case False
    with s(3) two show ?thesis by (auto simp: ret_apply)
  qed
qed

lemma same_files_node: "same_files w w' \<Longrightarrow> node_at (db w') q = node_at (db w) q"
  by (simp add: same_files_def node_at_def)

lemma same_files_lone: "same_files w w' \<Longrightarrow> no_sidecars N (db w') = no_sidecars N (db w)"
  by (simp add: no_sidecars_def same_files_node)

lemma same_files_of: "same_files w w' \<Longrightarrow> files_of p (db w') = files_of p (db w)"
  by (rule files_of_cong) (rule same_files_node)

lemma same_files_honest: "same_files w w' \<Longrightarrow> honest w \<Longrightarrow> honest w'"
  by (simp add: same_files_def honest_def)

lemma touches_prepare: "touches (\<lambda>_. True) (prepareDatabaseRestore L S p b)"
  unfolding prepareDatabaseRestore_def or_discard_def
  by (intro touch touches_mono [OF touches_validate] touches_mono [OF touches_MkdirAll] touches_mono [OF touches_CreateTemp]
      touches_mono [OF touches_os(4)] touches_mono [OF touches_snapshot] touches_mono [OF touches_os(5)]) simp_all

lemma touches_replace: "touches (\<lambda>_. True) (replaceDatabase L S p t)"
  unfolding replaceDatabase_def
  by (intro touch touches_mono [OF touches_keep_permissions] touches_mono [OF touches_remove_sidecar] touches_mono [OF touches_os(7)]) simp_all

lemma touches_restore: "touches (\<lambda>_. True) (restoreDatabase L S p b)"
  unfolding restoreDatabase_def
  by (intro touch touches_prepare touches_replace touches_mono [OF touches_os(4)]) simp_all

text \<open>
  A rollback that reports no error has put the content of the backup back and runs the container that the
  application's name had.
\<close>

lemma rollback_result:
  assumes docker: "docker_ok M view" and sq: "sqlite_ok S C" and run: "rollbackRestore L S M original p b w = (Inr (), w')"
    and ap: "apart p b" and h: "honest w" and lone: "no_sidecars (restore_name (path_dir p)) (db w)"
  shows "node_at (db w') p \<noteq> None \<and> C (files_of p (db w')) = C (files_of b (db w)) \<and> node_at (db w) b \<noteq> None
    \<and> (original \<noteq> [] \<longrightarrow> original \<in> {mc_AppContainerName M, next_name M} \<longrightarrow>
        (\<exists>c. view_of view w (mc_AppContainerName M) = Some c \<and> view_of view w' original = Some (c\<lparr>cn_Running := True\<rparr>)))"
proof -
  from run obtain w1 w2 where s: "prepareApplicationRollback M original w = (Inr (), w1)" "b \<noteq> []"
    "restoreDatabase L S p b w1 = (Inr (), w2)" "restartPreviousApplication M original w2 = (Inr (), w')"
    unfolding rollbackRestore_def by (elim bnd_InrE) (auto simp: fail_apply split: if_splits elim!: bnd_InrE)
  note one = prepare_rollback_result [OF docker s(1)]
  have lone1: "no_sidecars (restore_name (path_dir p)) (db w1)" using lone same_files_lone [OF conjunct1 [OF one]] by simp
  from restore_result [OF sq s(3) ap same_files_honest [OF conjunct1 [OF one] h] lone1]
  have two: "node_at (db w2) p \<noteq> None \<and> C (files_of p (db w2)) = C (files_of b (db w1))" .
  have engine: "view_of view w2 = view_of view w1" using touches_engine [OF touches_restore s(3)] by simp
  have "node_at (db w1) b \<noteq> None"
  proof -
    from s(3) obtain t w3 where "prepareDatabaseRestore L S p b w1 = (Inr t, w3)" unfolding restoreDatabase_def by (elim bnd_InrE)
    then obtain w4 where "validateDatabase L S b w1 = (Inr (), w4)" unfolding prepareDatabaseRestore_def by (elim bnd_InrE) simp
    then show ?thesis by (rule validate_exists)
  qed
  then have nb: "node_at (db w) b \<noteq> None" using one same_files_node by metis
  show ?thesis
  proof (cases "original = []")
    case True
    with s(4) two nb same_files_of [OF conjunct1 [OF one]] show ?thesis by (simp add: restartPreviousApplication_def ret_apply)
  next
    case False
    with s(4) have "runDocker M [''start'', original] w2 = (Inr (), w')" by (simp add: restartPreviousApplication_def)
    from start_container [OF docker this] obtain c where c: "view_of view w2 original = Some c"
      "view_of view w' = (view_of view w2)(original \<mapsto> c\<lparr>cn_Running := True\<rparr>)" "same_files w2 w'" by blast
    have "node_at (db w') p \<noteq> None" using two same_files_node [OF c(3)] by simp
    moreover have "C (files_of p (db w')) = C (files_of b (db w))"
      using two same_files_of [OF c(3)] same_files_of [OF conjunct1 [OF one]] by simp
    ultimately show ?thesis using one nb engine c(1,2) by auto
  qed
qed

lemma backup_deployment_result:
  assumes "backupDeploymentDatabase L S M w = (Inr b, w')" "deployedDatabasePath L M = Inr p"
  shows "\<exists>now w1. createDatabaseBackup L S p (backups_dir M) now w1 = (Inr b, w') \<and> db w1 = db w \<and> faults w1 = faults w"
proof -
  from assms obtain now w1 where "time_now w = (Inr now, w1)" "createDatabaseBackup L S p (backups_dir M) now w1 = (Inr b, w')"
    unfolding backupDeploymentDatabase_def by (elim bnd_InrE) (auto simp: of_result_apply)
  moreover have "faults w1 = faults w" using calculation(1) by (auto simp: time_now_def split: list.splits)
  ultimately show ?thesis using readsD [OF reads_time_now] by blast
qed

lemma backups_dir_laid_out:
  assumes "deployedDatabasePath L M = Inr p" "mc_DataDir M = abs_path ds" "list_all plain_element ds" "unstaged p"
  shows "laid_out p (backups_dir M)"
proof -
  from deployedDatabasePath_result [OF assms(1-3)] obtain rest where r: "p = abs_path (ds @ ''storage'' # rest)" "list_all plain_element rest" by blast
  have e: "plain_element ''storage''" "plain_element ''backups''" by (simp_all add: plain_element_def slash_def)
  have "backups_dir M = abs_path (ds @ [''backups''])"
    unfolding backups_dir_def assms(2) using path_join_one [OF assms(3) e(2)] by simp
  then show ?thesis using r assms(3,4) e unfolding laid_out_def by auto
qed

section \<open>A restart that fails\<close>

text \<open>The files a reload leaves alone: those of the backups and of staged copies.\<close>

definition own_files :: "string \<Rightarrow> string \<Rightarrow> string \<Rightarrow> bool" where
  "own_files p dir q \<longleftrightarrow> prefix (dir @ [slash]) q \<or> (\<exists>t. restore_name (path_dir p) t \<and> db_names t q)"

lemma restart_parts:
  assumes run: "restartDeployment L S M w = (Inl (Joined [Wrap ''start application'' e]), w')" and p: "deployedDatabasePath L M = Inr p"
  obtains original w1 b w2 w3 where "stopApplication M w = (Inr original, w1)" "backupDeploymentDatabase L S M w1 = (Inr b, w2)"
    "mc_Reload M False True (db w2) = (Some e, db w3)" "faults w3 = faults w2" "rollbackRestore L S M original p b w3 = (Inr (), w')"
proof -
  let ?after = "\<lambda>original backup. case backup of
       Inl e \<Rightarrow> fail_after (Wrap ''pre-deploy backup'' e) (restartStoppedApplication M original)
     | Inr safetyBackup \<Rightarrow> catch (startDeployment M) (\<lambda>started. case started of
           Inl e \<Rightarrow> fail_after e (rollbackRestore L S M original p safetyBackup) | Inr _ \<Rightarrow> ret ())"
  obtain r w1 where stop: "stopApplication M w = (r, w1)" by force
  with run p obtain original where o: "r = Inr original" "catch (backupDeploymentDatabase L S M) (?after original) w1
      = (Inl (Joined [Wrap ''start application'' e]), w')"
    by (cases r) (auto simp: restartDeployment_def bnd_apply of_result_apply wrap_err_apply)
  obtain x w2 where backup: "backupDeploymentDatabase L S M w1 = (x, w2)" by force
  from o(2) backup have "?after original x w2 = (Inl (Joined [Wrap ''start application'' e]), w')" by (simp add: catch_apply)
  then obtain b where x: "x = Inr b" "catch (startDeployment M) (\<lambda>started. case started of
           Inl e \<Rightarrow> fail_after e (rollbackRestore L S M original p b) | Inr _ \<Rightarrow> ret ()) w2
      = (Inl (Joined [Wrap ''start application'' e]), w')" by (cases x) (auto dest: fail_after_clean)
  obtain y w3 where start: "startDeployment M w2 = (y, w3)" by force
  with x(2) obtain f where f: "y = Inl f" "fail_after f (rollbackRestore L S M original p b) w3 = (Inl (Joined [Wrap ''start application'' e]) :: err + unit, w')"
    by (cases y) (auto simp: catch_apply ret_apply)
  from fail_after_clean [OF f(2)] have c: "rollbackRestore L S M original p b w3 = (Inr (), w')" "f = Wrap ''start application'' e" by simp_all
  have "mc_Reload M False True (db w2) = (Some e, db w3) \<and> faults w3 = faults w2"
    using start f(1) c(2) by (auto simp: startDeployment_def run_manager_def wrap_err_apply split: prod.splits option.splits)
  with that stop o(1) backup x(1) c(1) show thesis by blast
qed

lemma restart_rollback:
  assumes docker: "docker_ok M view" and sq: "sqlite_ok S C" and p: "deployedDatabasePath L M = Inr p"
    and reload: "reload_ok M view (own_files p (backups_dir M))" and laid: "laid_out p (backups_dir M)"
    and named: "mc_AppContainerName M \<noteq> []" and h: "honest w"
    and lone: "no_sidecars (\<lambda>t. restore_name (path_dir p) t \<or> made_backup (backups_dir M) t) (db w)"
    and run: "restartDeployment L S M w = (Inl (Joined [Wrap ''start application'' e]), w')"
  shows "node_at (db w') p \<noteq> None \<and> C (files_of p (db w')) = C (files_of p (db w))
    \<and> (\<forall>n \<in> {mc_AppContainerName M, next_name M}. \<forall>c. view_of view w n = Some c \<longrightarrow> cn_Running c \<longrightarrow> view_of view w' n = Some c)"
proof -
  let ?dir = "backups_dir M"
  from restart_parts [OF run p] obtain original w1 b w2 w3 where s: "stopApplication M w = (Inr original, w1)"
    "backupDeploymentDatabase L S M w1 = (Inr b, w2)" "mc_Reload M False True (db w2) = (Some e, db w3)" "faults w3 = faults w2"
    "rollbackRestore L S M original p b w3 = (Inr (), w')" by metis
  note stop = stop_result [OF docker s(1) named]
  from backup_deployment_result [OF s(2) p] obtain now w1' where mk: "createDatabaseBackup L S p ?dir now w1' = (Inr b, w2)"
    "db w1' = db w1" "faults w1' = faults w1" by blast
  have h1: "honest w1'" using same_files_honest [OF conjunct1 [OF stop] h] mk(3) by (simp add: honest_def)
  have lone0: "no_sidecars (\<lambda>t. restore_name (path_dir p) t \<or> made_backup ?dir t) (db w1')"
    using lone same_files_lone [OF conjunct1 [OF stop]] mk(2) by simp
  have lone1: "no_sidecars N (db w1')" if "\<And>t. N t \<Longrightarrow> restore_name (path_dir p) t \<or> made_backup ?dir t" for N
    using lone0 that unfolding no_sidecars_def by blast
  from createDatabaseBackup_result [OF sq mk(1) laid lone1 h1] obtain i where b: "b = backup_at ?dir now i"
    "node_at (db w2) b \<noteq> None \<Longrightarrow> C (files_of b (db w2)) = C (files_of p (db w1'))" by blast
  have src: "files_of p (db w1') = files_of p (db w)" using mk(2) same_files_of [OF conjunct1 [OF stop]] by simp
  note tc = touches_create [OF laid, of L S now]
  have h3: "honest w3" using touches_honest [OF tc mk(1) h1] s(4) by (simp add: honest_def)
  note keep = s(3)
  have own: "node_at (db w3) q = node_at (db w2) q" if "own_files p ?dir q" for q
    using reload s(3) that unfolding reload_ok_def by blast
  have staged_q: "node_at (db w3) q = node_at (db w) q" if t: "restore_name (path_dir p) t" "db_names t q" for t q
  proof -
    have "\<not> backup_files p ?dir q" using laid_out_staged [OF laid t] by (simp add: backup_files_def)
    from touchesD [OF tc mk(1) this] own [of q] t mk(2) same_files_node [OF conjunct1 [OF stop]] show ?thesis
      by (auto simp: own_files_def)
  qed
  have lone3: "no_sidecars (restore_name (path_dir p)) (db w3)"
    using lone staged_q by (simp add: no_sidecars_def db_names_def)
  have bq: "node_at (db w3) q = node_at (db w2) q" if "db_names b q" for q
    by (rule own) (use that b(1) in \<open>auto simp: own_files_def backup_at_def db_names_def\<close>)
  have bb: "files_of b (db w3) = files_of b (db w2)" by (rule files_of_cong) (rule bq)
  have bn: "node_at (db w3) b = node_at (db w2) b" by (rule bq) (simp add: db_names_def)
  have ap: "apart p b" using laid_out_apart [OF laid backup_name_plain] b(1) by (simp add: backup_at_def)
  note undone = rollback_result [OF docker sq s(5) ap h3 lone3]
  have content: "C (files_of p (db w')) = C (files_of p (db w))" using undone b(2) bb bn src by simp
  have engine: "ht_Engine (db w2) = ht_Engine (db w1)" using touches_engine [OF tc mk(1)] mk(2) by simp
  have container: "view_of view w' n = Some c"
    if n: "n \<in> {mc_AppContainerName M, next_name M}" "view_of view w n = Some c" "cn_Running c" for n c
  proof -
    have o: "original = n" using stop n by (auto simp: runs_def)
    have ne: "n \<noteq> []" using n(1) named by (auto simp: next_name_def)
    with stop n(2) o have "map_option cn_ID (view_of view w1 (mc_AppContainerName M)) = Some (cn_ID c)" by auto
    moreover have "map_option cn_ID (view_of view w3 (mc_AppContainerName M)) = map_option cn_ID (view_of view w2 (mc_AppContainerName M))"
      using reload s(3) unfolding reload_ok_def by blast
    ultimately obtain d where d: "view_of view w3 (mc_AppContainerName M) = Some d" "cn_ID d = cn_ID c" using engine by auto
    from undone o ne n(1) d(1) have "view_of view w' n = Some (d\<lparr>cn_Running := True\<rparr>)" by auto
    moreover have "d\<lparr>cn_Running := True\<rparr> = c" using d(2) n(3) by simp
    ultimately show ?thesis by simp
  qed
  show ?thesis using undone content container by blast
qed

end
