(* ===== verification/Deploy_Properties.thy ===== *)
theory Deploy_Properties
  imports Samples Restart_Laws
begin

text \<open>
  The properties of the deployment commands: where the database is, what a backup and a restore hold, the
  rollback of a restart that fails, and the backup that removes itself.
\<close>

section \<open>A concrete deployment\<close>

text \<open>An engine that keeps a list of named containers.\<close>

type_synonym engine = "(string \<times> container) list"

definition listed :: "bool \<Rightarrow> string \<Rightarrow> engine \<Rightarrow> string" where
  "listed al flt e = (if list_ex (\<lambda>(n, c). name_filter n = flt \<and> (al \<or> cn_Running c)) (AList.clearjunk e) then ''4f66ad9a'' else [])"

definition docker_done :: "string \<Rightarrow> engine \<Rightarrow> docker_run \<times> engine" where
  "docker_done out e = (\<lparr>dr_Error = None, dr_Timeout = None, dr_Stdout = out\<rparr>, e)"

definition docker_failed :: "engine \<Rightarrow> docker_run \<times> engine" where
  "docker_failed e = (\<lparr>dr_Error = Some (Plain ''exit status 1''), dr_Timeout = None, dr_Stdout = []\<rparr>, e)"

definition turn :: "bool \<Rightarrow> string \<Rightarrow> engine \<Rightarrow> docker_run \<times> engine" where
  "turn b n e = (case map_of e n of None \<Rightarrow> docker_failed e | Some c \<Rightarrow> docker_done [] (AList.update n (c\<lparr>cn_Running := b\<rparr>) e))"

definition rename_in :: "string \<Rightarrow> string \<Rightarrow> engine \<Rightarrow> docker_run \<times> engine" where
  "rename_in a b e = (case (map_of e a, map_of e b) of
     (Some c, None) \<Rightarrow> docker_done [] (AList.update b c (AList.delete a e)) | _ \<Rightarrow> docker_failed e)"

definition list_docker :: "string list \<Rightarrow> engine \<Rightarrow> docker_run \<times> engine" where
  "list_docker args e =
     (if length args = 4 \<and> args ! 0 = ''ps'' then docker_done (listed (args ! 1 = ''-aq'') (args ! 3) e) e
      else if length args = 4 \<and> args ! 0 = ''stop'' then turn False (args ! 3) e
      else if length args = 2 \<and> args ! 0 = ''start'' then turn True (args ! 1) e
      else if length args = 3 \<and> args ! 0 = ''rm'' then docker_done [] (AList.delete (args ! 2) e)
      else if length args = 3 \<and> args ! 0 = ''rename'' then rename_in (args ! 1) (args ! 2) e
      else docker_failed e)"

text \<open>A reload that spoils the database and leaves a replacement behind.\<close>

definition bad_reload :: "engine host \<Rightarrow> err option \<times> engine host" where
  "bad_reload h = (Some (Plain ''health check failed''),
     (put_file ''/d/storage/miniform.production.db'' ''spoiled'' h)\<lparr>ht_Engine := AList.update ''app-next'' \<lparr>cn_ID = ''r'', cn_Running = True\<rparr> (ht_Engine h)\<rparr>)"

definition manager_one :: "engine matcha" where
  "manager_one = \<lparr>mc_AppContainerName = ''app'', mc_Name = ''app'', mc_ConfigPath = [], mc_ProxyImage = ''proxy'', mc_DataDir = ''/d'',
     mc_DefaultConfigPath = ''/etc/matcha.yml'', mc_LoadApp = (\<lambda>_. Inr \<lparr>ac_Image = ''image'', ac_Env = (\<lambda>_. [])\<rparr>),
     mc_LoadAppFrom = (\<lambda>_ _. Inl (Plain ''no such file'')), mc_LoadConfigFrom = (\<lambda>_. Inr [''app'']),
     mc_Install = (\<lambda>h. (None, h)), mc_SelfUpdate = (\<lambda>h. (None, h)), mc_Reload = (\<lambda>_ _. bad_reload), mc_Docker = list_docker\<rparr>"

text \<open>An engine for databases in which the log follows the main file.\<close>

definition whole :: "db_files \<Rightarrow> string" where
  "whole f = (case f of (m, wal, shm) \<Rightarrow> m @ (case wal of None \<Rightarrow> [] | Some s \<Rightarrow> s))"

definition log_sqlite :: sqlite where
  "log_sqlite = \<lparr>sq_Integrity = (\<lambda>f. (Inr ''ok'', f)), sq_Tables = (\<lambda>f. (Inr 3, f)),
     sq_VacuumInto = (\<lambda>f. ((None, Some (whole f)), f)),
     sq_Checkpoint = (\<lambda>f. case f of (m, wal, shm) \<Rightarrow> (Inr (), whole f, None, shm))\<rparr>"

definition regular :: "string \<Rightarrow> inode" where
  "regular s = \<lparr>in_Kind = RegularFile, in_Data = s, in_Mode = 384, in_Owner = (0, 0)\<rparr>"

definition host_one :: "engine host" where
  "host_one = \<lparr>ht_Nodes = [(''/d'', new_dir), (''/d/storage'', new_dir), (''/d/backups'', new_dir),
       (''/d/storage/miniform.production.db'', regular ''pages''), (''/d/storage/miniform.production.db-wal'', regular ''+log'')],
     ht_Engine = [(''app'', \<lparr>cn_ID = ''a'', cn_Running = True\<rparr>)], ht_Locked = False, ht_Output = []\<rparr>"

lemma listed_iff: "trim_space (listed al (name_filter n) e) \<noteq> [] \<longleftrightarrow> (case map_of e n of None \<Rightarrow> False | Some c \<Rightarrow> al \<or> cn_Running c)"
proof -
  have "trim_space ''4f66ad9a'' \<noteq> []" "trim_space [] = []" by code_simp+
  then have "trim_space (listed al (name_filter n) e) \<noteq> [] \<longleftrightarrow> (\<exists>c. (n, c) \<in> set (AList.clearjunk e) \<and> (al \<or> cn_Running c))"
    by (auto simp: listed_def list_ex_iff name_filter_def)
  also have "\<dots> \<longleftrightarrow> (\<exists>c. map_of e n = Some c \<and> (al \<or> cn_Running c))"
    by (metis distinct_clearjunk map_of_clearjunk map_of_eq_Some_iff)
  finally show ?thesis by (auto split: option.splits)
qed

lemma docker_ok_list: "docker_ok manager_one map_of"
proof -
  have "mc_Docker manager_one = list_docker" by (simp add: manager_one_def)
  then show ?thesis
    unfolding docker_ok_def listing_ok_def command_ok_def
    by (auto simp: list_docker_def listed_iff docker_done_def docker_failed_def turn_def rename_in_def set_running_def renamed_def runs_def
        update_conv' delete_conv' split: option.splits)
qed

lemma sqlite_ok_log: "sqlite_ok log_sqlite whole"
  by (auto simp: sqlite_ok_def log_sqlite_def whole_def split: prod.splits)

text \<open>Evaluation steps into a program once its world is a record.\<close>

abbreviation a_world where
  "a_world d fs c ts es ws ss dk dfs st \<equiv> \<lparr>db = d, faults = fs, clock = c, ticks = ts, entropy = es, waits = ws, slept = ss, disk = dk,
     disk_faults = dfs, staged = st\<rparr>"

lemma session_code [code]:
  "session p f (a_world d fs c ts es ws ss dk dfs st) =
     (case f (files_of p d) of (x, files) \<Rightarrow> (Inr x, a_world (put_files p files d) fs c ts es ws ss dk dfs st))"
  by (simp add: session_def)

lemma stmt_code [code]:
  "stmt f (a_world d fs c ts es ws ss dk dfs st) =
     (case fs of
        Some e # gs \<Rightarrow> (Inl e, a_world d gs c ts es ws ss dk dfs st)
      | gs \<Rightarrow> (case f d of
           Inl e \<Rightarrow> (Inl e, a_world d (tl gs) c ts es ws ss dk dfs st)
         | Inr (x, h) \<Rightarrow> (Inr x, a_world h (tl gs) c ts es ws ss dk dfs st)))"
  by (auto simp: stmt_def split: list.splits option.splits sum.splits)

lemma written_code [code]:
  "written destination r (a_world d fs c ts es ws ss dk dfs st) =
     (case fst r of None \<Rightarrow> Inr () | Some x \<Rightarrow> Inl x,
      a_world (case snd r of None \<Rightarrow> d | Some s \<Rightarrow> put_file destination s d) fs c ts es ws ss dk dfs st)"
  by (auto simp: written_def split: option.splits)

lemma run_manager_code [code]:
  "run_manager f (a_world d fs c ts es ws ss dk dfs st) =
     (case f d of (e, h) \<Rightarrow> (case e of None \<Rightarrow> Inr () | Some x \<Rightarrow> Inl x, a_world h fs c ts es ws ss dk dfs st))"
  by (auto simp: run_manager_def split: prod.splits)

lemma runDockerCommand_code [code]:
  "runDockerCommand M timeout arguments (a_world d fs c ts es ws ss dk dfs st) =
     (case mc_Docker M arguments (ht_Engine d) of (run, engine) \<Rightarrow>
       (Inr (case dr_Error run of
               None \<Rightarrow> None
             | Some e \<Rightarrow> (case dr_Timeout run of
                           Some x \<Rightarrow> Some (Wrap (''docker command timed out after '' @ timeout) x) | None \<Rightarrow> Some e),
             dr_Stdout run), a_world (d\<lparr>ht_Engine := engine\<rparr>) fs c ts es ws ss dk dfs st))"
  by (auto simp: runDockerCommand_def split: prod.splits option.splits)

lemma free_backup_code [code]:
  "free_backup dir now index (a_world d fs c ts es ws ss dk dfs st) =
     (let w = a_world d fs c ts es ws ss dk dfs st; p = path_join dir (backup_name now index) in
      if index \<ge> 1000000 then (Inl (Plain ''too many backups created in one second''), w)
      else (case os_Stat p w of
           (Inr _, w') \<Rightarrow> free_backup dir now (index + 1) w'
         | (Inl e, w') \<Rightarrow> if err_is ErrNotExist e then (Inr p, w') else (Inl (Wrap ''inspect backup path'' e), w')))"
  by (subst free_backup.simps) (auto simp: Let_def split: prod.splits sum.splits)

declare bnd_def [code del] catch_def [code del] wrap_err_def [code del] session_def [code del] ret_def [code del] fail_def [code del]
  of_result_def [code del] stmt_def [code del] written_def [code del] run_manager_def [code del] runDockerCommand_def [code del]
  free_backup.simps [code del]
declare bnd_apply [code] catch_apply [code] wrap_err_apply [code] ret_apply [code] fail_apply [code] of_result_apply [code]

lemma manager_path: "deployedDatabasePath plain_lib manager_one = Inr ''/d/storage/miniform.production.db''"
  by code_simp

lemma unstaged_named:
  assumes "list_all plain_element es" "plain_element e" "hd e \<noteq> CHR ''.''"
  shows "unstaged (abs_path (es @ [e]))"
  unfolding unstaged_def
proof (intro allI impI notI)
  fix t q assume t: "restore_name (path_dir (abs_path (es @ [e]))) t" "db_names t q" "db_names (abs_path (es @ [e])) q"
  have r: "abs_path (es @ [x]) = root_of es @ x" for x using abs_path_below [of "[x]" es] by simp
  obtain n where "t = root_of es @ ''.miniform-restore-'' @ dec_digits n @ ''.db''"
    using t(1) path_join_one [OF assms(1) temp_plain] unfolding restore_name_def path_dir_abs [OF assms(1,2)] by (auto simp: r)
  then have "prefix (root_of es @ ''.'') q" using db_names_prefix [OF t(2)] by (auto simp: prefix_def)
  moreover have "prefix (root_of es @ [hd e]) q"
    using db_names_prefix [OF t(3)] assms(2) by (cases e) (auto simp: r prefix_def plain_element_def)
  ultimately show False using starts_apart assms(3) by fastforce
qed

lemma unstaged_one: "unstaged ''/d/storage/miniform.production.db''"
  using unstaged_named [of "[''d'', ''storage'']" "''miniform.production.db''"] by (simp add: plain_element_def slash_def abs_path_def)

lemma dir_one: "mc_DataDir manager_one = abs_path [''d''] \<and> list_all plain_element [''d'']"
  by (simp add: manager_one_def abs_path_def plain_element_def slash_def)

abbreviation db_path :: string where
  "db_path \<equiv> ''/d/storage/miniform.production.db''"

lemma laid_out_one: "laid_out db_path ''/d/backups''"
proof -
  have "backups_dir manager_one = ''/d/backups''" by code_simp
  then show ?thesis using backups_dir_laid_out [OF manager_path _ _ unstaged_one] dir_one by metis
qed

lemma own_not_db:
  assumes "restore_name (path_dir db_path) t \<or> made_backup ''/d/backups'' t" shows "t \<noteq> db_path"
proof
  assume t: "t = db_path"
  from assms show False
  proof
    assume "restore_name (path_dir db_path) t"
    from laid_out_staged [OF laid_out_one this, of t] t show False by (simp add: db_names_def)
  next
    assume "made_backup ''/d/backups'' t"
    then have "prefix (''/d/backups'' @ [slash]) t" by (auto simp: made_backup_def backup_at_def)
    with laid_out_names [OF laid_out_one, of t] t show False by (simp add: db_names_def)
  qed
qed

lemma ends_with: "t @ e = s \<Longrightarrow> e = drop (length s - length e) s \<and> t = take (length s - length e) s"
  by auto

lemma host_one_lone:
  assumes "\<And>t. N t \<Longrightarrow> t \<noteq> db_path" and "ht_Nodes h = ht_Nodes host_one @ extra"
    and "\<forall>q \<in> fst ` set extra. drop (length q - 4) q \<noteq> ''-wal'' \<and> drop (length q - 4) q \<noteq> ''-shm''"
  shows "no_sidecars N h"
  unfolding no_sidecars_def
proof (intro allI impI conjI)
  fix t assume "N t"
  then have t: "t \<noteq> db_path" by (rule assms(1))
  have none: "node_at h (t @ e) = None" if e: "e = ''-wal'' \<or> e = ''-shm''" for e
  proof (rule ccontr)
    assume "node_at h (t @ e) \<noteq> None"
    then have "t @ e \<in> fst ` set (ht_Nodes host_one) \<or> t @ e \<in> fst ` set extra"
      unfolding node_at_def assms(2) by (metis Un_iff map_of_eq_None_iff set_append image_Un)
    moreover have "t @ e \<notin> fst ` set extra" using assms(3) e by fastforce
    ultimately have "t @ e = ''/d'' \<or> t @ e = ''/d/storage'' \<or> t @ e = ''/d/backups'' \<or> t @ e = db_path \<or> t @ e = ''/d/storage/miniform.production.db-wal''"
      by (simp add: host_one_def)
    with e t show False by (elim disjE) (drule ends_with, simp)+
  qed
  show "node_at h (t @ ''-wal'') = None" "node_at h (t @ ''-shm'') = None" by (rule none, simp)+
qed

lemma reload_ok_one: "reload_ok manager_one map_of (own_files db_path ''/d/backups'')"
proof -
  have "q \<noteq> db_path" if "own_files db_path ''/d/backups'' q" for q
    using that laid_out_names [OF laid_out_one, of q] laid_out_staged [OF laid_out_one, of _ q]
    unfolding own_files_def by (auto simp: db_names_def)
  then show ?thesis
    by (auto simp: reload_ok_def manager_one_def bad_reload_def update_conv' node_at_def put_file_def put_node_def split: option.splits)
qed

lemma ran: "fst r = Inr x \<Longrightarrow> r = (Inr x, snd r)" "fst r = Inl e \<Longrightarrow> r = (Inl e, snd r)"
  by (cases r, simp)+

lemma honest_start: "honest (world_of d)"
  by (simp add: honest_def world_of_def)

lemma db_world_of: "db (world_of d) = d"
  by (simp add: world_of_def)

section \<open>The path of the database\<close>

text \<open>C30: Whatever the environment of the application says, the database that the commands act on lies in the
  storage directory below the manager's data directory: its path has no dot-dot element.\<close>
theorem deployedDatabasePath_in_storage:
  assumes "deployedDatabasePath L M = Inr p" and "mc_DataDir M = abs_path ds" and "list_all plain_element ds"
  shows "\<exists>rest. p = abs_path (ds @ ''storage'' # rest) \<and> list_all plain_element rest"
  using assms by (rule deployedDatabasePath_result)

theorem deployedDatabasePath_in_storage_witness:
  "\<exists>rest. db_path = abs_path ([''d''] @ ''storage'' # rest) \<and> list_all plain_element rest"
  using deployedDatabasePath_in_storage [OF manager_path] dir_one by blast

section \<open>Backups\<close>



section \<open>Restoring\<close>

text \<open>C32: After a restore that reports no error, the database has the content of the chosen backup.\<close>
theorem restoreDatabase_content:
  assumes "sqlite_ok S C" and "restoreDatabase L S p b w = (Inr (), w')" and "laid_out p dir" and "b = dir @ [slash] @ name"
    and "plain_element name" and "honest w" and "no_sidecars (restore_name (path_dir p)) (db w)"
  shows "node_at (db w') p \<noteq> None \<and> C (files_of p (db w')) = C (files_of b (db w))"
  using restore_result [OF assms(1,2) _ assms(6,7)] laid_out_apart [OF assms(3,5)] assms(4) by simp

text \<open>The deployment with a backup.\<close>

definition host_saved :: "engine host" where
  "host_saved = host_one\<lparr>ht_Nodes := ht_Nodes host_one @ [(''/d/backups/backup_19700101_000000.db'', regular ''saved'')]\<rparr>"

theorem restoreDatabase_content_witness:
  "let r = restoreDatabase plain_lib log_sqlite db_path ''/d/backups/backup_19700101_000000.db'' (world_of host_saved)
   in fst r = Inr () \<and> whole (files_of db_path (db (snd r))) = ''saved''"
proof -
  let ?b = "''/d/backups/backup_19700101_000000.db''"
  let ?r = "restoreDatabase plain_lib log_sqlite db_path ?b (world_of host_saved)"
  have run: "fst ?r = Inr ()" by code_simp
  have b: "?b = ''/d/backups'' @ [slash] @ ''backup_19700101_000000.db''" "plain_element ''backup_19700101_000000.db''"
    by (simp_all add: slash_def plain_element_def)
  have lone: "no_sidecars (restore_name (path_dir db_path)) (db (world_of host_saved))"
    unfolding db_world_of by (rule host_one_lone [where extra = "[(?b, regular ''saved'')]"]) (use own_not_db in \<open>auto simp: host_saved_def\<close>)
  have start: "whole (files_of ?b (db (world_of host_saved))) = ''saved''" by code_simp
  from restoreDatabase_content [OF sqlite_ok_log ran(1) [OF run] laid_out_one b honest_start lone] run start
  show ?thesis unfolding Let_def by metis
qed

section \<open>Restarting\<close>

text \<open>C33: When the new version does not start and the rollback reports no error, the database has the content it
  had before the restart, and the container that ran, under either of its names, runs again.\<close>
theorem restartDeployment_rolls_back:
  assumes "docker_ok M view" and "sqlite_ok S C" and "reload_ok M view (own_files p (backups_dir M))"
    and "deployedDatabasePath L M = Inr p" and "mc_DataDir M = abs_path ds" and "list_all plain_element ds" and "unstaged p"
    and "mc_AppContainerName M \<noteq> []" and "honest w"
    and "no_sidecars (\<lambda>t. restore_name (path_dir p) t \<or> made_backup (backups_dir M) t) (db w)"
    and "restartDeployment L S M w = (Inl (Joined [Wrap ''start application'' e]), w')"
  shows "C (files_of p (db w')) = C (files_of p (db w))
    \<and> (\<forall>n \<in> {mc_AppContainerName M, next_name M}. \<forall>c. view_of view w n = Some c \<longrightarrow> cn_Running c \<longrightarrow> view_of view w' n = Some c)"
  using restart_rollback [OF assms(1,2,4,3) backups_dir_laid_out [OF assms(4-7)] assms(8-11)] by blast

theorem restartDeployment_rolls_back_witness:
  "let r = restartDeployment plain_lib log_sqlite manager_one (world_of host_one)
   in fst r = Inl (Joined [Wrap ''start application'' (Plain ''health check failed'')])
      \<and> whole (files_of db_path (db (snd r))) = ''pages+log''
      \<and> map_of (ht_Engine (db (snd r))) ''app'' = Some \<lparr>cn_ID = ''a'', cn_Running = True\<rparr>"
proof -
  let ?r = "restartDeployment plain_lib log_sqlite manager_one (world_of host_one)"
  have run: "fst ?r = Inl (Joined [Wrap ''start application'' (Plain ''health check failed'')])" by code_simp
  have dir: "backups_dir manager_one = ''/d/backups''" by code_simp
  have lone: "no_sidecars (\<lambda>t. restore_name (path_dir db_path) t \<or> made_backup (backups_dir manager_one) t) (db (world_of host_one))"
    unfolding db_world_of dir by (rule host_one_lone [where extra = "[]"]) (use own_not_db in auto)
  have named: "mc_AppContainerName manager_one = ''app''" by (simp add: manager_one_def)
  have start: "whole (files_of db_path (db (world_of host_one))) = ''pages+log''" by code_simp
  have engine: "map_of (ht_Engine (db (world_of host_one))) ''app'' = Some \<lparr>cn_ID = ''a'', cn_Running = True\<rparr>"
    by (simp add: world_of_def host_one_def)
  from restartDeployment_rolls_back [OF docker_ok_list sqlite_ok_log reload_ok_one [folded dir] manager_path _ _ unstaged_one _ honest_start lone
    ran(2) [OF run], of "[''d'']"] dir_one named start engine run
  show ?thesis unfolding Let_def by simp
qed

section \<open>A backup that removes itself\<close>

text \<open>The numbers of a second are given again once their files are gone, and the file without a number is the first by name.\<close>

definition host_full :: "engine host" where
  "host_full = host_one\<lparr>ht_Nodes := ht_Nodes host_one @
     map (\<lambda>i. (backup_at ''/d/backups'' 0 i, regular ''older'')) [1, 2, 3]\<rparr>"

text \<open>C34: A backup can be reported as made and not be there: the oldest by name are removed, and the new one
  may be the oldest, as for the fifth backup in one second or once the clock was set back.\<close>
theorem createDatabaseBackup_may_vanish:
  "\<exists>b w'. createDatabaseBackup plain_lib log_sqlite db_path ''/d/backups'' 0 (world_of host_full) = (Inr b, w')
     \<and> node_at (db w') b = None"
proof -
  let ?r = "createDatabaseBackup plain_lib log_sqlite db_path ''/d/backups'' 0 (world_of host_full)"
  have "(case ?r of (Inl _, w') \<Rightarrow> False | (Inr b, w') \<Rightarrow> node_at (db w') b = None)" by code_simp
  then show ?thesis by (auto split: prod.splits sum.splits)
qed

end
