(* ===== verification/Go_Flags.thy ===== *)
theory Go_Flags
  imports Go_Num
begin

text \<open>
  Go's command-line flags, package \<open>flag\<close> with \<open>ContinueOnError\<close>, and the number and boolean parsers of
  \<open>strconv\<close> behind them. A flag set is a list of names with their types and defaults; parsing gives
  the values, the flags that were set and what is left of the arguments.
\<close>

section \<open>Numbers in any base\<close>

datatype num_error = SyntaxError | RangeError

text \<open>\<open>strconv.ParseUint(s, 0, 64)\<close>: the base comes from the prefix, underscores separate digits.\<close>

definition letter_up_to :: "nat \<Rightarrow> char \<Rightarrow> bool" where
  "letter_up_to m c \<longleftrightarrow> 97 \<le> (of_char (ascii_lower c) :: nat) \<and> of_char (ascii_lower c) \<le> m"

definition base_digit :: "char \<Rightarrow> int option" where
  "base_digit c =
     (if ascii_digit c then Some (int (of_char c) - 48)
      else if letter_up_to 122 c then Some (int (of_char (ascii_lower c)) - 87) else None)"

fun base_digits :: "int \<Rightarrow> int \<Rightarrow> string \<Rightarrow> num_error + int" where
  "base_digits base n [] = Inr n"
| "base_digits base n (c # cs) =
     (if c = CHR ''_'' then base_digits base n cs
      else case base_digit c of
        None \<Rightarrow> Inl SyntaxError
      | Some d \<Rightarrow> if d \<ge> base then Inl SyntaxError
                  else if n * base + d > 18446744073709551615 then Inl RangeError
                  else base_digits base (n * base + d) cs)"

datatype seen = SeenStart | SeenDigit | SeenUnderscore | SeenOther

fun underscores_ok :: "bool \<Rightarrow> seen \<Rightarrow> string \<Rightarrow> bool" where
  "underscores_ok hex i [] \<longleftrightarrow> i \<noteq> SeenUnderscore"
| "underscores_ok hex i (c # cs) \<longleftrightarrow>
     (if ascii_digit c \<or> hex \<and> letter_up_to 102 c
      then underscores_ok hex SeenDigit cs
      else if c = CHR ''_'' then i = SeenDigit \<and> underscores_ok hex SeenUnderscore cs
      else i \<noteq> SeenUnderscore \<and> underscores_ok hex SeenOther cs)"

definition underscoreOK :: "string \<Rightarrow> bool" where
  "underscoreOK s0 =
     (let s = (case s0 of c # cs \<Rightarrow> if c = CHR ''-'' \<or> c = CHR ''+'' then cs else s0 | [] \<Rightarrow> s0) in
      case s of
        z # p # rest \<Rightarrow> if z = CHR ''0'' \<and> ascii_lower p \<in> {CHR ''b'', CHR ''o'', CHR ''x''}
                         then underscores_ok (ascii_lower p = CHR ''x'') SeenDigit rest else underscores_ok False SeenStart s
      | _ \<Rightarrow> underscores_ok False SeenStart s)"

definition number_base :: "string \<Rightarrow> int \<times> string" where
  "number_base s =
     (case s of
        z # rest \<Rightarrow>
          if z \<noteq> CHR ''0'' then (10, s)
          else (case rest of
                  p # q # ds \<Rightarrow> if ascii_lower p = CHR ''b'' then (2, q # ds)
                                else if ascii_lower p = CHR ''o'' then (8, q # ds)
                                else if ascii_lower p = CHR ''x'' then (16, q # ds) else (8, rest)
                | _ \<Rightarrow> (8, rest))
      | [] \<Rightarrow> (10, s))"

definition ParseUint :: "string \<Rightarrow> num_error + int" where
  "ParseUint s =
     (if s = [] then Inl SyntaxError
      else case number_base s of (base, digits) \<Rightarrow>
        (case base_digits base 0 digits of
           Inl e \<Rightarrow> Inl e
         | Inr n \<Rightarrow> if CHR ''_'' \<in> set digits \<and> \<not> underscoreOK s then Inl SyntaxError else Inr n))"

text \<open>\<open>strconv.ParseInt(s, 0, 64)\<close>\<close>

definition ParseInt :: "string \<Rightarrow> num_error + int" where
  "ParseInt s0 =
     (if s0 = [] then Inl SyntaxError
      else case (case s0 of c # cs \<Rightarrow> if c = CHR ''+'' then (False, cs) else if c = CHR ''-'' then (True, cs) else (False, s0)
                           | [] \<Rightarrow> (False, s0)) of (neg, s) \<Rightarrow>
        (case ParseUint s of
           Inl SyntaxError \<Rightarrow> Inl SyntaxError
         | Inl RangeError \<Rightarrow> Inl RangeError
         | Inr un \<Rightarrow> if \<not> neg \<and> un \<ge> 9223372036854775808 then Inl RangeError
                     else if neg \<and> un > 9223372036854775808 then Inl RangeError
                     else Inr (if neg then - un else un)))"

text \<open>\<open>strconv.ParseBool\<close>\<close>

definition ParseBool :: "string \<Rightarrow> bool option" where
  "ParseBool s =
     (if s \<in> {''1'', ''t'', ''T'', ''true'', ''TRUE'', ''True''} then Some True
      else if s \<in> {''0'', ''f'', ''F'', ''false'', ''FALSE'', ''False''} then Some False else None)"

section \<open>Flag sets\<close>

datatype flag_value = StringVal string | BoolVal bool | UintVal int | IntVal int | ListVal "string list"

type_synonym flag_defs = "(string \<times> flag_value) list"

record flags =
  fl_Values :: "(string \<times> flag_value) list"
  fl_Set :: "string list"
  fl_Args :: "string list"

definition num_error_text :: "num_error \<Rightarrow> string" where
  "num_error_text e = (case e of SyntaxError \<Rightarrow> ''parse error'' | RangeError \<Rightarrow> ''value out of range'')"

text \<open>\<open>Value.Set\<close>: the type of a flag is that of its current value; a repeated flag appends.\<close>

definition set_value :: "flag_value \<Rightarrow> string \<Rightarrow> string + flag_value" where
  "set_value current s =
     (case current of
        StringVal _ \<Rightarrow> Inr (StringVal s)
      | BoolVal _ \<Rightarrow> (case ParseBool s of None \<Rightarrow> Inl ''parse error'' | Some b \<Rightarrow> Inr (BoolVal b))
      | UintVal _ \<Rightarrow> (case ParseUint s of Inl e \<Rightarrow> Inl (num_error_text e) | Inr n \<Rightarrow> Inr (UintVal n))
      | IntVal _ \<Rightarrow> (case ParseInt s of Inl e \<Rightarrow> Inl (num_error_text e) | Inr n \<Rightarrow> Inr (IntVal n))
      | ListVal vs \<Rightarrow> Inr (ListVal (vs @ [s])))"

fun put_value :: "string \<Rightarrow> flag_value \<Rightarrow> (string \<times> flag_value) list \<Rightarrow> (string \<times> flag_value) list" where
  "put_value n v [] = []"
| "put_value n v ((m, x) # rest) = (if m = n then (m, v) # rest else (m, x) # put_value n v rest)"

definition record_flag :: "string \<Rightarrow> flag_value \<Rightarrow> flags \<Rightarrow> flags" where
  "record_flag n v st = st\<lparr>fl_Values := put_value n v (fl_Values st), fl_Set := n # fl_Set st\<rparr>"

text \<open>An argument is the end of the flags, malformed, or a name, perhaps with a value.\<close>

datatype token = NoFlag | Terminator | Malformed | Named string "string option"

definition split_equals :: "string \<Rightarrow> string \<times> string option" where
  "split_equals name =
     (let n = takeWhile (\<lambda>c. c \<noteq> CHR ''='') name; r = dropWhile (\<lambda>c. c \<noteq> CHR ''='') name
      in if r = [] then (name, None) else (n, Some (tl r)))"

definition flag_token :: "string \<Rightarrow> token" where
  "flag_token s =
     (case s of
        d # c # rest \<Rightarrow>
          if d \<noteq> CHR ''-'' then NoFlag
          else if c = CHR ''-'' \<and> rest = [] then Terminator
          else (let name = (if c = CHR ''-'' then rest else c # rest) in
                case name of [] \<Rightarrow> Malformed
                | h # _ \<Rightarrow> if h = CHR ''-'' \<or> h = CHR ''='' then Malformed
                           else (case split_equals name of (n, v) \<Rightarrow> Named n v))
      | _ \<Rightarrow> NoFlag)"

datatype flag_error = HelpRequested | FlagError string

definition invalid_value :: "golib \<Rightarrow> flag_value \<Rightarrow> string \<Rightarrow> string \<Rightarrow> string \<Rightarrow> flag_error" where
  "invalid_value L current v n e =
     (case current of
        BoolVal _ \<Rightarrow> FlagError (''invalid boolean value '' @ lib_quote L v @ '' for -'' @ n @ '': '' @ e)
      | _ \<Rightarrow> FlagError (''invalid value '' @ lib_quote L v @ '' for flag -'' @ n @ '': '' @ e))"

definition undefined_flag :: "string \<Rightarrow> flag_error" where
  "undefined_flag n =
     (if n = ''help'' \<or> n = ''h'' then HelpRequested else FlagError (''flag provided but not defined: -'' @ n))"

text \<open>\<open>FlagSet.Parse\<close>: a boolean flag never takes the next argument as its value.\<close>

fun parse_args :: "golib \<Rightarrow> string list \<Rightarrow> flags \<Rightarrow> flag_error + flags" where
  "parse_args L [] st = Inr (st\<lparr>fl_Args := []\<rparr>)"
| "parse_args L (s # args) st =
     (case flag_token s of
        NoFlag \<Rightarrow> Inr (st\<lparr>fl_Args := s # args\<rparr>)
      | Terminator \<Rightarrow> Inr (st\<lparr>fl_Args := args\<rparr>)
      | Malformed \<Rightarrow> Inl (FlagError (''bad flag syntax: '' @ s))
      | Named n v \<Rightarrow>
          (case map_of (fl_Values st) n of
             None \<Rightarrow> Inl (undefined_flag n)
           | Some current \<Rightarrow>
               (case (case current of BoolVal _ \<Rightarrow> Some (case v of None \<Rightarrow> ''true'' | Some x \<Rightarrow> x) | _ \<Rightarrow> v) of
                  Some x \<Rightarrow> (case set_value current x of
                               Inl e \<Rightarrow> Inl (invalid_value L current x n e)
                             | Inr y \<Rightarrow> parse_args L args (record_flag n y st))
                | None \<Rightarrow>
                    (case args of
                       [] \<Rightarrow> Inl (FlagError (''flag needs an argument: -'' @ n))
                     | x # args' \<Rightarrow> (case set_value current x of
                                       Inl e \<Rightarrow> Inl (invalid_value L current x n e)
                                     | Inr y \<Rightarrow> parse_args L args' (record_flag n y st))))))"

definition Parse :: "golib \<Rightarrow> flag_defs \<Rightarrow> string list \<Rightarrow> flag_error + flags" where
  "Parse L defs args = parse_args L args \<lparr>fl_Values = defs, fl_Set = [], fl_Args = []\<rparr>"

definition flagWasSet :: "flags \<Rightarrow> string \<Rightarrow> bool" where
  "flagWasSet st n \<longleftrightarrow> n \<in> set (fl_Set st)"

text \<open>The pointers that \<open>set.String\<close> and its like give, after parsing.\<close>

definition string_flag :: "flags \<Rightarrow> string \<Rightarrow> string" where
  "string_flag st n = (case map_of (fl_Values st) n of Some (StringVal s) \<Rightarrow> s | _ \<Rightarrow> [])"

definition bool_flag :: "flags \<Rightarrow> string \<Rightarrow> bool" where
  "bool_flag st n = (case map_of (fl_Values st) n of Some (BoolVal b) \<Rightarrow> b | _ \<Rightarrow> False)"

definition uint_flag :: "flags \<Rightarrow> string \<Rightarrow> nat" where
  "uint_flag st n = (case map_of (fl_Values st) n of Some (UintVal i) \<Rightarrow> nat i | _ \<Rightarrow> 0)"

definition int_flag :: "flags \<Rightarrow> string \<Rightarrow> int" where
  "int_flag st n = (case map_of (fl_Values st) n of Some (IntVal i) \<Rightarrow> i | _ \<Rightarrow> 0)"

definition list_flag :: "flags \<Rightarrow> string \<Rightarrow> string list" where
  "list_flag st n = (case map_of (fl_Values st) n of Some (ListVal vs) \<Rightarrow> vs | _ \<Rightarrow> [])"

end
