(* ===== verification/Cli_Core.thy ===== *)
theory Cli_Core
  imports Go_Flags Config Uploads Host
begin

text \<open>
  What the commands of the data CLI share (\<open>internal/cli\<close>): its errors and their exit codes, the runner
  with its dependencies, flags and files, redaction, and the catalogue of commands with its help.
  A command is a program over the tables and the machine it runs on, the \<open>host\<close> that theory \<open>Host\<close> has for
  deployments: its output takes the help a command shows, and its files take what a command writes. What a
  command reads, files and standard input, are functions of the runner; no command reads standard input twice.
  The JSON encoder that prints a value is not modelled: the value is.
\<close>

section \<open>Errors\<close>

definition ExitSuccess :: int where "ExitSuccess = 0"
definition ExitUsage :: int where "ExitUsage = 2"
definition ExitValidation :: int where "ExitValidation = 3"
definition ExitNotFound :: int where "ExitNotFound = 4"
definition ExitConflict :: int where "ExitConflict = 5"
definition ExitInternal :: int where "ExitInternal = 10"

record command_error =
  ce_Code :: string
  ce_Message :: string
  ce_ExitCode :: int
  ce_Cause :: "err option"

text \<open>An error of a command, one of the packages below it, or \<open>errHelpShown\<close>.\<close>

datatype cli_failure = CommandError command_error | Domain err | HelpShown

definition command_failure :: "string \<Rightarrow> string \<Rightarrow> int \<Rightarrow> err option \<Rightarrow> cli_failure" where
  "command_failure code message exit cause =
     CommandError \<lparr>ce_Code = code, ce_Message = message, ce_ExitCode = exit, ce_Cause = cause\<rparr>"

definition usageError :: "string \<Rightarrow> cli_failure" where
  "usageError message = command_failure ''usage_error'' message ExitUsage None"

definition validationError :: "string \<Rightarrow> cli_failure" where
  "validationError message = command_failure ''validation_error'' message ExitValidation None"

definition conflictError :: "string \<Rightarrow> cli_failure" where
  "conflictError message = command_failure ''conflict'' message ExitConflict None"

definition internalError :: "string \<Rightarrow> err \<Rightarrow> cli_failure" where
  "internalError operation cause = command_failure ''internal_error'' (operation @ '' failed'') ExitInternal (Some cause)"

definition classified :: "string \<Rightarrow> string \<Rightarrow> int \<Rightarrow> err \<Rightarrow> command_error" where
  "classified code message exit e = \<lparr>ce_Code = code, ce_Message = message, ce_ExitCode = exit, ce_Cause = Some e\<rparr>"

text \<open>An error of the domain; both packages with a \<open>ValidationError\<close> have the same form of it.\<close>

definition classify_domain :: "golib \<Rightarrow> err \<Rightarrow> command_error" where
  "classify_domain L e =
     (if err_is ErrRecordNotFound e \<or> err_is ErrUserNotFound e then classified ''not_found'' ''resource not found'' ExitNotFound e
      else case err_validation e of
        Some (field_name, message) \<Rightarrow> classified ''validation_error'' (field_name @ '': '' @ message) ExitValidation e
      | None \<Rightarrow>
          if err_is ErrWeakPassword e \<or> err_is ErrInvalidEmail e \<or> err_is ErrMissingFields e \<or> err_is ErrPasswordUnchanged e
          then classified ''validation_error'' (err_text e) ExitValidation e
          else if err_is ErrPasswordMismatch e \<or> err_is ErrInvalidCredentials e
          then classified ''authentication_failed'' (err_text e) ExitValidation e
          else if err_is ErrDuplicateEmail e \<or> err_is ErrProfileInUse e then classified ''conflict'' (err_text e) ExitConflict e
          else (let text_of = to_lower L (err_text e) in
                if str_contains ''unique constraint'' text_of \<or> str_contains ''already exists'' text_of
                then classified ''conflict'' ''resource already exists'' ExitConflict e
                else classified ''internal_error'' ''operation failed'' ExitInternal e))"

definition errHelpShown :: err where
  "errHelpShown = Plain ''help shown''"

definition classifyError :: "golib \<Rightarrow> cli_failure \<Rightarrow> command_error" where
  "classifyError L f = (case f of CommandError c \<Rightarrow> c | Domain e \<Rightarrow> classify_domain L e | HelpShown \<Rightarrow> classify_domain L errHelpShown)"

section \<open>Commands as programs\<close>

type_synonym cli_state = "database world \<times> unit host world"

type_synonym 'a cmd = "cli_state \<Rightarrow> (cli_failure + 'a) \<times> cli_state"

definition c_ret :: "'a \<Rightarrow> 'a cmd" where
  "c_ret x = (\<lambda>s. (Inr x, s))"

definition c_fail :: "cli_failure \<Rightarrow> 'a cmd" where
  "c_fail f = (\<lambda>s. (Inl f, s))"

definition c_bind :: "'a cmd \<Rightarrow> ('a \<Rightarrow> 'b cmd) \<Rightarrow> 'b cmd" where
  "c_bind m f = (\<lambda>s. case m s of (Inl e, s') \<Rightarrow> (Inl e, s') | (Inr x, s') \<Rightarrow> f x s')"

definition c_of :: "cli_failure + 'a \<Rightarrow> 'a cmd" where
  "c_of r = (\<lambda>s. (r, s))"

definition c_check :: "bool \<Rightarrow> cli_failure \<Rightarrow> unit cmd" where
  "c_check ok f = (\<lambda>s. (if ok then Inr () else Inl f, s))"

definition failed_as :: "(err \<Rightarrow> cli_failure) \<Rightarrow> err + 'a \<Rightarrow> cli_failure + 'a" where
  "failed_as g r = (case r of Inl e \<Rightarrow> Inl (g e) | Inr x \<Rightarrow> Inr x)"

text \<open>
  A call of the packages below, whose error becomes one of the CLI's by a constructor of those; \<open>c_db\<close> passes
  the error on as it is, and \<open>c_host\<close> does to the machine what \<open>c_with\<close> does to the tables.
\<close>

definition c_with :: "(err \<Rightarrow> cli_failure) \<Rightarrow> 'a db_prog \<Rightarrow> 'a cmd" where
  "c_with g m = (\<lambda>(w, h). case m w of (r, w') \<Rightarrow> (failed_as g r, (w', h)))"

definition c_db :: "'a db_prog \<Rightarrow> 'a cmd" where
  "c_db m = c_with Domain m"

definition c_host :: "(err \<Rightarrow> cli_failure) \<Rightarrow> (unit, 'a) host_prog \<Rightarrow> 'a cmd" where
  "c_host g m = (\<lambda>(w, h). case m h of (r, h') \<Rightarrow> (failed_as g r, (w, h')))"

text \<open>Lines of help: a failure to write them is ignored.\<close>

definition c_print :: "string list \<Rightarrow> unit cmd" where
  "c_print ls = (\<lambda>(w, h). (Inr (), (w, h\<lparr>db := (db h)\<lparr>ht_Output := ht_Output (db h) @ ls\<rparr>\<rparr>)))"

fun c_map :: "('a \<Rightarrow> 'b cmd) \<Rightarrow> 'a list \<Rightarrow> 'b list cmd" where
  "c_map f [] = c_ret []"
| "c_map f (x # xs) = c_bind (f x) (\<lambda>y. c_bind (c_map f xs) (\<lambda>ys. c_ret (y # ys)))"

section \<open>The runner\<close>

text \<open>
  The database is open, or there is a connector, which opens and migrates it, gives the
  configuration that holds from then on, and may give no connection; or there is neither.
\<close>

datatype database_source = Opened | Unavailable | Connector "(bool \<times> Config option) db_prog"

text \<open>
  What opening a file gives, for \<open>os.Open\<close>: the size that \<open>Stat\<close> reports, the content, and whether reading
  the head or seeking back fails. \<open>rn_Write\<close> is the error of writing a command's result, \<open>rn_Directory\<close> the working directory.
\<close>

record opened_file =
  of_Size :: "err + int"
  of_Content :: string
  of_ReadError :: "err option"
  of_SeekError :: "err option"

record runner =
  rn_Database :: database_source
  rn_Config :: "Config option"
  rn_JSON :: bool
  rn_ShowSecrets :: bool
  rn_Stdin :: "err + string"
  rn_ReadFile :: "string \<Rightarrow> err + string"
  rn_Open :: "string \<Rightarrow> err + opened_file"
  rn_Write :: "err option"
  rn_Directory :: string

definition requireDatabase :: "runner \<Rightarrow> runner cmd" where
  "requireDatabase R =
     (case rn_Database R of
        Opened \<Rightarrow> c_ret R
      | Unavailable \<Rightarrow> c_fail (internalError ''connect database'' (Plain ''database dependency is unavailable''))
      | Connector connect \<Rightarrow>
          c_bind (c_with (\<lambda>e. command_failure ''internal_error'' (''connect database: '' @ err_text e) ExitInternal (Some e)) connect)
            (\<lambda>(given, cfg).
             if \<not> given then c_fail (internalError ''connect database'' (Plain ''database connector returned no connection''))
             else c_ret (R\<lparr>rn_Database := Opened, rn_Config := cfg\<rparr>)))"

definition requireUint :: "nat \<Rightarrow> string \<Rightarrow> unit cmd" where
  "requireUint v name = c_check (v \<noteq> 0) (usageError (''--'' @ name @ '' is required and must be greater than zero''))"

definition requireString :: "string \<Rightarrow> string \<Rightarrow> unit cmd" where
  "requireString v name = c_check (trim_space v \<noteq> []) (usageError (''--'' @ name @ '' is required''))"

definition optionalUint :: "nat \<Rightarrow> nat option" where
  "optionalUint v = (if v = 0 then None else Some v)"

definition carriage_return :: string where
  "carriage_return = [char_of (13 :: nat)]"

definition readFileValue :: "runner \<Rightarrow> string \<Rightarrow> err + string" where
  "readFileValue R path =
     (if trim_space path = [] then Inr []
      else case (if path = ''-'' then rn_Stdin R else rn_ReadFile R path) of
        Inl e \<Rightarrow> Inl (Wrap ''read value file'' e)
      | Inr content \<Rightarrow> Inr (trim_suffix carriage_return (trim_suffix newline content)))"

definition readContentFile :: "runner \<Rightarrow> string \<Rightarrow> err + string" where
  "readContentFile R path =
     (if trim_space path = [] then Inr []
      else case rn_ReadFile R path of Inl e \<Rightarrow> Inl (Wrap ''read content file'' e) | Inr content \<Rightarrow> Inr content)"

text \<open>\<open>validationError(err.Error())\<close>\<close>

definition c_valid :: "err + 'a \<Rightarrow> 'a cmd" where
  "c_valid r = c_of (case r of Inl e \<Rightarrow> Inl (validationError (err_text e)) | Inr x \<Rightarrow> Inr x)"

definition parseOptionalBool :: "string \<Rightarrow> cli_failure + bool option" where
  "parseOptionalBool v =
     (if trim_space v = [] then Inr None
      else case ParseBool v of None \<Rightarrow> Inl (validationError ''boolean value must be true or false'') | Some b \<Rightarrow> Inr (Some b))"

definition redact :: "string \<Rightarrow> bool \<Rightarrow> string" where
  "redact v reveal = (if v = [] then [] else if reveal then v else ''[REDACTED]'')"

section \<open>The catalogue\<close>

record CommandSpec =
  cs_Name :: string
  cs_Summary :: string
  cs_Mutates :: bool
  cs_RequiresDatabase :: bool
  cs_SupportsJSON :: bool
  cs_Flags :: "string list"
  cs_Examples :: "string list"
  cs_Notes :: "string list"

definition spec :: "string \<Rightarrow> string \<Rightarrow> bool \<Rightarrow> bool \<Rightarrow> string list \<Rightarrow> string list \<Rightarrow> string list \<Rightarrow> CommandSpec" where
  "spec name summary mutates database flags examples notes =
     \<lparr>cs_Name = name, cs_Summary = summary, cs_Mutates = mutates, cs_RequiresDatabase = database, cs_SupportsJSON = False,
      cs_Flags = flags, cs_Examples = examples, cs_Notes = notes\<rparr>"

definition command_catalogue :: "CommandSpec list" where
  "command_catalogue =
    [spec ''commands'' ''Print the complete machine-readable command catalog.'' False False
       [] [] [],
     spec ''help'' ''Show help for all commands or one command family.'' False False
       [''RESOURCE'', ''ACTION''] [] [],
     spec ''serve'' ''Start the Miniform HTTP server.'' False False
       [''--seed'', ''--version''] [] [],
     spec ''install'' ''Install the self-hosted container deployment.'' True False
       [] [] [],
     spec ''update'' ''Update the installed container deployment.'' True False
       [] [] [],
     spec ''reload'' ''Reload the installed container deployment.'' True False
       [] [] [],
     spec ''backup'' ''Create a verified deployment database backup.'' True False
       [] [] [],
     spec ''restore-db'' ''Restore the installed deployment database from backup.'' True False
       [] [] [],
     spec ''check'' ''Run deployment security checks.'' False False
       [] [] [],
     spec ''version'' ''Print build version and commit.'' False False
       [] [] [],
     spec ''account show'' ''Show the operator account without its password hash.'' False True
       [] [] [],
     spec ''account set-email'' ''Change the operator email after password verification.'' True True
       [''--email STRING'', ''--current-password-file PATH|-''] [''miniform account set-email --email admin@example.com --current-password-file -''] [],
     spec ''account change-password'' ''Change the operator password after verifying the current password.'' True True
       [''--current-password-file PATH|-'', ''--new-password-file PATH|-''] [] [],
     spec ''account reset-password'' ''Administratively replace the password without the old password.'' True True
       [''--email STRING'', ''--new-password-file PATH|-''] [] [''Use only from a trusted local administrative shell.''],
     spec ''config show'' ''Show effective runtime configuration with secrets redacted.'' False False
       [''--show-secrets''] [] [],
     spec ''form list'' ''List configured form endpoints.'' False True
       [] [] [],
     spec ''form get'' ''Get one form by id or slug.'' False True
       [''--id UINT'', ''--slug STRING'', ''--show-secrets''] [] [],
     spec ''form code'' ''Build copyable native form HTML with optional captcha.'' False True
       [''--id UINT'', ''--slug STRING'', ''--base-url URL'', ''--show-secrets''] [] [''Set --base-url to emit a deployable absolute action URL.'', ''The token is replaced with YOUR_FORM_TOKEN unless --show-secrets is set.''],
     spec ''form create'' ''Create a form endpoint and its delivery policies.'' True True
       [''--template STRING'', ''--name STRING'', ''--slug STRING'', ''--allowed-origins STRING'', ''--uploads-enabled'', ''--generated-html-file PATH'', ''--mailer-profile-id UINT'', ''--captcha-profile-id UINT'', ''--email-enabled'', ''--email-recipient STRING'', ''--email-format text|html'', ''--webhook-enabled'', ''--webhook-url URL'', ''--webhook-secret-file PATH|-'', ''--webhook-headers-file PATH''] [] [],
     spec ''form update'' ''Update form and delivery settings; omitted flags preserve current values.'' True True
       [''--id UINT'', ''--name STRING'', ''--slug STRING'', ''--allowed-origins STRING'', ''--uploads-enabled=BOOL'', ''--generated-html-file PATH'', ''--clear-generated-html'', ''--mailer-profile-id UINT'', ''--clear-mailer-profile'', ''--captcha-profile-id UINT'', ''--clear-captcha-profile'', ''--email-enabled=BOOL'', ''--email-recipient STRING'', ''--email-format text|html'', ''--webhook-enabled=BOOL'', ''--webhook-url URL'', ''--webhook-secret-file PATH|-'', ''--clear-webhook-secret'', ''--webhook-headers-file PATH'', ''--clear-webhook-headers''] [] [],
     spec ''form rotate-token'' ''Replace a form submission token and invalidate the old token.'' True True
       [''--id UINT'', ''--yes'', ''--show-secrets''] [] [],
     spec ''form template-list'' ''List built-in form templates.'' False False
       [] [] [],
     spec ''form template-get'' ''Get or render one built-in form template.'' False False
       [''--template STRING'', ''--action URL''] [] [],
     spec ''form delete'' ''Delete a form and related deliveries/submissions.'' True True
       [''--id UINT'', ''--yes''] [] [],
     spec ''email list'' ''List email notifications for one form.'' False True
       [''--form-id UINT''] [] [],
     spec ''email get'' ''Get one email notification including its templates.'' False True
       [''--id UINT''] [] [],
     spec ''email create'' ''Add an independent email notification to a form.'' True True
       [''--form-id UINT'', ''--name STRING'', ''--enabled'', ''--mailer-profile-id UINT'', ''--recipient-source static|field'', ''--recipient STRING'', ''--reply-to-source none|static|field'', ''--reply-to STRING'', ''--subject-template STRING'', ''--format text|html'', ''--text-template-file PATH'', ''--html-template-file PATH''] [] [],
     spec ''email update'' ''Update an email notification; omitted flags preserve current values.'' True True
       [''--id UINT'', ''--name STRING'', ''--enabled=BOOL'', ''--mailer-profile-id UINT'', ''--clear-mailer-profile'', ''--recipient-source static|field'', ''--recipient STRING'', ''--reply-to-source none|static|field'', ''--reply-to STRING'', ''--subject-template STRING'', ''--format text|html'', ''--text-template-file PATH'', ''--html-template-file PATH''] [] [],
     spec ''email delete'' ''Delete an email notification while preserving delivery history.'' True True
       [''--id UINT'', ''--yes''] [] [],
     spec ''mailer list'' ''List reusable mailer profiles with secrets redacted.'' False True
       [''--show-secrets''] [] [],
     spec ''mailer get'' ''Get a mailer profile and usage count.'' False True
       [''--id UINT'', ''--show-secrets''] [] [],
     spec ''mailer create'' ''Create an SMTP profile.'' True True
       [''--name STRING'', ''--default-from-name STRING'', ''--default-from-email STRING'', ''--smtp-host STRING'', ''--smtp-port INT'', ''--smtp-username STRING'', ''--smtp-password-file PATH|-'', ''--smtp-encryption starttls|tls|none''] [] [],
     spec ''mailer update'' ''Update a mailer; omitted flags preserve current values.'' True True
       [''--id UINT'', ''--name STRING'', ''--default-from-name STRING'', ''--default-from-email STRING'', ''--smtp-host STRING'', ''--smtp-port INT'', ''--smtp-username STRING'', ''--smtp-password-file PATH|-'', ''--smtp-encryption starttls|tls|none'', ''--clear-smtp-password''] [] [],
     spec ''mailer delete'' ''Delete an unused mailer profile.'' True True
       [''--id UINT'', ''--yes''] [] [],
     spec ''captcha list'' ''List captcha profiles with secrets redacted.'' False True
       [''--show-secrets''] [] [],
     spec ''captcha get'' ''Get a captcha profile and usage count.'' False True
       [''--id UINT'', ''--show-secrets''] [] [],
     spec ''captcha create'' ''Create a Turnstile profile.'' True True
       [''--name STRING'', ''--site-key STRING'', ''--secret-key-file PATH|-''] [] [],
     spec ''captcha update'' ''Update a Turnstile profile; omitted flags preserve current values.'' True True
       [''--id UINT'', ''--name STRING'', ''--site-key STRING'', ''--secret-key-file PATH|-''] [] [],
     spec ''captcha delete'' ''Delete an unused captcha profile.'' True True
       [''--id UINT'', ''--yes''] [] [],
     spec ''submission list'' ''List and filter inbox submissions.'' False True
       [''--form-id UINT'', ''--range all|7d|30d|90d'', ''--query STRING'', ''--spam true|false'', ''--page INT'', ''--per-page INT''] [] [],
     spec ''submission get'' ''Get a submission with payload, events, and files.'' False True
       [''--id UINT''] [] [],
     spec ''submission delete'' ''Delete a submission and its uploaded files.'' True True
       [''--id UINT'', ''--yes''] [] [],
     spec ''submission create'' ''Create a submission from a JSON payload with optional files.'' True True
       [''--form-id UINT'', ''--slug STRING'', ''--data-file PATH|-'', ''--file FIELD=PATH (repeatable)'', ''--user-agent STRING''] [] [],
     spec ''submission file-list'' ''List uploaded files for one submission.'' False True
       [''--id UINT''] [] [],
     spec ''submission file-copy'' ''Copy one uploaded file to a local path or stdout.'' False True
       [''--id UINT'', ''--file-id UINT'', ''--output PATH|-'', ''--force''] [] [],
     spec ''event list'' ''List webhook or email delivery events.'' False True
       [''--type webhook|email'', ''--form-id UINT'', ''--status STRING'', ''--limit INT''] [] [],
     spec ''event retry'' ''Schedule one failed webhook or email event for immediate retry.'' True True
       [''--type webhook|email'', ''--id UINT'', ''--yes''] [] []]"

definition IsCommand :: "string \<Rightarrow> bool" where
  "IsCommand name \<longleftrightarrow> name \<in> {''account'', ''captcha'', ''commands'', ''config'', ''email'', ''event'', ''form'', ''help'', ''mailer'', ''submission''}"

definition supportsJSON :: "string \<Rightarrow> bool" where
  "supportsJSON command \<longleftrightarrow> takeWhile (\<lambda>c. c \<noteq> CHR '' '') command
     \<in> {''account'', ''captcha'', ''commands'', ''config'', ''email'', ''event'', ''form'', ''help'', ''mailer'', ''submission''}"

definition commandManifest :: "CommandSpec list" where
  "commandManifest = sort_key cs_Name (map (\<lambda>c. c\<lparr>cs_SupportsJSON := supportsJSON (cs_Name c)\<rparr>) command_catalogue)"

definition matchingCommands :: "string \<Rightarrow> CommandSpec list" where
  "matchingCommands q0 =
     (let q = trim_space (replace_all ''.'' '' '' q0)
      in filter (\<lambda>c. cs_Name c = q \<or> prefix (q @ '' '') (cs_Name c)) commandManifest)"

definition section_lines :: "string \<Rightarrow> string list \<Rightarrow> string list" where
  "section_lines title items = (if items = [] then [] else title # map (\<lambda>i. ''  '' @ i) items)"

definition writeSpec :: "CommandSpec \<Rightarrow> string list" where
  "writeSpec c =
     [''Usage: miniform '' @ cs_Name c @ '' [flags]'', ''  '' @ cs_Summary c]
     @ section_lines ''Flags:'' (cs_Flags c) @ section_lines ''Notes:'' (cs_Notes c) @ section_lines ''Examples:'' (cs_Examples c)"

fun write_specs :: "CommandSpec list \<Rightarrow> string list" where
  "write_specs [] = []"
| "write_specs [c] = writeSpec c"
| "write_specs (c # cs) = writeSpec c @ [[]] @ write_specs cs"

definition em_dash :: string where
  "em_dash = [CHR 0xE2, CHR 0x80, CHR 0x94]"

definition writeRootHelp :: "string list" where
  "writeRootHelp =
     [''Miniform CLI '' @ em_dash @ '' local administration and automation'', [], ''Usage:'',
      ''  miniform [--json] [--show-secrets] <resource> <action> [flags]'', [], ''Resources:'',
      ''  account     Operator email and password'',
      ''  config      Effective runtime configuration'',
      ''  form        Form endpoints and delivery policies'',
      ''  mailer      SMTP profiles'',
      ''  captcha     Captcha profiles'',
      ''  submission  Inbox entries and uploaded files'',
      ''  event       Webhook and email delivery events'', [], ''Discovery:'',
      ''  miniform commands --json'', ''  miniform help <resource> [action]'', [],
      ''Existing process/deployment commands remain available: serve, install, update, reload, backup, restore-db, check, version.'']"

definition writeCommandHelp :: "string \<Rightarrow> string list" where
  "writeCommandHelp command =
     (case matchingCommands (replace_all ''.'' '' '' command) of [] \<Rightarrow> writeRootHelp | cs \<Rightarrow> write_specs cs)"

section \<open>Flags of a command\<close>

definition parseFlags :: "golib \<Rightarrow> flag_defs \<Rightarrow> string \<Rightarrow> string list \<Rightarrow> flags cmd" where
  "parseFlags L defs command args =
     (case Parse L defs args of
        Inl HelpRequested \<Rightarrow> c_bind (c_print (writeCommandHelp command)) (\<lambda>_. c_fail HelpShown)
      | Inl (FlagError message) \<Rightarrow> c_fail (usageError message)
      | Inr st \<Rightarrow> if fl_Args st \<noteq> [] then c_fail (usageError (''unexpected positional arguments: '' @ join '' '' (fl_Args st)))
                   else c_ret st)"

definition requireAction :: "string \<Rightarrow> string list \<Rightarrow> (string \<times> string list) cmd" where
  "requireAction resource args =
     (case args of
        [] \<Rightarrow> c_fail (usageError (''missing action; run `miniform help '' @ resource @ ''`''))
      | action # args' \<Rightarrow> c_ret (action, args'))"

definition stringF :: "string \<Rightarrow> string \<times> flag_value" where "stringF n = (n, StringVal [])"
definition boolF :: "string \<Rightarrow> string \<times> flag_value" where "boolF n = (n, BoolVal False)"
definition uintF :: "string \<Rightarrow> string \<times> flag_value" where "uintF n = (n, UintVal 0)"

text \<open>The value of a flag that was set, or another.\<close>

definition if_set :: "flags \<Rightarrow> string \<Rightarrow> 'a \<Rightarrow> 'a \<Rightarrow> 'a" where
  "if_set st n given current = (if flagWasSet st n then given else current)"

end
