(* ===== verification/Cli_Forms.thy ===== *)
theory Cli_Forms
  imports Cli_Core Admin_Forms
begin

text \<open>
  The commands on forms and their e-mail notifications: \<open>internal/cli/form.go\<close> and \<open>email.go\<close>. A view is
  the record that is printed, without its \<open>updated_at\<close>. A field that the code leaves out when it is empty is
  empty. The decoder of e-mail headers is an argument, as in theory \<open>Admin_Forms\<close>.
\<close>

section \<open>Views\<close>

record emailDeliveryView =
  ev_id :: nat
  ev_form_id :: nat
  ev_name :: string
  ev_enabled :: bool
  ev_mailer_profile_id :: "nat option"
  ev_recipient_source :: string
  ev_recipient :: string
  ev_reply_to_source :: string
  ev_reply_to :: string
  ev_subject_template :: string
  ev_format :: string
  ev_text_template :: string
  ev_html_template :: string

record webhookDeliveryView =
  wv_enabled :: bool
  wv_url :: string
  wv_secret :: string
  wv_headers_json :: string

record formView =
  vw_id :: nat
  vw_public_id :: string
  vw_name :: string
  vw_slug :: string
  vw_token :: string
  vw_endpoint :: string
  vw_allowed_origins :: string
  vw_uploads_enabled :: bool
  vw_has_generated_html :: bool
  vw_generated_html :: string
  vw_captcha_profile_id :: "nat option"
  vw_email_delivery :: "emailDeliveryView option"
  vw_email_deliveries :: "emailDeliveryView list"
  vw_webhook_delivery :: "webhookDeliveryView option"
  vw_created_at :: gotime

record formTemplateView =
  tv_id :: string
  tv_name :: string
  tv_description :: string
  tv_slug :: string
  tv_icon :: string
  tv_color :: string
  tv_html :: string

record formCodeView =
  cv_form_id :: nat
  cv_action :: string
  cv_html :: string
  cv_redacted :: bool
  cv_warning :: string

datatype form_result =
    FormItems "formView list" | FormItem formView | FormCode formCodeView
  | TemplateItems "formTemplateView list" | TemplateItem formTemplateView | FormDeleted nat

definition normalizedEmailFormat :: "golib \<Rightarrow> string \<Rightarrow> string" where
  "normalizedEmailFormat L v = (case NormalizeEmailFormat L v of Inl _ \<Rightarrow> ''text'' | Inr format \<Rightarrow> format)"

definition newEmailDeliveryView :: "golib \<Rightarrow> (string \<Rightarrow> string option) \<Rightarrow> email_delivery \<Rightarrow> bool \<Rightarrow> emailDeliveryView" where
  "newEmailDeliveryView L decode d includeTemplates =
     \<lparr>ev_id = ed_ID d, ev_form_id = ed_FormID d, ev_name = ed_Name d, ev_enabled = ed_Enabled d,
      ev_mailer_profile_id = ed_MailerProfileID d, ev_recipient_source = ed_RecipientSource d,
      ev_recipient = DisplayEmailAddresses decode (ed_Recipient d), ev_reply_to_source = ed_ReplyToSource d,
      ev_reply_to = DisplayEmailAddresses decode (ed_ReplyTo d), ev_subject_template = EffectiveEmailSubject d,
      ev_format = normalizedEmailFormat L (ed_Format d),
      ev_text_template = (if includeTemplates then EffectiveEmailText d else []),
      ev_html_template = (if includeTemplates then EffectiveEmailHTML d else [])\<rparr>"

definition hook_view :: "bool \<Rightarrow> webhook_delivery \<Rightarrow> webhookDeliveryView" where
  "hook_view showSecrets h =
     \<lparr>wv_enabled = wd_Enabled h, wv_url = wd_URL h, wv_secret = redact (wd_Secret h) showSecrets,
      wv_headers_json = redact (wd_HeadersJSON h) showSecrets\<rparr>"

definition newFormView ::
  "golib \<Rightarrow> (string \<Rightarrow> string option) \<Rightarrow> bool \<Rightarrow> form \<Rightarrow> email_delivery list \<Rightarrow> webhook_delivery option \<Rightarrow> formView" where
  "newFormView L decode showSecrets f emails hook =
     (let views = map (\<lambda>d. newEmailDeliveryView L decode d False) emails in
      \<lparr>vw_id = fm_ID f, vw_public_id = fm_PublicID f, vw_name = fm_Name f, vw_slug = fm_Slug f,
       vw_token = redact (fm_Token f) showSecrets, vw_endpoint = ''/forms/'' @ fm_Slug f @ ''/submit'',
       vw_allowed_origins = fm_AllowedOrigins f, vw_uploads_enabled = fm_UploadsEnabled f,
       vw_has_generated_html = (trim_space (fm_GeneratedHTML f) \<noteq> []),
       vw_generated_html = (if showSecrets then fm_GeneratedHTML f else []),
       vw_captcha_profile_id = fm_CaptchaProfileID f,
       vw_email_delivery = (case views of [] \<Rightarrow> None | v # _ \<Rightarrow> Some v), vw_email_deliveries = views,
       vw_webhook_delivery = map_option (hook_view showSecrets) hook, vw_created_at = fm_CreatedAt f\<rparr>)"

definition loaded_view :: "golib \<Rightarrow> (string \<Rightarrow> string option) \<Rightarrow> runner \<Rightarrow> loaded_form \<Rightarrow> formView" where
  "loaded_view L decode R lf =
     newFormView L decode (rn_ShowSecrets R) (lf_Form lf) (lf_EmailDeliveries lf) (lf_WebhookDelivery lf)"

definition newFormTemplateView :: "FormTemplate \<Rightarrow> string \<Rightarrow> bool \<Rightarrow> formTemplateView" where
  "newFormTemplateView t action includeHTML =
     \<lparr>tv_id = ft_ID t, tv_name = ft_Name t, tv_description = ft_Description t, tv_slug = ft_Slug t, tv_icon = ft_Icon t,
      tv_color = ft_Color t, tv_html = (if includeHTML then RenderHTML (Some t) action else [])\<rparr>"

section \<open>Reading forms\<close>

definition validatedBaseURL :: "golib \<Rightarrow> string \<Rightarrow> cli_failure + string" where
  "validatedBaseURL L v0 =
     (let v = trim_space v0 in
      if v = [] then Inr []
      else case lib_url_parse L v of
        None \<Rightarrow> Inl (validationError ''base-url must be an absolute HTTP(S) URL'')
      | Some u \<Rightarrow>
          if url_Host u = [] \<or> url_User u \<or> url_RawQuery u \<noteq> [] \<or> url_Fragment u \<noteq> []
             \<or> (url_Scheme u \<noteq> ''http'' \<and> url_Scheme u \<noteq> ''https'')
          then Inl (validationError ''base-url must be an absolute HTTP(S) URL'')
          else Inr (rev (dropWhile (\<lambda>c. c = CHR ''/'') (rev (lib_url_string L u)))))"

text \<open>\<open>(*id == 0) == (strings.TrimSpace(*slug) == "")\<close> is an error.\<close>

definition exactly_one :: "nat \<Rightarrow> string \<Rightarrow> string \<Rightarrow> unit cmd" where
  "exactly_one i slug name =
     c_check ((i = 0) \<noteq> (trim_space slug = [])) (usageError (''set exactly one of --'' @ name @ '' or --slug''))"

definition by_id_or_slug :: "nat \<Rightarrow> string \<Rightarrow> loaded_form cmd" where
  "by_id_or_slug i slug = c_db (if i > 0 then GetByID i else GetBySlug (trim_space slug))"

definition formCode :: "golib \<Rightarrow> htmllib \<Rightarrow> runner \<Rightarrow> string list \<Rightarrow> form_result cmd" where
  "formCode L H R args =
     c_bind (parseFlags L [uintF ''id'', stringF ''slug'', stringF ''base-url''] ''form.code'' args) (\<lambda>st.
     c_bind (exactly_one (uint_flag st ''id'') (string_flag st ''slug'') ''id'') (\<lambda>_.
     c_bind (c_of (validatedBaseURL L (string_flag st ''base-url''))) (\<lambda>base.
     c_bind (requireDatabase R) (\<lambda>R.
     c_bind (by_id_or_slug (uint_flag st ''id'') (string_flag st ''slug'')) (\<lambda>lf.
     let result = Build H (Some lf) \<lparr>eo_ShowToken = rn_ShowSecrets R, eo_BaseURL = base\<rparr> in
     c_ret (FormCode \<lparr>cv_form_id = fm_ID (lf_Form lf), cv_action = er_Action result, cv_html = er_HTML result,
                      cv_redacted = er_Redacted result, cv_warning = er_Warning result\<rparr>))))))"

definition formList :: "golib \<Rightarrow> (string \<Rightarrow> string option) \<Rightarrow> runner \<Rightarrow> string list \<Rightarrow> form_result cmd" where
  "formList L decode R args =
     c_bind (parseFlags L [] ''form.list'' args) (\<lambda>_.
     c_bind (requireDatabase R) (\<lambda>R.
     c_bind (c_db forms_List) (\<lambda>items.
     c_ret (FormItems (map (\<lambda>(f, es, h). newFormView L decode (rn_ShowSecrets R) f es h) items)))))"

definition formGet :: "golib \<Rightarrow> (string \<Rightarrow> string option) \<Rightarrow> runner \<Rightarrow> string list \<Rightarrow> form_result cmd" where
  "formGet L decode R args =
     c_bind (parseFlags L [uintF ''id'', stringF ''slug''] ''form.get'' args) (\<lambda>st.
     c_bind (exactly_one (uint_flag st ''id'') (string_flag st ''slug'') ''id'') (\<lambda>_.
     c_bind (requireDatabase R) (\<lambda>R.
     c_bind (by_id_or_slug (uint_flag st ''id'') (string_flag st ''slug'')) (\<lambda>lf.
     c_ret (FormItem (loaded_view L decode R lf))))))"

section \<open>Creating a form\<close>

definition create_flags :: flag_defs where
  "create_flags =
     [stringF ''template'', stringF ''name'', stringF ''slug'', stringF ''allowed-origins'', boolF ''uploads-enabled'',
      stringF ''generated-html-file'', uintF ''mailer-profile-id'', uintF ''captcha-profile-id'', boolF ''email-enabled'',
      stringF ''email-recipient'', (''email-format'', StringVal ''text''), boolF ''webhook-enabled'', stringF ''webhook-url'',
      stringF ''webhook-secret-file'', stringF ''webhook-headers-file'']"

text \<open>The name and the slug, which a template may give.\<close>

definition create_names :: "flags \<Rightarrow> (string \<times> string) cmd" where
  "create_names st =
     (let templateID = trim_space (string_flag st ''template'') in
      if templateID = [] then c_ret (string_flag st ''name'', string_flag st ''slug'')
      else case GetTemplateByID templateID of
        None \<Rightarrow> c_fail (validationError (''unknown form template: '' @ templateID))
      | Some t \<Rightarrow> c_ret (if_set st ''name'' (string_flag st ''name'') (ft_Name t), if_set st ''slug'' (string_flag st ''slug'') (ft_Slug t)))"

definition create_params :: "flags \<Rightarrow> string \<Rightarrow> string \<Rightarrow> string \<Rightarrow> string \<Rightarrow> string \<Rightarrow> CreateParams" where
  "create_params st name slug html secret headers =
     \<lparr>cr_Name = name, cr_Slug = slug, cr_AllowedOrigins = string_flag st ''allowed-origins'', cr_GeneratedHTML = html,
      cr_UploadsEnabled = bool_flag st ''uploads-enabled'', cr_TemplateID = trim_space (string_flag st ''template''),
      cr_MailerProfileID = optionalUint (uint_flag st ''mailer-profile-id''),
      cr_CaptchaProfileID = optionalUint (uint_flag st ''captcha-profile-id''), cr_EmailName = [], cr_EmailRecipientType = [],
      cr_EmailRecipient = string_flag st ''email-recipient'', cr_EmailReplyToType = [], cr_EmailReplyTo = [],
      cr_EmailSubject = [], cr_EmailFormat = string_flag st ''email-format'', cr_EmailText = [], cr_EmailHTML = [],
      cr_EmailEnabled = bool_flag st ''email-enabled'', cr_WebhookEnabled = bool_flag st ''webhook-enabled'',
      cr_WebhookURL = string_flag st ''webhook-url'', cr_WebhookSecret = secret, cr_WebhookHeadersJSON = headers\<rparr>"

text \<open>The rows that \<open>Create\<close> has put into the form it returns: those stored under its key.\<close>

definition created_view :: "golib \<Rightarrow> (string \<Rightarrow> string option) \<Rightarrow> runner \<Rightarrow> form \<Rightarrow> database \<Rightarrow> formView" where
  "created_view L decode R f d =
     newFormView L decode (rn_ShowSecrets R) f (filter (\<lambda>e. ed_FormID e = fm_ID f) (email_deliveries d))
       (find (\<lambda>h. wd_FormID h = fm_ID f) (webhook_deliveries d))"

definition formCreate :: "golib \<Rightarrow> (string \<Rightarrow> string option) \<Rightarrow> runner \<Rightarrow> string list \<Rightarrow> form_result cmd" where
  "formCreate L decode R args =
     c_bind (parseFlags L create_flags ''form.create'' args) (\<lambda>st.
     c_bind (create_names st) (\<lambda>(name, slug).
     c_bind (requireString name ''name'') (\<lambda>_.
     c_bind (requireString slug ''slug'') (\<lambda>_.
     c_bind (requireString (string_flag st ''allowed-origins'') ''allowed-origins'') (\<lambda>_.
     c_bind (c_valid (readContentFile R (string_flag st ''generated-html-file''))) (\<lambda>html.
     c_bind (c_valid (readFileValue R (string_flag st ''webhook-secret-file''))) (\<lambda>secret.
     c_bind (c_valid (readContentFile R (string_flag st ''webhook-headers-file''))) (\<lambda>headers.
     c_bind (requireDatabase R) (\<lambda>R.
     c_bind (c_db (Create L (create_params st name slug html secret headers))) (\<lambda>f s.
     (Inr (FormItem (created_view L decode R f (db (fst s)))), s)))))))))))"

section \<open>Updating a form\<close>

definition update_flags :: flag_defs where
  "update_flags =
     [uintF ''id'', stringF ''name'', stringF ''slug'', stringF ''allowed-origins'', boolF ''uploads-enabled'',
      stringF ''generated-html-file'', boolF ''clear-generated-html'', uintF ''mailer-profile-id'', boolF ''clear-mailer-profile'',
      uintF ''captcha-profile-id'', boolF ''clear-captcha-profile'', boolF ''email-enabled'', stringF ''email-recipient'',
      stringF ''email-format'', boolF ''webhook-enabled'', stringF ''webhook-url'', stringF ''webhook-secret-file'',
      boolF ''clear-webhook-secret'', stringF ''webhook-headers-file'', boolF ''clear-webhook-headers'']"

definition conflict :: "string \<Rightarrow> string \<Rightarrow> cli_failure" where
  "conflict a b = usageError (''--'' @ a @ '' conflicts with --'' @ b)"

definition update_conflicts :: "flags \<Rightarrow> unit cmd" where
  "update_conflicts st =
     c_bind (c_check (\<not> (bool_flag st ''clear-mailer-profile'' \<and> flagWasSet st ''mailer-profile-id''))
               (conflict ''clear-mailer-profile'' ''mailer-profile-id'')) (\<lambda>_.
     c_bind (c_check (\<not> (bool_flag st ''clear-captcha-profile'' \<and> flagWasSet st ''captcha-profile-id''))
               (conflict ''clear-captcha-profile'' ''captcha-profile-id'')) (\<lambda>_.
     c_bind (c_check (\<not> (bool_flag st ''clear-generated-html'' \<and> string_flag st ''generated-html-file'' \<noteq> []))
               (conflict ''clear-generated-html'' ''generated-html-file'')) (\<lambda>_.
     c_bind (c_check (\<not> (bool_flag st ''clear-webhook-secret'' \<and> string_flag st ''webhook-secret-file'' \<noteq> []))
               (conflict ''clear-webhook-secret'' ''webhook-secret-file'')) (\<lambda>_.
     c_check (\<not> (bool_flag st ''clear-webhook-headers'' \<and> string_flag st ''webhook-headers-file'' \<noteq> []))
               (conflict ''clear-webhook-headers'' ''webhook-headers-file'')))))"

definition updateParamsFromForm :: "loaded_form \<Rightarrow> UpdateParams" where
  "updateParamsFromForm lf =
     (let f = lf_Form lf; e = PrimaryEmailDelivery (Some lf); h = lf_WebhookDelivery lf;
          from_e = (\<lambda>g. case e of None \<Rightarrow> [] | Some d \<Rightarrow> g d); from_h = (\<lambda>g. case h of None \<Rightarrow> [] | Some d \<Rightarrow> g d)
      in \<lparr>up_ID = fm_ID f, up_Name = fm_Name f, up_Slug = fm_Slug f, up_AllowedOrigins = fm_AllowedOrigins f,
          up_GeneratedHTML = fm_GeneratedHTML f, up_MailerProfileID = (case e of None \<Rightarrow> None | Some d \<Rightarrow> ed_MailerProfileID d),
          up_CaptchaProfileID = fm_CaptchaProfileID f, up_UpdateGeneratedHTML = False, up_UploadsEnabled = fm_UploadsEnabled f,
          up_EmailName = from_e ed_Name, up_EmailRecipientType = from_e ed_RecipientSource, up_EmailRecipient = from_e ed_Recipient,
          up_EmailReplyToType = from_e ed_ReplyToSource, up_EmailReplyTo = from_e ed_ReplyTo,
          up_EmailSubject = from_e ed_SubjectTemplate, up_EmailFormat = from_e ed_Format, up_EmailText = from_e ed_TextTemplate,
          up_EmailHTML = from_e ed_HTMLTemplate, up_EmailEnabled = (case e of None \<Rightarrow> False | Some d \<Rightarrow> ed_Enabled d),
          up_WebhookEnabled = (case h of None \<Rightarrow> False | Some d \<Rightarrow> wd_Enabled d), up_WebhookURL = from_h wd_URL,
          up_WebhookSecret = from_h wd_Secret, up_WebhookHeadersJSON = from_h wd_HeadersJSON\<rparr>)"

text \<open>A reference that a flag sets, or another flag clears.\<close>

definition chosen_profile :: "flags \<Rightarrow> string \<Rightarrow> string \<Rightarrow> nat option \<Rightarrow> nat option" where
  "chosen_profile st n clear current =
     (if bool_flag st clear then None else if_set st n (optionalUint (uint_flag st n)) current)"

text \<open>A text that a file gives, or a flag clears: the file is applied last.\<close>

definition chosen_content :: "flags \<Rightarrow> string \<Rightarrow> string \<Rightarrow> string \<Rightarrow> string \<Rightarrow> string" where
  "chosen_content st n clear content current =
     (if string_flag st n \<noteq> [] then content else if bool_flag st clear then [] else current)"

definition apply_update_flags :: "flags \<Rightarrow> string \<Rightarrow> string \<Rightarrow> string \<Rightarrow> UpdateParams \<Rightarrow> UpdateParams" where
  "apply_update_flags st html secret headers p =
     p\<lparr>up_Name := if_set st ''name'' (string_flag st ''name'') (up_Name p),
       up_Slug := if_set st ''slug'' (string_flag st ''slug'') (up_Slug p),
       up_AllowedOrigins := if_set st ''allowed-origins'' (string_flag st ''allowed-origins'') (up_AllowedOrigins p),
       up_UploadsEnabled := if_set st ''uploads-enabled'' (bool_flag st ''uploads-enabled'') (up_UploadsEnabled p),
       up_GeneratedHTML := chosen_content st ''generated-html-file'' ''clear-generated-html'' html (up_GeneratedHTML p),
       up_UpdateGeneratedHTML := (bool_flag st ''clear-generated-html'' \<or> string_flag st ''generated-html-file'' \<noteq> []),
       up_MailerProfileID := chosen_profile st ''mailer-profile-id'' ''clear-mailer-profile'' (up_MailerProfileID p),
       up_CaptchaProfileID := chosen_profile st ''captcha-profile-id'' ''clear-captcha-profile'' (up_CaptchaProfileID p),
       up_EmailEnabled := if_set st ''email-enabled'' (bool_flag st ''email-enabled'') (up_EmailEnabled p),
       up_EmailRecipient := if_set st ''email-recipient'' (string_flag st ''email-recipient'') (up_EmailRecipient p),
       up_EmailFormat := if_set st ''email-format'' (string_flag st ''email-format'') (up_EmailFormat p),
       up_WebhookEnabled := if_set st ''webhook-enabled'' (bool_flag st ''webhook-enabled'') (up_WebhookEnabled p),
       up_WebhookURL := if_set st ''webhook-url'' (string_flag st ''webhook-url'') (up_WebhookURL p),
       up_WebhookSecret := chosen_content st ''webhook-secret-file'' ''clear-webhook-secret'' secret (up_WebhookSecret p),
       up_WebhookHeadersJSON := chosen_content st ''webhook-headers-file'' ''clear-webhook-headers'' headers (up_WebhookHeadersJSON p)\<rparr>"

definition formUpdate :: "golib \<Rightarrow> (string \<Rightarrow> string option) \<Rightarrow> runner \<Rightarrow> string list \<Rightarrow> form_result cmd" where
  "formUpdate L decode R args =
     c_bind (parseFlags L update_flags ''form.update'' args) (\<lambda>st.
     c_bind (requireUint (uint_flag st ''id'') ''id'') (\<lambda>_.
     c_bind (update_conflicts st) (\<lambda>_.
     c_bind (c_valid (readContentFile R (string_flag st ''generated-html-file''))) (\<lambda>html.
     c_bind (c_valid (readFileValue R (string_flag st ''webhook-secret-file''))) (\<lambda>secret.
     c_bind (c_valid (readContentFile R (string_flag st ''webhook-headers-file''))) (\<lambda>headers.
     c_bind (requireDatabase R) (\<lambda>R.
     c_bind (c_db (GetByID (uint_flag st ''id''))) (\<lambda>current.
     c_bind (c_db (Update L (apply_update_flags st html secret headers (updateParamsFromForm current)))) (\<lambda>updated.
     c_ret (FormItem (loaded_view L decode R updated)))))))))))"

section \<open>Deleting and rotating\<close>

definition data_directory :: "runner \<Rightarrow> string" where
  "data_directory R = (case rn_Config R of None \<Rightarrow> [] | Some cfg \<Rightarrow> cf_DataDirectory cfg)"

text \<open>A command on one row that asks for \<open>--yes\<close>; the row's key and the runner go to its action.\<close>

definition confirmed :: "golib \<Rightarrow> runner \<Rightarrow> string \<Rightarrow> string \<Rightarrow> string list \<Rightarrow> (nat \<Rightarrow> runner \<Rightarrow> 'a cmd) \<Rightarrow> 'a cmd" where
  "confirmed L R command words args act =
     c_bind (parseFlags L [uintF ''id'', boolF ''yes''] command args) (\<lambda>st.
     c_bind (requireUint (uint_flag st ''id'') ''id'') (\<lambda>_.
     c_bind (c_check (bool_flag st ''yes'') (usageError (words @ '' requires --yes''))) (\<lambda>_.
     c_bind (requireDatabase R) (act (uint_flag st ''id'')))))"

definition formDelete :: "golib \<Rightarrow> runner \<Rightarrow> string list \<Rightarrow> form_result cmd" where
  "formDelete L R args = confirmed L R ''form.delete'' ''form delete'' args (\<lambda>i R.
     c_bind (c_db (DeleteForm L (data_directory R) i)) (\<lambda>_. c_ret (FormDeleted i)))"

definition formRotateToken :: "golib \<Rightarrow> (string \<Rightarrow> string option) \<Rightarrow> runner \<Rightarrow> string list \<Rightarrow> form_result cmd" where
  "formRotateToken L decode R args = confirmed L R ''form.rotate-token'' ''form rotate-token'' args (\<lambda>i R.
     c_bind (c_db (RotateToken i)) (\<lambda>lf. c_ret (FormItem (loaded_view L decode R lf))))"

section \<open>Templates\<close>

definition formTemplateList :: "golib \<Rightarrow> string list \<Rightarrow> form_result cmd" where
  "formTemplateList L args =
     c_bind (parseFlags L [] ''form.template-list'' args) (\<lambda>_.
     c_ret (TemplateItems (map (\<lambda>t. newFormTemplateView t [] False) GetFormTemplates)))"

definition formTemplateGet :: "golib \<Rightarrow> string list \<Rightarrow> form_result cmd" where
  "formTemplateGet L args =
     c_bind (parseFlags L [stringF ''template'', stringF ''action''] ''form.template-get'' args) (\<lambda>st.
     c_bind (requireString (string_flag st ''template'') ''template'') (\<lambda>_.
     let templateID = trim_space (string_flag st ''template'') in
     case GetTemplateByID templateID of
       None \<Rightarrow> c_fail (validationError (''unknown form template: '' @ templateID))
     | Some t \<Rightarrow> c_ret (TemplateItem (newFormTemplateView t (string_flag st ''action'') True))))"

definition runForm :: "golib \<Rightarrow> htmllib \<Rightarrow> (string \<Rightarrow> string option) \<Rightarrow> runner \<Rightarrow> string list \<Rightarrow> form_result cmd" where
  "runForm L H decode R args =
     c_bind (requireAction ''form'' args) (\<lambda>(action, args).
     if action = ''list'' then formList L decode R args
     else if action = ''get'' then formGet L decode R args
     else if action = ''create'' then formCreate L decode R args
     else if action = ''update'' then formUpdate L decode R args
     else if action = ''delete'' then formDelete L R args
     else if action = ''rotate-token'' then formRotateToken L decode R args
     else if action = ''code'' then formCode L H R args
     else if action = ''template-list'' then formTemplateList L args
     else if action = ''template-get'' then formTemplateGet L args
     else c_fail (usageError (''unknown form action: '' @ action)))"

section \<open>Notifications\<close>

datatype email_result = EmailItems "emailDeliveryView list" | EmailItem emailDeliveryView | EmailDeleted nat nat

definition emailList :: "golib \<Rightarrow> (string \<Rightarrow> string option) \<Rightarrow> runner \<Rightarrow> string list \<Rightarrow> email_result cmd" where
  "emailList L decode R args =
     c_bind (parseFlags L [uintF ''form-id''] ''email.list'' args) (\<lambda>st.
     c_bind (requireUint (uint_flag st ''form-id'') ''form-id'') (\<lambda>_.
     c_bind (requireDatabase R) (\<lambda>R.
     c_bind (c_db (ListEmailDeliveries (uint_flag st ''form-id''))) (\<lambda>deliveries.
     c_ret (EmailItems (map (\<lambda>(d, _). newEmailDeliveryView L decode d False) deliveries))))))"

definition emailGet :: "golib \<Rightarrow> (string \<Rightarrow> string option) \<Rightarrow> runner \<Rightarrow> string list \<Rightarrow> email_result cmd" where
  "emailGet L decode R args =
     c_bind (parseFlags L [uintF ''id''] ''email.get'' args) (\<lambda>st.
     c_bind (requireUint (uint_flag st ''id'') ''id'') (\<lambda>_.
     c_bind (requireDatabase R) (\<lambda>R.
     c_bind (c_db (GetEmailDeliveryByID (uint_flag st ''id''))) (\<lambda>(d, _).
     c_ret (EmailItem (newEmailDeliveryView L decode d True))))))"

definition email_create_flags :: flag_defs where
  "email_create_flags =
     [uintF ''form-id'', (''name'', StringVal DefaultEmailDeliveryName), boolF ''enabled'', uintF ''mailer-profile-id'',
      (''recipient-source'', StringVal ''static''), stringF ''recipient'', (''reply-to-source'', StringVal ''none''),
      stringF ''reply-to'', (''subject-template'', StringVal DefaultEmailSubject), (''format'', StringVal ''text''),
      stringF ''text-template-file'', stringF ''html-template-file'']"

definition emailCreate :: "golib \<Rightarrow> (string \<Rightarrow> string option) \<Rightarrow> runner \<Rightarrow> string list \<Rightarrow> email_result cmd" where
  "emailCreate L decode R args =
     c_bind (parseFlags L email_create_flags ''email.create'' args) (\<lambda>st.
     c_bind (requireUint (uint_flag st ''form-id'') ''form-id'') (\<lambda>_.
     c_bind (c_valid (readContentFile R (string_flag st ''text-template-file''))) (\<lambda>textBody.
     c_bind (c_valid (readContentFile R (string_flag st ''html-template-file''))) (\<lambda>htmlBody.
     c_bind (requireDatabase R) (\<lambda>R.
     c_bind (c_db (CreateEmailDelivery L
       \<lparr>ep_ID = 0, ep_FormID = uint_flag st ''form-id'', ep_Name = string_flag st ''name'', ep_Enabled = bool_flag st ''enabled'',
        ep_MailerProfileID = optionalUint (uint_flag st ''mailer-profile-id''),
        ep_RecipientSource = string_flag st ''recipient-source'', ep_Recipient = string_flag st ''recipient'',
        ep_ReplyToSource = string_flag st ''reply-to-source'', ep_ReplyTo = string_flag st ''reply-to'',
        ep_SubjectTemplate = string_flag st ''subject-template'', ep_Format = string_flag st ''format'',
        ep_TextTemplate = textBody, ep_HTMLTemplate = htmlBody\<rparr>)) (\<lambda>(d, _).
     c_ret (EmailItem (newEmailDeliveryView L decode d True))))))))"

definition emailParamsFromDelivery :: "email_delivery \<Rightarrow> EmailDeliveryParams" where
  "emailParamsFromDelivery d =
     \<lparr>ep_ID = ed_ID d, ep_FormID = ed_FormID d, ep_Name = ed_Name d, ep_Enabled = ed_Enabled d,
      ep_MailerProfileID = ed_MailerProfileID d, ep_RecipientSource = ed_RecipientSource d, ep_Recipient = ed_Recipient d,
      ep_ReplyToSource = ed_ReplyToSource d, ep_ReplyTo = ed_ReplyTo d, ep_SubjectTemplate = ed_SubjectTemplate d,
      ep_Format = ed_Format d, ep_TextTemplate = ed_TextTemplate d, ep_HTMLTemplate = ed_HTMLTemplate d\<rparr>"

definition email_update_flags :: flag_defs where
  "email_update_flags =
     [uintF ''id'', stringF ''name'', boolF ''enabled'', uintF ''mailer-profile-id'', boolF ''clear-mailer-profile'',
      stringF ''recipient-source'', stringF ''recipient'', stringF ''reply-to-source'', stringF ''reply-to'',
      stringF ''subject-template'', stringF ''format'', stringF ''text-template-file'', stringF ''html-template-file'']"

definition apply_email_flags :: "flags \<Rightarrow> string \<Rightarrow> string \<Rightarrow> EmailDeliveryParams \<Rightarrow> EmailDeliveryParams" where
  "apply_email_flags st textBody htmlBody p =
     p\<lparr>ep_Name := if_set st ''name'' (string_flag st ''name'') (ep_Name p),
       ep_Enabled := if_set st ''enabled'' (bool_flag st ''enabled'') (ep_Enabled p),
       ep_MailerProfileID := chosen_profile st ''mailer-profile-id'' ''clear-mailer-profile'' (ep_MailerProfileID p),
       ep_RecipientSource := if_set st ''recipient-source'' (string_flag st ''recipient-source'') (ep_RecipientSource p),
       ep_Recipient := if_set st ''recipient'' (string_flag st ''recipient'') (ep_Recipient p),
       ep_ReplyToSource := if_set st ''reply-to-source'' (string_flag st ''reply-to-source'') (ep_ReplyToSource p),
       ep_ReplyTo := if_set st ''reply-to'' (string_flag st ''reply-to'') (ep_ReplyTo p),
       ep_SubjectTemplate := if_set st ''subject-template'' (string_flag st ''subject-template'') (ep_SubjectTemplate p),
       ep_Format := if_set st ''format'' (string_flag st ''format'') (ep_Format p),
       ep_TextTemplate := (if trim_space (string_flag st ''text-template-file'') \<noteq> [] then textBody else ep_TextTemplate p),
       ep_HTMLTemplate := (if trim_space (string_flag st ''html-template-file'') \<noteq> [] then htmlBody else ep_HTMLTemplate p)\<rparr>"

definition emailUpdate :: "golib \<Rightarrow> (string \<Rightarrow> string option) \<Rightarrow> runner \<Rightarrow> string list \<Rightarrow> email_result cmd" where
  "emailUpdate L decode R args =
     c_bind (parseFlags L email_update_flags ''email.update'' args) (\<lambda>st.
     c_bind (requireUint (uint_flag st ''id'') ''id'') (\<lambda>_.
     c_bind (c_check (\<not> (bool_flag st ''clear-mailer-profile'' \<and> flagWasSet st ''mailer-profile-id''))
               (conflict ''clear-mailer-profile'' ''mailer-profile-id'')) (\<lambda>_.
     c_bind (c_valid (readContentFile R (string_flag st ''text-template-file''))) (\<lambda>textBody.
     c_bind (c_valid (readContentFile R (string_flag st ''html-template-file''))) (\<lambda>htmlBody.
     c_bind (requireDatabase R) (\<lambda>R.
     c_bind (c_db (GetEmailDeliveryByID (uint_flag st ''id''))) (\<lambda>(current, _).
     c_bind (c_db (UpdateEmailDelivery L (apply_email_flags st textBody htmlBody (emailParamsFromDelivery current)))) (\<lambda>(d, _).
     c_ret (EmailItem (newEmailDeliveryView L decode d True))))))))))"

definition emailDelete :: "golib \<Rightarrow> runner \<Rightarrow> string list \<Rightarrow> email_result cmd" where
  "emailDelete L R args = confirmed L R ''email.delete'' ''email delete'' args (\<lambda>i R.
     c_bind (c_db (GetEmailDeliveryByID i)) (\<lambda>(d, _).
     c_bind (c_db (DeleteEmailDelivery (ed_FormID d) (ed_ID d))) (\<lambda>_. c_ret (EmailDeleted (ed_ID d) (ed_FormID d)))))"

definition runEmail :: "golib \<Rightarrow> (string \<Rightarrow> string option) \<Rightarrow> runner \<Rightarrow> string list \<Rightarrow> email_result cmd" where
  "runEmail L decode R args =
     c_bind (requireAction ''email'' args) (\<lambda>(action, args).
     if action = ''list'' then emailList L decode R args
     else if action = ''get'' then emailGet L decode R args
     else if action = ''create'' then emailCreate L decode R args
     else if action = ''update'' then emailUpdate L decode R args
     else if action = ''delete'' then emailDelete L R args
     else c_fail (usageError (''unknown email action: '' @ action)))"

end
