(* ===== verification/Cli_Profiles.thy ===== *)
theory Cli_Profiles
  imports Cli_Forms
begin

text \<open>
  The commands on the shared credentials and on the operator's account: \<open>internal/cli/mailer.go\<close>,
  \<open>captcha.go\<close> and \<open>account.go\<close>, and the effective configuration, \<open>config.go\<close>. The rows of profiles have no
  time of creation in the model, so the views have none.
\<close>

section \<open>Mailers\<close>

record mailerView =
  mv_id :: nat
  mv_name :: string
  mv_default_from_name :: string
  mv_default_from_email :: string
  mv_smtp_host :: string
  mv_smtp_port :: int
  mv_smtp_username :: string
  mv_smtp_password :: string
  mv_smtp_encryption :: string
  mv_usage_count :: nat

datatype 'v profile_result = ProfileItems "'v list" | ProfileItem 'v | ProfileDeleted nat

definition newMailerView :: "runner \<Rightarrow> mailer_profile \<Rightarrow> mailerView cmd" where
  "newMailerView R p =
     c_bind (c_db (MailerProfileUsage (mp_ID p))) (\<lambda>usage.
     c_ret \<lparr>mv_id = mp_ID p, mv_name = mp_Name p, mv_default_from_name = mp_DefaultFromName p,
            mv_default_from_email = mp_DefaultFromEmail p, mv_smtp_host = mp_SMTPHost p, mv_smtp_port = mp_SMTPPort p,
            mv_smtp_username = mp_SMTPUsername p, mv_smtp_password = redact (mp_SMTPPassword p) (rn_ShowSecrets R),
            mv_smtp_encryption = mp_SMTPEncryption p, mv_usage_count = usage\<rparr>)"

definition defineMailerFlags :: flag_defs where
  "defineMailerFlags =
     [stringF ''name'', stringF ''default-from-name'', stringF ''default-from-email'', stringF ''smtp-host'',
      (''smtp-port'', IntVal 0), stringF ''smtp-username'', stringF ''smtp-password-file'', stringF ''smtp-encryption'']"

definition applyStringFlag :: "flags \<Rightarrow> string \<Rightarrow> string \<Rightarrow> string" where
  "applyStringFlag st n target = (if flagWasSet st n then string_flag st n else target)"

definition mailerParams :: "flags \<Rightarrow> MailerProfileParams \<Rightarrow> string \<Rightarrow> MailerProfileParams" where
  "mailerParams st p password =
     p\<lparr>mq_Name := applyStringFlag st ''name'' (mq_Name p),
       mq_DefaultFromName := applyStringFlag st ''default-from-name'' (mq_DefaultFromName p),
       mq_DefaultFromEmail := applyStringFlag st ''default-from-email'' (mq_DefaultFromEmail p),
       mq_SMTPHost := applyStringFlag st ''smtp-host'' (mq_SMTPHost p),
       mq_SMTPUsername := applyStringFlag st ''smtp-username'' (mq_SMTPUsername p),
       mq_SMTPEncryption := applyStringFlag st ''smtp-encryption'' (mq_SMTPEncryption p),
       mq_SMTPPort := if_set st ''smtp-port'' (int_flag st ''smtp-port'') (mq_SMTPPort p),
       mq_SMTPPassword := (if string_flag st ''smtp-password-file'' \<noteq> [] then password else mq_SMTPPassword p)\<rparr>"

definition mailerParamsFromProfile :: "mailer_profile \<Rightarrow> MailerProfileParams" where
  "mailerParamsFromProfile p =
     \<lparr>mq_Name = mp_Name p, mq_DefaultFromName = mp_DefaultFromName p, mq_DefaultFromEmail = mp_DefaultFromEmail p,
      mq_SMTPHost = mp_SMTPHost p, mq_SMTPPort = mp_SMTPPort p, mq_SMTPUsername = mp_SMTPUsername p,
      mq_SMTPPassword = mp_SMTPPassword p, mq_SMTPEncryption = mp_SMTPEncryption p\<rparr>"

definition mailerList :: "golib \<Rightarrow> runner \<Rightarrow> string list \<Rightarrow> mailerView profile_result cmd" where
  "mailerList L R args =
     c_bind (parseFlags L [] ''mailer.list'' args) (\<lambda>_.
     c_bind (requireDatabase R) (\<lambda>R.
     c_bind (c_db ListMailerProfiles) (\<lambda>profiles.
     c_bind (c_map (newMailerView R) profiles) (\<lambda>views. c_ret (ProfileItems views)))))"

definition mailerGet :: "golib \<Rightarrow> runner \<Rightarrow> string list \<Rightarrow> mailerView profile_result cmd" where
  "mailerGet L R args =
     c_bind (parseFlags L [uintF ''id''] ''mailer.get'' args) (\<lambda>st.
     c_bind (requireUint (uint_flag st ''id'') ''id'') (\<lambda>_.
     c_bind (requireDatabase R) (\<lambda>R.
     c_bind (c_db (GetMailerProfileByID (uint_flag st ''id''))) (\<lambda>p.
     c_bind (newMailerView R p) (\<lambda>v. c_ret (ProfileItem v))))))"

definition blank_mailer :: MailerProfileParams where
  "blank_mailer =
     \<lparr>mq_Name = [], mq_DefaultFromName = [], mq_DefaultFromEmail = [], mq_SMTPHost = [], mq_SMTPPort = 587,
      mq_SMTPUsername = [], mq_SMTPPassword = [], mq_SMTPEncryption = ''starttls''\<rparr>"

definition mailerCreate :: "golib \<Rightarrow> runner \<Rightarrow> string list \<Rightarrow> mailerView profile_result cmd" where
  "mailerCreate L R args =
     c_bind (parseFlags L defineMailerFlags ''mailer.create'' args) (\<lambda>st.
     c_bind (requireString (string_flag st ''name'') ''name'') (\<lambda>_.
     c_bind (c_valid (readFileValue R (string_flag st ''smtp-password-file''))) (\<lambda>password.
     c_bind (requireDatabase R) (\<lambda>R.
     c_bind (c_db (CreateMailerProfile L (mailerParams st blank_mailer password))) (\<lambda>p.
     c_bind (newMailerView R p) (\<lambda>v. c_ret (ProfileItem v)))))))"

definition mailerUpdate :: "golib \<Rightarrow> runner \<Rightarrow> string list \<Rightarrow> mailerView profile_result cmd" where
  "mailerUpdate L R args =
     c_bind (parseFlags L (uintF ''id'' # defineMailerFlags @ [boolF ''clear-smtp-password'']) ''mailer.update'' args) (\<lambda>st.
     c_bind (requireUint (uint_flag st ''id'') ''id'') (\<lambda>_.
     c_bind (c_check (\<not> (bool_flag st ''clear-smtp-password'' \<and> string_flag st ''smtp-password-file'' \<noteq> []))
               (conflict ''clear-smtp-password'' ''smtp-password-file'')) (\<lambda>_.
     c_bind (c_valid (readFileValue R (string_flag st ''smtp-password-file''))) (\<lambda>password.
     c_bind (requireDatabase R) (\<lambda>R.
     c_bind (c_db (GetMailerProfileByID (uint_flag st ''id''))) (\<lambda>current.
     let params = mailerParams st (mailerParamsFromProfile current) password in
     c_bind (c_db (UpdateMailerProfile L (uint_flag st ''id'')
               (if bool_flag st ''clear-smtp-password'' then params\<lparr>mq_SMTPPassword := []\<rparr> else params))) (\<lambda>p.
     c_bind (newMailerView R p) (\<lambda>v. c_ret (ProfileItem v)))))))))"

text \<open>A profile is deleted when no form uses it; the check and the deletion are statements of their own.\<close>

definition mailerDelete :: "golib \<Rightarrow> runner \<Rightarrow> string list \<Rightarrow> mailerView profile_result cmd" where
  "mailerDelete L R args = confirmed L R ''mailer.delete'' ''mailer delete'' args (\<lambda>i R.
     c_bind (c_db (GetMailerProfileByID i)) (\<lambda>_.
     c_bind (c_db (MailerProfileUsage i)) (\<lambda>usage.
     c_bind (c_check (usage = 0) (conflictError ''mailer profile is referenced by one or more forms'')) (\<lambda>_.
     c_bind (c_db (DeleteMailerProfile i)) (\<lambda>_. c_ret (ProfileDeleted i))))))"

definition runMailer :: "golib \<Rightarrow> runner \<Rightarrow> string list \<Rightarrow> mailerView profile_result cmd" where
  "runMailer L R args =
     c_bind (requireAction ''mailer'' args) (\<lambda>(action, args).
     if action = ''list'' then mailerList L R args
     else if action = ''get'' then mailerGet L R args
     else if action = ''create'' then mailerCreate L R args
     else if action = ''update'' then mailerUpdate L R args
     else if action = ''delete'' then mailerDelete L R args
     else c_fail (usageError (''unknown mailer action: '' @ action)))"

section \<open>Captchas\<close>

record captchaView =
  kv_id :: nat
  kv_name :: string
  kv_site_key :: string
  kv_secret_key :: string
  kv_usage_count :: nat

definition newCaptchaView :: "runner \<Rightarrow> captcha_profile \<Rightarrow> captchaView cmd" where
  "newCaptchaView R p =
     c_bind (c_db (CaptchaProfileUsage (cp_ID p))) (\<lambda>usage.
     c_ret \<lparr>kv_id = cp_ID p, kv_name = cp_Name p, kv_site_key = cp_SiteKey p,
            kv_secret_key = redact (cp_SecretKey p) (rn_ShowSecrets R), kv_usage_count = usage\<rparr>)"

definition defineCaptchaFlags :: flag_defs where
  "defineCaptchaFlags = [stringF ''name'', stringF ''site-key'', stringF ''secret-key-file'']"

definition captchaParams :: "flags \<Rightarrow> CaptchaProfileParams \<Rightarrow> string \<Rightarrow> CaptchaProfileParams" where
  "captchaParams st p secretKey =
     p\<lparr>cq_Name := applyStringFlag st ''name'' (cq_Name p), cq_SiteKey := applyStringFlag st ''site-key'' (cq_SiteKey p),
       cq_SecretKey := (if string_flag st ''secret-key-file'' \<noteq> [] then secretKey else cq_SecretKey p)\<rparr>"

definition captchaParamsFromProfile :: "captcha_profile \<Rightarrow> CaptchaProfileParams" where
  "captchaParamsFromProfile p = \<lparr>cq_Name = cp_Name p, cq_SiteKey = cp_SiteKey p, cq_SecretKey = cp_SecretKey p\<rparr>"

definition captchaList :: "golib \<Rightarrow> runner \<Rightarrow> string list \<Rightarrow> captchaView profile_result cmd" where
  "captchaList L R args =
     c_bind (parseFlags L [] ''captcha.list'' args) (\<lambda>_.
     c_bind (requireDatabase R) (\<lambda>R.
     c_bind (c_db ListCaptchaProfiles) (\<lambda>profiles.
     c_bind (c_map (newCaptchaView R) profiles) (\<lambda>views. c_ret (ProfileItems views)))))"

definition captchaGet :: "golib \<Rightarrow> runner \<Rightarrow> string list \<Rightarrow> captchaView profile_result cmd" where
  "captchaGet L R args =
     c_bind (parseFlags L [uintF ''id''] ''captcha.get'' args) (\<lambda>st.
     c_bind (requireUint (uint_flag st ''id'') ''id'') (\<lambda>_.
     c_bind (requireDatabase R) (\<lambda>R.
     c_bind (c_db (GetCaptchaProfileByID (uint_flag st ''id''))) (\<lambda>p.
     c_bind (newCaptchaView R p) (\<lambda>v. c_ret (ProfileItem v))))))"

definition captchaCreate :: "golib \<Rightarrow> runner \<Rightarrow> string list \<Rightarrow> captchaView profile_result cmd" where
  "captchaCreate L R args =
     c_bind (parseFlags L defineCaptchaFlags ''captcha.create'' args) (\<lambda>st.
     c_bind (requireString (string_flag st ''name'') ''name'') (\<lambda>_.
     c_bind (c_valid (readFileValue R (string_flag st ''secret-key-file''))) (\<lambda>secretKey.
     c_bind (requireDatabase R) (\<lambda>R.
     c_bind (c_db (CreateCaptchaProfile (captchaParams st \<lparr>cq_Name = [], cq_SiteKey = [], cq_SecretKey = []\<rparr> secretKey))) (\<lambda>p.
     c_bind (newCaptchaView R p) (\<lambda>v. c_ret (ProfileItem v)))))))"

definition captchaUpdate :: "golib \<Rightarrow> runner \<Rightarrow> string list \<Rightarrow> captchaView profile_result cmd" where
  "captchaUpdate L R args =
     c_bind (parseFlags L (uintF ''id'' # defineCaptchaFlags) ''captcha.update'' args) (\<lambda>st.
     c_bind (requireUint (uint_flag st ''id'') ''id'') (\<lambda>_.
     c_bind (c_valid (readFileValue R (string_flag st ''secret-key-file''))) (\<lambda>secretKey.
     c_bind (requireDatabase R) (\<lambda>R.
     c_bind (c_db (GetCaptchaProfileByID (uint_flag st ''id''))) (\<lambda>current.
     c_bind (c_db (UpdateCaptchaProfile (uint_flag st ''id'')
               (captchaParams st (captchaParamsFromProfile current) secretKey))) (\<lambda>p.
     c_bind (newCaptchaView R p) (\<lambda>v. c_ret (ProfileItem v))))))))"

definition captchaDelete :: "golib \<Rightarrow> runner \<Rightarrow> string list \<Rightarrow> captchaView profile_result cmd" where
  "captchaDelete L R args = confirmed L R ''captcha.delete'' ''captcha delete'' args (\<lambda>i R.
     c_bind (c_db (GetCaptchaProfileByID i)) (\<lambda>_.
     c_bind (c_db (CaptchaProfileUsage i)) (\<lambda>usage.
     c_bind (c_check (usage = 0) (conflictError ''captcha profile is referenced by one or more forms'')) (\<lambda>_.
     c_bind (c_db (DeleteCaptchaProfile i)) (\<lambda>_. c_ret (ProfileDeleted i))))))"

definition runCaptcha :: "golib \<Rightarrow> runner \<Rightarrow> string list \<Rightarrow> captchaView profile_result cmd" where
  "runCaptcha L R args =
     c_bind (requireAction ''captcha'' args) (\<lambda>(action, args).
     if action = ''list'' then captchaList L R args
     else if action = ''get'' then captchaGet L R args
     else if action = ''create'' then captchaCreate L R args
     else if action = ''update'' then captchaUpdate L R args
     else if action = ''delete'' then captchaDelete L R args
     else c_fail (usageError (''unknown captcha action: '' @ action)))"

section \<open>The account\<close>

record accountView =
  nv_id :: nat
  nv_email :: string
  nv_last_login_at :: "gotime option"

datatype account_result = AccountShown accountView | PasswordUpdated nat | PasswordReplaced string

definition newAccountView :: "user \<Rightarrow> accountView" where
  "newAccountView u = \<lparr>nv_id = us_ID u, nv_email = us_Email u, nv_last_login_at = us_LastLoginAt u\<rparr>"

definition accountShow :: "golib \<Rightarrow> runner \<Rightarrow> string list \<Rightarrow> account_result cmd" where
  "accountShow L R args =
     c_bind (parseFlags L [] ''account.show'' args) (\<lambda>_.
     c_bind (requireDatabase R) (\<lambda>_.
     c_bind (c_db GetAdmin) (\<lambda>u. c_ret (AccountShown (newAccountView u)))))"

definition accountSetEmail :: "golib \<Rightarrow> runner \<Rightarrow> string list \<Rightarrow> account_result cmd" where
  "accountSetEmail L R args =
     c_bind (parseFlags L [stringF ''email'', stringF ''current-password-file''] ''account.set-email'' args) (\<lambda>st.
     c_bind (requireString (string_flag st ''email'') ''email'') (\<lambda>_.
     c_bind (requireString (string_flag st ''current-password-file'') ''current-password-file'') (\<lambda>_.
     c_bind (c_valid (readFileValue R (string_flag st ''current-password-file''))) (\<lambda>password.
     c_bind (requireDatabase R) (\<lambda>_.
     c_bind (c_db GetAdmin) (\<lambda>u.
     c_bind (c_db (ChangeEmail L (us_Email u) (string_flag st ''email'') password)) (\<lambda>_.
     c_bind (c_db GetAdmin) (\<lambda>updated. c_ret (AccountShown (newAccountView updated))))))))))"

definition validateTwoSecretFiles :: "string \<Rightarrow> string \<Rightarrow> unit cmd" where
  "validateTwoSecretFiles a b =
     c_bind (requireString a ''current-password-file'') (\<lambda>_.
     c_bind (requireString b ''new-password-file'') (\<lambda>_.
     c_check (\<not> (a = ''-'' \<and> b = ''-''))
       (usageError ''only one password file can be stdin; provide a file path for the other password'')))"

definition accountChangePassword :: "golib \<Rightarrow> runner \<Rightarrow> string list \<Rightarrow> account_result cmd" where
  "accountChangePassword L R args =
     c_bind (parseFlags L [stringF ''current-password-file'', stringF ''new-password-file''] ''account.change-password'' args) (\<lambda>st.
     c_bind (validateTwoSecretFiles (string_flag st ''current-password-file'') (string_flag st ''new-password-file'')) (\<lambda>_.
     c_bind (c_valid (readFileValue R (string_flag st ''current-password-file''))) (\<lambda>currentPassword.
     c_bind (c_valid (readFileValue R (string_flag st ''new-password-file''))) (\<lambda>newPassword.
     c_bind (requireDatabase R) (\<lambda>_.
     c_bind (c_db GetAdmin) (\<lambda>u.
     c_bind (c_db (ChangePassword L (us_Email u) currentPassword newPassword)) (\<lambda>_. c_ret (PasswordUpdated (us_ID u)))))))))"

definition accountResetPassword :: "golib \<Rightarrow> runner \<Rightarrow> string list \<Rightarrow> account_result cmd" where
  "accountResetPassword L R args =
     c_bind (parseFlags L [stringF ''email'', stringF ''new-password-file''] ''account.reset-password'' args) (\<lambda>st.
     c_bind (requireString (string_flag st ''new-password-file'') ''new-password-file'') (\<lambda>_.
     c_bind (c_valid (readFileValue R (string_flag st ''new-password-file''))) (\<lambda>newPassword.
     c_bind (requireDatabase R) (\<lambda>_.
     c_bind (if string_flag st ''email'' = [] then c_bind (c_db GetAdmin) (\<lambda>u. c_ret (us_Email u))
             else c_ret (string_flag st ''email'')) (\<lambda>email.
     c_bind (c_db (ResetPassword L email newPassword)) (\<lambda>_. c_ret (PasswordReplaced email)))))))"

definition runAccount :: "golib \<Rightarrow> runner \<Rightarrow> string list \<Rightarrow> account_result cmd" where
  "runAccount L R args =
     c_bind (requireAction ''account'' args) (\<lambda>(action, args).
     if action = ''show'' then accountShow L R args
     else if action = ''set-email'' then accountSetEmail L R args
     else if action = ''change-password'' then accountChangePassword L R args
     else if action = ''reset-password'' then accountResetPassword L R args
     else c_fail (usageError (''unknown account action: '' @ action)))"

section \<open>The configuration\<close>

record effectiveConfigView =
  xv_environment :: string
  xv_port :: string
  xv_log_level :: string
  xv_data_directory :: string
  xv_database_filename :: string
  xv_database_path :: string
  xv_logs_directory :: string
  xv_session_timeout_seconds :: int
  xv_session_secret :: string
  xv_max_input_fields :: int
  xv_webhook_signature_header :: string
  xv_webhook_retry_limit :: int
  xv_webhook_backoff_schedule :: string

definition no_configuration :: "string \<Rightarrow> cli_failure" where
  "no_configuration operation = internalError operation (Plain ''configuration dependency is unavailable'')"

definition configShow :: "golib \<Rightarrow> runner \<Rightarrow> string list \<Rightarrow> effectiveConfigView cmd" where
  "configShow L R args =
     c_bind (parseFlags L [] ''config.show'' args) (\<lambda>_.
     case rn_Config R of
       None \<Rightarrow> c_fail (no_configuration ''load configuration'')
     | Some cfg \<Rightarrow> c_ret
         \<lparr>xv_environment = cf_Environment cfg, xv_port = cf_Port cfg, xv_log_level = cf_LogLevel cfg,
          xv_data_directory = cf_DataDirectory cfg, xv_database_filename = cf_DatabaseFilename cfg,
          xv_database_path = cf_DatabasePath cfg, xv_logs_directory = cf_LogsDirectory cfg,
          xv_session_timeout_seconds = cf_SessionTimeout cfg,
          xv_session_secret = redact (cf_SessionSecret cfg) (rn_ShowSecrets R), xv_max_input_fields = cf_MaxInputFields cfg,
          xv_webhook_signature_header = wc_SignatureHeader (cf_Webhook cfg), xv_webhook_retry_limit = wc_RetryLimit (cf_Webhook cfg),
          xv_webhook_backoff_schedule = wc_BackoffSchedule (cf_Webhook cfg)\<rparr>)"

definition runConfig :: "golib \<Rightarrow> runner \<Rightarrow> string list \<Rightarrow> effectiveConfigView cmd" where
  "runConfig L R args =
     c_bind (requireAction ''config'' args) (\<lambda>(action, args).
     if action \<noteq> ''show'' then c_fail (usageError (''unknown config action: '' @ action)) else configShow L R args)"

end
