(* ===== verification/Cli_Submissions.thy ===== *)
theory Cli_Submissions
  imports Cli_Profiles
begin

text \<open>
  The commands on submissions, their files and their delivery events: \<open>internal/cli/submission.go\<close> and
  \<open>event.go\<close>. Copying a file out works on the files of the host. The rows that a listing preloads (the form,
  the submission of an event, its notification) are looked up in the tables it leaves. \<open>valid\<close> is
  \<open>json.Valid\<close>; the rows of files have no time of creation in the model.
\<close>

section \<open>Views\<close>

record webhookEventView =
  we_id :: nat
  we_submission_id :: nat
  we_form_id :: nat
  we_form_name :: string
  we_status :: string
  we_attempt_count :: int
  we_last_attempt_error :: string
  we_next_attempt_at :: "gotime option"
  we_last_attempt_at :: "gotime option"
  we_created_at :: gotime

record emailEventView = webhookEventView +
  we_email_delivery_id :: "nat option"
  we_email_delivery_name :: string

record fileView =
  qv_id :: nat
  qv_submission_id :: nat
  qv_field_name :: string
  qv_filename :: string
  qv_content_type :: string
  qv_size :: int

datatype json_data = JsonData string | TextData string

record submissionView =
  bv_id :: nat
  bv_form_id :: nat
  bv_form_name :: string
  bv_data :: json_data
  bv_user_agent :: string
  bv_is_spam :: bool
  bv_webhook_events :: "webhookEventView list"
  bv_email_events :: "emailEventView list"
  bv_files :: "fileView list"
  bv_created_at :: gotime

record submissionPageView =
  pv_items :: "submissionView list"
  pv_page :: int
  pv_per_page :: int
  pv_total_count :: nat
  pv_total_pages :: int

datatype submission_result =
    SubmissionItem submissionView | SubmissionItems submissionPageView | SubmissionDeleted nat | FileItems "fileView list"
  | FileStreamed | FileCopied nat nat string int

definition event_place :: "nat \<Rightarrow> database \<Rightarrow> nat \<times> string" where
  "event_place submissionID d =
     (case find (\<lambda>s. sb_ID s = submissionID) (submissions d) of
        None \<Rightarrow> (0, [])
      | Some s \<Rightarrow> (sb_FormID s, case find (\<lambda>f. fm_ID f = sb_FormID s) (forms d) of None \<Rightarrow> [] | Some f \<Rightarrow> fm_Name f))"

definition newWebhookEventView :: "nat \<times> string \<Rightarrow> delivery_event \<Rightarrow> webhookEventView" where
  "newWebhookEventView place e =
     \<lparr>we_id = ev_ID e, we_submission_id = ev_SubmissionID e, we_form_id = fst place, we_form_name = snd place,
      we_status = status_text (ev_Status e), we_attempt_count = ev_AttemptCount e, we_last_attempt_error = ev_LastAttemptErr e,
      we_next_attempt_at = ev_NextAttemptAt e, we_last_attempt_at = ev_LastAttemptAt e, we_created_at = ev_CreatedAt e\<rparr>"

definition newEmailEventView :: "nat \<times> string \<Rightarrow> string \<Rightarrow> email_event \<Rightarrow> emailEventView" where
  "newEmailEventView place delivery e =
     \<lparr>we_id = ev_ID e, we_submission_id = ev_SubmissionID e, we_form_id = fst place, we_form_name = snd place,
      we_status = status_text (ev_Status e), we_attempt_count = ev_AttemptCount e, we_last_attempt_error = ev_LastAttemptErr e,
      we_next_attempt_at = ev_NextAttemptAt e, we_last_attempt_at = ev_LastAttemptAt e, we_created_at = ev_CreatedAt e,
      we_email_delivery_id = ev_EmailDeliveryID e, we_email_delivery_name = delivery\<rparr>"

definition newFileView :: "submission_file \<Rightarrow> fileView" where
  "newFileView f =
     \<lparr>qv_id = sf_ID f, qv_submission_id = sf_SubmissionID f, qv_field_name = sf_FieldName f, qv_filename = sf_Filename f,
      qv_content_type = sf_ContentType f, qv_size = sf_Size f\<rparr>"

definition decodeSubmissionData :: "(string \<Rightarrow> bool) \<Rightarrow> string \<Rightarrow> json_data" where
  "decodeSubmissionData valid raw = (if valid raw then JsonData raw else TextData (trim_space raw))"

definition delivery_name :: "email_event \<Rightarrow> database \<Rightarrow> string" where
  "delivery_name e d =
     (case ev_EmailDeliveryID e of
        None \<Rightarrow> []
      | Some i \<Rightarrow> (case find (\<lambda>x. ed_ID x = i) (email_deliveries d) of None \<Rightarrow> [] | Some x \<Rightarrow> ed_Name x))"

definition newSubmissionView :: "(string \<Rightarrow> bool) \<Rightarrow> database \<Rightarrow> submission_details \<Rightarrow> submissionView" where
  "newSubmissionView valid d sd =
     (let s = sd_Submission sd; formName = (case sd_Form sd of None \<Rightarrow> [] | Some f \<Rightarrow> fm_Name f); place = (sb_FormID s, formName) in
      \<lparr>bv_id = sb_ID s, bv_form_id = sb_FormID s, bv_form_name = formName, bv_data = decodeSubmissionData valid (sb_DataJSON s),
       bv_user_agent = sb_UserAgent s, bv_is_spam = sb_IsSpam s,
       bv_webhook_events = map (newWebhookEventView place) (sd_WebhookEvents sd),
       bv_email_events = map (\<lambda>e. newEmailEventView place (delivery_name e d) e) (sd_EmailEvents sd),
       bv_files = map newFileView (sd_Files sd), bv_created_at = sb_CreatedAt s\<rparr>)"

section \<open>Creating a submission\<close>

definition upload_header :: "string \<Rightarrow> int \<Rightarrow> opened_file \<Rightarrow> file_header" where
  "upload_header filename bytes file =
     \<lparr>fh_Filename = filename, fh_Size = bytes, fh_Open = Inr (of_Content file), fh_Read = of_ReadError file,
      fh_Seek = of_SeekError file\<rparr>"

definition open_upload :: "golib \<Rightarrow> runner \<Rightarrow> string \<Rightarrow> string \<Rightarrow> cli_failure + UploadedFile" where
  "open_upload L R fieldName path =
     (case rn_Open R path of
        Inl e \<Rightarrow> Inl (validationError (''open upload file: '' @ err_text e))
      | Inr file \<Rightarrow>
     case of_Size file of
        Inl e \<Rightarrow> Inl (validationError (''inspect upload file: '' @ err_text e))
      | Inr bytes \<Rightarrow>
     let filename = path_base path; header = upload_header filename bytes file in
     case ValidateFile L header of
        Inl e \<Rightarrow> Inl (validationError (err_text e))
      | Inr _ \<Rightarrow>
     case DetectFileContentType L header (of_Content file) filename of
        Inl e \<Rightarrow> Inl (validationError (err_text e))
      | Inr contentType \<Rightarrow>
          Inr \<lparr>uf_FieldName = fieldName, uf_Filename = filename, uf_ContentType = contentType, uf_Size = bytes, uf_Data = of_Content file\<rparr>)"

fun open_each :: "golib \<Rightarrow> runner \<Rightarrow> string list \<Rightarrow> string list \<Rightarrow> cli_failure + UploadedFile list" where
  "open_each L R earlier [] = Inr []"
| "open_each L R earlier (s # specs) =
     (case split_equals s of (name0, value0) \<Rightarrow>
      let fieldName = trim_space name0; path = (case value0 of None \<Rightarrow> [] | Some v \<Rightarrow> trim_space v) in
      if value0 = None \<or> fieldName = [] \<or> path = [] then Inl (validationError ''file must use FIELD=PATH format'')
      else if count_list earlier fieldName + 1 > MaxFilesPerField
      then Inl (validationError (''too many files for field '' @ fieldName))
      else case open_upload L R fieldName path of
        Inl e \<Rightarrow> Inl e
      | Inr u \<Rightarrow> (case open_each L R (fieldName # earlier) specs of Inl e \<Rightarrow> Inl e | Inr us \<Rightarrow> Inr (u # us)))"

definition openCLIUploads :: "golib \<Rightarrow> runner \<Rightarrow> string list \<Rightarrow> cli_failure + UploadedFile list" where
  "openCLIUploads L R specs =
     (if length specs > MaxTotalFiles then Inl (validationError ''too many files'') else open_each L R [] specs)"

definition too_many_fields :: "runner \<Rightarrow> payload \<Rightarrow> bool" where
  "too_many_fields R p \<longleftrightarrow>
     (case rn_Config R of None \<Rightarrow> False | Some cfg \<Rightarrow> cf_MaxInputFields cfg > 0 \<and> int (length p) > cf_MaxInputFields cfg)"

definition decode_payload :: "golib \<Rightarrow> string \<Rightarrow> payload cmd" where
  "decode_payload L s = c_of (case DecodeSubmissionPayload L s of
     Inl _ \<Rightarrow> Inl (validationError ''data file must contain one JSON object'') | Inr p \<Rightarrow> Inr p)"

definition submissionCreate :: "golib \<Rightarrow> (string \<Rightarrow> bool) \<Rightarrow> runner \<Rightarrow> string list \<Rightarrow> submission_result cmd" where
  "submissionCreate L valid R args =
     c_bind (parseFlags L [uintF ''form-id'', stringF ''slug'', stringF ''data-file'', (''user-agent'', StringVal ''miniform-cli''),
                           (''file'', ListVal [])] ''submission.create'' args) (\<lambda>st.
     c_bind (exactly_one (uint_flag st ''form-id'') (string_flag st ''slug'') ''form-id'') (\<lambda>_.
     c_bind (requireString (string_flag st ''data-file'') ''data-file'') (\<lambda>_.
     c_bind (c_valid (readFileValue R (string_flag st ''data-file''))) (\<lambda>payloadText.
     c_bind (decode_payload L payloadText) (\<lambda>payload.
     c_bind (c_check (\<not> too_many_fields R payload) (validationError ''submission payload exceeds max input fields'')) (\<lambda>_.
     c_bind (c_of (openCLIUploads L R (list_flag st ''file''))) (\<lambda>uploads.
     c_bind (requireDatabase R) (\<lambda>R.
     c_bind (by_id_or_slug (uint_flag st ''form-id'') (string_flag st ''slug'')) (\<lambda>lf.
     c_bind (c_db (CreateSubmissionWithFiles L lf payload (string_flag st ''user-agent'') (data_directory R) uploads)) (\<lambda>s.
     c_bind (c_db (GetSubmissionByID (sb_ID s))) (\<lambda>loaded s.
     (Inr (SubmissionItem (newSubmissionView valid (db (fst s)) loaded)), s))))))))))))"

section \<open>Reading submissions\<close>

definition listed_details :: "database \<Rightarrow> submission \<Rightarrow> submission_details" where
  "listed_details d s =
     \<lparr>sd_Submission = s, sd_Form = find (\<lambda>f. fm_ID f = sb_FormID s) (forms d), sd_WebhookEvents = [], sd_EmailEvents = [], sd_Files = []\<rparr>"

definition submissionList :: "golib \<Rightarrow> (string \<Rightarrow> bool) \<Rightarrow> runner \<Rightarrow> string list \<Rightarrow> submission_result cmd" where
  "submissionList L valid R args =
     c_bind (parseFlags L [uintF ''form-id'', (''range'', StringVal ''all''), stringF ''query'', stringF ''spam'',
                           (''page'', IntVal 1), (''per-page'', IntVal 20)] ''submission.list'' args) (\<lambda>st.
     c_bind (c_of (parseOptionalBool (string_flag st ''spam''))) (\<lambda>spamFilter.
     c_bind (requireDatabase R) (\<lambda>_.
     c_bind (c_db (ListSubmissions
       \<lparr>fi_FormID = uint_flag st ''form-id'', fi_Range = string_flag st ''range'', fi_Query = string_flag st ''query'',
        fi_Page = int_flag st ''page'', fi_PerPage = int_flag st ''per-page'', fi_IsSpam = spamFilter\<rparr>)) (\<lambda>page s.
     (Inr (SubmissionItems
       \<lparr>pv_items = map (\<lambda>x. newSubmissionView valid (db (fst s)) (listed_details (db (fst s)) x)) (pg_Items page), pv_page = pg_Page page,
        pv_per_page = pg_PerPage page, pv_total_count = pg_TotalCount page, pv_total_pages = pg_TotalPages page\<rparr>), s)))))"

definition submissionGet :: "golib \<Rightarrow> (string \<Rightarrow> bool) \<Rightarrow> runner \<Rightarrow> string list \<Rightarrow> submission_result cmd" where
  "submissionGet L valid R args =
     c_bind (parseFlags L [uintF ''id''] ''submission.get'' args) (\<lambda>st.
     c_bind (requireUint (uint_flag st ''id'') ''id'') (\<lambda>_.
     c_bind (requireDatabase R) (\<lambda>_.
     c_bind (c_db (GetSubmissionByID (uint_flag st ''id''))) (\<lambda>sd s.
     (Inr (SubmissionItem (newSubmissionView valid (db (fst s)) sd)), s)))))"

definition submissionDelete :: "golib \<Rightarrow> runner \<Rightarrow> string list \<Rightarrow> submission_result cmd" where
  "submissionDelete L R args = confirmed L R ''submission.delete'' ''submission delete'' args (\<lambda>i R.
     c_bind (c_db (DeleteSubmission L (data_directory R) i)) (\<lambda>_. c_ret (SubmissionDeleted i)))"

definition submissionFileList :: "golib \<Rightarrow> runner \<Rightarrow> string list \<Rightarrow> submission_result cmd" where
  "submissionFileList L R args =
     c_bind (parseFlags L [uintF ''id''] ''submission.file-list'' args) (\<lambda>st.
     c_bind (requireUint (uint_flag st ''id'') ''id'') (\<lambda>_.
     c_bind (requireDatabase R) (\<lambda>_.
     c_bind (c_db (GetSubmissionByID (uint_flag st ''id''))) (\<lambda>sd.
     c_ret (FileItems (map newFileView (sd_Files sd)))))))"

section \<open>Copying a file out\<close>

text \<open>\<open>os.CreateTemp(dir, "." + base + ".tmp-*")\<close>, as \<open>temp_name\<close> of theory \<open>Host\<close> with another pattern.\<close>

fun copy_name :: "'c host \<Rightarrow> string \<Rightarrow> string \<Rightarrow> int \<Rightarrow> nat list \<Rightarrow> (string \<times> nat list) option" where
  "copy_name h dir base tries [] = None"
| "copy_name h dir base tries (n # ns) =
     (let p = path_join dir (''.'' @ base @ ''.tmp-'' @ dec_digits n) in
      if node_at h p = None then Some (p, ns) else if tries \<le> 1 then None else copy_name h dir base (tries - 1) ns)"

definition create_copy :: "string \<Rightarrow> string \<Rightarrow> ('c, string) host_prog" where
  "create_copy dir base = bnd sys_ok (\<lambda>_ w.
     if \<not> is_directory (db w) dir then (Inl (Sentinel ErrNotExist), w)
     else (case copy_name (db w) dir base 10000 (entropy w) of
             None \<Rightarrow> (Inl (Plain ''file exists''), w)
           | Some (p, ns) \<Rightarrow> (Inr p, w\<lparr>entropy := ns, db := put_file p [] (db w)\<rparr>)))"

text \<open>\<open>os.Link\<close>: \<open>file_exists\<close> is the error that \<open>os.IsExist\<close> recognises.\<close>

definition file_exists :: err where
  "file_exists = Plain ''file exists''"

definition os_Link :: "string \<Rightarrow> string \<Rightarrow> ('c, unit) host_prog" where
  "os_Link a b = stmt (\<lambda>h. case lookup h a of
     Inl e \<Rightarrow> Inl e
   | Inr n \<Rightarrow> if node_at h b \<noteq> None then Inl file_exists else Inr ((), put_node b n h))"

definition write_bytes :: "string \<Rightarrow> string \<Rightarrow> ('c, unit) host_prog" where
  "write_bytes p s = stmt (\<lambda>h. Inr ((), put_file p s h))"

text \<open>A call on the open file; when it fails the file is closed, and both errors count.\<close>

definition or_close :: "('c, unit) host_prog \<Rightarrow> ('c, unit) host_prog" where
  "or_close m = catch m (\<lambda>r. case r of
     Inr _ \<Rightarrow> ret ()
   | Inl e \<Rightarrow> catch sys_ok (\<lambda>c. fail (case join_err (Some e) (error_of c) of None \<Rightarrow> e | Some x \<Rightarrow> x)))"

definition c_finally :: "'a cmd \<Rightarrow> 'b cmd \<Rightarrow> 'a cmd" where
  "c_finally m f = (\<lambda>s. case m s of (r, s') \<Rightarrow> (r, snd (f s')))"

definition link_failure :: "err \<Rightarrow> cli_failure" where
  "link_failure e =
     (if e = file_exists then conflictError ''destination already exists; pass --force to overwrite it''
      else internalError ''create destination file'' e)"

text \<open>From the writing of the temporary file on; it is removed at the end whatever happens.\<close>

definition place_copy :: "string \<Rightarrow> string \<Rightarrow> string \<Rightarrow> bool \<Rightarrow> unit cmd" where
  "place_copy temporaryPath source destination force =
     c_bind (c_host (internalError ''copy submission file'') (or_close (write_bytes temporaryPath source))) (\<lambda>_.
     c_bind (c_host (internalError ''sync submission file'') (or_close sys_ok)) (\<lambda>_.
     c_bind (c_host (internalError ''close destination file'') sys_ok) (\<lambda>_.
     if force then c_host (internalError ''replace destination file'') (os_Rename temporaryPath destination)
     else c_bind (c_host link_failure (os_Link temporaryPath destination)) (\<lambda>_.
          c_host (internalError ''remove temporary destination file'') (os_Remove temporaryPath)))))"

definition copySubmissionFile :: "string \<Rightarrow> string \<Rightarrow> bool \<Rightarrow> unit cmd" where
  "copySubmissionFile source destination force =
     c_bind (c_host (internalError ''create destination file'') (create_copy (path_dir destination) (path_base destination))) (\<lambda>temporaryPath.
     c_finally (place_copy temporaryPath source destination force) (c_host Domain (os_Remove temporaryPath)))"

definition absolute :: "runner \<Rightarrow> string \<Rightarrow> string" where
  "absolute R p = (if path_is_abs p then path_clean p else path_join (rn_Directory R) p)"

definition submissionFileCopy :: "golib \<Rightarrow> runner \<Rightarrow> string list \<Rightarrow> submission_result cmd" where
  "submissionFileCopy L R args =
     c_bind (parseFlags L [uintF ''id'', uintF ''file-id'', stringF ''output'', boolF ''force''] ''submission.file-copy'' args) (\<lambda>st.
     c_bind (requireUint (uint_flag st ''id'') ''id'') (\<lambda>_.
     c_bind (requireUint (uint_flag st ''file-id'') ''file-id'') (\<lambda>_.
     let output = string_flag st ''output'' in
     c_bind (requireString output ''output'') (\<lambda>_.
     c_bind (c_check (\<not> (output = ''-'' \<and> rn_JSON R)) (usageError ''--output - cannot be combined with --json'')) (\<lambda>_.
     c_bind (c_check (rn_Config R \<noteq> None) (no_configuration ''resolve upload path'')) (\<lambda>_.
     c_bind (requireDatabase R) (\<lambda>R.
     c_bind (c_db (GetSubmissionFile (uint_flag st ''id'') (uint_flag st ''file-id''))) (\<lambda>f.
     c_bind (c_with (internalError ''open submission file'') (OpenSubmissionFile L f)) (\<lambda>source.
     if output = ''-''
     then c_bind (c_host (internalError ''stream submission file'') (print_line source)) (\<lambda>_. c_ret FileStreamed)
     else c_bind (copySubmissionFile source output (bool_flag st ''force'')) (\<lambda>_.
          c_ret (FileCopied (uint_flag st ''id'') (uint_flag st ''file-id'') (absolute R output) (sf_Size f))))))))))))"

definition runSubmission :: "golib \<Rightarrow> (string \<Rightarrow> bool) \<Rightarrow> runner \<Rightarrow> string list \<Rightarrow> submission_result cmd" where
  "runSubmission L valid R args =
     c_bind (requireAction ''submission'' args) (\<lambda>(action, args).
     if action = ''create'' then submissionCreate L valid R args
     else if action = ''list'' then submissionList L valid R args
     else if action = ''get'' then submissionGet L valid R args
     else if action = ''delete'' then submissionDelete L R args
     else if action = ''file-list'' then submissionFileList L R args
     else if action = ''file-copy'' then submissionFileCopy L R args
     else c_fail (usageError (''unknown submission action: '' @ action)))"

section \<open>Events\<close>

datatype event_result = WebhookEvents "webhookEventView list" | EmailEvents "emailEventView list" | EventScheduled nat string

definition event_type :: "golib \<Rightarrow> string \<Rightarrow> string cmd" where
  "event_type L raw =
     (let typeName = to_lower L (trim_space raw) in
      c_bind (c_check (typeName = ''webhook'' \<or> typeName = ''email'') (validationError ''event type must be webhook or email''))
        (\<lambda>_. c_ret typeName))"

definition eventList :: "golib \<Rightarrow> runner \<Rightarrow> string list \<Rightarrow> event_result cmd" where
  "eventList L R args =
     c_bind (parseFlags L [stringF ''type'', uintF ''form-id'', stringF ''status'', (''limit'', IntVal 100)] ''event.list'' args) (\<lambda>st.
     c_bind (event_type L (string_flag st ''type'')) (\<lambda>typeName.
     c_bind (requireDatabase R) (\<lambda>_.
     if typeName = ''webhook''
     then c_bind (c_db (ListWebhookEvents (uint_flag st ''form-id'') (string_flag st ''status'') (int_flag st ''limit''))) (\<lambda>es s.
       (Inr (WebhookEvents (map (\<lambda>e. newWebhookEventView (event_place (ev_SubmissionID e) (db (fst s))) e) es)), s))
     else c_bind (c_db (ListEmailEvents (uint_flag st ''form-id'') (string_flag st ''status'') (int_flag st ''limit''))) (\<lambda>es s.
       (Inr (EmailEvents (map (\<lambda>e. newEmailEventView (event_place (ev_SubmissionID e) (db (fst s))) (delivery_name e (db (fst s))) e) es)), s)))))"

definition eventRetry :: "golib \<Rightarrow> runner \<Rightarrow> string list \<Rightarrow> event_result cmd" where
  "eventRetry L R args =
     c_bind (parseFlags L [stringF ''type'', uintF ''id'', boolF ''yes''] ''event.retry'' args) (\<lambda>st.
     c_bind (requireUint (uint_flag st ''id'') ''id'') (\<lambda>_.
     c_bind (c_check (bool_flag st ''yes'') (usageError ''event retry requires --yes'')) (\<lambda>_.
     c_bind (event_type L (string_flag st ''type'')) (\<lambda>typeName.
     c_bind (requireDatabase R) (\<lambda>_.
     c_bind (c_db (if typeName = ''webhook'' then RetryWebhookEvent (uint_flag st ''id'') else RetryEmailEvent (uint_flag st ''id''))) (\<lambda>_.
     c_ret (EventScheduled (uint_flag st ''id'') typeName)))))))"

definition runEvent :: "golib \<Rightarrow> runner \<Rightarrow> string list \<Rightarrow> event_result cmd" where
  "runEvent L R args =
     c_bind (requireAction ''event'' args) (\<lambda>(action, args).
     if action = ''list'' then eventList L R args
     else if action = ''retry'' then eventRetry L R args
     else c_fail (usageError (''unknown event action: '' @ action)))"

end
