(* ===== verification/Cli_Run.thy ===== *)
theory Cli_Run
  imports Cli_Submissions Server
begin

text \<open>
  The data CLI as a whole: \<open>internal/cli/runner.go\<close> and \<open>output.go\<close>, \<open>runHelp\<close> of \<open>help.go\<close>, and the entry
  point \<open>cmd/miniform/main.go\<close>, which chooses between the data CLI, the server and the deployment commands.
  What a run prints is a \<open>report\<close>: the value or the error that the JSON encoder or the text form is given.
\<close>

section \<open>Arguments\<close>

definition global_flags :: "string list" where
  "global_flags = [''--json'', ''--json=false'', ''--show-secrets'', ''--show-secrets=false'']"

definition stripKnownGlobalFlags :: "string list \<Rightarrow> string list" where
  "stripKnownGlobalFlags args = filter (\<lambda>a. a \<notin> set global_flags) args"

definition helpRequested :: "string list \<Rightarrow> bool" where
  "helpRequested args \<longleftrightarrow> list_ex (\<lambda>a. a \<in> {''-h'', ''-help'', ''--help''}) args"

definition IsInvocation :: "string list \<Rightarrow> bool" where
  "IsInvocation args \<longleftrightarrow> (case stripKnownGlobalFlags args of [] \<Rightarrow> False | a # _ \<Rightarrow> IsCommand a)"

definition RequiresDatabase :: "string list \<Rightarrow> bool" where
  "RequiresDatabase args0 \<longleftrightarrow>
     (let args = stripKnownGlobalFlags args0 in
      if helpRequested args then False
      else case args of
        a # b # _ \<Rightarrow> (case find (\<lambda>c. cs_Name c = a @ '' '' @ b) commandManifest of None \<Rightarrow> False | Some c \<Rightarrow> cs_RequiresDatabase c)
      | _ \<Rightarrow> False)"

definition RequiresConfig :: "string list \<Rightarrow> bool" where
  "RequiresConfig args0 \<longleftrightarrow>
     (let args = stripKnownGlobalFlags args0 in
      if helpRequested args then False
      else if RequiresDatabase args then True
      else case args of a # b # _ \<Rightarrow> a = ''config'' \<and> b = ''show'' | _ \<Rightarrow> False)"

text \<open>The flags that were read before an error stay set: they decide how the error is printed.\<close>

fun extractGlobalFlags :: "runner \<Rightarrow> string list \<Rightarrow> runner \<times> (cli_failure + string list)" where
  "extractGlobalFlags R [] = (R, Inr [])"
| "extractGlobalFlags R (a # args) =
     (if a = ''--json'' then extractGlobalFlags (R\<lparr>rn_JSON := True\<rparr>) args
      else if a = ''--show-secrets'' then extractGlobalFlags (R\<lparr>rn_ShowSecrets := True\<rparr>) args
      else if a = ''--json=false'' then extractGlobalFlags (R\<lparr>rn_JSON := False\<rparr>) args
      else if a = ''--show-secrets=false'' then extractGlobalFlags (R\<lparr>rn_ShowSecrets := False\<rparr>) args
      else if prefix ''--json='' a \<or> prefix ''--show-secrets='' a
      then (R, Inl (usageError ''global boolean flags accept only true or false''))
      else case extractGlobalFlags R args of (R', Inl e) \<Rightarrow> (R', Inl e) | (R', Inr clean) \<Rightarrow> (R', Inr (a # clean)))"

fun commandName :: "string list \<Rightarrow> string" where
  "commandName [] = []"
| "commandName [a] = a"
| "commandName (a # b # _) = a @ ''.'' @ b"

section \<open>Dispatch\<close>

datatype cli_data =
    Commands "CommandSpec list" | FormData form_result | EmailData email_result | MailerData "mailerView profile_result"
  | CaptchaData "captchaView profile_result" | SubmissionData submission_result | EventData event_result
  | AccountData account_result | ConfigData effectiveConfigView

definition c_data :: "('a \<Rightarrow> cli_data) \<Rightarrow> 'a cmd \<Rightarrow> cli_data option cmd" where
  "c_data f m = c_bind m (\<lambda>x. c_ret (Some (f x)))"

definition unknown_topic :: "string \<Rightarrow> cli_failure" where
  "unknown_topic q0 = usageError (''unknown command help topic: '' @ q0)"

definition runHelp :: "runner \<Rightarrow> string list \<Rightarrow> cli_data option cmd" where
  "runHelp R args =
     (let q0 = trim_space (join '' '' args); matching = matchingCommands q0 in
      if rn_JSON R
      then if q0 = [] then c_ret (Some (Commands commandManifest))
           else if matching = [] then c_fail (unknown_topic q0) else c_ret (Some (Commands matching))
      else if q0 = [] then c_bind (c_print writeRootHelp) (\<lambda>_. c_ret None)
      else if matching = [] then c_fail (unknown_topic q0)
      else c_bind (c_print (write_specs matching)) (\<lambda>_. c_ret None))"

text \<open>A file that went to the standard output is the one result that is not printed after it.\<close>

definition submission_data :: "submission_result \<Rightarrow> cli_data option" where
  "submission_data r = (case r of FileStreamed \<Rightarrow> None | _ \<Rightarrow> Some (SubmissionData r))"

record cli_lib =
  cl_Go :: golib
  cl_Html :: htmllib
  cl_Decode :: "string \<Rightarrow> string option"
  cl_ValidJSON :: "string \<Rightarrow> bool"

definition dispatch :: "cli_lib \<Rightarrow> runner \<Rightarrow> string list \<Rightarrow> cli_data option cmd" where
  "dispatch V R args =
     (let L = cl_Go V; D = cl_Decode V in
      case args of
        [] \<Rightarrow> c_ret None
      | c # args' \<Rightarrow>
          if c = ''commands'' then (if args' \<noteq> [] then c_fail (usageError ''commands does not accept positional arguments'')
                                    else c_ret (Some (Commands commandManifest)))
          else if c = ''help'' then runHelp R args'
          else if c = ''account'' then c_data AccountData (runAccount L R args')
          else if c = ''config'' then c_data ConfigData (runConfig L R args')
          else if c = ''form'' then c_data FormData (runForm L (cl_Html V) D R args')
          else if c = ''mailer'' then c_data MailerData (runMailer L R args')
          else if c = ''captcha'' then c_data CaptchaData (runCaptcha L R args')
          else if c = ''submission'' then c_bind (runSubmission L (cl_ValidJSON V) R args') (\<lambda>r. c_ret (submission_data r))
          else if c = ''event'' then c_data EventData (runEvent L R args')
          else if c = ''email'' then c_data EmailData (runEmail L D R args')
          else c_fail (usageError (''unknown command: '' @ c)))"

section \<open>Running\<close>

datatype report =
    Nothing | JsonSuccess string cli_data | PlainSuccess cli_data | JsonFailure string string string | PlainFailure string string

definition writeSuccess :: "runner \<Rightarrow> string \<Rightarrow> cli_data \<Rightarrow> err + report" where
  "writeSuccess R command data =
     (case rn_Write R of Some e \<Rightarrow> Inl e | None \<Rightarrow> Inr (if rn_JSON R then JsonSuccess command data else PlainSuccess data))"

definition writeFailure :: "runner \<Rightarrow> string \<Rightarrow> command_error \<Rightarrow> report" where
  "writeFailure R command e =
     (if rn_JSON R then JsonFailure command (ce_Code e) (ce_Message e) else PlainFailure (ce_Code e) (ce_Message e))"

definition failed_run :: "golib \<Rightarrow> runner \<Rightarrow> string \<Rightarrow> cli_failure \<Rightarrow> int \<times> report" where
  "failed_run L R command f = (let e = classifyError L f in (ce_ExitCode e, writeFailure R command e))"

text \<open>What a run gives, from what its command gave.\<close>

definition finish_run :: "golib \<Rightarrow> runner \<Rightarrow> string \<Rightarrow> cli_failure + cli_data option \<Rightarrow> int \<times> report" where
  "finish_run L R command r =
     (case r of
        Inl HelpShown \<Rightarrow> (ExitSuccess, Nothing)
      | Inl f \<Rightarrow> failed_run L R command f
      | Inr None \<Rightarrow> (ExitSuccess, Nothing)
      | Inr (Some data) \<Rightarrow>
          (case writeSuccess R command data of
             Inl e \<Rightarrow> failed_run L R command (internalError ''write command output'' e)
           | Inr out \<Rightarrow> (ExitSuccess, out)))"

definition Run :: "cli_lib \<Rightarrow> runner \<Rightarrow> string list \<Rightarrow> cli_state \<Rightarrow> (int \<times> report) \<times> cli_state" where
  "Run V R0 args s =
     (case extractGlobalFlags R0 args of
        (R, Inl e) \<Rightarrow> (failed_run (cl_Go V) R [] e, s)
      | (R, Inr clean) \<Rightarrow>
          if clean = [] then ((ExitSuccess, Nothing), snd (c_print writeRootHelp s))
          else (case dispatch V R clean s of (r, s') \<Rightarrow> (finish_run (cl_Go V) R (commandName clean) r, s')))"

definition wants_json :: "string list \<Rightarrow> bool" where
  "wants_json args = foldl (\<lambda>j a. if a = ''--json'' then True else if a = ''--json=false'' then False else j) False args"

definition WriteStartupFailure :: "string list \<Rightarrow> string \<Rightarrow> err list \<Rightarrow> int \<times> report" where
  "WriteStartupFailure args operation causes =
     (let message = (case causes of [] \<Rightarrow> operation @ '' failed'' | e # _ \<Rightarrow> operation @ '': '' @ err_text e) in
      (ExitInternal,
       if wants_json args then JsonFailure (commandName (stripKnownGlobalFlags args)) ''internal_error'' message
       else PlainFailure ''internal_error'' message))"

section \<open>The data CLI of the process\<close>

text \<open>
  The environment of the process: the configuration that \<open>config.Load\<close> gives, the limits of the connection pool, what making a directory,
  opening the database and setting up its pool give, and the migration, which works on the tables.
\<close>

record process =
  pr_Load :: "err + Config"
  pr_Mkdir :: "string \<Rightarrow> err option"
  pr_MaxOpenConns :: int
  pr_MaxIdleConns :: int
  pr_OpenError :: "err option"
  pr_PoolError :: "err option"
  pr_Migrate :: "unit db_prog"
  pr_Runner :: runner

definition prepare_database :: "golib \<Rightarrow> process \<Rightarrow> Config \<Rightarrow> unit db_prog" where
  "prepare_database L P cfg =
     bnd (wrap_err ''prepare storage'' (of_result (EnsureDirectories L (pr_Mkdir P) cfg))) (\<lambda>_.
     bnd (of_result (fst (Connect (pr_OpenError P) (pr_PoolError P) (NewManager (cf_DatabasePath cfg) (pr_MaxOpenConns P) (pr_MaxIdleConns P))))) (\<lambda>_.
     wrap_err ''prepare database'' (pr_Migrate P)))"

definition connector :: "golib \<Rightarrow> process \<Rightarrow> Config option \<Rightarrow> (bool \<times> Config option) db_prog" where
  "connector L P given =
     bnd (case given of Some cfg \<Rightarrow> ret cfg | None \<Rightarrow> wrap_err ''load configuration'' (of_result (pr_Load P))) (\<lambda>cfg.
     bnd (prepare_database L P cfg) (\<lambda>_. ret (True, Some cfg)))"

definition data_runner :: "golib \<Rightarrow> process \<Rightarrow> Config option \<Rightarrow> runner" where
  "data_runner L P cfg = (pr_Runner P)\<lparr>rn_Database := Connector (connector L P cfg), rn_Config := cfg, rn_JSON := False, rn_ShowSecrets := False\<rparr>"

definition runDataCLI :: "cli_lib \<Rightarrow> process \<Rightarrow> string list \<Rightarrow> cli_state \<Rightarrow> (int \<times> report) \<times> cli_state" where
  "runDataCLI V P args s =
     (if RequiresConfig args
      then case pr_Load P of
          Inl e \<Rightarrow> (WriteStartupFailure args ''load configuration'' [e], s)
        | Inr cfg \<Rightarrow> Run V (data_runner (cl_Go V) P (Some cfg)) args s
      else Run V (data_runner (cl_Go V) P None) args s)"

section \<open>The entry point\<close>

definition ErrHelp :: err where
  "ErrHelp = Plain ''flag: help requested''"

definition report_code :: "err option \<Rightarrow> int" where
  "report_code e = (if e = None \<or> e = Some ErrHelp then 0 else 1)"

text \<open>What the arguments choose.\<close>

datatype launch =
    DataCommand | ServerCommand "string list" | VersionCommand | UsageCommand | DeploymentCommand string
  | UnknownCommand string | ExtraArguments string

definition deployment_names :: "string list" where
  "deployment_names = [''install'', ''update'', ''reload'', ''backup'', ''restore-db'', ''check'']"

definition execute :: "string list \<Rightarrow> launch" where
  "execute args =
     (if IsInvocation args then DataCommand
      else case args of
        [] \<Rightarrow> ServerCommand []
      | a # args' \<Rightarrow>
          if a \<in> {''version'', ''--version'', ''-v''} then VersionCommand
          else if a \<in> {''--help'', ''-h''} then UsageCommand
          else if a \<in> {''serve'', ''server'', ''run''} then ServerCommand args'
          else if prefix ''-'' a then ServerCommand args
          else if a \<notin> set deployment_names then UnknownCommand a
          else if args' \<noteq> [] then ExtraArguments a
          else DeploymentCommand a)"

text \<open>The server: its steps in order, with what each of them gives; \<open>sv_Cancelled\<close> tells after which steps a
  signal has arrived. The time that \<open>Serve\<close> leaves for a shutdown is in seconds.\<close>

datatype server_step = PrintVersion | MakeApp | Migrate | SeedData | Serve int | CloseApp

record server_env =
  sv_Fails :: "server_step \<Rightarrow> err option"
  sv_Cancelled :: "server_step \<Rightarrow> bool"
  sv_Production :: bool

definition serve_app :: "server_env \<Rightarrow> bool \<Rightarrow> err option \<times> server_step list" where
  "serve_app E seed =
     (if sv_Cancelled E MakeApp then (None, [])
      else case sv_Fails E Migrate of
        Some e \<Rightarrow> (if sv_Cancelled E Migrate then None else Some (Wrap ''prepare database'' e), [Migrate])
      | None \<Rightarrow>
          if seed then (if sv_Cancelled E SeedData then None else sv_Fails E SeedData, [Migrate, SeedData])
          else (let timeout = (if sv_Production E then 10 else 2) in
                (sv_Fails E (Serve timeout), [Migrate, Serve timeout])))"

definition runServer :: "golib \<Rightarrow> server_env \<Rightarrow> string list \<Rightarrow> err option \<times> server_step list" where
  "runServer L E args =
     (case Parse L [boolF ''seed'', boolF ''version''] args of
        Inl HelpRequested \<Rightarrow> (Some ErrHelp, [])
      | Inl (FlagError message) \<Rightarrow> (Some (Plain message), [])
      | Inr st \<Rightarrow>
          if fl_Args st \<noteq> [] then (Some (Plain (''unexpected server argument '' @ lib_quote L (hd (fl_Args st)))), [])
          else if bool_flag st ''version'' then (sv_Fails E PrintVersion, [PrintVersion])
          else case sv_Fails E MakeApp of
            Some e \<Rightarrow> (Some e, [MakeApp])
          | None \<Rightarrow> (case serve_app E (bool_flag st ''seed'') of (r, steps) \<Rightarrow> (r, MakeApp # steps @ [CloseApp])))"

text \<open>The process's exit code, given what each of the commands leads to.\<close>

definition process_exit :: "(string \<Rightarrow> err option) \<Rightarrow> (string list \<Rightarrow> err option) \<Rightarrow> err option \<Rightarrow> int \<Rightarrow> string list \<Rightarrow> int" where
  "process_exit deploy serve print data_code args =
     (case execute args of
        DataCommand \<Rightarrow> data_code
      | ServerCommand given \<Rightarrow> report_code (serve given)
      | VersionCommand \<Rightarrow> report_code print
      | UsageCommand \<Rightarrow> report_code print
      | DeploymentCommand name \<Rightarrow> report_code (deploy name)
      | UnknownCommand _ \<Rightarrow> 1
      | ExtraArguments _ \<Rightarrow> 1)"

end
