(* ===== verification/Cli_Laws.thy ===== *)
theory Cli_Laws
  imports Cli_Run Account_Laws Public_Laws
begin

text \<open>
  What a command of the data CLI does to the tables and how it may fail, by rules that follow the structure of
  a command. The rules are proved once, in a locale over what a step may do to the tables and which failures
  are allowed, for three uses: commands that only read, exit codes, and commands that stop before the tables.
\<close>

section \<open>Rules for commands\<close>

definition holds :: "(database world \<Rightarrow> database world \<Rightarrow> bool) \<Rightarrow> (cli_failure \<Rightarrow> bool) \<Rightarrow> 'a cmd \<Rightarrow> bool" where
  "holds step allowed m \<longleftrightarrow>
     (\<forall>s. step (fst s) (fst (snd (m s))) \<and> (\<forall>f. fst (m s) = Inl f \<longrightarrow> allowed f))"

definition source_ok :: "(database world \<Rightarrow> database world \<Rightarrow> bool) \<Rightarrow> (cli_failure \<Rightarrow> bool) \<Rightarrow> runner \<Rightarrow> bool" where
  "source_ok step allowed R \<longleftrightarrow>
     (\<forall>c w. rn_Database R = Connector c \<longrightarrow> step w (snd (c w)))
     \<and> (rn_Database R \<noteq> Opened \<longrightarrow> (\<forall>code message e. allowed (command_failure code message ExitInternal (Some e))))"

locale command_rules =
  fixes step :: "database world \<Rightarrow> database world \<Rightarrow> bool"
    and allowed :: "cli_failure \<Rightarrow> bool"
  assumes step_refl: "step w w"
    and step_trans: "step w1 w2 \<Longrightarrow> step w2 w3 \<Longrightarrow> step w1 w3"
begin

lemma ret: "holds step allowed (c_ret x)"
  by (simp add: holds_def c_ret_def step_refl)

lemma give: "holds step allowed (\<lambda>s. (Inr (g s), s))"
  by (simp add: holds_def step_refl)

lemma fail: "allowed f \<Longrightarrow> holds step allowed (c_fail f)"
  by (simp add: holds_def c_fail_def step_refl)

lemma of_sum: "(\<And>f. r = Inl f \<Longrightarrow> allowed f) \<Longrightarrow> holds step allowed (c_of r)"
  by (simp add: holds_def c_of_def step_refl)

lemma check: "allowed f \<Longrightarrow> holds step allowed (c_check ok f)"
  by (simp add: holds_def c_check_def step_refl)

lemma bind:
  assumes "holds step allowed m" "\<And>x. holds step allowed (f x)"
  shows "holds step allowed (c_bind m f)"
  unfolding holds_def
proof
  fix s
  obtain r s' where run: "m s = (r, s')" by (metis surj_pair)
  with assms(1) have m: "step (fst s) (fst s')" "\<And>g. r = Inl g \<Longrightarrow> allowed g"
    unfolding holds_def by (metis fst_conv snd_conv)+
  show "step (fst s) (fst (snd (c_bind m f s))) \<and> (\<forall>g. fst (c_bind m f s) = Inl g \<longrightarrow> allowed g)"
  proof (cases r)
    case (Inl e)
    with run m show ?thesis by (simp add: c_bind_def)
  next
    case (Inr x)
    have "step (fst s') (fst (snd (f x s')))" "\<forall>g. fst (f x s') = Inl g \<longrightarrow> allowed g"
      using assms(2) [of x] unfolding holds_def by blast+
    with run Inr m(1) show ?thesis by (auto simp: c_bind_def intro: step_trans)
  qed
qed

lemma map: "(\<And>x. holds step allowed (f x)) \<Longrightarrow> holds step allowed (c_map f xs)"
  by (induction xs) (simp_all add: ret bind)

lemma calling:
  "(\<And>w. step w (snd (m w))) \<Longrightarrow> (\<And>e. allowed (g e)) \<Longrightarrow> holds step allowed (c_with g m)"
  unfolding holds_def c_with_def failed_as_def by (auto simp: case_prod_unfold split: sum.splits)

lemma db: "(\<And>w. step w (snd (m w))) \<Longrightarrow> (\<And>e. allowed (Domain e)) \<Longrightarrow> holds step allowed (c_db m)"
  unfolding c_db_def by (rule calling)

lemma host: "(\<And>e. allowed (g e)) \<Longrightarrow> holds step allowed (c_host g m)"
  unfolding holds_def c_host_def failed_as_def by (auto simp: step_refl case_prod_unfold split: sum.splits)

lemma print: "holds step allowed (c_print ls)"
  by (simp add: holds_def c_print_def step_refl split: prod.splits)

lemma deferring:
  assumes "holds step allowed m" "holds step allowed f"
  shows "holds step allowed (c_finally m f)"
  unfolding holds_def c_finally_def case_prod_unfold fst_conv snd_conv
proof
  fix s
  have "step (fst s) (fst (snd (m s)))" "step (fst (snd (m s))) (fst (snd (f (snd (m s)))))"
    "\<forall>g. fst (m s) = Inl g \<longrightarrow> allowed g"
    using assms unfolding holds_def by blast+
  then show "step (fst s) (fst (snd (f (snd (m s))))) \<and> (\<forall>g. fst (m s) = Inl g \<longrightarrow> allowed g)"
    by (blast intro: step_trans)
qed

lemma choose: "holds step allowed a \<Longrightarrow> holds step allowed b \<Longrightarrow> holds step allowed (if c then a else b)"
  by simp

lemma maybe: "holds step allowed a \<Longrightarrow> (\<And>x. holds step allowed (f x)) \<Longrightarrow> holds step allowed (case v of None \<Rightarrow> a | Some x \<Rightarrow> f x)"
  by (cases v) simp_all

lemma pair: "(\<And>a b. holds step allowed (f a b)) \<Longrightarrow> holds step allowed (case p of (a, b) \<Rightarrow> f a b)"
  by (cases p) simp

lemma be: "holds step allowed (f x) \<Longrightarrow> holds step allowed (Let x f)"
  by (simp add: Let_def)

lemma data: "holds step allowed m \<Longrightarrow> holds step allowed (c_data f m)"
  unfolding c_data_def by (intro bind ret)

lemma database: "source_ok step allowed R \<Longrightarrow> holds step allowed (requireDatabase R)"
  unfolding requireDatabase_def source_ok_def
  by (cases "rn_Database R") (auto intro!: ret fail bind pair choose calling simp: internalError_def)

lemma flags:
  assumes "allowed HelpShown" "\<And>m. allowed (usageError m)"
  shows "holds step allowed (parseFlags L defs command args)"
  unfolding parseFlags_def using assms
  by (auto intro!: bind fail print ret split: sum.splits flag_error.splits)

lemma action: "(\<And>m. allowed (usageError m)) \<Longrightarrow> holds step allowed (requireAction r args)"
  unfolding requireAction_def by (auto intro!: fail ret split: list.splits)

lemma uint: "(\<And>m. allowed (usageError m)) \<Longrightarrow> holds step allowed (requireUint v n)"
  unfolding requireUint_def by (rule check)

lemma strings: "(\<And>m. allowed (usageError m)) \<Longrightarrow> holds step allowed (requireString v n)"
  unfolding requireString_def by (rule check)

lemma valid: "(\<And>m. allowed (validationError m)) \<Longrightarrow> holds step allowed (c_valid r)"
  unfolding c_valid_def by (rule of_sum) (auto split: sum.splits)

lemmas rules = bind pair be choose maybe ret give fail check flags action uint strings valid database map db host print deferring data

end

section \<open>Reading\<close>

definition keeps_tables :: "database world \<Rightarrow> database world \<Rightarrow> bool" where
  "keeps_tables w w' \<longleftrightarrow> db w' = db w"

definition any_failure :: "cli_failure \<Rightarrow> bool" where
  "any_failure f \<longleftrightarrow> True"

interpretation reading: command_rules keeps_tables any_failure
  by unfold_locales (simp_all add: keeps_tables_def)

lemma any_failure_simp [simp]: "any_failure f"
  by (simp add: any_failure_def)

lemma reading_db: "reads m \<Longrightarrow> holds keeps_tables any_failure (c_db m)"
  by (rule reading.db) (simp_all add: keeps_tables_def readsD [OF _ surjective_pairing])

lemma reading_with: "reads m \<Longrightarrow> holds keeps_tables any_failure (c_with g m)"
  by (rule reading.calling) (simp_all add: keeps_tables_def readsD [OF _ surjective_pairing])

lemma reading_of: "holds keeps_tables any_failure (c_of r)"
  by (rule reading.of_sum) simp

abbreviation only_reads :: "'a cmd \<Rightarrow> bool" where
  "only_reads m \<equiv> holds keeps_tables any_failure m"

definition quiet_source :: "runner \<Rightarrow> bool" where
  "quiet_source R \<longleftrightarrow> (\<forall>c. rn_Database R = Connector c \<longrightarrow> reads c)"

lemma quiet_source_ok: "quiet_source R \<Longrightarrow> source_ok keeps_tables any_failure R"
  by (simp add: source_ok_def quiet_source_def keeps_tables_def readsD [OF _ surjective_pairing])

lemmas reading_rules = reading.bind reading.pair reading.be reading.choose reading.maybe reading.ret reading.give reading.fail
  reading.check reading.flags reading.action reading.uint reading.strings reading.valid reading.database [OF quiet_source_ok]
  reading.map reading.print reading.data reading_of reading_db reading_with

section \<open>The commands that only read\<close>

lemma reads_commands [tx_keeps]:
  "reads forms_List" "reads (ListEmailDeliveries i)" "reads (MailerProfileUsage i)" "reads (CaptchaProfileUsage i)"
  "reads ListMailerProfiles" "reads (GetMailerProfileByID i)" "reads ListCaptchaProfiles" "reads (GetCaptchaProfileByID i)"
  "reads GetAdmin" "reads (GetSubmissionByID i)" "reads (GetSubmissionFile i j)" "reads (OpenSubmissionFile L f)"
  "reads (ListWebhookEvents i st n)" "reads (ListEmailEvents i st n)"
  unfolding forms_List_def ListEmailDeliveries_def MailerProfileUsage_def CaptchaProfileUsage_def ListMailerProfiles_def
    GetMailerProfileByID_def ListCaptchaProfiles_def GetCaptchaProfileByID_def listProfiles_def getProfile_def GetAdmin_def
    GetSubmissionByID_def GetSubmissionFile_def OpenSubmissionFile_def ListWebhookEvents_def ListEmailEvents_def list_events_def Let_def
  by (intro tx_keeps)+

lemma reads_ListSubmissions [tx_keeps]: "reads (ListSubmissions f)"
  unfolding ListSubmissions_def Let_def by (intro tx_keeps)

lemma reads_by_id_or_slug: "only_reads (by_id_or_slug i slug)"
  unfolding by_id_or_slug_def by (intro reading_db reads_if reads_GetByID reads_GetBySlug)

lemmas read_steps = reading_rules reads_by_id_or_slug tx_keeps

lemma reads_exactly_one: "only_reads (exactly_one i slug n)"
  unfolding exactly_one_def by (rule reading.check) simp

lemma form_reads:
  assumes "quiet_source R"
  shows "only_reads (formList L D R args)" "only_reads (formGet L D R args)" "only_reads (formCode L H R args)"
  unfolding formList_def formGet_def formCode_def by (intro read_steps reads_exactly_one; simp add: assms)+

lemma template_reads: "only_reads (formTemplateList L args)" "only_reads (formTemplateGet L args)"
  unfolding formTemplateList_def formTemplateGet_def by (intro read_steps; simp)+

lemma email_reads:
  assumes "quiet_source R"
  shows "only_reads (emailList L D R args)" "only_reads (emailGet L D R args)"
  unfolding emailList_def emailGet_def by (intro read_steps; simp add: assms)+

lemma mailer_reads:
  assumes "quiet_source R"
  shows "only_reads (mailerList L R args)" "only_reads (mailerGet L R args)"
  unfolding mailerList_def mailerGet_def newMailerView_def by (intro read_steps; simp add: assms)+

lemma captcha_reads:
  assumes "quiet_source R"
  shows "only_reads (captchaList L R args)" "only_reads (captchaGet L R args)"
  unfolding captchaList_def captchaGet_def newCaptchaView_def by (intro read_steps; simp add: assms)+

lemma account_reads: "quiet_source R \<Longrightarrow> only_reads (accountShow L R args)"
  unfolding accountShow_def by (intro read_steps; simp)

lemma config_reads: "only_reads (runConfig L R args)"
  unfolding runConfig_def configShow_def by (intro read_steps; simp)

lemma copy_reads: "only_reads (copySubmissionFile source destination force)"
  unfolding copySubmissionFile_def place_copy_def by (intro reading_rules reading.host reading.deferring; simp)

lemma submission_reads:
  assumes "quiet_source R"
  shows "only_reads (submissionList L v R args)" "only_reads (submissionGet L v R args)"
    "only_reads (submissionFileList L R args)" "only_reads (submissionFileCopy L R args)"
  unfolding submissionList_def submissionGet_def submissionFileList_def submissionFileCopy_def
  by (intro read_steps reading.host copy_reads; simp add: assms)+

lemma event_reads: "quiet_source R \<Longrightarrow> only_reads (eventList L R args)"
  unfolding eventList_def event_type_def by (intro read_steps; simp)

lemma help_reads: "only_reads (runHelp R args)"
  unfolding runHelp_def by (intro read_steps; simp)

section \<open>The catalogue and the commands\<close>

definition catalogued :: "(CommandSpec \<Rightarrow> bool) \<Rightarrow> string list \<Rightarrow> bool" where
  "catalogued P args \<longleftrightarrow>
     (case args of a # b # _ \<Rightarrow> (\<exists>c\<in>set commandManifest. cs_Name c = a @ '' '' @ b \<and> P c) | _ \<Rightarrow> False)"

lemma set_manifest: "set commandManifest = (\<lambda>c. c\<lparr>cs_SupportsJSON := supportsJSON (cs_Name c)\<rparr>) ` set command_catalogue"
  by (simp add: commandManifest_def)

definition listed :: "(CommandSpec \<Rightarrow> bool) \<Rightarrow> string \<Rightarrow> bool" where
  "listed P n \<longleftrightarrow> list_ex (\<lambda>c. cs_Name c = n \<and> P c) command_catalogue"

lemma catalogued_listed:
  assumes "\<And>c j. P (c\<lparr>cs_SupportsJSON := j\<rparr>) = P c"
  shows "catalogued P (a # b # args) \<longleftrightarrow> listed P (a @ '' '' @ b)"
  by (auto simp: catalogued_def listed_def set_manifest list_ex_iff assms)

lemma catalogued_Mutates: "catalogued cs_Mutates (a # b # args) \<longleftrightarrow> listed cs_Mutates (a @ '' '' @ b)"
  by (rule catalogued_listed) simp

text \<open>The names with a property, in the order of the catalogue.\<close>

lemma listed_names: "listed P n \<longleftrightarrow> n \<in> set (map cs_Name (filter P command_catalogue))"
  by (auto simp: listed_def list_ex_iff)

text \<open>The catalogue in short: a name, whether the command changes data, whether it needs the database.\<close>

lemma catalogue_uses:
  "map (\<lambda>c. (cs_Name c, cs_Mutates c, cs_RequiresDatabase c)) command_catalogue =
    [(''commands'', False, False), (''help'', False, False), (''serve'', False, False), (''install'', True, False), (''update'', True, False),
     (''reload'', True, False), (''backup'', True, False), (''restore-db'', True, False), (''check'', False, False), (''version'', False, False),
     (''account show'', False, True), (''account set-email'', True, True), (''account change-password'', True, True),
     (''account reset-password'', True, True), (''config show'', False, False), (''form list'', False, True), (''form get'', False, True),
     (''form code'', False, True), (''form create'', True, True), (''form update'', True, True), (''form rotate-token'', True, True),
     (''form template-list'', False, False), (''form template-get'', False, False), (''form delete'', True, True),
     (''email list'', False, True), (''email get'', False, True), (''email create'', True, True), (''email update'', True, True),
     (''email delete'', True, True), (''mailer list'', False, True), (''mailer get'', False, True), (''mailer create'', True, True),
     (''mailer update'', True, True), (''mailer delete'', True, True), (''captcha list'', False, True), (''captcha get'', False, True),
     (''captcha create'', True, True), (''captcha update'', True, True), (''captcha delete'', True, True), (''submission list'', False, True),
     (''submission get'', False, True), (''submission delete'', True, True), (''submission create'', True, True),
     (''submission file-list'', False, True), (''submission file-copy'', False, True), (''event list'', False, True), (''event retry'', True, True)]"
  unfolding command_catalogue_def spec_def by (simp only: list.map CommandSpec.simps)

lemma names_of_uses:
  "map cs_Name (filter cs_Mutates command_catalogue) = map fst (filter (\<lambda>(n, m, r). m) (map (\<lambda>c. (cs_Name c, cs_Mutates c, cs_RequiresDatabase c)) command_catalogue))"
  "map cs_Name (filter cs_RequiresDatabase command_catalogue) = map fst (filter (\<lambda>(n, m, r). r) (map (\<lambda>c. (cs_Name c, cs_Mutates c, cs_RequiresDatabase c)) command_catalogue))"
  "map cs_Name (filter (\<lambda>c. \<not> cs_RequiresDatabase c) command_catalogue) = map fst (filter (\<lambda>(n, m, r). \<not> r) (map (\<lambda>c. (cs_Name c, cs_Mutates c, cs_RequiresDatabase c)) command_catalogue))"
  by (simp_all add: filter_map comp_def)

lemma mutating_names:
  "map cs_Name (filter cs_Mutates command_catalogue) =
     [''install'', ''update'', ''reload'', ''backup'', ''restore-db'',
      ''account set-email'', ''account change-password'', ''account reset-password'', ''form create'', ''form update'',
      ''form rotate-token'', ''form delete'', ''email create'', ''email update'', ''email delete'', ''mailer create'',
      ''mailer update'', ''mailer delete'', ''captcha create'', ''captcha update'', ''captcha delete'', ''submission delete'',
      ''submission create'', ''event retry'']"
  unfolding names_of_uses catalogue_uses by simp

lemma mutators_account:
  "listed cs_Mutates ''account set-email''" "listed cs_Mutates ''account change-password''" "listed cs_Mutates ''account reset-password''"
  unfolding listed_names mutating_names by simp_all

lemma mutators_form:
  "listed cs_Mutates ''form create''" "listed cs_Mutates ''form update''" "listed cs_Mutates ''form rotate-token''" "listed cs_Mutates ''form delete''"
  unfolding listed_names mutating_names by simp_all

lemma mutators_email:
  "listed cs_Mutates ''email create''" "listed cs_Mutates ''email update''" "listed cs_Mutates ''email delete''"
  unfolding listed_names mutating_names by simp_all

lemma mutators_mailer:
  "listed cs_Mutates ''mailer create''" "listed cs_Mutates ''mailer update''" "listed cs_Mutates ''mailer delete''"
  unfolding listed_names mutating_names by simp_all

lemma mutators_captcha:
  "listed cs_Mutates ''captcha create''" "listed cs_Mutates ''captcha update''" "listed cs_Mutates ''captcha delete''"
  unfolding listed_names mutating_names by simp_all

lemma mutators_submission:
  "listed cs_Mutates ''submission create''" "listed cs_Mutates ''submission delete''"
  unfolding listed_names mutating_names by simp_all

lemma mutators_event:
  "listed cs_Mutates ''event retry''"
  unfolding listed_names mutating_names by simp_all

lemma choose_cases: "(c \<Longrightarrow> only_reads a) \<Longrightarrow> (\<not> c \<Longrightarrow> only_reads b) \<Longrightarrow> only_reads (if c then a else b)"
  by simp

lemma requireAction_simps:
  "c_bind (requireAction r (a # args)) f = f (a, args)" "c_bind (requireAction r []) f = c_fail (usageError (''missing action; run `miniform help '' @ r @ ''`''))"
  by (simp_all add: requireAction_def c_bind_def c_ret_def c_fail_def)

lemma runForm_reads:
  assumes "quiet_source R" "\<not> catalogued cs_Mutates (''form'' # args)"
  shows "only_reads (runForm L H D R args)"
proof (cases args)
  case Nil
  then show ?thesis by (simp add: runForm_def requireAction_simps reading.fail)
next
  case (Cons a args1)
  have "\<not> listed cs_Mutates (''form'' @ '' '' @ a)" using assms(2) by (simp add: Cons catalogued_Mutates)
  then show ?thesis unfolding Cons runForm_def requireAction_simps prod.case
    by (intro choose_cases reading.fail form_reads template_reads assms(1)) (simp_all add: mutators_form)
qed

lemma runEmail_reads:
  assumes "quiet_source R" "\<not> catalogued cs_Mutates (''email'' # args)"
  shows "only_reads (runEmail L D R args)"
proof (cases args)
  case Nil
  then show ?thesis by (simp add: runEmail_def requireAction_simps reading.fail)
next
  case (Cons a args1)
  have "\<not> listed cs_Mutates (''email'' @ '' '' @ a)" using assms(2) by (simp add: Cons catalogued_Mutates)
  then show ?thesis unfolding Cons runEmail_def requireAction_simps prod.case
    by (intro choose_cases reading.fail email_reads assms(1)) (simp_all add: mutators_email)
qed

lemma runMailer_reads:
  assumes "quiet_source R" "\<not> catalogued cs_Mutates (''mailer'' # args)"
  shows "only_reads (runMailer L R args)"
proof (cases args)
  case Nil
  then show ?thesis by (simp add: runMailer_def requireAction_simps reading.fail)
next
  case (Cons a args1)
  have "\<not> listed cs_Mutates (''mailer'' @ '' '' @ a)" using assms(2) by (simp add: Cons catalogued_Mutates)
  then show ?thesis unfolding Cons runMailer_def requireAction_simps prod.case
    by (intro choose_cases reading.fail mailer_reads assms(1)) (simp_all add: mutators_mailer)
qed

lemma runCaptcha_reads:
  assumes "quiet_source R" "\<not> catalogued cs_Mutates (''captcha'' # args)"
  shows "only_reads (runCaptcha L R args)"
proof (cases args)
  case Nil
  then show ?thesis by (simp add: runCaptcha_def requireAction_simps reading.fail)
next
  case (Cons a args1)
  have "\<not> listed cs_Mutates (''captcha'' @ '' '' @ a)" using assms(2) by (simp add: Cons catalogued_Mutates)
  then show ?thesis unfolding Cons runCaptcha_def requireAction_simps prod.case
    by (intro choose_cases reading.fail captcha_reads assms(1)) (simp_all add: mutators_captcha)
qed

lemma runAccount_reads:
  assumes "quiet_source R" "\<not> catalogued cs_Mutates (''account'' # args)"
  shows "only_reads (runAccount L R args)"
proof (cases args)
  case Nil
  then show ?thesis by (simp add: runAccount_def requireAction_simps reading.fail)
next
  case (Cons a args1)
  have "\<not> listed cs_Mutates (''account'' @ '' '' @ a)" using assms(2) by (simp add: Cons catalogued_Mutates)
  then show ?thesis unfolding Cons runAccount_def requireAction_simps prod.case
    by (intro choose_cases reading.fail account_reads assms(1)) (simp_all add: mutators_account)
qed

lemma runSubmission_reads:
  assumes "quiet_source R" "\<not> catalogued cs_Mutates (''submission'' # args)"
  shows "only_reads (runSubmission L v R args)"
proof (cases args)
  case Nil
  then show ?thesis by (simp add: runSubmission_def requireAction_simps reading.fail)
next
  case (Cons a args1)
  have "\<not> listed cs_Mutates (''submission'' @ '' '' @ a)" using assms(2) by (simp add: Cons catalogued_Mutates)
  then show ?thesis unfolding Cons runSubmission_def requireAction_simps prod.case
    by (intro choose_cases reading.fail submission_reads assms(1)) (simp_all add: mutators_submission)
qed

lemma runEvent_reads:
  assumes "quiet_source R" "\<not> catalogued cs_Mutates (''event'' # args)"
  shows "only_reads (runEvent L R args)"
proof (cases args)
  case Nil
  then show ?thesis by (simp add: runEvent_def requireAction_simps reading.fail)
next
  case (Cons a args1)
  have "\<not> listed cs_Mutates (''event'' @ '' '' @ a)" using assms(2) by (simp add: Cons catalogued_Mutates)
  then show ?thesis unfolding Cons runEvent_def requireAction_simps prod.case
    by (intro choose_cases reading.fail event_reads assms(1)) (simp_all add: mutators_event)
qed

lemma dispatch_reads:
  assumes "quiet_source R" "\<not> catalogued cs_Mutates args"
  shows "only_reads (dispatch V R args)"
proof (cases args)
  case Nil
  then show ?thesis by (simp add: dispatch_def reading.ret)
next
  case (Cons c args1)
  from assms(2) have m: "\<not> catalogued cs_Mutates (c # args1)" unfolding Cons .
  note subcommands = runForm_reads runEmail_reads runMailer_reads runCaptcha_reads runAccount_reads runSubmission_reads runEvent_reads
  show ?thesis unfolding dispatch_def Let_def Cons list.case
    by (insert assms(1) m, intro choose_cases; (rule reading_rules help_reads config_reads subcommands, (simp_all)?)+)
qed

section \<open>Exit codes\<close>

definition any_step :: "database world \<Rightarrow> database world \<Rightarrow> bool" where
  "any_step w w' \<longleftrightarrow> True"

definition coded :: "cli_failure \<Rightarrow> bool" where
  "coded f \<longleftrightarrow> (case f of CommandError c \<Rightarrow> ce_ExitCode c \<in> {ExitUsage, ExitValidation, ExitConflict, ExitInternal} | _ \<Rightarrow> True)"

interpretation exits: command_rules any_step coded
  by unfold_locales (simp_all add: any_step_def)

lemma any_step_simp [simp]: "any_step w w'"
  by (simp add: any_step_def)

lemma coded_simps [simp]:
  "coded (usageError m)" "coded (validationError m)" "coded (conflictError m)" "coded (internalError m e)"
  "coded (command_failure code m ExitInternal c)" "coded (Domain e)" "coded HelpShown"
  by (simp_all add: coded_def usageError_def validationError_def conflictError_def internalError_def command_failure_def)

abbreviation well_coded :: "'a cmd \<Rightarrow> bool" where
  "well_coded m \<equiv> holds any_step coded m"

lemma coded_database: "well_coded (requireDatabase R)"
  by (rule exits.database) (simp add: source_ok_def)

lemma coded_parts:
  "well_coded (by_id_or_slug i slug)" "well_coded (exactly_one i slug n)" "well_coded (create_names st)" "well_coded (update_conflicts st)"
  "well_coded (c_of (validatedBaseURL L v))" "well_coded (c_of (parseOptionalBool v))" "well_coded (decode_payload L v)"
  "well_coded (event_type L v)" "well_coded (validateTwoSecretFiles v v')"
  unfolding by_id_or_slug_def exactly_one_def create_names_def update_conflicts_def validatedBaseURL_def parseOptionalBool_def
    decode_payload_def event_type_def validateTwoSecretFiles_def conflict_def Let_def
  by (intro exits.rules exits.of_sum; auto split: if_splits option.splits sum.splits)+

lemma coded_open_each: "open_each L R earlier specs = Inl f \<Longrightarrow> coded f"
  by (induction L R earlier specs rule: open_each.induct)
    (auto simp: Let_def open_upload_def split: if_splits sum.splits prod.splits)

lemma coded_uploads: "well_coded (c_of (openCLIUploads L R specs))"
  by (rule exits.of_sum) (auto simp: openCLIUploads_def coded_open_each split: if_splits)

lemma coded_copy: "well_coded (copySubmissionFile a b c)"
  unfolding copySubmissionFile_def place_copy_def by (intro exits.rules; simp add: link_failure_def)

lemma coded_confirmed: "(\<And>i R. well_coded (act i R)) \<Longrightarrow> well_coded (confirmed L R c w args act)"
  unfolding confirmed_def by (intro exits.rules coded_database) simp_all

lemma coded_mailer_view: "well_coded (newMailerView R p)"
  unfolding newMailerView_def by (intro exits.rules; simp)

lemma coded_captcha_view: "well_coded (newCaptchaView R p)"
  unfolding newCaptchaView_def by (intro exits.rules; simp)

lemmas coded_rules = coded_database coded_parts coded_uploads coded_copy coded_confirmed coded_mailer_view coded_captcha_view exits.calling exits.rules

lemma coded_form: "well_coded (runForm L H D R args)"
  unfolding runForm_def formList_def formGet_def formCreate_def formUpdate_def formDelete_def formRotateToken_def formCode_def
    formTemplateList_def formTemplateGet_def
  by (intro coded_rules; simp)

lemma coded_email: "well_coded (runEmail L D R args)"
  unfolding runEmail_def emailList_def emailGet_def emailCreate_def emailUpdate_def emailDelete_def conflict_def
  by (intro coded_rules; simp)

lemma coded_mailer: "well_coded (runMailer L R args)"
  unfolding runMailer_def mailerList_def mailerGet_def mailerCreate_def mailerUpdate_def mailerDelete_def conflict_def
  by (intro coded_rules; simp)

lemma coded_captcha: "well_coded (runCaptcha L R args)"
  unfolding runCaptcha_def captchaList_def captchaGet_def captchaCreate_def captchaUpdate_def captchaDelete_def
  by (intro coded_rules; simp)

lemma coded_account: "well_coded (runAccount L R args)"
  unfolding runAccount_def accountShow_def accountSetEmail_def accountChangePassword_def accountResetPassword_def
  by (intro coded_rules; simp)

lemma coded_config: "well_coded (runConfig L R args)"
  unfolding runConfig_def configShow_def no_configuration_def by (intro coded_rules; simp)

lemma coded_submission: "well_coded (runSubmission L v R args)"
  unfolding runSubmission_def submissionCreate_def submissionList_def submissionGet_def submissionDelete_def submissionFileList_def
    submissionFileCopy_def no_configuration_def
  by (intro coded_rules; simp)

lemma coded_event: "well_coded (runEvent L R args)"
  unfolding runEvent_def eventList_def eventRetry_def by (intro coded_rules; simp)

lemma coded_help: "well_coded (runHelp R args)"
  unfolding runHelp_def unknown_topic_def by (intro coded_rules; simp)

lemma coded_dispatch: "well_coded (dispatch V R args)"
proof (cases args)
  case Nil
  then show ?thesis by (simp add: dispatch_def exits.ret)
next
  case (Cons c args1)
  show ?thesis unfolding dispatch_def Let_def Cons list.case
    by (intro exits.choose exits.data exits.fail exits.ret exits.bind coded_form coded_email coded_mailer coded_captcha coded_account
        coded_config coded_submission coded_event coded_help coded_simps)
qed

lemma coded_extract: "extractGlobalFlags R args = (R', Inl f) \<Longrightarrow> coded f"
  by (induction R args rule: extractGlobalFlags.induct) (auto split: if_splits prod.splits sum.splits)

lemma classified_code: "f \<noteq> HelpShown \<Longrightarrow> coded f \<Longrightarrow> ce_ExitCode (classifyError L f) \<in> {2, 3, 4, 5, 10}"
  by (cases f) (auto simp: coded_def classifyError_def classify_domain_def classified_def Let_def ExitUsage_def ExitValidation_def
      ExitNotFound_def ExitConflict_def ExitInternal_def split: option.splits)

section \<open>Confirmation\<close>

definition same_world :: "database world \<Rightarrow> database world \<Rightarrow> bool" where
  "same_world w w' \<longleftrightarrow> w' = w"

definition refused :: "cli_failure \<Rightarrow> bool" where
  "refused f \<longleftrightarrow> f = HelpShown \<or> (\<exists>m. f = usageError m)"

interpretation stopping: command_rules same_world refused
  by unfold_locales (simp_all add: same_world_def)

lemma refused_simps [simp]: "refused HelpShown" "refused (usageError m)"
  by (auto simp: refused_def)

definition refuses :: "'a cmd \<Rightarrow> bool" where
  "refuses m \<longleftrightarrow> holds same_world refused m \<and> (\<forall>s. \<exists>f. fst (m s) = Inl f)"

lemma refuses_check: "\<not> ok \<Longrightarrow> refuses (c_bind (c_check ok (usageError m)) f)"
  by (simp add: refuses_def holds_def c_bind_def c_check_def same_world_def)

lemma refuses_bind:
  assumes "holds same_world refused m" "\<And>x. (\<exists>s s'. m s = (Inr x, s')) \<Longrightarrow> refuses (f x)"
  shows "refuses (c_bind m f)"
proof -
  have "same_world (fst s) (fst (snd (c_bind m f s))) \<and> (\<exists>g. fst (c_bind m f s) = Inl g \<and> refused g)" for s
  proof -
    obtain r s' where run: "m s = (r, s')" by (metis surj_pair)
    with assms(1) have m: "fst s' = fst s" "\<And>g. r = Inl g \<Longrightarrow> refused g"
      unfolding holds_def same_world_def by (metis fst_conv snd_conv)+
    show ?thesis
    proof (cases r)
      case (Inl e)
      with run m show ?thesis by (simp add: c_bind_def same_world_def)
    next
      case (Inr x)
      then have "refuses (f x)" using assms(2) run by blast
      then obtain g where g: "fst (f x s') = Inl g" "same_world (fst s') (fst (snd (f x s')))" "refused g"
        unfolding refuses_def holds_def by metis
      then show ?thesis using run Inr m(1) by (simp add: c_bind_def same_world_def)
    qed
  qed
  then show ?thesis unfolding refuses_def holds_def by (metis Inl_inject)
qed

lemma parseFlags_Inr: "parseFlags L defs c args s = (Inr st, s') \<Longrightarrow> Parse L defs args = Inr st"
  unfolding parseFlags_def c_bind_def c_fail_def c_ret_def c_print_def
  by (auto split: sum.splits flag_error.splits if_splits prod.splits)

definition names_yes :: "string \<Rightarrow> bool" where
  "names_yes a \<longleftrightarrow> prefix ''-yes'' a \<or> prefix ''--yes'' a"

lemma split_equals_name: "split_equals s = (n, v) \<Longrightarrow> prefix n s"
  by (auto simp: split_equals_def Let_def takeWhile_is_prefix split: if_splits)

lemma flag_token_yes: "flag_token s = Named n v \<Longrightarrow> n = ''yes'' \<Longrightarrow> names_yes s"
  unfolding flag_token_def names_yes_def
  by (auto simp: Let_def split: list.splits if_splits prod.splits dest!: split_equals_name)

lemma put_value_other: "n \<noteq> m \<Longrightarrow> map_of (put_value n v xs) m = map_of xs m"
  by (induction xs) auto

lemma parse_args_no_yes:
  "parse_args L args st = Inr st' \<Longrightarrow> \<forall>a\<in>set args. \<not> names_yes a \<Longrightarrow> bool_flag st' ''yes'' = bool_flag st ''yes''"
proof (induction L args st rule: parse_args.induct)
  case (1 L st)
  then show ?case by (auto simp: bool_flag_def)
next
  case (2 L s args st)
  show ?case
  proof (cases "flag_token s")
    case (Named n v)
    have n: "n \<noteq> ''yes''" using flag_token_yes [OF Named] "2.prems"(2) by auto
    then have same: "bool_flag (record_flag n y st) ''yes'' = bool_flag st ''yes''" for y
      by (simp add: bool_flag_def record_flag_def put_value_other)
    show ?thesis using 2 Named same
      by (auto split: option.splits sum.splits list.splits flag_value.splits)
  qed (use "2.prems" in \<open>auto simp: bool_flag_def\<close>)
qed

lemma confirmed_refuses:
  assumes "\<forall>a\<in>set args. \<not> names_yes a"
  shows "refuses (confirmed L R c words args act)"
  unfolding confirmed_def
proof (rule refuses_bind)
  show "holds same_world refused (parseFlags L [uintF ''id'', boolF ''yes''] c args)"
    by (rule stopping.flags) simp_all
  fix st assume "\<exists>s s'. parseFlags L [uintF ''id'', boolF ''yes''] c args s = (Inr st, s')"
  then have p: "Parse L [uintF ''id'', boolF ''yes''] args = Inr st" by (auto dest: parseFlags_Inr)
  have "\<not> bool_flag st ''yes''"
    using parse_args_no_yes [OF p [unfolded Parse_def] assms] by (simp add: bool_flag_def uintF_def boolF_def)
  then show "refuses (c_bind (requireUint (uint_flag st ''id'') ''id'')
      (\<lambda>_. c_bind (c_check (bool_flag st ''yes'') (usageError (words @ '' requires --yes''))) (\<lambda>_. c_bind (requireDatabase R) (act (uint_flag st ''id'')))))"
    by (intro refuses_bind refuses_check stopping.uint) simp_all
qed

lemma eventRetry_refuses:
  assumes "\<forall>a\<in>set args. \<not> names_yes a"
  shows "refuses (eventRetry L R args)"
  unfolding eventRetry_def
proof (rule refuses_bind)
  let ?defs = "[stringF ''type'', uintF ''id'', boolF ''yes'']"
  show "holds same_world refused (parseFlags L ?defs ''event.retry'' args)"
    by (rule stopping.flags) simp_all
  fix st assume "\<exists>s s'. parseFlags L ?defs ''event.retry'' args s = (Inr st, s')"
  then have p: "Parse L ?defs args = Inr st" by (auto dest: parseFlags_Inr)
  have "\<not> bool_flag st ''yes''"
    using parse_args_no_yes [OF p [unfolded Parse_def] assms] by (simp add: bool_flag_def stringF_def uintF_def boolF_def)
  then show "refuses (c_bind (requireUint (uint_flag st ''id'') ''id'') (\<lambda>_.
     c_bind (c_check (bool_flag st ''yes'') (usageError ''event retry requires --yes'')) (\<lambda>_.
     c_bind (event_type L (string_flag st ''type'')) (\<lambda>typeName.
     c_bind (requireDatabase R) (\<lambda>_.
     c_bind (c_db (if typeName = ''webhook'' then RetryWebhookEvent (uint_flag st ''id'') else RetryEmailEvent (uint_flag st ''id''))) (\<lambda>_.
     c_ret (EventScheduled (uint_flag st ''id'') typeName)))))))"
    by (intro refuses_bind refuses_check stopping.uint) simp_all
qed

text \<open>The commands that ask for a confirmation.\<close>

definition destructive :: "(string \<times> string) list" where
  "destructive =
     [(''form'', ''delete''), (''form'', ''rotate-token''), (''email'', ''delete''), (''mailer'', ''delete''),
      (''captcha'', ''delete''), (''submission'', ''delete''), (''event'', ''retry'')]"

lemma refuses_c_data: "refuses m \<Longrightarrow> refuses (c_bind m f)"
  by (rule refuses_bind) (simp add: refuses_def, metis refuses_def Inl_Inr_False fst_conv)

lemma dispatch_refuses:
  assumes "(a, b) \<in> set destructive" "\<forall>x\<in>set args. \<not> names_yes x"
  shows "refuses (dispatch V R (a # b # args))"
proof -
  note confirmation = Let_def refuses_c_data confirmed_refuses [OF assms(2)] eventRetry_refuses [OF assms(2)] dispatch_def c_data_def requireAction_simps
  have "refuses (dispatch V R (''form'' # ''delete'' # args))"
    by (simp add: confirmation runForm_def formDelete_def)
  moreover have "refuses (dispatch V R (''form'' # ''rotate-token'' # args))"
    by (simp add: confirmation runForm_def formRotateToken_def)
  moreover have "refuses (dispatch V R (''email'' # ''delete'' # args))"
    by (simp add: confirmation runEmail_def emailDelete_def)
  moreover have "refuses (dispatch V R (''mailer'' # ''delete'' # args))"
    by (simp add: confirmation runMailer_def mailerDelete_def)
  moreover have "refuses (dispatch V R (''captcha'' # ''delete'' # args))"
    by (simp add: confirmation runCaptcha_def captchaDelete_def)
  moreover have "refuses (dispatch V R (''submission'' # ''delete'' # args))"
    by (simp add: confirmation runSubmission_def submissionDelete_def)
  moreover have "refuses (dispatch V R (''event'' # ''retry'' # args))"
    by (simp add: confirmation runEvent_def )
  ultimately show ?thesis using assms(1) by (auto simp: destructive_def)
qed

section \<open>Where the tables are needed\<close>

lemma extract_flags:
  "extractGlobalFlags R args = (R', Inr clean) \<Longrightarrow> clean = stripKnownGlobalFlags args"
  by (induction R args arbitrary: R' clean rule: extractGlobalFlags.induct)
    (auto simp: stripKnownGlobalFlags_def global_flags_def split: if_splits prod.splits sum.splits)

lemma extract_usage: "extractGlobalFlags R args = (R', Inl f) \<Longrightarrow> f = usageError ''global boolean flags accept only true or false''"
proof (induction R args arbitrary: R' rule: extractGlobalFlags.induct)
  case (2 R a args)
  show ?case
  proof (cases "a \<in> set global_flags")
    case True
    then show ?thesis using 2 by (auto simp: global_flags_def)
  next
    case False
    then have n: "a \<noteq> ''--json''" "a \<noteq> ''--show-secrets''" "a \<noteq> ''--json=false''" "a \<noteq> ''--show-secrets=false''"
      by (simp_all add: global_flags_def)
    show ?thesis using "2.prems" "2.IH"(5) [OF n(1) n(2) n(3) n(4)] unfolding extractGlobalFlags.simps
      by (simp only: n if_False split: if_splits prod.splits sum.splits) auto
  qed
qed simp

lemma extract_source:
  "extractGlobalFlags R args = (R', r) \<Longrightarrow> rn_Database R' = rn_Database R"
  by (induction R args arbitrary: R' r rule: extractGlobalFlags.induct) (auto split: if_splits prod.splits sum.splits)

lemma extract_other_source:
  "extractGlobalFlags (R\<lparr>rn_Database := x\<rparr>) args = (case extractGlobalFlags R args of (R', r) \<Rightarrow> (R'\<lparr>rn_Database := x\<rparr>, r))"
proof (induction R args rule: extractGlobalFlags.induct)
  case (2 R a args)
  have u: "R\<lparr>rn_Database := x, rn_JSON := j\<rparr> = R\<lparr>rn_JSON := j, rn_Database := x\<rparr>"
    "R\<lparr>rn_Database := x, rn_ShowSecrets := j\<rparr> = R\<lparr>rn_ShowSecrets := j, rn_Database := x\<rparr>" for j by simp_all
  show ?case using 2 by (auto simp: u split: prod.splits sum.splits)
qed simp

lemma database_names:
  "map cs_Name (filter cs_RequiresDatabase command_catalogue) =
     [''account show'', ''account set-email'', ''account change-password'', ''account reset-password'', ''form list'', ''form get'',
      ''form code'', ''form create'', ''form update'', ''form rotate-token'', ''form delete'', ''email list'', ''email get'',
      ''email create'', ''email update'', ''email delete'', ''mailer list'', ''mailer get'', ''mailer create'', ''mailer update'',
      ''mailer delete'', ''captcha list'', ''captcha get'', ''captcha create'', ''captcha update'', ''captcha delete'',
      ''submission list'', ''submission get'', ''submission delete'', ''submission create'', ''submission file-list'',
      ''submission file-copy'', ''event list'', ''event retry'']"
  unfolding names_of_uses catalogue_uses by simp

lemma other_names:
  "map cs_Name (filter (\<lambda>c. \<not> cs_RequiresDatabase c) command_catalogue) =
     [''commands'', ''help'', ''serve'', ''install'', ''update'', ''reload'', ''backup'', ''restore-db'', ''check'', ''version'',
      ''config show'', ''form template-list'', ''form template-get'']"
  unfolding names_of_uses catalogue_uses by simp

lemma names_apart:
  "set (map cs_Name (filter cs_RequiresDatabase command_catalogue))
     \<inter> set (map cs_Name (filter (\<lambda>c. \<not> cs_RequiresDatabase c) command_catalogue)) = {}"
proof -
  have "list_all (\<lambda>n. n \<notin> set (map cs_Name (filter (\<lambda>c. \<not> cs_RequiresDatabase c) command_catalogue)))
      (map cs_Name (filter cs_RequiresDatabase command_catalogue))"
    unfolding database_names other_names
    by (simp only: list.pred_inject list.set insert_iff empty_iff list.inject char.inject list.distinct simp_thms)
  then show ?thesis unfolding list_all_iff by blast
qed

lemma same_name_same_use:
  assumes "c \<in> set commandManifest" "c' \<in> set commandManifest" "cs_Name c = cs_Name c'" "cs_RequiresDatabase c"
  shows "cs_RequiresDatabase c'"
proof -
  obtain d d' where d: "d \<in> set command_catalogue" "d' \<in> set command_catalogue" "cs_Name d = cs_Name c" "cs_Name d' = cs_Name c'"
    "cs_RequiresDatabase d = cs_RequiresDatabase c" "cs_RequiresDatabase d' = cs_RequiresDatabase c'"
    using assms(1,2) by (auto simp: set_manifest)
  show ?thesis
  proof (rule ccontr)
    assume "\<not> cs_RequiresDatabase c'"
    then have m: "d \<in> set (filter cs_RequiresDatabase command_catalogue)" "d' \<in> set (filter (\<lambda>c. \<not> cs_RequiresDatabase c) command_catalogue)"
      using d assms(4) by simp_all
    have "cs_Name d = cs_Name d'" using d(3,4) assms(3) by simp
    then have "cs_Name d \<in> {}" using imageI [OF m(1), of cs_Name] imageI [OF m(2), of cs_Name]
      unfolding names_apart [symmetric] set_map by (simp only: Int_iff)
    then show False by simp
  qed
qed

lemma listed_requires:
  assumes "listed cs_RequiresDatabase (a @ '' '' @ b)" "stripKnownGlobalFlags args = a # b # args1" "\<not> helpRequested (a # b # args1)"
  shows "RequiresDatabase args"
proof -
  have "catalogued cs_RequiresDatabase (a # b # args1)"
    using assms(1) catalogued_listed [of cs_RequiresDatabase] by simp
  then obtain c where c: "c \<in> set commandManifest" "cs_Name c = a @ '' '' @ b" "cs_RequiresDatabase c"
    by (auto simp: catalogued_def)
  then obtain c' where f: "find (\<lambda>y. cs_Name y = a @ '' '' @ b) commandManifest = Some c'"
    by (metis (mono_tags, lifting) find_None_iff2 not_Some_eq)
  then have "c' \<in> set commandManifest" "cs_Name c' = a @ '' '' @ b" by (auto dest: find_SomeD)
  then have "cs_RequiresDatabase c'" using same_name_same_use c by metis
  then show ?thesis using f assms(2,3) by (simp add: RequiresDatabase_def Let_def)
qed

lemma choose_same: "(c \<Longrightarrow> a = a') \<Longrightarrow> (\<not> c \<Longrightarrow> b = b') \<Longrightarrow> (if c then a else b) = (if c then a' else b')"
  by simp

lemma form_source: "\<not> listed cs_RequiresDatabase (''form '' @ a) \<Longrightarrow>
    runForm L H D (R\<lparr>rn_Database := x\<rparr>) (a # args) = runForm L H D R (a # args)"
  unfolding runForm_def requireAction_simps prod.case by (intro choose_same) (simp_all add: listed_names database_names)

lemma email_source: "\<not> listed cs_RequiresDatabase (''email '' @ a) \<Longrightarrow>
    runEmail L D (R\<lparr>rn_Database := x\<rparr>) (a # args) = runEmail L D R (a # args)"
  unfolding runEmail_def requireAction_simps prod.case by (intro choose_same) (simp_all add: listed_names database_names)

lemma mailer_source: "\<not> listed cs_RequiresDatabase (''mailer '' @ a) \<Longrightarrow>
    runMailer L (R\<lparr>rn_Database := x\<rparr>) (a # args) = runMailer L R (a # args)"
  unfolding runMailer_def requireAction_simps prod.case by (intro choose_same) (simp_all add: listed_names database_names)

lemma captcha_source: "\<not> listed cs_RequiresDatabase (''captcha '' @ a) \<Longrightarrow>
    runCaptcha L (R\<lparr>rn_Database := x\<rparr>) (a # args) = runCaptcha L R (a # args)"
  unfolding runCaptcha_def requireAction_simps prod.case by (intro choose_same) (simp_all add: listed_names database_names)

lemma account_source: "\<not> listed cs_RequiresDatabase (''account '' @ a) \<Longrightarrow>
    runAccount L (R\<lparr>rn_Database := x\<rparr>) (a # args) = runAccount L R (a # args)"
  unfolding runAccount_def requireAction_simps prod.case by (intro choose_same) (simp_all add: listed_names database_names)

lemma submission_source: "\<not> listed cs_RequiresDatabase (''submission '' @ a) \<Longrightarrow>
    runSubmission L v (R\<lparr>rn_Database := x\<rparr>) (a # args) = runSubmission L v R (a # args)"
  unfolding runSubmission_def requireAction_simps prod.case by (intro choose_same) (simp_all add: listed_names database_names)

lemma event_source: "\<not> listed cs_RequiresDatabase (''event '' @ a) \<Longrightarrow>
    runEvent L (R\<lparr>rn_Database := x\<rparr>) (a # args) = runEvent L R (a # args)"
  unfolding runEvent_def requireAction_simps prod.case by (intro choose_same) (simp_all add: listed_names database_names)

lemma config_source: "runConfig L (R\<lparr>rn_Database := x\<rparr>) args = runConfig L R args"
  by (cases args; cases "rn_Config R") (simp_all add: runConfig_def requireAction_simps configShow_def)

lemma help_source: "runHelp (R\<lparr>rn_Database := x\<rparr>) args = runHelp R args"
  by (simp add: runHelp_def)

lemma no_action_source:
  "runForm L H D (R\<lparr>rn_Database := x\<rparr>) [] = runForm L H D R []" "runEmail L D (R\<lparr>rn_Database := x\<rparr>) [] = runEmail L D R []"
  "runMailer L (R\<lparr>rn_Database := x\<rparr>) [] = runMailer L R []" "runCaptcha L (R\<lparr>rn_Database := x\<rparr>) [] = runCaptcha L R []"
  "runAccount L (R\<lparr>rn_Database := x\<rparr>) [] = runAccount L R []" "runSubmission L v (R\<lparr>rn_Database := x\<rparr>) [] = runSubmission L v R []"
  "runEvent L (R\<lparr>rn_Database := x\<rparr>) [] = runEvent L R []"
  by (simp_all add: runForm_def runEmail_def runMailer_def runCaptcha_def runAccount_def runSubmission_def runEvent_def requireAction_simps)

lemma dispatch_source:
  assumes "\<And>a b rest. args = a # b # rest \<Longrightarrow> \<not> listed cs_RequiresDatabase (a @ '' '' @ b)"
  shows "dispatch V (R\<lparr>rn_Database := x\<rparr>) args = dispatch V R args"
proof (cases args)
  case Nil
  then show ?thesis by (simp add: dispatch_def)
next
  case (Cons c args1)
  show ?thesis
  proof (cases args1)
    case Nil
    then show ?thesis unfolding Cons dispatch_def Let_def list.case
      by (simp only: help_source config_source no_action_source)
  next
    case two: (Cons b args2)
    have n: "\<not> listed cs_RequiresDatabase (c @ '' '' @ b)" using assms Cons two by blast
    show ?thesis unfolding Cons two dispatch_def Let_def list.case help_source config_source
      by (insert n, intro choose_same; simp add: form_source email_source mailer_source captcha_source account_source submission_source event_source)
  qed
qed

lemma Run_source:
  assumes "\<not> helpRequested (stripKnownGlobalFlags args)" "\<not> RequiresDatabase args"
  shows "Run V (R\<lparr>rn_Database := x\<rparr>) args s = Run V R args s"
proof (cases "extractGlobalFlags R args")
  case (Pair R' r)
  show ?thesis
  proof (cases r)
    case (Inl e)
    then show ?thesis by (simp add: Run_def extract_other_source Pair failed_run_def writeFailure_def Let_def)
  next
    case (Inr clean)
    have c: "clean = stripKnownGlobalFlags args" using extract_flags Pair Inr by blast
    have "dispatch V (R'\<lparr>rn_Database := x\<rparr>) clean = dispatch V R' clean"
      using assms listed_requires c by (intro dispatch_source) metis
    then show ?thesis
      by (auto simp: Run_def extract_other_source Pair Inr finish_run_def failed_run_def writeFailure_def writeSuccess_def Let_def
          split: prod.splits sum.splits option.splits cli_failure.splits)
  qed
qed

end
