(* ===== verification/Cli_Secrets.thy ===== *)
theory Cli_Secrets
  imports Cli_Laws
begin

text \<open>
  What the viewing commands of the data CLI show does not depend on the stored secrets: on tables whose
  secrets are concealed they do and print the same. Programs on the tables are related to themselves on the
  concealed tables, statement by statement.
\<close>

section \<open>Concealed tables\<close>

definition conceal_text :: "string \<Rightarrow> string" where
  "conceal_text s = (if s = [] then [] else ''x'')"

definition conceal_form :: "form \<Rightarrow> form" where
  "conceal_form f = f\<lparr>fm_Token := conceal_text (fm_Token f),
     fm_GeneratedHTML := (if trim_space (fm_GeneratedHTML f) = [] then [] else ''x'')\<rparr>"

definition conceal_hook :: "webhook_delivery \<Rightarrow> webhook_delivery" where
  "conceal_hook h = h\<lparr>wd_Secret := conceal_text (wd_Secret h), wd_HeadersJSON := conceal_text (wd_HeadersJSON h)\<rparr>"

definition conceal_mailer :: "mailer_profile \<Rightarrow> mailer_profile" where
  "conceal_mailer m = m\<lparr>mp_SMTPPassword := conceal_text (mp_SMTPPassword m)\<rparr>"

definition conceal_captcha :: "captcha_profile \<Rightarrow> captcha_profile" where
  "conceal_captcha c = c\<lparr>cp_SecretKey := conceal_text (cp_SecretKey c)\<rparr>"

definition conceal_user :: "user \<Rightarrow> user" where
  "conceal_user u = u\<lparr>us_PasswordHash := conceal_text (us_PasswordHash u)\<rparr>"

definition conceal :: "database \<Rightarrow> database" where
  "conceal d = d\<lparr>forms := map conceal_form (forms d), webhook_deliveries := map conceal_hook (webhook_deliveries d),
     mailers := map conceal_mailer (mailers d), captchas := map conceal_captcha (captchas d), users := map conceal_user (users d)\<rparr>"

definition hidden :: "database world \<Rightarrow> database world" where
  "hidden w = w\<lparr>db := conceal (db w)\<rparr>"

lemma conceal_keys [simp]:
  "fm_ID (conceal_form f) = fm_ID f" "fm_Slug (conceal_form f) = fm_Slug f" "fm_Name (conceal_form f) = fm_Name f"
  "fm_CaptchaProfileID (conceal_form f) = fm_CaptchaProfileID f" "wd_FormID (conceal_hook h) = wd_FormID h"
  "mp_ID (conceal_mailer m) = mp_ID m" "mp_Name (conceal_mailer m) = mp_Name m"
  "cp_ID (conceal_captcha c) = cp_ID c" "cp_Name (conceal_captcha c) = cp_Name c"
  by (simp_all add: conceal_form_def conceal_hook_def conceal_mailer_def conceal_captcha_def)

lemma conceal_tables [simp]:
  "forms (conceal d) = map conceal_form (forms d)" "webhook_deliveries (conceal d) = map conceal_hook (webhook_deliveries d)"
  "mailers (conceal d) = map conceal_mailer (mailers d)" "captchas (conceal d) = map conceal_captcha (captchas d)"
  "users (conceal d) = map conceal_user (users d)" "email_deliveries (conceal d) = email_deliveries d"
  by (simp_all add: conceal_def)

section \<open>Programs on concealed tables\<close>

definition rel :: "('a \<Rightarrow> 'b) \<Rightarrow> 'b db_prog \<Rightarrow> 'a db_prog \<Rightarrow> bool" where
  "rel g m m' \<longleftrightarrow> (\<forall>w. m (hidden w) = (case m' w of (r, w') \<Rightarrow> (map_sum id g r, hidden w')))"

definition crel :: "('a \<Rightarrow> 'b) \<Rightarrow> 'b cmd \<Rightarrow> 'a cmd \<Rightarrow> bool" where
  "crel g m m' \<longleftrightarrow> (\<forall>w h. m (hidden w, h) = (case m' (w, h) of (r, w', h') \<Rightarrow> (map_sum id g r, hidden w', h')))"

lemma rel_ret: "y = g x \<Longrightarrow> rel g (ret y) (ret x)"
  by (simp add: rel_def ret_apply)

lemma rel_fail: "rel g (fail e) (fail e)"
  by (simp add: rel_def fail_apply)

lemma rel_bnd: "rel g m m' \<Longrightarrow> (\<And>x. rel k (f (g x)) (f' x)) \<Longrightarrow> rel k (bnd m f) (bnd m' f')"
  unfolding rel_def bnd_apply by (auto split: prod.splits sum.splits)

lemma rel_query: "(\<And>d. q (conceal d) = g (q' d)) \<Longrightarrow> rel g (query q) (query q')"
  unfolding rel_def query_def stmt_def hidden_def by (auto split: list.splits option.splits)

lemma rel_wrap_err: "rel g m m' \<Longrightarrow> rel g (wrap_err s m) (wrap_err s m')"
  unfolding rel_def wrap_err_apply by (auto split: prod.splits sum.splits)

lemma rel_map_err: "rel g m m' \<Longrightarrow> rel g (map_err k m) (map_err k m')"
  unfolding rel_def map_err_apply by (auto split: prod.splits sum.splits)

lemma find_map_same: "(\<And>x. p (k x) = p x) \<Longrightarrow> find p (map k xs) = map_option k (find p xs)"
  by (induction xs) simp_all

lemma filter_map_same: "(\<And>x. p (k x) = p x) \<Longrightarrow> filter p (map k xs) = map k (filter p xs)"
  by (induction xs) simp_all

lemma sort_key_map_same: "(\<And>x. f (k x) = f x) \<Longrightarrow> sort_key f (map k xs) = map k (sort_key f xs)"
proof -
  assume same: "\<And>x. f (k x) = f x"
  have "insort_key f (k x) (map k ys) = map k (insort_key f x ys)" for x ys by (induction ys) (simp_all add: same)
  then show ?thesis by (induction xs) (simp_all add: sort_key_def)
qed

lemma rel_first:
  assumes "\<And>d. tab (conceal d) = map k (tab d)" "\<And>x. p (k x) = p x"
  shows "rel k (first tab p) (first tab p)"
  unfolding first_def
proof (rule rel_bnd [where g = "map_option k"])
  show "rel (map_option k) (query (\<lambda>d. find p (tab d))) (query (\<lambda>d. find p (tab d)))"
    by (rule rel_query) (simp add: assms find_map_same)
  show "rel k (case map_option k x of None \<Rightarrow> fail (Sentinel ErrRecordNotFound) | Some x \<Rightarrow> ret x)
      (case x of None \<Rightarrow> fail (Sentinel ErrRecordNotFound) | Some x \<Rightarrow> ret x)" for x
    by (cases x) (simp_all add: rel_fail rel_ret)
qed

lemma rel_count: "(\<And>d. count_where p (tab (conceal d)) = count_where p (tab d)) \<Longrightarrow> rel id (count_rows tab p) (count_rows tab p)"
  unfolding count_rows_def by (rule rel_query) simp

lemma crel_ret: "y = g x \<Longrightarrow> crel g (c_ret y) (c_ret x)"
  by (simp add: crel_def c_ret_def)

lemma crel_fail: "crel g (c_fail f) (c_fail f)"
  by (simp add: crel_def c_fail_def)

lemma crel_check: "crel id (c_check ok f) (c_check ok f)"
  by (simp add: crel_def c_check_def)

lemma crel_print: "crel id (c_print ls) (c_print ls)"
  by (simp add: crel_def c_print_def)

lemma crel_bind:
  assumes "crel g m m'" "\<And>x. crel k (f (g x)) (f' x)"
  shows "crel k (c_bind m f) (c_bind m' f')"
  unfolding crel_def
proof (intro allI)
  fix w h
  obtain r w' h' where m: "m' (w, h) = (r, w', h')" by (metis surj_pair)
  then have "m (hidden w, h) = (map_sum id g r, hidden w', h')" using assms(1) by (simp add: crel_def)
  then show "c_bind m f (hidden w, h) = (case c_bind m' f' (w, h) of (r, w', h') \<Rightarrow> (map_sum id k r, hidden w', h'))"
    using m assms(2) by (cases r) (simp_all add: c_bind_def crel_def)
qed

lemma crel_bind_id: "crel id m m \<Longrightarrow> (\<And>x. crel k (f x) (f' x)) \<Longrightarrow> crel k (c_bind m f) (c_bind m f')"
  using crel_bind [of id m m k f f'] by simp

lemma crel_db: "rel g m m' \<Longrightarrow> crel g (c_db m) (c_db m')"
  unfolding crel_def rel_def c_db_def c_with_def failed_as_def by (auto split: prod.splits sum.splits)

lemma crel_flags: "crel id (parseFlags L defs c args) (parseFlags L defs c args)"
  unfolding parseFlags_def
  by (auto intro!: crel_bind [OF crel_print] crel_fail crel_ret split: sum.splits flag_error.splits)

lemma crel_uint: "crel id (requireUint v n) (requireUint v n)"
  unfolding requireUint_def by (rule crel_check)

lemma crel_map: "(\<And>x. crel id (f (k x)) (f x)) \<Longrightarrow> crel id (c_map f (map k xs)) (c_map f xs)"
proof (induction xs)
  case (Cons x xs)
  show ?case unfolding list.map c_map.simps
    by (rule crel_bind [OF Cons.prems], rule crel_bind [OF Cons.IH [OF Cons.prems]], rule crel_ret) simp
qed (simp add: crel_ret)

section \<open>What the commands load\<close>

definition conceal_loaded :: "loaded_form \<Rightarrow> loaded_form" where
  "conceal_loaded lf = lf\<lparr>lf_Form := conceal_form (lf_Form lf), lf_Mailers := map conceal_mailer (lf_Mailers lf),
     lf_WebhookDelivery := map_option conceal_hook (lf_WebhookDelivery lf),
     lf_CaptchaProfile := map_option conceal_captcha (lf_CaptchaProfile lf)\<rparr>"

lemma rel_loadForm:
  assumes "\<And>f. p (conceal_form f) = p f"
  shows "rel conceal_loaded (loadForm p) (loadForm p)"
  unfolding loadForm_def
proof (intro rel_wrap_err rel_bnd)
  show "rel conceal_form (first forms p) (first forms p)" by (rule rel_first) (simp_all add: assms)
  fix f
  show "rel (map_option conceal_captcha) (query (captcha_of (conceal_form f))) (query (captcha_of f))"
    by (rule rel_query) (auto simp: captcha_of_def find_map_same split: option.splits)
  show "rel id (query (\<lambda>d. filter (\<lambda>e. ed_FormID e = fm_ID (conceal_form f)) (email_deliveries d)))
     (query (\<lambda>d. filter (\<lambda>e. ed_FormID e = fm_ID f) (email_deliveries d)))" by (rule rel_query) simp
  show "rel (map conceal_mailer) (query (\<lambda>d. filter (\<lambda>m. list_ex (\<lambda>e. ed_MailerProfileID e = Some (mp_ID m)) (id es)) (mailers d)))
     (query (\<lambda>d. filter (\<lambda>m. list_ex (\<lambda>e. ed_MailerProfileID e = Some (mp_ID m)) es) (mailers d)))" for es
    by (rule rel_query) (simp add: filter_map_same)
  show "rel (map_option conceal_hook) (query (\<lambda>d. find (\<lambda>h. wd_FormID h = fm_ID (conceal_form f)) (webhook_deliveries d)))
     (query (\<lambda>d. find (\<lambda>h. wd_FormID h = fm_ID f) (webhook_deliveries d)))"
    by (rule rel_query) (simp add: find_map_same)
qed (simp add: rel_ret conceal_loaded_def)

lemma rel_by_id_or_slug: "crel conceal_loaded (by_id_or_slug i slug) (by_id_or_slug i slug)"
  unfolding by_id_or_slug_def GetByID_def GetBySlug_def
  by (intro crel_db) (auto intro!: rel_loadForm)

definition conceal_listed :: "listed_form \<Rightarrow> listed_form" where
  "conceal_listed = (\<lambda>(f, es, h). (conceal_form f, es, map_option conceal_hook h))"

lemma rel_forms_List: "rel (map conceal_listed) forms_List forms_List"
  unfolding forms_List_def
proof (intro rel_wrap_err rel_bnd [where g = "map conceal_form"])
  show "rel (map conceal_form) (query (\<lambda>d. sort_key fm_Name (forms d))) (query (\<lambda>d. sort_key fm_Name (forms d)))"
    by (rule rel_query) (simp add: sort_key_map_same)
  fix fs
  have q1: "rel id (query email_deliveries) (query email_deliveries)" by (rule rel_query) simp
  have q2: "rel (map conceal_hook) (query webhook_deliveries) (query webhook_deliveries)" by (rule rel_query) simp
  have "rel (map conceal_listed)
      (bnd (query email_deliveries) (\<lambda>es. bnd (query webhook_deliveries) (\<lambda>hs.
        ret (map (\<lambda>f. (f, filter (\<lambda>e. ed_FormID e = fm_ID f) es, find (\<lambda>h. wd_FormID h = fm_ID f) hs)) (map conceal_form fs)))))
      (bnd (query email_deliveries) (\<lambda>es. bnd (query webhook_deliveries) (\<lambda>hs.
        ret (map (\<lambda>f. (f, filter (\<lambda>e. ed_FormID e = fm_ID f) es, find (\<lambda>h. wd_FormID h = fm_ID f) hs)) fs))))"
    by (intro rel_bnd [OF q1] rel_bnd [OF q2] rel_ret) (simp add: conceal_listed_def find_map_same)
  then show "rel (map conceal_listed)
      (if map conceal_form fs = [] then ret [] else bnd (query email_deliveries) (\<lambda>es. bnd (query webhook_deliveries) (\<lambda>hs.
        ret (map (\<lambda>f. (f, filter (\<lambda>e. ed_FormID e = fm_ID f) es, find (\<lambda>h. wd_FormID h = fm_ID f) hs)) (map conceal_form fs)))))
      (if fs = [] then ret [] else bnd (query email_deliveries) (\<lambda>es. bnd (query webhook_deliveries) (\<lambda>hs.
        ret (map (\<lambda>f. (f, filter (\<lambda>e. ed_FormID e = fm_ID f) es, find (\<lambda>h. wd_FormID h = fm_ID f) hs)) fs))))"
    by (cases "fs = []") (simp_all add: rel_ret)
qed

definition conceal_delivery :: "email_delivery \<times> mailer_profile option \<Rightarrow> email_delivery \<times> mailer_profile option" where
  "conceal_delivery = (\<lambda>(e, m). (e, map_option conceal_mailer m))"

lemma mailer_of_conceal: "mailer_of e (conceal d) = map_option conceal_mailer (mailer_of e d)"
  by (auto simp: mailer_of_def find_map_same split: option.splits)

lemma rel_ListEmailDeliveries: "rel (map conceal_delivery) (ListEmailDeliveries i) (ListEmailDeliveries i)"
  unfolding ListEmailDeliveries_def
  by (rule rel_wrap_err, rule rel_bnd [where g = id]; rule rel_query) (simp_all add: conceal_delivery_def mailer_of_conceal)

lemma rel_GetEmailDeliveryByID: "rel conceal_delivery (GetEmailDeliveryByID i) (GetEmailDeliveryByID i)"
  unfolding GetEmailDeliveryByID_def
proof (intro rel_bnd)
  show "rel id (first email_deliveries (\<lambda>e. ed_ID e = i)) (first email_deliveries (\<lambda>e. ed_ID e = i))"
    by (rule rel_first) simp_all
  show "rel (map_option conceal_mailer) (query (mailer_of (id e))) (query (mailer_of e))" for e
    by (rule rel_query) (simp add: mailer_of_conceal)
qed (simp add: rel_ret conceal_delivery_def)

lemma rel_profiles:
  "rel (map conceal_mailer) ListMailerProfiles ListMailerProfiles" "rel conceal_mailer (GetMailerProfileByID i) (GetMailerProfileByID i)"
  "rel (map conceal_captcha) ListCaptchaProfiles ListCaptchaProfiles" "rel conceal_captcha (GetCaptchaProfileByID i) (GetCaptchaProfileByID i)"
  unfolding ListMailerProfiles_def GetMailerProfileByID_def ListCaptchaProfiles_def GetCaptchaProfileByID_def listProfiles_def getProfile_def
  by (rule rel_query rel_first; simp add: mailer_kind_def captcha_kind_def sort_key_map_same)+

lemma rel_usage: "rel id (MailerProfileUsage i) (MailerProfileUsage i)" "rel id (CaptchaProfileUsage i) (CaptchaProfileUsage i)"
  unfolding MailerProfileUsage_def CaptchaProfileUsage_def by (rule rel_count; simp add: count_where_def filter_map_same)+

lemma rel_GetAdmin: "rel conceal_user GetAdmin GetAdmin"
  unfolding GetAdmin_def loadUser_def by (intro rel_map_err rel_first) simp_all

section \<open>What the commands show\<close>

lemma redact_conceal [simp]: "redact (conceal_text s) False = redact s False"
  by (simp add: redact_def conceal_text_def)

lemma form_view_conceal: "newFormView L D False (conceal_form f) es (map_option conceal_hook h) = newFormView L D False f es h"
proof -
  have t: "trim_space ''x'' \<noteq> []" by code_simp
  have "map_option (hook_view False) (map_option conceal_hook h) = map_option (hook_view False) h"
    by (cases h) (simp_all add: hook_view_def conceal_hook_def)
  then show ?thesis using t by (simp add: newFormView_def Let_def conceal_form_def)
qed

lemma crel_mailer_view: "\<not> rn_ShowSecrets R \<Longrightarrow> crel id (newMailerView R (conceal_mailer m)) (newMailerView R m)"
  unfolding newMailerView_def conceal_keys
  by (rule crel_bind [OF crel_db [OF rel_usage(1)]], rule crel_ret) (simp add: conceal_mailer_def)

lemma crel_captcha_view: "\<not> rn_ShowSecrets R \<Longrightarrow> crel id (newCaptchaView R (conceal_captcha m)) (newCaptchaView R m)"
  unfolding newCaptchaView_def conceal_keys
  by (rule crel_bind [OF crel_db [OF rel_usage(2)]], rule crel_ret) (simp add: conceal_captcha_def)

lemma crel_opened: "rn_Database R = Opened \<Longrightarrow> requireDatabase R = c_ret R"
  by (simp add: requireDatabase_def)

lemma c_bind_ret: "c_bind (c_ret x) f = f x"
  by (simp add: c_bind_def c_ret_def)

lemma crel_exactly_one: "crel id (exactly_one i slug n) (exactly_one i slug n)"
  unfolding exactly_one_def by (rule crel_check)

lemma show_forms:
  assumes "rn_Database R = Opened" "\<not> rn_ShowSecrets R"
  shows "crel id (formList L D R args) (formList L D R args)" "crel id (formGet L D R args) (formGet L D R args)"
proof -
  have "map (\<lambda>(f, es, h). newFormView L D False f es h) (map conceal_listed xs) = map (\<lambda>(f, es, h). newFormView L D False f es h) xs" for xs
    by (induction xs) (auto simp: conceal_listed_def form_view_conceal)
  then show "crel id (formList L D R args) (formList L D R args)"
    unfolding formList_def crel_opened [OF assms(1)] c_bind_ret
    by (intro crel_bind_id [OF crel_flags] crel_bind [OF crel_db [OF rel_forms_List]] crel_ret) (simp add: assms(2))
  have "loaded_view L D R (conceal_loaded lf) = loaded_view L D R lf" for lf
    by (simp add: loaded_view_def conceal_loaded_def assms(2) form_view_conceal)
  then show "crel id (formGet L D R args) (formGet L D R args)"
    unfolding formGet_def crel_opened [OF assms(1)] c_bind_ret
    by (intro crel_bind_id [OF crel_flags] crel_bind_id [OF crel_exactly_one] crel_bind [OF rel_by_id_or_slug] crel_ret) simp
qed

lemma show_emails:
  assumes "rn_Database R = Opened"
  shows "crel id (emailList L D R args) (emailList L D R args)" "crel id (emailGet L D R args) (emailGet L D R args)"
proof -
  have "map (\<lambda>(d, _). newEmailDeliveryView L D d False) (map conceal_delivery xs) = map (\<lambda>(d, _). newEmailDeliveryView L D d False) xs" for xs
    by (induction xs) (auto simp: conceal_delivery_def)
  then show "crel id (emailList L D R args) (emailList L D R args)"
    unfolding emailList_def crel_opened [OF assms] c_bind_ret
    by (intro crel_bind_id [OF crel_flags] crel_bind_id [OF crel_uint] crel_bind [OF crel_db [OF rel_ListEmailDeliveries]] crel_ret) simp
  show "crel id (emailGet L D R args) (emailGet L D R args)"
    unfolding emailGet_def crel_opened [OF assms] c_bind_ret
    by (intro crel_bind_id [OF crel_flags] crel_bind_id [OF crel_uint] crel_bind [OF crel_db [OF rel_GetEmailDeliveryByID]])
      (auto simp: conceal_delivery_def intro!: crel_ret)
qed

lemma show_mailers:
  assumes "rn_Database R = Opened" "\<not> rn_ShowSecrets R"
  shows "crel id (mailerList L R args) (mailerList L R args)" "crel id (mailerGet L R args) (mailerGet L R args)"
proof -
  note views = crel_bind [OF crel_map [of "newMailerView R" conceal_mailer, OF crel_mailer_view [OF assms(2)]], of id]
  show "crel id (mailerList L R args) (mailerList L R args)"
    unfolding mailerList_def crel_opened [OF assms(1)] c_bind_ret
    by (intro crel_bind_id [OF crel_flags] crel_bind [OF crel_db [OF rel_profiles(1)]] views crel_ret) simp
  show "crel id (mailerGet L R args) (mailerGet L R args)"
    unfolding mailerGet_def crel_opened [OF assms(1)] c_bind_ret
    by (intro crel_bind_id [OF crel_flags] crel_bind_id [OF crel_uint] crel_bind [OF crel_db [OF rel_profiles(2)]]
      crel_bind [OF crel_mailer_view [OF assms(2)]] crel_ret) simp
qed

lemma show_captchas:
  assumes "rn_Database R = Opened" "\<not> rn_ShowSecrets R"
  shows "crel id (captchaList L R args) (captchaList L R args)" "crel id (captchaGet L R args) (captchaGet L R args)"
proof -
  note views = crel_bind [OF crel_map [of "newCaptchaView R" conceal_captcha, OF crel_captcha_view [OF assms(2)]], of id]
  show "crel id (captchaList L R args) (captchaList L R args)"
    unfolding captchaList_def crel_opened [OF assms(1)] c_bind_ret
    by (intro crel_bind_id [OF crel_flags] crel_bind [OF crel_db [OF rel_profiles(3)]] views crel_ret) simp
  show "crel id (captchaGet L R args) (captchaGet L R args)"
    unfolding captchaGet_def crel_opened [OF assms(1)] c_bind_ret
    by (intro crel_bind_id [OF crel_flags] crel_bind_id [OF crel_uint] crel_bind [OF crel_db [OF rel_profiles(4)]]
      crel_bind [OF crel_captcha_view [OF assms(2)]] crel_ret) simp
qed

lemma show_account: "rn_Database R = Opened \<Longrightarrow> crel id (accountShow L R args) (accountShow L R args)"
  unfolding accountShow_def
  by (simp add: crel_opened c_bind_ret)
    (intro crel_bind_id [OF crel_flags] crel_bind [OF crel_db [OF rel_GetAdmin]] crel_ret; simp add: newAccountView_def conceal_user_def)

text \<open>The commands that show what has a secret. The markup that \<open>form code\<close> gives contains the stored markup.\<close>

definition viewing :: "(string \<times> string) list" where
  "viewing =
     [(''form'', ''list''), (''form'', ''get''), (''email'', ''list''), (''email'', ''get''), (''mailer'', ''list''),
      (''mailer'', ''get''), (''captcha'', ''list''), (''captcha'', ''get''), (''account'', ''show'')]"

lemma crel_data: "crel id m m \<Longrightarrow> crel id (c_data f m) (c_data f m)"
  unfolding c_data_def by (rule crel_bind, assumption, rule crel_ret) simp

lemma show_dispatch:
  assumes "(a, b) \<in> set viewing" "rn_Database R = Opened" "\<not> rn_ShowSecrets R"
  shows "crel id (dispatch V R (a # b # args)) (dispatch V R (a # b # args))"
proof -
  note facts = show_forms [OF assms(2,3)] show_emails [OF assms(2)] show_mailers [OF assms(2,3)] show_captchas [OF assms(2,3)]
    show_account [OF assms(2)] crel_data dispatch_def Let_def requireAction_simps
  have "crel id (dispatch V R (''form'' # ''list'' # args)) (dispatch V R (''form'' # ''list'' # args))"
    "crel id (dispatch V R (''form'' # ''get'' # args)) (dispatch V R (''form'' # ''get'' # args))" by (simp_all add: facts runForm_def)
  moreover have "crel id (dispatch V R (''email'' # ''list'' # args)) (dispatch V R (''email'' # ''list'' # args))"
    "crel id (dispatch V R (''email'' # ''get'' # args)) (dispatch V R (''email'' # ''get'' # args))" by (simp_all add: facts runEmail_def)
  moreover have "crel id (dispatch V R (''mailer'' # ''list'' # args)) (dispatch V R (''mailer'' # ''list'' # args))"
    "crel id (dispatch V R (''mailer'' # ''get'' # args)) (dispatch V R (''mailer'' # ''get'' # args))" by (simp_all add: facts runMailer_def)
  moreover have "crel id (dispatch V R (''captcha'' # ''list'' # args)) (dispatch V R (''captcha'' # ''list'' # args))"
    "crel id (dispatch V R (''captcha'' # ''get'' # args)) (dispatch V R (''captcha'' # ''get'' # args))" by (simp_all add: facts runCaptcha_def)
  moreover have "crel id (dispatch V R (''account'' # ''show'' # args)) (dispatch V R (''account'' # ''show'' # args))"
    by (simp add: facts runAccount_def)
  ultimately show ?thesis using assms(1) by (auto simp: viewing_def)
qed

lemma extract_hides:
  "extractGlobalFlags R args = (R', r) \<Longrightarrow> \<not> rn_ShowSecrets R \<Longrightarrow> ''--show-secrets'' \<notin> set args \<Longrightarrow> \<not> rn_ShowSecrets R'"
  by (induction R args arbitrary: R' r rule: extractGlobalFlags.induct) (auto split: if_splits prod.splits sum.splits)

lemma extract_two:
  assumes "(a, b) \<in> set viewing" "extractGlobalFlags R (a # b # args) = (R', Inr clean)"
  shows "\<exists>rest. clean = a # b # rest"
proof -
  have "a \<notin> set global_flags \<and> b \<notin> set global_flags" using assms(1) by (auto simp: viewing_def global_flags_def)
  then show ?thesis using extract_flags [OF assms(2)] by (simp add: stripKnownGlobalFlags_def)
qed

lemma Run_hides_secrets:
  assumes "(a, b) \<in> set viewing" "rn_Database R = Opened" "\<not> rn_ShowSecrets R" "''--show-secrets'' \<notin> set args"
  shows "fst (Run V R (a # b # args) (hidden w, h)) = fst (Run V R (a # b # args) (w, h))"
proof -
  obtain R' r where e: "extractGlobalFlags R (a # b # args) = (R', r)" by fastforce
  show ?thesis
  proof (cases r)
    case (Inl f)
    then show ?thesis unfolding Run_def e by simp
  next
    case (Inr clean)
    then obtain rest where c: "clean = a # b # rest" using extract_two [OF assms(1)] e by blast
    have "''--show-secrets'' \<notin> set (a # b # args)" using assms(1,4) by (auto simp: viewing_def)
    then have R': "rn_Database R' = Opened" "\<not> rn_ShowSecrets R'"
      using extract_source [OF e] extract_hides [OF e assms(3)] assms(2) by simp_all
    obtain q w' h' where d: "dispatch V R' clean (w, h) = (q, w', h')" by (metis surj_pair)
    then have "dispatch V R' clean (hidden w, h) = (q, hidden w', h')"
      using show_dispatch [OF assms(1) R'] unfolding crel_def c by (simp add: sum.map_id0)
    then show ?thesis using d unfolding Run_def e Inr by (simp add: c)
  qed
qed

end
