(* ===== verification/Cli_Copy.thy ===== *)
theory Cli_Copy
  imports Cli_Laws Backup_Laws
begin

text \<open>Copying a stored file out of the inbox: what the call leaves on the host, whatever fails.\<close>

lemma c_host_bind:
  "c_bind (c_host g m) f (w, h) = (case m h of (Inl e, h') \<Rightarrow> (Inl (g e), (w, h')) | (Inr x, h') \<Rightarrow> f x (w, h'))"
  by (simp add: c_bind_def c_host_def failed_as_def split: prod.splits sum.splits)

lemma c_host_run: "c_host g m (w, h) = (case m h of (r, h') \<Rightarrow> (failed_as g r, (w, h')))"
  by (simp add: c_host_def)

lemma sys_ok_db: "sys_ok w = (r, w') \<Longrightarrow> db w' = db w"
  using reads_host(3) readsD by blast

text \<open>A call either has its effect or none.\<close>

lemma stmt_cases:
  assumes "stmt f w = (r, w')"
  shows "(\<exists>x. r = Inr x \<and> f (db w) = Inr (x, db w')) \<or> ((\<exists>e. r = Inl e) \<and> db w' = db w)"
  using assms by (auto simp: stmt_def split: list.splits option.splits sum.splits)

lemma or_close_cases:
  assumes "or_close m w = (r, w')" and quiet: "\<And>e w1. m w = (Inl e, w1) \<Longrightarrow> db w1 = db w"
  shows "(\<exists>x. r = Inr () \<and> m w = (Inr x, w')) \<or> ((\<exists>e. r = Inl e) \<and> db w' = db w)"
proof (cases "m w")
  case (Pair q w1)
  show ?thesis
  proof (cases q)
    case (Inr x)
    then show ?thesis using assms(1) Pair by (simp add: or_close_def catch_apply ret_apply)
  next
    case (Inl e)
    obtain c w2 where c: "sys_ok w1 = (c, w2)" by fastforce
    then have "db w2 = db w" using quiet Pair Inl sys_ok_db by metis
    then show ?thesis using assms(1) Pair Inl c by (auto simp: or_close_def catch_apply fail_apply)
  qed
qed

lemma write_cases:
  assumes "or_close (write_bytes p s) w = (r, w')"
  shows "(r = Inr () \<and> db w' = put_file p s (db w)) \<or> ((\<exists>e. r = Inl e) \<and> db w' = db w)"
proof -
  have w: "write_bytes p s w = (q, w1) \<Longrightarrow> (q = Inr () \<and> db w1 = put_file p s (db w)) \<or> ((\<exists>e. q = Inl e) \<and> db w1 = db w)" for q w1
    unfolding write_bytes_def by (drule stmt_cases) auto
  then have "write_bytes p s w = (Inl e, w1) \<Longrightarrow> db w1 = db w" for e w1 by fastforce
  from or_close_cases [OF assms this] w show ?thesis by fastforce
qed

lemma sync_db: "or_close sys_ok w = (r, w') \<Longrightarrow> db w' = db w"
  by (drule or_close_cases) (auto dest: sys_ok_db)

lemma rename_cases:
  assumes "os_Rename a b w = (r, w')"
  shows "(\<exists>n. r = Inr () \<and> node_at (db w) a = Some n \<and> db w' = put_node b n (drop_node a (db w))) \<or> ((\<exists>e. r = Inl e) \<and> db w' = db w)"
  using stmt_cases [OF assms [unfolded os_Rename_def]] by (auto simp: lookup_def split: sum.splits if_splits option.splits)

lemma link_cases:
  assumes "os_Link a b w = (r, w')"
  shows "(\<exists>n. r = Inr () \<and> node_at (db w) a = Some n \<and> node_at (db w) b = None \<and> db w' = put_node b n (db w))
    \<or> ((\<exists>e. r = Inl e) \<and> db w' = db w)"
  using stmt_cases [OF assms [unfolded os_Link_def]] by (auto simp: lookup_def split: sum.splits if_splits option.splits)

lemma remove_cases:
  assumes "os_Remove a w = (r, w')"
  shows "(r = Inr () \<and> db w' = drop_node a (db w)) \<or> ((\<exists>e. r = Inl e) \<and> db w' = db w)"
  using stmt_cases [OF assms [unfolded os_Remove_def]] by (auto simp: lookup_def split: sum.splits if_splits option.splits)

text \<open>
  What holds of the host \<open>h'\<close> at any later point: nothing but the temporary file and the destination has
  changed, and the destination is as it was or holds the whole source, which without \<open>force\<close> it may only if it
  was not there.
\<close>

definition placed :: "string \<Rightarrow> string \<Rightarrow> string \<Rightarrow> bool \<Rightarrow> 'c host \<Rightarrow> 'c host \<Rightarrow> bool" where
  "placed t source d force h h' \<longleftrightarrow>
     (\<forall>q. q \<noteq> t \<longrightarrow> q \<noteq> d \<longrightarrow> node_at h' q = node_at h q)
     \<and> (node_at h' d = node_at h d \<or> data_at h' d = Some source \<and> (force \<or> node_at h d = None))"

lemma data_put_file: "data_at (put_file p s h) p = Some s"
  by (simp add: data_at_def put_file_node split: option.splits)

lemma install_copy:
  assumes run: "(if force then c_host f (os_Rename t d) else c_bind (c_host g (os_Link t d)) (\<lambda>_. c_host f' (os_Remove t))) (w, h3) = (r, s')"
    and t: "data_at (db h3) t = Some source" and p: "placed t source d force h (db h3)" and td: "t \<noteq> d"
  shows "fst s' = w \<and> placed t source d force h (db (snd s')) \<and> (r = Inr () \<longrightarrow> data_at (db (snd s')) d = Some source)"
proof (cases force)
  case True
  obtain r4 h4 where w4: "os_Rename t d h3 = (r4, h4)" by fastforce
  with run True have s: "r = failed_as f r4" "s' = (w, h4)" by (simp_all add: c_host_run)
  from rename_cases [OF w4] show ?thesis
  proof (elim disjE exE conjE)
    fix n assume n: "node_at (db h3) t = Some n" "db h4 = put_node d n (drop_node t (db h3))"
    then have "data_at (db h4) d = Some source" using t by (simp add: data_at_def node_at_put)
    moreover have "q \<noteq> t \<Longrightarrow> q \<noteq> d \<Longrightarrow> node_at (db h4) q = node_at (db h3) q" for q
      by (simp add: n(2) node_at_put node_at_drop)
    ultimately show ?thesis using p True by (simp add: placed_def s)
  qed (use p in \<open>simp add: s failed_as_def\<close>)
next
  case False
  obtain r4 h4 where w4: "os_Link t d h3 = (r4, h4)" by fastforce
  obtain r5 h5 where w5: "os_Remove t h4 = (r5, h5)" by fastforce
  from link_cases [OF w4] show ?thesis
  proof (elim disjE exE conjE)
    fix n assume n: "r4 = Inr ()" "node_at (db h3) t = Some n" "node_at (db h3) d = None" "db h4 = put_node d n (db h3)"
    have s: "r = failed_as f' r5" "s' = (w, h5)" using run False w4 w5 n(1) by (simp_all add: c_host_bind c_host_run)
    have d5: "node_at (db h5) q = node_at (db h4) q" if "q \<noteq> t" for q
      using remove_cases [OF w5] that by (auto simp: node_at_drop)
    have "data_at (db h5) d = Some source" using t td n d5 [of d] by (simp add: data_at_def node_at_put)
    moreover have "node_at h d = None" using p n(3) by (auto simp: placed_def data_at_def)
    moreover have "q \<noteq> t \<Longrightarrow> q \<noteq> d \<Longrightarrow> node_at (db h5) q = node_at (db h3) q" for q
      by (simp add: d5 n(4) node_at_put)
    ultimately show ?thesis using p by (simp add: placed_def s)
  next
    fix e assume n: "r4 = Inl e" "db h4 = db h3"
    then show ?thesis using run False w4 p by (auto simp: c_host_bind)
  qed
qed

lemma place_copy_result:
  assumes run: "place_copy t source d force (w, h) = (r, s')" and td: "t \<noteq> d"
  shows "fst s' = w" "placed t source d force (db h) (db (snd s'))" "r = Inr () \<Longrightarrow> data_at (db (snd s')) d = Some source"
proof -
  obtain r1 h1 where w1: "or_close (write_bytes t source) h = (r1, h1)" by fastforce
  obtain r2 h2 where w2: "or_close sys_ok h1 = (r2, h2)" by fastforce
  obtain r3 h3 where w3: "sys_ok h2 = (r3, h3)" by fastforce
  have same: "db h3 = db h1" "db h2 = db h1" using sync_db [OF w2] sys_ok_db [OF w3] by simp_all
  note early = run [unfolded place_copy_def c_host_bind]
  have start: "placed t source d force (db h) (db h1)" "r1 = Inr () \<Longrightarrow> data_at (db h1) t = Some source"
    using write_cases [OF w1] td by (auto simp: placed_def put_file_node data_put_file)
  let ?goal = "fst s' = w \<and> placed t source d force (db h) (db (snd s')) \<and> (r = Inr () \<longrightarrow> data_at (db (snd s')) d = Some source)"
  have ?goal
  proof (cases r1)
    case (Inl e)
    then show ?thesis using early w1 start(1) by auto
  next
    case r1: (Inr u1)
    show ?thesis
    proof (cases r2)
      case (Inl e)
      then show ?thesis using early w1 w2 r1 same start(1) by auto
    next
      case r2: (Inr u2)
      show ?thesis
      proof (cases r3)
        case (Inl e)
        then show ?thesis using early w1 w2 w3 r1 r2 same start(1) by auto
      next
        case r3: (Inr u3)
        have t: "data_at (db h3) t = Some source" "placed t source d force (db h) (db h3)" using start same r1 by simp_all
        have late: "(if force then c_host (internalError ''replace destination file'') (os_Rename t d)
            else c_bind (c_host link_failure (os_Link t d)) (\<lambda>_. c_host (internalError ''remove temporary destination file'') (os_Remove t)))
            (w, h3) = (r, s')"
          using early w1 w2 w3 r1 r2 r3 by simp
        show ?thesis by (rule install_copy [OF late t td])
      qed
    qed
  qed
  then show "fst s' = w" "placed t source d force (db h) (db (snd s'))" "r = Inr () \<Longrightarrow> data_at (db (snd s')) d = Some source" by auto
qed

lemma path_base_abs:
  assumes "plain_element n"
  shows "path_base (abs_path (ds @ [n])) = n"
proof -
  have n: "slash \<notin> set n" "n \<noteq> []" using assms by (simp_all add: plain_element_def)
  have p: "abs_path (ds @ [n]) = root_of ds @ n" using abs_path_below [of "[n]" ds] by simp
  obtain c m where r: "rev n = c # m" using n(2) by (cases "rev n") auto
  have "c \<noteq> slash" using n(1) r by (metis list.set_intros(1) set_rev)
  then have d: "rev (dropWhile (\<lambda>c. c = slash) (rev (root_of ds @ n))) = root_of ds @ n"
    using r by (simp add: rev_eq_Cons_iff)
  have t: "takeWhile (\<lambda>c. c \<noteq> slash) (rev (root_of ds @ n)) = rev n"
  proof -
    have "takeWhile (\<lambda>c. c \<noteq> slash) (rev n @ rev (root_of ds)) = rev n @ takeWhile (\<lambda>c. c \<noteq> slash) (rev (root_of ds))"
      using n(1) by (intro takeWhile_append2) auto
    moreover have "takeWhile (\<lambda>c. c \<noteq> slash) (rev (root_of ds)) = []" by (simp add: root_of_def)
    ultimately show ?thesis by simp
  qed
  show ?thesis unfolding path_base_def p Let_def d t using n(2) by simp
qed

lemma copy_name_result:
  "copy_name h dir base k ns = Some (p, ns') \<Longrightarrow> node_at h p = None \<and> (\<exists>i. p = path_join dir (''.'' @ base @ ''.tmp-'' @ dec_digits i))"
  by (induction h dir base k ns rule: copy_name.induct) (auto simp: Let_def split: if_splits)

lemma copy_element: "plain_element n \<Longrightarrow> plain_element (''.'' @ n @ ''.tmp-'' @ dec_digits i)"
proof -
  have "slash \<notin> set (dec_digits i)" using dec_digits_read [of i] by (auto simp: list_all_iff ascii_digit_def slash_def)
  moreover assume "plain_element n"
  ultimately show ?thesis by (simp add: plain_element_def) (simp add: slash_def)
qed

lemma create_copy_result:
  assumes "create_copy dir base h = (r, h')"
  shows "(\<exists>t i. r = Inr t \<and> node_at (db h) t = None \<and> t = path_join dir (''.'' @ base @ ''.tmp-'' @ dec_digits i)
      \<and> db h' = put_file t [] (db h)) \<or> ((\<exists>e. r = Inl e) \<and> db h' = db h)"
proof -
  obtain r1 h1 where s: "sys_ok h = (r1, h1)" by fastforce
  then have "db h1 = db h" by (rule sys_ok_db)
  with assms s show ?thesis unfolding create_copy_def
    by (auto simp: bnd_apply split: sum.splits if_splits option.splits dest!: copy_name_result)
qed

lemma copySubmissionFile_result:
  assumes ds: "list_all plain_element ds" "plain_element n" and d: "d = abs_path (ds @ [n])"
    and run: "copySubmissionFile source d force (w, h) = (r, (w', h'))"
  shows "w' = w \<and> (r = Inr () \<longrightarrow> data_at (db h') d = Some source)
    \<and> (node_at (db h') d = node_at (db h) d \<or> data_at (db h') d = Some source \<and> (force \<or> node_at (db h) d = None))
    \<and> (\<forall>q. q \<noteq> d \<longrightarrow> node_at (db h) q \<noteq> None \<longrightarrow> node_at (db h') q = node_at (db h) q)"
proof -
  have pd: "path_dir d = abs_path ds" "path_base d = n" using path_dir_abs [OF ds] path_base_abs [OF ds(2)] by (simp_all add: d)
  obtain r1 h1 where c: "create_copy (abs_path ds) n h = (r1, h1)" by fastforce
  from create_copy_result [OF c] show ?thesis
  proof (elim disjE exE conjE)
    fix e assume "r1 = Inl e" "db h1 = db h"
    then show ?thesis using run c by (auto simp: copySubmissionFile_def pd c_host_bind)
  next
    fix t i assume t: "r1 = Inr t" "node_at (db h) t = None" "t = path_join (abs_path ds) (''.'' @ n @ ''.tmp-'' @ dec_digits i)"
      "db h1 = put_file t [] (db h)"
    have tn: "t = abs_path (ds @ [''.'' @ n @ ''.tmp-'' @ dec_digits i])"
      unfolding t(3) by (rule path_join_one [OF ds(1) copy_element [OF ds(2)]])
    have td: "t \<noteq> d"
    proof
      assume "t = d"
      then have "ds @ [''.'' @ n @ ''.tmp-'' @ dec_digits i] = ds @ [n]"
        using abs_path_inj ds copy_element [OF ds(2)] unfolding tn d by (metis list.pred_inject(1) list.pred_inject(2) list_all_append)
      then have "length (''.'' @ n @ ''.tmp-'' @ dec_digits i) = length n" by simp
      then show False by simp
    qed
    obtain r2 s2 where p: "place_copy t source d force (w, h1) = (r2, s2)" by (metis surj_pair)
    obtain r3 h3 where m: "os_Remove t (snd s2) = (r3, h3)" by fastforce
    obtain w2 h2 where s2: "s2 = (w2, h2)" by (cases s2)
    have fin: "r = r2" "w' = fst s2" "h' = h3"
      using run c t(1) p m by (simp_all add: copySubmissionFile_def pd c_host_bind c_finally_def c_host_run s2)
    have kept: "node_at (db h3) q = node_at (db (snd s2)) q" if "q \<noteq> t" for q
      using remove_cases [OF m] that by (auto simp: node_at_drop)
    have h1: "node_at (db h1) q = node_at (db h) q" if "q \<noteq> t" for q using that by (simp add: t(4) put_file_node)
    note res = place_copy_result [OF p td]
    have d2: "data_at (db h3) d = data_at (db (snd s2)) d" using kept td by (simp add: data_at_def)
    show ?thesis using res kept h1 td d2 t(2) unfolding fin placed_def by metis
  qed
qed

end
