(* ===== verification/Cli_Properties.thy ===== *)
theory Cli_Properties
  imports Samples Cli_Secrets Cli_Copy
begin

text \<open>
  The properties of the data CLI: what its commands may change and show, when they need the database, how
  they end, and what copying a file out leaves.
\<close>

section \<open>Concrete inputs\<close>

definition cli_one :: cli_lib where
  "cli_one = \<lparr>cl_Go = plain_lib, cl_Html = \<lparr>hl_scan = (\<lambda>_. ([], None)), hl_open = (\<lambda>_ _. [])\<rparr>, cl_Decode = (\<lambda>_. None),
     cl_ValidJSON = (\<lambda>_. True)\<rparr>"

definition runner_one :: runner where
  "runner_one = \<lparr>rn_Database = Opened, rn_Config = None, rn_JSON = False, rn_ShowSecrets = False, rn_Stdin = Inr [],
     rn_ReadFile = (\<lambda>_. Inl (Sentinel ErrNotExist)), rn_Open = (\<lambda>_. Inl (Sentinel ErrNotExist)), rn_Write = None,
     rn_Directory = ''/''\<rparr>"

definition host_one :: "unit host" where
  "host_one = \<lparr>ht_Nodes = [(''/out'', new_dir)], ht_Engine = (), ht_Locked = False, ht_Output = []\<rparr>"

definition machine_one :: "unit host world" where
  "machine_one = (world_of host_one)\<lparr>entropy := [7]\<rparr>"

section \<open>What commands change\<close>

text \<open>C35: The data CLI changes the tables only for a command that its catalogue marks as mutating: whatever the
  arguments, an opened database (or a connector that only reads) is left as it was unless the first two
  arguments beside the global flags name such a command.\<close>
theorem Run_changes_only_by_mutators:
  assumes "quiet_source R"
  shows "db (fst (snd (Run V R args s))) = db (fst s)
    \<or> (\<exists>a b rest c. stripKnownGlobalFlags args = a # b # rest \<and> c \<in> set commandManifest
        \<and> cs_Name c = a @ '' '' @ b \<and> cs_Mutates c)"
proof (cases "catalogued cs_Mutates (stripKnownGlobalFlags args)")
  case True
  then show ?thesis by (auto simp: catalogued_def split: list.splits)
next
  case False
  obtain R' r where e: "extractGlobalFlags R args = (R', r)" by fastforce
  have "quiet_source R'" using assms extract_source [OF e] by (simp add: quiet_source_def)
  then have d: "only_reads (dispatch V R' (stripKnownGlobalFlags args))" using False by (rule dispatch_reads)
  have "db (fst (snd (Run V R args s))) = db (fst s)"
  proof (cases r)
    case (Inl f)
    then show ?thesis by (simp add: Run_def e)
  next
    case (Inr clean)
    then have c: "clean = stripKnownGlobalFlags args" using extract_flags e by blast
    obtain q s' where q: "dispatch V R' clean s = (q, s')" by (metis surj_pair)
    have "db (fst s') = db (fst s)" using d q unfolding c [symmetric] holds_def keeps_tables_def by (metis snd_conv)
    moreover have "fst (snd (c_print writeRootHelp s)) = fst s" by (cases s) (simp add: c_print_def)
    ultimately show ?thesis unfolding Run_def e Inr by (simp add: q)
  qed
  then show ?thesis ..
qed

theorem Run_changes_only_by_mutators_witness:
  "db (fst (snd (Run cli_one runner_one [''form'', ''list'', ''--json''] (world_of db_one, world_of host_one)))) = db_one"
proof -
  let ?args = "[''form'', ''list'', ''--json'']"
  have "quiet_source runner_one" by (simp add: quiet_source_def runner_one_def)
  note run = Run_changes_only_by_mutators [OF this, of cli_one ?args "(world_of db_one, world_of host_one)"]
  have s: "stripKnownGlobalFlags ?args = [''form'', ''list'']" by (simp add: stripKnownGlobalFlags_def global_flags_def)
  have "\<not> catalogued cs_Mutates [''form'', ''list'']"
    by (simp add: catalogued_Mutates) (simp add: listed_names mutating_names)
  then show ?thesis using run unfolding s by (auto simp: catalogued_def world_of_def)
qed

text \<open>C36: The commands that delete, rotate or redeliver ask for a confirmation: without a flag that starts with
  ''--yes'' (or ''-yes'') they leave the tables, the clock and the disk as they were, do not even connect,
  and end with the exit code for a wrong use, unless help was asked for.\<close>
theorem destructive_commands_need_yes:
  assumes "(a, b) \<in> set destructive" "\<forall>x\<in>set args. \<not> names_yes x"
  shows "fst (snd (Run V R (a # b # args) s)) = fst s
    \<and> fst (fst (Run V R (a # b # args) s)) \<in> {ExitUsage, ExitSuccess}
    \<and> (fst (fst (Run V R (a # b # args) s)) = ExitSuccess \<longrightarrow> snd (fst (Run V R (a # b # args) s)) = Nothing)"
proof -
  obtain R' r where e: "extractGlobalFlags R (a # b # args) = (R', r)" by fastforce
  have g: "a \<notin> set global_flags" "b \<notin> set global_flags" using assms(1) by (auto simp: destructive_def global_flags_def)
  show ?thesis
  proof (cases r)
    case (Inl f)
    then have "f = usageError ''global boolean flags accept only true or false''" using extract_usage e by blast
    then show ?thesis unfolding Run_def e Inl
      by (simp add: failed_run_def Let_def classifyError_def usageError_def command_failure_def ExitUsage_def ExitSuccess_def)
  next
    case (Inr clean)
    then have c: "clean = a # b # stripKnownGlobalFlags args"
      using extract_flags [of R "a # b # args"] e g by (simp add: stripKnownGlobalFlags_def)
    have "\<forall>x\<in>set (stripKnownGlobalFlags args). \<not> names_yes x" using assms(2) by (simp add: stripKnownGlobalFlags_def)
    then have d: "refuses (dispatch V R' clean)" unfolding c by (rule dispatch_refuses [OF assms(1)])
    obtain q s' where q: "dispatch V R' clean s = (q, s')" by (metis surj_pair)
    with d obtain f where f: "q = Inl f" "refused f" "fst s' = fst s"
      unfolding refuses_def holds_def same_world_def by (metis fst_conv snd_conv)
    show ?thesis using q f unfolding Run_def e Inr
      by (auto simp: c refused_def finish_run_def failed_run_def Let_def classifyError_def usageError_def command_failure_def
          ExitUsage_def ExitSuccess_def)
  qed
qed

theorem destructive_commands_need_yes_witness:
  "fst (snd (Run cli_one runner_one [''form'', ''delete'', ''--id'', ''1''] (world_of db_one, world_of host_one))) = world_of db_one
   \<and> fst (fst (Run cli_one runner_one [''form'', ''delete'', ''--id'', ''1''] (world_of db_one, world_of host_one))) \<in> {ExitUsage, ExitSuccess}"
proof -
  have d: "(''form'', ''delete'') \<in> set destructive" by (simp add: destructive_def)
  have y: "\<forall>x\<in>set [''--id'', ''1'']. \<not> names_yes x" by (simp add: names_yes_def)
  show ?thesis using destructive_commands_need_yes [OF d y, of cli_one runner_one "(world_of db_one, world_of host_one)"] by simp
qed

section \<open>When the database is needed\<close>

text \<open>C37: A command for which the catalogue does not require the database runs the same whatever the database
  is, open, missing or behind a connector, as long as no help flag is among the arguments. (With ''-h'' as the
  value of a flag, a command that needs the database is taken for a request for help; the connector then
  loads the configuration late.)\<close>
theorem Run_needs_database_as_catalogued:
  assumes "\<not> helpRequested (stripKnownGlobalFlags args)" "\<not> RequiresDatabase args"
  shows "Run V (R\<lparr>rn_Database := source\<rparr>) args s = Run V R args s"
  by (rule Run_source [OF assms])

theorem Run_needs_database_as_catalogued_witness:
  "Run cli_one (runner_one\<lparr>rn_Database := Unavailable\<rparr>) [''config'', ''show''] (world_of db_one, world_of host_one)
     = Run cli_one runner_one [''config'', ''show''] (world_of db_one, world_of host_one)"
proof -
  have s: "stripKnownGlobalFlags [''config'', ''show''] = [''config'', ''show'']" by (simp add: stripKnownGlobalFlags_def global_flags_def)
  have "\<not> RequiresDatabase [''config'', ''show'']"
  proof
    assume "RequiresDatabase [''config'', ''show'']"
    then have "catalogued cs_RequiresDatabase [''config'', ''show'']"
      by (auto simp: RequiresDatabase_def s Let_def catalogued_def split: if_splits option.splits dest!: find_SomeD)
    then have "listed cs_RequiresDatabase (''config'' @ '' '' @ ''show'')" using catalogued_listed [of cs_RequiresDatabase] by simp
    then show False by (simp add: listed_names database_names)
  qed
  then show ?thesis using Run_needs_database_as_catalogued [of "[''config'', ''show'']"] by (simp add: s helpRequested_def)
qed

section \<open>How commands end\<close>

text \<open>C38: A run ends with one of the six exit codes, and with success exactly when no error is printed.\<close>
theorem Run_exit_codes:
  "fst (fst (Run V R args s)) \<in> {ExitSuccess, ExitUsage, ExitValidation, ExitNotFound, ExitConflict, ExitInternal}
   \<and> (fst (fst (Run V R args s)) = ExitSuccess \<longleftrightarrow>
        (case snd (fst (Run V R args s)) of JsonFailure _ _ _ \<Rightarrow> False | PlainFailure _ _ \<Rightarrow> False | _ \<Rightarrow> True))"
proof -
  note codes = ExitSuccess_def ExitUsage_def ExitValidation_def ExitNotFound_def ExitConflict_def ExitInternal_def
  have failing: "coded f \<Longrightarrow> f \<noteq> HelpShown \<Longrightarrow> fst (failed_run L Q c f) \<in> {2, 3, 4, 5, 10}
      \<and> (case snd (failed_run L Q c f) of JsonFailure _ _ _ \<Rightarrow> False | PlainFailure _ _ \<Rightarrow> False | _ \<Rightarrow> True) = False" for L Q c f
    using classified_code [of f L] by (simp add: failed_run_def Let_def writeFailure_def)
  have finishing: "(\<forall>f. q = Inl f \<longrightarrow> coded f) \<Longrightarrow> fst (finish_run L Q c q) \<in> {0, 2, 3, 4, 5, 10}
      \<and> (fst (finish_run L Q c q) = 0) = (case snd (finish_run L Q c q) of JsonFailure _ _ _ \<Rightarrow> False | PlainFailure _ _ \<Rightarrow> False | _ \<Rightarrow> True)"
    for L Q c q
  proof (cases q)
    case (Inl f)
    assume "\<forall>f. q = Inl f \<longrightarrow> coded f"
    then show ?thesis using failing [of f L Q c] Inl by (cases "f = HelpShown"; cases f) (auto simp: finish_run_def codes)
  next
    case (Inr v)
    have "internalError m e \<noteq> HelpShown" for m e by (simp add: internalError_def command_failure_def)
    note printing = failing [OF coded_simps(4) this]
    show ?thesis using printing [of L Q c "''write command output''" "the (rn_Write Q)"] Inr
      by (cases v; cases "rn_Write Q") (auto simp: finish_run_def codes writeSuccess_def)
  qed
  obtain R' r where e: "extractGlobalFlags R args = (R', r)" by fastforce
  show ?thesis
  proof (cases r)
    case (Inl f)
    then have "coded f" "f \<noteq> HelpShown" using coded_extract e extract_usage [of R args] by (auto simp: usageError_def command_failure_def)
    then show ?thesis using failing [of f "cl_Go V" R' "[]"] unfolding Run_def e Inl by (auto simp: codes)
  next
    case (Inr clean)
    obtain q s' where q: "dispatch V R' clean s = (q, s')" by (metis surj_pair)
    then have "\<forall>f. q = Inl f \<longrightarrow> coded f" using coded_dispatch [of V R' clean] unfolding holds_def by (metis fst_conv)
    from finishing [OF this, of "cl_Go V" R' "commandName clean"] show ?thesis unfolding Run_def e Inr by (auto simp: q codes)
  qed
qed

section \<open>What commands show and write\<close>

text \<open>C39: Without ''--show-secrets'', what the commands that list or show forms, notifications, mailers, captchas
  and the account print does not depend on the stored secrets: concealing form tokens, webhook secrets and
  headers, the markup of forms, SMTP passwords, captcha keys and the password hash changes nothing.\<close>
theorem Run_does_not_show_secrets:
  assumes "(a, b) \<in> set viewing" "rn_Database R = Opened" "\<not> rn_ShowSecrets R" "''--show-secrets'' \<notin> set args"
  shows "fst (Run V R (a # b # args) (w\<lparr>db := conceal (db w)\<rparr>, h)) = fst (Run V R (a # b # args) (w, h))"
  using Run_hides_secrets [OF assms] by (simp add: hidden_def)

theorem Run_does_not_show_secrets_witness:
  "fst (Run cli_one runner_one [''form'', ''get'', ''--id'', ''1''] ((world_of db_one)\<lparr>db := conceal db_one\<rparr>, world_of host_one))
     = fst (Run cli_one runner_one [''form'', ''get'', ''--id'', ''1''] (world_of db_one, world_of host_one))
   \<and> conceal db_one \<noteq> db_one"
proof
  have d: "(''form'', ''get'') \<in> set viewing" by (simp add: viewing_def)
  show "fst (Run cli_one runner_one [''form'', ''get'', ''--id'', ''1''] ((world_of db_one)\<lparr>db := conceal db_one\<rparr>, world_of host_one))
     = fst (Run cli_one runner_one [''form'', ''get'', ''--id'', ''1''] (world_of db_one, world_of host_one))"
    using Run_does_not_show_secrets [OF d, of runner_one "[''--id'', ''1'']" cli_one "world_of db_one" "world_of host_one"]
    by (simp add: runner_one_def world_of_def)
  have "map fm_Token (forms (conceal db_one)) \<noteq> map fm_Token (forms db_one)" by code_simp
  then show "conceal db_one \<noteq> db_one" by metis
qed

text \<open>C40: Copying a stored file out is atomic. Whatever call fails, the destination is as it was or holds the
  whole file, and it holds it when the command succeeds; without ''--force'' an existing destination stays;
  no other file that was there changes, and neither do the tables.\<close>
theorem copySubmissionFile_atomic:
  assumes "list_all plain_element ds" "plain_element n" "d = abs_path (ds @ [n])"
    and "copySubmissionFile source d force (w, h) = (r, (w', h'))"
  shows "w' = w \<and> (r = Inr () \<longrightarrow> data_at (db h') d = Some source)
    \<and> (node_at (db h') d = node_at (db h) d \<or> data_at (db h') d = Some source \<and> (force \<or> node_at (db h) d = None))
    \<and> (\<forall>q. q \<noteq> d \<longrightarrow> node_at (db h) q \<noteq> None \<longrightarrow> node_at (db h') q = node_at (db h) q)"
  by (rule copySubmissionFile_result [OF assms])

theorem copySubmissionFile_atomic_witness:
  "\<exists>w' h'. copySubmissionFile ''hi'' ''/out/a.txt'' False (world_of db_one, machine_one) = (Inr (), (w', h'))
     \<and> w' = world_of db_one \<and> data_at (db h') ''/out/a.txt'' = Some ''hi''"
proof -
  have p: "list_all plain_element [''out'']" "plain_element ''a.txt''" "''/out/a.txt'' = abs_path ([''out''] @ [''a.txt''])"
    by code_simp+
  have "\<not> isl (fst (copySubmissionFile ''hi'' ''/out/a.txt'' False (w, machine_one)))" for w by code_simp
  then have ok: "\<not> isl (fst (copySubmissionFile ''hi'' ''/out/a.txt'' False (world_of db_one, machine_one)))" .
  obtain r w' h' where c: "copySubmissionFile ''hi'' ''/out/a.txt'' False (world_of db_one, machine_one) = (r, (w', h'))"
    by (metis surj_pair)
  with ok have "\<not> isl r" by (simp only: fst_conv simp_thms)
  then have r: "r = Inr ()" by (cases r) simp_all
  note res = copySubmissionFile_atomic [OF p c]
  show ?thesis
  proof (intro exI conjI)
    show "copySubmissionFile ''hi'' ''/out/a.txt'' False (world_of db_one, machine_one) = (Inr (), (w', h'))" using c r by (simp only:)
    show "w' = world_of db_one" using res by (rule conjunct1)
    show "data_at (db h') ''/out/a.txt'' = Some ''hi''" using res r by (simp only: simp_thms)
  qed
qed

end
