(* ===== verification/Spec2Isabelle.thy ===== *)
theory Spec2Isabelle
  imports Samples Retry_Laws Service_Properties Web_Properties Admin_Properties Share_Properties Deploy_Properties Cli_Properties
begin

text \<open>
Miniform is a self-hosted form back end in Go. Visitors post to a form's public endpoint; the
  submission, its uploads and one pending event per enabled channel are stored in SQLite, and a
  background dispatcher delivers the events by e-mail and webhook.

Components, in the order the code layers them:
  Prelude - Go strings, int64 wrap-around, results, table helpers.
  Go_Errors - errors as values and the classification of driver errors (internal/pkg/sqliteerr).
  Db_Txn, Retry_Laws - statements, transactions and WithRetry (internal/pkg/dbtxn/retry.go). A program
    maps a world (tables, the environment's schedule of faults, clock, randomness, disk) to a
    result and a world.
  Go_Lib - the standard library's part: paths, runes, and the parameters (record golib) for the
    packages the code calls (templates, mail and URL parsing, JSON, bcrypt).
  Models, Store - the rows of internal/forms/models.go and the tables with their keys and constraints.
  Form_Model, Origins, Email_Config, Templates, Form_Ops - internal/forms: hooks of the model, origin
    rules, notification configuration and rendering, the template catalogue, operations on forms.
  Form_Laws - their promises; the safeguard that field-derived recipients need a captcha.
  Uploads, Upload_Laws - files.go and upload_deletions.go over a model of the data directory.
  Submissions, Submission_Laws - submissions.go and management.go.
  Config, Go_Num - config/config.go and the reading of integers.
  Smtp, Smtp_Laws - jobs/smtp.go: the conversation with a server and the message.
  Integrations, Turnstile - internal/integrations: profiles and the captcha client.
  Rate_Limit - rate_limit_storage.go.
  Delivery_Queue, Delivery_Laws, Delivery_Steps, Dispatchers - internal/jobs: claims and results, the
    transitions of an event, and the dispatchers and the runner as a refinement of them.
  Accounts, Account_Laws - internal/accounts: users, credentials and sessions.
  Server - server/server.go, server/logger.go and database/manager.go.
  Public, Public_Laws - http/public.go: the endpoint visitors post to.
  Handlers, Auth_Laws - what the handlers share; http/auth.go and http/settings.go.
  Admin_Profiles - http/mailers.go and http/captcha.go.
  Admin_Forms, Admin_Submissions, Go_Time, Admin_Laws - http/forms.go, http/email_deliveries.go,
    http/submissions.go and http/demo.go; dates as file names show them.
  Embed - internal/forms/embed: the markup a site owner copies.
  Export, Export_Laws - internal/forms/export.go: the CSV of the inbox, and a reader of it.
  Host, Deployment - cmd/miniform/deployment.go: the files, the containers and the lock of a host,
    sessions with SQLite, and the commands install, backup, update, reload and restore.
  Path_Laws, Deployment_Laws, Backup_Laws, Restart_Laws - which files each of their steps touches,
    what a backup and a restore hold, and what a failed restart leaves.
  Go_Flags - package flag, of which the commands only use parsing.
  Cli_Core, Cli_Forms, Cli_Profiles, Cli_Submissions, Cli_Run - internal/cli and cmd/miniform/main.go:
    the commands of the data CLI as programs over the tables and the host, their views, catalogue,
    dispatch and exit codes, and what the process does with its arguments.
  Cli_Laws, Cli_Secrets, Cli_Copy - rules by which a promise passes from the steps of a command to the
    command (one locale, used for reading only, for exit codes and for refusals), views of concealed
    tables, and what copying a file out does to the host.
  Samples, Service_Samples - concrete inputs for the instances of the properties.
  Service_Properties, Web_Properties, Admin_Properties, Share_Properties, Deploy_Properties,
    Cli_Properties - the properties of the services, of the HTTP layer, of what leaves the program, of the
    deployment and of the data CLI;
    those of the form core are below.

Bounds: writes are retried ten times (maxAttempts), captcha requests are made three times at most;
  both loops recurse on the attempts left, so they need no fuel. Loops over rows recurse on the rows.
  The search for a free backup name ends at number 1000000, as in the code.
  The JSON decoder and the HTML tokenizer are parameters that give lists.

Not modelled: the engine below SQL statements, the HTTP framework, the template engine and the
  templates, cryptographic primitives and codecs (parameters of the definitions that call them);
  logging; the JSON encoder of the data CLI (a run gives the value it prints); the timing of goroutines (a tick or a request is one step of an explicit sequence).
\<close>

section \<open>Transactions\<close>

text \<open>C1: A write that fails, after however many attempts, leaves the tables as they were; one that
  succeeds is exactly one run of its body on the tables as they were.\<close>
theorem with_retry_atomic:
  "case with_retry body w of
     (Inl e, w') \<Rightarrow> db w' = db w
   | (Inr x, w') \<Rightarrow> \<exists>w1 w2. db w1 = db w \<and> body w1 = (Inr x, w2) \<and> db w' = db w2"
proof (cases "with_retry body w")
  case (Pair r w')
  then show ?thesis by (cases r) (simp_all add: with_retry_InlD, metis with_retry_InrE)
qed



section \<open>Names and origins\<close>


section \<open>Forms\<close>





section \<open>Uploads\<close>

text \<open>C6: What a multipart form yields is bounded: at most the total number of files, each at most the
  maximal size and of an allowed extension with a content type that matches it.\<close>
theorem ExtractFiles_bounded:
  assumes "ExtractFiles L form_files = Inr files"
  shows "length files \<le> MaxTotalFiles \<and> (\<forall>f\<in>set files. 0 \<le> uf_Size f \<and> uf_Size f \<le> MaxFileSize
      \<and> (\<exists>h. uf_Filename f = safeFilename h \<and> to_lower L (path_ext h) \<in> set allowedExtensions
            \<and> uf_ContentType f \<in> set (allowedContentTypes (to_lower L (path_ext h)))))"
proof -
  have "\<exists>fhs. extract_each L fhs = Inr files"
    using assms by (auto simp: ExtractFiles_def rbind_Inr_iff split: if_splits)
  with ExtractFiles_result [OF assms] show ?thesis by (blast dest: extract_each_result)
qed

theorem ExtractFiles_bounded_witness:
  "\<exists>files. ExtractFiles plain_lib [(''doc'', [\<lparr>fh_Filename = ''a.txt'', fh_Size = 5, fh_Open = Inr ''hello'', fh_Read = None, fh_Seek = None\<rparr>])]
     = Inr files \<and> length files \<le> MaxTotalFiles"
proof -
  have "is_ok (ExtractFiles plain_lib [(''doc'', [\<lparr>fh_Filename = ''a.txt'', fh_Size = 5, fh_Open = Inr ''hello'', fh_Read = None, fh_Seek = None\<rparr>])])"
    by code_simp
  from ok_value [OF this] obtain files where "ExtractFiles plain_lib
      [(''doc'', [\<lparr>fh_Filename = ''a.txt'', fh_Size = 5, fh_Open = Inr ''hello'', fh_Read = None, fh_Seek = None\<rparr>])] = Inr files" by blast
  with ExtractFiles_bounded [OF this] show ?thesis by blast
qed

section \<open>Submissions\<close>

text \<open>C7: A stored submission is one new row of its form without the trap fields; a spam submission gets no
  file and no event, any other exactly one pending event per enabled channel, and all new rows refer to it.\<close>
theorem CreateSubmission_rows:
  assumes "CreateSubmissionWithLimits L lf payload ua dd files m w = (Inr row, w')"
  shows "\<exists>hooks mails fs. submissions (db w') = submissions (db w) @ [row]
    \<and> sb_FormID row = fm_ID (lf_Form lf) \<and> sb_IsSpam row = fst (consumeHoneypot payload)
    \<and> sb_DataJSON row = lib_json_payload_text L (filter (\<lambda>(k, _). k \<noteq> HoneypotField \<and> k \<noteq> legacyHoneypotField) payload)
    \<and> webhook_events (db w') = webhook_events (db w) @ hooks
    \<and> length hooks = (if \<not> sb_IsSpam row \<and> wants_hook lf then 1 else 0)
    \<and> email_events (db w') = email_events (db w) @ mails
    \<and> map ev_EmailDeliveryID mails =
        (if sb_IsSpam row then [] else map (\<lambda>e. Some (ed_ID e)) (filter (wants_event lf) (lf_EmailDeliveries lf)))
    \<and> (\<forall>e\<in>set hooks. fresh_event (sb_ID row) e) \<and> (\<forall>e\<in>set mails. fresh_event (sb_ID row) e)
    \<and> submission_files (db w') = submission_files (db w) @ fs
    \<and> (sb_IsSpam row \<longrightarrow> fs = []) \<and> (\<forall>f\<in>set fs. sf_SubmissionID f = sb_ID row)"
  using CreateSubmission_result [OF assms] unfolding consumeHoneypot_payload .

theorem CreateSubmission_rows_witness:
  "\<exists>row w'. CreateSubmissionWithLimits plain_lib loaded_one [(''a'', JStr ''b'')] [] ''data'' [] 0 (world_of db_one) = (Inr row, w')
     \<and> submissions (db w') = [submission_one, row] \<and> sb_FormID row = 1 \<and> length (webhook_events (db w')) = 2"
proof -
  have "is_ok (fst (CreateSubmissionWithLimits plain_lib loaded_one [(''a'', JStr ''b'')] [] ''data'' [] 0 (world_of db_one)))"
    by code_simp
  from ok_run [OF this] obtain row w' where r:
    "CreateSubmissionWithLimits plain_lib loaded_one [(''a'', JStr ''b'')] [] ''data'' [] 0 (world_of db_one) = (Inr row, w')" by blast
  have "wants_hook loaded_one" "\<not> fst (consumeHoneypot [(''a'', JStr ''b'')])" by code_simp+
  with CreateSubmission_rows [OF r] r show ?thesis
    by (auto simp: world_of_def db_one_def loaded_one_def form_one_def)
qed

text \<open>C8: With a storage quota, the files stored after an accepted submission that adds files stay within it.\<close>
theorem CreateSubmission_within_quota:
  assumes "CreateSubmissionWithLimits L lf payload ua dd files m w = (Inr row, w')"
    and "0 < m" "m < 2 ^ 63" "sum_list (map (\<lambda>f. int (length (uf_Data f))) files) < 2 ^ 63"
    and "submission_files (db w') \<noteq> submission_files (db w)"
  shows "sum_list (map sf_Size (submission_files (db w'))) \<le> m"
  using assms by (rule CreateSubmission_quota)

theorem CreateSubmission_within_quota_witness:
  "\<exists>row w'. CreateSubmissionWithLimits plain_lib loaded_one [] [] ''data'' [file_one] 100 (world_of db_one) = (Inr row, w')
     \<and> sum_list (map sf_Size (submission_files (db w'))) \<le> 100"
proof -
  have run: "case CreateSubmissionWithLimits plain_lib loaded_one [] [] ''data'' [file_one] 100 (world_of db_one) of
      (Inr row, w') \<Rightarrow> length (submission_files (db w')) = 1 | _ \<Rightarrow> False"
    by code_simp
  then obtain row w' where r:
    "CreateSubmissionWithLimits plain_lib loaded_one [] [] ''data'' [file_one] 100 (world_of db_one) = (Inr row, w')"
    "length (submission_files (db w')) = 1"
    by (auto split: prod.splits sum.splits)
  from r(2) have "submission_files (db w') \<noteq> submission_files (db (world_of db_one))"
    by (auto simp: world_of_def db_one_def empty_db_def)
  with CreateSubmission_within_quota [OF r(1)] r(1) show ?thesis by (auto simp: file_one_def)
qed

end
